(* ===== verification/Prelude.thy ===== *)
theory Prelude
  imports Main "HOL-Library.List_Lexorder" "HOL-Library.Sublist"
begin

text \<open>
  What every component shares: Python text and bytes, Python exceptions as values, the
  result type of fallible code with its sequencing operators, and the generic lemmas on
  lists and results that the component proofs use.

  \<^item> A Python \<open>str\<close> is a list of Unicode code points (\<open>ustring\<close>); \<open>lit\<close> turns an
    Isabelle literal into one. Ordering of keys is the lexicographic order of code points.
  \<^item> A Python \<open>bytes\<close> value is a list of 8-bit characters (\<open>bytes\<close>).
  \<^item> A function that can raise returns \<open>exn + 'a\<close>; \<open>ebind\<close> sequences two such
    computations, \<open>ensure\<close> is a guard that raises, \<open>catch_as\<close> is an \<open>except\<close> clause
    that re-raises as another exception. The exception carries its class and the constant
    part of its message.
\<close>

section \<open>Text and bytes\<close>

type_synonym ustring = "int list"

type_synonym bytes = "char list"

definition lit :: "string \<Rightarrow> ustring" where
  "lit s = map of_char s"

named_theorems lit_simps \<open>evaluation of text literals\<close>

lemma lit_inject [simp]: "lit s = lit t \<longleftrightarrow> s = t"
  unfolding lit_def by (simp add: inj_map_eq_map inj_def)

lemma lit_Nil [simp]: "lit [] = []"
  by (simp add: lit_def)

lemma lit_eq_Nil [simp]: "lit s = [] \<longleftrightarrow> s = []" "[] = lit s \<longleftrightarrow> s = []"
  by (simp_all add: lit_def)

lemma lit_append: "lit (s @ t) = lit s @ lit t"
  by (simp add: lit_def)

lemma length_lit [simp]: "length (lit s) = length s"
  by (simp add: lit_def)

lemma of_char_range: "0 \<le> (of_char c :: int)" "(of_char c :: int) < 256"
  using of_char_mod_256 [where c = c and 'a = int]
  by (metis pos_mod_sign zero_less_numeral, metis pos_mod_bound zero_less_numeral)

lemma set_lit_range: "x \<in> set (lit s) \<Longrightarrow> 0 \<le> x \<and> x < 256"
  by (auto simp: lit_def of_char_range)

lemma of_char_char_of_int: "0 \<le> n \<Longrightarrow> n < 256 \<Longrightarrow> (of_char (char_of n) :: int) = n"
  by simp

section \<open>Exceptions\<close>

text \<open>
  The exception classes the modelled code raises or catches. \<open>OutOfFuel\<close> is not a Python
  exception: it marks the exhausted fuel of the JSON scanner model, and is proved
  unreachable there.
\<close>

datatype exc =
    KeyError | TypeError | ValueError | IndexError | AttributeError | OverflowError
  | UnicodeEncodeError | UnicodeDecodeError | JSONDecodeError | BinasciiError
  | IntegrityError | OperationalError | ValidationError | OutOfFuel
  | CanonicalizationError
  | LedgerAppendError | LedgerVerificationError
  | IntentVerificationError | IntentCustodyError | IntentReplayError
  | WorkClaimError | StaleFenceError
  | CustomerPolicyError | KeyLifecycleError | RetentionPolicyError
  | ShadowAuthorizationError | RetentionReceiptError
  | ResponseEnvelopeError | ExecutionReceiptError | ReleaseManifestError
  | TenantIsolationError | RuntimeError
  | AgentIdentityError | AdmissionClockError | LtsContractError | LtsActivationError
  | AgentHandoffError | SynapseGraphError | SynapsePolicyError | SynapseRouteError
  | ConnectomeError | ConnectomeAuthorizationError | LtsReleaseIndexError

type_synonym exn = "exc \<times> string"

type_synonym 'a res = "exn + 'a"

abbreviation raise :: "exc \<Rightarrow> string \<Rightarrow> 'a res" where
  "raise c msg \<equiv> Inl (c, msg)"

text \<open>Subclasses of \<open>ValueError\<close> among the classes above.\<close>

fun is_ValueError :: "exc \<Rightarrow> bool" where
  "is_ValueError c \<longleftrightarrow>
     c \<in> {ValueError, UnicodeEncodeError, UnicodeDecodeError, JSONDecodeError, BinasciiError,
           CanonicalizationError, IntentVerificationError, IntentCustodyError, IntentReplayError,
           WorkClaimError, StaleFenceError, CustomerPolicyError, KeyLifecycleError,
           RetentionPolicyError, ShadowAuthorizationError, RetentionReceiptError,
           ResponseEnvelopeError, ExecutionReceiptError, ReleaseManifestError,
           TenantIsolationError, AgentIdentityError, AdmissionClockError, LtsContractError, LtsActivationError,
           AgentHandoffError, SynapseGraphError, SynapsePolicyError, SynapseRouteError, ConnectomeError, ConnectomeAuthorizationError,
           LtsReleaseIndexError}"

definition ebind :: "'a res \<Rightarrow> ('a \<Rightarrow> 'b res) \<Rightarrow> 'b res" where
  "ebind m f = (case m of Inl e \<Rightarrow> Inl e | Inr x \<Rightarrow> f x)"

text \<open>\<open>ensure c e k\<close> is \<open>if not c: raise e\<close> followed by \<open>k\<close>.\<close>

definition ensure :: "bool \<Rightarrow> exc \<Rightarrow> string \<Rightarrow> 'a res \<Rightarrow> 'a res" where
  "ensure c e msg k = (if c then k else Inl (e, msg))"

text \<open>\<open>catch_as P e msg m\<close> is \<open>try: m / except P as exc: raise e(msg) from exc\<close>.\<close>

definition catch_as :: "(exc \<Rightarrow> bool) \<Rightarrow> exc \<Rightarrow> string \<Rightarrow> 'a res \<Rightarrow> 'a res" where
  "catch_as P e msg m =
     (case m of Inl (c, t) \<Rightarrow> if P c then Inl (e, msg) else Inl (c, t) | Inr x \<Rightarrow> Inr x)"

text \<open>\<open>recover P y m\<close> is \<open>try: return m / except P: return y\<close>.\<close>

definition recover :: "(exc \<Rightarrow> bool) \<Rightarrow> 'a \<Rightarrow> 'a res \<Rightarrow> 'a res" where
  "recover P y m =
     (case m of Inl (c, t) \<Rightarrow> if P c then Inr y else Inl (c, t) | Inr x \<Rightarrow> Inr x)"

named_theorems res_simps \<open>case analysis of successful results\<close>

lemma ebind_simps [simp]: "ebind (Inl e) f = Inl e" "ebind (Inr x) f = f x"
  by (simp_all add: ebind_def)

lemma ebind_eq_Inr [res_simps]: "ebind m f = Inr y \<longleftrightarrow> (\<exists>x. m = Inr x \<and> f x = Inr y)"
  by (cases m) auto

lemma ebind_eq_Inl: "ebind m f = Inl e \<longleftrightarrow> m = Inl e \<or> (\<exists>x. m = Inr x \<and> f x = Inl e)"
  by (cases m) auto

lemma ebind_assoc: "ebind (ebind m f) g = ebind m (\<lambda>x. ebind (f x) g)"
  by (cases m) auto

lemma ebind_cong [fundef_cong]:
  "m = m' \<Longrightarrow> (\<And>x. m' = Inr x \<Longrightarrow> f x = f' x) \<Longrightarrow> ebind m f = ebind m' f'"
  by (cases m') auto

lemma ensure_simps [simp]: "ensure True e msg k = k" "ensure False e msg k = Inl (e, msg)"
  by (simp_all add: ensure_def)

lemma ensure_eq_Inr [res_simps]: "ensure c e msg k = Inr y \<longleftrightarrow> c \<and> k = Inr y"
  by (simp add: ensure_def)

lemma ensure_cong [fundef_cong]:
  "c = c' \<Longrightarrow> e = e' \<Longrightarrow> msg = msg' \<Longrightarrow> (c' \<Longrightarrow> k = k') \<Longrightarrow> ensure c e msg k = ensure c' e' msg' k'"
  by (simp add: ensure_def)

lemma catch_as_Inr [simp]: "catch_as P e msg (Inr x) = Inr x"
  by (simp add: catch_as_def)

lemma catch_as_eq_Inr [res_simps]: "catch_as P e msg m = Inr y \<longleftrightarrow> m = Inr y"
  by (auto simp: catch_as_def split: sum.splits prod.splits)

lemma recover_Inr [simp]: "recover P y (Inr x) = Inr x"
  by (simp add: recover_def)

lemma recover_neq_default: "recover P y m = Inr x \<Longrightarrow> x \<noteq> y \<Longrightarrow> m = Inr x"
  by (auto simp: recover_def split: sum.splits prod.splits if_splits)

text \<open>The call succeeds and its result satisfies \<open>P\<close>; evaluates on concrete inputs.\<close>

definition succeeds :: "('a \<Rightarrow> bool) \<Rightarrow> 'a res \<Rightarrow> bool" where
  "succeeds P m = (case m of Inl e \<Rightarrow> False | Inr x \<Rightarrow> P x)"

lemma succeedsD: "succeeds P m \<Longrightarrow> \<exists>x. m = Inr x \<and> P x"
  by (auto simp: succeeds_def split: sum.splits)

text \<open>Mapping a fallible function over a list stops at the first exception.\<close>

fun map_res :: "('a \<Rightarrow> 'b res) \<Rightarrow> 'a list \<Rightarrow> 'b list res" where
  "map_res f [] = Inr []"
| "map_res f (x # xs) = ebind (f x) (\<lambda>y. ebind (map_res f xs) (\<lambda>ys. Inr (y # ys)))"

lemma map_res_Inr_length: "map_res f xs = Inr ys \<Longrightarrow> length ys = length xs"
  by (induction xs arbitrary: ys) (auto simp: res_simps)

lemma map_res_Inr_nth:
  "map_res f xs = Inr ys \<Longrightarrow> i < length xs \<Longrightarrow> f (xs ! i) = Inr (ys ! i)"
proof (induction xs arbitrary: ys i)
  case Nil
  then show ?case by simp
next
  case (Cons x xs)
  then show ?case by (cases i) (auto simp: res_simps)
qed

lemma map_res_Inr_iff: "map_res f xs = Inr ys \<longleftrightarrow> list_all2 (\<lambda>x y. f x = Inr y) xs ys"
proof (induction xs arbitrary: ys)
  case Nil
  then show ?case by auto
next
  case (Cons x xs)
  then show ?case by (cases ys) (auto simp: res_simps list_all2_Cons1)
qed

lemma map_res_cong [fundef_cong]:
  "xs = ys \<Longrightarrow> (\<And>x. x \<in> set ys \<Longrightarrow> f x = g x) \<Longrightarrow> map_res f xs = map_res g ys"
  by (induction ys arbitrary: xs) auto

lemma map_res_total: "(\<And>x. x \<in> set xs \<Longrightarrow> f x = Inr (g x)) \<Longrightarrow> map_res f xs = Inr (map g xs)"
  by (induction xs) auto

section \<open>Lists and text\<close>

fun join :: "'a list \<Rightarrow> 'a list list \<Rightarrow> 'a list" where
  "join sep [] = []"
| "join sep [x] = x"
| "join sep (x # y # zs) = x @ sep @ join sep (y # zs)"

text \<open>\<open>s.split(c, 1)\<close> at a single code point: the part before the first \<open>c\<close> and the part
  after it, when there is one.\<close>

fun split_once :: "'a \<Rightarrow> 'a list \<Rightarrow> ('a list \<times> 'a list) option" where
  "split_once c [] = None"
| "split_once c (x # xs) =
     (if x = c then Some ([], xs) else map_option (\<lambda>(a, b). (x # a, b)) (split_once c xs))"

lemma split_once_Some:
  "split_once c xs = Some (a, b) \<longleftrightarrow> xs = a @ c # b \<and> c \<notin> set a"
  by (induction xs arbitrary: a b) (auto simp: Cons_eq_append_conv)

lemma split_once_None: "split_once c xs = None \<longleftrightarrow> c \<notin> set xs"
  by (induction xs) auto

text \<open>\<open>s.split(c)\<close>: all the pieces between occurrences of a single code point.\<close>

fun split_all :: "'a \<Rightarrow> 'a list \<Rightarrow> 'a list list" where
  "split_all c [] = [[]]"
| "split_all c (x # xs) =
     (if x = c then [] # split_all c xs
      else (case split_all c xs of [] \<Rightarrow> [[x]] | p # ps \<Rightarrow> (x # p) # ps))"

lemma split_all_not_Nil [simp]: "split_all c xs \<noteq> []"
  by (induction xs) (auto split: list.splits)

lemma join_split_all: "join [c] (split_all c xs) = xs"
proof (induction xs)
  case Nil
  show ?case by simp
next
  case (Cons x xs)
  obtain p ps where *: "split_all c xs = p # ps"
    by (cases "split_all c xs") auto
  with Cons.IH show ?case
    by (cases ps) auto
qed

lemma split_all_pieces: "p \<in> set (split_all c xs) \<Longrightarrow> c \<notin> set p"
proof (induction xs arbitrary: p)
  case Nil
  then show ?case by simp
next
  case (Cons x xs)
  obtain q qs where "split_all c xs = q # qs"
    by (cases "split_all c xs") auto
  with Cons show ?case by (auto split: if_splits)
qed

text \<open>Equal concatenations with parts of equal length have equal parts.\<close>

lemma append_eq_append_length:
  "length a = length c \<Longrightarrow> a @ b = c @ d \<longleftrightarrow> a = c \<and> b = d"
  by (rule append_eq_append_conv) simp

text \<open>A prefix that ends at the first occurrence of a separator is determined.\<close>

lemma append_sep_inject:
  assumes "a @ c # b = a' @ c # b'" and "c \<notin> set a" and "c \<notin> set a'"
  shows "a = a' \<and> b = b'"
  using assms by (metis option.inject prod.inject split_once_Some)

lemma map_of_eq_Some_iff_distinct:
  "distinct (map fst kvs) \<Longrightarrow> map_of kvs k = Some v \<longleftrightarrow> (k, v) \<in> set kvs"
  by simp

lemma list_all2_in: "list_all2 P xs ys \<Longrightarrow> x \<in> set xs \<Longrightarrow> \<exists>y \<in> set ys. P x y"
  by (induction rule: list_all2_induct) auto

lemma list_all2_in2: "list_all2 P xs ys \<Longrightarrow> y \<in> set ys \<Longrightarrow> \<exists>x \<in> set xs. P x y"
  by (induction rule: list_all2_induct) auto

end
