(* ===== verification/Sha256.thy ===== *)
theory Sha256
  imports Prelude "HOL-Library.Word"
begin

text \<open>
  The part of the Python standard library the protocol's identifiers rest on:
  \<open>hashlib.sha256\<close> on bytes, written from FIPS 180-4 over 32-bit words, and
  \<open>bytes.hex\<close>. A collision is a pair of different byte strings with the same hash; no
  theorem of the development assumes that there is none, the binding theorems exhibit one
  instead.
\<close>

unbundle bit_operations_syntax

type_synonym w32 = "32 word"

definition rotr :: "nat \<Rightarrow> w32 \<Rightarrow> w32" where
  "rotr n x = drop_bit n x OR push_bit (32 - n) x"

definition sigma_big0 :: "w32 \<Rightarrow> w32" where
  "sigma_big0 x = rotr 2 x XOR rotr 13 x XOR rotr 22 x"

definition sigma_big1 :: "w32 \<Rightarrow> w32" where
  "sigma_big1 x = rotr 6 x XOR rotr 11 x XOR rotr 25 x"

definition sigma_small0 :: "w32 \<Rightarrow> w32" where
  "sigma_small0 x = rotr 7 x XOR rotr 18 x XOR drop_bit 3 x"

definition sigma_small1 :: "w32 \<Rightarrow> w32" where
  "sigma_small1 x = rotr 17 x XOR rotr 19 x XOR drop_bit 10 x"

definition ch :: "w32 \<Rightarrow> w32 \<Rightarrow> w32 \<Rightarrow> w32" where
  "ch x y z = (x AND y) XOR (NOT x AND z)"

definition maj :: "w32 \<Rightarrow> w32 \<Rightarrow> w32 \<Rightarrow> w32" where
  "maj x y z = (x AND y) XOR (x AND z) XOR (y AND z)"

text \<open>The constants of the standard, in decimal: the leading 32 bits of the fractional parts of
  the cube roots of the first 64 primes, and of the square roots of the first eight.\<close>

definition round_constants :: "w32 list" where
  "round_constants =
    [1116352408, 1899447441, 3049323471, 3921009573, 961987163, 1508970993, 2453635748, 2870763221,
     3624381080, 310598401, 607225278, 1426881987, 1925078388, 2162078206, 2614888103, 3248222580,
     3835390401, 4022224774, 264347078, 604807628, 770255983, 1249150122, 1555081692, 1996064986,
     2554220882, 2821834349, 2952996808, 3210313671, 3336571891, 3584528711, 113926993, 338241895,
     666307205, 773529912, 1294757372, 1396182291, 1695183700, 1986661051, 2177026350, 2456956037,
     2730485921, 2820302411, 3259730800, 3345764771, 3516065817, 3600352804, 4094571909, 275423344,
     430227734, 506948616, 659060556, 883997877, 958139571, 1322822218, 1537002063, 1747873779,
     1955562222, 2024104815, 2227730452, 2361852424, 2428436474, 2756734187, 3204031479, 3329325298]"

record hash_state =
  ha :: w32
  hb :: w32
  hc :: w32
  hd4 :: w32
  he :: w32
  hf :: w32
  hg :: w32
  hh :: w32

definition initial_hash :: hash_state where
  "initial_hash =
    \<lparr>ha = 1779033703, hb = 3144134277, hc = 1013904242, hd4 = 2773480762,
     he = 1359893119, hf = 2600822924, hg = 528734635, hh = 1541459225\<rparr>"

text \<open>The message schedule keeps the last sixteen words, most recent first.\<close>

fun schedule_rest :: "nat \<Rightarrow> w32 list \<Rightarrow> w32 list" where
  "schedule_rest 0 ws = []"
| "schedule_rest (Suc n) ws =
     (let w = sigma_small1 (ws ! 1) + ws ! 6 + sigma_small0 (ws ! 14) + ws ! 15
      in w # schedule_rest n (w # take 15 ws))"

definition message_schedule :: "w32 list \<Rightarrow> w32 list" where
  "message_schedule block = block @ schedule_rest 48 (rev block)"

definition hash_round :: "hash_state \<Rightarrow> w32 \<Rightarrow> w32 \<Rightarrow> hash_state" where
  "hash_round s k w =
     (let t1 = hh s + sigma_big1 (he s) + ch (he s) (hf s) (hg s) + k + w;
          t2 = sigma_big0 (ha s) + maj (ha s) (hb s) (hc s)
      in \<lparr>ha = t1 + t2, hb = ha s, hc = hb s, hd4 = hc s,
          he = hd4 s + t1, hf = he s, hg = hf s, hh = hg s\<rparr>)"

fun hash_rounds :: "hash_state \<Rightarrow> w32 list \<Rightarrow> w32 list \<Rightarrow> hash_state" where
  "hash_rounds s (k # ks) (w # ws) = hash_rounds (hash_round s k w) ks ws"
| "hash_rounds s _ _ = s"

definition compress :: "hash_state \<Rightarrow> w32 list \<Rightarrow> hash_state" where
  "compress s block =
     (let t = hash_rounds s round_constants (message_schedule block)
      in \<lparr>ha = ha s + ha t, hb = hb s + hb t, hc = hc s + hc t, hd4 = hd4 s + hd4 t,
          he = he s + he t, hf = hf s + hf t, hg = hg s + hg t, hh = hh s + hh t\<rparr>)"

text \<open>Big-endian words of a byte string, and the bytes of a word.\<close>

fun be_words :: "bytes \<Rightarrow> w32 list" where
  "be_words (a # b # c # d # rest) =
     word_of_int (16777216 * of_char a + 65536 * of_char b + 256 * of_char c + of_char d) # be_words rest"
| "be_words _ = []"

fun be_bytes :: "nat \<Rightarrow> int \<Rightarrow> bytes" where
  "be_bytes 0 n = []"
| "be_bytes (Suc len) n = be_bytes len (n div 256) @ [char_of (n mod 256)]"

text \<open>Padding: the byte 0x80, zeros up to 56 modulo 64, and the length in bits.\<close>

definition sha_pad :: "bytes \<Rightarrow> bytes" where
  "sha_pad m =
     m @ CHR 0x80 # replicate ((119 - length m mod 64) mod 64) (CHR 0x00)
       @ be_bytes 8 (8 * int (length m))"

fun hash_blocks :: "nat \<Rightarrow> hash_state \<Rightarrow> w32 list \<Rightarrow> hash_state" where
  "hash_blocks 0 s ws = s"
| "hash_blocks (Suc n) s ws = hash_blocks n (compress s (take 16 ws)) (drop 16 ws)"

definition sha256 :: "bytes \<Rightarrow> bytes" where
  "sha256 m =
     (let ws = be_words (sha_pad m);
          s = hash_blocks (length ws div 16) initial_hash ws
      in concat (map (\<lambda>w. be_bytes 4 (uint w)) [ha s, hb s, hc s, hd4 s, he s, hf s, hg s, hh s]))"

text \<open>\<open>bytes.hex()\<close>: two lower-case hexadecimal digits per byte.\<close>

definition hex_digit :: "int \<Rightarrow> int" where
  "hex_digit n = (if n < 10 then 48 + n else 87 + n)"

definition hex :: "bytes \<Rightarrow> ustring" where
  "hex bs = concat (map (\<lambda>c. [hex_digit (of_char c div 16), hex_digit (of_char c mod 16)]) bs)"

definition sha256_collision :: "bytes \<Rightarrow> bytes \<Rightarrow> bool" where
  "sha256_collision a b \<longleftrightarrow> a \<noteq> b \<and> sha256 a = sha256 b"

section \<open>Facts\<close>

lemma length_be_bytes [simp]: "length (be_bytes n x) = n"
  by (induction n arbitrary: x) auto

lemma length_sha256 [simp]: "length (sha256 m) = 32"
  by (simp add: sha256_def Let_def)

lemma length_sha_pad: "length (sha_pad m) mod 64 = 0"
proof -
  have len: "length (sha_pad m) = length m + 9 + (119 - length m mod 64) mod 64"
    by (simp add: sha_pad_def)
  define r where "r = length m mod 64"
  have "r < 64" by (simp add: r_def)
  then have "(r + 9 + (119 - r) mod 64) mod 64 = 0"
    by (cases "r < 56") (auto simp: mod_if [of "119 - r"])
  moreover have "length (sha_pad m) mod 64 = (r + 9 + (119 - r) mod 64) mod 64"
    unfolding len r_def by (metis add.assoc mod_add_left_eq)
  ultimately show ?thesis by simp
qed

lemma sha256_neq: "sha256 a = sha256 b \<Longrightarrow> a = b \<or> sha256_collision a b"
  by (auto simp: sha256_collision_def)

lemma hex_digit_inject: "0 \<le> m \<Longrightarrow> m < 16 \<Longrightarrow> 0 \<le> n \<Longrightarrow> n < 16 \<Longrightarrow> hex_digit m = hex_digit n \<longleftrightarrow> m = n"
  by (auto simp: hex_digit_def)

lemma hex_Cons: "hex (c # cs) = hex_digit (of_char c div 16) # hex_digit (of_char c mod 16) # hex cs"
  by (simp add: hex_def)

lemma hex_Nil [simp]: "hex [] = []"
  by (simp add: hex_def)

lemma length_hex [simp]: "length (hex bs) = 2 * length bs"
  by (induction bs) (auto simp: hex_Cons)

lemma nibble_bounds: "0 \<le> (of_char c :: int) div 16" "(of_char c :: int) div 16 < 16"
  using of_char_range [of c] by simp_all

lemma hex_inject [simp]: "hex as = hex bs \<longleftrightarrow> as = bs"
proof (induction as arbitrary: bs)
  case Nil
  then show ?case by (cases bs) (auto simp: hex_Cons)
next
  case (Cons a as)
  show ?case
  proof (cases bs)
    case Nil
    then show ?thesis by (simp add: hex_Cons)
  next
    case (Cons b bs')
    have eq: "(of_char a :: int) div 16 = of_char b div 16 \<Longrightarrow> (of_char a :: int) mod 16 = of_char b mod 16
        \<Longrightarrow> a = b"
      by (metis div_mult_mod_eq of_char_eq_iff)
    show ?thesis
      unfolding Cons hex_Cons list.inject Cons.IH
      by (auto simp: hex_digit_inject nibble_bounds intro: eq)
  qed
qed

lemma hex_digits_range: "x \<in> set (hex bs) \<Longrightarrow> 48 \<le> x \<and> x \<le> 57 \<or> 97 \<le> x \<and> x \<le> 102"
proof (induction bs)
  case Nil
  then show ?case by simp
next
  case (Cons c cs)
  have digit: "48 \<le> hex_digit n \<and> hex_digit n \<le> 57 \<or> 97 \<le> hex_digit n \<and> hex_digit n \<le> 102"
    if "0 \<le> n" "n < 16" for n
    using that by (auto simp: hex_digit_def)
  from Cons digit [OF nibble_bounds [of c]] digit [of "of_char c mod 16"]
  show ?case by (auto simp: hex_Cons)
qed

end
