(* ===== verification/PyJson.thy ===== *)
theory PyJson
  imports Sha256
begin

text \<open>
  The Python values that protocol documents are made of, and the parts of the standard
  library's \<open>json\<close> and \<open>codecs\<close> modules the repository calls: \<open>json.dumps\<close> with
  \<open>ensure_ascii=False, sort_keys=True, separators=(",", ":")\<close>, \<open>json.loads\<close> with its
  scanner and encoding detection, and UTF-8 encoding. CPython 3.11, the oldest release the
  package accepts, is the reference; in particular integers are converted to and from
  decimal text only up to 4300 digits (\<open>sys.int_info.default_max_str_digits\<close>).

  A \<open>dict\<close> is its list of items in insertion order. Lists and tuples are one constructor,
  since the modelled code never tells them apart. \<open>KOther\<close> and \<open>VOther\<close> stand for keys
  and values of any other type and carry the type's name.
\<close>

section \<open>Values\<close>

datatype pykey = KStr ustring | KOther string

datatype pyval =
    VNone
  | VBool bool
  | VInt int
  | VFloat ustring
  | VStr ustring
  | VBytes bytes
  | VList "pyval list"
  | VDict "(pykey \<times> pyval) list"
  | VOther string

fun key_text :: "pykey \<Rightarrow> ustring" where
  "key_text (KStr s) = s"
| "key_text (KOther t) = []"

text \<open>Code points of a Python string, and those that UTF-8 cannot encode.\<close>

definition is_code_point :: "int \<Rightarrow> bool" where
  "is_code_point c \<longleftrightarrow> 0 \<le> c \<and> c < 0x110000"

definition is_surrogate :: "int \<Rightarrow> bool" where
  "is_surrogate c \<longleftrightarrow> 0xD800 \<le> c \<and> c \<le> 0xDFFF"

text \<open>What the type system of the interpreter guarantees of every value: keys of a
  dictionary are different from each other, and text is made of code points.\<close>

fun py_wf :: "pyval \<Rightarrow> bool" where
  "py_wf (VStr s) \<longleftrightarrow> list_all is_code_point s"
| "py_wf (VList vs) \<longleftrightarrow> (\<forall>v \<in> set vs. py_wf v)"
| "py_wf (VDict kvs) \<longleftrightarrow>
     distinct (map fst kvs) \<and>
     (\<forall>(k, v) \<in> set kvs. py_wf v \<and> (case k of KStr s \<Rightarrow> list_all is_code_point s | KOther t \<Rightarrow> True))"
| "py_wf _ \<longleftrightarrow> True"

section \<open>UTF-8, UTF-16 and UTF-32\<close>

definition utf8_char :: "int \<Rightarrow> int list" where
  "utf8_char c =
     (if c < 0x80 then [c]
      else if c < 0x800 then [0xC0 + c div 64, 0x80 + c mod 64]
      else if c < 0x10000 then [0xE0 + c div 4096, 0x80 + c div 64 mod 64, 0x80 + c mod 64]
      else [0xF0 + c div 262144, 0x80 + c div 4096 mod 64, 0x80 + c div 64 mod 64, 0x80 + c mod 64])"

definition utf8_encode :: "ustring \<Rightarrow> bytes res" where
  "utf8_encode s =
     ensure (list_all (\<lambda>c. is_code_point c \<and> \<not> is_surrogate c) s)
       UnicodeEncodeError ''surrogates not allowed''
       (Inr (map char_of (concat (map utf8_char s))))"

definition is_cont :: "int \<Rightarrow> bool" where
  "is_cont b \<longleftrightarrow> 0x80 \<le> b \<and> b \<le> 0xBF"

definition econs :: "'a \<Rightarrow> 'a list res \<Rightarrow> 'a list res" where
  "econs x m = ebind m (\<lambda>xs. Inr (x # xs))"

text \<open>UTF-8 decoding with the error handler \<open>surrogatepass\<close>.\<close>

fun utf8_decode :: "int list \<Rightarrow> ustring res" where
  "utf8_decode [] = Inr []"
| "utf8_decode (a # r) =
     (if a < 0x80 then econs a (utf8_decode r)
      else if 0xC2 \<le> a \<and> a \<le> 0xDF then
        (case r of
           b # r1 \<Rightarrow>
             if is_cont b then econs ((a - 0xC0) * 64 + (b - 0x80)) (utf8_decode r1)
             else raise UnicodeDecodeError ''invalid continuation byte''
         | [] \<Rightarrow> raise UnicodeDecodeError ''unexpected end of data'')
      else if 0xE0 \<le> a \<and> a \<le> 0xEF then
        (case r of
           b # c # r1 \<Rightarrow>
             if is_cont b \<and> is_cont c \<and> (a = 0xE0 \<longrightarrow> 0xA0 \<le> b)
             then econs ((a - 0xE0) * 4096 + (b - 0x80) * 64 + (c - 0x80)) (utf8_decode r1)
             else raise UnicodeDecodeError ''invalid continuation byte''
         | _ \<Rightarrow> raise UnicodeDecodeError ''unexpected end of data'')
      else if 0xF0 \<le> a \<and> a \<le> 0xF4 then
        (case r of
           b # c # d # r1 \<Rightarrow>
             if is_cont b \<and> is_cont c \<and> is_cont d \<and> (a = 0xF0 \<longrightarrow> 0x90 \<le> b) \<and> (a = 0xF4 \<longrightarrow> b \<le> 0x8F)
             then econs ((a - 0xF0) * 262144 + (b - 0x80) * 4096 + (c - 0x80) * 64 + (d - 0x80))
                    (utf8_decode r1)
             else raise UnicodeDecodeError ''invalid continuation byte''
         | _ \<Rightarrow> raise UnicodeDecodeError ''unexpected end of data'')
      else raise UnicodeDecodeError ''invalid start byte'')"

text \<open>Two-byte units, and the joining of surrogate pairs; an unpaired surrogate passes.\<close>

fun units16 :: "bool \<Rightarrow> int list \<Rightarrow> int list res" where
  "units16 big (a # b # r) = econs (if big then 256 * a + b else 256 * b + a) (units16 big r)"
| "units16 big [a] = raise UnicodeDecodeError ''truncated data''"
| "units16 big [] = Inr []"

definition join_surrogates :: "int \<Rightarrow> int \<Rightarrow> int" where
  "join_surrogates h l = 0x10000 + (h - 0xD800) * 0x400 + (l - 0xDC00)"

fun join_pairs :: "int list \<Rightarrow> ustring" where
  "join_pairs (h # l # r) =
     (if 0xD800 \<le> h \<and> h \<le> 0xDBFF \<and> 0xDC00 \<le> l \<and> l \<le> 0xDFFF
      then join_surrogates h l # join_pairs r
      else h # join_pairs (l # r))"
| "join_pairs r = r"

definition utf16_decode :: "bool \<Rightarrow> int list \<Rightarrow> ustring res" where
  "utf16_decode big bs = ebind (units16 big bs) (\<lambda>us. Inr (join_pairs us))"

fun utf32_decode :: "bool \<Rightarrow> int list \<Rightarrow> ustring res" where
  "utf32_decode big (a # b # c # d # r) =
     (let x = (if big then ((a * 256 + b) * 256 + c) * 256 + d else ((d * 256 + c) * 256 + b) * 256 + a)
      in if is_code_point x then econs x (utf32_decode big r)
         else raise UnicodeDecodeError ''code point not in range(0x110000)'')"
| "utf32_decode big [] = Inr []"
| "utf32_decode big _ = raise UnicodeDecodeError ''truncated data''"

text \<open>\<open>json.detect_encoding\<close> followed by \<open>bytes.decode(..., "surrogatepass")\<close>.\<close>

definition decode_document :: "bytes \<Rightarrow> ustring res" where
  "decode_document raw =
     (let b = map of_char raw in
      if take 4 b = [0, 0, 0xFE, 0xFF] then utf32_decode True (drop 4 b)
      else if take 4 b = [0xFF, 0xFE, 0, 0] then utf32_decode False (drop 4 b)
      else if take 2 b = [0xFE, 0xFF] then utf16_decode True (drop 2 b)
      else if take 2 b = [0xFF, 0xFE] then utf16_decode False (drop 2 b)
      else if take 3 b = [0xEF, 0xBB, 0xBF] then utf8_decode (drop 3 b)
      else if 4 \<le> length b \<and> b ! 0 = 0 then
        (if b ! 1 \<noteq> 0 then utf16_decode True b else utf32_decode True b)
      else if 4 \<le> length b \<and> b ! 1 = 0 then
        (if b ! 2 \<noteq> 0 \<or> b ! 3 \<noteq> 0 then utf16_decode False b else utf32_decode False b)
      else if length b = 2 \<and> b ! 0 = 0 then utf16_decode True b
      else if length b = 2 \<and> b ! 1 = 0 then utf16_decode False b
      else utf8_decode b)"

section \<open>Writing JSON\<close>

fun nat_digits :: "int \<Rightarrow> ustring" where
  "nat_digits n = (if n < 10 then [48 + n] else nat_digits (n div 10) @ [48 + n mod 10])"

declare nat_digits.simps [simp del]

definition int_repr :: "int \<Rightarrow> ustring" where
  "int_repr n = (if n < 0 then 45 # nat_digits (- n) else nat_digits n)"

definition max_str_digits :: nat where
  "max_str_digits = 4300"

definition escape_char :: "int \<Rightarrow> ustring" where
  "escape_char c =
     (if c = 34 then [92, 34]
      else if c = 92 then [92, 92]
      else if c = 10 then [92, 110]
      else if c = 13 then [92, 114]
      else if c = 9 then [92, 116]
      else if c = 12 then [92, 102]
      else if c = 8 then [92, 98]
      else if c < 32 then [92, 117, 48, 48, hex_digit (c div 16), hex_digit (c mod 16)]
      else [c])"

definition quote :: "ustring \<Rightarrow> ustring" where
  "quote s = 34 # concat (map escape_char s) @ [34]"

definition sorted_items :: "(ustring \<times> 'a) list \<Rightarrow> (ustring \<times> 'a) list" where
  "sorted_items kvs = sort_key fst kvs"

fun dumps :: "pyval \<Rightarrow> ustring" where
  "dumps VNone = lit ''null''"
| "dumps (VBool b) = (if b then lit ''true'' else lit ''false'')"
| "dumps (VInt n) = int_repr n"
| "dumps (VStr s) = quote s"
| "dumps (VList vs) = 91 # join [44] (map dumps vs) @ [93]"
| "dumps (VDict kvs) =
     123 # join [44] (map (\<lambda>(k, s). quote k @ 58 # s)
                        (sorted_items (map (\<lambda>(k, v). (key_text k, dumps v)) kvs))) @ [125]"
| "dumps _ = []"

text \<open>Every integer of the value is within the decimal conversion limit.\<close>

fun ints_ok :: "pyval \<Rightarrow> bool" where
  "ints_ok (VInt n) \<longleftrightarrow> length (nat_digits \<bar>n\<bar>) \<le> max_str_digits"
| "ints_ok (VList vs) \<longleftrightarrow> (\<forall>v \<in> set vs. ints_ok v)"
| "ints_ok (VDict kvs) \<longleftrightarrow> (\<forall>(k, v) \<in> set kvs. ints_ok v)"
| "ints_ok _ \<longleftrightarrow> True"

section \<open>Reading JSON\<close>

definition is_ws :: "int \<Rightarrow> bool" where
  "is_ws c \<longleftrightarrow> c = 32 \<or> c = 9 \<or> c = 10 \<or> c = 13"

definition skip_ws :: "ustring \<Rightarrow> ustring" where
  "skip_ws s = dropWhile is_ws s"

definition is_digit :: "int \<Rightarrow> bool" where
  "is_digit c \<longleftrightarrow> 48 \<le> c \<and> c \<le> 57"

definition hex_val :: "int \<Rightarrow> int option" where
  "hex_val c =
     (if 48 \<le> c \<and> c \<le> 57 then Some (c - 48)
      else if 97 \<le> c \<and> c \<le> 102 then Some (c - 87)
      else if 65 \<le> c \<and> c \<le> 70 then Some (c - 55)
      else None)"

fun hex4 :: "ustring \<Rightarrow> (int \<times> ustring) option" where
  "hex4 (a # b # c # d # r) =
     (case (hex_val a, hex_val b, hex_val c, hex_val d) of
        (Some w, Some x, Some y, Some z) \<Rightarrow> Some (4096 * w + 256 * x + 16 * y + z, r)
      | _ \<Rightarrow> None)"
| "hex4 _ = None"

text \<open>A following escape for a low surrogate, which completes a high one.\<close>

fun low_escape :: "ustring \<Rightarrow> (int \<times> ustring) option" where
  "low_escape (a # b # t) =
     (if a = 92 \<and> b = 117 then
        (case hex4 t of
           Some (l, r) \<Rightarrow> if 0xDC00 \<le> l \<and> l \<le> 0xDFFF then Some (l, r) else None
         | None \<Rightarrow> None)
      else None)"
| "low_escape _ = None"

definition unescape :: "int \<Rightarrow> int option" where
  "unescape e =
     (if e = 34 then Some 34 else if e = 92 then Some 92 else if e = 47 then Some 47
      else if e = 98 then Some 8 else if e = 102 then Some 12 else if e = 110 then Some 10
      else if e = 114 then Some 13 else if e = 116 then Some 9 else None)"

lemma hex4_length [termination_simp]: "hex4 s = Some (h, r) \<Longrightarrow> length r < length s"
  by (cases s rule: hex4.cases) (auto split: option.splits)

lemma low_escape_length [termination_simp]: "low_escape s = Some (h, r) \<Longrightarrow> length r < length s"
  by (cases s rule: low_escape.cases) (auto split: option.splits if_splits dest: hex4_length)

definition first_cons :: "'a \<Rightarrow> ('a list \<times> 'b) res \<Rightarrow> ('a list \<times> 'b) res" where
  "first_cons x m = ebind m (\<lambda>(xs, r). Inr (x # xs, r))"

text \<open>\<open>scanstring\<close> in strict mode, entered after the opening quote.\<close>

function scan_string :: "ustring \<Rightarrow> (ustring \<times> ustring) res" where
  "scan_string [] = raise JSONDecodeError ''Unterminated string starting at''"
| "scan_string (c # cs) =
     (if c = 34 then Inr ([], cs)
      else if c = 92 then
        (case cs of
           [] \<Rightarrow> raise JSONDecodeError ''Unterminated string starting at''
         | e # r \<Rightarrow>
             if e = 117 then
               (case hex4 r of
                  None \<Rightarrow> raise JSONDecodeError ''Invalid uXXXX escape''
                | Some (h, r1) \<Rightarrow>
                    if 0xD800 \<le> h \<and> h \<le> 0xDBFF then
                      (case low_escape r1 of
                         Some (l, r2) \<Rightarrow> first_cons (join_surrogates h l) (scan_string r2)
                       | None \<Rightarrow> first_cons h (scan_string r1))
                    else first_cons h (scan_string r1))
             else
               (case unescape e of
                  Some x \<Rightarrow> first_cons x (scan_string r)
                | None \<Rightarrow> raise JSONDecodeError ''Invalid escape''))
      else if c < 32 then raise JSONDecodeError ''Invalid control character at''
      else first_cons c (scan_string cs))"
  by pat_completeness auto
termination
  by (relation "measure length") (auto dest!: hex4_length low_escape_length)

definition digits_value :: "ustring \<Rightarrow> int" where
  "digits_value ds = foldl (\<lambda>n d. 10 * n + (d - 48)) 0 ds"

definition has_fraction :: "ustring \<Rightarrow> bool" where
  "has_fraction r = (case r of p # d # _ \<Rightarrow> p = 46 \<and> is_digit d | _ \<Rightarrow> False)"

definition has_exponent :: "ustring \<Rightarrow> bool" where
  "has_exponent r =
     (case r of
        e # d # rest \<Rightarrow>
          (e = 101 \<or> e = 69) \<and>
          (is_digit d \<or> ((d = 43 \<or> d = 45) \<and> (case rest of d2 # _ \<Rightarrow> is_digit d2 | [] \<Rightarrow> False)))
      | _ \<Rightarrow> False)"

definition starts_with :: "ustring \<Rightarrow> ustring \<Rightarrow> bool" where
  "starts_with p s \<longleftrightarrow> take (length p) s = p"

section \<open>Facts\<close>

subsection \<open>Encodings read back\<close>

lemma econs_eq_Inr [res_simps]: "econs x m = Inr ys \<longleftrightarrow> (\<exists>xs. m = Inr xs \<and> ys = x # xs)"
  by (auto simp: econs_def res_simps)

lemma econs_Inr [simp]: "econs x (Inr xs) = Inr (x # xs)"
  by (simp add: econs_def)

lemma div_64_chain:
  fixes c :: int
  shows "c div 4096 = c div 64 div 64" "c div 262144 = c div 64 div 64 div 64"
  by (simp_all add: zdiv_zmult2_eq [symmetric])

lemma mod_64_bounds [simp]: "0 \<le> (x :: int) mod 64" "(x :: int) mod 64 \<le> 63"
  using pos_mod_bound [of 64 x] by simp_all

lemma base64_digits:
  fixes c :: int
  shows "c div 64 * 64 + c mod 64 = c"
    and "c div 4096 * 4096 + c div 64 mod 64 * 64 + c mod 64 = c"
    and "c div 262144 * 262144 + c div 4096 mod 64 * 4096 + c div 64 mod 64 * 64 + c mod 64 = c"
proof -
  have *: "x = x div 64 * 64 + x mod 64" for x :: int by simp
  show "c div 64 * 64 + c mod 64 = c" by simp
  show "c div 4096 * 4096 + c div 64 mod 64 * 64 + c mod 64 = c"
    using * [of c] * [of "c div 64"] unfolding div_64_chain by linarith
  show "c div 262144 * 262144 + c div 4096 mod 64 * 4096 + c div 64 mod 64 * 64 + c mod 64 = c"
    using * [of c] * [of "c div 64"] * [of "c div 64 div 64"] unfolding div_64_chain by linarith
qed

lemma utf8_char_decode:
  assumes "is_code_point c" 
  shows "utf8_decode (utf8_char c @ r) = econs c (utf8_decode r)"
proof -
  have c: "0 \<le> c" "c < 0x110000"
    using assms by (auto simp: is_code_point_def)
  consider "c < 0x80" | "0x80 \<le> c" "c < 0x800" | "0x800 \<le> c" "c < 0x10000" | "0x10000 \<le> c"
    by linarith
  then show ?thesis
  proof cases
    case 1
    with c show ?thesis by (simp add: utf8_char_def)
  next
    case 2
    then have "2 \<le> c div 64" "c div 64 \<le> 31" by linarith+
    moreover note base64_digits(1) [of c]
    ultimately show ?thesis using 2 by (simp add: utf8_char_def is_cont_def)
  next
    case 3
    have "c div 4096 = 0 \<longrightarrow> 32 \<le> c div 64 mod 64"
      using base64_digits(2) [of c] 3 by auto
    moreover have "c div 4096 \<le> 15" "0 \<le> c div 4096"
      using 3 by linarith+
    moreover note base64_digits(2) [of c]
    ultimately show ?thesis using 3 by (auto simp: utf8_char_def is_cont_def)
  next
    case 4
    define p q t e where "p = c div 262144" and "q = c div 4096 mod 64"
      and "t = c div 64 mod 64" and "e = c mod 64"
    have bounds: "0 \<le> q" "q \<le> 63" "0 \<le> t" "t \<le> 63" "0 \<le> e" "e \<le> 63"
      unfolding q_def t_def e_def by (rule mod_64_bounds)+
    have eq: "p * 262144 + q * 4096 + t * 64 + e = c"
      unfolding p_def q_def t_def e_def by (rule base64_digits)
    have enc: "utf8_char c = [0xF0 + p, 0x80 + q, 0x80 + t, 0x80 + e]"
      using 4 by (simp add: utf8_char_def p_def q_def t_def e_def)
    have "0 \<le> p" "p \<le> 4" "p = 0 \<Longrightarrow> 16 \<le> q" "p = 4 \<Longrightarrow> q \<le> 15"
      using bounds eq 4 c by linarith+
    then show ?thesis
      unfolding enc using bounds eq by (simp add: is_cont_def)
  qed
qed

lemma utf8_char_range:
  assumes "is_code_point c" "b \<in> set (utf8_char c)"
  shows "0 \<le> b \<and> b < 256 \<and> (32 \<le> c \<longrightarrow> 32 \<le> b)"
proof -
  have c: "0 \<le> c" "c < 0x110000"
    using assms by (auto simp: is_code_point_def)
  have "0 \<le> c div 262144" "c div 262144 \<le> 4" using c by linarith+
  moreover have "c < 0x10000 \<longrightarrow> c div 4096 \<le> 15" "c < 0x800 \<longrightarrow> c div 64 \<le> 31" by linarith+
  moreover have "0 \<le> c div 64" "0 \<le> c div 4096"  using c by linarith+
  ultimately show ?thesis using assms(2) c unfolding utf8_char_def
    by (auto split: if_splits)
qed

lemma utf8_roundtrip:
  assumes "list_all is_code_point s"
  shows "utf8_decode (concat (map utf8_char s)) = Inr s"
  using assms by (induction s) (auto simp: utf8_char_decode)

lemma map_of_char_char_of:
  "(\<And>b. b \<in> set bs \<Longrightarrow> 0 \<le> b \<and> b < 256) \<Longrightarrow> map (of_char :: char \<Rightarrow> int) (map char_of bs) = bs"
  by (induction bs) auto

lemma decode_document_utf8:
  assumes "list_all (\<lambda>c. 32 \<le> c \<and> is_code_point c) s" and "s \<noteq> []" and "hd s < 0x80"
  shows "decode_document (map char_of (concat (map utf8_char s))) = Inr s"
proof -
  let ?b = "concat (map utf8_char s)"
  have cp: "list_all is_code_point s"
    using assms(1) by (auto simp: list_all_iff)
  have range: "0 \<le> x \<and> x < 256 \<and> 32 \<le> x" if "x \<in> set ?b" for x
    using that assms(1) utf8_char_range by (fastforce simp: list_all_iff)
  then have inv: "map of_char (map char_of ?b) = ?b"
    by (intro map_of_char_char_of) auto
  obtain c s' where s: "s = c # s'" using assms(2) by (cases s) auto
  with assms have c: "32 \<le> c" "c < 0x80" by auto
  then have b: "?b = c # concat (map utf8_char s')"
    by (simp add: s utf8_char_def)
  have nz: "i < length ?b \<Longrightarrow> ?b ! i \<noteq> 0" for i
    using range nth_mem by fastforce
  have "take 4 ?b \<noteq> [0, 0, 0xFE, 0xFF]" "take 4 ?b \<noteq> [0xFF, 0xFE, 0, 0]" "take 2 ?b \<noteq> [0xFE, 0xFF]"
     "take 2 ?b \<noteq> [0xFF, 0xFE]" "take 3 ?b \<noteq> [0xEF, 0xBB, 0xBF]"
    using c unfolding b by (auto simp: numeral_eq_Suc)
  moreover have "\<not> (4 \<le> length ?b \<and> ?b ! 0 = 0)" "\<not> (4 \<le> length ?b \<and> ?b ! 1 = 0)"
     "\<not> (length ?b = 2 \<and> ?b ! 0 = 0)" "\<not> (length ?b = 2 \<and> ?b ! 1 = 0)"
    using nz by (metis less_le_trans zero_less_numeral, metis less_le_trans one_less_numeral_iff semiring_norm(76),
        metis zero_less_numeral, metis one_less_numeral_iff semiring_norm(76))
  ultimately show ?thesis
    unfolding decode_document_def inv Let_def using utf8_roundtrip [OF cp] by argo
qed

subsection \<open>Decimal numbers\<close>

lemma nat_digits_not_Nil [simp]: "nat_digits n \<noteq> []"
  by (subst nat_digits.simps) simp

lemma is_digit_add: "0 \<le> n \<Longrightarrow> n < 10 \<Longrightarrow> is_digit (48 + n)"
  by (simp add: is_digit_def)

lemma nat_digits_are_digits: "0 \<le> n \<Longrightarrow> list_all is_digit (nat_digits n)"
proof (induction n rule: nat_digits.induct)
  case (1 n)
  then show ?case
    by (subst nat_digits.simps) (auto intro: is_digit_add)
qed

lemma digits_value_snoc: "digits_value (ds @ [d]) = 10 * digits_value ds + (d - 48)"
  by (simp add: digits_value_def)

lemma digits_value_nat_digits: "0 \<le> n \<Longrightarrow> digits_value (nat_digits n) = n"
proof (induction n rule: nat_digits.induct)
  case (1 n)
  show ?case
  proof (cases "n < 10")
    case True
    then show ?thesis by (subst nat_digits.simps) (simp add: digits_value_def)
  next
    case False
    with 1 have "digits_value (nat_digits (n div 10)) = n div 10" by simp
    with False show ?thesis by (subst nat_digits.simps) (simp add: digits_value_snoc)
  qed
qed

lemma nat_digits_hd: "10 \<le> n \<Longrightarrow> 49 \<le> hd (nat_digits n)"
proof (induction n rule: nat_digits.induct)
  case (1 n)
  show ?case
  proof (cases "n div 10 < 10")
    case True
    with 1(2) show ?thesis 
      by (subst nat_digits.simps, subst nat_digits.simps) auto
  next
    case False
    with 1 show ?thesis by (subst nat_digits.simps) simp
  qed
qed

lemma hd_nat_digits: "0 \<le> n \<Longrightarrow> n \<noteq> 0 \<Longrightarrow> 49 \<le> hd (nat_digits n)"
  using nat_digits_hd [of n] by (cases "10 \<le> n") (auto simp: nat_digits.simps [of n])

lemma nat_digits_0 [simp]: "nat_digits 0 = [48]"
  by (subst nat_digits.simps) simp

text \<open>What may follow a value in a rendered document.\<close>

definition delimited :: "ustring \<Rightarrow> bool" where
  "delimited r \<longleftrightarrow> r = [] \<or> hd r \<in> {44, 93, 125}"

lemma delimited_simps [simp]: "delimited []" "delimited (44 # r)" "delimited (93 # r)" "delimited (125 # r)"
  by (simp_all add: delimited_def)

lemma delimited_not_number:
  assumes "delimited r"
  shows "\<not> has_fraction r" "\<not> has_exponent r" "dropWhile is_digit r = r" "takeWhile is_digit r = []"
  using assms by (cases r; auto simp: delimited_def has_fraction_def has_exponent_def is_digit_def split: list.splits)+

subsection \<open>Strings\<close>

lemma first_cons_Inr [simp]: "first_cons x (Inr (xs, r)) = Inr (x # xs, r)"
  by (simp add: first_cons_def)

lemma hex_val_hex_digit: "0 \<le> n \<Longrightarrow> n < 16 \<Longrightarrow> hex_val (hex_digit n) = Some n"
  by (auto simp: hex_val_def hex_digit_def)

lemma scan_string_escape:
  assumes "0 \<le> c"
  shows "scan_string (escape_char c @ r) = first_cons c (scan_string r)"
proof -
  have zero: "hex_val 48 = Some 0" by (simp add: hex_val_def)
  have nib: "hex_val (hex_digit (c div 16)) = Some (c div 16)"
      "hex_val (hex_digit (c mod 16)) = Some (c mod 16)" if "c < 32"
    using assms that by (auto intro!: hex_val_hex_digit)
  show ?thesis
    using assms by (auto simp: escape_char_def unescape_def zero nib)
qed

lemma scan_string_quote:
  "\<forall>c \<in> set s. 0 \<le> c \<Longrightarrow> scan_string (concat (map escape_char s) @ 34 # r) = Inr (s, r)"
  by (induction s) (auto simp: scan_string_escape)

lemma escape_char_ge_32: "0 \<le> c \<Longrightarrow> x \<in> set (escape_char c) \<Longrightarrow> 32 \<le> x"
  by (auto simp: escape_char_def hex_digit_def split: if_splits)

subsection \<open>Decoded text is made of code points\<close>

definition is_byte :: "int \<Rightarrow> bool" where
  "is_byte b \<longleftrightarrow> 0 \<le> b \<and> b < 256"

lemma utf8_decode_code_points:
  "utf8_decode bs = Inr s \<Longrightarrow> list_all is_byte bs \<Longrightarrow> list_all is_code_point s"
proof (induction bs arbitrary: s rule: utf8_decode.induct)
  case 1
  then show ?case by simp
next
  case (2 a r)
  then show ?case
    by (auto simp: is_byte_def is_code_point_def is_cont_def res_simps split: if_splits list.splits)
qed

lemma units16_range: "units16 big bs = Inr us \<Longrightarrow> list_all is_byte bs \<Longrightarrow> \<forall>x \<in> set us. 0 \<le> x \<and> x < 65536"
  by (induction big bs arbitrary: us rule: units16.induct) (auto simp: is_byte_def res_simps)

lemma join_pairs_code_points:
  "\<forall>x \<in> set us. 0 \<le> x \<and> x < 65536 \<Longrightarrow> list_all is_code_point (join_pairs us)"
  by (induction us rule: join_pairs.induct) (auto simp: is_code_point_def join_surrogates_def)

lemma utf32_decode_code_points: "utf32_decode big bs = Inr s \<Longrightarrow> list_all is_code_point s"
  by (induction big bs arbitrary: s rule: utf32_decode.induct)
    (auto simp: res_simps Let_def split: if_splits)

lemma utf16_decode_code_points:
  "utf16_decode big bs = Inr s \<Longrightarrow> list_all is_byte bs \<Longrightarrow> list_all is_code_point s"
  by (auto simp: utf16_decode_def res_simps dest: units16_range intro: join_pairs_code_points)

lemma decode_document_code_points:
  assumes "decode_document raw = Inr s"
  shows "list_all is_code_point s"
proof -
  have raw: "list_all is_byte (map of_char raw)" and "list_all is_byte (drop n (map of_char raw))" for n
    using of_char_range by (auto simp: is_byte_def list_all_iff dest!: in_set_dropD)
  with assms show ?thesis
    unfolding decode_document_def Let_def
    by (auto split: if_splits
        dest: utf8_decode_code_points utf16_decode_code_points utf32_decode_code_points)
qed

end
