(* ===== verification/Canonical.thy ===== *)
theory Canonical
  imports PyJson
begin

text \<open>
  \<open>canonical.py\<close>, the deterministic JSON profile every identifier and signature of the
  protocol is computed over: strict parsing (\<open>parse_json_strict\<close>), the admission check
  (\<open>validate_value\<close>, the source's \<open>_validate\<close>) and the canonical encoding
  (\<open>canonical_bytes\<close>).

  The lemmas of this theory establish that the encoding can be read back, that it does not
  depend on the insertion order of dictionaries, and that the scanner always answers within
  the fuel it is given. Nesting depth is not bounded in the model (CPython raises
  \<open>RecursionError\<close> on values nested deeper than its stack).
\<close>

section \<open>Strict parsing\<close>

definition reject_float :: "'a res" where
  "reject_float = raise CanonicalizationError ''floating-point JSON number is prohibited''"

definition reject_constant :: "'a res" where
  "reject_constant = raise CanonicalizationError ''non-finite JSON number is prohibited''"

fun reject_duplicate_keys_from ::
    "(pykey \<times> pyval) list \<Rightarrow> (ustring \<times> pyval) list \<Rightarrow> (pykey \<times> pyval) list res" where
  "reject_duplicate_keys_from result [] = Inr result"
| "reject_duplicate_keys_from result ((key, val) # pairs) =
     (if KStr key \<in> fst ` set result
      then raise CanonicalizationError ''duplicate JSON object key''
      else reject_duplicate_keys_from (result @ [(KStr key, val)]) pairs)"

definition reject_duplicate_keys :: "(ustring \<times> pyval) list \<Rightarrow> (pykey \<times> pyval) list res" where
  "reject_duplicate_keys pairs = reject_duplicate_keys_from [] pairs"

text \<open>After the integer part: a fraction or an exponent makes it a float, which goes to
  \<open>parse_float\<close>; otherwise \<open>parse_int\<close>, which is \<open>int\<close>.\<close>

definition finish_number :: "bool \<Rightarrow> ustring \<Rightarrow> ustring \<Rightarrow> (pyval \<times> ustring) res" where
  "finish_number neg ds r =
     (if has_fraction r \<or> has_exponent r then reject_float
      else ensure (length ds \<le> max_str_digits) ValueError ''Exceeds the limit for integer string conversion''
        (Inr (VInt (if neg then - digits_value ds else digits_value ds), r)))"

definition match_number :: "ustring \<Rightarrow> (pyval \<times> ustring) res" where
  "match_number s =
     (let neg = (s \<noteq> [] \<and> hd s = 45); t = (if neg then tl s else s) in
      case t of
        [] \<Rightarrow> raise JSONDecodeError ''Expecting value''
      | d # ds \<Rightarrow>
          if d = 48 then finish_number neg [48] ds
          else if is_digit d then finish_number neg (d # takeWhile is_digit ds) (dropWhile is_digit ds)
          else raise JSONDecodeError ''Expecting value'')"

text \<open>
  The scanner of the standard library, called with the hooks of \<open>parse_json_strict\<close>.
  \<open>scan_members\<close> is the loop over the items of an object, entered where a key must
  start; \<open>scan_elements\<close> is the loop over the elements of an array. Each call spends one
  unit of fuel; \<open>scan_answers\<close> shows that two units per remaining character are enough.
\<close>

fun scan_once :: "nat \<Rightarrow> ustring \<Rightarrow> (pyval \<times> ustring) res"
  and scan_members :: "nat \<Rightarrow> ustring \<Rightarrow> ((ustring \<times> pyval) list \<times> ustring) res"
  and scan_elements :: "nat \<Rightarrow> ustring \<Rightarrow> (pyval list \<times> ustring) res" where
  "scan_once 0 s = raise OutOfFuel ''scan_once''"
| "scan_once (Suc n) s =
     (case s of
        [] \<Rightarrow> raise JSONDecodeError ''Expecting value''
      | c # cs \<Rightarrow>
          if c = 34 then ebind (scan_string cs) (\<lambda>(t, r). Inr (VStr t, r))
          else if c = 123 then
            (case skip_ws cs of
               [] \<Rightarrow> raise JSONDecodeError ''Expecting property name enclosed in double quotes''
             | d # ds \<Rightarrow>
                 if d = 125 then Inr (VDict [], ds)
                 else ebind (scan_members n (d # ds)) (\<lambda>(kvs, r).
                      ebind (reject_duplicate_keys kvs) (\<lambda>items. Inr (VDict items, r))))
          else if c = 91 then
            (case skip_ws cs of
               [] \<Rightarrow> raise JSONDecodeError ''Expecting value''
             | d # ds \<Rightarrow>
                 if d = 93 then Inr (VList [], ds)
                 else ebind (scan_elements n (d # ds)) (\<lambda>(vs, r). Inr (VList vs, r)))
          else if starts_with (lit ''null'') s then Inr (VNone, drop 4 s)
          else if starts_with (lit ''true'') s then Inr (VBool True, drop 4 s)
          else if starts_with (lit ''false'') s then Inr (VBool False, drop 5 s)
          else if starts_with (lit ''NaN'') s then reject_constant
          else if starts_with (lit ''Infinity'') s then reject_constant
          else if starts_with (lit ''-Infinity'') s then reject_constant
          else match_number s)"
| "scan_members 0 s = raise OutOfFuel ''scan_members''"
| "scan_members (Suc n) s =
     (case s of
        [] \<Rightarrow> raise JSONDecodeError ''Expecting property name enclosed in double quotes''
      | q # t \<Rightarrow>
          ensure (q = 34) JSONDecodeError ''Expecting property name enclosed in double quotes''
            (ebind (scan_string t) (\<lambda>(key, r).
             case skip_ws r of
               [] \<Rightarrow> raise JSONDecodeError ''Expecting : delimiter''
             | c # cs \<Rightarrow>
                 ensure (c = 58) JSONDecodeError ''Expecting : delimiter''
                   (ebind (scan_once n (skip_ws cs)) (\<lambda>(val, r1).
                    case skip_ws r1 of
                      [] \<Rightarrow> raise JSONDecodeError ''Expecting , delimiter''
                    | e # es \<Rightarrow>
                        if e = 125 then Inr ([(key, val)], es)
                        else ensure (e = 44) JSONDecodeError ''Expecting , delimiter''
                          (first_cons (key, val) (scan_members n (skip_ws es))))))))"
| "scan_elements 0 s = raise OutOfFuel ''scan_elements''"
| "scan_elements (Suc n) s =
     ebind (scan_once n s) (\<lambda>(val, r).
       case skip_ws r of
         [] \<Rightarrow> raise JSONDecodeError ''Expecting , delimiter''
       | e # es \<Rightarrow>
           if e = 93 then Inr ([val], es)
           else ensure (e = 44) JSONDecodeError ''Expecting , delimiter''
             (first_cons val (scan_elements n (skip_ws es))))"

declare scan_once.simps(2) [simp del] scan_members.simps(2) [simp del] scan_elements.simps(2) [simp del]

datatype document = DocStr ustring | DocBytes bytes

definition loads_text :: "ustring \<Rightarrow> pyval res" where
  "loads_text s =
     ebind (scan_once (2 * length s + 2) (skip_ws s)) (\<lambda>(v, r).
     ensure (skip_ws r = []) JSONDecodeError ''Extra data'' (Inr v))"

definition parse_json_strict :: "document \<Rightarrow> pyval res" where
  "parse_json_strict doc =
     catch_as (\<lambda>c. c = UnicodeDecodeError \<or> c = JSONDecodeError) CanonicalizationError ''invalid JSON''
       (case doc of
          DocStr s \<Rightarrow>
            ensure (\<not> (s \<noteq> [] \<and> hd s = 0xFEFF)) JSONDecodeError ''Unexpected UTF-8 BOM'' (loads_text s)
        | DocBytes b \<Rightarrow> ebind (decode_document b) loads_text)"

section \<open>Canonical encoding\<close>

fun validate_value :: "pyval \<Rightarrow> unit res" where
  "validate_value (VFloat x) = raise CanonicalizationError ''floating-point values are prohibited''"
| "validate_value (VList vs) = ebind (map_res validate_value vs) (\<lambda>_. Inr ())"
| "validate_value (VDict kvs) =
     ebind (map_res (\<lambda>(key, child).
              case key of
                KOther t \<Rightarrow> raise CanonicalizationError ''object key must be a string''
              | KStr s \<Rightarrow> validate_value child) kvs) (\<lambda>_. Inr ())"
| "validate_value (VBytes b) = raise CanonicalizationError ''unsupported value type''"
| "validate_value (VOther t) = raise CanonicalizationError ''unsupported value type''"
| "validate_value _ = Inr ()"

definition canonical_bytes :: "pyval \<Rightarrow> bytes res" where
  "canonical_bytes v =
     ebind (validate_value v) (\<lambda>_.
     ensure (ints_ok v) CanonicalizationError ''Exceeds the limit for integer string conversion''
       (utf8_encode (dumps v)))"

section \<open>Facts\<close>

lemma finish_number_delimited:
  "delimited r \<Longrightarrow> length ds \<le> max_str_digits \<Longrightarrow>
   finish_number neg ds r = Inr (VInt (if neg then - digits_value ds else digits_value ds), r)"
  by (simp add: finish_number_def delimited_not_number)

lemma match_digits:
  assumes "0 \<le> n" and "delimited r" and "length (nat_digits n) \<le> max_str_digits"
  shows "(case nat_digits n @ r of [] \<Rightarrow> e
      | d # ds \<Rightarrow>
          if d = 48 then finish_number neg [48] ds
          else if is_digit d then finish_number neg (d # takeWhile is_digit ds) (dropWhile is_digit ds)
          else e) = Inr (VInt (if neg then - n else n), r)"
proof (cases "n = 0")
  case True
  with assms show ?thesis by (simp add: finish_number_delimited digits_value_def)
next
  case False
  obtain d ds where ds: "nat_digits n = d # ds" by (cases "nat_digits n") auto
  from nat_digits_are_digits [OF assms(1)] have dig: "is_digit d" "\<forall>x \<in> set ds. is_digit x"
    by (auto simp: ds list_all_iff)
  have "49 \<le> d" using hd_nat_digits [OF assms(1) False] by (simp add: ds)
  moreover have "takeWhile is_digit (ds @ r) = ds" "dropWhile is_digit (ds @ r) = r"
    using dig delimited_not_number [OF assms(2)] by auto
  ultimately show ?thesis
    using dig assms(2,3) digits_value_nat_digits [OF assms(1)]
    by (simp add: ds finish_number_delimited)
qed

lemma match_number_int_repr:
  assumes "delimited r" and "length (nat_digits \<bar>n\<bar>) \<le> max_str_digits"
  shows "match_number (int_repr n @ r) = Inr (VInt n, r)"
proof (cases "n < 0")
  case True
  then have "match_number (int_repr n @ r) = Inr (VInt (if True then - (- n) else - n), r)"
    using match_digits [of "- n" r _ True] assms by (simp add: match_number_def int_repr_def)
  then show ?thesis by simp
next
  case False
  obtain d ds where ds: "nat_digits n = d # ds" by (cases "nat_digits n") auto
  with nat_digits_are_digits [of n] False have "d \<noteq> 45"
    by (auto simp: is_digit_def)
  then show ?thesis
    using match_digits [of n r _ False] assms False by (simp add: match_number_def int_repr_def ds)
qed

lemma validate_value_list [simp]:
  "validate_value (VList vs) = Inr () \<longleftrightarrow> (\<forall>v \<in> set vs. validate_value v = Inr ())"
proof -
  have "validate_value (VList vs) = Inr () \<longleftrightarrow> (\<exists>us. map_res validate_value vs = Inr us)"
    by (auto simp: res_simps)
  also have "\<dots> \<longleftrightarrow> (\<forall>v \<in> set vs. validate_value v = Inr ())"
    by (induction vs) (auto simp: res_simps)
  finally show ?thesis .
qed

lemma validate_value_dict [simp]:
  "validate_value (VDict kvs) = Inr () \<longleftrightarrow>
   (\<forall>(k, v) \<in> set kvs. (\<exists>s. k = KStr s) \<and> validate_value v = Inr ())"
proof -
  let ?f = "\<lambda>(key, child). case key of
      KOther t \<Rightarrow> raise CanonicalizationError ''object key must be a string''
    | KStr s \<Rightarrow> validate_value child"
  have "validate_value (VDict kvs) = Inr () \<longleftrightarrow> (\<exists>us. map_res ?f kvs = Inr us)"
    by (auto simp: res_simps)
  also have "\<dots> \<longleftrightarrow> (\<forall>(k, v) \<in> set kvs. (\<exists>s. k = KStr s) \<and> validate_value v = Inr ())"
    by (induction kvs) (auto simp: res_simps split: pykey.splits)
  finally show ?thesis .
qed

declare validate_value.simps(2,3) [simp del]

text \<open>The values the encoding accepts, up to text that UTF-8 refuses.\<close>

definition profile :: "pyval \<Rightarrow> bool" where
  "profile v \<longleftrightarrow> py_wf v \<and> validate_value v = Inr () \<and> ints_ok v"

lemma profile_simps [simp]:
  "profile VNone" "profile (VBool b)"
  "profile (VInt n) \<longleftrightarrow> length (nat_digits \<bar>n\<bar>) \<le> max_str_digits"
  "profile (VStr s) \<longleftrightarrow> list_all is_code_point s"
  "profile (VList vs) \<longleftrightarrow> (\<forall>v \<in> set vs. profile v)"
  "\<not> profile (VFloat x)" "\<not> profile (VBytes bs)" "\<not> profile (VOther t)"
  by (auto simp: profile_def)

lemma profile_dict [simp]:
  "profile (VDict kvs) \<longleftrightarrow>
     distinct (map fst kvs) \<and>
     (\<forall>(k, v) \<in> set kvs. profile v \<and> (\<exists>s. k = KStr s \<and> list_all is_code_point s))"
proof (induction kvs)
  case Nil
  show ?case by (simp add: profile_def)
next
  case (Cons kv kvs)
  obtain k v where kv: "kv = (k, v)" by (cases kv)
  show ?case
    using Cons.IH unfolding kv by (cases k) (auto simp: profile_def)
qed

text \<open>The value with the items of every dictionary in the order of their keys.\<close>

fun canon :: "pyval \<Rightarrow> pyval" where
  "canon (VList vs) = VList (map canon vs)"
| "canon (VDict kvs) =
     VDict (map (\<lambda>(k, v). (KStr k, v)) (sorted_items (map (\<lambda>(k, v). (key_text k, canon v)) kvs)))"
| "canon v = v"

subsection \<open>Items in key order\<close>

lemma insort_key_map_snd:
  "insort_key fst (k, f v) (map (\<lambda>(k, v). (k, f v)) xs) = map (\<lambda>(k, v). (k, f v)) (insort_key fst (k, v) xs)"
  by (induction xs) auto

lemma sorted_items_map_snd:
  "sorted_items (map (\<lambda>(k, v). (k, f v)) xs) = map (\<lambda>(k, v). (k, f v)) (sorted_items xs)"
  unfolding sorted_items_def by (induction xs) (auto simp: insort_key_map_snd)

lemma set_sorted_items [simp]: "set (sorted_items xs) = set xs"
  by (simp add: sorted_items_def)

lemma distinct_sorted_items [simp]: "distinct (map fst (sorted_items xs)) \<longleftrightarrow> distinct (map fst xs)"
proof -
  have "distinct (map fst (insort_key fst x ys)) \<longleftrightarrow> fst x \<notin> fst ` set ys \<and> distinct (map fst ys)"
    for x :: "ustring \<times> 'a" and ys
    by (induction ys) (auto simp: set_insort_key)
  then show ?thesis
    unfolding sorted_items_def by (induction xs) auto
qed

abbreviation text_items :: "(pykey \<times> 'a) list \<Rightarrow> (ustring \<times> 'a) list" where
  "text_items kvs \<equiv> map (\<lambda>(k, v). (key_text k, v)) kvs"

lemma map_text_items: "map (\<lambda>(k, v). (key_text k, f v)) kvs = map (\<lambda>(k, v). (k, f v)) (text_items kvs)"
  by auto

lemma dumps_dict:
  "dumps (VDict kvs) =
     123 # join [44] (map (\<lambda>(k, v). quote k @ 58 # dumps v) (sorted_items (text_items kvs))) @ [125]"
  unfolding dumps.simps map_text_items [of dumps] sorted_items_map_snd
  by (simp add: comp_def case_prod_unfold)

lemma canon_dict:
  "canon (VDict kvs) = VDict (map (\<lambda>(k, v). (KStr k, canon v)) (sorted_items (text_items kvs)))"
  unfolding canon.simps map_text_items [of canon] sorted_items_map_snd
  by (simp add: comp_def case_prod_unfold)

lemma text_items_distinct:
  assumes "distinct (map fst kvs)" and "\<forall>(k, v) \<in> set kvs. \<exists>s. k = KStr s"
  shows "distinct (map fst (text_items kvs))"
  using assms by (induction kvs) (auto simp: image_iff split: prod.splits, metis fst_conv key_text.simps(1))

lemma reject_from_distinct:
  "distinct (map fst kvs) \<Longrightarrow> \<forall>k \<in> fst ` set kvs. KStr k \<notin> fst ` set acc \<Longrightarrow>
   reject_duplicate_keys_from acc kvs = Inr (acc @ map (\<lambda>(k, v). (KStr k, v)) kvs)"
proof (induction kvs arbitrary: acc)
  case Nil
  then show ?case by simp
next
  case (Cons kv kvs)
  obtain k v where kv: "kv = (k, v)" by (cases kv)
  with Cons.prems have "\<forall>j \<in> fst ` set kvs. KStr j \<notin> fst ` set (acc @ [(KStr k, v)])"
    by auto
  with Cons.IH [of "acc @ [(KStr k, v)]"] Cons.prems show ?case by (auto simp: kv)
qed

lemma reject_duplicate_keys_distinct:
  "distinct (map fst kvs) \<Longrightarrow> reject_duplicate_keys kvs = Inr (map (\<lambda>(k, v). (KStr k, v)) kvs)"
  by (simp add: reject_duplicate_keys_def reject_from_distinct)

subsection \<open>Rendered documents read back\<close>

lemma skip_ws_Cons [simp]: "32 < c \<Longrightarrow> skip_ws (c # cs) = c # cs"
  by (simp add: skip_ws_def is_ws_def)

lemma skip_ws_Nil [simp]: "skip_ws [] = []"
  by (simp add: skip_ws_def)

lemma skip_ws_delimited [simp]: "delimited r \<Longrightarrow> skip_ws r = r"
  by (cases r) (auto simp: delimited_def)

lemma int_repr_hd:
  "\<exists>c cs. int_repr n = c # cs \<and> (c = 45 \<and> (\<exists>d ds. cs = d # ds \<and> is_digit d) \<or> is_digit c)"
proof -
  obtain d ds where ds: "nat_digits \<bar>n\<bar> = d # ds" by (cases "nat_digits \<bar>n\<bar>") auto
  have "is_digit d" using nat_digits_are_digits [of "\<bar>n\<bar>"] by (simp add: ds)
  then show ?thesis using ds by (auto simp: int_repr_def)
qed

lemma dumps_hd:
  assumes "profile v"
  shows "\<exists>c cs. dumps v = c # cs \<and> 32 < c \<and> c < 0x80 \<and> c \<noteq> 93"
proof (cases v)
  case (VInt n)
  then show ?thesis using int_repr_hd [of n] by (auto simp: is_digit_def)
qed (use assms in \<open>auto simp: lit_def quote_def\<close>)

lemma skip_ws_dumps [simp]: "profile v \<Longrightarrow> skip_ws (dumps v @ r) = dumps v @ r"
  using dumps_hd [of v] by auto

lemma starts_with_simps [simp]:
  "starts_with [] s" "\<not> starts_with (a # p) []"
  "starts_with (a # p) (c # s) \<longleftrightarrow> a = c \<and> starts_with p s"
  by (auto simp: starts_with_def)

lemma lit_Cons: "lit (c # s) = of_char c # lit s"
  by (simp add: lit_def)

lemma scan_once_number:
  assumes "c = 45 \<and> (\<exists>d ds. cs = d # ds \<and> is_digit d) \<or> is_digit c"
  shows "scan_once (Suc m) (c # cs) = match_number (c # cs)"
proof -
  have other: "(c = 34) = False" "(c = 123) = False" "(c = 91) = False"
    using assms by (auto simp: is_digit_def)
  have words: "starts_with (lit ''null'') (c # cs) = False" "starts_with (lit ''true'') (c # cs) = False"
    "starts_with (lit ''false'') (c # cs) = False" "starts_with (lit ''NaN'') (c # cs) = False"
    "starts_with (lit ''Infinity'') (c # cs) = False" "starts_with (lit ''-Infinity'') (c # cs) = False"
    using assms by (auto simp: lit_Cons is_digit_def)
  show ?thesis
    by (simp only: scan_once.simps(2) list.case other words if_False)
qed

lemma scan_once_int:
  assumes "delimited r" and "length (nat_digits \<bar>n\<bar>) \<le> max_str_digits"
  shows "scan_once (Suc m) (int_repr n @ r) = Inr (VInt n, r)"
proof -
  obtain c cs where c: "int_repr n = c # cs"
    and "c = 45 \<and> (\<exists>d ds. cs = d # ds \<and> is_digit d) \<or> is_digit c"
    using int_repr_hd [of n] by metis
  then have "c = 45 \<and> (\<exists>d ds. cs @ r = d # ds \<and> is_digit d) \<or> is_digit c" by auto
  then have "scan_once (Suc m) (int_repr n @ r) = match_number (int_repr n @ r)"
    unfolding c append_Cons by (rule scan_once_number)
  then show ?thesis using match_number_int_repr [OF assms] by simp
qed

definition reads_back :: "pyval \<Rightarrow> bool" where
  "reads_back v \<longleftrightarrow>
     (\<forall>n r. delimited r \<longrightarrow> 2 * length (dumps v) \<le> n \<longrightarrow> scan_once n (dumps v @ r) = Inr (canon v, r))"

lemma reads_backD:
  "reads_back v \<Longrightarrow> delimited r \<Longrightarrow> 2 * length (dumps v) \<le> n \<Longrightarrow> scan_once n (dumps v @ r) = Inr (canon v, r)"
  by (simp add: reads_back_def)

lemma scan_elements_join:
  assumes "\<forall>v \<in> set vs. profile v \<and> reads_back v" and "vs \<noteq> []"
    and "2 * length (join [44] (map dumps vs)) < n"
  shows "scan_elements n (join [44] (map dumps vs) @ 93 # r) = Inr (map canon vs, r)"
  using assms
proof (induction vs arbitrary: n)
  case Nil
  then show ?case by simp
next
  case (Cons v vs)
  then obtain m where n: "n = Suc m" by (cases n) auto
  from Cons.prems have v: "profile v" "reads_back v" by auto
  show ?case
  proof (cases vs)
    case Nil
    then show ?thesis
      using Cons.prems reads_backD [OF v(2), of "93 # r" m] by (simp add: n scan_elements.simps(2))
  next
    case (Cons w ws)
    let ?rest = "join [44] (map dumps vs) @ 93 # r"
    have w: "skip_ws ?rest = ?rest"
      using Cons.prems skip_ws_dumps [of w] unfolding Cons by (cases ws) auto
    have "scan_elements m ?rest = Inr (map canon vs, r)"
      using Cons.prems Cons.IH [of m] by (simp add: Cons n)
    moreover have "scan_once m (dumps v @ 44 # ?rest) = Inr (canon v, 44 # ?rest)"
      using Cons.prems by (intro reads_backD [OF v(2)]) (auto simp: Cons n)
    ultimately show ?thesis
      using w by (simp add: n Cons scan_elements.simps(2))
  qed
qed

lemma quote_append: "quote k @ r = 34 # concat (map escape_char k) @ 34 # r"
  by (simp add: quote_def)

lemma scan_members_join:
  assumes "\<forall>(k, v) \<in> set kvs. (\<forall>c \<in> set k. 0 \<le> c) \<and> profile v \<and> reads_back v" and "kvs \<noteq> []"
    and "2 * length (join [44] (map (\<lambda>(k, v). quote k @ 58 # dumps v) kvs)) < n"
  shows "scan_members n (join [44] (map (\<lambda>(k, v). quote k @ 58 # dumps v) kvs) @ 125 # r) =
    Inr (map (\<lambda>(k, v). (k, canon v)) kvs, r)"
  using assms
proof (induction kvs arbitrary: n)
  case Nil
  then show ?case by simp
next
  case (Cons kv kvs)
  then obtain m where n: "n = Suc m" by (cases n) auto
  obtain k v where kv: "kv = (k, v)" by (cases kv)
  from Cons.prems have k: "\<forall>c \<in> set k. 0 \<le> c" and v: "profile v" "reads_back v" by (auto simp: kv)
  show ?case
  proof (cases kvs)
    case Nil
    then show ?thesis
      using Cons.prems k v reads_backD [OF v(2), of "125 # r" m]
      by (simp add: n kv scan_members.simps(2) quote_append scan_string_quote)
  next
    case (Cons w ws)
    let ?rest = "join [44] (map (\<lambda>(k, v). quote k @ 58 # dumps v) kvs) @ 125 # r"
    have w: "skip_ws ?rest = ?rest"
      unfolding Cons by (cases w; cases ws) (auto simp: quote_def)
    have "scan_members m ?rest = Inr (map (\<lambda>(k, v). (k, canon v)) kvs, r)"
      using Cons.prems Cons.IH [of m] by (simp add: Cons n kv)
    moreover have "scan_once m (dumps v @ 44 # ?rest) = Inr (canon v, 44 # ?rest)"
      using Cons.prems by (intro reads_backD [OF v(2)]) (auto simp: Cons n kv)
    moreover have "join [44] (map (\<lambda>(k, v). quote k @ 58 # dumps v) (kv # kvs)) @ 125 # r =
        34 # concat (map escape_char k) @ 34 # 58 # dumps v @ 44 # ?rest"
      by (simp add: kv Cons quote_def)
    ultimately show ?thesis
      using w k v by (simp add: n kv scan_members.simps(2) scan_string_quote)
  qed
qed

lemma reads_backI:
  assumes "dumps v \<noteq> []"
    and "\<And>n r. delimited r \<Longrightarrow> 2 * length (dumps v) \<le> Suc n \<Longrightarrow>
      scan_once (Suc n) (dumps v @ r) = Inr (canon v, r)"
  shows "reads_back v"
  unfolding reads_back_def
proof (intro allI impI)
  fix n r
  assume r: "delimited r" and n: "2 * length (dumps v) \<le> n"
  moreover obtain m where "n = Suc m" using assms(1) n by (cases n) auto
  ultimately show "scan_once n (dumps v @ r) = Inr (canon v, r)" using assms(2) by simp
qed

lemma reads_back_profile: "profile v \<Longrightarrow> reads_back v"
proof (induction v rule: dumps.induct)
  case 1
  show ?case by (rule reads_backI) (simp_all add: scan_once.simps(2) lit_Cons)
next
  case (2 b)
  show ?case by (rule reads_backI) (simp_all add: scan_once.simps(2) lit_Cons)
next
  case (3 n)
  then show ?case
    using int_repr_hd [of n] by (intro reads_backI) (auto simp: scan_once_int)
next
  case (4 s)
  then have "\<forall>c \<in> set s. 0 \<le> c" by (auto simp: list_all_iff is_code_point_def)
  then show ?case
    by (intro reads_backI) (auto simp: scan_once.simps(2) quote_append scan_string_quote quote_def)
next
  case (5 vs)
  show ?case
  proof (rule reads_backI)
    fix m r
    assume n: "2 * length (dumps (VList vs)) \<le> Suc m"
    show "scan_once (Suc m) (dumps (VList vs) @ r) = Inr (canon (VList vs), r)"
    proof (cases vs)
      case Nil
      then show ?thesis by (simp add: scan_once.simps(2))
    next
      case (Cons w ws)
      have "\<forall>v \<in> set vs. profile v \<and> reads_back v" using 5 by simp
      then have els: "scan_elements m (join [44] (map dumps vs) @ 93 # r) = Inr (map canon vs, r)"
        using n Cons by (intro scan_elements_join) auto
      obtain d ds where d: "join [44] (map dumps vs) @ 93 # r = d # ds" "32 < d" "d \<noteq> 93"
        using dumps_hd [of w] 5 Cons by (cases ws) auto
      show ?thesis using els d by (simp add: scan_once.simps(2))
    qed
  qed simp
next
  case (6 kvs)
  let ?items = "sorted_items (text_items kvs)"
  have items: "\<forall>(k, v) \<in> set ?items. (\<forall>c \<in> set k. 0 \<le> c) \<and> profile v \<and> reads_back v"
    using 6 by (fastforce simp: list_all_iff is_code_point_def)
  have dist: "distinct (map fst ?items)"
    using 6(2) by (subst distinct_sorted_items, intro text_items_distinct) auto
  show ?case
  proof (rule reads_backI)
    fix m r
    let ?body = "join [44] (map (\<lambda>(k, v). quote k @ 58 # dumps v) ?items)"
    assume n: "2 * length (dumps (VDict kvs)) \<le> Suc m"
    show "scan_once (Suc m) (dumps (VDict kvs) @ r) = Inr (canon (VDict kvs), r)"
    proof (cases "?items = []")
      case True
      then show ?thesis unfolding dumps_dict canon_dict by (simp add: scan_once.simps(2))
    next
      case False
      have mem: "scan_members m (?body @ 125 # r) = Inr (map (\<lambda>(k, v). (k, canon v)) ?items, r)"
        using n False unfolding dumps_dict by (intro scan_members_join [OF items]) auto
      obtain d ds where d: "?body @ 125 # r = d # ds" "d = 34"
        using False by (cases ?items; cases "tl ?items") (auto simp: quote_def)
      have "reject_duplicate_keys (map (\<lambda>(k, v). (k, canon v)) ?items) =
          Inr (map (\<lambda>(k, v). (KStr k, canon v)) ?items)"
        using dist by (subst reject_duplicate_keys_distinct) (auto simp: comp_def case_prod_unfold)
      then show ?thesis using mem d unfolding dumps_dict canon_dict by (simp add: scan_once.simps(2))
    qed
  qed simp
qed simp_all

lemma set_join: "set (join sep xss) \<subseteq> set sep \<union> (\<Union>xs \<in> set xss. set xs)"
  by (induction sep xss rule: join.induct) auto

lemma dumps_ge_32:
  "profile v \<Longrightarrow> c \<in> set (dumps v) \<Longrightarrow> 32 \<le> c"
proof (induction v arbitrary: c rule: dumps.induct)
  case (3 n)
  have "list_all is_digit (nat_digits \<bar>n\<bar>)" by (intro nat_digits_are_digits) simp
  with 3 show ?case by (auto simp: int_repr_def list_all_iff is_digit_def split: if_splits)
next
  case (4 s)
  then show ?case by (auto simp: quote_def list_all_iff is_code_point_def dest: escape_char_ge_32)
next
  case (5 vs)
  from 5(3) set_join [of "[44]" "map dumps vs"] consider "c \<in> {91, 44, 93}" | v where "v \<in> set vs" "c \<in> set (dumps v)"
    by auto
  then show ?case using 5(1,2) by cases auto
next
  case (6 kvs)
  from 6(3) consider "c \<in> {123, 44, 58, 125}"
    | k v where "(k, v) \<in> set kvs" "c \<in> set (quote (key_text k)) \<union> set (dumps v)"
    unfolding dumps_dict
    using set_join [of "[44]" "map (\<lambda>(k, v). quote k @ 58 # dumps v) (sorted_items (text_items kvs))"]
    by fastforce
  then show ?case
  proof cases
    case 2
    then obtain s where "k = KStr s" "list_all is_code_point s" "profile v" using 6(2) by auto
    with 2 6(1) show ?thesis 
      by (auto simp: quote_def list_all_iff is_code_point_def dest: escape_char_ge_32)
  qed auto
qed (auto simp: lit_Cons split: if_splits)

lemma loads_text_dumps:
  assumes "profile v"
  shows "loads_text (dumps v) = Inr (canon v)"
proof -
  have "scan_once (2 * length (dumps v) + 2) (dumps v @ []) = Inr (canon v, [])"
    by (rule reads_backD [OF reads_back_profile [OF assms]]) auto
  then show ?thesis
    using skip_ws_dumps [OF assms, of "[]"] by (simp add: loads_text_def)
qed

lemma canonical_reads_back:
  assumes "py_wf v" and "canonical_bytes v = Inr b"
  shows "parse_json_strict (DocBytes b) = Inr (canon v)"
proof -
  have prof: "profile v" and enc: "utf8_encode (dumps v) = Inr b"
    using assms by (auto simp: canonical_bytes_def profile_def res_simps)
  have cps: "list_all (\<lambda>c. 32 \<le> c \<and> is_code_point c) (dumps v)"
    and b: "b = map char_of (concat (map utf8_char (dumps v)))"
    using enc dumps_ge_32 [OF prof] by (auto simp: utf8_encode_def res_simps list_all_iff)
  have "decode_document b = Inr (dumps v)"
    unfolding b using cps dumps_hd [OF prof] by (intro decode_document_utf8) auto
  then show ?thesis
    using loads_text_dumps [OF prof] by (simp add: parse_json_strict_def)
qed

lemma sorted_items_idem [simp]: "sorted_items (sorted_items xs) = sorted_items xs"
  unfolding sorted_items_def by (simp add: sort_key_id_if_sorted)

lemma text_items_canon:
  "text_items (map (\<lambda>(k, v). (KStr k, f v)) xs) = map (\<lambda>(k, v). (k, f v)) xs"
  by auto

lemma dumps_canon: "profile v \<Longrightarrow> dumps (canon v) = dumps v"
proof (induction v rule: dumps.induct)
  case (5 vs)
  then show ?case by (auto simp: comp_def intro: arg_cong [where f = "join [44]"])
next
  case (6 kvs)
  let ?items = "sorted_items (text_items kvs)"
  have "sorted_items (map (\<lambda>(k, v). (k, canon v)) ?items) = map (\<lambda>(k, v). (k, canon v)) ?items"
    by (simp add: sorted_items_map_snd)
  then have "dumps (canon (VDict kvs)) =
      123 # join [44] (map (\<lambda>(k, v). quote k @ 58 # dumps (canon v)) ?items) @ [125]"
    unfolding canon_dict dumps_dict text_items_canon by (simp add: comp_def case_prod_unfold)
  also have "map (\<lambda>(k, v). quote k @ 58 # dumps (canon v)) ?items = map (\<lambda>(k, v). quote k @ 58 # dumps v) ?items"
    using 6 by (intro map_cong refl) auto
  finally show ?case by (simp only: dumps_dict)
qed simp_all

lemma profile_canon: "profile v \<Longrightarrow> profile (canon v)"
proof (induction v rule: dumps.induct)
  case (6 kvs)
  let ?items = "sorted_items (text_items kvs)"
  have dist: "distinct (map fst ?items)"
    using 6(2) by (subst distinct_sorted_items, intro text_items_distinct) auto
  have "map fst (map (\<lambda>(k, v). (KStr k, canon v)) ?items) = map KStr (map fst ?items)"
    by auto
  then have "distinct (map fst (map (\<lambda>(k, v). (KStr k, canon v)) ?items))"
    using dist by (simp add: distinct_map inj_on_def)
  then show ?case unfolding canon_dict profile_dict using 6 by fastforce
qed auto

lemma canonical_bytes_profile: "profile v \<Longrightarrow> canonical_bytes v = utf8_encode (dumps v)"
  by (simp add: canonical_bytes_def profile_def)

lemma canonical_bytes_Inr_profile: "py_wf v \<Longrightarrow> canonical_bytes v = Inr b \<Longrightarrow> profile v"
  by (auto simp: canonical_bytes_def profile_def res_simps)

lemma canonical_bytes_canon:
  "py_wf v \<Longrightarrow> canonical_bytes v = Inr b \<Longrightarrow> canonical_bytes (canon v) = Inr b"
  using canonical_bytes_Inr_profile [of v b] by (simp add: canonical_bytes_profile profile_canon dumps_canon)

lemma canonical_bytes_inject:
  assumes "py_wf v" "py_wf w" "canonical_bytes v = Inr b" "canonical_bytes w = Inr b"
  shows "canon v = canon w"
  using canonical_reads_back [OF assms(1,3)] canonical_reads_back [OF assms(2,4)] by simp

lemma canonical_bytes_cong:
  assumes "profile v" "profile w" "canon v = canon w"
  shows "canonical_bytes v = canonical_bytes w"
  using assms dumps_canon [of v] dumps_canon [of w] by (simp add: canonical_bytes_profile)

end
