(* ===== verification/Scanner.thy ===== *)
theory Scanner
  imports Canonical
begin

text \<open>
  Facts about the strict parser of \<open>canonical.py\<close> on arbitrary input: whatever it returns
  is a well-formed value inside the protocol's profile, and it always returns or raises
  within the fuel the model gives it.
\<close>

section \<open>What the scanner returns\<close>

lemma first_cons_eq_Inr [res_simps]: "first_cons x m = Inr (ys, r) \<longleftrightarrow> (\<exists>xs. m = Inr (xs, r) \<and> ys = x # xs)"
  by (cases m) (auto simp: first_cons_def)

text \<open>\<open>shorter r s\<close>: what a successful scan leaves is a proper final part of the text.\<close>

definition shorter :: "ustring \<Rightarrow> ustring \<Rightarrow> bool" where
  "shorter r s \<longleftrightarrow> (\<exists>p. p \<noteq> [] \<and> s = p @ r)"

lemma shorter_trans: "shorter r s \<Longrightarrow> shorter s t \<Longrightarrow> shorter r t"
  unfolding shorter_def by (metis append_assoc append_is_Nil_conv)

lemma shorter_Cons: "r = s \<or> shorter r s \<Longrightarrow> shorter r (c # s)"
  unfolding shorter_def by (metis append_Cons append_Nil list.distinct(1))

lemma shorter_cp: "shorter r s \<Longrightarrow> list_all is_code_point s \<Longrightarrow> list_all is_code_point r"
  by (auto simp: shorter_def list_all_iff)

lemma shorter_length: "shorter r s \<Longrightarrow> length r < length s"
  by (auto simp: shorter_def)

lemma shorter_drop: "0 < n \<Longrightarrow> n \<le> length s \<Longrightarrow> shorter (drop n s) s"
  unfolding shorter_def by (intro exI [of _ "take n s"]) auto

lemma dropWhile_shorter: "dropWhile P s = s \<or> shorter (dropWhile P s) s"
  unfolding shorter_def by (metis append_Nil takeWhile_dropWhile_id)

lemma skip_ws_shorter: "skip_ws s = s \<or> shorter (skip_ws s) s"
  unfolding skip_ws_def by (rule dropWhile_shorter)

lemma hex_val_range: "hex_val x = Some y \<Longrightarrow> 0 \<le> y \<and> y < 16"
  by (auto simp: hex_val_def split: if_splits)

lemma hex4_result: "hex4 s = Some (h, r) \<Longrightarrow> shorter r s \<and> 0 \<le> h \<and> h < 65536"
proof (cases s rule: hex4.cases)
  case (1 a b c d t)
  assume "hex4 s = Some (h, r)"
  with 1 show ?thesis
    by (auto intro!: shorter_Cons split: option.splits dest!: hex_val_range)
qed simp_all

lemma low_escape_result: "low_escape s = Some (l, r) \<Longrightarrow> shorter r s \<and> 0xDC00 \<le> l \<and> l \<le> 0xDFFF"
proof (cases s rule: low_escape.cases)
  case (1 a b t)
  assume "low_escape s = Some (l, r)"
  with 1 show ?thesis
    by (auto split: option.splits if_splits dest!: hex4_result intro!: shorter_Cons)
qed simp_all

lemma scan_string_result:
  "scan_string s = Inr (t, r) \<Longrightarrow> shorter r s \<and> (list_all is_code_point s \<longrightarrow> list_all is_code_point t)"
proof (induction s arbitrary: t r rule: length_induct)
  case (1 s)
  then have IH: "shorter r' s' \<and> (list_all is_code_point s' \<longrightarrow> list_all is_code_point t')"
    if "length s' < length s" "scan_string s' = Inr (t', r')" for s' t' r'
    using that by blast
  obtain c cs where s: "s = c # cs" using 1(2) by (cases s) auto
  note res = 1(2) [unfolded s]
  consider (close) "c = 34" | (esc) e r1 where "c = 92" "cs = e # r1" "e \<noteq> 117"
    | (uni) r1 where "c = 92" "cs = 117 # r1" | (plain) "c \<noteq> 34" "c \<noteq> 92" "32 \<le> c"
    using res by (cases cs) (auto split: if_splits)
  then show ?case
  proof cases
    case close
    with res show ?thesis by (auto simp: s intro!: shorter_Cons)
  next
    case esc
    with res obtain x t' where x: "unescape e = Some x" "scan_string r1 = Inr (t', r)" "t = x # t'"
      by (auto simp: res_simps split: option.splits)
    have "is_code_point x" using x(1) by (auto simp: unescape_def is_code_point_def split: if_splits)
    with IH [OF _ x(2)] esc x show ?thesis by (auto simp: s intro!: shorter_Cons)
  next
    case uni
    with res obtain h r2 where h: "hex4 r1 = Some (h, r2)"
      by (auto split: option.splits)
    note hr = hex4_result [OF h]
    obtain x r3 t' where x: "is_code_point x" "shorter r3 r1" "scan_string r3 = Inr (t', r)" "t = x # t'"
    proof (cases "0xD800 \<le> h \<and> h \<le> 0xDBFF \<and> low_escape r2 \<noteq> None")
      case True
      then obtain l r3 where l: "low_escape r2 = Some (l, r3)" by auto
      note lr = low_escape_result [OF l]
      show ?thesis
        using True h l uni res lr hr that [of "join_surrogates h l" r3]
        by (auto simp: res_simps is_code_point_def join_surrogates_def intro: shorter_trans)
    next
      case False
      then show ?thesis
        using h uni res hr that [of h r2]
        by (auto simp: res_simps is_code_point_def split: option.splits if_splits)
    qed
    have "length r3 < length s" using shorter_length [OF x(2)] uni by (simp add: s)
    note rest = IH [OF this x(3)]
    have "shorter r s" using rest shorter_trans [OF _ x(2)] uni by (auto simp: s intro!: shorter_Cons)
    with rest x(1,4) uni show ?thesis using shorter_cp [OF x(2)] by (auto simp: s)
  next
    case plain
    with res obtain t' where "scan_string cs = Inr (t', r)" "t = c # t'" by (auto simp: res_simps)
    with IH [of cs t' r] plain show ?thesis by (auto simp: s intro!: shorter_Cons)
  qed
qed

lemma length_nat_digits: "0 \<le> n \<Longrightarrow> n < 10 ^ k \<Longrightarrow> 0 < k \<Longrightarrow> length (nat_digits n) \<le> k"
proof (induction n arbitrary: k rule: nat_digits.induct)
  case (1 n)
  show ?case
  proof (cases "n < 10")
    case True
    with 1 show ?thesis by (subst nat_digits.simps) simp
  next
    case False
    with 1(3) obtain j where k: "k = Suc j" "0 < j"
      by (cases k; cases "k - 1") auto
    with 1(3) have "n div 10 < 10 ^ j" by simp
    with 1 False k show ?thesis by (subst nat_digits.simps) simp
  qed
qed

lemma digits_value_bound:
  "list_all is_digit ds \<Longrightarrow> 0 \<le> digits_value ds \<and> digits_value ds < 10 ^ length ds"
proof (induction ds rule: rev_induct)
  case Nil
  show ?case by (simp add: digits_value_def)
next
  case (snoc d ds)
  then show ?case by (auto simp: digits_value_snoc is_digit_def)
qed

lemma finish_number_result:
  assumes "finish_number neg ds r = Inr (v, r')" and "list_all is_digit ds" and "ds \<noteq> []"
  shows "r' = r \<and> profile v"
proof -
  have len: "length ds \<le> max_str_digits"
    and v: "v = VInt (if neg then - digits_value ds else digits_value ds)" and "r' = r"
    using assms(1) by (auto simp: finish_number_def reject_float_def res_simps split: if_splits)
  have "length (nat_digits (digits_value ds)) \<le> length ds"
    using digits_value_bound [OF assms(2)] assms(3) by (intro length_nat_digits) auto
  with len v \<open>r' = r\<close> digits_value_bound [OF assms(2)] show ?thesis by auto
qed

lemma match_number_result:
  assumes "match_number s = Inr (v, r)"
  shows "shorter r s \<and> profile v"
proof -
  define neg where "neg = (s \<noteq> [] \<and> hd s = 45)"
  define t where "t = (if neg then tl s else s)"
  have ts: "t = s \<or> shorter t s"
    by (cases s) (auto simp: t_def neg_def intro!: shorter_Cons)
  from assms obtain d ds where t: "t = d # ds"
    unfolding match_number_def neg_def [symmetric] Let_def t_def [symmetric] by (cases t) auto
  have "(if d = 48 then finish_number neg [48] ds
      else if is_digit d then finish_number neg (d # takeWhile is_digit ds) (dropWhile is_digit ds)
      else raise JSONDecodeError ''Expecting value'') = Inr (v, r)"
    using assms t unfolding match_number_def neg_def [symmetric] Let_def t_def [symmetric] by simp
  then consider "finish_number neg [48] ds = Inr (v, r)"
    | "is_digit d" "finish_number neg (d # takeWhile is_digit ds) (dropWhile is_digit ds) = Inr (v, r)"
    by (auto split: if_splits)
  then have "shorter r t \<and> profile v"
  proof cases
    case 1
    then show ?thesis
      using finish_number_result [OF 1] by (auto simp: t is_digit_def intro!: shorter_Cons)
  next
    case 2
    then have "list_all is_digit (d # takeWhile is_digit ds)"
      by (auto simp: list_all_iff dest: set_takeWhileD)
    with finish_number_result [OF 2(2)] show ?thesis
      using dropWhile_shorter [of is_digit ds] by (auto simp: t intro!: shorter_Cons)
  qed
  with ts show ?thesis by (auto intro: shorter_trans)
qed

lemma skip_ws_eq_Cons: "skip_ws s = c # cs \<Longrightarrow> shorter cs s"
  using skip_ws_shorter [of s] shorter_Cons [of cs cs c] by (auto intro: shorter_trans)

lemma skip_ws_shorter_trans: "shorter r (skip_ws s) \<Longrightarrow> shorter r s"
  using skip_ws_shorter [of s] by (auto intro: shorter_trans)

lemma starts_with_drop: "starts_with p s \<Longrightarrow> p \<noteq> [] \<Longrightarrow> shorter (drop (length p) s) s"
  unfolding starts_with_def
  by (rule shorter_drop) (auto, metis length_take min.cobounded1 min.commute)

lemma reject_from_result:
  "reject_duplicate_keys_from acc kvs = Inr d \<Longrightarrow> distinct (map fst acc) \<Longrightarrow>
   distinct (map fst d) \<and> d = acc @ map (\<lambda>(k, v). (KStr k, v)) kvs"
  by (induction acc kvs arbitrary: d rule: reject_duplicate_keys_from.induct) (auto split: if_splits)

definition ok_once :: "nat \<Rightarrow> bool" where
  "ok_once n \<longleftrightarrow> (\<forall>s v r. scan_once n s = Inr (v, r) \<longrightarrow>
     shorter r s \<and> (list_all is_code_point s \<longrightarrow> profile v))"

definition ok_members :: "nat \<Rightarrow> bool" where
  "ok_members n \<longleftrightarrow> (\<forall>s kvs r. scan_members n s = Inr (kvs, r) \<longrightarrow>
     shorter r s \<and> (list_all is_code_point s \<longrightarrow>
       (\<forall>(k, v) \<in> set kvs. list_all is_code_point k \<and> profile v)))"

definition ok_elements :: "nat \<Rightarrow> bool" where
  "ok_elements n \<longleftrightarrow> (\<forall>s vs r. scan_elements n s = Inr (vs, r) \<longrightarrow>
     shorter r s \<and> (list_all is_code_point s \<longrightarrow> (\<forall>v \<in> set vs. profile v)))"

lemma ok_elements_Suc:
  assumes "ok_once n" "ok_elements n"
  shows "ok_elements (Suc n)"
  unfolding ok_elements_def
proof (intro allI impI)
  fix s vs r
  assume "scan_elements (Suc n) s = Inr (vs, r)"
  then obtain v r1 where v: "scan_once n s = Inr (v, r1)"
    and step: "(case skip_ws r1 of [] \<Rightarrow> raise JSONDecodeError ''Expecting , delimiter''
       | e # es \<Rightarrow> if e = 93 then Inr ([v], es)
           else ensure (e = 44) JSONDecodeError ''Expecting , delimiter''
             (first_cons v (scan_elements n (skip_ws es)))) = Inr (vs, r)"
    unfolding scan_elements.simps(2) ebind_eq_Inr by (clarsimp split: prod.splits)
  then obtain e es where e: "skip_ws r1 = e # es" by (cases "skip_ws r1") auto
  with step have rest: "vs = [v] \<and> r = es \<or> (\<exists>ws. scan_elements n (skip_ws es) = Inr (ws, r) \<and> vs = v # ws)"
    by (auto simp: res_simps split: if_splits)
  from v assms(1) have v': "shorter r1 s" "list_all is_code_point s \<longrightarrow> profile v"
    by (auto simp: ok_once_def)
  have es: "shorter es s" using skip_ws_eq_Cons [OF e] v'(1) by (rule shorter_trans)
  from rest show "shorter r s \<and> (list_all is_code_point s \<longrightarrow> (\<forall>v \<in> set vs. profile v))"
  proof
    assume "vs = [v] \<and> r = es"
    with es v' show ?thesis by auto
  next
    assume "\<exists>ws. scan_elements n (skip_ws es) = Inr (ws, r) \<and> vs = v # ws"
    then obtain ws where ws: "scan_elements n (skip_ws es) = Inr (ws, r)" "vs = v # ws" by auto
    with assms(2) have r: "shorter r (skip_ws es)"
      and p: "list_all is_code_point (skip_ws es) \<longrightarrow> (\<forall>v \<in> set ws. profile v)"
      by (auto simp: ok_elements_def)
    have "list_all is_code_point s \<Longrightarrow> list_all is_code_point (skip_ws es)"
      using es skip_ws_shorter [of es] by (metis shorter_cp)
    with p r ws v' es show ?thesis by (auto intro: shorter_trans skip_ws_shorter_trans)
  qed
qed

lemma ok_members_Suc:
  assumes "ok_once n" "ok_members n"
  shows "ok_members (Suc n)"
  unfolding ok_members_def
proof (intro allI impI)
  fix s kvs r
  assume "scan_members (Suc n) s = Inr (kvs, r)"
  then obtain t k r0 where t: "s = 34 # t" and k: "scan_string t = Inr (k, r0)"
    and step: "(case skip_ws r0 of [] \<Rightarrow> raise JSONDecodeError ''Expecting : delimiter''
       | c # cs \<Rightarrow> ensure (c = 58) JSONDecodeError ''Expecting : delimiter''
           (ebind (scan_once n (skip_ws cs)) (\<lambda>(val, r1).
            case skip_ws r1 of [] \<Rightarrow> raise JSONDecodeError ''Expecting , delimiter''
            | e # es \<Rightarrow> if e = 125 then Inr ([(k, val)], es)
                else ensure (e = 44) JSONDecodeError ''Expecting , delimiter''
                  (first_cons (k, val) (scan_members n (skip_ws es)))))) = Inr (kvs, r)"
    by (cases s) (auto simp: scan_members.simps(2) ebind_eq_Inr ensure_eq_Inr)
  then obtain cs v r1 where c: "skip_ws r0 = 58 # cs" and v: "scan_once n (skip_ws cs) = Inr (v, r1)"
    and step2: "(case skip_ws r1 of [] \<Rightarrow> raise JSONDecodeError ''Expecting , delimiter''
        | e # es \<Rightarrow> if e = 125 then Inr ([(k, v)], es)
            else ensure (e = 44) JSONDecodeError ''Expecting , delimiter''
              (first_cons (k, v) (scan_members n (skip_ws es)))) = Inr (kvs, r)"
    by (cases "skip_ws r0") (auto simp: ebind_eq_Inr ensure_eq_Inr)
  then obtain e es where e: "skip_ws r1 = e # es" by (cases "skip_ws r1") auto
  with step2 have rest: "kvs = [(k, v)] \<and> r = es \<or>
      (\<exists>ws. scan_members n (skip_ws es) = Inr (ws, r) \<and> kvs = (k, v) # ws)"
    by (auto simp: res_simps split: if_splits)
  from scan_string_result [OF k] have k': "shorter r0 t" "list_all is_code_point t \<longrightarrow> list_all is_code_point k"
    by auto
  have "shorter cs t" using skip_ws_eq_Cons [OF c] k'(1) by (rule shorter_trans)
  then have cs: "shorter cs s" by (simp add: t shorter_Cons)
  from v assms(1) have v': "shorter r1 cs" "list_all is_code_point (skip_ws cs) \<longrightarrow> profile v"
    by (auto simp: ok_once_def intro: skip_ws_shorter_trans)
  have es: "shorter es s" using skip_ws_eq_Cons [OF e] v'(1) cs by (meson shorter_trans)
  have cp: "list_all is_code_point t" "list_all is_code_point (skip_ws cs)" "list_all is_code_point (skip_ws es)"
    if "list_all is_code_point s"
    using that cs es skip_ws_shorter [of es] skip_ws_shorter [of cs] by (auto simp: t dest: shorter_cp)
  from rest show "shorter r s \<and> (list_all is_code_point s \<longrightarrow>
      (\<forall>(k, v) \<in> set kvs. list_all is_code_point k \<and> profile v))"
  proof
    assume "kvs = [(k, v)] \<and> r = es"
    with es v' k' cp show ?thesis by auto
  next
    assume "\<exists>ws. scan_members n (skip_ws es) = Inr (ws, r) \<and> kvs = (k, v) # ws"
    then obtain ws where ws: "scan_members n (skip_ws es) = Inr (ws, r)" "kvs = (k, v) # ws" by auto
    with assms(2) have "shorter r (skip_ws es)"
      and "list_all is_code_point (skip_ws es) \<longrightarrow> (\<forall>(k, v) \<in> set ws. list_all is_code_point k \<and> profile v)"
      by (auto simp: ok_members_def)
    with ws v' k' es cp show ?thesis by (auto intro: shorter_trans skip_ws_shorter_trans)
  qed
qed

lemma ok_once_Suc:
  assumes "ok_members n" "ok_elements n"
  shows "ok_once (Suc n)"
  unfolding ok_once_def
proof (intro allI impI)
  fix s v r
  assume scan: "scan_once (Suc n) s = Inr (v, r)"
  then obtain c cs where s: "s = c # cs" by (cases s) (auto simp: scan_once.simps(2))
  consider (str) t where "c = 34" "scan_string cs = Inr (t, r)" "v = VStr t"
    | (obj0) "c = 123" "skip_ws cs = 125 # r" "v = VDict []"
    | (obj) kvs d where "c = 123" "scan_members n (skip_ws cs) = Inr (kvs, r)"
        "reject_duplicate_keys kvs = Inr d" "v = VDict d"
    | (arr0) "c = 91" "skip_ws cs = 93 # r" "v = VList []"
    | (arr) vs where "c = 91" "scan_elements n (skip_ws cs) = Inr (vs, r)" "v = VList vs"
    | (word) p where "p \<noteq> []" "starts_with p s" "r = drop (length p) s" "profile v"
    | (num) "match_number s = Inr (v, r)"
  proof (cases "c \<in> {34, 123, 91}")
    case True
    then consider "c = 34" | "c = 123" | "c = 91" by auto
    then show ?thesis
    proof cases
      case 1
      with scan show ?thesis by (auto simp: s scan_once.simps(2) res_simps intro: str)
    next
      case 2
      with scan show ?thesis
        by (cases "skip_ws cs") (auto simp: s scan_once.simps(2) res_simps split: if_splits intro: obj0 obj)
    next
      case 3
      with scan show ?thesis
        by (cases "skip_ws cs") (auto simp: s scan_once.simps(2) res_simps split: if_splits intro: arr0 arr)
    qed
  next
    case False
    then have eq: "scan_once (Suc n) s =
       (if starts_with (lit ''null'') s then Inr (VNone, drop 4 s)
        else if starts_with (lit ''true'') s then Inr (VBool True, drop 4 s)
        else if starts_with (lit ''false'') s then Inr (VBool False, drop 5 s)
        else if starts_with (lit ''NaN'') s then reject_constant
        else if starts_with (lit ''Infinity'') s then reject_constant
        else if starts_with (lit ''-Infinity'') s then reject_constant
        else match_number s)"
      by (simp add: s scan_once.simps(2))
    show ?thesis
      using scan word [of "lit ''null''"] word [of "lit ''true''"] word [of "lit ''false''"] num
      unfolding eq by (auto simp: reject_constant_def eval_nat_numeral split: if_splits)
  qed
  then show "shorter r s \<and> (list_all is_code_point s \<longrightarrow> profile v)"
  proof cases
    case str
    with scan_string_result [OF str(2)] show ?thesis by (auto simp: s intro: shorter_Cons)
  next
    case obj0
    then show ?thesis using skip_ws_eq_Cons by (auto simp: s intro: shorter_Cons)
  next
    case obj
    from obj(2) assms(1) have r: "shorter r (skip_ws cs)"
      and kv: "list_all is_code_point (skip_ws cs) \<longrightarrow> (\<forall>(k, v) \<in> set kvs. list_all is_code_point k \<and> profile v)"
      by (auto simp: ok_members_def)
    have "distinct (map fst d)" "d = map (\<lambda>(k, v). (KStr k, v)) kvs"
      using reject_from_result [of "[]" kvs d] obj(3) by (auto simp: reject_duplicate_keys_def)
    moreover have "list_all is_code_point s \<Longrightarrow> list_all is_code_point (skip_ws cs)"
      using skip_ws_shorter [of cs] by (auto simp: s dest: shorter_cp)
    moreover have "shorter r s" using skip_ws_shorter_trans [OF r] by (simp add: s shorter_Cons)
    ultimately show ?thesis using kv obj(4) by auto
  next
    case arr0
    then show ?thesis using skip_ws_eq_Cons by (auto simp: s intro: shorter_Cons)
  next
    case arr
    from arr(2) assms(2) have r: "shorter r (skip_ws cs)"
      and vs: "list_all is_code_point (skip_ws cs) \<longrightarrow> (\<forall>v \<in> set vs. profile v)"
      by (auto simp: ok_elements_def)
    moreover have "list_all is_code_point s \<Longrightarrow> list_all is_code_point (skip_ws cs)"
      using skip_ws_shorter [of cs] by (auto simp: s dest: shorter_cp)
    moreover have "shorter r s" using skip_ws_shorter_trans [OF r] by (simp add: s shorter_Cons)
    ultimately show ?thesis using arr(3) by auto
  next
    case word
    then show ?thesis by (auto intro: starts_with_drop)
  next
    case num
    then show ?thesis using match_number_result by blast
  qed
qed

lemma scan_results: "ok_once n \<and> ok_members n \<and> ok_elements n"
proof (induction n)
  case 0
  show ?case by (simp add: ok_once_def ok_members_def ok_elements_def)
next
  case (Suc n)
  then show ?case by (simp add: ok_once_Suc ok_members_Suc ok_elements_Suc)
qed

section \<open>The scanner always answers\<close>

definition answers :: "'a res \<Rightarrow> bool" where
  "answers m \<longleftrightarrow> (\<forall>msg. m \<noteq> Inl (OutOfFuel, msg))"

lemma answers_simps [simp]:
  "answers (Inr x)" "answers (Inl (c, msg)) \<longleftrightarrow> c \<noteq> OutOfFuel"
  by (auto simp: answers_def)

lemma answers_ebind: "answers m \<Longrightarrow> (\<And>x. m = Inr x \<Longrightarrow> answers (f x)) \<Longrightarrow> answers (ebind m f)"
  by (cases m) (auto simp: answers_def)

lemma answers_ensure [simp]: "answers (ensure c e msg k) \<longleftrightarrow> (if c then answers k else e \<noteq> OutOfFuel)"
  by (auto simp: ensure_def)

lemma answers_first_cons [simp]: "answers (first_cons x m) \<longleftrightarrow> answers m"
  by (cases m) (auto simp: first_cons_def answers_def)

lemma answers_scan_string [simp]: "answers (scan_string s)"
  by (induction s rule: scan_string.induct) (auto split: option.splits list.splits)

lemma answers_match_number [simp]: "answers (match_number s)"
  by (auto simp: match_number_def finish_number_def reject_float_def Let_def split: list.splits)

lemma answers_reject_from [simp]: "answers (reject_duplicate_keys_from acc kvs)"
  by (induction acc kvs rule: reject_duplicate_keys_from.induct) auto

lemma scan_answers:
  "(\<forall>s. 2 * length s < n \<longrightarrow> answers (scan_once n s)) \<and>
   (\<forall>s. 2 * length s + 1 < n \<longrightarrow> answers (scan_members n s)) \<and>
   (\<forall>s. 2 * length s + 1 < n \<longrightarrow> answers (scan_elements n s))"
proof (induction n)
  case 0
  show ?case by simp
next
  case (Suc n)
  have left: "length r < length s" if "scan_once n s = Inr (v, r)" for v r s
    using that scan_results [of n] by (auto simp: ok_once_def dest!: shorter_length)
  have ws: "length (skip_ws s) \<le> length s" for s
    by (simp add: skip_ws_def length_dropWhile_le)
  have cons: "length (x # xs) \<le> length s" if "skip_ws s = x # xs" for x xs s
    using that ws [of s] by simp
  have str: "length r < length s" if "scan_string s = Inr (t, r)" for t r s
    using scan_string_result [OF that] shorter_length by blast
  have once: "answers (scan_once (Suc n) s)" if "2 * length s < Suc n" for s
    using that Suc.IH unfolding scan_once.simps(2)
    by (cases s) (auto simp: reject_constant_def reject_duplicate_keys_def intro!: answers_ebind
        split: list.splits dest!: cons)
  have members: "answers (scan_members (Suc n) s)" if "2 * length s + 1 < Suc n" for s
  proof (cases s)
    case Nil
    then show ?thesis by (simp add: scan_members.simps(2))
  next
    case (Cons q t)
    have step: "answers (case skip_ws r1 of [] \<Rightarrow> raise JSONDecodeError ''Expecting , delimiter''
        | e # es \<Rightarrow> if e = 125 then Inr ([(k, v)], es)
            else ensure (e = 44) JSONDecodeError ''Expecting , delimiter''
              (first_cons (k, v) (scan_members n (skip_ws es))))" if r1: "length r1 < length t" for r1 k v
    proof (cases "skip_ws r1")
      case (Cons e es)
      then have "2 * length (skip_ws es) + 1 < n"
        using cons [OF Cons] ws [of es] r1 \<open>2 * length s + 1 < Suc n\<close> \<open>s = q # t\<close> by simp
      then show ?thesis using Suc.IH by (simp add: Cons)
    qed simp
    have val: "answers (ebind (scan_once n (skip_ws cs)) (\<lambda>(v, r1). case skip_ws r1 of
          [] \<Rightarrow> raise JSONDecodeError ''Expecting , delimiter''
        | e # es \<Rightarrow> if e = 125 then Inr ([(k, v)], es)
            else ensure (e = 44) JSONDecodeError ''Expecting , delimiter''
              (first_cons (k, v) (scan_members n (skip_ws es)))))" if cs: "length cs < length t" for k cs
    proof (rule answers_ebind)
      show "answers (scan_once n (skip_ws cs))"
        using ws [of cs] cs \<open>2 * length s + 1 < Suc n\<close> Suc.IH by (simp add: Cons)
      fix x
      assume "scan_once n (skip_ws cs) = Inr x"
      then have "length (snd x) < length t"
        using left [of "skip_ws cs" "fst x" "snd x"] ws [of cs] cs by simp
      then show "answers (case x of (v, r1) \<Rightarrow> case skip_ws r1 of
          [] \<Rightarrow> raise JSONDecodeError ''Expecting , delimiter''
        | e # es \<Rightarrow> if e = 125 then Inr ([(k, v)], es)
            else ensure (e = 44) JSONDecodeError ''Expecting , delimiter''
              (first_cons (k, v) (scan_members n (skip_ws es))))"
        using step by (cases x) simp
    qed
    have "answers (case x of (k, r) \<Rightarrow> case skip_ws r of [] \<Rightarrow> raise JSONDecodeError ''Expecting : delimiter''
       | c # cs \<Rightarrow> ensure (c = 58) JSONDecodeError ''Expecting : delimiter''
           (ebind (scan_once n (skip_ws cs)) (\<lambda>(v, r1). case skip_ws r1 of
              [] \<Rightarrow> raise JSONDecodeError ''Expecting , delimiter''
            | e # es \<Rightarrow> if e = 125 then Inr ([(k, v)], es)
                else ensure (e = 44) JSONDecodeError ''Expecting , delimiter''
                  (first_cons (k, v) (scan_members n (skip_ws es))))))" if "scan_string t = Inr x" for x
    proof (cases x)
      case (Pair k r)
      show ?thesis
      proof (cases "skip_ws r")
        case (Cons c cs)
        have "length cs < length t" using cons [OF Cons] str [of t k r] that Pair by simp
        then show ?thesis using val [of cs k] by (simp add: Pair Cons)
      qed (simp add: Pair)
    qed
    then show ?thesis by (simp add: Cons scan_members.simps(2) answers_ebind)
  qed
  have elements: "answers (scan_elements (Suc n) s)" if "2 * length s + 1 < Suc n" for s
    unfolding scan_elements.simps(2)
  proof (rule answers_ebind)
    show "answers (scan_once n s)" using that Suc.IH by auto
    fix x
    assume *: "scan_once n s = Inr x"
    obtain v r where x: "x = (v, r)" by (cases x)
    have "length (skip_ws es) < length s" if "skip_ws r = e # es" for e es
      using left [OF * [unfolded x]] cons [OF that] ws [of es] by simp
    with that Suc.IH show "answers (case x of (val, r) \<Rightarrow> case skip_ws r of [] \<Rightarrow> raise JSONDecodeError ''Expecting , delimiter''
       | e # es \<Rightarrow> if e = 93 then Inr ([val], es)
           else ensure (e = 44) JSONDecodeError ''Expecting , delimiter''
             (first_cons val (scan_elements n (skip_ws es))))"
      by (auto simp: x split: list.splits)
  qed
  from once members elements show ?case by blast
qed

lemma answers_econs [simp]: "answers (econs x m) \<longleftrightarrow> answers m"
  by (cases m) (auto simp: econs_def answers_def)

lemma answers_utf8 [simp]: "answers (utf8_decode bs)"
  by (induction bs rule: utf8_decode.induct) (auto split: list.splits)

lemma answers_units16 [simp]: "answers (units16 big bs)"
  by (induction big bs rule: units16.induct) auto

lemma answers_utf32 [simp]: "answers (utf32_decode big bs)"
  by (induction big bs rule: utf32_decode.induct) (auto simp: Let_def)

lemma answers_decode_document [simp]: "answers (decode_document b)"
  by (auto simp: decode_document_def utf16_decode_def Let_def intro: answers_ebind)

lemma parse_json_strict_answers: "answers (parse_json_strict doc)"
proof -
  have loads: "answers (loads_text s)" for s
    unfolding loads_text_def
  proof (rule answers_ebind)
    have "length (skip_ws s) \<le> length s" by (simp add: skip_ws_def length_dropWhile_le)
    then show "answers (scan_once (2 * length s + 2) (skip_ws s))"
      using scan_answers [of "2 * length s + 2"] by simp
  qed auto
  with answers_decode_document show ?thesis
    by (auto simp: parse_json_strict_def catch_as_def answers_def ebind_def ensure_def
        split: document.splits sum.splits if_splits)
qed

section \<open>What the parser raises\<close>

definition raises_in :: "exc set \<Rightarrow> 'a res \<Rightarrow> bool" where
  "raises_in S m \<longleftrightarrow> (\<forall>c t. m = Inl (c, t) \<longrightarrow> c \<in> S)"

lemma raises_in_simps [simp]:
  "raises_in S (Inr x)" "raises_in S (Inl (c, t)) \<longleftrightarrow> c \<in> S"
  by (auto simp: raises_in_def)

lemma raises_in_ebind:
  "raises_in S m \<Longrightarrow> (\<And>x. m = Inr x \<Longrightarrow> raises_in S (f x)) \<Longrightarrow> raises_in S (ebind m f)"
  by (cases m) (auto simp: raises_in_def)

lemma raises_in_ensure [simp]: "raises_in S (ensure c e msg k) \<longleftrightarrow> (if c then raises_in S k else e \<in> S)"
  by (auto simp: ensure_def)

lemma raises_in_first_cons [simp]: "raises_in S (first_cons x m) \<longleftrightarrow> raises_in S m"
  by (cases m) (auto simp: first_cons_def raises_in_def)

lemma raises_in_econs [simp]: "raises_in S (econs x m) \<longleftrightarrow> raises_in S m"
  by (cases m) (auto simp: econs_def raises_in_def)

lemma raises_in_mono: "raises_in S m \<Longrightarrow> S \<subseteq> T \<Longrightarrow> raises_in T m"
  by (auto simp: raises_in_def)

definition parser_exc :: "exc set" where
  "parser_exc = {CanonicalizationError, JSONDecodeError, UnicodeDecodeError, ValueError, OutOfFuel}"

lemma parser_exc_simps [simp]:
  "CanonicalizationError \<in> parser_exc" "JSONDecodeError \<in> parser_exc" "ValueError \<in> parser_exc"
  "OutOfFuel \<in> parser_exc" "UnicodeDecodeError \<in> parser_exc"
  by (simp_all add: parser_exc_def)

lemma raises_scan_string: "raises_in parser_exc (scan_string s)"
  by (induction s rule: scan_string.induct) (auto split: list.splits option.splits)

lemma raises_match_number: "raises_in parser_exc (match_number s)"
  by (auto simp: match_number_def finish_number_def reject_float_def Let_def split: list.splits)

lemma raises_reject_duplicate_keys: "raises_in parser_exc (reject_duplicate_keys kvs)"
proof -
  have "raises_in parser_exc (reject_duplicate_keys_from acc kvs)" for acc
    by (induction acc kvs rule: reject_duplicate_keys_from.induct) auto
  then show ?thesis by (simp add: reject_duplicate_keys_def)
qed

lemmas raises_parts = raises_scan_string raises_match_number raises_reject_duplicate_keys

lemma raises_scan:
  "raises_in parser_exc (scan_once n s) \<and> raises_in parser_exc (scan_members n s) \<and>
   raises_in parser_exc (scan_elements n s)"
proof (induction n arbitrary: s)
  case 0
  show ?case by simp
next
  case (Suc n)
  note IH = Suc.IH [THEN conjunct1] Suc.IH [THEN conjunct2, THEN conjunct1]
    Suc.IH [THEN conjunct2, THEN conjunct2]
  have "raises_in parser_exc (scan_once (Suc n) s)"
    unfolding scan_once.simps
    by (auto simp: IH raises_parts reject_constant_def intro!: raises_in_ebind split: list.splits)
  moreover have "raises_in parser_exc (scan_members (Suc n) s)"
    unfolding scan_members.simps
    by (auto simp: IH raises_parts intro!: raises_in_ebind split: list.splits)
  moreover have "raises_in parser_exc (scan_elements (Suc n) s)"
    unfolding scan_elements.simps
    by (auto simp: IH intro!: raises_in_ebind split: list.splits)
  ultimately show ?case by blast
qed

lemma raises_decode_document: "raises_in parser_exc (decode_document b)"
proof -
  have "raises_in parser_exc (utf8_decode bs)" for bs
    by (induction bs rule: utf8_decode.induct) (auto split: list.splits)
  moreover have "raises_in parser_exc (units16 big bs)" for big bs
    by (induction big bs rule: units16.induct) auto
  moreover have "raises_in parser_exc (utf32_decode big bs)" for big bs
    by (induction big bs rule: utf32_decode.induct) (auto simp: Let_def)
  ultimately show ?thesis
    by (auto simp: decode_document_def utf16_decode_def Let_def intro!: raises_in_ebind)
qed

lemma raises_loads_text: "raises_in parser_exc (loads_text s)"
  using raises_scan by (auto simp: loads_text_def intro!: raises_in_ebind)

section \<open>Oversized integers\<close>

text \<open>A run of digits beyond the limit of the decimal conversion.\<close>

definition oversized :: "ustring \<Rightarrow> bool" where
  "oversized s \<longleftrightarrow> (\<exists>before digits after. s = before @ digits @ after \<and> list_all is_digit digits \<and> 4300 < length digits)"

lemma oversized_append: "oversized r \<Longrightarrow> oversized (p @ r)"
  unfolding oversized_def by (metis append_assoc)

lemma oversized_shorter: "r = s \<or> shorter r s \<Longrightarrow> oversized r \<Longrightarrow> oversized s"
  by (auto simp: shorter_def intro: oversized_append)

lemma oversized_Cons: "oversized r \<Longrightarrow> oversized (c # r)"
  using oversized_append [of r "[c]"] by simp

text \<open>\<open>blames s m\<close>: a plain \<open>ValueError\<close> of \<open>m\<close> is due to such a run in \<open>s\<close>.\<close>

definition blames :: "ustring \<Rightarrow> 'a res \<Rightarrow> bool" where
  "blames s m \<longleftrightarrow> (\<forall>t. m = Inl (ValueError, t) \<longrightarrow> oversized s)"

lemma blames_simps [simp]: "blames s (Inr x)" "blames s (Inl (c, t)) \<longleftrightarrow> (c = ValueError \<longrightarrow> oversized s)"
  by (auto simp: blames_def)

lemma blames_ebind: "blames s m \<Longrightarrow> (\<And>x. m = Inr x \<Longrightarrow> blames s (f x)) \<Longrightarrow> blames s (ebind m f)"
  by (cases m) (auto simp: blames_def)

lemma blames_ensure [simp]: "blames s (ensure c e msg k) \<longleftrightarrow> (if c then blames s k else e = ValueError \<longrightarrow> oversized s)"
  by (auto simp: ensure_def)

lemma blames_first_cons [simp]: "blames s (first_cons x m) \<longleftrightarrow> blames s m"
  by (cases m) (auto simp: first_cons_def blames_def)

lemma blames_shorter: "blames r m \<Longrightarrow> r = s \<or> shorter r s \<Longrightarrow> blames s m"
  using oversized_shorter by (auto simp: blames_def)

lemma raises_blames: "raises_in S m \<Longrightarrow> ValueError \<notin> S \<Longrightarrow> blames s m"
  by (auto simp: raises_in_def blames_def)

lemma blames_scan_string: "blames s (scan_string t)"
proof -
  have "raises_in {JSONDecodeError} (scan_string t)"
    by (induction t rule: scan_string.induct) (auto split: list.splits option.splits)
  then show ?thesis by (rule raises_blames) simp
qed

lemma blames_reject_duplicate_keys: "blames s (reject_duplicate_keys kvs)"
proof -
  have "raises_in {CanonicalizationError} (reject_duplicate_keys_from acc kvs)" for acc
    by (induction acc kvs rule: reject_duplicate_keys_from.induct) auto
  then show ?thesis unfolding reject_duplicate_keys_def by (rule raises_blames) simp
qed

lemma blames_match_number: "blames s (match_number s)"
proof -
  define t where "t = (if s \<noteq> [] \<and> hd s = 45 then tl s else s)"
  have "t = s \<or> shorter t s" by (cases s) (auto simp: t_def intro!: shorter_Cons)
  moreover have "blames t (match_number s)"
  proof (cases t)
    case (Cons d ds)
    have "oversized t" if "is_digit d" "4300 < length (d # takeWhile is_digit ds)"
      unfolding oversized_def Cons
      by (rule exI [of _ "[]"], rule exI [of _ "d # takeWhile is_digit ds"], rule exI [of _ "dropWhile is_digit ds"])
        (use that in \<open>auto simp: list_all_iff dest: set_takeWhileD\<close>)
    then show ?thesis
      unfolding match_number_def Let_def t_def [symmetric] by (auto simp: Cons finish_number_def reject_float_def max_str_digits_def)
  qed (simp add: match_number_def Let_def t_def [symmetric])
  ultimately show ?thesis using blames_shorter by blast
qed

lemmas blames_parts = blames_scan_string blames_reject_duplicate_keys blames_match_number

lemma blames_scan: "blames s (scan_once n s) \<and> blames s (scan_members n s) \<and> blames s (scan_elements n s)"
proof (induction n arbitrary: s)
  case 0
  show ?case by simp
next
  case (Suc n)
  note IH = Suc.IH [THEN conjunct1] Suc.IH [THEN conjunct2, THEN conjunct1] Suc.IH [THEN conjunct2, THEN conjunct2]
  have ws: "shorter (skip_ws es) s" if "skip_ws r = e # es" "shorter r s" for r e es s
    using skip_ws_eq_Cons [OF that(1)] skip_ws_shorter [of es] that(2) by (auto intro: shorter_trans)
  have rest: "blames s (scan_once n (skip_ws es))" "blames s (scan_members n (skip_ws es))" "blames s (scan_elements n (skip_ws es))"
    if "skip_ws r = e # es" "shorter r s" for r e es s
    using blames_shorter [OF IH(1)] blames_shorter [OF IH(2)] blames_shorter [OF IH(3)] ws [OF that] by blast+
  have once: "shorter r t" if "scan_once n t = Inr (v, r)" for t v r using scan_results [of n] that by (auto simp: ok_once_def)
  have str: "shorter r t" if "scan_string t = Inr (v, r)" for t v r using scan_string_result [OF that] by blast
  have "blames s (scan_once (Suc n) s)"
  proof (cases s)
    case (Cons c cs)
    have cs: "shorter cs s" by (simp add: Cons shorter_Cons)
    have "blames s (scan_members n (d # ds))" "blames s (scan_elements n (d # ds))" if "skip_ws cs = d # ds" for d ds
      using blames_shorter [OF IH(2) [of "skip_ws cs"]] blames_shorter [OF IH(3) [of "skip_ws cs"]] skip_ws_shorter [of cs] cs that
      by (auto intro: shorter_trans)
    then show ?thesis
      using blames_match_number [of s] unfolding scan_once.simps
      by (auto simp: Cons blames_parts reject_constant_def intro!: blames_ebind split: list.splits)
  qed (simp add: scan_once.simps)
  moreover have "blames s (scan_elements (Suc n) s)"
    unfolding scan_elements.simps by (auto simp: IH(1) rest(3) once intro!: blames_ebind split: list.splits)
  moreover have "blames s (scan_members (Suc n) s)"
  proof (cases s)
    case (Cons q t)
    have key: "shorter r (x # t)" if "scan_string t = Inr (k, r)" for k r x
      using str [OF that] by (simp add: shorter_Cons)
    have val: "shorter r1 z" if "skip_ws r = c # cs" "shorter r z" "scan_once n (skip_ws cs) = Inr (v, r1)" for r c cs v r1 z
      using once [OF that(3)] ws [OF that(1,2)] shorter_trans by blast
    show ?thesis
      unfolding scan_members.simps Cons list.case
      by (auto simp: blames_parts intro!: blames_ebind split: list.splits) (blast intro: rest key val)+
  qed (simp add: scan_members.simps)
  ultimately show ?case by blast
qed

definition doc_wf :: "document \<Rightarrow> bool" where
  "doc_wf doc = (case doc of DocStr s \<Rightarrow> list_all is_code_point s | DocBytes b \<Rightarrow> True)"

lemma parse_json_strict_profile:
  assumes "parse_json_strict doc = Inr v" and "doc_wf doc"
  shows "profile v"
proof -
  have *: "profile v" if loads: "loads_text s = Inr v" and cp: "list_all is_code_point s" for s
  proof -
    obtain r where r: "scan_once (2 * length s + 2) (skip_ws s) = Inr (v, r)"
      using loads by (auto simp: loads_text_def res_simps)
    have "list_all is_code_point (skip_ws s)"
      using cp by (auto simp: skip_ws_def list_all_iff dest: set_dropWhileD)
    with r scan_results show ?thesis unfolding ok_once_def by blast
  qed
  then show ?thesis
    using assms decode_document_code_points
    by (auto simp: parse_json_strict_def doc_wf_def res_simps split: document.splits)
qed

section \<open>Properties\<close>

text \<open>
  C1. The canonical encoding can be read back: whatever \<open>canonical_bytes\<close> produced, strict
  parsing gives the same value with the items of every object in key order, and encoding
  that value gives the same bytes again.
\<close>

theorem canonical_roundtrip:
  assumes "py_wf v" and "canonical_bytes v = Inr b"
  shows "parse_json_strict (DocBytes b) = Inr (canon v) \<and> canonical_bytes (canon v) = Inr b"
  using canonical_reads_back [OF assms] canonical_bytes_canon [OF assms] by simp

theorem canonical_roundtrip_witness:
  "parse_json_strict (DocBytes ''{\"a\":[1,true],\"b\":null}'') =
     Inr (VDict [(KStr (lit ''a''), VList [VInt 1, VBool True]), (KStr (lit ''b''), VNone)])"
proof -
  let ?v = "VDict [(KStr (lit ''b''), VNone), (KStr (lit ''a''), VList [VInt 1, VBool True])]"
  have "py_wf ?v" by code_simp
  moreover have "canonical_bytes ?v = Inr ''{\"a\":[1,true],\"b\":null}''" by code_simp
  moreover have "canon ?v = VDict [(KStr (lit ''a''), VList [VInt 1, VBool True]), (KStr (lit ''b''), VNone)]"
    by code_simp
  ultimately show ?thesis using canonical_roundtrip [of ?v] by simp
qed

text \<open>
  C2. Canonical bytes are an identity: two values have the same canonical bytes exactly when
  they are the same value up to the insertion order of their objects.
\<close>

theorem canonical_identity:
  assumes "py_wf v" "py_wf w" and "canonical_bytes v = Inr b" "canonical_bytes w = Inr c"
  shows "b = c \<longleftrightarrow> canon v = canon w"
proof
  assume "b = c"
  then show "canon v = canon w" using canonical_bytes_inject assms by blast
next
  assume "canon v = canon w"
  then have "canonical_bytes v = canonical_bytes w"
    using assms by (intro canonical_bytes_cong canonical_bytes_Inr_profile)
  then show "b = c" using assms by simp
qed

theorem canonical_identity_witness:
  "canonical_bytes (VDict [(KStr (lit ''b''), VInt 2), (KStr (lit ''a''), VInt 1)]) = Inr ''{\"a\":1,\"b\":2}'' \<and>
   (''{\"a\":1,\"b\":2}'' = ''{\"a\":2,\"b\":2}'' \<longleftrightarrow>
    canon (VDict [(KStr (lit ''b''), VInt 2), (KStr (lit ''a''), VInt 1)]) =
    canon (VDict [(KStr (lit ''a''), VInt 2), (KStr (lit ''b''), VInt 2)]))"
proof -
  let ?v = "VDict [(KStr (lit ''b''), VInt 2), (KStr (lit ''a''), VInt 1)]"
    and ?w = "VDict [(KStr (lit ''a''), VInt 2), (KStr (lit ''b''), VInt 2)]"
  have "py_wf ?v" "py_wf ?w" by code_simp+
  moreover have "canonical_bytes ?v = Inr ''{\"a\":1,\"b\":2}''" "canonical_bytes ?w = Inr ''{\"a\":2,\"b\":2}''"
    by code_simp+
  ultimately show ?thesis using canonical_identity by blast
qed

text \<open>
  C39. A document that strict parsing accepts is a value of the profile: no floating-point
  number, only text keys, no key twice in an object, every integer within the decimal
  conversion limit. Encoding it canonically can therefore fail only where UTF-8 refuses an
  unpaired surrogate, and then with \<open>UnicodeEncodeError\<close>.
\<close>

theorem parsed_document_is_canonical:
  assumes "parse_json_strict doc = Inr v" and "doc_wf doc"
  shows "py_wf v \<and> validate_value v = Inr () \<and>
    ((\<exists>b. canonical_bytes v = Inr b) \<or>
     canonical_bytes v = raise UnicodeEncodeError ''surrogates not allowed'')"
proof -
  have "profile v" using parse_json_strict_profile [OF assms] .
  then show ?thesis
    using canonical_bytes_profile [of v] by (auto simp: profile_def utf8_encode_def ensure_def)
qed

theorem parsed_document_is_canonical_witness:
  "parse_json_strict (DocStr (lit ''[\"x\"]'')) = Inr (VList [VStr (lit ''x'')]) \<and>
   validate_value (VList [VStr (lit ''x'')]) = Inr ()"
proof -
  have "parse_json_strict (DocStr (lit ''[\"x\"]'')) = Inr (VList [VStr (lit ''x'')])" by code_simp
  moreover have "doc_wf (DocStr (lit ''[\"x\"]''))" by code_simp
  ultimately show ?thesis using parsed_document_is_canonical by blast
qed

text \<open>The text that the scanner reads.\<close>

definition document_text :: "document \<Rightarrow> ustring res" where
  "document_text doc = (case doc of DocStr s \<Rightarrow> Inr s | DocBytes b \<Rightarrow> decode_document b)"

lemma blames_document:
  assumes "parse_json_strict doc = Inl (ValueError, msg)"
  shows "\<exists>s. document_text doc = Inr s \<and> oversized s"
proof -
  have loads: "blames s (loads_text s)" for s
    using blames_scan [of "skip_ws s"] skip_ws_shorter [of s]
    by (auto simp: loads_text_def intro!: blames_ebind intro: blames_shorter)
  have decode: "decode_document b \<noteq> Inl (ValueError, msg)" for b
  proof -
    have "raises_in {UnicodeDecodeError} (utf8_decode bs)" for bs
      by (induction bs rule: utf8_decode.induct) (auto split: list.splits)
    moreover have "raises_in {UnicodeDecodeError} (units16 big bs)" for big bs
      by (induction big bs rule: units16.induct) auto
    moreover have "raises_in {UnicodeDecodeError} (utf32_decode big bs)" for big bs
      by (induction big bs rule: utf32_decode.induct) (auto simp: Let_def)
    ultimately have "raises_in {UnicodeDecodeError} (decode_document b)"
      by (auto simp: decode_document_def utf16_decode_def Let_def intro!: raises_in_ebind)
    then show ?thesis by (auto simp: raises_in_def)
  qed
  show ?thesis
  proof (cases doc)
    case (DocStr s)
    then have "loads_text s = Inl (ValueError, msg)"
      using assms by (auto simp: parse_json_strict_def catch_as_def ensure_def split: sum.splits if_splits prod.splits)
    then show ?thesis using loads [of s] DocStr by (simp add: document_text_def)
  next
    case (DocBytes b)
    then obtain s where "decode_document b = Inr s" "loads_text s = Inl (ValueError, msg)"
      using assms decode [of b] by (cases "decode_document b") (auto simp: parse_json_strict_def catch_as_def split: sum.splits if_splits prod.splits)
    then show ?thesis using loads [of s] DocBytes by (simp add: document_text_def)
  qed
qed

text \<open>
  C40. What strict parsing refuses, it refuses with \<open>CanonicalizationError\<close>: the errors of decoding
  and of the scanner and the prohibited numbers, constants and keys. The one exception is a plain
  \<open>ValueError\<close>, and it is raised only when the text contains a run of more than 4300 digits.
  (Texts nested beyond the interpreter's stack are outside the model.)
\<close>

theorem parse_json_strict_raises:
  assumes "parse_json_strict doc = Inl (c, msg)"
  shows "c = CanonicalizationError \<or>
    c = ValueError \<and> (\<exists>before digits after. document_text doc = Inr (before @ digits @ after) \<and> list_all is_digit digits \<and> 4300 < length digits)"
proof -
  have "raises_in parser_exc
      (case doc of
         DocStr s \<Rightarrow> ensure (\<not> (s \<noteq> [] \<and> hd s = 0xFEFF)) JSONDecodeError ''Unexpected UTF-8 BOM'' (loads_text s)
       | DocBytes b \<Rightarrow> ebind (decode_document b) loads_text)" (is "raises_in _ ?m")
    using raises_loads_text raises_decode_document
    by (auto split: document.splits intro!: raises_in_ebind)
  moreover have "c \<noteq> OutOfFuel"
    using parse_json_strict_answers [of doc] assms by (auto simp: answers_def)
  ultimately have "c = CanonicalizationError \<or> c = ValueError"
    using assms unfolding parse_json_strict_def catch_as_def
    by (auto simp: raises_in_def parser_exc_def split: sum.splits prod.splits if_splits)
  then show ?thesis using assms blames_document [of doc msg] unfolding oversized_def by blast
qed

lemma long_number_refused:
  assumes "4300 < k"
  shows "parse_json_strict (DocStr (replicate k 49)) = raise ValueError ''Exceeds the limit for integer string conversion''"
proof -
  obtain j where k: "k = Suc j" using assms by (cases k) auto
  have digits: "takeWhile is_digit (replicate j 49) = replicate j 49" "dropWhile is_digit (replicate j 49) = []"
    by (simp_all add: is_digit_def)
  have "scan_once (Suc n) (49 # replicate j 49) = raise ValueError ''Exceeds the limit for integer string conversion''" for n
    using assms by (simp add: k scan_once.simps starts_with_def lit_def match_number_def finish_number_def digits is_digit_def max_str_digits_def has_fraction_def has_exponent_def)
  then show ?thesis
    by (simp add: parse_json_strict_def loads_text_def skip_ws_def is_ws_def catch_as_def k)
qed

text \<open>A number of 4301 digits.\<close>

theorem parse_json_strict_raises_witness:
  "parse_json_strict (DocStr (replicate 4301 49)) = raise ValueError ''Exceeds the limit for integer string conversion'' \<and>
   (\<exists>before digits after. replicate 4301 (49 :: int) = before @ digits @ after \<and> list_all is_digit digits \<and> 4300 < length digits)"
proof -
  have *: "parse_json_strict (DocStr (replicate 4301 49)) = raise ValueError ''Exceeds the limit for integer string conversion''"
    by (rule long_number_refused) simp
  from parse_json_strict_raises [OF *] * show ?thesis unfolding document_text_def document.case sum.inject by blast
qed

end
