(* ===== verification/Hashing.thy ===== *)
theory Hashing
  imports Scanner
begin

text \<open>
  \<open>hashing.py\<close>: algorithm-qualified SHA-256 digests and the domain-separated digest of a
  protocol object, on top of the canonical encoding. The theory also declares the
  environment record \<open>env\<close> that the whole development is parameterised by: code that is not
  part of the repository.

  \<^item> \<open>uni_space\<close>, \<open>uni_printable\<close>, \<open>uni_casefold\<close>: the Unicode character database behind
    \<open>str.isspace\<close>, \<open>str.isprintable\<close> and \<open>str.casefold\<close>, consulted for code points beyond
    ASCII only.
  \<^item> \<open>ed_public\<close>, \<open>ed_sign\<close>, \<open>ed_verify\<close>: Ed25519 of the package \<open>cryptography\<close>, on raw
    private keys, raw public keys, signatures and messages.
  \<^item> \<open>schema_ok\<close>: the \<open>jsonschema\<close> validator, for a schema name and an instance.
\<close>

record env =
  uni_space :: "int \<Rightarrow> bool"
  uni_printable :: "int \<Rightarrow> bool"
  uni_casefold :: "int \<Rightarrow> ustring"
  ed_public :: "bytes \<Rightarrow> bytes"
  ed_sign :: "bytes \<Rightarrow> bytes \<Rightarrow> bytes"
  ed_verify :: "bytes \<Rightarrow> bytes \<Rightarrow> bytes \<Rightarrow> bool"
  schema_ok :: "string \<Rightarrow> pyval \<Rightarrow> bool"

section \<open>Character classes\<close>

definition char_isspace :: "env \<Rightarrow> int \<Rightarrow> bool" where
  "char_isspace E c =
     (if c < 128 then 9 \<le> c \<and> c \<le> 13 \<or> 28 \<le> c \<and> c \<le> 32 else uni_space E c)"

definition char_isprintable :: "env \<Rightarrow> int \<Rightarrow> bool" where
  "char_isprintable E c = (if c < 128 then 32 \<le> c \<and> c \<le> 126 else uni_printable E c)"

definition char_casefold :: "env \<Rightarrow> int \<Rightarrow> ustring" where
  "char_casefold E c =
     (if c < 128 then (if 65 \<le> c \<and> c \<le> 90 then [c + 32] else [c]) else uni_casefold E c)"

definition casefold :: "env \<Rightarrow> ustring \<Rightarrow> ustring" where
  "casefold E s = concat (map (char_casefold E) s)"

definition strip :: "env \<Rightarrow> ustring \<Rightarrow> ustring" where
  "strip E s = rev (dropWhile (char_isspace E) (rev (dropWhile (char_isspace E) s)))"

section \<open>Digests\<close>

definition sha256_digest :: "bytes \<Rightarrow> ustring" where
  "sha256_digest payload = lit ''sha256:'' @ hex (sha256 payload)"

text \<open>The four characters backslash, x, 0, 0.\<close>

definition frame_separator :: ustring where
  "frame_separator = [92, 120, 48, 48]"

definition profile_name :: ustring where
  "profile_name = lit ''guardian-json-v1''"

definition validate_domain :: "env \<Rightarrow> ustring \<Rightarrow> unit res" where
  "validate_domain E domain =
     (if domain = [] \<or>
         (\<exists>c \<in> set domain. char_isspace E c \<or> \<not> char_isprintable E c \<or> c = 92)
      then raise ValueError ''domain must be a non-empty printable token without whitespace or backslash''
      else Inr ())"

definition digest_prefix :: "ustring \<Rightarrow> ustring" where
  "digest_prefix domain =
     lit ''integrity-guardian'' @ frame_separator @ profile_name @ frame_separator
       @ domain @ frame_separator"

text \<open>The bytes that are hashed, and the digest.\<close>

definition digest_input :: "env \<Rightarrow> pyval \<Rightarrow> ustring \<Rightarrow> bytes res" where
  "digest_input E value domain =
     ebind (validate_domain E domain) (\<lambda>_.
     ebind (utf8_encode (digest_prefix domain)) (\<lambda>prefix.
     ebind (canonical_bytes value) (\<lambda>body. Inr (prefix @ body))))"

definition digest_object :: "env \<Rightarrow> pyval \<Rightarrow> ustring \<Rightarrow> ustring res" where
  "digest_object E value domain =
     ebind (digest_input E value domain) (\<lambda>payload. Inr (sha256_digest payload))"

section \<open>Facts\<close>

lemma sha256_digest_eq: "sha256_digest a = sha256_digest b \<Longrightarrow> a = b \<or> sha256_collision a b"
  unfolding sha256_digest_def sha256_collision_def by (metis append_same_eq hex_inject same_append_eq)

lemma length_sha256_digest [simp]: "length (sha256_digest b) = 71"
  by (simp add: sha256_digest_def)

text \<open>UTF-8 encoding of two texts with a common separator that starts at the first backslash.\<close>

lemma utf8_encode_inject:
  assumes "utf8_encode s = Inr b" and "utf8_encode t = Inr b"
  shows "s = t"
proof -
  have cp: "list_all is_code_point s" "list_all is_code_point t"
    and b: "b = map char_of (concat (map utf8_char s))" "b = map char_of (concat (map utf8_char t))"
    using assms by (auto simp: utf8_encode_def res_simps list_all_iff)
  have "map of_char b = concat (map utf8_char u)"
    if "list_all is_code_point u" "b = map char_of (concat (map utf8_char u))" for u
    unfolding that(2)
  proof (rule map_of_char_char_of)
    fix x assume "x \<in> set (concat (map utf8_char u))"
    then obtain c where "c \<in> set u" "x \<in> set (utf8_char c)" by auto
    then show "0 \<le> x \<and> x < 256" using utf8_char_range that(1) by (auto simp: list_all_iff)
  qed
  with cp b have "concat (map utf8_char s) = concat (map utf8_char t)" by metis
  then have "(Inr s :: ustring res) = Inr t"
    using utf8_roundtrip [OF cp(1)] utf8_roundtrip [OF cp(2)] by (rule box_equals [OF arg_cong])
  then show ?thesis by (rule Inr_inject)
qed

lemma utf8_encode_append:
  "utf8_encode s = Inr a \<Longrightarrow> utf8_encode t = Inr b \<Longrightarrow> utf8_encode (s @ t) = Inr (a @ b)"
  by (auto simp: utf8_encode_def res_simps)

lemma canonical_bytes_text: "canonical_bytes v = Inr b \<Longrightarrow> utf8_encode (dumps v) = Inr b"
  by (auto simp: canonical_bytes_def res_simps)

lemma digest_input_text:
  assumes "digest_input E v d = Inr p"
  shows "utf8_encode (digest_prefix d @ dumps v) = Inr p" "92 \<notin> set d"
    "\<exists>b. canonical_bytes v = Inr b"
  using assms
  by (auto simp: digest_input_def validate_domain_def res_simps split: if_splits
      intro: utf8_encode_append canonical_bytes_text)

lemma digest_prefix_inject:
  assumes "digest_prefix d @ x = digest_prefix d' @ y" and "92 \<notin> set d" and "92 \<notin> set d'"
  shows "d = d' \<and> x = y"
  using assms append_sep_inject [of d 92 "[120, 48, 48] @ x" d' "[120, 48, 48] @ y"]
  by (auto simp: digest_prefix_def frame_separator_def)

lemma digest_input_inject:
  assumes "digest_input E v d = Inr p" "digest_input E w d' = Inr p" "py_wf v" "py_wf w"
  shows "d = d' \<and> canon v = canon w"
proof -
  note v = digest_input_text [OF assms(1)] and w = digest_input_text [OF assms(2)]
  have "d = d' \<and> dumps v = dumps w"
    using utf8_encode_inject [OF v(1) w(1)] v(2) w(2) by (rule digest_prefix_inject)
  moreover obtain b c where b: "canonical_bytes v = Inr b" "canonical_bytes w = Inr c"
    using v(3) w(3) by auto
  moreover have "b = c"
    using canonical_bytes_text [OF b(1)] canonical_bytes_text [OF b(2)] calculation(1) by simp
  ultimately show ?thesis using canonical_bytes_inject assms(3,4) by blast
qed

text \<open>Every digest has the shape the schemas and regular expressions require.\<close>

lemma digest_object_shape:
  assumes "digest_object E v d = Inr x"
  shows "\<exists>h. x = lit ''sha256:'' @ h \<and> length h = 64 \<and>
    (\<forall>c \<in> set h. 48 \<le> c \<and> c \<le> 57 \<or> 97 \<le> c \<and> c \<le> 102)"
  using assms hex_digits_range by (auto simp: digest_object_def sha256_digest_def res_simps)

section \<open>A concrete environment\<close>

text \<open>An instance of the environment, used to evaluate examples: characters beyond ASCII
  are plain printable ones, a signature is made of the key and the message, and every
  instance satisfies every schema.\<close>

definition demo_sign :: "bytes \<Rightarrow> bytes \<Rightarrow> bytes" where
  "demo_sign k m = take 64 (k @ m @ replicate 64 (CHR 0x00))"

definition demo_env :: env where
  "demo_env = \<lparr>uni_space = \<lambda>_. False, uni_printable = \<lambda>_. True, uni_casefold = \<lambda>c. [c],
     ed_public = \<lambda>k. k, ed_sign = demo_sign, ed_verify = \<lambda>k m s. s = demo_sign k m,
     schema_ok = \<lambda>_ _. True\<rparr>"

section \<open>Properties\<close>

text \<open>
  C3. A digest binds the domain and the value: when two calls of \<open>digest_object\<close> give the
  same identifier, the domains are equal and the values are equal up to the order of object
  items, or the two hashed byte strings themselves are a SHA-256 collision.
\<close>

theorem digest_object_binding:
  assumes "digest_object E v d = Inr x" and "digest_object E w d' = Inr x" and "py_wf v" "py_wf w"
  shows "d = d' \<and> canon v = canon w \<or>
    (\<exists>p q. digest_input E v d = Inr p \<and> digest_input E w d' = Inr q \<and> sha256_collision p q)"
proof -
  obtain p q where p: "digest_input E v d = Inr p" "x = sha256_digest p"
    and q: "digest_input E w d' = Inr q" "x = sha256_digest q"
    using assms(1,2) by (auto simp: digest_object_def res_simps)
  from p q have "p = q \<or> sha256_collision p q" using sha256_digest_eq by simp
  then show ?thesis using p q digest_input_inject assms(3,4) by blast
qed

theorem digest_object_binding_witness:
  "\<exists>x. digest_object demo_env (VList [VInt 1]) (lit ''demo'') = Inr x \<and>
     (lit ''demo'' = lit ''demo'' \<and> canon (VList [VInt 1]) = canon (VList [VInt 1]) \<or>
      (\<exists>p q. digest_input demo_env (VList [VInt 1]) (lit ''demo'') = Inr p \<and>
             digest_input demo_env (VList [VInt 1]) (lit ''demo'') = Inr q \<and> sha256_collision p q))"
proof -
  let ?v = "VList [VInt 1]"
  have "digest_input demo_env ?v (lit ''demo'') =
      Inr (''integrity-guardian'' @ map char_of frame_separator @ ''guardian-json-v1'' @
           map char_of frame_separator @ ''demo'' @ map char_of frame_separator @ ''[1]'')"
    by code_simp
  then obtain x where x: "digest_object demo_env ?v (lit ''demo'') = Inr x"
    by (simp add: digest_object_def)
  moreover have "py_wf ?v" by simp
  ultimately show ?thesis using digest_object_binding [OF x x] by blast
qed

end
