(* ===== verification/Vectors.thy ===== *)
theory Vectors
  imports Hashing
begin

text \<open>
  The conformance vector of the object identifiers, computed by the model: the encoding, the
  framing and two blocks of SHA-256 are evaluated inside the logic. It ties the definitions of
  \<open>Sha256\<close>, \<open>Canonical\<close> and \<open>Hashing\<close> to the value the repository publishes.
\<close>

text \<open>
  The published conformance vector: the object with the members \<open>b = 2\<close> and \<open>a = 1\<close>
  in the domain \<open>demo\<close> has the identifier the README prints, in every environment.
\<close>

theorem digest_object_vector:
  "digest_object E (VDict [(KStr (lit ''b''), VInt 2), (KStr (lit ''a''), VInt 1)]) (lit ''demo'') =
     Inr (lit ''sha256:642c2d4d9286b31e56f6090f47b0435de8b034e713fe160d5ba51457138954b8'')"
proof -
  have dom: "validate_domain E (lit ''demo'') = Inr ()"
    by (simp add: validate_domain_def lit_def char_isspace_def char_isprintable_def)
  have "utf8_encode (digest_prefix (lit ''demo'')) =
      Inr (''integrity-guardian'' @ map char_of frame_separator @ ''guardian-json-v1'' @
           map char_of frame_separator @ ''demo'' @ map char_of frame_separator)" (is "_ = Inr ?p")
    by code_simp
  moreover have "canonical_bytes (VDict [(KStr (lit ''b''), VInt 2), (KStr (lit ''a''), VInt 1)]) =
      Inr ''{\"a\":1,\"b\":2}''" (is "_ = Inr ?b")
    by code_simp
  moreover have "sha256_digest (?p @ ?b) =
      lit ''sha256:642c2d4d9286b31e56f6090f47b0435de8b034e713fe160d5ba51457138954b8''"
    by code_simp
  ultimately show ?thesis using dom by (simp add: digest_object_def digest_input_def)
qed

end
