(* ===== verification/PyDict.thy ===== *)
theory PyDict
  imports Hashing "HOL-Library.AList"
begin

text \<open>
  Python dictionaries with text keys as the protocol code uses them: subscription, \<open>get\<close>,
  assignment, \<open>pop\<close>, membership, and the equality \<open>==\<close> of Python values. A dictionary is
  its list of items in insertion order, so assignment to an existing key keeps its place and
  assignment to a new key appends. Copies (\<open>deepcopy\<close>) are the identity on these values.
\<close>

type_synonym pydict = "(pykey \<times> pyval) list"

abbreviation tkey :: "string \<Rightarrow> pykey" where
  "tkey k \<equiv> KStr (lit k)"

definition dict_find :: "pydict \<Rightarrow> string \<Rightarrow> pyval option" where
  "dict_find d k = map_of d (tkey k)"

text \<open>\<open>d.get(k)\<close>\<close>

definition dict_get :: "pydict \<Rightarrow> string \<Rightarrow> pyval" where
  "dict_get d k = (case dict_find d k of None \<Rightarrow> VNone | Some v \<Rightarrow> v)"

text \<open>\<open>k in d\<close>\<close>

definition dict_has :: "pydict \<Rightarrow> string \<Rightarrow> bool" where
  "dict_has d k \<longleftrightarrow> dict_find d k \<noteq> None"

text \<open>\<open>d[k] = v\<close>\<close>

definition dict_put :: "pydict \<Rightarrow> string \<Rightarrow> pyval \<Rightarrow> pydict" where
  "dict_put d k v = AList.update (tkey k) v d"

text \<open>\<open>d.pop(k, None)\<close>, as a change of \<open>d\<close>\<close>

definition dict_pop :: "pydict \<Rightarrow> string \<Rightarrow> pydict" where
  "dict_pop d k = AList.delete (tkey k) d"

text \<open>\<open>v[k]\<close> for a text key: only a dictionary has text keys.\<close>

definition item :: "pyval \<Rightarrow> string \<Rightarrow> pyval res" where
  "item v k =
     (case v of
        VDict d \<Rightarrow> (case dict_find d k of None \<Rightarrow> raise KeyError k | Some x \<Rightarrow> Inr x)
      | _ \<Rightarrow> raise TypeError ''object is not subscriptable by a string'')"

abbreviation field :: "pydict \<Rightarrow> string \<Rightarrow> pyval res" where
  "field d k \<equiv> item (VDict d) k"

text \<open>A member that the schema of the document pins to text; the other branch is a document
  the schema has refused before.\<close>

definition text_item :: "pyval \<Rightarrow> string \<Rightarrow> ustring res" where
  "text_item v k = ebind (item v k) (\<lambda>x. case x of VStr s \<Rightarrow> Inr s | _ \<Rightarrow> raise TypeError k)"

text \<open>A dictionary display with text keys.\<close>

definition mk_dict :: "(string \<times> pyval) list \<Rightarrow> pydict" where
  "mk_dict kvs = map (\<lambda>(k, v). (tkey k, v)) kvs"

definition opt_str :: "ustring option \<Rightarrow> pyval" where
  "opt_str x = (case x of None \<Rightarrow> VNone | Some s \<Rightarrow> VStr s)"

abbreviation vlit :: "string \<Rightarrow> pyval" where
  "vlit s \<equiv> VStr (lit s)"

text \<open>
  \<open>==\<close>: a truth value equals the integer 0 or 1, dictionaries are compared without regard to
  order. A floating-point number is kept as text and is compared with other floating-point
  numbers only; no such number passes canonicalisation.
\<close>

fun py_eq :: "pyval \<Rightarrow> pyval \<Rightarrow> bool" where
  "py_eq (VBool a) (VInt n) \<longleftrightarrow> n = (if a then 1 else 0)"
| "py_eq (VInt n) (VBool a) \<longleftrightarrow> n = (if a then 1 else 0)"
| "py_eq (VList xs) (VList ys) \<longleftrightarrow> list_all2 py_eq xs ys"
| "py_eq (VDict a) (VDict b) \<longleftrightarrow>
     length a = length b \<and>
     (\<forall>(k, v) \<in> set a. case map_of b k of None \<Rightarrow> False | Some w \<Rightarrow> py_eq v w)"
| "py_eq a b \<longleftrightarrow> a = b"

text \<open>Truth of a value (\<open>bool(v)\<close>).\<close>

fun truthy :: "pyval \<Rightarrow> bool" where
  "truthy VNone \<longleftrightarrow> False"
| "truthy (VBool b) \<longleftrightarrow> b"
| "truthy (VInt n) \<longleftrightarrow> n \<noteq> 0"
| "truthy (VStr s) \<longleftrightarrow> s \<noteq> []"
| "truthy (VBytes b) \<longleftrightarrow> b \<noteq> []"
| "truthy (VList xs) \<longleftrightarrow> xs \<noteq> []"
| "truthy (VDict d) \<longleftrightarrow> d \<noteq> []"
| "truthy (VFloat x) \<longleftrightarrow> x \<notin> {lit ''0.0'', lit ''-0.0''}"
| "truthy (VOther t) \<longleftrightarrow> True"

text \<open>\<open>digest.split(":", 1)[1]\<close>\<close>

definition after_colon :: "ustring \<Rightarrow> ustring res" where
  "after_colon s =
     (case split_once 58 s of None \<Rightarrow> raise IndexError ''list index out of range'' | Some (a, b) \<Rightarrow> Inr b)"

section \<open>Facts\<close>

lemma dict_find_put: "dict_find (dict_put d k v) k' = (if k = k' then Some v else dict_find d k')"
  by (simp add: dict_find_def dict_put_def update_conv')

lemma dict_find_pop: "dict_find (dict_pop d k) k' = (if k = k' then None else dict_find d k')"
  by (simp add: dict_find_def dict_pop_def delete_conv')

lemma dict_find_mk: "dict_find (mk_dict kvs) k = map_of kvs k"
  by (induction kvs) (auto simp: mk_dict_def dict_find_def)

lemma dict_get_put: "dict_get (dict_put d k v) k' = (if k = k' then v else dict_get d k')"
  by (simp add: dict_get_def dict_find_put)

lemma dict_get_pop: "dict_get (dict_pop d k) k' = (if k = k' then VNone else dict_get d k')"
  by (simp add: dict_get_def dict_find_pop)

lemma dict_has_put: "dict_has (dict_put d k v) k' \<longleftrightarrow> k = k' \<or> dict_has d k'"
  by (simp add: dict_has_def dict_find_put)

lemma dict_has_pop: "dict_has (dict_pop d k) k' \<longleftrightarrow> k \<noteq> k' \<and> dict_has d k'"
  by (simp add: dict_has_def dict_find_pop)

lemma field_put: "field (dict_put d k v) k' = (if k = k' then Inr v else field d k')"
  by (simp add: item_def dict_find_put)

lemma field_pop: "field (dict_pop d k) k' = (if k = k' then raise KeyError k else field d k')"
  by (auto simp: item_def dict_find_pop)

lemma field_mk: "field (mk_dict kvs) k = (case map_of kvs k of None \<Rightarrow> raise KeyError k | Some x \<Rightarrow> Inr x)"
  by (simp add: item_def dict_find_mk)

lemmas dict_simps = dict_find_put dict_find_pop dict_get_put dict_get_pop dict_has_put dict_has_pop
  field_put field_pop field_mk dict_find_mk

lemma item_Inr: "item v k = Inr x \<longleftrightarrow> (\<exists>d. v = VDict d \<and> dict_find d k = Some x)"
  by (auto simp: item_def split: pyval.splits option.splits)

lemma field_Inr [res_simps]: "field d k = Inr x \<longleftrightarrow> dict_find d k = Some x"
  by (simp add: item_Inr)

lemma dict_pop_put [simp]: "dict_pop (dict_put d k v) k = dict_pop d k"
  by (simp add: dict_pop_def dict_put_def delete_update_same)

lemma dict_pop_absent [simp]: "dict_find d k = None \<Longrightarrow> dict_pop d k = d"
  unfolding dict_find_def dict_pop_def map_of_eq_None_iff by (rule delete_id) auto

lemma dict_pop_put_other: "k \<noteq> k' \<Longrightarrow> dict_pop (dict_put d k' v) k = dict_put (dict_pop d k) k' v"
  by (induction d) (auto simp: dict_pop_def dict_put_def)

lemma dict_put_put [simp]: "dict_put (dict_put d k v) k w = dict_put d k w"
  by (simp add: dict_put_def)

lemma dict_put_same: "dict_find d k = Some v \<Longrightarrow> dict_put d k v = d"
  by (induction d) (auto simp: dict_find_def dict_put_def split: if_splits)

lemma distinct_dict_put [simp]: "distinct (map fst (dict_put d k v)) \<longleftrightarrow> distinct (map fst d)"
  by (induction d) (auto simp: dict_put_def dom_update[simplified] set_map)

lemma distinct_dict_pop: "distinct (map fst d) \<Longrightarrow> distinct (map fst (dict_pop d k))"
  by (simp add: dict_pop_def distinct_delete)

lemma set_dict_put: "set (dict_put d k v) \<subseteq> insert (tkey k, v) (set d)"
  by (induction d) (auto simp: dict_put_def)

lemma set_dict_pop: "set (dict_pop d k) \<subseteq> set d"
  by (induction d) (auto simp: dict_pop_def)

lemma lit_code_points [simp]: "list_all is_code_point (lit s)"
  by (auto simp: list_all_iff is_code_point_def dest: set_lit_range)

lemma py_wf_put: "py_wf (VDict d) \<Longrightarrow> py_wf v \<Longrightarrow> py_wf (VDict (dict_put d k v))"
  using set_dict_put [of d k v] by fastforce

lemma py_wf_pop: "py_wf (VDict d) \<Longrightarrow> py_wf (VDict (dict_pop d k))"
  using set_dict_pop [of d k] distinct_dict_pop [of d k] by fastforce

lemma py_wf_find: "py_wf (VDict d) \<Longrightarrow> dict_find d k = Some v \<Longrightarrow> py_wf v"
  by (auto simp: dict_find_def dest!: map_of_SomeD)

lemma py_eq_str [simp]: "py_eq v (VStr s) \<longleftrightarrow> v = VStr s" "py_eq (VStr s) v \<longleftrightarrow> v = VStr s"
  by (cases v; auto)+

lemma py_eq_none [simp]: "py_eq v VNone \<longleftrightarrow> v = VNone" "py_eq VNone v \<longleftrightarrow> v = VNone"
  by (cases v; auto)+

lemma py_eq_refl: "py_wf v \<Longrightarrow> py_eq v v"
proof (induction v rule: py_wf.induct)
  case (2 vs)
  then show ?case by (auto simp: list_all2_same)
next
  case (3 kvs)
  have "map_of kvs k = Some v" if "(k, v) \<in> set kvs" for k v
    using that 3(2) by (simp add: map_of_eq_Some_iff_distinct)
  with 3 show ?case by fastforce
qed auto

lemma after_colon_digest [simp]: "after_colon (lit ''sha256:'' @ h) = Inr h"
  by (simp add: after_colon_def lit_def)

end
