(* ===== verification/Signing.thy ===== *)
theory Signing
  imports PyDict
begin

text \<open>
  \<open>signing.py\<close>: unpadded base64url text, the bytes a signature covers, signing and
  verification of protocol objects, and trusted public keys. Ed25519 itself is a parameter
  (\<open>ed_public\<close>, \<open>ed_sign\<close>, \<open>ed_verify\<close> of the environment) on raw keys; \<open>ed25519_ok\<close>
  states the documented behaviour of the package \<open>cryptography\<close> that the sign-then-verify
  theorems rest on. A raw public key of 32 bytes is accepted without further checks, as the
  package does.
\<close>

section \<open>Keys\<close>

record trusted_key =
  tk_key_id :: ustring
  tk_public_key :: bytes

record ed25519_signer =
  sg_key_id :: ustring
  sg_private_key :: bytes

definition ed25519_ok :: "env \<Rightarrow> bool" where
  "ed25519_ok E \<longleftrightarrow>
     (\<forall>k m. length k = 32 \<longrightarrow>
        length (ed_public E k) = 32 \<and> length (ed_sign E k m) = 64 \<and>
        ed_verify E (ed_public E k) m (ed_sign E k m))"

definition signer_public_key :: "env \<Rightarrow> ed25519_signer \<Rightarrow> bytes" where
  "signer_public_key E sg = ed_public E (sg_private_key sg)"

section \<open>Base64url\<close>

definition b64_char :: "int \<Rightarrow> int" where
  "b64_char v =
     (if v < 26 then 65 + v else if v < 52 then 71 + v else if v < 62 then v - 4
      else if v = 62 then 45 else 95)"

text \<open>\<open>urlsafe_b64encode\<close>, with its padding.\<close>

fun urlsafe_b64encode :: "int list \<Rightarrow> ustring" where
  "urlsafe_b64encode (a # b # c # r) =
     b64_char (a div 4) # b64_char (a mod 4 * 16 + b div 16) #
     b64_char (b mod 16 * 4 + c div 64) # b64_char (c mod 64) # urlsafe_b64encode r"
| "urlsafe_b64encode [a, b] =
     [b64_char (a div 4), b64_char (a mod 4 * 16 + b div 16), b64_char (b mod 16 * 4), 61]"
| "urlsafe_b64encode [a] = [b64_char (a div 4), b64_char (a mod 4 * 16), 61, 61]"
| "urlsafe_b64encode [] = []"

definition rstrip :: "'a \<Rightarrow> 'a list \<Rightarrow> 'a list" where
  "rstrip c s = rev (dropWhile (\<lambda>x. x = c) (rev s))"

definition base64url :: "bytes \<Rightarrow> ustring" where
  "base64url value = rstrip 61 (urlsafe_b64encode (map of_char value))"

text \<open>The alphabet that the decoder accepts: the URL-safe one and, since \<open>altchars\<close> only
  adds a translation, the standard one.\<close>

definition b64_value :: "int \<Rightarrow> int res" where
  "b64_value c =
     (if 65 \<le> c \<and> c \<le> 90 then Inr (c - 65)
      else if 97 \<le> c \<and> c \<le> 122 then Inr (c - 71)
      else if 48 \<le> c \<and> c \<le> 57 then Inr (c + 4)
      else if c = 45 \<or> c = 43 then Inr 62
      else if c = 95 \<or> c = 47 then Inr 63
      else raise BinasciiError ''Only base64 data is allowed'')"

fun join_sextets :: "int list \<Rightarrow> int list" where
  "join_sextets (a # b # c # d # r) =
     [a * 4 + b div 16, b mod 16 * 16 + c div 4, c mod 4 * 64 + d] @ join_sextets r"
| "join_sextets [a, b, c] = [a * 4 + b div 16, b mod 16 * 16 + c div 4]"
| "join_sextets [a, b] = [a * 4 + b div 16]"
| "join_sextets _ = []"

text \<open>\<open>b64decode(value + padding, altchars=b"-_", validate=True)\<close> on text without padding
  characters of its own.\<close>

definition b64decode_padded :: "ustring \<Rightarrow> bytes res" where
  "b64decode_padded s =
     ensure (\<forall>c \<in> set s. c < 128) ValueError ''string argument should contain only ASCII characters''
       (ebind (map_res b64_value s) (\<lambda>xs.
        ensure (length s mod 4 \<noteq> 1) BinasciiError ''number of data characters cannot be 1 more than a multiple of 4''
          (Inr (map char_of (join_sextets xs)))))"

definition unbase64url :: "pyval \<Rightarrow> bytes res" where
  "unbase64url value =
     (case value of
        VStr s \<Rightarrow>
          ensure (s \<noteq> [] \<and> 61 \<notin> set s) ValueError ''base64url value must be canonical and unpadded''
            (ebind (b64decode_padded s) (\<lambda>decoded.
             ensure (base64url decoded = s) ValueError ''base64url value is not canonical''
               (Inr decoded)))
      | _ \<Rightarrow> raise ValueError ''base64url value must be canonical and unpadded'')"

section \<open>Signatures\<close>

text \<open>The frame of the bytes that are signed: every kind of signed object has its label.\<close>

definition signing_frame :: "string \<Rightarrow> bytes" where
  "signing_frame label = ''integrity-guardian'' @ CHR 0x00 # label @ [CHR 0x00]"

definition signature_payload :: "pydict \<Rightarrow> bytes res" where
  "signature_payload document =
     ebind (canonical_bytes (VDict (dict_pop document ''signature''))) (\<lambda>body.
     Inr (signing_frame ''signed-object-v1'' @ body))"

definition sign_bytes :: "env \<Rightarrow> ed25519_signer \<Rightarrow> bytes \<Rightarrow> ustring" where
  "sign_bytes E sg payload = base64url (ed_sign E (sg_private_key sg) payload)"

definition signature_block :: "ustring \<Rightarrow> ustring \<Rightarrow> pyval" where
  "signature_block key_id val =
     VDict (mk_dict [(''algorithm'', vlit ''ed25519''), (''key_id'', VStr key_id), (''value'', VStr val)])"

definition sign :: "env \<Rightarrow> ed25519_signer \<Rightarrow> pydict \<Rightarrow> pydict res" where
  "sign E sg document =
     ebind (signature_payload document) (\<lambda>payload.
     Inr (dict_put document ''signature'' (signature_block (sg_key_id sg) (sign_bytes E sg payload))))"

definition verify_bytes :: "env \<Rightarrow> bytes \<Rightarrow> pyval \<Rightarrow> bytes \<Rightarrow> bool" where
  "verify_bytes E payload value public_key =
     (case unbase64url value of Inl e \<Rightarrow> False | Inr s \<Rightarrow> ed_verify E public_key payload s)"

definition verify_signature :: "env \<Rightarrow> pydict \<Rightarrow> bytes \<Rightarrow> bool res" where
  "verify_signature E document public_key =
     (case dict_get document ''signature'' of
        VDict signature \<Rightarrow>
          if dict_get signature ''algorithm'' \<noteq> vlit ''ed25519'' then Inr False
          else recover (\<lambda>c. c = KeyError \<or> c = TypeError) False
            (ebind (signature_payload document) (\<lambda>payload.
             ebind (field signature ''value'') (\<lambda>value.
             Inr (verify_bytes E payload value public_key))))
      | _ \<Rightarrow> Inr False)"

definition verify_trusted_signature :: "env \<Rightarrow> pydict \<Rightarrow> trusted_key \<Rightarrow> bool res" where
  "verify_trusted_signature E document key =
     (case dict_get document ''signature'' of
        VDict signature \<Rightarrow>
          if dict_get signature ''key_id'' \<noteq> VStr (tk_key_id key) then Inr False
          else verify_signature E document (tk_public_key key)
      | _ \<Rightarrow> Inr False)"

definition public_key_value :: "bytes \<Rightarrow> ustring" where
  "public_key_value public_key = base64url public_key"

definition public_key_fingerprint :: "bytes \<Rightarrow> ustring" where
  "public_key_fingerprint public_key = lit ''sha256:'' @ hex (sha256 public_key)"

definition trusted_key_from_value :: "ustring \<Rightarrow> pyval \<Rightarrow> trusted_key res" where
  "trusted_key_from_value key_id value =
     catch_as (\<lambda>c. c = TypeError \<or> is_ValueError c) ValueError ''invalid Ed25519 public key''
       (ebind (unbase64url value) (\<lambda>raw.
        ensure (length raw = 32) ValueError ''Ed25519 public keys must contain exactly 32 bytes''
          (Inr \<lparr>tk_key_id = key_id, tk_public_key = raw\<rparr>)))"

section \<open>Facts\<close>

subsection \<open>Base64url reads back\<close>

lemma sextet_bounds:
  fixes a b :: int
  assumes "0 \<le> a" "a < 256" "0 \<le> b" "b < 256"
  shows "0 \<le> a div 4" "a div 4 < 64" "0 \<le> a mod 4 * 16 + b div 16" "a mod 4 * 16 + b div 16 < 64"
    "0 \<le> a mod 16 * 4 + b div 64" "a mod 16 * 4 + b div 64 < 64" "0 \<le> a mod 64" "a mod 64 < 64"
    "0 \<le> a mod 4 * 16" "a mod 4 * 16 < 64" "0 \<le> a mod 16 * 4" "a mod 16 * 4 < 64"
  using assms by auto

lemma b64_value_char: "0 \<le> v \<Longrightarrow> v < 64 \<Longrightarrow> b64_value (b64_char v) = Inr v"
  by (auto simp: b64_value_def b64_char_def)

lemma b64_char_range: "0 \<le> v \<Longrightarrow> v < 64 \<Longrightarrow> b64_char v < 128 \<and> b64_char v \<noteq> 61"
  by (auto simp: b64_char_def)

fun sextets :: "int list \<Rightarrow> int list" where
  "sextets (a # b # c # r) =
     [a div 4, a mod 4 * 16 + b div 16, b mod 16 * 4 + c div 64, c mod 64] @ sextets r"
| "sextets [a, b] = [a div 4, a mod 4 * 16 + b div 16, b mod 16 * 4]"
| "sextets [a] = [a div 4, a mod 4 * 16]"
| "sextets [] = []"

abbreviation octets :: "int list \<Rightarrow> bool" where
  "octets bs \<equiv> \<forall>b \<in> set bs. 0 \<le> b \<and> b < 256"

lemma sextets_range: "octets bs \<Longrightarrow> x \<in> set (sextets bs) \<Longrightarrow> 0 \<le> x \<and> x < 64"
  by (induction bs rule: sextets.induct) (auto intro: sextet_bounds)

lemma length_sextets: "length (sextets bs) mod 4 \<noteq> 1"
  by (induction bs rule: sextets.induct) auto

lemma sextets_eq_Nil [simp]: "sextets bs = [] \<longleftrightarrow> bs = []"
  by (cases bs rule: sextets.cases) auto

lemma rstrip_append:
  "c \<notin> set s \<Longrightarrow> rstrip c (s @ replicate n c) = s"
proof -
  assume "c \<notin> set s"
  then have "dropWhile (\<lambda>x. x = c) (rev s) = rev s"
    by (cases "rev s") (auto simp: dropWhile_eq_self_iff dest: arg_cong [where f = set])
  then show ?thesis by (simp add: rstrip_def dropWhile_append)
qed

lemma urlsafe_b64encode_sextets:
  "\<exists>n. urlsafe_b64encode bs = map b64_char (sextets bs) @ replicate n 61"
proof (induction bs rule: sextets.induct)
  case (2 a b)
  show ?case by (rule exI [of _ 1]) simp
next
  case (3 a)
  show ?case by (rule exI [of _ 2]) (simp add: numeral_2_eq_2)
qed auto

lemma octets_map_of_char [simp]: "octets (map of_char (b :: bytes))"
  using of_char_range by auto

lemma base64url_sextets: "base64url b = map b64_char (sextets (map of_char b))"
proof -
  have "61 \<notin> set (map b64_char (sextets (map of_char b)))"
    using sextets_range [OF octets_map_of_char] b64_char_range by fastforce
  then show ?thesis
    using urlsafe_b64encode_sextets [of "map of_char b"] by (auto simp: base64url_def rstrip_append)
qed

lemma div_mod_shift:
  fixes x y m :: int
  assumes "0 \<le> y" "y < m"
  shows "(x * m + y) div m = x" "(x * m + y) mod m = y"
  using assms by simp_all

lemma join_step:
  fixes a b c :: int
  assumes "octets [a, b, c]"
  shows "a div 4 * 4 + (a mod 4 * 16 + b div 16) div 16 = a"
    "(a mod 4 * 16 + b div 16) mod 16 * 16 + (b mod 16 * 4 + c div 64) div 4 = b"
    "(b mod 16 * 4 + c div 64) mod 4 * 64 + c mod 64 = c"
proof -
  have b: "0 \<le> b div 16" "b div 16 < 16" and c: "0 \<le> c div 64" "c div 64 < 4"
    using assms by auto
  show "a div 4 * 4 + (a mod 4 * 16 + b div 16) div 16 = a"
    by (simp only: div_mod_shift [OF b] div_mult_mod_eq)
  show "(a mod 4 * 16 + b div 16) mod 16 * 16 + (b mod 16 * 4 + c div 64) div 4 = b"
    by (simp only: div_mod_shift [OF b] div_mod_shift [OF c] div_mult_mod_eq)
  show "(b mod 16 * 4 + c div 64) mod 4 * 64 + c mod 64 = c"
    by (simp only: div_mod_shift [OF c] div_mult_mod_eq)
qed

lemma join_sextets_sextets: "octets bs \<Longrightarrow> join_sextets (sextets bs) = bs"
proof (induction bs rule: sextets.induct)
  case (1 a b c r)
  then show ?case using join_step [of a b c] by simp
next
  case (2 a b)
  then show ?case using join_step [of a b 0] by simp
next
  case (3 a)
  then show ?case using join_step [of a 0 0] by simp
qed simp

lemma b64decode_base64url: "b64decode_padded (base64url b) = Inr b"
proof -
  let ?xs = "sextets (map of_char b)"
  note range = sextets_range [OF octets_map_of_char, of _ b]
  have "map_res b64_value (map b64_char ?xs) = Inr ?xs"
    unfolding map_res_Inr_iff using range b64_value_char by (auto simp: list_all2_conv_all_nth)
  moreover have "\<forall>c \<in> set (map b64_char ?xs). c < 128"
    using range b64_char_range by auto
  moreover have "map char_of (join_sextets ?xs) = b"
    by (simp add: join_sextets_sextets comp_def)
  ultimately show ?thesis
    using length_sextets [of "map of_char b"] by (simp add: b64decode_padded_def base64url_sextets)
qed

lemma base64url_no_pad: "61 \<notin> set (base64url b)"
  using sextets_range [OF octets_map_of_char, of _ b] b64_char_range
  by (fastforce simp: base64url_sextets)

lemma unbase64url_iff: "unbase64url v = Inr b \<longleftrightarrow> b \<noteq> [] \<and> v = VStr (base64url b)"
proof
  assume "unbase64url v = Inr b"
  then obtain s where s: "v = VStr s" "s \<noteq> []" "base64url b = s"
    by (auto simp: unbase64url_def res_simps split: pyval.splits)
  then show "b \<noteq> [] \<and> v = VStr (base64url b)" by (auto simp: base64url_sextets)
next
  assume "b \<noteq> [] \<and> v = VStr (base64url b)"
  then show "unbase64url v = Inr b"
    using base64url_no_pad [of b] by (simp add: unbase64url_def b64decode_base64url, simp add: base64url_sextets)
qed

lemma base64url_inject: "b \<noteq> [] \<Longrightarrow> base64url a = base64url b \<Longrightarrow> a = b"
  using unbase64url_iff [of "VStr (base64url b)" b] unbase64url_iff [of "VStr (base64url b)" a]
  by (metis Inr_inject base64url_sextets map_is_Nil_conv sextets_eq_Nil)

subsection \<open>What is signed\<close>

lemma signing_frame_inject:
  assumes "signing_frame l @ x = signing_frame l' @ y" and "CHR 0x00 \<notin> set l" and "CHR 0x00 \<notin> set l'"
  shows "l = l' \<and> x = y"
  using assms append_sep_inject [of l "CHR 0x00" x l' y] by (simp add: signing_frame_def)

text \<open>Signed documents of whatever kind: the bytes determine the kind, and the value up to the
  order of object items.\<close>

lemma framed_inject:
  assumes "ebind (canonical_bytes v) (\<lambda>b. Inr (signing_frame l @ b)) = Inr p"
    and "ebind (canonical_bytes w) (\<lambda>b. Inr (signing_frame l' @ b)) = Inr p"
    and "py_wf v" "py_wf w" and "CHR 0x00 \<notin> set l" and "CHR 0x00 \<notin> set l'"
  shows "l = l' \<and> canon v = canon w"
proof -
  obtain b c where b: "canonical_bytes v = Inr b" "p = signing_frame l @ b"
    and c: "canonical_bytes w = Inr c" "p = signing_frame l' @ c"
    using assms(1,2) by (auto simp: res_simps)
  then have "l = l' \<and> b = c" using signing_frame_inject assms(5,6) by metis
  then show ?thesis using canonical_bytes_inject [OF assms(3,4)] b c by auto
qed

lemma signature_payload_put [simp]:
  "signature_payload (dict_put d ''signature'' v) = signature_payload d"
  by (simp add: signature_payload_def)

lemma signature_payload_pop [simp]: "signature_payload (dict_pop d ''signature'') = signature_payload d"
proof -
  have "dict_find (dict_pop d ''signature'') ''signature'' = None" by (simp add: dict_find_pop)
  then show ?thesis by (simp add: signature_payload_def)
qed

subsection \<open>Signing and verification\<close>

lemma ed25519_okD:
  assumes "ed25519_ok E" "length (sg_private_key sg) = 32"
  shows "verify_bytes E p (VStr (sign_bytes E sg p)) (signer_public_key E sg)"
proof -
  let ?s = "ed_sign E (sg_private_key sg) p"
  have "length ?s = 64" "ed_verify E (signer_public_key E sg) p ?s"
    using assms by (auto simp: ed25519_ok_def signer_public_key_def)
  moreover from this have "?s \<noteq> []" by auto
  ultimately show ?thesis using unbase64url_iff [of "VStr (base64url ?s)" ?s]
    by (simp add: verify_bytes_def sign_bytes_def)
qed

lemma signature_block_simps [simp]:
  "dict_find (mk_dict [(''algorithm'', a), (''key_id'', b), (''value'', c)]) ''algorithm'' = Some a"
  "dict_find (mk_dict [(''algorithm'', a), (''key_id'', b), (''value'', c)]) ''key_id'' = Some b"
  "dict_find (mk_dict [(''algorithm'', a), (''key_id'', b), (''value'', c)]) ''value'' = Some c"
  by (simp_all add: dict_find_mk)

lemma signature_block_get [simp]:
  "dict_get (mk_dict [(''algorithm'', a), (''key_id'', b), (''value'', c)]) ''algorithm'' = a"
  "dict_get (mk_dict [(''algorithm'', a), (''key_id'', b), (''value'', c)]) ''key_id'' = b"
  by (simp_all add: dict_get_def)

lemma verify_signature_put:
  assumes "signature_payload d = Inr p"
  shows "verify_signature E (dict_put d ''signature'' (signature_block k s)) pk = Inr (verify_bytes E p (VStr s) pk)"
  using assms by (simp add: verify_signature_def signature_block_def dict_get_put item_def)

lemma verify_signature_True:
  assumes "verify_signature E d pk = Inr True"
  shows "\<exists>sig p s. dict_find d ''signature'' = Some (VDict sig) \<and> dict_find sig ''algorithm'' = Some (vlit ''ed25519'') \<and>
    dict_find sig ''value'' = Some (VStr (base64url s)) \<and> signature_payload d = Inr p \<and> ed_verify E pk p s"
proof -
  obtain sig where sig: "dict_find d ''signature'' = Some (VDict sig)" "dict_get sig ''algorithm'' = vlit ''ed25519''"
    using assms by (auto simp: verify_signature_def dict_get_def [of d] split: pyval.splits option.splits if_splits)
  have get: "dict_get d ''signature'' = VDict sig" using sig(1) by (simp add: dict_get_def)
  have "recover (\<lambda>c. c = KeyError \<or> c = TypeError) False
      (ebind (signature_payload d) (\<lambda>payload. ebind (field sig ''value'') (\<lambda>value.
      Inr (verify_bytes E payload value pk)))) = Inr True"
    using assms sig(2) by (simp add: verify_signature_def get)
  then have "ebind (signature_payload d) (\<lambda>payload. ebind (field sig ''value'') (\<lambda>value.
      Inr (verify_bytes E payload value pk))) = Inr True"
    by (rule recover_neq_default) simp
  then obtain p v where "signature_payload d = Inr p" "dict_find sig ''value'' = Some v" "verify_bytes E p v pk"
    by (auto simp: res_simps)
  moreover from this(3) obtain s where "v = VStr (base64url s)" "ed_verify E pk p s"
    by (auto simp: verify_bytes_def unbase64url_iff split: sum.splits)
  moreover have "dict_find sig ''algorithm'' = Some (vlit ''ed25519'')"
    using sig(2) by (auto simp: dict_get_def split: option.splits)
  ultimately show ?thesis using sig(1) by blast
qed

lemma sign_verifies:
  assumes "ed25519_ok E" "length (sg_private_key sg) = 32" "sign E sg d = Inr d'"
  shows "verify_signature E d' (signer_public_key E sg) = Inr True"
  using assms ed25519_okD [OF assms(1,2)] by (auto simp: sign_def res_simps verify_signature_put)

lemma sign_fields: "sign E sg d = Inr d' \<Longrightarrow> k \<noteq> ''signature'' \<Longrightarrow> dict_find d' k = dict_find d k"
  by (auto simp: sign_def res_simps dict_simps)

lemma sign_signature:
  "sign E sg d = Inr d' \<Longrightarrow> \<exists>v. dict_find d' ''signature'' = Some (signature_block (sg_key_id sg) v)"
  by (auto simp: sign_def res_simps dict_simps)

lemma sign_pop: "sign E sg d = Inr d' \<Longrightarrow> dict_pop d' ''signature'' = dict_pop d ''signature''"
  by (auto simp: sign_def res_simps)

section \<open>Properties\<close>

text \<open>
  Base64url text is canonical in both directions: a value decodes to some bytes exactly
  when it is the one unpadded encoding of them, so no two texts carry the same signature or
  key, and padding, the standard alphabet, stray characters and non-zero spare bits are refused.
\<close>

theorem unbase64url_canonical: "unbase64url v = Inr b \<longleftrightarrow> b \<noteq> [] \<and> v = VStr (base64url b)"
  by (rule unbase64url_iff)

text \<open>
  C37. What \<open>Ed25519Signer.sign\<close> produces, both verifiers accept under the signer's own
  public key and identity, and signing changes nothing but the member \<open>signature\<close>.
\<close>

theorem sign_then_verify:
  assumes "ed25519_ok E" and "length (sg_private_key sg) = 32" and "sign E sg d = Inr d'"
  shows "verify_signature E d' (signer_public_key E sg) = Inr True \<and>
    verify_trusted_signature E d' \<lparr>tk_key_id = sg_key_id sg, tk_public_key = signer_public_key E sg\<rparr> = Inr True \<and>
    dict_pop d' ''signature'' = dict_pop d ''signature''"
proof -
  have v: "verify_signature E d' (signer_public_key E sg) = Inr True" by (rule sign_verifies [OF assms])
  obtain s where "dict_find d' ''signature'' = Some (signature_block (sg_key_id sg) s)"
    using sign_signature [OF assms(3)] by blast
  then have "verify_trusted_signature E d' \<lparr>tk_key_id = sg_key_id sg, tk_public_key = signer_public_key E sg\<rparr> = Inr True"
    using v by (simp add: verify_trusted_signature_def dict_get_def signature_block_def)
  with v sign_pop [OF assms(3)] show ?thesis by simp
qed

lemma demo_env_simps [simp]:
  "ed_public demo_env k = k" "ed_sign demo_env k m = demo_sign k m"
  "ed_verify demo_env k m s \<longleftrightarrow> s = demo_sign k m" "schema_ok demo_env n v"
  by (simp_all add: demo_env_def)

lemma demo_env_ok: "ed25519_ok demo_env"
  by (auto simp: ed25519_ok_def demo_sign_def)

definition demo_signer :: ed25519_signer where
  "demo_signer = \<lparr>sg_key_id = lit ''key:demo'', sg_private_key = replicate 32 (CHR ''k'')\<rparr>"

definition demo_key :: trusted_key where
  "demo_key = \<lparr>tk_key_id = lit ''key:demo'', tk_public_key = replicate 32 (CHR ''k'')\<rparr>"

lemma demo_signer_length: "length (sg_private_key demo_signer) = 32"
  by (simp add: demo_signer_def)

theorem sign_then_verify_witness:
  "\<exists>d'. sign demo_env demo_signer [(tkey ''a'', VInt 1)] = Inr d' \<and>
     verify_signature demo_env d' (signer_public_key demo_env demo_signer) = Inr True"
proof -
  have "succeeds (\<lambda>_. True) (sign demo_env demo_signer [(tkey ''a'', VInt 1)])" by code_simp
  then obtain d' where d': "sign demo_env demo_signer [(tkey ''a'', VInt 1)] = Inr d'"
    by (auto dest: succeedsD)
  from sign_then_verify [OF demo_env_ok demo_signer_length d'] d' show ?thesis by blast
qed

text \<open>
  C38. An accepted signature vouches for content: whenever \<open>verify_trusted_signature\<close>
  accepts a document, the Ed25519 key of the trusted identity verified the exact bytes of the
  document without its \<open>signature\<close>, the document names that identity, and any other
  document with those signed bytes has the same content up to the order of object items.
\<close>

theorem trusted_signature_binds_content:
  assumes "verify_trusted_signature E d key = Inr True" and "py_wf (VDict d)" "py_wf (VDict d2)"
  shows "\<exists>sig p s. dict_find d ''signature'' = Some (VDict sig) \<and>
    dict_find sig ''key_id'' = Some (VStr (tk_key_id key)) \<and>
    signature_payload d = Inr p \<and> ed_verify E (tk_public_key key) p s \<and>
    (signature_payload d2 = Inr p \<longrightarrow>
      canon (VDict (dict_pop d2 ''signature'')) = canon (VDict (dict_pop d ''signature'')))"
proof -
  have v: "verify_signature E d (tk_public_key key) = Inr True"
    using assms(1) by (auto simp: verify_trusted_signature_def split: pyval.splits if_splits)
  then obtain sig p s where sig: "dict_find d ''signature'' = Some (VDict sig)"
    and p: "signature_payload d = Inr p" "ed_verify E (tk_public_key key) p s"
    using verify_signature_True [OF v] by blast
  have "dict_get sig ''key_id'' = VStr (tk_key_id key)"
    using assms(1) sig by (auto simp: verify_trusted_signature_def dict_get_def [of d] split: if_splits)
  then have "dict_find sig ''key_id'' = Some (VStr (tk_key_id key))"
    by (auto simp: dict_get_def split: option.splits)
  moreover have "canon (VDict (dict_pop d2 ''signature'')) = canon (VDict (dict_pop d ''signature''))"
    if "signature_payload d2 = Inr p"
    using framed_inject [OF that [unfolded signature_payload_def] p(1) [unfolded signature_payload_def]]
      py_wf_pop assms(2,3) by auto
  ultimately show ?thesis using sig p by blast
qed

theorem trusted_signature_binds_content_witness:
  "\<exists>d'. sign demo_env demo_signer [(tkey ''a'', VInt 1)] = Inr d' \<and>
     (\<exists>sig. dict_find d' ''signature'' = Some (VDict sig) \<and> dict_find sig ''key_id'' = Some (vlit ''key:demo''))"
proof -
  let ?key = "\<lparr>tk_key_id = lit ''key:demo'', tk_public_key = replicate 32 (CHR ''k'')\<rparr>"
  have "succeeds (\<lambda>d'. py_wf (VDict d') \<and> verify_trusted_signature demo_env d' ?key = Inr True)
      (sign demo_env demo_signer [(tkey ''a'', VInt 1)])"
    by code_simp
  then obtain d' where d': "sign demo_env demo_signer [(tkey ''a'', VInt 1)] = Inr d'" "py_wf (VDict d')"
    "verify_trusted_signature demo_env d' ?key = Inr True" by (blast dest: succeedsD)
  from trusted_signature_binds_content [OF d'(3,2,2)] d'(1) show ?thesis by auto
qed

end
