(* ===== verification/Datetime.thy ===== *)
theory Datetime
  imports PyDict
begin

text \<open>
  The part of the standard library's \<open>datetime\<close> the protocol uses: \<open>fromisoformat\<close> (as
  \<open>datetime.py\<close> of CPython 3.11 has it, with ASCII digits only, which is how the compiled
  module reads numbers), \<open>isoformat\<close>, conversion to UTC, comparison of aware values and
  addition of a duration.

  A \<open>datetime\<close> is its local time, in microseconds with day 1 the first day of year 1
  (\<open>toordinal\<close>), and the offset of its time zone from UTC in microseconds, or no zone.
  Results outside the years 1 to 9999 raise \<open>OverflowError\<close>.
\<close>

record datetime =
  dt_local :: int
  dt_offset :: "int option"

section \<open>The calendar\<close>

definition is_leap :: "int \<Rightarrow> bool" where
  "is_leap y \<longleftrightarrow> y mod 4 = 0 \<and> (y mod 100 \<noteq> 0 \<or> y mod 400 = 0)"

definition days_before_year :: "int \<Rightarrow> int" where
  "days_before_year year = (let y = year - 1 in y * 365 + y div 4 - y div 100 + y div 400)"

definition month_lengths :: "int \<Rightarrow> int list" where
  "month_lengths y = [31, if is_leap y then 29 else 28, 31, 30, 31, 30, 31, 31, 30, 31, 30, 31]"

definition days_in_month :: "int \<Rightarrow> int \<Rightarrow> int" where
  "days_in_month y m = month_lengths y ! (nat m - 1)"

definition ymd2ord :: "int \<Rightarrow> int \<Rightarrow> int \<Rightarrow> int" where
  "ymd2ord y m d = days_before_year y + sum_list (take (nat m - 1) (month_lengths y)) + d"

text \<open>The entry a day count falls into, and the days left over.\<close>

fun split_days :: "int list \<Rightarrow> int \<Rightarrow> nat \<times> int" where
  "split_days [] r = (0, r)"
| "split_days (l # ls) r =
     (if r < l then (0, r) else (let (k, d) = split_days ls (r - l) in (Suc k, d)))"

definition ord2ymd :: "int \<Rightarrow> int \<times> int \<times> int" where
  "ord2ymd n =
     (let a = (n - 1) div 146097; r400 = (n - 1) mod 146097;
          b = min 3 (r400 div 36524); r100 = r400 - b * 36524;
          c = r100 div 1461; r4 = r100 mod 1461;
          d = min 3 (r4 div 365); r1 = r4 - d * 365;
          y = a * 400 + b * 100 + c * 4 + d + 1;
          (k, day) = split_days (month_lengths y) r1
      in (y, int k + 1, day + 1))"

definition isoweek1monday :: "int \<Rightarrow> int" where
  "isoweek1monday year =
     (let firstday = ymd2ord year 1 1; firstweekday = (firstday + 6) mod 7;
          monday = firstday - firstweekday
      in if 3 < firstweekday then monday + 7 else monday)"

definition isoweek_to_ordinal :: "int \<Rightarrow> int \<Rightarrow> int \<Rightarrow> int option" where
  "isoweek_to_ordinal year week day =
     (let first = ymd2ord year 1 1 mod 7;
          long = (first = 4 \<or> first = 3 \<and> is_leap year)
      in if 1 \<le> year \<and> year \<le> 9999 \<and> (0 < week \<and> week < 53 \<or> week = 53 \<and> long) \<and> 0 < day \<and> day < 8
         then Some (isoweek1monday year + (week - 1) * 7 + (day - 1)) else None)"

section \<open>Reading\<close>

definition number :: "ustring \<Rightarrow> int option" where
  "number s = (if s \<noteq> [] \<and> list_all is_digit s then Some (digits_value s) else None)"

definition day_us :: int where
  "day_us = 86400000000"

definition in_range :: "int \<Rightarrow> bool" where
  "in_range x \<longleftrightarrow> day_us \<le> x \<and> x < 3652060 * day_us"

text \<open>The position where the date ends, for text longer than seven characters.\<close>

definition separator_location :: "ustring \<Rightarrow> nat option" where
  "separator_location s =
     (if length s = 7 then Some 7
      else if s ! 4 = 45 then
        (if s ! 5 = 87 then
           (if length s > 8 \<and> s ! 8 = 45 then
              (if length s = 9 then None
               else if length s > 10 \<and> is_digit (s ! 10) then Some 8 else Some 10)
            else Some 8)
         else Some 10)
      else if s ! 4 = 87 then
        (let idx = 7 + length (takeWhile is_digit (drop 7 s))
         in Some (if idx < 9 then idx else if idx mod 2 = 0 then 7 else 8))
      else Some 8)"

text \<open>The ordinal of the date, when it is one.\<close>

definition parse_week_date :: "bool \<Rightarrow> int \<Rightarrow> ustring \<Rightarrow> int option" where
  "parse_week_date has_sep year s =
     (case number (take 2 s) of
        None \<Rightarrow> None
      | Some week \<Rightarrow>
          (let r = drop 2 s in
           if r = [] then isoweek_to_ordinal year week 1
           else if (take 1 r = [45]) \<noteq> has_sep then None
           else (case number (take 1 (if has_sep then drop 1 r else r)) of
                   None \<Rightarrow> None
                 | Some day \<Rightarrow> isoweek_to_ordinal year week day)))"

definition parse_month_date :: "bool \<Rightarrow> int \<Rightarrow> ustring \<Rightarrow> int option" where
  "parse_month_date has_sep year s =
     (let r = drop 2 s in
      if (take 1 r = [45]) \<noteq> has_sep then None
      else (case (number (take 2 s), number (take 2 (if has_sep then drop 1 r else r))) of
              (Some month, Some day) \<Rightarrow>
                if 1 \<le> year \<and> year \<le> 9999 \<and> 1 \<le> month \<and> month \<le> 12 \<and>
                   1 \<le> day \<and> day \<le> days_in_month year month
                then Some (ymd2ord year month day) else None
            | _ \<Rightarrow> None))"

definition parse_date :: "ustring \<Rightarrow> int option" where
  "parse_date s =
     (case number (take 4 s) of
        None \<Rightarrow> None
      | Some year \<Rightarrow>
          (let has_sep = (s ! 4 = 45); r = drop (if has_sep then 5 else 4) s in
           if take 1 r = [87] then parse_week_date has_sep year (drop 1 r)
           else parse_month_date has_sep year r))"

text \<open>\<open>HH[:?MM[:?SS]]\<close>: the numbers read, and the text after them. The first argument counts
  the components that may still follow.\<close>

fun hms_loop :: "nat \<Rightarrow> bool \<Rightarrow> ustring \<Rightarrow> (int list \<times> ustring) option" where
  "hms_loop k has_sep s =
     (if length s < 2 then None
      else case number (take 2 s) of
        None \<Rightarrow> None
      | Some n \<Rightarrow>
          (case drop 2 s of
             [] \<Rightarrow> Some ([n], [])
           | c # r \<Rightarrow>
               (case k of
                  0 \<Rightarrow> Some ([n], c # r)
                | Suc j \<Rightarrow>
                    (let sep = (if k = 2 then c = 58 else has_sep) in
                     if sep \<and> c \<noteq> 58 then None
                     else map_option (\<lambda>(ns, t). (n # ns, t)) (hms_loop j sep (if sep then r else c # r))))))"

declare hms_loop.simps [simp del]

definition parse_fraction :: "ustring \<Rightarrow> int option" where
  "parse_fraction s =
     (case s of
        [] \<Rightarrow> Some 0
      | c # r \<Rightarrow>
          if c \<noteq> 46 \<and> c \<noteq> 44 then None
          else (let k = min 6 (length r) in
                case number (take k r) of
                  None \<Rightarrow> None
                | Some n \<Rightarrow> if list_all is_digit (drop k r) then Some (n * 10 ^ (6 - k)) else None))"

text \<open>Hours, minutes, seconds and microseconds.\<close>

definition parse_hms :: "ustring \<Rightarrow> (int \<times> int \<times> int \<times> int) option" where
  "parse_hms s =
     (case hms_loop 2 False s of
        None \<Rightarrow> None
      | Some (ns, t) \<Rightarrow>
          map_option (\<lambda>us. (ns ! 0, if 1 < length ns then ns ! 1 else 0, if 2 < length ns then ns ! 2 else 0, us))
            (parse_fraction t))"

definition hms_us :: "int \<times> int \<times> int \<times> int \<Rightarrow> int" where
  "hms_us c = (case c of (h, m, s, us) \<Rightarrow> ((h * 60 + m) * 60 + s) * 1000000 + us)"

text \<open>The offset after the sign or the letter Z.\<close>

definition parse_offset :: "int \<Rightarrow> ustring \<Rightarrow> int option" where
  "parse_offset sign s =
     (if length s \<in> {0, 1, 3} then None
      else case parse_hms s of
        None \<Rightarrow> None
      | Some c \<Rightarrow> if hms_us c < day_us then Some (sign * hms_us c) else None)"

definition clock_time :: "int \<times> int \<times> int \<times> int \<Rightarrow> int option" where
  "clock_time c = (case c of (h, m, s, us) \<Rightarrow> if h < 24 \<and> m < 60 \<and> s < 60 then Some (hms_us c) else None)"

text \<open>Time of day in microseconds and the time zone.\<close>

definition parse_time_zone :: "ustring \<Rightarrow> (int \<times> int option) option" where
  "parse_time_zone t =
     (if length t < 2 then None
      else
       (let zoned = (\<lambda>c sign.
              case split_once c t of
                None \<Rightarrow> None
              | Some (a, z) \<Rightarrow>
                  (case (Option.bind (parse_hms a) clock_time, if c = 90 \<and> z = [] then Some 0 else parse_offset sign z) of
                     (Some us, Some off) \<Rightarrow> Some (us, Some off)
                   | _ \<Rightarrow> None))
        in if 45 \<in> set t then zoned 45 (- 1)
           else if 43 \<in> set t then zoned 43 1
           else if 90 \<in> set t then zoned 90 1
           else map_option (\<lambda>us. (us, None)) (Option.bind (parse_hms t) clock_time)))"

definition fromisoformat_text :: "ustring \<Rightarrow> datetime option" where
  "fromisoformat_text s =
     (if length s < 7 then None
      else case separator_location s of
        None \<Rightarrow> None
      | Some p \<Rightarrow>
          (let dstr = take p s; tstr = drop (p + 1) s in
           case (parse_date dstr, if tstr = [] then Some (0, None) else parse_time_zone tstr) of
             (Some ord, Some (us, off)) \<Rightarrow>
               if in_range (ord * day_us + us) then Some \<lparr>dt_local = ord * day_us + us, dt_offset = off\<rparr> else None
           | _ \<Rightarrow> None))"

definition fromisoformat :: "pyval \<Rightarrow> datetime res" where
  "fromisoformat v =
     (case v of
        VStr s \<Rightarrow> (case fromisoformat_text s of
                     None \<Rightarrow> raise ValueError ''Invalid isoformat string''
                   | Some t \<Rightarrow> Inr t)
      | _ \<Rightarrow> raise TypeError ''fromisoformat: argument must be str'')"

section \<open>Writing\<close>

fun pad_digits :: "nat \<Rightarrow> int \<Rightarrow> ustring" where
  "pad_digits 0 n = []"
| "pad_digits (Suc k) n = pad_digits k (n div 10) @ [48 + n mod 10]"

definition format_clock :: "bool \<Rightarrow> int \<Rightarrow> ustring" where
  "format_clock micro x =
     (let us = x mod 1000000; s = x div 1000000 in
      pad_digits 2 (s div 3600) @ 58 # pad_digits 2 (s div 60 mod 60) @ 58 # pad_digits 2 (s mod 60)
        @ (if micro \<or> us \<noteq> 0 then 46 # pad_digits 6 us else []))"

definition format_offset :: "int \<Rightarrow> ustring" where
  "format_offset off =
     (let a = \<bar>off\<bar>; us = a mod 1000000; s = a div 1000000 in
      (if off < 0 then 45 else 43) # pad_digits 2 (s div 3600) @ 58 # pad_digits 2 (s div 60 mod 60)
        @ (if s mod 60 \<noteq> 0 \<or> us \<noteq> 0
           then 58 # pad_digits 2 (s mod 60) @ (if us \<noteq> 0 then 46 # pad_digits 6 us else []) else []))"

text \<open>\<open>isoformat()\<close>, and \<open>isoformat(timespec="microseconds")\<close> when the first argument holds.\<close>

definition isoformat :: "bool \<Rightarrow> datetime \<Rightarrow> ustring" where
  "isoformat micro t =
     (case ord2ymd (dt_local t div day_us) of
        (y, m, d) \<Rightarrow>
          pad_digits 4 y @ 45 # pad_digits 2 m @ 45 # pad_digits 2 d @ 84 # format_clock micro (dt_local t mod day_us)
            @ (case dt_offset t of None \<Rightarrow> [] | Some off \<Rightarrow> format_offset off))"

text \<open>\<open>s.replace(old, new)\<close>\<close>

function replace_all :: "ustring \<Rightarrow> ustring \<Rightarrow> ustring \<Rightarrow> ustring" where
  "replace_all old new [] = []"
| "replace_all old new (c # s) =
     (if old \<noteq> [] \<and> starts_with old (c # s) then new @ replace_all old new (drop (length old) (c # s))
      else c # replace_all old new s)"
  by pat_completeness auto
termination
  by (relation "measure (\<lambda>(_, _, s). length s)") (auto intro: diff_less)

definition utc_suffix :: "ustring \<Rightarrow> ustring" where
  "utc_suffix s = replace_all (lit ''+00:00'') (lit ''Z'') s"

section \<open>Arithmetic\<close>

text \<open>The instant of an aware value; comparison of aware values is comparison of instants.\<close>

definition instant :: "datetime \<Rightarrow> int" where
  "instant t = dt_local t - (case dt_offset t of None \<Rightarrow> 0 | Some off \<Rightarrow> off)"

definition astimezone_utc :: "datetime \<Rightarrow> datetime res" where
  "astimezone_utc t =
     ensure (in_range (instant t)) OverflowError ''date value out of range''
       (Inr \<lparr>dt_local = instant t, dt_offset = Some 0\<rparr>)"

definition add_us :: "datetime \<Rightarrow> int \<Rightarrow> datetime res" where
  "add_us t delta =
     ensure (in_range (dt_local t + delta)) OverflowError ''date value out of range''
       (Inr (t\<lparr>dt_local := dt_local t + delta\<rparr>))"

definition datetime_wf :: "datetime \<Rightarrow> bool" where
  "datetime_wf t \<longleftrightarrow>
     in_range (dt_local t) \<and>
     (case dt_offset t of None \<Rightarrow> True | Some off \<Rightarrow> - day_us < off \<and> off < day_us)"

text \<open>The common helper \<open>_parse_time\<close>: read an ISO timestamp and insist on a time zone.
  \<open>wrap\<close> tells whether \<open>AttributeError\<close> and \<open>ValueError\<close> are translated.\<close>

definition parse_aware :: "bool \<Rightarrow> exc \<Rightarrow> string \<Rightarrow> string \<Rightarrow> pyval \<Rightarrow> datetime res" where
  "parse_aware wrap e invalid naive v =
     ebind (if wrap then catch_as (\<lambda>c. c = AttributeError \<or> is_ValueError c) e invalid (fromisoformat v)
            else fromisoformat v) (\<lambda>parsed.
     ensure (dt_offset parsed \<noteq> None) e naive (Inr parsed))"

section \<open>Facts\<close>

lemma parse_aware_Inr [res_simps]:
  "parse_aware wrap e m1 m2 v = Inr t \<longleftrightarrow> fromisoformat v = Inr t \<and> dt_offset t \<noteq> None"
  by (auto simp: parse_aware_def res_simps split: if_splits)

subsection \<open>Days and dates\<close>

lemma split_days_spec:
  "0 \<le> r \<Longrightarrow> r < sum_list ls \<Longrightarrow> split_days ls r = (k, d) \<Longrightarrow>
   k < length ls \<and> 0 \<le> d \<and> d < ls ! k \<and> r = sum_list (take k ls) + d"
proof (induction ls arbitrary: r k)
  case Nil
  then show ?case by simp
next
  case (Cons l ls)
  show ?case
  proof (cases "r < l")
    case True
    with Cons.prems show ?thesis by auto
  next
    case False
    then obtain j where "split_days ls (r - l) = (j, d)" "k = Suc j"
      using Cons.prems(3) by (auto split: prod.splits)
    with Cons.IH [of "r - l" j] Cons.prems False show ?thesis by auto
  qed
qed

lemma sum_month_lengths: "sum_list (month_lengths y) = (if is_leap y then 366 else 365)"
  by (simp add: month_lengths_def)

lemma length_month_lengths [simp]: "length (month_lengths y) = 12"
  by (simp add: month_lengths_def)

lemma mod_full_iff:
  fixes r m q :: int
  assumes "0 < r" "r \<le> m"
  shows "(q * m + r) mod m = 0 \<longleftrightarrow> r = m"
proof (cases "r = m")
  case False
  with assms have "(q * m + r) mod m = r" by simp
  with assms False show ?thesis by simp
qed simp

text \<open>A year is 400 a + 100 b + 4 c + d + 1 with the usual bounds.\<close>

lemma year_parts:
  fixes a b c d :: int
  assumes "0 \<le> b" "b \<le> 3" "0 \<le> c" "c \<le> 24" "0 \<le> d" "d \<le> 3"
  shows "days_before_year (a * 400 + b * 100 + c * 4 + d + 1) = a * 146097 + b * 36524 + c * 1461 + d * 365"
    and "is_leap (a * 400 + b * 100 + c * 4 + d + 1) \<longleftrightarrow> d = 3 \<and> (c \<noteq> 24 \<or> b = 3)"
proof -
  let ?y = "a * 400 + b * 100 + c * 4 + d"
  have "?y div 4 = a * 100 + b * 25 + c" using assms by simp
  moreover have "?y div 100 = a * 4 + b" using assms by simp
  moreover have "?y div 400 = a" using assms by simp
  ultimately show "days_before_year (?y + 1) = a * 146097 + b * 36524 + c * 1461 + d * 365"
    by (simp add: days_before_year_def)
  have "(?y + 1) mod 4 = 0 \<longleftrightarrow> d = 3"
    using mod_full_iff [of "d + 1" 4 "a * 100 + b * 25 + c"] assms by (simp add: algebra_simps)
  moreover have "(?y + 1) mod 100 = 0 \<longleftrightarrow> c * 4 + d + 1 = 100"
    using mod_full_iff [of "c * 4 + d + 1" 100 "a * 4 + b"] assms by (simp add: algebra_simps)
  moreover have "(?y + 1) mod 400 = 0 \<longleftrightarrow> b * 100 + c * 4 + d + 1 = 400"
    using mod_full_iff [of "b * 100 + c * 4 + d + 1" 400 a] assms by (simp add: algebra_simps)
  moreover have "c * 4 + d + 1 = 100 \<longleftrightarrow> c = 24 \<and> d = 3" using assms by linarith
  moreover have "b * 100 + c * 4 + d + 1 = 400 \<longleftrightarrow> b = 3 \<and> c = 24 \<and> d = 3" using assms by linarith
  ultimately show "is_leap (?y + 1) \<longleftrightarrow> d = 3 \<and> (c \<noteq> 24 \<or> b = 3)"
    by (auto simp: is_leap_def)
qed

text \<open>Taking off as many whole periods as fit, up to three.\<close>

lemma min3_parts:
  fixes r l :: int
  assumes "0 \<le> r" "r \<le> 4 * l" "0 < l"
  defines "q \<equiv> min 3 (r div l)"
  shows "0 \<le> q" "q \<le> 3" "0 \<le> r - q * l" "q < 3 \<longrightarrow> r - q * l < l" "r - q * l \<le> r - 3 * l \<or> q < 3"
proof -
  have "0 \<le> r div l" using assms by (simp add: pos_imp_zdiv_nonneg_iff)
  then show "0 \<le> q" "q \<le> 3" by (simp_all add: q_def)
  have r: "r = r div l * l + r mod l" "0 \<le> r mod l" "r mod l < l" using assms by simp_all
  have "q * l \<le> r div l * l" using assms by (simp add: q_def)
  with r show "0 \<le> r - q * l" by linarith
  show "q < 3 \<longrightarrow> r - q * l < l"
  proof
    assume "q < 3"
    then have "q = r div l" by (simp add: q_def)
    then have "r = q * l + r mod l" using r(1) by simp
    with r(3) show "r - q * l < l" by linarith
  qed
  show "r - q * l \<le> r - 3 * l \<or> q < 3" using \<open>q \<le> 3\<close> by auto
qed

lemma ord2ymd_spec:
  assumes n: "1 \<le> n" "n \<le> 3652059" and ymd: "ord2ymd n = (y, m, d)"
  shows "1 \<le> y \<and> y \<le> 9999 \<and> 1 \<le> m \<and> m \<le> 12 \<and> 1 \<le> d \<and> d \<le> days_in_month y m \<and> ymd2ord y m d = n"
proof -
  define a where "a = (n - 1) div 146097"
  define r400 where "r400 = (n - 1) mod 146097"
  define b where "b = min 3 (r400 div 36524)"
  define r100 where "r100 = r400 - b * 36524"
  define c where "c = r100 div 1461"
  define r4 where "r4 = r100 mod 1461"
  define e where "e = min 3 (r4 div 365)"
  define r1 where "r1 = r4 - e * 365"
  have split: "n - 1 = a * 146097 + r400" "0 \<le> r400" "r400 < 146097" "0 \<le> a" "a \<le> 24"
    using n by (simp_all add: a_def r400_def)
  have b: "0 \<le> b" "b \<le> 3" "0 \<le> r100" "b < 3 \<longrightarrow> r100 < 36524" "r100 \<le> r400 - 3 * 36524 \<or> b < 3"
    using min3_parts [of r400 36524] split by (simp_all add: b_def r100_def)
  then have r100: "r100 \<le> 36524" "r100 = 36524 \<longrightarrow> b = 3" using split by linarith+
  have c: "r100 = c * 1461 + r4" "0 \<le> r4" "r4 < 1461" "0 \<le> c" "c \<le> 24"
    using b(3) r100 by (simp_all add: c_def r4_def)
  have e: "0 \<le> e" "e \<le> 3" "0 \<le> r1" "e < 3 \<longrightarrow> r1 < 365" "r1 \<le> r4 - 3 * 365 \<or> e < 3"
    using min3_parts [of r4 365] c by (simp_all add: e_def r1_def)
  then have r1: "r1 \<le> 365" "r1 = 365 \<longrightarrow> e = 3 \<and> r4 = 1460" using c(3) r1_def by linarith+
  let ?y = "a * 400 + b * 100 + c * 4 + e + 1"
  note parts = year_parts [OF b(1,2) c(4,5) e(1,2), of a]
  have leap: "r1 < sum_list (month_lengths ?y)"
  proof (cases "r1 = 365")
    case True
    with r1 have "e = 3" "r4 = 1460" by auto
    moreover have "c = 24 \<longrightarrow> b = 3" using c(1) r100 \<open>r4 = 1460\<close> by auto
    ultimately show ?thesis unfolding sum_month_lengths parts(2) using True by simp
  next
    case False
    then show ?thesis using r1 by (simp add: sum_month_lengths)
  qed
  obtain k day where kd: "split_days (month_lengths ?y) r1 = (k, day)" by (cases "split_days (month_lengths ?y) r1")
  note sp = split_days_spec [OF e(3) leap kd]
  have res: "y = ?y" "m = int k + 1" "d = day + 1"
    using ymd kd unfolding ord2ymd_def Let_def a_def [symmetric] r400_def [symmetric] b_def [symmetric]
      r100_def [symmetric] c_def [symmetric] r4_def [symmetric] e_def [symmetric] r1_def [symmetric]
    by simp_all
  have nat_Suc: "nat (int k + 1) - Suc 0 = k" by simp
  have "ymd2ord y m d = n"
    using sp split(1) c(1) parts(1) nat_Suc unfolding res ymd2ord_def r1_def r100_def by simp
  moreover have "days_in_month y m = month_lengths ?y ! k" unfolding res days_in_month_def by (simp add: nat_Suc)
  moreover have "1 \<le> y" using split(4) b(1) c(4) e(1) res by simp
  moreover have "y \<le> 9999"
  proof (rule ccontr)
    assume "\<not> y \<le> 9999"
    then have "a = 24" "b = 3" "c = 24" "e = 3" using split b c e res by linarith+
    then have "3652059 \<le> n - 1" using split(1) c(1) e(3) unfolding r1_def r100_def by simp
    with n show False by simp
  qed
  ultimately show ?thesis using sp res by auto
qed

subsection \<open>What is written can be read back\<close>

lemma length_pad_digits [simp]: "length (pad_digits k n) = k"
  by (induction k arbitrary: n) auto

lemma pad_digits_digits: "0 \<le> n \<Longrightarrow> list_all is_digit (pad_digits k n)"
proof (induction k arbitrary: n)
  case (Suc k)
  have "is_digit (48 + n mod 10)" by (simp add: is_digit_def)
  moreover have "0 \<le> n div 10" using Suc.prems by simp
  ultimately show ?case using Suc.IH by simp
qed simp

lemma digits_value_pad: "0 \<le> n \<Longrightarrow> n < 10 ^ k \<Longrightarrow> digits_value (pad_digits k n) = n"
proof (induction k arbitrary: n)
  case 0
  then show ?case by (simp add: digits_value_def)
next
  case (Suc k)
  define p :: int where "p = 10 ^ k"
  have "0 \<le> n div 10" "n div 10 < p" using Suc.prems by (simp_all add: p_def [symmetric])
  then have "0 \<le> n div 10" "n div 10 < 10 ^ k" by (simp_all add: p_def)
  then show ?case using Suc.IH [of "n div 10"] by (simp add: digits_value_snoc)
qed

lemma number_pad: "0 \<le> n \<Longrightarrow> n < 10 ^ Suc k \<Longrightarrow> number (pad_digits (Suc k) n) = Some n"
  using pad_digits_digits [of n "Suc k"] digits_value_pad [of n "Suc k"] by (simp add: number_def)

lemma number_pad2: "0 \<le> n \<Longrightarrow> n < 100 \<Longrightarrow> number (pad_digits 2 n) = Some n"
  using number_pad [of n 1] by (simp add: numeral_2_eq_2)

lemma number_pad4: "0 \<le> n \<Longrightarrow> n < 10000 \<Longrightarrow> number (pad_digits 4 n) = Some n"
  using number_pad [of n 3] by (simp add: numeral_eq_Suc)

lemma number_pad6: "0 \<le> n \<Longrightarrow> n < 1000000 \<Longrightarrow> number (pad_digits 6 n) = Some n"
  using number_pad [of n 5] by (simp add: numeral_eq_Suc)

lemma replace_all_fresh:
  "hd old \<notin> set s \<Longrightarrow> old \<noteq> [] \<Longrightarrow> replace_all old new (s @ old) = s @ new"
proof (induction s)
  case Nil
  then show ?case by (cases old) (auto simp: starts_with_def)
next
  case (Cons c s)
  then have "\<not> starts_with old (c # s @ old)" by (cases old) (auto simp: starts_with_def)
  with Cons show ?case by simp
qed

lemma is_digit_not [simp]:
  "is_digit x \<Longrightarrow> x \<noteq> 43 \<and> x \<noteq> 45 \<and> x \<noteq> 58 \<and> x \<noteq> 87 \<and> x \<noteq> 90 \<and> x \<noteq> 46 \<and> x \<noteq> 44"
  by (auto simp: is_digit_def)

lemma digits_fresh: "list_all is_digit s \<Longrightarrow> \<not> is_digit c \<Longrightarrow> c \<notin> set s"
  by (auto simp: list_all_iff)

lemma list2: "length xs = 2 \<Longrightarrow> \<exists>a b. xs = [a, b]"
  by (cases xs; cases "tl xs") auto

lemma list4: "length xs = 4 \<Longrightarrow> \<exists>a b c d. xs = [a, b, c, d]"
  by (auto simp: numeral_eq_Suc length_Suc_conv)

lemma parse_date_text:
  assumes "number Y = Some y" "number M = Some m" "number D = Some d"
    and "length Y = 4" "length M = 2" "length D = 2"
    and "1 \<le> y" "y \<le> 9999" "1 \<le> m" "m \<le> 12" "1 \<le> d" "d \<le> days_in_month y m"
  shows "parse_date (Y @ 45 # M @ 45 # D) = Some (ymd2ord y m d)"
    and "separator_location (Y @ 45 # M @ 45 # D @ 84 # t) = Some 10"
    and "take 10 (Y @ 45 # M @ 45 # D @ 84 # t) = Y @ 45 # M @ 45 # D"
    and "drop 11 (Y @ 45 # M @ 45 # D @ 84 # t) = t"
proof -
  obtain y1 y2 y3 y4 where Y: "Y = [y1, y2, y3, y4]" using list4 [OF assms(4)] by blast
  obtain m1 m2 where M: "M = [m1, m2]" using list2 [OF assms(5)] by blast
  obtain d1 d2 where D: "D = [d1, d2]" using list2 [OF assms(6)] by blast
  have "is_digit m1" using assms(2) by (simp add: M number_def split: if_splits)
  then have "m1 \<noteq> 87" by simp
  then show "parse_date (Y @ 45 # M @ 45 # D) = Some (ymd2ord y m d)"
    using assms by (simp add: Y M D parse_date_def parse_month_date_def)
  show "separator_location (Y @ 45 # M @ 45 # D @ 84 # t) = Some 10"
    using \<open>m1 \<noteq> 87\<close> by (simp add: Y M D separator_location_def)
  show "take 10 (Y @ 45 # M @ 45 # D @ 84 # t) = Y @ 45 # M @ 45 # D"
    "drop 11 (Y @ 45 # M @ 45 # D @ 84 # t) = t" by (simp_all add: Y M D)
qed

lemma parse_hms_text:
  assumes "number H = Some h" "number M = Some m" "number S = Some s" "number U = Some u"
    and "length H = 2" "length M = 2" "length S = 2" "length U = 6"
  shows "parse_hms (H @ 58 # M @ 58 # S @ 46 # U) = Some (h, m, s, u)"
proof -
  obtain h1 h2 where H: "H = [h1, h2]" using list2 [OF assms(5)] by blast
  obtain m1 m2 where M: "M = [m1, m2]" using list2 [OF assms(6)] by blast
  obtain s1 s2 where S: "S = [s1, s2]" using list2 [OF assms(7)] by blast
  have "hms_loop 0 True (S @ 46 # U) = Some ([s], 46 # U)"
    using assms by (simp add: S hms_loop.simps)
  then have "hms_loop 1 True (M @ 58 # S @ 46 # U) = Some ([m, s], 46 # U)"
    using assms by (simp add: M hms_loop.simps [of "Suc 0"])
  then have "hms_loop 2 False (H @ 58 # M @ 58 # S @ 46 # U) = Some ([h, m, s], 46 # U)"
    using assms by (simp add: H hms_loop.simps [of "Suc (Suc 0)"] numeral_2_eq_2)
  moreover have "parse_fraction (46 # U) = Some u"
    using assms by (simp add: parse_fraction_def Let_def)
  ultimately show ?thesis by (simp add: parse_hms_def)
qed

lemma clock_parts:
  fixes x :: int
  assumes "0 \<le> x" "x < day_us"
  shows "0 \<le> x div 1000000 div 3600" "x div 1000000 div 3600 < 24"
    "hms_us (x div 1000000 div 3600, x div 1000000 div 60 mod 60, x div 1000000 mod 60, x mod 1000000) = x"
proof -
  define s where "s = x div 1000000"
  have s: "0 \<le> s" "s < 86400" using assms by (simp_all add: s_def day_us_def)
  show "0 \<le> x div 1000000 div 3600" "x div 1000000 div 3600 < 24"
    using s unfolding s_def [symmetric] by simp_all
  have "s div 3600 = s div 60 div 60" using zdiv_zmult2_eq [of 60 s 60] by simp
  then have "(s div 3600 * 60 + s div 60 mod 60) * 60 + s mod 60 = s"
    by (simp only: div_mult_mod_eq)
  then have "((s div 3600 * 60 + s div 60 mod 60) * 60 + s mod 60) * 1000000 + x mod 1000000 = x"
    by (simp only: s_def div_mult_mod_eq)
  then show "hms_us (x div 1000000 div 3600, x div 1000000 div 60 mod 60, x div 1000000 mod 60, x mod 1000000) = x"
    unfolding hms_us_def prod.case s_def .
qed

lemma utc_text_reads_back:
  assumes "in_range (dt_local t)" "dt_offset t = Some 0"
  shows "fromisoformat_text (utc_suffix (isoformat True t)) = Some t"
proof -
  define n where "n = dt_local t div day_us"
  define x where "x = dt_local t mod day_us"
  have n: "1 \<le> n" "n \<le> 3652059" and x: "0 \<le> x" "x < day_us" and nx: "n * day_us + x = dt_local t"
    using assms(1) unfolding in_range_def n_def x_def by (auto simp: day_us_def)
  obtain y m d where ymd: "ord2ymd n = (y, m, d)" by (cases "ord2ymd n")
  note date = ord2ymd_spec [OF n ymd]
  define Y M D where dd: "Y = pad_digits 4 y" "M = pad_digits 2 m" "D = pad_digits 2 d"
  have dim: "days_in_month y m \<le> 31" "d \<le> 99"
  proof -
    have "nat m - 1 < 12" using date by linarith
    then have "days_in_month y m \<in> set (month_lengths y)" unfolding days_in_month_def by (intro nth_mem) simp
    then show "days_in_month y m \<le> 31" by (auto simp: month_lengths_def)
    with date show "d \<le> 99" by linarith
  qed
  have num: "number Y = Some y" "number M = Some m" "number D = Some d"
    unfolding dd using date dim by (auto intro!: number_pad2 number_pad4)
  define H Mi S U where tt: "H = pad_digits 2 (x div 1000000 div 3600)"
    "Mi = pad_digits 2 (x div 1000000 div 60 mod 60)" "S = pad_digits 2 (x div 1000000 mod 60)"
    "U = pad_digits 6 (x mod 1000000)"
  note clock = clock_parts [OF x]
  have m60: "0 \<le> v mod 60" "v mod 60 < 100" for v :: int
    using pos_mod_bound [of 60 v] by simp_all
  have mu: "0 \<le> x mod 1000000" "x mod 1000000 < 1000000" by simp_all
  have numt: "number H = Some (x div 1000000 div 3600)" "number Mi = Some (x div 1000000 div 60 mod 60)"
    "number S = Some (x div 1000000 mod 60)" "number U = Some (x mod 1000000)"
    unfolding tt using clock(1,2) by (simp_all only: number_pad2 number_pad6 m60 mu)
  let ?time = "H @ 58 # Mi @ 58 # S @ 46 # U"
  let ?text = "Y @ 45 # M @ 45 # D @ 84 # ?time"
  have fresh: "c \<notin> set Y \<union> set M \<union> set D \<union> set H \<union> set Mi \<union> set S \<union> set U" if "\<not> is_digit c" for c
    using that num numt by (auto simp: number_def list_all_iff split: if_splits)
  have "isoformat True t = ?text @ lit ''+00:00''"
    unfolding isoformat_def n_def [symmetric] ymd x_def [symmetric] using assms(2)
    by (simp add: format_clock_def Let_def dd tt format_offset_def lit_def numeral_2_eq_2)
  moreover have "43 \<notin> set ?text" using fresh [of 43] by (auto simp: is_digit_def)
  ultimately have rendered: "utc_suffix (isoformat True t) = Y @ 45 # M @ 45 # D @ 84 # ?time @ [90]"
    unfolding utc_suffix_def using replace_all_fresh [of "lit ''+00:00''" ?text "lit ''Z''"]
    by (simp add: lit_def)
  have lens: "length Y = 4" "length M = 2" "length D = 2" "length H = 2" "length Mi = 2" "length S = 2" "length U = 6"
    by (simp_all add: dd tt)
  have tz: "parse_time_zone (?time @ [90]) = Some (x, Some 0)"
  proof -
    have sub: "c \<notin> set (?time @ [90])" if "\<not> is_digit c" "c \<notin> {58, 46, 90}" for c
      using fresh [OF that(1)] that(2) by auto
    have "90 \<notin> set ?time" using fresh [of 90] by (auto simp: is_digit_def)
    then have "split_once 90 (?time @ [90]) = Some (?time, [])" by (simp only: split_once_Some) simp
    moreover have "parse_hms ?time = Some (x div 1000000 div 3600, x div 1000000 div 60 mod 60, x div 1000000 mod 60, x mod 1000000)"
      using parse_hms_text [OF numt] lens by simp
    ultimately show ?thesis
      unfolding parse_time_zone_def Let_def using sub [of 45] sub [of 43] clock lens
      by (simp add: is_digit_def clock_time_def del: split_once.simps)
  qed
  note pd = parse_date_text [OF num lens(1-3)]
  have "fromisoformat_text (Y @ 45 # M @ 45 # D @ 84 # ?time @ [90]) =
      Some \<lparr>dt_local = ymd2ord y m d * day_us + x, dt_offset = Some 0\<rparr>"
    unfolding fromisoformat_text_def Let_def using pd(1) pd(2-4) [of "?time @ [90]"] tz date lens nx assms(1)
    by (simp add: Let_def)
  then show ?thesis unfolding rendered using date nx assms(2) by simp
qed

end
