(* ===== verification/Authorization.thy ===== *)
theory Authorization
  imports Signing Datetime
begin

text \<open>
  The pattern that change intents, key transitions, retention policies, shadow authorizations
  and response envelopes share: a document with a nested member \<open>authorization\<close> whose
  \<open>signature\<close> covers the document without it, framed by a label of its kind. Each module of
  the source has its own copy of these functions; here they are written once, with the label,
  the exception class and the messages as arguments, and every component instantiates them.

  The locale \<open>authorization_signing\<close> is the contract the components rely on: what the signed
  bytes are and what signing produces. Its lemmas show that signing does not change the signed
  bytes, that the fresh signature is accepted, and that equal signed bytes mean equal content.
\<close>

section \<open>Schema validation\<close>

definition validate :: "env \<Rightarrow> string \<Rightarrow> pyval \<Rightarrow> unit res" where
  "validate E name inst = ensure (schema_ok E name inst) ValidationError name (Inr ())"

section \<open>Signed bytes, signing and the authority check\<close>

definition authorization_payload :: "string \<Rightarrow> exc \<Rightarrow> string \<Rightarrow> pydict \<Rightarrow> bytes res" where
  "authorization_payload label e missing document =
     (case dict_get document ''authorization'' of
        VDict authorization \<Rightarrow>
          ebind (canonical_bytes (VDict (dict_put document ''authorization''
                   (VDict (dict_pop authorization ''signature''))))) (\<lambda>body.
          Inr (signing_frame label @ body))
      | _ \<Rightarrow> raise e missing)"

definition sign_authorization ::
    "string \<Rightarrow> exc \<Rightarrow> string \<Rightarrow> string \<Rightarrow> string \<Rightarrow> env \<Rightarrow> ed25519_signer \<Rightarrow> pydict \<Rightarrow> pydict res" where
  "sign_authorization label e missing already schema E signer unsigned_document =
     (case dict_get unsigned_document ''authorization'' of
        VDict authorization \<Rightarrow>
          ensure (\<not> dict_has authorization ''signature'') e already
            (ebind (authorization_payload label e missing unsigned_document) (\<lambda>payload.
             let document = dict_put unsigned_document ''authorization'' (VDict (dict_put authorization ''signature''
                   (signature_block (sg_key_id signer) (sign_bytes E signer payload))))
             in ebind (validate E schema (VDict document)) (\<lambda>_. Inr document)))
      | _ \<Rightarrow> raise e missing)"

text \<open>The condition of the verifiers, in the order in which it is evaluated: the authority
  named by the document, the key named by the signature, the signature.\<close>

definition authority_accepts :: "env \<Rightarrow> (pydict \<Rightarrow> bytes res) \<Rightarrow> pydict \<Rightarrow> trusted_key \<Rightarrow> bool res" where
  "authority_accepts E payload document authority =
     ebind (field document ''authorization'') (\<lambda>authorization.
     ebind (item authorization ''signature'') (\<lambda>signature.
     ebind (item authorization ''authority_id'') (\<lambda>authority_id.
     if authority_id \<noteq> VStr (tk_key_id authority) then Inr False
     else ebind (item signature ''key_id'') (\<lambda>key_id.
     if key_id \<noteq> VStr (tk_key_id authority) then Inr False
     else ebind (payload document) (\<lambda>bytes.
     ebind (item signature ''value'') (\<lambda>value.
     Inr (verify_bytes E bytes value (tk_public_key authority))))))))"

text \<open>The document whose canonical form is signed.\<close>

definition unsigned_part :: "pydict \<Rightarrow> pydict" where
  "unsigned_part d =
     (case dict_get d ''authorization'' of
        VDict a \<Rightarrow> dict_put d ''authorization'' (VDict (dict_pop a ''signature''))
      | _ \<Rightarrow> d)"

section \<open>The contract\<close>

locale authorization_signing =
  fixes label :: string
    and payload :: "pydict \<Rightarrow> bytes res"
    and sign_document :: "env \<Rightarrow> ed25519_signer \<Rightarrow> pydict \<Rightarrow> pydict res"
  assumes label_ok: "CHR 0x00 \<notin> set label"
    and payload_framed: "payload d = Inr p \<Longrightarrow>
      \<exists>a. dict_find d ''authorization'' = Some (VDict a) \<and>
        ebind (canonical_bytes (VDict (unsigned_part d))) (\<lambda>b. Inr (signing_frame label @ b)) = Inr p"
    and payload_cong: "dict_find d ''authorization'' = Some (VDict a) \<Longrightarrow>
      dict_find d' ''authorization'' = Some (VDict a') \<Longrightarrow> unsigned_part d = unsigned_part d' \<Longrightarrow> payload d = payload d'"
    and sign_document_shape: "sign_document E sg d = Inr d' \<Longrightarrow>
      \<exists>a p. dict_find d ''authorization'' = Some (VDict a) \<and> dict_find a ''signature'' = None \<and> payload d = Inr p \<and>
        d' = dict_put d ''authorization''
               (VDict (dict_put a ''signature'' (signature_block (sg_key_id sg) (sign_bytes E sg p))))"
begin

lemma payload_inject:
  assumes "payload d = Inr p" "payload d2 = Inr p" "py_wf (VDict (unsigned_part d))" "py_wf (VDict (unsigned_part d2))"
  shows "canon (VDict (unsigned_part d)) = canon (VDict (unsigned_part d2))"
  using payload_framed [OF assms(1)] payload_framed [OF assms(2)] framed_inject assms(3,4) label_ok by blast

lemma unsigned_part_sign:
  assumes "sign_document E sg d = Inr d'"
  shows "unsigned_part d' = unsigned_part d"
  using sign_document_shape [OF assms] by (auto simp: unsigned_part_def dict_get_def dict_find_put)

lemma payload_sign:
  assumes "sign_document E sg d = Inr d'"
  shows "payload d' = payload d"
proof -
  obtain a a' where "dict_find d ''authorization'' = Some (VDict a)" "dict_find d' ''authorization'' = Some (VDict a')"
    using sign_document_shape [OF assms] by (auto simp: dict_find_put)
  then show ?thesis using unsigned_part_sign [OF assms] payload_cong by metis
qed

lemma sign_document_fields:
  assumes "sign_document E sg d = Inr d'" "k \<noteq> ''authorization''"
  shows "dict_find d' k = dict_find d k"
  using sign_document_shape [OF assms(1)] assms(2) by (auto simp: dict_find_put)

text \<open>The authority that signed is accepted under its own identity.\<close>

lemma signed_is_accepted:
  assumes "ed25519_ok E" "length (sg_private_key sg) = 32" "sign_document E sg d = Inr d'"
    and "dict_find d ''authorization'' = Some (VDict a)" "dict_find a ''authority_id'' = Some (VStr (sg_key_id sg))"
  shows "authority_accepts E payload d' \<lparr>tk_key_id = sg_key_id sg, tk_public_key = signer_public_key E sg\<rparr> = Inr True"
proof -
  obtain p where p: "payload d = Inr p"
    and d': "d' = dict_put d ''authorization''
               (VDict (dict_put a ''signature'' (signature_block (sg_key_id sg) (sign_bytes E sg p))))"
    using sign_document_shape [OF assms(3)] assms(4) by auto
  have "payload d' = Inr p" using payload_sign [OF assms(3)] p by simp
  then show ?thesis
    using ed25519_okD [OF assms(1,2)] assms(5)
    by (simp add: authority_accepts_def d' item_def dict_find_put signature_block_def)
qed

text \<open>Acceptance means that the authority's key verified exactly the signed bytes.\<close>

lemma accepted_is_signed:
  assumes "authority_accepts E payload d key = Inr True"
  shows "\<exists>a sig p v s. dict_find d ''authorization'' = Some (VDict a) \<and>
    dict_find a ''authority_id'' = Some (VStr (tk_key_id key)) \<and>
    dict_find a ''signature'' = Some (VDict sig) \<and> dict_find sig ''key_id'' = Some (VStr (tk_key_id key)) \<and>
    dict_find sig ''value'' = Some v \<and> unbase64url v = Inr s \<and>
    payload d = Inr p \<and> ed_verify E (tk_public_key key) p s"
proof -
  obtain a sig p v where *: "dict_find d ''authorization'' = Some (VDict a)"
    "dict_find a ''authority_id'' = Some (VStr (tk_key_id key))"
    "dict_find a ''signature'' = Some (VDict sig)" "dict_find sig ''key_id'' = Some (VStr (tk_key_id key))"
    "payload d = Inr p" "dict_find sig ''value'' = Some v" "verify_bytes E p v (tk_public_key key)"
    using assms by (auto simp: authority_accepts_def res_simps item_Inr split: if_splits)
  from *(7) obtain s where "unbase64url v = Inr s" "ed_verify E (tk_public_key key) p s"
    by (auto simp: verify_bytes_def split: sum.splits)
  with * show ?thesis by blast
qed

end

lemma authorization_payload_framed:
  assumes "authorization_payload label e m d = Inr p"
  shows "\<exists>a. dict_find d ''authorization'' = Some (VDict a) \<and>
    ebind (canonical_bytes (VDict (unsigned_part d))) (\<lambda>b. Inr (signing_frame label @ b)) = Inr p"
  using assms by (auto simp: authorization_payload_def unsigned_part_def dict_get_def
      split: pyval.splits option.splits)

lemma authorization_payload_cong:
  assumes "dict_find d ''authorization'' = Some (VDict a)" "dict_find d' ''authorization'' = Some (VDict a')"
    "unsigned_part d = unsigned_part d'"
  shows "authorization_payload label e m d = authorization_payload label e m d'"
  using assms by (simp add: authorization_payload_def unsigned_part_def dict_get_def)

lemma sign_authorization_shape:
  assumes "sign_authorization label e m1 m2 schema E sg d = Inr d'"
  shows "\<exists>a p. dict_find d ''authorization'' = Some (VDict a) \<and> dict_find a ''signature'' = None \<and>
    authorization_payload label e m1 d = Inr p \<and>
    d' = dict_put d ''authorization''
           (VDict (dict_put a ''signature'' (signature_block (sg_key_id sg) (sign_bytes E sg p))))"
  using assms by (auto simp: sign_authorization_def dict_get_def dict_has_def res_simps Let_def
      split: pyval.splits option.splits)

lemmas authorization_signing_rules =
  authorization_payload_framed authorization_payload_cong sign_authorization_shape

lemma authorization_signing_instance:
  assumes "CHR 0x00 \<notin> set label"
  shows "authorization_signing label (authorization_payload label e m1) (sign_authorization label e m1 m2 schema)"
  using assms authorization_signing_rules by unfold_locales blast+

lemma unsigned_part_wf: "py_wf (VDict d) \<Longrightarrow> py_wf (VDict (unsigned_part d))"
proof -
  assume wf: "py_wf (VDict d)"
  have "py_wf (VDict (dict_put d ''authorization'' (VDict (dict_pop a ''signature''))))"
    if "dict_find d ''authorization'' = Some (VDict a)" for a
    using py_wf_put [OF wf] py_wf_pop py_wf_find [OF wf that] by blast
  then show ?thesis using wf
    by (auto simp: unsigned_part_def dict_get_def simp del: py_wf.simps split: pyval.splits option.splits)
qed

end
