(* ===== verification/KeyLifecycle.thy ===== *)
theory KeyLifecycle
  imports Authorization
begin

text \<open>
  \<open>key_lifecycle.py\<close>: enrolment, rotation, revocation and recovery of one tenant's public
  key, as a state machine driven by signed transitions. \<open>apply_key_transition\<close> is the whole
  operation; \<open>lifecycle_step\<close> and \<open>lifecycle_run\<close> are the step relation and its runs, on
  which the invariant, the freshness of key identifiers and the absence of replay are proved.
  The tenant profile check \<open>validate_tenant_id\<close> of \<open>tenant.py\<close> is included because the
  state runs it whenever it is constructed.
\<close>

section \<open>Tenant identifiers\<close>

definition lower_alnum :: "int \<Rightarrow> bool" where
  "lower_alnum c \<longleftrightarrow> 97 \<le> c \<and> c \<le> 122 \<or> is_digit c"

text \<open>\<open>^tenant:[a-z0-9][a-z0-9._-]{0,63}$\<close>, matched in full.\<close>

definition tenant_id_ok :: "ustring \<Rightarrow> bool" where
  "tenant_id_ok s \<longleftrightarrow>
     starts_with (lit ''tenant:'') s \<and>
     (case drop 7 s of
        [] \<Rightarrow> False
      | c # r \<Rightarrow> lower_alnum c \<and> length r \<le> 63 \<and> (\<forall>x \<in> set r. lower_alnum x \<or> x = 46 \<or> x = 95 \<or> x = 45))"

definition validate_tenant_id :: "ustring \<Rightarrow> ustring res" where
  "validate_tenant_id tenant_id =
     ensure (tenant_id_ok tenant_id) TenantIsolationError ''tenant_id is outside the canonical profile'' (Inr tenant_id)"

section \<open>State\<close>

record key_record =
  kr_key_id :: ustring
  kr_public_key_value :: ustring
  kr_valid_from :: ustring
  kr_valid_until :: ustring

record key_lifecycle_state =
  kl_tenant_id :: ustring
  kl_purpose :: ustring
  kl_sequence :: int
  kl_active :: "key_record option"
  kl_retired :: "ustring set"
  kl_revoked :: "ustring set"

definition key_record_trusted_key :: "key_record \<Rightarrow> trusted_key res" where
  "key_record_trusted_key r = trusted_key_from_value (kr_key_id r) (VStr (kr_public_key_value r))"

text \<open>The constructor with \<open>__post_init__\<close>, and the state of an empty lifecycle.\<close>

definition make_lifecycle_state :: "key_lifecycle_state \<Rightarrow> key_lifecycle_state res" where
  "make_lifecycle_state s = ebind (validate_tenant_id (kl_tenant_id s)) (\<lambda>_. Inr s)"

definition initial_lifecycle :: "ustring \<Rightarrow> ustring \<Rightarrow> key_lifecycle_state" where
  "initial_lifecycle tenant_id purpose =
     \<lparr>kl_tenant_id = tenant_id, kl_purpose = purpose, kl_sequence = - 1, kl_active = None,
      kl_retired = {}, kl_revoked = {}\<rparr>"

section \<open>Signing and verification of transitions\<close>

definition key_parse_time :: "pyval \<Rightarrow> datetime res" where
  "key_parse_time = parse_aware True KeyLifecycleError ''invalid key lifecycle timestamp''
     ''key lifecycle timestamp must include timezone''"

definition key_transition_payload :: "pydict \<Rightarrow> bytes res" where
  "key_transition_payload = authorization_payload ''key-transition-v1'' KeyLifecycleError
     ''key transition authorization is missing''"

definition sign_key_transition :: "env \<Rightarrow> ed25519_signer \<Rightarrow> pydict \<Rightarrow> pydict res" where
  "sign_key_transition = sign_authorization ''key-transition-v1'' KeyLifecycleError
     ''key transition authorization is missing'' ''key transition is already signed'' ''key-transition''"

definition verify_transition_authority :: "env \<Rightarrow> pydict \<Rightarrow> trusted_key \<Rightarrow> unit res" where
  "verify_transition_authority E document authority_key =
     ebind (authority_accepts E key_transition_payload document authority_key) (\<lambda>accepted.
     ensure accepted KeyLifecycleError ''key transition authority signature rejected'' (Inr ()))"

definition successor_record :: "pydict \<Rightarrow> key_record option res" where
  "successor_record document =
     ebind (field document ''successor'') (\<lambda>successor.
     if successor = VNone then Inr None
     else
       ebind (text_item successor ''key_id'') (\<lambda>key_id.
       ebind (text_item successor ''public_key'') (\<lambda>public_key.
       ebind (text_item successor ''valid_from'') (\<lambda>valid_from.
       ebind (text_item successor ''valid_until'') (\<lambda>valid_until.
       let r = \<lparr>kr_key_id = key_id, kr_public_key_value = public_key,
                kr_valid_from = valid_from, kr_valid_until = valid_until\<rparr> in
       ebind (key_record_trusted_key r) (\<lambda>_.
       ebind (key_parse_time (VStr valid_from)) (\<lambda>from.
       ebind (key_parse_time (VStr valid_until)) (\<lambda>until.
       ebind (field document ''recorded_at'') (\<lambda>recorded.
       ebind (key_parse_time recorded) (\<lambda>at.
       ensure (instant from \<le> instant at \<and> instant at \<le> instant until) KeyLifecycleError
         ''successor key is not valid at transition time'' (Inr (Some r))))))))))))"

text \<open>The change of the active, retired and revoked keys that an operation makes.\<close>

definition transition_effect ::
    "key_lifecycle_state \<Rightarrow> pyval \<Rightarrow> pyval \<Rightarrow> key_record option \<Rightarrow>
     (key_record option \<times> ustring set \<times> ustring set) res" where
  "transition_effect s operation predecessor successor =
     (let active = kl_active s; retired = kl_retired s; revoked = kl_revoked s;
          names_active = (case active of None \<Rightarrow> False | Some a \<Rightarrow> predecessor = VStr (kr_key_id a)) in
      if operation = vlit ''enroll'' then
        ensure (kl_sequence s = - 1 \<and> active = None \<and> predecessor = VNone) KeyLifecycleError
          ''enrollment is allowed only for an empty lifecycle'' (Inr (successor, retired, revoked))
      else if operation = vlit ''rotate'' then
        ensure (names_active \<and> successor \<noteq> None) KeyLifecycleError
          ''rotation predecessor does not match active key''
          (Inr (successor, insert (kr_key_id (the active)) retired, revoked))
      else if operation = vlit ''revoke'' then
        ensure (names_active \<and> successor = None) KeyLifecycleError
          ''revocation predecessor does not match active key''
          (Inr (None, retired, insert (kr_key_id (the active)) revoked))
      else if operation = vlit ''recover'' then
        ensure (0 \<le> kl_sequence s \<and> active = None \<and> revoked \<noteq> {} \<and> predecessor = VNone \<and> successor \<noteq> None)
          KeyLifecycleError ''recovery requires a previously revoked inactive lifecycle''
          (Inr (successor, retired, revoked))
      else raise KeyLifecycleError ''unsupported key transition operation'')"

definition reuses_key :: "key_lifecycle_state \<Rightarrow> key_record option \<Rightarrow> bool" where
  "reuses_key s successor =
     (case successor of
        None \<Rightarrow> False
      | Some r \<Rightarrow> kr_key_id r \<in> kl_retired s \<or> kr_key_id r \<in> kl_revoked s \<or>
                  (case kl_active s of None \<Rightarrow> False | Some a \<Rightarrow> kr_key_id r = kr_key_id a))"

text \<open>The number that the state stores; a truth value counts as 0 or 1, and anything else has not
  passed the comparison before.\<close>

definition sequence_number :: "pyval \<Rightarrow> int res" where
  "sequence_number v =
     (case v of VInt n \<Rightarrow> Inr n | VBool b \<Rightarrow> Inr (if b then 1 else 0) | _ \<Rightarrow> raise TypeError ''sequence'')"

definition apply_key_transition ::
    "env \<Rightarrow> key_lifecycle_state \<Rightarrow> pydict \<Rightarrow> trusted_key \<Rightarrow> key_lifecycle_state res" where
  "apply_key_transition E s document authority_key =
     ebind (catch_as (\<lambda>_. True) KeyLifecycleError ''key transition schema rejected''
              (validate E ''key-transition'' (VDict document))) (\<lambda>_.
     ebind (verify_transition_authority E document authority_key) (\<lambda>_.
     ebind (field document ''tenant_id'') (\<lambda>tenant.
     ensure (tenant = VStr (kl_tenant_id s)) KeyLifecycleError ''cross-tenant key transition prohibited''
     (ebind (field document ''purpose'') (\<lambda>purpose.
     ensure (purpose = VStr (kl_purpose s)) KeyLifecycleError ''key purpose mismatch''
     (ebind (field document ''sequence'') (\<lambda>seq.
     ensure (py_eq seq (VInt (kl_sequence s + 1))) KeyLifecycleError ''key transition sequence mismatch''
     (ebind (field document ''operation'') (\<lambda>operation.
     ebind (field document ''predecessor_key_id'') (\<lambda>predecessor.
     ebind (successor_record document) (\<lambda>successor.
     ensure (\<not> reuses_key s successor) KeyLifecycleError ''key identifier reuse is prohibited''
     (ebind (transition_effect s operation predecessor successor) (\<lambda>(active, retired, revoked).
     ebind (sequence_number seq) (\<lambda>n.
     make_lifecycle_state
       \<lparr>kl_tenant_id = kl_tenant_id s, kl_purpose = kl_purpose s, kl_sequence = n,
        kl_active = active, kl_retired = retired, kl_revoked = revoked\<rparr>))))))))))))))"

definition trusted_active_key :: "key_lifecycle_state \<Rightarrow> pyval \<Rightarrow> trusted_key res" where
  "trusted_active_key s at =
     (case kl_active s of
        None \<Rightarrow> raise KeyLifecycleError ''key lifecycle has no active key''
      | Some r \<Rightarrow>
          ebind (key_parse_time at) (\<lambda>current.
          ebind (key_parse_time (VStr (kr_valid_from r))) (\<lambda>from.
          ensure (instant from \<le> instant current) KeyLifecycleError ''active key is outside its validity interval''
          (ebind (key_parse_time (VStr (kr_valid_until r))) (\<lambda>until.
          ensure (instant current \<le> instant until) KeyLifecycleError ''active key is outside its validity interval''
            (key_record_trusted_key r))))))"

section \<open>Runs\<close>

text \<open>One accepted transition, and the runs they make. The list collects the identifiers that
  became active, latest first.\<close>

definition activated :: "key_record option \<Rightarrow> key_record option \<Rightarrow> ustring list" where
  "activated old new = (case new of None \<Rightarrow> [] | Some r \<Rightarrow> if old = new then [] else [kr_key_id r])"

inductive lifecycle_run ::
    "env \<Rightarrow> trusted_key \<Rightarrow> key_lifecycle_state \<Rightarrow> ustring list \<Rightarrow> key_lifecycle_state \<Rightarrow> bool"
  for E authority s0 where
  start: "lifecycle_run E authority s0 [] s0"
| step: "lifecycle_run E authority s0 ids s \<Longrightarrow> apply_key_transition E s document authority = Inr s' \<Longrightarrow>
    lifecycle_run E authority s0 (activated (kl_active s) (kl_active s') @ ids) s'"

inductive_cases lifecycle_runE: "lifecycle_run E authority s0 ids s"

definition lifecycle_inv :: "ustring list \<Rightarrow> key_lifecycle_state \<Rightarrow> bool" where
  "lifecycle_inv ids s \<longleftrightarrow>
     - 1 \<le> kl_sequence s \<and> distinct ids \<and> kl_retired s \<inter> kl_revoked s = {} \<and>
     (case kl_active s of
        None \<Rightarrow> set ids = kl_retired s \<union> kl_revoked s
      | Some r \<Rightarrow> kr_key_id r \<notin> kl_retired s \<union> kl_revoked s \<and>
                  set ids = insert (kr_key_id r) (kl_retired s \<union> kl_revoked s))"

section \<open>Facts\<close>

interpretation kt: authorization_signing "''key-transition-v1''" key_transition_payload sign_key_transition
  unfolding key_transition_payload_def sign_key_transition_def
  by (rule authorization_signing_instance) simp

lemma sequence_number_eq: "py_eq v (VInt n) \<Longrightarrow> sequence_number v = Inr m \<longleftrightarrow> m = n"
  by (cases v) (auto simp: sequence_number_def)

lemma apply_key_transitionE:
  assumes "apply_key_transition E s document authority = Inr s'"
  obtains operation predecessor successor seq where
    "schema_ok E ''key-transition'' (VDict document)"
    "authority_accepts E key_transition_payload document authority = Inr True"
    "dict_find document ''tenant_id'' = Some (VStr (kl_tenant_id s))"
    "dict_find document ''purpose'' = Some (VStr (kl_purpose s))"
    "dict_find document ''sequence'' = Some seq" "py_eq seq (VInt (kl_sequence s + 1))"
    "dict_find document ''operation'' = Some operation"
    "dict_find document ''predecessor_key_id'' = Some predecessor"
    "successor_record document = Inr successor" "\<not> reuses_key s successor"
    "transition_effect s operation predecessor successor = Inr (kl_active s', kl_retired s', kl_revoked s')"
    "kl_sequence s' = kl_sequence s + 1" "kl_tenant_id s' = kl_tenant_id s" "kl_purpose s' = kl_purpose s"
    "tenant_id_ok (kl_tenant_id s)"
  using assms
  by (auto simp: apply_key_transition_def verify_transition_authority_def validate_def
      make_lifecycle_state_def validate_tenant_id_def res_simps sequence_number_eq)

lemma transition_effect_cases:
  assumes "transition_effect s operation predecessor successor = Inr (active, retired, revoked)"
  obtains
    (enroll) "operation = vlit ''enroll''" "kl_sequence s = - 1" "kl_active s = None"
      "active = successor" "retired = kl_retired s" "revoked = kl_revoked s"
  | (rotate) r new where "operation = vlit ''rotate''" "kl_active s = Some r" "predecessor = VStr (kr_key_id r)"
      "successor = Some new" "active = Some new" "retired = insert (kr_key_id r) (kl_retired s)" "revoked = kl_revoked s"
  | (revoke) r where "operation = vlit ''revoke''" "kl_active s = Some r" "predecessor = VStr (kr_key_id r)"
      "successor = None" "active = None" "retired = kl_retired s" "revoked = insert (kr_key_id r) (kl_revoked s)"
  | (recover) new where "operation = vlit ''recover''" "kl_active s = None" "0 \<le> kl_sequence s"
      "kl_revoked s \<noteq> {}" "successor = Some new" "active = Some new" "retired = kl_retired s" "revoked = kl_revoked s"
proof -
  note defs = transition_effect_def Let_def res_simps
  consider "operation = vlit ''enroll''" | "operation = vlit ''rotate''" | "operation = vlit ''revoke''"
    | "operation = vlit ''recover''"
    using assms by (auto simp: defs split: if_splits)
  then show thesis
  proof cases
    case 1
    with assms show thesis by (intro enroll) (simp_all add: defs)
  next
    case 2
    with assms obtain r new where "kl_active s = Some r" "predecessor = VStr (kr_key_id r)" "successor = Some new"
      by (auto simp: defs split: option.splits)
    with 2 assms show thesis by (intro rotate [of r new]) (simp_all add: defs)
  next
    case 3
    with assms obtain r where "kl_active s = Some r" "predecessor = VStr (kr_key_id r)" "successor = None"
      by (auto simp: defs split: option.splits)
    with 3 assms show thesis by (intro revoke [of r]) (simp_all add: defs)
  next
    case 4
    with assms obtain new where "successor = Some new" by (auto simp: defs)
    with 4 assms show thesis by (intro recover [of new]) (auto simp: defs)
  qed
qed

lemma lifecycle_inv_step:
  assumes "lifecycle_inv ids s" "apply_key_transition E s document authority = Inr s'"
  shows "lifecycle_inv (activated (kl_active s) (kl_active s') @ ids) s'"
  using assms(2)
proof (rule apply_key_transitionE)
  fix operation predecessor successor
  assume eff: "transition_effect s operation predecessor successor = Inr (kl_active s', kl_retired s', kl_revoked s')"
    and fresh: "\<not> reuses_key s successor" and seq: "kl_sequence s' = kl_sequence s + 1"
  from eff show ?thesis
  proof (cases rule: transition_effect_cases)
    case enroll
    with assms(1) fresh seq show ?thesis
      by (auto simp: lifecycle_inv_def reuses_key_def activated_def split: option.splits)
  next
    case (rotate r new)
    with assms(1) fresh seq show ?thesis
      by (auto simp: lifecycle_inv_def reuses_key_def activated_def)
  next
    case (revoke r)
    with assms(1) fresh seq show ?thesis
      by (auto simp: lifecycle_inv_def reuses_key_def activated_def)
  next
    case (recover new)
    with assms(1) fresh seq show ?thesis
      by (auto simp: lifecycle_inv_def reuses_key_def activated_def)
  qed
qed

lemma lifecycle_run_inv:
  assumes "lifecycle_run E authority (initial_lifecycle tenant purpose) ids s"
  shows "lifecycle_inv ids s"
  using assms
proof induction
  case start
  show ?case by (simp add: lifecycle_inv_def initial_lifecycle_def)
next
  case (step ids s document s')
  show ?case by (rule lifecycle_inv_step [OF step.IH step.hyps(2)])
qed

section \<open>An enrolment\<close>

definition demo_enrollment :: pydict where
  "demo_enrollment =
     mk_dict [(''tenant_id'', vlit ''tenant:a''), (''purpose'', vlit ''ledger''), (''sequence'', VInt 0),
       (''operation'', vlit ''enroll''), (''predecessor_key_id'', VNone),
       (''successor'', VDict (mk_dict [(''key_id'', vlit ''key:one''), (''public_key'', VStr (base64url (replicate 32 (CHR ''p'')))),
          (''valid_from'', vlit ''2026-01-01T00:00:00Z''), (''valid_until'', vlit ''2027-01-01T00:00:00Z'')])),
       (''recorded_at'', vlit ''2026-06-01T00:00:00Z''),
       (''authorization'', VDict (mk_dict [(''authority_id'', vlit ''key:demo''), (''decision'', vlit ''approved'')]))]"

definition demo_lifecycle :: key_lifecycle_state where
  "demo_lifecycle = initial_lifecycle (lit ''tenant:a'') (lit ''ledger'')"

lemma demo_enrollment_applies:
  "\<exists>d s. sign_key_transition demo_env demo_signer demo_enrollment = Inr d \<and>
     apply_key_transition demo_env demo_lifecycle d demo_key = Inr s \<and>
     map_option kr_key_id (kl_active s) = Some (lit ''key:one'')"
proof -
  have "succeeds (\<lambda>s. map_option kr_key_id (kl_active s) = Some (lit ''key:one''))
      (ebind (sign_key_transition demo_env demo_signer demo_enrollment)
         (\<lambda>d. apply_key_transition demo_env demo_lifecycle d demo_key))"
    by code_simp
  then show ?thesis by (auto dest!: succeedsD simp: res_simps)
qed

section \<open>Properties\<close>

text \<open>
  C5. In every run of accepted transitions from an empty lifecycle, the key identifiers that
  became active are pairwise different, a retired or revoked identifier is never active again,
  no identifier is both retired and revoked, and every identifier that was active before the
  current one is retired or revoked.
\<close>

theorem key_ids_never_reused:
  assumes "lifecycle_run E authority (initial_lifecycle tenant purpose) ids s"
  shows "distinct ids \<and> kl_retired s \<inter> kl_revoked s = {} \<and>
    set ids = kl_retired s \<union> kl_revoked s \<union> kr_key_id ` set_option (kl_active s) \<and>
    (\<forall>r. kl_active s = Some r \<longrightarrow> kr_key_id r \<notin> kl_retired s \<union> kl_revoked s)"
  using lifecycle_run_inv [OF assms] by (auto simp: lifecycle_inv_def split: option.splits)

theorem key_ids_never_reused_witness:
  "\<exists>s. lifecycle_run demo_env demo_key demo_lifecycle [lit ''key:one''] s \<and> kl_retired s \<inter> kl_revoked s = {} \<and>
     set [lit ''key:one''] = kl_retired s \<union> kl_revoked s \<union> kr_key_id ` set_option (kl_active s)"
proof -
  obtain d s where d: "apply_key_transition demo_env demo_lifecycle d demo_key = Inr s"
    and active: "map_option kr_key_id (kl_active s) = Some (lit ''key:one'')"
    using demo_enrollment_applies by blast
  have "lifecycle_run demo_env demo_key demo_lifecycle
      (activated (kl_active demo_lifecycle) (kl_active s) @ []) s"
    by (rule lifecycle_run.step [OF lifecycle_run.start d])
  then have run: "lifecycle_run demo_env demo_key demo_lifecycle [lit ''key:one''] s"
    using active by (auto simp: activated_def demo_lifecycle_def initial_lifecycle_def)
  from key_ids_never_reused [OF run [unfolded demo_lifecycle_def]] run show ?thesis by blast
qed

text \<open>
  C6. A transition is applied only when it is the next one of this lifecycle and its authority
  signed it: it names the trusted key as its authority and as its signer, that key verified the
  signature of the document over the exact signed bytes, tenant and purpose match, the sequence
  number of the document is the successor of the state's and becomes the state's, the new key is
  not one that was in use before, and the resulting keys are the effect of the operation.
\<close>

theorem applied_transition_is_authorized:
  assumes "apply_key_transition E s d key = Inr s'"
  shows "(\<exists>a block v signature p. dict_find d ''authorization'' = Some (VDict a) \<and> dict_find a ''authority_id'' = Some (VStr (tk_key_id key)) \<and>
       dict_find a ''signature'' = Some (VDict block) \<and> dict_find block ''key_id'' = Some (VStr (tk_key_id key)) \<and>
       dict_find block ''value'' = Some v \<and> unbase64url v = Inr signature \<and>
       key_transition_payload d = Inr p \<and> ed_verify E (tk_public_key key) p signature) \<and>
    dict_find d ''tenant_id'' = Some (VStr (kl_tenant_id s)) \<and> dict_find d ''purpose'' = Some (VStr (kl_purpose s)) \<and>
    (\<exists>n. dict_find d ''sequence'' = Some n \<and> py_eq n (VInt (kl_sequence s + 1))) \<and> kl_sequence s' = kl_sequence s + 1 \<and>
    kl_tenant_id s' = kl_tenant_id s \<and> kl_purpose s' = kl_purpose s \<and>
    (\<exists>operation predecessor successor. dict_find d ''operation'' = Some operation \<and>
       dict_find d ''predecessor_key_id'' = Some predecessor \<and> successor_record d = Inr successor \<and> \<not> reuses_key s successor \<and>
       transition_effect s operation predecessor successor = Inr (kl_active s', kl_retired s', kl_revoked s'))"
proof -
  from assms have "authority_accepts E key_transition_payload d key = Inr True"
    by (rule apply_key_transitionE)
  note signed = kt.accepted_is_signed [OF this]
  from assms show ?thesis
  proof (rule apply_key_transitionE)
    fix operation predecessor successor seq
    assume "dict_find d ''tenant_id'' = Some (VStr (kl_tenant_id s))" "dict_find d ''purpose'' = Some (VStr (kl_purpose s))"
      "dict_find d ''sequence'' = Some seq" "py_eq seq (VInt (kl_sequence s + 1))" "kl_sequence s' = kl_sequence s + 1"
      "kl_tenant_id s' = kl_tenant_id s" "kl_purpose s' = kl_purpose s" "dict_find d ''operation'' = Some operation"
      "dict_find d ''predecessor_key_id'' = Some predecessor" "successor_record d = Inr successor" "\<not> reuses_key s successor"
      "transition_effect s operation predecessor successor = Inr (kl_active s', kl_retired s', kl_revoked s')"
    then show ?thesis using signed by blast
  qed
qed

theorem applied_transition_is_authorized_witness:
  "\<exists>d s. apply_key_transition demo_env demo_lifecycle d demo_key = Inr s \<and> kl_sequence s = kl_sequence demo_lifecycle + 1"
proof -
  obtain d s where d: "apply_key_transition demo_env demo_lifecycle d demo_key = Inr s"
    using demo_enrollment_applies by blast
  from applied_transition_is_authorized [OF d] d show ?thesis by blast
qed

lemma lifecycle_run_grows:
  assumes "lifecycle_run E authority s0 ids s"
  shows "kl_sequence s0 \<le> kl_sequence s \<and> kl_tenant_id s = kl_tenant_id s0 \<and> kl_purpose s = kl_purpose s0"
  using assms
proof (induction rule: lifecycle_run.induct)
  case (step ids s d s')
  from step(2) have "kl_sequence s' = kl_sequence s + 1" "kl_tenant_id s' = kl_tenant_id s" "kl_purpose s' = kl_purpose s"
    by (rule apply_key_transitionE, simp)+
  then show ?case using step.IH by simp
qed simp

text \<open>
  C36. A key transition cannot be replayed: once it has been applied, the same document is refused
  because of its sequence number, at once and after any further transitions.
\<close>

theorem transition_not_replayable:
  assumes "apply_key_transition E s d key = Inr s'" "lifecycle_run E key s' ids u"
  shows "apply_key_transition E u d key = raise KeyLifecycleError ''key transition sequence mismatch''"
  using assms(1)
proof (rule apply_key_transitionE)
  fix seq
  assume facts: "schema_ok E ''key-transition'' (VDict d)"
    "authority_accepts E key_transition_payload d key = Inr True"
    "dict_find d ''tenant_id'' = Some (VStr (kl_tenant_id s))"
    "dict_find d ''purpose'' = Some (VStr (kl_purpose s))"
    "dict_find d ''sequence'' = Some seq" "py_eq seq (VInt (kl_sequence s + 1))"
    "kl_sequence s' = kl_sequence s + 1" "kl_tenant_id s' = kl_tenant_id s" "kl_purpose s' = kl_purpose s"
  have "\<not> py_eq seq (VInt (kl_sequence u + 1))"
    using facts(6,7) lifecycle_run_grows [OF assms(2)] by (cases seq) auto
  with facts lifecycle_run_grows [OF assms(2)] show ?thesis
    by (simp add: apply_key_transition_def validate_def verify_transition_authority_def item_def)
qed

theorem transition_not_replayable_witness:
  "\<exists>d s. apply_key_transition demo_env demo_lifecycle d demo_key = Inr s \<and>
     apply_key_transition demo_env s d demo_key = raise KeyLifecycleError ''key transition sequence mismatch''"
proof -
  obtain d s where d: "apply_key_transition demo_env demo_lifecycle d demo_key = Inr s"
    using demo_enrollment_applies by blast
  from transition_not_replayable [OF d lifecycle_run.start] d show ?thesis by blast
qed

end
