(* ===== verification/Identity.thy ===== *)
theory Identity
  imports Authorization
begin

text \<open>
  Content-addressed documents. Several builders of the repository put a placeholder into the
  member that holds a document's identifier, digest the document in the domain of its kind,
  and replace the placeholder by a prefix and the hexadecimal digest; the verifiers recompute
  it. \<open>content_identity\<close> is that computation, \<open>pending\<close> the document that is digested.
\<close>

definition content_identity :: "env \<Rightarrow> string \<Rightarrow> string \<Rightarrow> pydict \<Rightarrow> ustring res" where
  "content_identity E pre domain d =
     ebind (digest_object E (VDict d) (lit domain)) (\<lambda>digest.
     ebind (after_colon digest) (\<lambda>h. Inr (lit pre @ h)))"

text \<open>The document without its signature and with the placeholder as identifier.\<close>

definition pending :: "string \<Rightarrow> string \<Rightarrow> pydict \<Rightarrow> pydict" where
  "pending id_key placeholder d = dict_put (dict_pop d ''signature'') id_key (vlit placeholder)"

text \<open>A chain of comparisons \<open>v[k] == expected\<close> joined by \<open>and\<close>, which stops at the first
  that fails; the expected values are text, truth values or \<open>None\<close>.\<close>

fun all_items :: "pyval \<Rightarrow> (string \<times> pyval) list \<Rightarrow> bool res" where
  "all_items v [] = Inr True"
| "all_items v ((k, expected) # rest) =
     ebind (item v k) (\<lambda>x. if x \<noteq> expected then Inr False else all_items v rest)"

text \<open>The entries \<open>k: d[k]\<close> of a dictionary display, in order.\<close>

definition copy_fields :: "pydict \<Rightarrow> string list \<Rightarrow> (string \<times> pyval) list res" where
  "copy_fields d ks = map_res (\<lambda>k. ebind (field d k) (\<lambda>v. Inr (k, v))) ks"

text \<open>\<open>sorted\<close> on a list that the schema pins to text.\<close>

definition sorted_texts :: "pyval \<Rightarrow> pyval res" where
  "sorted_texts v =
     (case v of
        VList xs \<Rightarrow>
          ebind (map_res (\<lambda>x. case x of VStr s \<Rightarrow> Inr s | _ \<Rightarrow> raise TypeError ''unorderable'') xs) (\<lambda>ss.
          Inr (VList (map VStr (sort ss))))
      | _ \<Rightarrow> raise TypeError ''object is not iterable'')"

text \<open>Members that the schema pins to a list, to a list of texts and to an integer.\<close>

definition list_item :: "pyval \<Rightarrow> string \<Rightarrow> pyval list res" where
  "list_item v k = ebind (item v k) (\<lambda>x. case x of VList xs \<Rightarrow> Inr xs | _ \<Rightarrow> raise TypeError k)"

definition texts_item :: "pyval \<Rightarrow> string \<Rightarrow> ustring list res" where
  "texts_item v k =
     ebind (list_item v k) (\<lambda>xs. map_res (\<lambda>x. case x of VStr s \<Rightarrow> Inr s | _ \<Rightarrow> raise TypeError k) xs)"

definition int_item :: "pyval \<Rightarrow> string \<Rightarrow> int res" where
  "int_item v k = ebind (item v k) (\<lambda>x. case x of VInt n \<Rightarrow> Inr n | _ \<Rightarrow> raise TypeError k)"

text \<open>\<open>sorted(set(xs) - available)\<close>\<close>

definition missing_texts :: "ustring list \<Rightarrow> ustring list \<Rightarrow> ustring list" where
  "missing_texts xs available = sort (remdups (filter (\<lambda>x. x \<notin> set available) xs))"

text \<open>Values that the canonical encoding accepts.\<close>

definition encodable_text :: "ustring \<Rightarrow> bool" where
  "encodable_text s \<longleftrightarrow> list_all (\<lambda>c. is_code_point c \<and> \<not> is_surrogate c) s"

fun encodable :: "pyval \<Rightarrow> bool" where
  "encodable (VInt n) \<longleftrightarrow> length (nat_digits \<bar>n\<bar>) \<le> max_str_digits"
| "encodable (VStr s) \<longleftrightarrow> encodable_text s"
| "encodable (VList vs) \<longleftrightarrow> (\<forall>v \<in> set vs. encodable v)"
| "encodable (VDict kvs) \<longleftrightarrow>
     (\<forall>(k, v) \<in> set kvs. encodable v \<and> (case k of KStr s \<Rightarrow> encodable_text s | KOther t \<Rightarrow> False))"
| "encodable VNone \<longleftrightarrow> True"
| "encodable (VBool b) \<longleftrightarrow> True"
| "encodable _ \<longleftrightarrow> False"

section \<open>Facts\<close>

lemma text_item_Inr [res_simps]: "text_item v k = Inr s \<longleftrightarrow> item v k = Inr (VStr s)"
proof (cases "item v k")
  case (Inr x)
  then show ?thesis by (cases x) (simp_all add: text_item_def)
qed (simp add: text_item_def)

lemma list_item_Inr [res_simps]: "list_item v k = Inr xs \<longleftrightarrow> item v k = Inr (VList xs)"
proof (cases "item v k")
  case (Inr x)
  then show ?thesis by (cases x) (simp_all add: list_item_def)
qed (simp add: list_item_def)

lemma int_item_Inr [res_simps]: "int_item v k = Inr n \<longleftrightarrow> item v k = Inr (VInt n)"
proof (cases "item v k")
  case (Inr x)
  then show ?thesis by (cases x) (simp_all add: int_item_def)
qed (simp add: int_item_def)

lemma all_texts_Inr:
  "map_res (\<lambda>x. case x of VStr s \<Rightarrow> Inr s | _ \<Rightarrow> raise TypeError k) xs = Inr ss \<longleftrightarrow> xs = map VStr ss"
proof (induction xs arbitrary: ss)
  case Nil
  then show ?case by auto
next
  case (Cons x xs)
  then show ?case by (cases x) (auto simp: res_simps)
qed

lemma texts_item_Inr [res_simps]: "texts_item v k = Inr ss \<longleftrightarrow> item v k = Inr (VList (map VStr ss))"
  by (auto simp: texts_item_def res_simps all_texts_Inr)

lemma all_items_True [res_simps]:
  "all_items v kvs = Inr True \<longleftrightarrow> (\<forall>(k, x) \<in> set kvs. item v k = Inr x)"
  by (induction v kvs rule: all_items.induct) (auto simp: res_simps)

declare all_items.simps [simp del]

lemma copy_fields_Inr:
  "copy_fields d ks = Inr kvs \<longleftrightarrow> map fst kvs = ks \<and> (\<forall>(k, v) \<in> set kvs. dict_find d k = Some v)"
proof (induction ks arbitrary: kvs)
  case Nil
  then show ?case by (auto simp: copy_fields_def)
next
  case (Cons k ks)
  have "copy_fields d (k # ks) = Inr kvs \<longleftrightarrow>
      (\<exists>v rest. dict_find d k = Some v \<and> copy_fields d ks = Inr rest \<and> kvs = (k, v) # rest)"
    by (auto simp: copy_fields_def res_simps)
  also have "\<dots> \<longleftrightarrow> map fst kvs = k # ks \<and> (\<forall>(k, v) \<in> set kvs. dict_find d k = Some v)"
    unfolding Cons.IH by (cases kvs) auto
  finally show ?case .
qed

lemma copy_fields_find:
  assumes "copy_fields d ks = Inr kvs" "k \<in> set ks"
  shows "map_of kvs k = dict_find d k"
proof -
  have "k \<in> fst ` set kvs" using assms by (auto simp: copy_fields_Inr)
  then obtain v where "map_of kvs k = Some v" using weak_map_of_SomeI by fastforce
  moreover from this have "dict_find d k = Some v" using assms by (auto simp: copy_fields_Inr dest!: map_of_SomeD)
  ultimately show ?thesis by simp
qed

lemma demo_key_eq:
  "demo_key = \<lparr>tk_key_id = sg_key_id demo_signer, tk_public_key = signer_public_key demo_env demo_signer\<rparr>"
  by (simp add: signer_public_key_def demo_signer_def demo_key_def)

lemma encodable_lit [simp]: "encodable_text (lit s)"
  by (auto simp: encodable_text_def list_all_iff is_code_point_def is_surrogate_def dest: set_lit_range)

lemma encodable_append [simp]: "encodable_text (s @ t) \<longleftrightarrow> encodable_text s \<and> encodable_text t"
  by (simp add: encodable_text_def)

lemma encodable_hex [simp]: "encodable_text (hex b)"
  using hex_digits_range by (fastforce simp: encodable_text_def list_all_iff is_code_point_def is_surrogate_def)

lemma encodable_base64url [simp]: "encodable_text (base64url b)"
proof -
  have "0 \<le> b64_char x \<and> b64_char x < 128" if "x \<in> set (sextets (map of_char b))" for x
    using sextets_range [OF octets_map_of_char that] b64_char_range [of x] by (auto simp: b64_char_def)
  then show ?thesis
    by (force simp: base64url_sextets encodable_text_def list_all_iff is_code_point_def is_surrogate_def)
qed

lemma encodable_valid: "encodable v \<Longrightarrow> validate_value v = Inr () \<and> ints_ok v"
proof (induction v rule: encodable.induct)
  case (4 kvs)
  then show ?case by (fastforce split: pykey.splits)
qed auto

lemma escape_char_encodable: "is_code_point c \<Longrightarrow> \<not> is_surrogate c \<Longrightarrow> encodable_text (escape_char c)"
proof -
  assume c: "is_code_point c" "\<not> is_surrogate c"
  have h: "0 \<le> hex_digit n \<and> hex_digit n < 128" if "0 \<le> n" "n < 16" for n
    using that by (auto simp: hex_digit_def)
  have "c < 32 \<Longrightarrow> 0 \<le> c div 16 \<and> c div 16 < 16" using c by (auto simp: is_code_point_def)
  then show ?thesis using c h [of "c div 16"] h [of "c mod 16"]
    by (auto simp: escape_char_def encodable_text_def is_code_point_def is_surrogate_def)
qed

lemma quote_encodable: "encodable_text s \<Longrightarrow> encodable_text (quote s)"
proof -
  assume "encodable_text s"
  then have "\<forall>c \<in> set s. encodable_text (escape_char c)"
    using escape_char_encodable by (auto simp: encodable_text_def list_all_iff)
  then have "encodable_text (concat (map escape_char s))"
    by (induction s) (auto simp: encodable_text_def)
  then show ?thesis by (simp add: quote_def encodable_text_def is_code_point_def is_surrogate_def)
qed

lemma join_encodable: "encodable_text sep \<Longrightarrow> (\<And>x. x \<in> set xs \<Longrightarrow> encodable_text x) \<Longrightarrow> encodable_text (join sep xs)"
  by (induction sep xs rule: join.induct) (auto simp: encodable_text_def)

lemma dumps_encodable: "encodable v \<Longrightarrow> encodable_text (dumps v)"
proof (induction v rule: encodable.induct)
  case (1 n)
  have "list_all is_digit (nat_digits \<bar>n\<bar>)" by (intro nat_digits_are_digits) simp
  then have "list_all (\<lambda>c. is_code_point c \<and> \<not> is_surrogate c) (nat_digits \<bar>n\<bar>)"
    by (auto simp: list_all_iff is_digit_def is_code_point_def is_surrogate_def)
  then show ?case
    by (auto simp: int_repr_def encodable_text_def is_code_point_def is_surrogate_def split: if_splits)
next
  case (2 s)
  then show ?case by (simp add: quote_encodable)
next
  case (3 vs)
  then have "encodable_text (join [44] (map dumps vs))"
    by (intro join_encodable) (auto simp: encodable_text_def is_code_point_def is_surrogate_def)
  then show ?case by (simp add: encodable_text_def is_code_point_def is_surrogate_def)
next
  case (4 kvs)
  have pair: "encodable_text (quote (key_text k)) \<and> encodable_text (dumps v)" if "(k, v) \<in> set kvs" for k v
    using 4 that by (fastforce intro: quote_encodable split: pykey.splits)
  have "encodable_text (join [44] (map (\<lambda>(k, s). quote k @ 58 # s)
      (sorted_items (map (\<lambda>(k, v). (key_text k, dumps v)) kvs))))"
  proof (rule join_encodable)
    show "encodable_text [44]" by (simp add: encodable_text_def is_code_point_def is_surrogate_def)
    fix x
    assume "x \<in> set (map (\<lambda>(k, s). quote k @ 58 # s) (sorted_items (map (\<lambda>(k, v). (key_text k, dumps v)) kvs)))"
    then obtain k v where "(k, v) \<in> set kvs" "x = quote (key_text k) @ 58 # dumps v"
      by (auto simp: sorted_items_def)
    with pair show "encodable_text x" by (auto simp: encodable_text_def is_code_point_def is_surrogate_def)
  qed
  then show ?case by (simp add: encodable_text_def is_code_point_def is_surrogate_def)
qed (auto split: if_splits)

lemma canonical_bytes_encodable: "encodable v \<Longrightarrow> \<exists>b. canonical_bytes v = Inr b"
  using encodable_valid [of v] dumps_encodable [of v]
  by (simp add: canonical_bytes_def utf8_encode_def encodable_text_def)

lemma encodable_put: "encodable (VDict d) \<Longrightarrow> encodable v \<Longrightarrow> encodable (VDict (dict_put d k v))"
  using set_dict_put [of d k v] by fastforce

lemma encodable_pop: "encodable (VDict d) \<Longrightarrow> encodable (VDict (dict_pop d k))"
  using set_dict_pop [of d k] by fastforce

lemma sign_encodable:
  assumes "encodable (VDict d)"
  shows "\<exists>d'. sign E sg d = Inr d'"
  using canonical_bytes_encodable [OF encodable_pop [OF assms, of "''signature''"]]
  by (auto simp: sign_def signature_payload_def)

lemma encodable_text_code_points: "encodable_text s \<Longrightarrow> list_all is_code_point s"
  by (simp add: encodable_text_def list_all_iff)

lemma signed_encodable:
  assumes "sign E sg d = Inr d'" "encodable (VDict d)" "py_wf (VDict d)" "encodable_text (sg_key_id sg)"
  shows "encodable (VDict d')" "py_wf (VDict d')"
proof -
  obtain p where d': "d' = dict_put d ''signature'' (signature_block (sg_key_id sg) (sign_bytes E sg p))"
    using assms(1) by (auto simp: sign_def res_simps)
  have "encodable (signature_block (sg_key_id sg) (sign_bytes E sg p))" "py_wf (signature_block (sg_key_id sg) (sign_bytes E sg p))"
    using assms(4) encodable_text_code_points [OF assms(4)] encodable_text_code_points [OF encodable_base64url]
    by (simp_all add: signature_block_def mk_dict_def sign_bytes_def)
  then show "encodable (VDict d')" "py_wf (VDict d')"
    unfolding d' using encodable_put [OF assms(2)] py_wf_put [OF assms(3)] by blast+
qed

text \<open>Domains written in the source: printable ASCII without blanks or backslashes.\<close>

definition plain_domain :: "string \<Rightarrow> bool" where
  "plain_domain s \<longleftrightarrow> s \<noteq> [] \<and> (\<forall>c \<in> set (lit s). 33 \<le> c \<and> c \<le> 126 \<and> c \<noteq> 92)"

lemma validate_plain_domain: "plain_domain s \<Longrightarrow> validate_domain E (lit s) = Inr ()"
  by (auto simp: plain_domain_def validate_domain_def char_isspace_def char_isprintable_def)

lemma digest_prefix_encodes: "\<exists>p. utf8_encode (digest_prefix (lit s)) = Inr p"
proof -
  have sep: "encodable_text frame_separator"
    by (simp add: frame_separator_def encodable_text_def is_code_point_def is_surrogate_def)
  have "encodable_text (digest_prefix (lit s))"
    using sep by (simp add: digest_prefix_def profile_name_def)
  then show ?thesis by (simp add: utf8_encode_def encodable_text_def)
qed

lemma digest_object_encodable:
  assumes "encodable v" "plain_domain s"
  shows "\<exists>h. digest_object E v (lit s) = Inr (lit ''sha256:'' @ hex h)"
  using digest_prefix_encodes [of s] canonical_bytes_encodable [OF assms(1)] validate_plain_domain [OF assms(2), of E]
  by (auto simp: digest_object_def digest_input_def sha256_digest_def)

lemma content_identity_encodable:
  assumes "encodable (VDict d)" "plain_domain s"
  shows "\<exists>h. content_identity E pre s d = Inr (lit pre @ hex h)"
  using digest_object_encodable [OF assms, of E] by (auto simp: content_identity_def)

lemma digest_object_split:
  assumes "digest_object E v dn = Inr x"
  shows "\<exists>p. digest_input E v dn = Inr p \<and> x = lit ''sha256:'' @ hex (sha256 p)"
  using assms by (auto simp: digest_object_def sha256_digest_def res_simps)

lemma digest_object_same:
  assumes "digest_object E v dn = Inr x" "digest_object E w dn = Inr x" "py_wf v" "py_wf w"
  shows "canon v = canon w \<or> (\<exists>p q. digest_input E v dn = Inr p \<and> digest_input E w dn = Inr q \<and> sha256_collision p q)"
proof -
  obtain p q where p: "digest_input E v dn = Inr p" "x = sha256_digest p" and q: "digest_input E w dn = Inr q" "x = sha256_digest q"
    using assms(1,2) by (auto simp: digest_object_def res_simps)
  then have "p = q \<or> sha256_collision p q" using sha256_digest_eq by simp
  then show ?thesis using p q digest_input_inject assms(3,4) by blast
qed

lemma content_identity_Inr:
  "content_identity E pre domain d = Inr x \<longleftrightarrow>
   (\<exists>p. digest_input E (VDict d) (lit domain) = Inr p \<and> x = lit pre @ hex (sha256 p))"
  by (cases "digest_input E (VDict d) (lit domain)")
    (auto simp: content_identity_def digest_object_def sha256_digest_def res_simps)

lemma content_identity_binds:
  assumes "content_identity E pre domain d = Inr x" "content_identity E pre domain d2 = Inr x"
    and "py_wf (VDict d)" "py_wf (VDict d2)"
  shows "canon (VDict d) = canon (VDict d2) \<or>
    (\<exists>p q. digest_input E (VDict d) (lit domain) = Inr p \<and> digest_input E (VDict d2) (lit domain) = Inr q \<and>
           sha256_collision p q)"
proof -
  obtain p q where p: "digest_input E (VDict d) (lit domain) = Inr p" "x = lit pre @ hex (sha256 p)"
    and q: "digest_input E (VDict d2) (lit domain) = Inr q" "x = lit pre @ hex (sha256 q)"
    using assms(1,2) by (auto simp: content_identity_Inr)
  then have "p = q \<or> sha256_collision p q" using sha256_neq [of p q] by simp
  then show ?thesis using p q digest_input_inject assms(3,4) by blast
qed

lemma py_wf_pending: "py_wf (VDict d) \<Longrightarrow> py_wf (VDict (pending k p d))"
  unfolding pending_def by (intro py_wf_put py_wf_pop) simp_all

text \<open>Filling in the identifier and signing leave the digested document as it was.\<close>

lemma pending_sign:
  assumes "sign E sg (dict_put d id_key (VStr x)) = Inr d'" "dict_find d id_key = Some (vlit placeholder)"
    "dict_find d ''signature'' = None" "id_key \<noteq> ''signature''"
  shows "pending id_key placeholder d' = d"
proof -
  have "dict_pop d' ''signature'' = dict_pop (dict_put d id_key (VStr x)) ''signature''"
    by (rule sign_pop [OF assms(1)])
  also have "\<dots> = dict_put d id_key (VStr x)" using assms(3,4) by (simp add: dict_pop_put_other)
  finally show ?thesis using assms(2) by (simp add: pending_def dict_put_same)
qed

subsection \<open>Values that the encoding accepts, exactly\<close>

text \<open>\<open>encodable\<close> is enough for an encoding to exist; \<open>codable\<close> says it exactly, also for lists of
  numbers that are no Python text, and so carries the success of one digest over to the next.\<close>

definition codable :: "pyval \<Rightarrow> bool" where
  "codable v \<longleftrightarrow> validate_value v = Inr () \<and> ints_ok v \<and> encodable_text (dumps v)"

lemma canonical_bytes_codable: "(\<exists>b. canonical_bytes v = Inr b) \<longleftrightarrow> codable v"
  by (auto simp: canonical_bytes_def codable_def utf8_encode_def encodable_text_def res_simps)

lemma encodable_codable: "encodable v \<Longrightarrow> codable v"
  using canonical_bytes_encodable canonical_bytes_codable by blast

lemma join_encodable_iff: "encodable_text (join [44] xs) \<longleftrightarrow> (\<forall>x \<in> set xs. encodable_text x)"
  by (induction "[44 :: int]" xs rule: join.induct) (auto simp: encodable_text_def is_code_point_def is_surrogate_def)

lemma codable_simps [simp]:
  "codable VNone" "codable (VBool b)"
  "codable (VInt n) \<longleftrightarrow> length (nat_digits \<bar>n\<bar>) \<le> max_str_digits"
  "codable (VStr s) \<longleftrightarrow> encodable_text (quote s)"
  "codable (VList vs) \<longleftrightarrow> (\<forall>v \<in> set vs. codable v)"
proof -
  show "codable VNone" "codable (VBool b)" by (simp_all add: codable_def)
  show "codable (VInt n) \<longleftrightarrow> length (nat_digits \<bar>n\<bar>) \<le> max_str_digits"
    using dumps_encodable [of "VInt n"] by (auto simp: codable_def)
  show "codable (VStr s) \<longleftrightarrow> encodable_text (quote s)" by (simp add: codable_def)
  have "encodable_text (dumps (VList vs)) \<longleftrightarrow> (\<forall>v \<in> set vs. encodable_text (dumps v))"
    using join_encodable_iff [of "map dumps vs"] by (simp add: encodable_text_def is_code_point_def is_surrogate_def)
  then show "codable (VList vs) \<longleftrightarrow> (\<forall>v \<in> set vs. codable v)" by (auto simp: codable_def)
qed

lemma codable_dict:
  "codable (VDict kvs) \<longleftrightarrow> (\<forall>(k, v) \<in> set kvs. codable v \<and> (\<exists>s. k = KStr s \<and> encodable_text (quote s)))"
proof -
  have "encodable_text (dumps (VDict kvs)) \<longleftrightarrow>
      (\<forall>(k, v) \<in> set kvs. encodable_text (quote (key_text k)) \<and> encodable_text (dumps v))"
    using join_encodable_iff [of "map (\<lambda>(k, s). quote k @ 58 # s) (sorted_items (map (\<lambda>(k, v). (key_text k, dumps v)) kvs))"]
    by (fastforce simp: encodable_text_def is_code_point_def is_surrogate_def)
  then show ?thesis by (fastforce simp: codable_def)
qed

lemma codable_mk_dict [simp]: "codable (VDict (mk_dict kvs)) \<longleftrightarrow> (\<forall>(k, v) \<in> set kvs. codable v)"
  using quote_encodable [OF encodable_lit] by (auto simp: codable_dict mk_dict_def)

lemma codable_lit [simp]: "encodable_text s \<Longrightarrow> codable (VStr s)"
  by (simp add: quote_encodable)

lemma digest_object_codable: "digest_object E v dn = Inr x \<Longrightarrow> codable v"
  by (auto simp: digest_object_def digest_input_def res_simps canonical_bytes_codable [symmetric])

lemma codable_digest_object:
  assumes "codable v" "plain_domain s"
  shows "\<exists>h. digest_object E v (lit s) = Inr (lit ''sha256:'' @ hex h)"
  using digest_prefix_encodes [of s] assms(1) validate_plain_domain [OF assms(2), of E]
  by (auto simp: canonical_bytes_codable [symmetric] digest_object_def digest_input_def sha256_digest_def)

lemma digest_object_text: "digest_object E v dn = Inr x \<Longrightarrow> encodable_text x"
  using digest_object_split [of E v dn x] by auto

lemma codable_find: "codable (VDict d) \<Longrightarrow> dict_find d k = Some v \<Longrightarrow> codable v"
  by (auto simp: codable_dict dict_find_def dest!: map_of_SomeD)

lemma codable_item: "codable v \<Longrightarrow> item v k = Inr x \<Longrightarrow> codable x"
  by (auto simp: item_Inr intro: codable_find)

end
