(* ===== verification/Policy.thy ===== *)
theory Policy
  imports Identity
begin

text \<open>
  \<open>policy.py\<close>: bindings of one policy digest to one tenant for a period, signed by an external
  authority.
\<close>

definition policy_time :: "pyval \<Rightarrow> datetime res" where
  "policy_time = parse_aware False CustomerPolicyError '''' ''customer policy timestamp requires a timezone''"

definition policy_binding_core :: "ustring \<Rightarrow> ustring \<Rightarrow> ustring \<Rightarrow> ustring \<Rightarrow> ustring \<Rightarrow> pydict" where
  "policy_binding_core tenant_id policy_digest valid_from valid_until authority_id =
     mk_dict [
       (''protocol'', vlit ''integrity-guardian/customer-policy-binding/v1''),
       (''binding_id'', vlit ''policy-binding:pending''),
       (''tenant_id'', VStr tenant_id),
       (''policy_digest'', VStr policy_digest),
       (''valid_from'', VStr valid_from),
       (''valid_until'', VStr valid_until),
       (''authority_id'', VStr authority_id),
       (''production_authority'', VBool False)]"

definition build_customer_policy_binding ::
    "env \<Rightarrow> ustring \<Rightarrow> ustring \<Rightarrow> ustring \<Rightarrow> ustring \<Rightarrow> ed25519_signer \<Rightarrow> pydict res" where
  "build_customer_policy_binding E tenant_id policy_digest valid_from valid_until authority_signer =
     ebind (policy_time (VStr valid_from)) (\<lambda>from.
     ebind (policy_time (VStr valid_until)) (\<lambda>until.
     ensure (\<not> instant until \<le> instant from) CustomerPolicyError ''customer policy validity interval is not positive''
     (let unsigned_binding = policy_binding_core tenant_id policy_digest valid_from valid_until (sg_key_id authority_signer) in
      ebind (content_identity E ''policy-binding:'' ''customer-policy-binding-identity-v1'' unsigned_binding) (\<lambda>identity.
      ebind (sign E authority_signer (dict_put unsigned_binding ''binding_id'' (VStr identity))) (\<lambda>binding.
      ebind (validate E ''customer-policy-binding'' (VDict binding)) (\<lambda>_. Inr binding))))))"

definition verify_customer_policy_binding ::
    "env \<Rightarrow> pydict \<Rightarrow> ustring \<Rightarrow> trusted_key \<Rightarrow> ustring \<Rightarrow> pydict res" where
  "verify_customer_policy_binding E binding tenant_id authority_key at_time =
     ebind (validate E ''customer-policy-binding'' (VDict binding)) (\<lambda>_.
     ebind (field binding ''tenant_id'') (\<lambda>tenant.
     ensure (tenant = VStr tenant_id) CustomerPolicyError ''customer policy tenant mismatch''
     (ebind (field binding ''authority_id'') (\<lambda>authority_id.
     ebind (if authority_id \<noteq> VStr (tk_key_id authority_key) then Inr False
            else ebind (field binding ''signature'') (\<lambda>signature.
                 ebind (item signature ''key_id'') (\<lambda>key_id.
                 if key_id \<noteq> VStr (tk_key_id authority_key) then Inr False
                 else verify_signature E binding (tk_public_key authority_key)))) (\<lambda>accepted.
     ensure accepted CustomerPolicyError ''customer policy authority signature rejected''
     (ebind (field binding ''binding_id'') (\<lambda>actual_id.
     ebind (content_identity E ''policy-binding:'' ''customer-policy-binding-identity-v1''
              (pending ''binding_id'' ''policy-binding:pending'' binding)) (\<lambda>expected_id.
     ensure (actual_id = VStr expected_id) CustomerPolicyError ''customer policy binding identity mismatch''
     (ebind (ebind (field binding ''valid_from'') policy_time) (\<lambda>valid_from.
     ebind (ebind (field binding ''valid_until'') policy_time) (\<lambda>valid_until.
     ebind (policy_time (VStr at_time)) (\<lambda>now.
     ensure (\<not> instant valid_until \<le> instant valid_from) CustomerPolicyError ''customer policy validity interval is not positive''
     (ensure (instant valid_from \<le> instant now \<and> instant now < instant valid_until)
        CustomerPolicyError ''customer policy binding is not active''
     (ebind (field binding ''policy_digest'') (\<lambda>policy_digest.
      Inr (mk_dict [(''ok'', VBool True), (''binding_id'', actual_id), (''tenant_id'', VStr tenant_id),
             (''policy_digest'', policy_digest), (''authority_id'', authority_id),
             (''active'', VBool True), (''production_authority'', VBool False)]))))))))))))))))"

section \<open>Facts\<close>

lemma policy_time_Inr: "policy_time v = Inr t \<longleftrightarrow> fromisoformat v = Inr t \<and> dt_offset t \<noteq> None"
  by (simp add: policy_time_def parse_aware_Inr)

text \<open>What the builder returns.\<close>

lemma build_customer_policy_bindingD:
  assumes "build_customer_policy_binding E tenant digest from until sg = Inr b"
  shows "\<exists>f u x. policy_time (VStr from) = Inr f \<and> policy_time (VStr until) = Inr u \<and> instant f < instant u \<and>
    schema_ok E ''customer-policy-binding'' (VDict b) \<and>
    content_identity E ''policy-binding:'' ''customer-policy-binding-identity-v1''
      (pending ''binding_id'' ''policy-binding:pending'' b) = Inr x \<and>
    dict_find b ''binding_id'' = Some (VStr x) \<and> dict_find b ''tenant_id'' = Some (VStr tenant) \<and>
    dict_find b ''policy_digest'' = Some (VStr digest) \<and> dict_find b ''authority_id'' = Some (VStr (sg_key_id sg)) \<and>
    dict_find b ''valid_from'' = Some (VStr from) \<and> dict_find b ''valid_until'' = Some (VStr until)"
proof -
  let ?u = "policy_binding_core tenant digest from until (sg_key_id sg)"
  obtain f u x where t: "policy_time (VStr from) = Inr f" "policy_time (VStr until) = Inr u" "instant f < instant u"
    and x: "content_identity E ''policy-binding:'' ''customer-policy-binding-identity-v1'' ?u = Inr x"
    and s: "sign E sg (dict_put ?u ''binding_id'' (VStr x)) = Inr b"
    and ok: "schema_ok E ''customer-policy-binding'' (VDict b)"
    using assms unfolding build_customer_policy_binding_def validate_def Let_def res_simps not_le by blast
  have "pending ''binding_id'' ''policy-binding:pending'' b = ?u"
    by (rule pending_sign [OF s]) (simp_all add: policy_binding_core_def dict_find_mk)
  moreover have "dict_find b ''binding_id'' = Some (VStr x)" "dict_find b ''tenant_id'' = Some (VStr tenant)"
    "dict_find b ''policy_digest'' = Some (VStr digest)" "dict_find b ''authority_id'' = Some (VStr (sg_key_id sg))"
    "dict_find b ''valid_from'' = Some (VStr from)" "dict_find b ''valid_until'' = Some (VStr until)"
    by (simp_all add: sign_fields [OF s] policy_binding_core_def dict_find_put dict_find_mk)
  ultimately show ?thesis using t x ok by simp
qed

section \<open>Properties\<close>

text \<open>
  A binding that the builder returned is accepted by the verifier under the same authority
  at every moment of its period, for the tenant it was built for, and at no other moment: outside
  the half-open period it is refused as inactive.
\<close>

theorem policy_binding_roundtrip:
  assumes "ed25519_ok E" and "length (sg_private_key sg) = 32"
    and "build_customer_policy_binding E tenant digest from until sg = Inr b"
    and "policy_time (VStr from) = Inr f" "policy_time (VStr until) = Inr u" "policy_time (VStr at) = Inr t"
  defines "key \<equiv> \<lparr>tk_key_id = sg_key_id sg, tk_public_key = signer_public_key E sg\<rparr>"
  shows "if instant f \<le> instant t \<and> instant t < instant u
    then \<exists>r. verify_customer_policy_binding E b tenant key at = Inr r \<and>
           dict_find r ''policy_digest'' = Some (VStr digest) \<and> dict_find r ''tenant_id'' = Some (VStr tenant) \<and>
           dict_find r ''production_authority'' = Some (VBool False)
    else verify_customer_policy_binding E b tenant key at =
           raise CustomerPolicyError ''customer policy binding is not active''"
proof -
  obtain x where x: "content_identity E ''policy-binding:'' ''customer-policy-binding-identity-v1''
      (pending ''binding_id'' ''policy-binding:pending'' b) = Inr x"
    and fields: "dict_find b ''binding_id'' = Some (VStr x)" "dict_find b ''tenant_id'' = Some (VStr tenant)"
      "dict_find b ''policy_digest'' = Some (VStr digest)" "dict_find b ''authority_id'' = Some (VStr (sg_key_id sg))"
      "dict_find b ''valid_from'' = Some (VStr from)" "dict_find b ''valid_until'' = Some (VStr until)"
    and ok: "schema_ok E ''customer-policy-binding'' (VDict b)" and pos: "instant f < instant u"
    using build_customer_policy_bindingD [OF assms(3)] assms(4,5) by auto
  obtain d where d: "sign E sg d = Inr b"
    using assms(3) by (auto simp: build_customer_policy_binding_def Let_def res_simps)
  obtain s where sig: "dict_find b ''signature'' = Some (signature_block (sg_key_id sg) s)"
    using sign_signature [OF d] by blast
  note evals = verify_customer_policy_binding_def validate_def item_def key_def signature_block_def
  have v: "verify_signature E b (signer_public_key E sg) = Inr True"
    by (rule sign_verifies [OF assms(1,2) d])
  show ?thesis
    using x fields ok pos sig v assms(4-6) by (simp add: evals dict_find_mk ensure_def)
qed

theorem policy_binding_roundtrip_witness:
  "\<exists>b r. build_customer_policy_binding demo_env (lit ''tenant:a'') (lit ''sha256:00'')
       (lit ''2026-01-01T00:00:00Z'') (lit ''2027-01-01T00:00:00+01:00'') demo_signer = Inr b \<and>
     verify_customer_policy_binding demo_env b (lit ''tenant:a'') demo_key (lit ''2026-12-31T22:59:59Z'') = Inr r"
proof -
  let ?from = "VStr (lit ''2026-01-01T00:00:00Z'')" and ?until = "VStr (lit ''2027-01-01T00:00:00+01:00'')"
    and ?at = "VStr (lit ''2026-12-31T22:59:59Z'')"
  let ?id = "content_identity demo_env ''policy-binding:'' ''customer-policy-binding-identity-v1''
    (policy_binding_core (lit ''tenant:a'') (lit ''sha256:00'') (lit ''2026-01-01T00:00:00Z'')
       (lit ''2027-01-01T00:00:00+01:00'') (lit ''key:demo''))"
  let ?b = "build_customer_policy_binding demo_env (lit ''tenant:a'') (lit ''sha256:00'')
       (lit ''2026-01-01T00:00:00Z'') (lit ''2027-01-01T00:00:00+01:00'') demo_signer"
  have times: "policy_time ?from = Inr \<lparr>dt_local = 63902908800000000, dt_offset = Some 0\<rparr>"
    "policy_time ?until = Inr \<lparr>dt_local = 63934444800000000, dt_offset = Some 3600000000\<rparr>"
    "policy_time ?at = Inr \<lparr>dt_local = 63934441199000000, dt_offset = Some 0\<rparr>"
    by code_simp+
  have "encodable (VDict (policy_binding_core (lit ''tenant:a'') (lit ''sha256:00'') (lit ''2026-01-01T00:00:00Z'')
       (lit ''2027-01-01T00:00:00+01:00'') (lit ''key:demo'')))" (is "encodable (VDict ?d)")
    by code_simp
  moreover have "plain_domain ''customer-policy-binding-identity-v1''" by code_simp
  ultimately obtain h where h: "?id = Inr (lit ''policy-binding:'' @ hex h)"
    using content_identity_encodable by blast
  have "encodable (VDict (dict_put ?d ''binding_id'' (VStr (lit ''policy-binding:'' @ hex h))))"
    by (rule encodable_put) (fact, simp)
  then obtain b where "sign demo_env demo_signer (dict_put ?d ''binding_id'' (VStr (lit ''policy-binding:'' @ hex h))) = Inr b"
    using sign_encodable by blast
  then have b: "?b = Inr b"
    using times h by (simp add: build_customer_policy_binding_def validate_def instant_def demo_signer_def)
  show ?thesis
    using policy_binding_roundtrip [OF demo_env_ok demo_signer_length b times] b
    by (auto simp: instant_def demo_key_eq)
qed

end
