(* ===== verification/Retention.thy ===== *)
theory Retention
  imports Identity
begin

text \<open>
  \<open>retention.py\<close>: signed retention policies and the read-only eligibility decision. The
  decision never deletes anything; it states whether an artifact may be pruned by somebody
  else, and why.
\<close>

definition retention_parse_time :: "pyval \<Rightarrow> datetime res" where
  "retention_parse_time = parse_aware True RetentionPolicyError ''invalid retention timestamp''
     ''retention timestamp must include timezone''"

definition retention_policy_payload :: "pydict \<Rightarrow> bytes res" where
  "retention_policy_payload = authorization_payload ''retention-policy-v1'' RetentionPolicyError
     ''retention authorization is missing''"

definition sign_retention_policy :: "env \<Rightarrow> ed25519_signer \<Rightarrow> pydict \<Rightarrow> pydict res" where
  "sign_retention_policy = sign_authorization ''retention-policy-v1'' RetentionPolicyError
     ''retention authorization is missing'' ''retention policy is already signed'' ''retention-policy''"

definition verify_retention_policy ::
    "env \<Rightarrow> pydict \<Rightarrow> trusted_key \<Rightarrow> ustring \<Rightarrow> ustring \<Rightarrow> ustring res" where
  "verify_retention_policy E document authority_key expected_tenant_id now =
     ebind (catch_as (\<lambda>_. True) RetentionPolicyError ''retention policy schema rejected''
              (validate E ''retention-policy'' (VDict document))) (\<lambda>_.
     ebind (authority_accepts E retention_policy_payload document authority_key) (\<lambda>accepted.
     ensure accepted RetentionPolicyError ''retention policy signature rejected''
     (ebind (field document ''tenant_id'') (\<lambda>tenant.
     ensure (tenant = VStr expected_tenant_id) RetentionPolicyError ''cross-tenant retention policy prohibited''
     (ebind (ebind (field document ''valid_from'') retention_parse_time) (\<lambda>valid_from.
     ebind (ebind (field document ''valid_until'') retention_parse_time) (\<lambda>valid_until.
     ebind (retention_parse_time (VStr now)) (\<lambda>current.
     ensure (\<not> instant valid_until < instant valid_from) RetentionPolicyError ''retention policy interval is inverted''
     (ensure (instant valid_from \<le> instant current \<and> instant current \<le> instant valid_until)
        RetentionPolicyError ''retention policy is not currently valid''
     (ebind (field document ''controls'') (\<lambda>controls.
     ebind (all_items controls
              [(''guardian_deletes'', VBool False), (''deletion_executor'', vlit ''external-customer-local''),
               (''legal_hold_preserves'', VBool True), (''unknown_timestamp_action'', vlit ''retain'')]) (\<lambda>safe.
     ensure safe RetentionPolicyError ''retention safety controls are invalid''
       (digest_object E (VDict document) (lit ''retention-policy-reference-v1'')))))))))))))) "

text \<open>\<open>timedelta(days=n)\<close> in microseconds.\<close>

definition days_delta :: "pyval \<Rightarrow> int res" where
  "days_delta v =
     (case v of
        VInt n \<Rightarrow> ensure (\<bar>n\<bar> \<le> 999999999) OverflowError ''days; must have magnitude <= 999999999'' (Inr (n * day_us))
      | VBool b \<Rightarrow> Inr (if b then day_us else 0)
      | _ \<Rightarrow> raise TypeError ''unsupported type for timedelta days component'')"

text \<open>The branch structure of the decision: decision, reason and the moment of eligibility.\<close>

definition retention_outcome ::
    "pyval \<Rightarrow> string \<Rightarrow> pyval \<Rightarrow> ustring \<Rightarrow> bool \<Rightarrow> (string \<times> string \<times> pyval) res" where
  "retention_outcome classes artifact_class created_at now legal_hold =
     (if legal_hold then Inr (''retain'', ''legal-hold'', VNone)
      else if created_at = VNone then Inr (''retain'', ''unknown-timestamp'', VNone)
      else
        ebind (retention_parse_time created_at) (\<lambda>created.
        ebind (retention_parse_time (VStr now)) (\<lambda>current.
        if instant current < instant created then Inr (''retain'', ''future-timestamp'', VNone)
        else
          ebind (item classes artifact_class) (\<lambda>days.
          ebind (days_delta days) (\<lambda>delta.
          ebind (add_us created delta) (\<lambda>expiry.
          let eligible_at = VStr (utc_suffix (isoformat False expiry)) in
          if instant expiry \<le> instant current
          then Inr (''eligible-for-external-prune'', ''retention-window-expired'', eligible_at)
          else Inr (''retain'', ''within-retention-window'', eligible_at)))))))"

definition retention_decision ::
    "env \<Rightarrow> pydict \<Rightarrow> trusted_key \<Rightarrow> ustring \<Rightarrow> string \<Rightarrow> pyval \<Rightarrow> ustring \<Rightarrow> bool \<Rightarrow> pydict res" where
  "retention_decision E policy authority_key expected_tenant_id artifact_class created_at now legal_hold =
     ebind (verify_retention_policy E policy authority_key expected_tenant_id now) (\<lambda>policy_digest.
     ebind (field policy ''classes'') (\<lambda>classes.
     ensure (case classes of VDict d \<Rightarrow> dict_has d artifact_class | _ \<Rightarrow> False)
       RetentionPolicyError ''unknown retention artifact class''
     (ebind (retention_outcome classes artifact_class created_at now legal_hold) (\<lambda>(decision, reason, eligible_at).
     ebind (field policy ''tenant_id'') (\<lambda>tenant_id.
     ebind (field policy ''policy_id'') (\<lambda>policy_id.
     let result = mk_dict [
           (''protocol'', vlit ''integrity-guardian/retention-decision/v1''),
           (''tenant_id'', tenant_id), (''policy_id'', policy_id), (''policy_digest'', VStr policy_digest),
           (''artifact_class'', vlit artifact_class), (''decision'', vlit decision), (''reason'', vlit reason),
           (''eligible_at'', eligible_at), (''evaluated_at'', VStr now), (''guardian_deleted'', VBool False),
           (''requires_external_authorization'', VBool (decision = ''eligible-for-external-prune''))] in
     ebind (digest_object E (VDict result) (lit ''retention-decision-v1'')) (\<lambda>digest.
     let sealed = dict_put result ''decision_digest'' (VStr digest) in
     ebind (validate E ''retention-decision'' (VDict sealed)) (\<lambda>_. Inr sealed))))))))"

section \<open>Facts\<close>

interpretation rp: authorization_signing "''retention-policy-v1''" retention_policy_payload sign_retention_policy
  unfolding retention_policy_payload_def sign_retention_policy_def
  by (rule authorization_signing_instance) simp

lemma retention_parse_time_Inr: "retention_parse_time v = Inr t \<longleftrightarrow> fromisoformat v = Inr t \<and> dt_offset t \<noteq> None"
  by (simp add: retention_parse_time_def parse_aware_Inr)

lemma instant_add_us: "add_us t d = Inr u \<Longrightarrow> instant u = instant t + d"
  by (auto simp: add_us_def instant_def res_simps)

text \<open>When an artifact is eligible.\<close>

lemma retention_outcome_eligible:
  assumes "retention_outcome classes cls created now hold = Inr (decision, reason, at)"
  shows "decision = ''eligible-for-external-prune'' \<longleftrightarrow>
    \<not> hold \<and> (\<exists>c t days delta. retention_parse_time created = Inr c \<and> retention_parse_time (VStr now) = Inr t \<and>
      item classes cls = Inr days \<and> days_delta days = Inr delta \<and>
      instant c \<le> instant t \<and> instant c + delta \<le> instant t)"
proof (cases "hold \<or> created = VNone")
  case True
  moreover have "retention_parse_time VNone \<noteq> Inr c" for c by (simp add: retention_parse_time_Inr fromisoformat_def)
  ultimately show ?thesis using assms by (auto simp: retention_outcome_def split: if_splits)
next
  case False
  then obtain c t where c: "retention_parse_time created = Inr c" "retention_parse_time (VStr now) = Inr t"
    using assms by (auto simp: retention_outcome_def res_simps)
  show ?thesis
  proof (cases "instant t < instant c")
    case True
    with False assms c show ?thesis by (auto simp: retention_outcome_def)
  next
    case inside: False
    with False assms c obtain days delta e where d: "item classes cls = Inr days" "days_delta days = Inr delta"
      "add_us c delta = Inr e" by (auto simp: retention_outcome_def res_simps)
    with False assms c inside show ?thesis
      using instant_add_us [OF d(3)] by (auto simp: retention_outcome_def Let_def split: if_splits)
  qed
qed

lemma verify_retention_policyD:
  assumes "verify_retention_policy E d key tenant now = Inr digest"
  shows "authority_accepts E retention_policy_payload d key = Inr True"
    "dict_find d ''tenant_id'' = Some (VStr tenant)"
    "digest_object E (VDict d) (lit ''retention-policy-reference-v1'') = Inr digest"
    "\<exists>f u t v w. dict_find d ''valid_from'' = Some v \<and> dict_find d ''valid_until'' = Some w \<and>
       retention_parse_time v = Inr f \<and> retention_parse_time w = Inr u \<and> retention_parse_time (VStr now) = Inr t \<and>
       instant f \<le> instant t \<and> instant t \<le> instant u"
  using assms by (auto simp: verify_retention_policy_def res_simps)

section \<open>Properties\<close>

text \<open>
  Only an expired retention window makes an artifact eligible for pruning: a returned
  decision says eligible exactly when there is no legal hold, the creation time is known and
  not in the future, and creation time plus the days of its class lies at or before now. A
  decision always comes from a policy that the authority's key signed for this tenant and that
  is valid now, it never claims a deletion, and it asks for external authorization exactly when
  it says eligible.
\<close>

theorem retention_decision_sound:
  assumes "retention_decision E policy key tenant cls created now hold = Inr r"
  shows "(\<exists>p sig. retention_policy_payload policy = Inr p \<and> ed_verify E (tk_public_key key) p sig) \<and>
    dict_find policy ''tenant_id'' = Some (VStr tenant) \<and>
    dict_find r ''guardian_deleted'' = Some (VBool False) \<and>
    (\<exists>classes. dict_find policy ''classes'' = Some classes \<and>
      (dict_find r ''decision'' = Some (vlit ''eligible-for-external-prune'') \<longleftrightarrow>
        \<not> hold \<and> (\<exists>c t days delta. retention_parse_time created = Inr c \<and> retention_parse_time (VStr now) = Inr t \<and>
          item classes cls = Inr days \<and> days_delta days = Inr delta \<and>
          instant c \<le> instant t \<and> instant c + delta \<le> instant t))) \<and>
    (dict_find r ''requires_external_authorization'' = Some (VBool True) \<longleftrightarrow>
      dict_find r ''decision'' = Some (vlit ''eligible-for-external-prune''))"
proof -
  obtain digest classes decision reason at where v: "verify_retention_policy E policy key tenant now = Inr digest"
    and cl: "dict_find policy ''classes'' = Some classes"
    and out: "retention_outcome classes cls created now hold = Inr (decision, reason, at)"
    and r: "dict_find r ''decision'' = Some (vlit decision)" "dict_find r ''guardian_deleted'' = Some (VBool False)"
      "dict_find r ''requires_external_authorization'' = Some (VBool (decision = ''eligible-for-external-prune''))"
    using assms by (auto simp: retention_decision_def Let_def res_simps dict_find_put dict_find_mk)
  have "\<exists>p sig. retention_policy_payload policy = Inr p \<and> ed_verify E (tk_public_key key) p sig"
    using rp.accepted_is_signed [OF verify_retention_policyD(1) [OF v]] by blast
  with verify_retention_policyD(2) [OF v] retention_outcome_eligible [OF out] cl r show ?thesis by simp
qed

definition demo_retention_policy :: pydict where
  "demo_retention_policy =
     mk_dict [(''tenant_id'', vlit ''tenant:a''), (''policy_id'', vlit ''retention:one''),
       (''valid_from'', vlit ''2026-01-01T00:00:00Z''), (''valid_until'', vlit ''2027-01-01T00:00:00Z''),
       (''classes'', VDict (mk_dict [(''report'', VInt 30)])),
       (''controls'', VDict (mk_dict [(''guardian_deletes'', VBool False),
          (''deletion_executor'', vlit ''external-customer-local''), (''legal_hold_preserves'', VBool True),
          (''unknown_timestamp_action'', vlit ''retain'')])),
       (''authorization'', VDict (mk_dict [(''authority_id'', vlit ''key:demo'')]))]"

theorem retention_decision_sound_witness:
  "\<exists>d r. sign_retention_policy demo_env demo_signer demo_retention_policy = Inr d \<and>
     retention_decision demo_env d demo_key (lit ''tenant:a'') ''report'' (vlit ''2026-03-01T00:00:00Z'')
       (lit ''2026-03-31T00:00:00Z'') False = Inr r \<and>
     dict_find r ''guardian_deleted'' = Some (VBool False) \<and>
     dict_find r ''decision'' = Some (vlit ''eligible-for-external-prune'')"
proof -
  let ?now = "lit ''2026-03-31T00:00:00Z''" and ?created = "vlit ''2026-03-01T00:00:00Z''"
  let ?controls = "[(''guardian_deletes'', VBool False), (''deletion_executor'', vlit ''external-customer-local''),
               (''legal_hold_preserves'', VBool True), (''unknown_timestamp_action'', vlit ''retain'')]"
  have "succeeds (\<lambda>d. authority_accepts demo_env retention_policy_payload d demo_key = Inr True \<and> encodable (VDict d))
      (sign_retention_policy demo_env demo_signer demo_retention_policy)"
    by code_simp
  then obtain d where d: "sign_retention_policy demo_env demo_signer demo_retention_policy = Inr d"
    "authority_accepts demo_env retention_policy_payload d demo_key = Inr True" "encodable (VDict d)"
    by (blast dest: succeedsD)
  have f: "dict_find d k = dict_find demo_retention_policy k" if "k \<noteq> ''authorization''" for k
    by (rule rp.sign_document_fields [OF d(1) that])
  have fields: "dict_find d ''tenant_id'' = Some (vlit ''tenant:a'')" "dict_find d ''policy_id'' = Some (vlit ''retention:one'')"
    "dict_find d ''valid_from'' = Some (vlit ''2026-01-01T00:00:00Z'')"
    "dict_find d ''valid_until'' = Some (vlit ''2027-01-01T00:00:00Z'')"
    "dict_find d ''classes'' = Some (VDict (mk_dict [(''report'', VInt 30)]))"
    "dict_find d ''controls'' = Some (VDict (mk_dict ?controls))"
    by (simp_all add: f demo_retention_policy_def dict_find_mk)
  have times: "retention_parse_time (vlit ''2026-01-01T00:00:00Z'') = Inr \<lparr>dt_local = 63902908800000000, dt_offset = Some 0\<rparr>"
    "retention_parse_time (vlit ''2027-01-01T00:00:00Z'') = Inr \<lparr>dt_local = 63934444800000000, dt_offset = Some 0\<rparr>"
    "retention_parse_time (VStr ?now) = Inr \<lparr>dt_local = 63910598400000000, dt_offset = Some 0\<rparr>"
    by code_simp+
  have dom: "plain_domain ''retention-policy-reference-v1''" "plain_domain ''retention-decision-v1''" by code_simp+
  obtain h where h: "digest_object demo_env (VDict d) (lit ''retention-policy-reference-v1'') = Inr (lit ''sha256:'' @ hex h)"
    using digest_object_encodable [OF d(3) dom(1)] by blast
  have safe: "all_items (VDict (mk_dict ?controls)) ?controls = Inr True" by code_simp
  have v: "verify_retention_policy demo_env d demo_key (lit ''tenant:a'') ?now = Inr (lit ''sha256:'' @ hex h)"
    using d(2) fields times h safe by (simp add: verify_retention_policy_def validate_def item_def [of "VDict d"] instant_def)
  have out: "retention_outcome (VDict (mk_dict [(''report'', VInt 30)])) ''report'' ?created ?now False =
      Inr (''eligible-for-external-prune'', ''retention-window-expired'', vlit ''2026-03-31T00:00:00Z'')"
    by code_simp
  obtain g where g: "digest_object demo_env (VDict (mk_dict [
           (''protocol'', vlit ''integrity-guardian/retention-decision/v1''),
           (''tenant_id'', vlit ''tenant:a''), (''policy_id'', vlit ''retention:one''),
           (''policy_digest'', VStr (lit ''sha256:'' @ hex h)),
           (''artifact_class'', vlit ''report''), (''decision'', vlit ''eligible-for-external-prune''),
           (''reason'', vlit ''retention-window-expired''),
           (''eligible_at'', vlit ''2026-03-31T00:00:00Z''), (''evaluated_at'', VStr ?now), (''guardian_deleted'', VBool False),
           (''requires_external_authorization'', VBool True)])) (lit ''retention-decision-v1'') = Inr (lit ''sha256:'' @ hex g)"
    using digest_object_encodable [OF _ dom(2)] by (fastforce simp: mk_dict_def)
  obtain r where r: "retention_decision demo_env d demo_key (lit ''tenant:a'') ''report'' ?created ?now False = Inr r"
    "dict_find r ''decision'' = Some (vlit ''eligible-for-external-prune'')"
    using v fields out g by (simp add: retention_decision_def item_def dict_has_def dict_find_mk validate_def dict_find_put)
  from retention_decision_sound [OF r(1)] r d(1) show ?thesis by blast
qed

end
