(* ===== verification/Shadow.thy ===== *)
theory Shadow
  imports Identity
begin

text \<open>
  \<open>shadow.py\<close>: authority for a read-only production shadow observer, and the signed receipt
  by which an external store acknowledges that it retains a checkpoint.
\<close>

definition shadow_parse_time :: "pyval \<Rightarrow> datetime res" where
  "shadow_parse_time = parse_aware True ShadowAuthorizationError ''invalid timestamp'' ''timestamp must include timezone''"

definition shadow_authorization_payload :: "pydict \<Rightarrow> bytes res" where
  "shadow_authorization_payload = authorization_payload ''shadow-authorization-v1'' ShadowAuthorizationError
     ''authorization is missing''"

definition sign_shadow_authorization :: "env \<Rightarrow> ed25519_signer \<Rightarrow> pydict \<Rightarrow> pydict res" where
  "sign_shadow_authorization = sign_authorization ''shadow-authorization-v1'' ShadowAuthorizationError
     ''authorization is missing'' ''authorization is already signed'' ''shadow-authorization''"

text \<open>As \<open>authority_accepts\<close>, with the key of the signature compared first.\<close>

definition shadow_accepts :: "env \<Rightarrow> pydict \<Rightarrow> trusted_key \<Rightarrow> bool res" where
  "shadow_accepts E document authority_key =
     ebind (field document ''authorization'') (\<lambda>authorization.
     ebind (item authorization ''signature'') (\<lambda>signature.
     ebind (item signature ''key_id'') (\<lambda>key_id.
     if key_id \<noteq> VStr (tk_key_id authority_key) then Inr False
     else ebind (item authorization ''authority_id'') (\<lambda>authority_id.
     if authority_id \<noteq> VStr (tk_key_id authority_key) then Inr False
     else ebind (shadow_authorization_payload document) (\<lambda>payload.
     ebind (item signature ''value'') (\<lambda>value.
     Inr (verify_bytes E payload value (tk_public_key authority_key))))))))"

definition shadow_receipt :: "env \<Rightarrow> pydict \<Rightarrow> pydict res" where
  "shadow_receipt E document =
     ebind (copy_fields document [''authorization_id'', ''tenant_id'', ''target_id'', ''release_revision'', ''config_digest'']) (\<lambda>front.
     ebind (ebind (field document ''coverage'') sorted_texts) (\<lambda>coverage.
     ebind (copy_fields document [''budgets'', ''external_checkpoint'', ''valid_until'']) (\<lambda>middle.
     let receipt = mk_dict ((''protocol'', vlit ''integrity-guardian/shadow-readiness-receipt/v1'') # front @
           (''coverage'', coverage) # middle @
           [(''ready'', VBool True), (''read_only'', VBool True), (''remediation_enabled'', VBool False),
            (''baseline_auto_promotion'', VBool False)]) in
     ebind (digest_object E (VDict receipt) (lit ''shadow-readiness-receipt-v1'')) (\<lambda>digest.
     Inr (dict_put receipt ''receipt_digest'' (VStr digest))))))"

definition verify_shadow_authorization ::
    "env \<Rightarrow> pydict \<Rightarrow> trusted_key \<Rightarrow> ustring \<Rightarrow> ustring \<Rightarrow> ustring \<Rightarrow> ustring \<Rightarrow> pydict res" where
  "verify_shadow_authorization E document authority_key expected_target_id expected_release_revision
       expected_config_digest now =
     ebind (catch_as (\<lambda>_. True) ShadowAuthorizationError ''shadow authorization schema rejected''
              (validate E ''shadow-authorization'' (VDict document))) (\<lambda>_.
     ebind (shadow_accepts E document authority_key) (\<lambda>accepted.
     ensure accepted ShadowAuthorizationError ''shadow authorization signature rejected''
     (ebind (field document ''target_id'') (\<lambda>target.
     ensure (target = VStr expected_target_id) ShadowAuthorizationError ''shadow target does not match''
     (ebind (field document ''release_revision'') (\<lambda>release.
     ensure (release = VStr expected_release_revision) ShadowAuthorizationError ''shadow release does not match''
     (ebind (field document ''config_digest'') (\<lambda>config.
     ensure (config = VStr expected_config_digest) ShadowAuthorizationError ''shadow config digest does not match''
     (ebind (ebind (field document ''created_at'') shadow_parse_time) (\<lambda>created_at.
     ebind (ebind (field document ''valid_from'') shadow_parse_time) (\<lambda>valid_from.
     ebind (ebind (field document ''valid_until'') shadow_parse_time) (\<lambda>valid_until.
     ebind (shadow_parse_time (VStr now)) (\<lambda>current.
     ensure (instant created_at \<le> instant valid_from \<and> instant valid_from \<le> instant valid_until)
       ShadowAuthorizationError ''shadow authorization interval is invalid''
     (ensure (instant valid_from \<le> instant current \<and> instant current \<le> instant valid_until)
       ShadowAuthorizationError ''shadow authorization is not currently valid''
     (ebind (field document ''controls'') (\<lambda>controls.
     ebind (all_items controls [(''read_only'', VBool True), (''remediation_enabled'', VBool False),
              (''baseline_auto_promotion'', VBool False)]) (\<lambda>immutable.
     ensure immutable ShadowAuthorizationError ''shadow safety controls are not immutable''
     (ebind (ebind (field document ''external_checkpoint'') (\<lambda>c. item c ''required'')) (\<lambda>required.
     ensure (required = VBool True) ShadowAuthorizationError ''external checkpoint retention is required''
       (shadow_receipt E document)))))))))))))))))))) "

section \<open>Retention receipts\<close>

definition retention_receipt_core ::
    "ustring \<Rightarrow> pyval \<Rightarrow> pyval \<Rightarrow> ustring \<Rightarrow> ustring \<Rightarrow> ustring \<Rightarrow> ustring \<Rightarrow> pydict" where
  "retention_receipt_core checkpoint_digest tenant_id tree_size store_id retained_at expires_at signer_id =
     mk_dict [(''protocol'', vlit ''integrity-guardian/checkpoint-retention-receipt/v1''),
       (''receipt_id'', vlit ''receipt:pending''), (''tenant_id'', tenant_id), (''store_id'', VStr store_id),
       (''checkpoint_digest'', VStr checkpoint_digest), (''tree_size'', tree_size),
       (''retained_at'', VStr retained_at), (''expires_at'', VStr expires_at), (''signer_id'', VStr signer_id)]"

definition build_retention_receipt ::
    "env \<Rightarrow> pydict \<Rightarrow> ustring \<Rightarrow> ustring \<Rightarrow> ustring \<Rightarrow> ed25519_signer \<Rightarrow> pydict res" where
  "build_retention_receipt E checkpoint store_id retained_at expires_at signer =
     ebind (validate E ''checkpoint'' (VDict checkpoint)) (\<lambda>_.
     ebind (field checkpoint ''tenant_id'') (\<lambda>tenant_id.
     ebind (digest_object E (VDict checkpoint) (lit ''checkpoint-retention-reference-v1'')) (\<lambda>digest.
     ebind (field checkpoint ''tree_size'') (\<lambda>tree_size.
     let core = retention_receipt_core digest tenant_id tree_size store_id retained_at expires_at (sg_key_id signer) in
     ebind (content_identity E ''receipt:'' ''checkpoint-retention-receipt-identity-v1'' core) (\<lambda>identity.
     ebind (sign E signer (dict_put core ''receipt_id'' (VStr identity))) (\<lambda>receipt.
     ebind (validate E ''checkpoint-retention-receipt'' (VDict receipt)) (\<lambda>_. Inr receipt)))))))"

definition verify_retention_receipt ::
    "env \<Rightarrow> pydict \<Rightarrow> pydict \<Rightarrow> trusted_key \<Rightarrow> ustring \<Rightarrow> ustring \<Rightarrow> unit res" where
  "verify_retention_receipt E receipt checkpoint trusted_store_key expected_store_id now =
     ebind (catch_as (\<lambda>_. True) RetentionReceiptError ''retention receipt schema rejected''
       (ebind (validate E ''checkpoint'' (VDict checkpoint)) (\<lambda>_.
        validate E ''checkpoint-retention-receipt'' (VDict receipt)))) (\<lambda>_.
     ebind (field receipt ''store_id'') (\<lambda>store_id.
     ensure (store_id = VStr expected_store_id) RetentionReceiptError ''retention store identity mismatch''
     (ebind (field receipt ''signer_id'') (\<lambda>signer_id.
     ebind (if signer_id \<noteq> VStr (tk_key_id trusted_store_key) then Inr False
            else ebind (ebind (field receipt ''signature'') (\<lambda>s. item s ''key_id'')) (\<lambda>key_id.
                 if key_id \<noteq> VStr (tk_key_id trusted_store_key) then Inr False
                 else verify_signature E receipt (tk_public_key trusted_store_key))) (\<lambda>accepted.
     ensure accepted RetentionReceiptError ''retention receipt signature rejected''
     (ebind (digest_object E (VDict checkpoint) (lit ''checkpoint-retention-reference-v1'')) (\<lambda>expected_digest.
     ebind (field receipt ''checkpoint_digest'') (\<lambda>digest.
     ensure (digest = VStr expected_digest) RetentionReceiptError ''retained checkpoint digest mismatch''
     (ebind (field receipt ''tenant_id'') (\<lambda>tenant. ebind (field checkpoint ''tenant_id'') (\<lambda>tenant2.
     ensure (py_eq tenant tenant2) RetentionReceiptError ''retention tenant mismatch''
     (ebind (field receipt ''tree_size'') (\<lambda>tree_size. ebind (field checkpoint ''tree_size'') (\<lambda>tree_size2.
     ensure (py_eq tree_size tree_size2) RetentionReceiptError ''retention tree size mismatch''
     (ebind (ebind (field receipt ''retained_at'') shadow_parse_time) (\<lambda>retained_at.
     ebind (ebind (field receipt ''expires_at'') shadow_parse_time) (\<lambda>expires_at.
     ebind (shadow_parse_time (VStr now)) (\<lambda>current.
     ensure (\<not> instant expires_at < instant retained_at) RetentionReceiptError ''retention interval is inverted''
     (ensure (\<not> instant expires_at < instant current) RetentionReceiptError ''retention receipt has expired''
       (Inr ()))))))))))))))))))))"

section \<open>Facts\<close>

interpretation sa: authorization_signing "''shadow-authorization-v1''" shadow_authorization_payload sign_shadow_authorization
  unfolding shadow_authorization_payload_def sign_shadow_authorization_def
  by (rule authorization_signing_instance) simp

lemma shadow_accepts_True:
  "shadow_accepts E d key = Inr True \<longleftrightarrow> authority_accepts E shadow_authorization_payload d key = Inr True"
  unfolding shadow_accepts_def authority_accepts_def
  by (auto simp: res_simps split: if_splits)

lemma build_retention_receiptD:
  assumes "build_retention_receipt E c store retained expires sg = Inr r"
  shows "\<exists>tenant size digest u. schema_ok E ''checkpoint'' (VDict c) \<and>
    schema_ok E ''checkpoint-retention-receipt'' (VDict r) \<and>
    dict_find c ''tenant_id'' = Some tenant \<and> dict_find c ''tree_size'' = Some size \<and>
    digest_object E (VDict c) (lit ''checkpoint-retention-reference-v1'') = Inr digest \<and> sign E sg u = Inr r \<and>
    dict_find r ''store_id'' = Some (VStr store) \<and> dict_find r ''signer_id'' = Some (VStr (sg_key_id sg)) \<and>
    dict_find r ''checkpoint_digest'' = Some (VStr digest) \<and> dict_find r ''tenant_id'' = Some tenant \<and>
    dict_find r ''tree_size'' = Some size \<and> dict_find r ''retained_at'' = Some (VStr retained) \<and>
    dict_find r ''expires_at'' = Some (VStr expires)"
proof -
  obtain tenant size digest x where *: "schema_ok E ''checkpoint'' (VDict c)"
    "schema_ok E ''checkpoint-retention-receipt'' (VDict r)"
    "dict_find c ''tenant_id'' = Some tenant" "dict_find c ''tree_size'' = Some size"
    "digest_object E (VDict c) (lit ''checkpoint-retention-reference-v1'') = Inr digest"
    and s: "sign E sg (dict_put (retention_receipt_core digest tenant size store retained expires (sg_key_id sg))
      ''receipt_id'' (VStr x)) = Inr r"
    using assms unfolding build_retention_receipt_def validate_def Let_def res_simps by blast
  have "dict_find r ''store_id'' = Some (VStr store)" "dict_find r ''signer_id'' = Some (VStr (sg_key_id sg))"
    "dict_find r ''checkpoint_digest'' = Some (VStr digest)" "dict_find r ''tenant_id'' = Some tenant"
    "dict_find r ''tree_size'' = Some size" "dict_find r ''retained_at'' = Some (VStr retained)"
    "dict_find r ''expires_at'' = Some (VStr expires)"
    by (simp_all add: sign_fields [OF s] retention_receipt_core_def dict_find_put dict_find_mk)
  with * s show ?thesis by blast
qed

section \<open>Properties\<close>

text \<open>
  A shadow observer is declared ready only under exact authority: whenever the verifier
  returns a receipt, the authority's key verified the signed bytes of the authorization,
  target, release and configuration are the expected ones, the current time lies in the signed
  period, the signed controls are read-only, and the receipt repeats the target, release and
  configuration and denies remediation and baseline promotion.
\<close>

theorem shadow_ready_only_if_authorized:
  assumes "verify_shadow_authorization E d key target release config now = Inr r"
  shows "(\<exists>p sig. shadow_authorization_payload d = Inr p \<and> ed_verify E (tk_public_key key) p sig) \<and>
    (\<exists>v w f u t. dict_find d ''valid_from'' = Some v \<and> dict_find d ''valid_until'' = Some w \<and>
       shadow_parse_time v = Inr f \<and> shadow_parse_time w = Inr u \<and> shadow_parse_time (VStr now) = Inr t \<and>
       instant f \<le> instant t \<and> instant t \<le> instant u) \<and>
    (\<exists>c. dict_find d ''controls'' = Some c \<and> item c ''read_only'' = Inr (VBool True) \<and>
       item c ''remediation_enabled'' = Inr (VBool False) \<and> item c ''baseline_auto_promotion'' = Inr (VBool False)) \<and>
    dict_find r ''target_id'' = Some (VStr target) \<and> dict_find r ''release_revision'' = Some (VStr release) \<and>
    dict_find r ''config_digest'' = Some (VStr config) \<and> dict_find r ''ready'' = Some (VBool True) \<and>
    dict_find r ''remediation_enabled'' = Some (VBool False) \<and> dict_find r ''baseline_auto_promotion'' = Some (VBool False)"
proof -
  have acc: "authority_accepts E shadow_authorization_payload d key = Inr True"
    and d: "dict_find d ''target_id'' = Some (VStr target)" "dict_find d ''release_revision'' = Some (VStr release)"
      "dict_find d ''config_digest'' = Some (VStr config)"
    and period: "\<exists>v w f u t. dict_find d ''valid_from'' = Some v \<and> dict_find d ''valid_until'' = Some w \<and>
       shadow_parse_time v = Inr f \<and> shadow_parse_time w = Inr u \<and> shadow_parse_time (VStr now) = Inr t \<and>
       instant f \<le> instant t \<and> instant t \<le> instant u"
    and controls: "\<exists>c. dict_find d ''controls'' = Some c \<and> item c ''read_only'' = Inr (VBool True) \<and>
       item c ''remediation_enabled'' = Inr (VBool False) \<and> item c ''baseline_auto_promotion'' = Inr (VBool False)"
    and r: "shadow_receipt E d = Inr r"
    using assms unfolding verify_shadow_authorization_def res_simps by (auto simp: shadow_accepts_True all_items_True)
  obtain front coverage middle digest where front: "copy_fields d [''authorization_id'', ''tenant_id'', ''target_id'', ''release_revision'', ''config_digest''] = Inr front"
    and middle: "copy_fields d [''budgets'', ''external_checkpoint'', ''valid_until''] = Inr middle"
    and rr: "r = dict_put (mk_dict ((''protocol'', vlit ''integrity-guardian/shadow-readiness-receipt/v1'') # front @
           (''coverage'', coverage) # middle @
           [(''ready'', VBool True), (''read_only'', VBool True), (''remediation_enabled'', VBool False),
            (''baseline_auto_promotion'', VBool False)])) ''receipt_digest'' (VStr digest)"
    using r by (auto simp: shadow_receipt_def Let_def res_simps)
  have keys: "map_of front k = None" if "k \<in> {''ready'', ''remediation_enabled'', ''baseline_auto_promotion''}" for k
    using front that by (auto simp: copy_fields_Inr map_of_eq_None_iff)
  have keys2: "map_of middle k = None" if "k \<in> {''ready'', ''remediation_enabled'', ''baseline_auto_promotion''}" for k
    using middle that by (auto simp: copy_fields_Inr map_of_eq_None_iff)
  have "dict_find r ''target_id'' = Some (VStr target)" "dict_find r ''release_revision'' = Some (VStr release)"
    "dict_find r ''config_digest'' = Some (VStr config)"
    using copy_fields_find [OF front] d by (simp_all add: rr dict_find_put dict_find_mk map_add_def)
  moreover have "dict_find r ''ready'' = Some (VBool True)" "dict_find r ''remediation_enabled'' = Some (VBool False)"
    "dict_find r ''baseline_auto_promotion'' = Some (VBool False)"
    using keys keys2 by (simp_all add: rr dict_find_put dict_find_mk map_add_def)
  moreover have "\<exists>p sig. shadow_authorization_payload d = Inr p \<and> ed_verify E (tk_public_key key) p sig"
    using sa.accepted_is_signed [OF acc] by blast
  ultimately show ?thesis using period controls by blast
qed

definition demo_shadow_authorization :: pydict where
  "demo_shadow_authorization =
     mk_dict [(''authorization_id'', vlit ''shadow:one''), (''tenant_id'', vlit ''tenant:a''), (''target_id'', vlit ''host:a''),
       (''release_revision'', vlit ''r1''), (''config_digest'', vlit ''sha256:00''), (''coverage'', VList [vlit ''files'', vlit ''accounts'']),
       (''budgets'', VDict (mk_dict [(''seconds'', VInt 10)])),
       (''external_checkpoint'', VDict (mk_dict [(''required'', VBool True)])),
       (''created_at'', vlit ''2026-01-01T00:00:00Z''), (''valid_from'', vlit ''2026-01-01T00:00:00Z''),
       (''valid_until'', vlit ''2027-01-01T00:00:00Z''),
       (''controls'', VDict (mk_dict [(''read_only'', VBool True), (''remediation_enabled'', VBool False),
          (''baseline_auto_promotion'', VBool False)])),
       (''authorization'', VDict (mk_dict [(''authority_id'', vlit ''key:demo'')]))]"

lemma demo_shadow_receipt:
  assumes "\<And>k. k \<noteq> ''authorization'' \<Longrightarrow> dict_find d k = dict_find demo_shadow_authorization k"
  shows "\<exists>r. shadow_receipt demo_env d = Inr r"
proof -
  note f = assms demo_shadow_authorization_def dict_find_mk item_def
  have "\<exists>h. digest_object demo_env (VDict (mk_dict
       [(''protocol'', vlit ''integrity-guardian/shadow-readiness-receipt/v1''), (''authorization_id'', vlit ''shadow:one''),
        (''tenant_id'', vlit ''tenant:a''), (''target_id'', vlit ''host:a''), (''release_revision'', vlit ''r1''),
        (''config_digest'', vlit ''sha256:00''), (''coverage'', VList [vlit ''accounts'', vlit ''files'']),
        (''budgets'', VDict (mk_dict [(''seconds'', VInt 10)])), (''external_checkpoint'', VDict (mk_dict [(''required'', VBool True)])),
        (''valid_until'', vlit ''2027-01-01T00:00:00Z''), (''ready'', VBool True), (''read_only'', VBool True),
        (''remediation_enabled'', VBool False), (''baseline_auto_promotion'', VBool False)]))
      (lit ''shadow-readiness-receipt-v1'') = Inr (lit ''sha256:'' @ hex h)"
    by (rule digest_object_encodable) code_simp+
  moreover have "sorted_texts (VList [vlit ''files'', vlit ''accounts'']) = Inr (VList [vlit ''accounts'', vlit ''files''])"
    by code_simp
  ultimately show ?thesis by (auto simp: shadow_receipt_def copy_fields_def f)
qed

theorem shadow_ready_only_if_authorized_witness:
  "\<exists>d r. sign_shadow_authorization demo_env demo_signer demo_shadow_authorization = Inr d \<and>
     verify_shadow_authorization demo_env d demo_key (lit ''host:a'') (lit ''r1'') (lit ''sha256:00'')
       (lit ''2026-06-01T12:00:00Z'') = Inr r \<and> dict_find r ''ready'' = Some (VBool True)"
proof -
  have "succeeds (\<lambda>d. shadow_accepts demo_env d demo_key = Inr True)
      (sign_shadow_authorization demo_env demo_signer demo_shadow_authorization)"
    by code_simp
  then obtain d where d: "sign_shadow_authorization demo_env demo_signer demo_shadow_authorization = Inr d"
    "shadow_accepts demo_env d demo_key = Inr True"
    by (blast dest: succeedsD)
  have f: "dict_find d k = dict_find demo_shadow_authorization k" if "k \<noteq> ''authorization''" for k
    by (rule sa.sign_document_fields [OF d(1) that])
  obtain r where r: "shadow_receipt demo_env d = Inr r" using demo_shadow_receipt [OF f] by blast
  have times: "shadow_parse_time (vlit ''2026-01-01T00:00:00Z'') = Inr \<lparr>dt_local = 63902908800000000, dt_offset = Some 0\<rparr>"
    "shadow_parse_time (vlit ''2027-01-01T00:00:00Z'') = Inr \<lparr>dt_local = 63934444800000000, dt_offset = Some 0\<rparr>"
    "shadow_parse_time (vlit ''2026-06-01T12:00:00Z'') = Inr \<lparr>dt_local = 63915998400000000, dt_offset = Some 0\<rparr>"
    by code_simp+
  have "verify_shadow_authorization demo_env d demo_key (lit ''host:a'') (lit ''r1'') (lit ''sha256:00'')
       (lit ''2026-06-01T12:00:00Z'') = Inr r"
    using d(2) r times
    by (simp add: verify_shadow_authorization_def validate_def item_def f demo_shadow_authorization_def dict_find_mk
        instant_def all_items.simps)
  from shadow_ready_only_if_authorized [OF this] this d(1) show ?thesis by blast
qed

text \<open>
  A retention receipt that the store built for a checkpoint verifies against that
  checkpoint, under the store's key and name, until it expires; after that it is refused.
\<close>

theorem retention_receipt_roundtrip:
  assumes "ed25519_ok E" "length (sg_private_key sg) = 32"
    and "build_retention_receipt E c store retained expires sg = Inr r" and "py_wf (VDict c)"
    and "shadow_parse_time (VStr retained) = Inr a" "shadow_parse_time (VStr expires) = Inr b"
    and "shadow_parse_time (VStr now) = Inr t" and "instant a \<le> instant b"
  shows "verify_retention_receipt E r c \<lparr>tk_key_id = sg_key_id sg, tk_public_key = signer_public_key E sg\<rparr> store now =
    (if instant t \<le> instant b then Inr () else raise RetentionReceiptError ''retention receipt has expired'')"
proof -
  obtain tenant size digest u where facts: "schema_ok E ''checkpoint'' (VDict c)"
    "schema_ok E ''checkpoint-retention-receipt'' (VDict r)"
    "dict_find c ''tenant_id'' = Some tenant" "dict_find c ''tree_size'' = Some size"
    "digest_object E (VDict c) (lit ''checkpoint-retention-reference-v1'') = Inr digest" and s: "sign E sg u = Inr r"
    and fields: "dict_find r ''store_id'' = Some (VStr store)" "dict_find r ''signer_id'' = Some (VStr (sg_key_id sg))"
    "dict_find r ''checkpoint_digest'' = Some (VStr digest)" "dict_find r ''tenant_id'' = Some tenant"
    "dict_find r ''tree_size'' = Some size" "dict_find r ''retained_at'' = Some (VStr retained)"
    "dict_find r ''expires_at'' = Some (VStr expires)"
    using build_retention_receiptD [OF assms(3)] by blast
  obtain v where sig: "dict_find r ''signature'' = Some (signature_block (sg_key_id sg) v)"
    using sign_signature [OF s] by blast
  have eq: "py_eq tenant tenant" "py_eq size size"
    using py_wf_find [OF assms(4)] facts(3,4) by (auto intro: py_eq_refl)
  show ?thesis
    using facts fields sig eq sign_verifies [OF assms(1,2) s] assms(5-8)
    by (simp add: verify_retention_receipt_def validate_def item_def signature_block_def ensure_def not_less)
qed

definition demo_checkpoint :: pydict where
  "demo_checkpoint = mk_dict [(''tenant_id'', vlit ''tenant:a''), (''tree_size'', VInt 3)]"

lemma demo_retention_receipt_built:
  "\<exists>r. build_retention_receipt demo_env demo_checkpoint (lit ''store:a'') (lit ''2026-01-01T00:00:00Z'')
     (lit ''2027-01-01T00:00:00Z'') demo_signer = Inr r"
proof -
  have "encodable (VDict demo_checkpoint)" "plain_domain ''checkpoint-retention-reference-v1''"
    "plain_domain ''checkpoint-retention-receipt-identity-v1''" by code_simp+
  then obtain h where h: "digest_object demo_env (VDict demo_checkpoint) (lit ''checkpoint-retention-reference-v1'') = Inr (lit ''sha256:'' @ hex h)"
    using digest_object_encodable by blast
  let ?core = "retention_receipt_core (lit ''sha256:'' @ hex h) (vlit ''tenant:a'') (VInt 3) (lit ''store:a'')
    (lit ''2026-01-01T00:00:00Z'') (lit ''2027-01-01T00:00:00Z'') (sg_key_id demo_signer)"
  have three: "encodable (VInt 3)" by code_simp
  have core: "encodable (VDict ?core)"
    using three by (simp add: retention_receipt_core_def mk_dict_def demo_signer_def del: encodable.simps(1))
  obtain g where g: "content_identity demo_env ''receipt:'' ''checkpoint-retention-receipt-identity-v1'' ?core = Inr (lit ''receipt:'' @ hex g)"
    using content_identity_encodable [OF core \<open>plain_domain ''checkpoint-retention-receipt-identity-v1''\<close>] by blast
  obtain r where r: "sign demo_env demo_signer (dict_put ?core ''receipt_id'' (VStr (lit ''receipt:'' @ hex g))) = Inr r"
    using sign_encodable [OF encodable_put [OF core, of "VStr (lit ''receipt:'' @ hex g)" "''receipt_id''"]] by auto
  have "field demo_checkpoint ''tenant_id'' = Inr (vlit ''tenant:a'')" "field demo_checkpoint ''tree_size'' = Inr (VInt 3)"
    by (simp_all add: demo_checkpoint_def field_mk)
  with h g r show ?thesis by (simp add: build_retention_receipt_def validate_def)
qed

theorem retention_receipt_roundtrip_witness:
  "\<exists>r. build_retention_receipt demo_env demo_checkpoint (lit ''store:a'') (lit ''2026-01-01T00:00:00Z'')
     (lit ''2027-01-01T00:00:00Z'') demo_signer = Inr r \<and>
     verify_retention_receipt demo_env r demo_checkpoint demo_key (lit ''store:a'') (lit ''2026-06-01T12:00:00Z'') = Inr ()"
proof -
  obtain r where r: "build_retention_receipt demo_env demo_checkpoint (lit ''store:a'') (lit ''2026-01-01T00:00:00Z'')
     (lit ''2027-01-01T00:00:00Z'') demo_signer = Inr r" using demo_retention_receipt_built by blast
  have wf: "py_wf (VDict demo_checkpoint)" by code_simp
  have times: "shadow_parse_time (vlit ''2026-01-01T00:00:00Z'') = Inr \<lparr>dt_local = 63902908800000000, dt_offset = Some 0\<rparr>"
    "shadow_parse_time (vlit ''2027-01-01T00:00:00Z'') = Inr \<lparr>dt_local = 63934444800000000, dt_offset = Some 0\<rparr>"
    "shadow_parse_time (vlit ''2026-06-01T12:00:00Z'') = Inr \<lparr>dt_local = 63915998400000000, dt_offset = Some 0\<rparr>"
    by code_simp+
  show ?thesis
    using retention_receipt_roundtrip [OF demo_env_ok demo_signer_length r wf times] r
    by (simp add: instant_def demo_key_eq)
qed

end
