(* ===== verification/Response.thy ===== *)
theory Response
  imports Identity
begin

text \<open>
  \<open>response.py\<close>: verification of response envelopes that are handed to a separate executor,
  and the executor's signed receipts. The module itself never executes anything.
\<close>

definition response_parse_time :: "pyval \<Rightarrow> datetime res" where
  "response_parse_time = parse_aware True ResponseEnvelopeError ''invalid timestamp'' ''timestamp must include timezone''"

definition envelope_signature_payload :: "pydict \<Rightarrow> bytes res" where
  "envelope_signature_payload = authorization_payload ''response-envelope-v1'' ResponseEnvelopeError
     ''response authorization is missing''"

definition sign_response_envelope :: "env \<Rightarrow> ed25519_signer \<Rightarrow> pydict \<Rightarrow> pydict res" where
  "sign_response_envelope = sign_authorization ''response-envelope-v1'' ResponseEnvelopeError
     ''response authorization is missing'' ''response envelope is already signed'' ''response-envelope''"

definition response_receipt :: "env \<Rightarrow> pydict \<Rightarrow> pydict res" where
  "response_receipt E document =
     ebind (copy_fields document [''response_id'', ''tenant_id'']) (\<lambda>front.
     ebind (ebind (field document ''finding_ids'') sorted_texts) (\<lambda>finding_ids.
     ebind (copy_fields document [''target_id'', ''executor_id'', ''release_revision'', ''response_class'']) (\<lambda>middle.
     ebind (digest_object E (VDict document) (lit ''response-envelope-reference-v1'')) (\<lambda>envelope_digest.
     ebind (copy_fields document [''valid_until'']) (\<lambda>back.
     let receipt = mk_dict ((''protocol'', vlit ''integrity-guardian/response-handoff-receipt/v1'') # front @
           (''finding_ids'', finding_ids) # middle @ (''envelope_digest'', VStr envelope_digest) # back @
           [(''handoff_ready'', VBool True), (''guardian_execution_capability'', VBool False)]) in
     ebind (digest_object E (VDict receipt) (lit ''response-handoff-receipt-v1'')) (\<lambda>digest.
     Inr (dict_put receipt ''receipt_digest'' (VStr digest))))))))"

definition verify_response_envelope ::
    "env \<Rightarrow> pydict \<Rightarrow> trusted_key \<Rightarrow> ustring \<Rightarrow> ustring \<Rightarrow> ustring \<Rightarrow> ustring \<Rightarrow> pydict \<Rightarrow> ustring \<Rightarrow> pydict res" where
  "verify_response_envelope E document authority_key expected_target_id expected_executor_id
       expected_release_revision expected_response_class expected_artifacts now =
     ebind (catch_as (\<lambda>_. True) ResponseEnvelopeError ''response envelope schema rejected''
              (validate E ''response-envelope'' (VDict document))) (\<lambda>_.
     ebind (authority_accepts E envelope_signature_payload document authority_key) (\<lambda>accepted.
     ensure accepted ResponseEnvelopeError ''response envelope signature rejected''
     (ebind (field document ''target_id'') (\<lambda>target.
     ebind (field document ''executor_id'') (\<lambda>executor.
     ebind (field document ''release_revision'') (\<lambda>release.
     ebind (field document ''response_class'') (\<lambda>response_class.
     ebind (field document ''artifacts'') (\<lambda>artifacts.
     ensure (target = VStr expected_target_id) ResponseEnvelopeError ''response target does not match''
     (ensure (executor = VStr expected_executor_id) ResponseEnvelopeError ''response executor does not match''
     (ensure (release = VStr expected_release_revision) ResponseEnvelopeError ''response release does not match''
     (ensure (response_class = VStr expected_response_class) ResponseEnvelopeError ''response response class does not match''
     (ensure (py_eq artifacts (VDict expected_artifacts)) ResponseEnvelopeError ''response artifacts does not match''
     (ebind (ebind (field document ''created_at'') response_parse_time) (\<lambda>created_at.
     ebind (ebind (field document ''valid_from'') response_parse_time) (\<lambda>valid_from.
     ebind (ebind (field document ''valid_until'') response_parse_time) (\<lambda>valid_until.
     ebind (response_parse_time (VStr now)) (\<lambda>current.
     ensure (instant created_at \<le> instant valid_from \<and> instant valid_from \<le> instant valid_until)
       ResponseEnvelopeError ''response authorization interval is invalid''
     (ensure (instant valid_from \<le> instant current \<and> instant current \<le> instant valid_until)
       ResponseEnvelopeError ''response authorization is not currently valid''
     (ebind (field document ''controls'') (\<lambda>controls.
     ebind (all_items controls [(''guardian_executes'', VBool False), (''requires_exact_go'', VBool True),
              (''dry_run_first'', VBool True)]) (\<lambda>separated.
     ensure separated ResponseEnvelopeError ''response separation controls are invalid''
       (response_receipt E document))))))))))))))))))))))"

section \<open>Execution receipts\<close>

definition validate_receipt_semantics :: "pydict \<Rightarrow> unit res" where
  "validate_receipt_semantics receipt =
     ebind (field receipt ''status'') (\<lambda>status.
     ebind (field receipt ''action_evidence_digest'') (\<lambda>action.
     ebind (field receipt ''compensation_evidence_digest'') (\<lambda>compensation.
     ebind (field receipt ''postcheck_evidence_digest'') (\<lambda>postcheck.
     ensure (\<not> (status = vlit ''preflight-denied'' \<and> (action \<noteq> VNone \<or> compensation \<noteq> VNone \<or> postcheck \<noteq> VNone)))
       ExecutionReceiptError ''preflight-denied receipt claims later evidence''
     (ensure (\<not> (status = vlit ''apply-failed-no-change'' \<and> (action \<noteq> VNone \<or> compensation \<noteq> VNone)))
       ExecutionReceiptError ''no-change receipt claims action evidence''
     (ensure (\<not> (status = vlit ''applied-postcheck-pass'' \<and> (action = VNone \<or> postcheck = VNone \<or> compensation \<noteq> VNone)))
       ExecutionReceiptError ''successful receipt evidence is incomplete''
     (ensure (\<not> (status = vlit ''applied-postcheck-fail-compensated'' \<and> (action = VNone \<or> postcheck = VNone \<or> compensation = VNone)))
       ExecutionReceiptError ''compensated receipt evidence is incomplete''
     (ensure (\<not> (status = vlit ''compensation-failed'' \<and> (action = VNone \<or> postcheck = VNone \<or> compensation = VNone)))
       ExecutionReceiptError ''compensation-failed evidence is incomplete''
       (Inr ())))))))))"

definition execution_receipt_core ::
    "ustring \<Rightarrow> pyval \<Rightarrow> pyval \<Rightarrow> pyval \<Rightarrow> pyval \<Rightarrow> ustring \<Rightarrow> ustring \<Rightarrow> ustring option \<Rightarrow> ustring option \<Rightarrow>
     ustring option \<Rightarrow> ustring \<Rightarrow> ustring \<Rightarrow> pydict" where
  "execution_receipt_core envelope_digest response_id tenant_id target_id executor_id status preflight action
       compensation postcheck recorded_at signer_id =
     mk_dict [(''protocol'', vlit ''integrity-guardian/execution-receipt/v1''), (''receipt_id'', vlit ''receipt:pending''),
       (''envelope_digest'', VStr envelope_digest), (''response_id'', response_id), (''tenant_id'', tenant_id),
       (''target_id'', target_id), (''executor_id'', executor_id), (''status'', VStr status),
       (''preflight_evidence_digest'', VStr preflight), (''action_evidence_digest'', opt_str action),
       (''compensation_evidence_digest'', opt_str compensation), (''postcheck_evidence_digest'', opt_str postcheck),
       (''recorded_at'', VStr recorded_at), (''signer_id'', VStr signer_id)]"

definition build_execution_receipt ::
    "env \<Rightarrow> pydict \<Rightarrow> ustring \<Rightarrow> ustring \<Rightarrow> ustring option \<Rightarrow> ustring option \<Rightarrow> ustring option \<Rightarrow> ustring \<Rightarrow>
     ed25519_signer \<Rightarrow> pydict res" where
  "build_execution_receipt E envelope status preflight action compensation postcheck recorded_at signer =
     ebind (validate E ''response-envelope'' (VDict envelope)) (\<lambda>_.
     ebind (digest_object E (VDict envelope) (lit ''response-envelope-reference-v1'')) (\<lambda>envelope_digest.
     ebind (field envelope ''response_id'') (\<lambda>response_id.
     ebind (field envelope ''tenant_id'') (\<lambda>tenant_id.
     ebind (field envelope ''target_id'') (\<lambda>target_id.
     ebind (field envelope ''executor_id'') (\<lambda>executor_id.
     let core = execution_receipt_core envelope_digest response_id tenant_id target_id executor_id status preflight
                  action compensation postcheck recorded_at (sg_key_id signer) in
     ebind (content_identity E ''receipt:'' ''execution-receipt-identity-v1'' core) (\<lambda>identity.
     ebind (sign E signer (dict_put core ''receipt_id'' (VStr identity))) (\<lambda>receipt.
     ebind (validate E ''execution-receipt'' (VDict receipt)) (\<lambda>_.
     ebind (validate_receipt_semantics receipt) (\<lambda>_. Inr receipt))))))))))"

fun fields_agree :: "pydict \<Rightarrow> pydict \<Rightarrow> string list \<Rightarrow> unit res" where
  "fields_agree receipt envelope [] = Inr ()"
| "fields_agree receipt envelope (k # ks) =
     ebind (field receipt k) (\<lambda>a. ebind (field envelope k) (\<lambda>b.
     ensure (py_eq a b) ExecutionReceiptError (''execution receipt '' @ k @ '' mismatch'')
       (fields_agree receipt envelope ks)))"

definition verify_execution_receipt :: "env \<Rightarrow> pydict \<Rightarrow> pydict \<Rightarrow> trusted_key \<Rightarrow> unit res" where
  "verify_execution_receipt E receipt envelope executor_key =
     ebind (catch_as (\<lambda>_. True) ExecutionReceiptError ''execution receipt rejected''
       (ebind (validate E ''response-envelope'' (VDict envelope)) (\<lambda>_.
        ebind (validate E ''execution-receipt'' (VDict receipt)) (\<lambda>_.
        validate_receipt_semantics receipt)))) (\<lambda>_.
     ebind (digest_object E (VDict envelope) (lit ''response-envelope-reference-v1'')) (\<lambda>expected_digest.
     ebind (field receipt ''envelope_digest'') (\<lambda>digest.
     ensure (digest = VStr expected_digest) ExecutionReceiptError ''execution receipt envelope mismatch''
     (ebind (fields_agree receipt envelope [''response_id'', ''tenant_id'', ''target_id'', ''executor_id'']) (\<lambda>_.
     ebind (field receipt ''signer_id'') (\<lambda>signer_id.
     ebind (if signer_id \<noteq> VStr (tk_key_id executor_key) then Inr False
            else ebind (ebind (field receipt ''signature'') (\<lambda>s. item s ''key_id'')) (\<lambda>key_id.
                 if key_id \<noteq> VStr (tk_key_id executor_key) then Inr False
                 else ebind (field envelope ''executor_id'') (\<lambda>executor_id.
                 if executor_id \<noteq> VStr (tk_key_id executor_key) then Inr False
                 else verify_signature E receipt (tk_public_key executor_key)))) (\<lambda>accepted.
     ensure accepted ExecutionReceiptError ''execution receipt signature rejected'' (Inr ()))))))))"

section \<open>Facts\<close>

interpretation re: authorization_signing "''response-envelope-v1''" envelope_signature_payload sign_response_envelope
  unfolding envelope_signature_payload_def sign_response_envelope_def
  by (rule authorization_signing_instance) simp

lemma fields_agree_Inr:
  "fields_agree r e ks = Inr () \<longleftrightarrow>
   (\<forall>k \<in> set ks. \<exists>a b. dict_find r k = Some a \<and> dict_find e k = Some b \<and> py_eq a b)"
  by (induction r e ks rule: fields_agree.induct) (auto simp: res_simps)

lemma validate_receipt_semantics_Inr:
  "validate_receipt_semantics r = Inr () \<longleftrightarrow>
   (\<exists>status a c p. dict_find r ''status'' = Some status \<and> dict_find r ''action_evidence_digest'' = Some a \<and>
      dict_find r ''compensation_evidence_digest'' = Some c \<and> dict_find r ''postcheck_evidence_digest'' = Some p \<and>
      (status = vlit ''preflight-denied'' \<longrightarrow> a = VNone \<and> c = VNone \<and> p = VNone) \<and>
      (status = vlit ''apply-failed-no-change'' \<longrightarrow> a = VNone \<and> c = VNone) \<and>
      (status = vlit ''applied-postcheck-pass'' \<longrightarrow> a \<noteq> VNone \<and> p \<noteq> VNone \<and> c = VNone) \<and>
      (status = vlit ''applied-postcheck-fail-compensated'' \<longrightarrow> a \<noteq> VNone \<and> p \<noteq> VNone \<and> c \<noteq> VNone) \<and>
      (status = vlit ''compensation-failed'' \<longrightarrow> a \<noteq> VNone \<and> p \<noteq> VNone \<and> c \<noteq> VNone))"
  unfolding validate_receipt_semantics_def res_simps by blast

lemma verify_execution_receiptD:
  assumes "verify_execution_receipt E r e key = Inr ()"
  shows "validate_receipt_semantics r = Inr ()"
    "\<exists>d. digest_object E (VDict e) (lit ''response-envelope-reference-v1'') = Inr d \<and> dict_find r ''envelope_digest'' = Some (VStr d)"
    "fields_agree r e [''response_id'', ''tenant_id'', ''target_id'', ''executor_id''] = Inr ()"
    "dict_find e ''executor_id'' = Some (VStr (tk_key_id key))" "verify_signature E r (tk_public_key key) = Inr True"
  using assms unfolding verify_execution_receipt_def res_simps by (auto simp: res_simps split: if_splits)

lemma build_execution_receiptD:
  assumes "build_execution_receipt E e status preflight action compensation postcheck at sg = Inr r"
  shows "\<exists>digest a b c x u. schema_ok E ''response-envelope'' (VDict e) \<and> schema_ok E ''execution-receipt'' (VDict r) \<and>
    validate_receipt_semantics r = Inr () \<and> sign E sg u = Inr r \<and>
    digest_object E (VDict e) (lit ''response-envelope-reference-v1'') = Inr digest \<and>
    dict_find e ''response_id'' = Some a \<and> dict_find e ''tenant_id'' = Some b \<and> dict_find e ''target_id'' = Some c \<and>
    dict_find e ''executor_id'' = Some x \<and>
    dict_find r ''envelope_digest'' = Some (VStr digest) \<and> dict_find r ''response_id'' = Some a \<and>
    dict_find r ''tenant_id'' = Some b \<and> dict_find r ''target_id'' = Some c \<and> dict_find r ''executor_id'' = Some x \<and>
    dict_find r ''signer_id'' = Some (VStr (sg_key_id sg))"
proof -
  obtain digest a b c x i where *: "schema_ok E ''response-envelope'' (VDict e)" "schema_ok E ''execution-receipt'' (VDict r)"
    "validate_receipt_semantics r = Inr ()"
    "digest_object E (VDict e) (lit ''response-envelope-reference-v1'') = Inr digest"
    "dict_find e ''response_id'' = Some a" "dict_find e ''tenant_id'' = Some b" "dict_find e ''target_id'' = Some c"
    "dict_find e ''executor_id'' = Some x"
    and s: "sign E sg (dict_put (execution_receipt_core digest a b c x status preflight action compensation postcheck at
      (sg_key_id sg)) ''receipt_id'' (VStr i)) = Inr r"
    using assms unfolding build_execution_receipt_def validate_def Let_def res_simps by auto
  have "dict_find r ''envelope_digest'' = Some (VStr digest)" "dict_find r ''response_id'' = Some a"
    "dict_find r ''tenant_id'' = Some b" "dict_find r ''target_id'' = Some c" "dict_find r ''executor_id'' = Some x"
    "dict_find r ''signer_id'' = Some (VStr (sg_key_id sg))"
    by (simp_all add: sign_fields [OF s] execution_receipt_core_def dict_find_put dict_find_mk)
  with * s show ?thesis by blast
qed

text \<open>The executor named by the envelope is believed.\<close>

lemma built_receipt_verifies:
  assumes "ed25519_ok E" "length (sg_private_key sg) = 32"
    and "build_execution_receipt E e status preflight action compensation postcheck at sg = Inr r"
    and "py_wf (VDict e)" "dict_find e ''executor_id'' = Some (VStr (sg_key_id sg))"
  shows "verify_execution_receipt E r e \<lparr>tk_key_id = sg_key_id sg, tk_public_key = signer_public_key E sg\<rparr> = Inr ()"
proof -
  obtain digest a b c u where facts: "schema_ok E ''response-envelope'' (VDict e)" "schema_ok E ''execution-receipt'' (VDict r)"
    "validate_receipt_semantics r = Inr ()" and s: "sign E sg u = Inr r"
    and d: "digest_object E (VDict e) (lit ''response-envelope-reference-v1'') = Inr digest"
    and e: "dict_find e ''response_id'' = Some a" "dict_find e ''tenant_id'' = Some b" "dict_find e ''target_id'' = Some c"
    and r: "dict_find r ''envelope_digest'' = Some (VStr digest)" "dict_find r ''response_id'' = Some a"
      "dict_find r ''tenant_id'' = Some b" "dict_find r ''target_id'' = Some c"
      "dict_find r ''executor_id'' = Some (VStr (sg_key_id sg))" "dict_find r ''signer_id'' = Some (VStr (sg_key_id sg))"
    using build_execution_receiptD [OF assms(3)] assms(5) by auto
  obtain v where sig: "dict_find r ''signature'' = Some (signature_block (sg_key_id sg) v)"
    using sign_signature [OF s] by blast
  have "fields_agree r e [''response_id'', ''tenant_id'', ''target_id'', ''executor_id''] = Inr ()"
    unfolding fields_agree_Inr using e r assms(5) py_wf_find [OF assms(4)] py_eq_refl by auto
  then show ?thesis
    using facts d r sig assms(5) sign_verifies [OF assms(1,2) s]
    by (simp add: verify_execution_receipt_def validate_def item_def signature_block_def del: fields_agree.simps)
qed

definition demo_envelope :: pydict where
  "demo_envelope = mk_dict [(''response_id'', vlit ''response:one''), (''tenant_id'', vlit ''tenant:a''),
     (''target_id'', vlit ''host:a''), (''executor_id'', vlit ''key:demo'')]"

lemma demo_receipt_built:
  "\<exists>r. build_execution_receipt demo_env demo_envelope (lit ''preflight-denied'') (lit ''sha256:00'') None None None
     (lit ''2026-01-01T00:00:00Z'') demo_signer = Inr r"
proof -
  have "encodable (VDict demo_envelope)" "plain_domain ''response-envelope-reference-v1''" by code_simp+
  then obtain h where h: "digest_object demo_env (VDict demo_envelope) (lit ''response-envelope-reference-v1'') = Inr (lit ''sha256:'' @ hex h)"
    using digest_object_encodable by blast
  let ?core = "execution_receipt_core (lit ''sha256:'' @ hex h) (vlit ''response:one'') (vlit ''tenant:a'') (vlit ''host:a'')
    (vlit ''key:demo'') (lit ''preflight-denied'') (lit ''sha256:00'') None None None (lit ''2026-01-01T00:00:00Z'') (sg_key_id demo_signer)"
  have core: "encodable (VDict ?core)"
    by (simp add: execution_receipt_core_def mk_dict_def demo_signer_def opt_str_def)
  have "plain_domain ''execution-receipt-identity-v1''" by code_simp
  then obtain g where g: "content_identity demo_env ''receipt:'' ''execution-receipt-identity-v1'' ?core = Inr (lit ''receipt:'' @ hex g)"
    using content_identity_encodable [OF core] by blast
  obtain r where r: "sign demo_env demo_signer (dict_put ?core ''receipt_id'' (VStr (lit ''receipt:'' @ hex g))) = Inr r"
    using sign_encodable [OF encodable_put [OF core, of "VStr (lit ''receipt:'' @ hex g)" "''receipt_id''"]] by auto
  have "dict_find r ''status'' = Some (vlit ''preflight-denied'')" "dict_find r ''action_evidence_digest'' = Some VNone"
    "dict_find r ''compensation_evidence_digest'' = Some VNone" "dict_find r ''postcheck_evidence_digest'' = Some VNone"
    by (simp_all add: sign_fields [OF r] execution_receipt_core_def dict_find_put dict_find_mk opt_str_def)
  then have "validate_receipt_semantics r = Inr ()" by (simp add: validate_receipt_semantics_Inr)
  with h g r show ?thesis
    by (simp add: build_execution_receipt_def validate_def demo_envelope_def field_mk)
qed

lemma demo_envelope_facts:
  "py_wf (VDict demo_envelope)" "dict_find demo_envelope ''executor_id'' = Some (VStr (sg_key_id demo_signer))"
  by (code_simp, simp add: demo_envelope_def demo_signer_def dict_find_mk)

section \<open>Properties\<close>

text \<open>
  An execution receipt is accepted only from the executor that the envelope names, for
  exactly that envelope, and only when its evidence fits its status: the executor's key verified
  the receipt, every other envelope with the same reference digest has the same content (or the
  two digest inputs are a SHA-256 collision), a denied preflight carries no later evidence, and a
  success has action and post-check evidence and no compensation.
\<close>

theorem execution_receipt_accepted:
  assumes "verify_execution_receipt E r e key = Inr ()"
  shows "dict_find e ''executor_id'' = Some (VStr (tk_key_id key)) \<and>
    (\<exists>p sig. signature_payload r = Inr p \<and> ed_verify E (tk_public_key key) p sig) \<and>
    (dict_find r ''status'' = Some (vlit ''preflight-denied'') \<longrightarrow>
       dict_find r ''action_evidence_digest'' = Some VNone \<and> dict_find r ''postcheck_evidence_digest'' = Some VNone) \<and>
    (dict_find r ''status'' = Some (vlit ''applied-postcheck-pass'') \<longrightarrow>
       dict_find r ''action_evidence_digest'' \<noteq> Some VNone \<and> dict_find r ''postcheck_evidence_digest'' \<noteq> Some VNone \<and>
       dict_find r ''compensation_evidence_digest'' = Some VNone) \<and>
    (\<forall>e2. verify_execution_receipt E r e2 key = Inr () \<and> py_wf (VDict e) \<and> py_wf (VDict e2) \<longrightarrow>
       canon (VDict e) = canon (VDict e2) \<or>
       (\<exists>p q. digest_input E (VDict e) (lit ''response-envelope-reference-v1'') = Inr p \<and>
          digest_input E (VDict e2) (lit ''response-envelope-reference-v1'') = Inr q \<and> sha256_collision p q))"
proof -
  note D = verify_execution_receiptD
  have "\<exists>p sig. signature_payload r = Inr p \<and> ed_verify E (tk_public_key key) p sig"
    using verify_signature_True [OF D(5) [OF assms]] by blast
  moreover have "canon (VDict e) = canon (VDict e2) \<or>
       (\<exists>p q. digest_input E (VDict e) (lit ''response-envelope-reference-v1'') = Inr p \<and>
          digest_input E (VDict e2) (lit ''response-envelope-reference-v1'') = Inr q \<and> sha256_collision p q)"
    if e2: "verify_execution_receipt E r e2 key = Inr ()" and wf: "py_wf (VDict e)" "py_wf (VDict e2)" for e2
  proof -
    obtain d where d: "digest_object E (VDict e) (lit ''response-envelope-reference-v1'') = Inr d"
      "digest_object E (VDict e2) (lit ''response-envelope-reference-v1'') = Inr d"
      using D(2) [OF assms] D(2) [OF e2] by auto
    obtain p q where p: "digest_input E (VDict e) (lit ''response-envelope-reference-v1'') = Inr p"
      and q: "digest_input E (VDict e2) (lit ''response-envelope-reference-v1'') = Inr q"
      and "sha256_digest p = sha256_digest q"
      using d by (auto simp: digest_object_def res_simps)
    then have "p = q \<or> sha256_collision p q" using sha256_digest_eq by blast
    then show ?thesis using p q digest_input_inject wf by blast
  qed
  moreover note D(4) [OF assms]
  ultimately show ?thesis
    using D(1) [OF assms] unfolding validate_receipt_semantics_Inr by auto
qed

theorem execution_receipt_accepted_witness:
  "\<exists>r p sig. verify_execution_receipt demo_env r demo_envelope demo_key = Inr () \<and>
     signature_payload r = Inr p \<and> ed_verify demo_env (tk_public_key demo_key) p sig"
proof -
  obtain r where "verify_execution_receipt demo_env r demo_envelope demo_key = Inr ()"
    using demo_receipt_built built_receipt_verifies [OF demo_env_ok demo_signer_length _ demo_envelope_facts]
    unfolding demo_key_eq by blast
  with execution_receipt_accepted [OF this] show ?thesis by blast
qed

text \<open>
  A receipt that the executor named in the envelope builds for it is accepted for that
  envelope.
\<close>

theorem execution_receipt_roundtrip:
  assumes "ed25519_ok E" "length (sg_private_key sg) = 32"
    and "build_execution_receipt E e status preflight action compensation postcheck at sg = Inr r"
    and "py_wf (VDict e)" "dict_find e ''executor_id'' = Some (VStr (sg_key_id sg))"
  shows "verify_execution_receipt E r e \<lparr>tk_key_id = sg_key_id sg, tk_public_key = signer_public_key E sg\<rparr> = Inr ()"
  using assms by (rule built_receipt_verifies)

theorem execution_receipt_roundtrip_witness:
  "\<exists>r. build_execution_receipt demo_env demo_envelope (lit ''preflight-denied'') (lit ''sha256:00'') None None None
     (lit ''2026-01-01T00:00:00Z'') demo_signer = Inr r \<and> verify_execution_receipt demo_env r demo_envelope demo_key = Inr ()"
  using demo_receipt_built execution_receipt_roundtrip [OF demo_env_ok demo_signer_length _ demo_envelope_facts]
  unfolding demo_key_eq by blast

text \<open>
  A handoff receipt exists only for an envelope that its authority signed and that matches
  every expectation exactly: target, executor, release, response class and artifacts, within the
  signed period, with the controls that keep execution out of this library.
\<close>

theorem response_handoff_only_if_exact:
  assumes "verify_response_envelope E d key target executor release cls artifacts now = Inr r"
  shows "(\<exists>p sig. envelope_signature_payload d = Inr p \<and> ed_verify E (tk_public_key key) p sig) \<and>
    dict_find d ''target_id'' = Some (VStr target) \<and> dict_find d ''executor_id'' = Some (VStr executor) \<and>
    dict_find d ''release_revision'' = Some (VStr release) \<and> dict_find d ''response_class'' = Some (VStr cls) \<and>
    (\<exists>a. dict_find d ''artifacts'' = Some a \<and> py_eq a (VDict artifacts)) \<and>
    (\<exists>v w f u t. dict_find d ''valid_from'' = Some v \<and> dict_find d ''valid_until'' = Some w \<and>
       response_parse_time v = Inr f \<and> response_parse_time w = Inr u \<and> response_parse_time (VStr now) = Inr t \<and>
       instant f \<le> instant t \<and> instant t \<le> instant u) \<and>
    (\<exists>c. dict_find d ''controls'' = Some c \<and> item c ''guardian_executes'' = Inr (VBool False) \<and>
       item c ''requires_exact_go'' = Inr (VBool True) \<and> item c ''dry_run_first'' = Inr (VBool True)) \<and>
    dict_find r ''guardian_execution_capability'' = Some (VBool False)"
proof -
  have acc: "authority_accepts E envelope_signature_payload d key = Inr True"
    and d: "dict_find d ''target_id'' = Some (VStr target)" "dict_find d ''executor_id'' = Some (VStr executor)"
      "dict_find d ''release_revision'' = Some (VStr release)" "dict_find d ''response_class'' = Some (VStr cls)"
      "\<exists>a. dict_find d ''artifacts'' = Some a \<and> py_eq a (VDict artifacts)"
    and period: "\<exists>v w f u t. dict_find d ''valid_from'' = Some v \<and> dict_find d ''valid_until'' = Some w \<and>
       response_parse_time v = Inr f \<and> response_parse_time w = Inr u \<and> response_parse_time (VStr now) = Inr t \<and>
       instant f \<le> instant t \<and> instant t \<le> instant u"
    and controls: "\<exists>c. dict_find d ''controls'' = Some c \<and> item c ''guardian_executes'' = Inr (VBool False) \<and>
       item c ''requires_exact_go'' = Inr (VBool True) \<and> item c ''dry_run_first'' = Inr (VBool True)"
    and r: "response_receipt E d = Inr r"
    using assms unfolding verify_response_envelope_def res_simps by (auto simp: all_items_True)
  have "dict_find r ''guardian_execution_capability'' = Some (VBool False)"
    using r by (auto simp: response_receipt_def Let_def res_simps dict_find_put dict_find_mk map_add_def copy_fields_Inr
        split: option.splits dest!: map_of_SomeD)
  then show ?thesis using re.accepted_is_signed [OF acc] d period controls by blast
qed

definition demo_response :: pydict where
  "demo_response =
     mk_dict [(''response_id'', vlit ''response:one''), (''tenant_id'', vlit ''tenant:a''),
       (''finding_ids'', VList [vlit ''finding:b'', vlit ''finding:a'']), (''target_id'', vlit ''host:a''),
       (''executor_id'', vlit ''key:executor''), (''release_revision'', vlit ''r1''), (''response_class'', vlit ''restart''),
       (''artifacts'', VDict []), (''created_at'', vlit ''2026-01-01T00:00:00Z''),
       (''valid_from'', vlit ''2026-01-01T00:00:00Z''), (''valid_until'', vlit ''2027-01-01T00:00:00Z''),
       (''controls'', VDict (mk_dict [(''guardian_executes'', VBool False), (''requires_exact_go'', VBool True),
          (''dry_run_first'', VBool True)])),
       (''authorization'', VDict (mk_dict [(''authority_id'', vlit ''key:demo'')]))]"

lemma demo_response_receipt:
  assumes "\<And>k. k \<noteq> ''authorization'' \<Longrightarrow> dict_find d k = dict_find demo_response k" "encodable (VDict d)"
  shows "\<exists>r. response_receipt demo_env d = Inr r"
proof -
  note f = assms(1) demo_response_def dict_find_mk item_def
  have "plain_domain ''response-envelope-reference-v1''" by code_simp
  then obtain h where h: "digest_object demo_env (VDict d) (lit ''response-envelope-reference-v1'') = Inr (lit ''sha256:'' @ hex h)"
    using digest_object_encodable [OF assms(2)] by blast
  have dom: "plain_domain ''response-handoff-receipt-v1''" by code_simp
  have "\<exists>g. digest_object demo_env (VDict (mk_dict
       [(''protocol'', vlit ''integrity-guardian/response-handoff-receipt/v1''), (''response_id'', vlit ''response:one''),
        (''tenant_id'', vlit ''tenant:a''), (''finding_ids'', VList [vlit ''finding:a'', vlit ''finding:b'']),
        (''target_id'', vlit ''host:a''), (''executor_id'', vlit ''key:executor''), (''release_revision'', vlit ''r1''),
        (''response_class'', vlit ''restart''), (''envelope_digest'', VStr (lit ''sha256:'' @ hex h)),
        (''valid_until'', vlit ''2027-01-01T00:00:00Z''), (''handoff_ready'', VBool True),
        (''guardian_execution_capability'', VBool False)]))
      (lit ''response-handoff-receipt-v1'') = Inr (lit ''sha256:'' @ hex g)"
    by (rule digest_object_encodable [OF _ dom]) (simp add: mk_dict_def)
  moreover have "sorted_texts (VList [vlit ''finding:b'', vlit ''finding:a'']) = Inr (VList [vlit ''finding:a'', vlit ''finding:b''])"
    by code_simp
  ultimately show ?thesis using h by (auto simp: response_receipt_def copy_fields_def f)
qed

theorem response_handoff_only_if_exact_witness:
  "\<exists>d r. sign_response_envelope demo_env demo_signer demo_response = Inr d \<and>
     verify_response_envelope demo_env d demo_key (lit ''host:a'') (lit ''key:executor'') (lit ''r1'') (lit ''restart'') []
       (lit ''2026-06-01T12:00:00Z'') = Inr r \<and> dict_find r ''guardian_execution_capability'' = Some (VBool False)"
proof -
  have "succeeds (\<lambda>d. authority_accepts demo_env envelope_signature_payload d demo_key = Inr True \<and> encodable (VDict d))
      (sign_response_envelope demo_env demo_signer demo_response)"
    by code_simp
  then obtain d where d: "sign_response_envelope demo_env demo_signer demo_response = Inr d"
    "authority_accepts demo_env envelope_signature_payload d demo_key = Inr True" "encodable (VDict d)"
    by (blast dest: succeedsD)
  have f: "dict_find d k = dict_find demo_response k" if "k \<noteq> ''authorization''" for k
    by (rule re.sign_document_fields [OF d(1) that])
  obtain r where r: "response_receipt demo_env d = Inr r" using demo_response_receipt [OF f d(3)] by blast
  have times: "response_parse_time (vlit ''2026-01-01T00:00:00Z'') = Inr \<lparr>dt_local = 63902908800000000, dt_offset = Some 0\<rparr>"
    "response_parse_time (vlit ''2027-01-01T00:00:00Z'') = Inr \<lparr>dt_local = 63934444800000000, dt_offset = Some 0\<rparr>"
    "response_parse_time (vlit ''2026-06-01T12:00:00Z'') = Inr \<lparr>dt_local = 63915998400000000, dt_offset = Some 0\<rparr>"
    by code_simp+
  have "verify_response_envelope demo_env d demo_key (lit ''host:a'') (lit ''key:executor'') (lit ''r1'') (lit ''restart'') []
       (lit ''2026-06-01T12:00:00Z'') = Inr r"
    using d(2) r times
    by (simp add: verify_response_envelope_def validate_def item_def f demo_response_def dict_find_mk instant_def all_items.simps)
  from response_handoff_only_if_exact [OF this] this d(1) show ?thesis by blast
qed

end
