(* ===== verification/Merkle.thy ===== *)
theory Merkle
  imports Identity
begin

text \<open>
  The Merkle tree of \<open>ledger.py\<close>: leaf and node hashes, the root over a list of event digests
  with a promoted odd node, inclusion paths and their verification.

  The level-by-level loops are written over an arbitrary node function; the source's functions
  use them with \<open>node_hash\<close>. With the constructor of a binary tree as node function the same
  loops give the tree whose hash is the root, which is how the binding theorem is proved: equal
  roots mean equal trees or an explicit SHA-256 collision between two inputs that were hashed.
\<close>

section \<open>Hashes\<close>

definition ascii_encode :: "ustring \<Rightarrow> bytes res" where
  "ascii_encode s =
     ensure (\<forall>c \<in> set s. 0 \<le> c \<and> c < 128) UnicodeEncodeError ''ordinal not in range(128)'' (Inr (map char_of s))"

definition leaf_input :: "bytes \<Rightarrow> bytes" where
  "leaf_input digest = CHR 0x00 # ''integrity-guardian-merkle-v1'' @ CHR 0x00 # digest"

definition node_input :: "bytes \<Rightarrow> bytes \<Rightarrow> bytes" where
  "node_input left right = CHR 0x01 # ''integrity-guardian-merkle-v1'' @ CHR 0x00 # left @ right"

definition leaf_hash :: "ustring \<Rightarrow> bytes res" where
  "leaf_hash digest = ebind (ascii_encode digest) (\<lambda>b. Inr (sha256 (leaf_input b)))"

definition node_hash :: "bytes \<Rightarrow> bytes \<Rightarrow> bytes" where
  "node_hash left right = sha256 (node_input left right)"

section \<open>Levels\<close>

fun pair_up :: "('a \<Rightarrow> 'a \<Rightarrow> 'a) \<Rightarrow> 'a list \<Rightarrow> 'a list" where
  "pair_up node (x # y # level) = node x y # pair_up node level"
| "pair_up node level = level"

lemma length_pair_up [simp]: "length (pair_up node level) = (length level + 1) div 2"
  by (induction node level rule: pair_up.induct) auto

text \<open>The loop \<open>while len(level) > 1\<close>.\<close>

function reduce_levels :: "('a \<Rightarrow> 'a \<Rightarrow> 'a) \<Rightarrow> 'a list \<Rightarrow> 'a list" where
  "reduce_levels node level =
     (if 1 < length level then reduce_levels node (pair_up node level) else level)"
  by pat_completeness auto
termination
  by (relation "measure (\<lambda>(_, level). length level)") auto

declare reduce_levels.simps [simp del]

definition merkle_root :: "ustring list \<Rightarrow> ustring res" where
  "merkle_root digests =
     ebind (map_res leaf_hash digests) (\<lambda>level.
     if level = [] then raise ValueError ''a checkpoint cannot commit an empty ledger''
     else Inr (lit ''sha256:'' @ hex (hd (reduce_levels node_hash level))))"

text \<open>The audit path of a leaf, lowest level first; \<open>True\<close> is a sibling on the left.\<close>

function path_levels :: "('a \<Rightarrow> 'a \<Rightarrow> 'a) \<Rightarrow> 'a list \<Rightarrow> nat \<Rightarrow> (bool \<times> 'a) list" where
  "path_levels node level index =
     (if 1 < length level then
        (if odd index then [(True, level ! (index - 1))]
         else if index + 1 < length level then [(False, level ! (index + 1))] else [])
        @ path_levels node (pair_up node level) (index div 2)
      else [])"
  by pat_completeness auto
termination
  by (relation "measure (\<lambda>(_, level, _). length level)") auto

declare path_levels.simps [simp del]

definition path_step :: "bool \<times> bytes \<Rightarrow> pydict" where
  "path_step s = (case s of (left, h) \<Rightarrow>
     mk_dict [(''side'', vlit (if left then ''left'' else ''right'')), (''digest'', VStr (lit ''sha256:'' @ hex h))])"

definition merkle_inclusion_path :: "ustring list \<Rightarrow> pyval \<Rightarrow> pydict list res" where
  "merkle_inclusion_path digests leaf_index =
     ensure (digests \<noteq> []) ValueError ''an inclusion proof requires a non-empty ledger''
     (case leaf_index of
        VInt i \<Rightarrow>
          ensure (0 \<le> i \<and> i < int (length digests)) ValueError ''inclusion leaf index is out of range''
            (ebind (map_res leaf_hash digests) (\<lambda>level.
             Inr (map path_step (path_levels node_hash level (nat i)))))
      | _ \<Rightarrow> raise ValueError ''inclusion leaf index is out of range'')"

section \<open>Verification of a path\<close>

definition is_lower_hex :: "int \<Rightarrow> bool" where
  "is_lower_hex c \<longleftrightarrow> 48 \<le> c \<and> c \<le> 57 \<or> 97 \<le> c \<and> c \<le> 102"

text \<open>\<open>^sha256:[0-9a-f]{64}$\<close>, matched in full.\<close>

definition is_digest_text :: "ustring \<Rightarrow> bool" where
  "is_digest_text s \<longleftrightarrow>
     starts_with (lit ''sha256:'') s \<and> length s = 71 \<and> list_all is_lower_hex (drop 7 s)"

definition is_digest :: "pyval \<Rightarrow> bool" where
  "is_digest v = (case v of VStr s \<Rightarrow> is_digest_text s | _ \<Rightarrow> False)"

definition nibble :: "int \<Rightarrow> int" where
  "nibble c = (if c \<le> 57 then c - 48 else c - 87)"

text \<open>\<open>bytes.fromhex\<close> on an even number of lower-case digits.\<close>

fun fromhex :: "ustring \<Rightarrow> bytes" where
  "fromhex (a # b # r) = char_of (16 * nibble a + nibble b) # fromhex r"
| "fromhex _ = []"

definition check_step :: "bool \<Rightarrow> pydict \<Rightarrow> bytes res" where
  "check_step left step =
     ensure (fst ` set step = {tkey ''side'', tkey ''digest''} \<and>
             dict_get step ''side'' = vlit (if left then ''left'' else ''right''))
       LedgerVerificationError ''ledger inclusion audit path direction mismatch''
     (ensure (is_digest (dict_get step ''digest''))
       LedgerVerificationError ''ledger inclusion sibling digest rejected''
     (case dict_get step ''digest'' of
        VStr s \<Rightarrow> ebind (after_colon s) (\<lambda>h. Inr (fromhex h))
      | _ \<Rightarrow> raise LedgerVerificationError ''ledger inclusion sibling digest rejected''))"

text \<open>The loop \<open>while width > 1\<close>: the node reached and the steps that are left.\<close>

function climb :: "bytes \<Rightarrow> nat \<Rightarrow> nat \<Rightarrow> pydict list \<Rightarrow> (bytes \<times> pydict list) res" where
  "climb node index width path =
     (if 1 < width then
        (if odd index \<or> index + 1 < width then
           (case path of
              [] \<Rightarrow> raise LedgerVerificationError ''ledger inclusion audit path is incomplete''
            | step # rest \<Rightarrow>
                ebind (check_step (odd index) step) (\<lambda>sibling.
                climb (if odd index then node_hash sibling node else node_hash node sibling)
                  (index div 2) ((width + 1) div 2) rest))
         else climb node (index div 2) ((width + 1) div 2) path)
      else Inr (node, path))"
  by pat_completeness auto
termination
  by (relation "measure (\<lambda>(_, _, width, _). width)") auto

declare climb.simps [simp del]

definition verify_merkle_inclusion_path ::
    "pyval \<Rightarrow> pyval \<Rightarrow> pyval \<Rightarrow> pydict list \<Rightarrow> pyval \<Rightarrow> unit res" where
  "verify_merkle_inclusion_path event_digest_value leaf_index tree_size audit_path expected_root_digest =
     (case (tree_size, leaf_index) of
        (VInt width, VInt index) \<Rightarrow>
          ensure (1 \<le> width \<and> 0 \<le> index \<and> index < width) LedgerVerificationError ''ledger inclusion position rejected''
          (ensure (is_digest event_digest_value \<and> is_digest expected_root_digest)
            LedgerVerificationError ''ledger inclusion digest rejected''
          (case event_digest_value of
             VStr digest \<Rightarrow>
               ebind (leaf_hash digest) (\<lambda>leaf.
               ebind (climb leaf (nat index) (nat width) audit_path) (\<lambda>(node, rest).
               ensure (rest = []) LedgerVerificationError ''ledger inclusion audit path has extra steps''
               (ensure (VStr (lit ''sha256:'' @ hex node) = expected_root_digest)
                  LedgerVerificationError ''ledger inclusion Merkle root mismatch'' (Inr ()))))
           | _ \<Rightarrow> raise LedgerVerificationError ''ledger inclusion digest rejected''))
      | _ \<Rightarrow> raise LedgerVerificationError ''ledger inclusion position rejected'')"

section \<open>Facts\<close>

subsection \<open>Hexadecimal text\<close>

lemma nibble_hex_digit: "0 \<le> n \<Longrightarrow> n < 16 \<Longrightarrow> nibble (hex_digit n) = n"
  by (auto simp: nibble_def hex_digit_def)

lemma fromhex_hex [simp]: "fromhex (hex b) = b"
proof (induction b)
  case (Cons c b)
  have "16 * nibble (hex_digit (of_char c div 16)) + nibble (hex_digit (of_char c mod 16)) = (of_char c :: int)"
    using nibble_bounds [of c] by (simp add: nibble_hex_digit)
  with Cons show ?case by (simp add: hex_Cons)
qed simp

lemma length_fromhex: "length (fromhex s) = length s div 2"
  by (induction s rule: fromhex.induct) auto

lemma is_digest_hex [simp]: "length h = 32 \<Longrightarrow> is_digest_text (lit ''sha256:'' @ hex h)"
  using hex_digits_range [of _ h]
  by (auto simp: is_digest_text_def starts_with_def lit_def list_all_iff is_lower_hex_def)

lemma is_digest_text_split:
  assumes "is_digest_text s"
  shows "s = lit ''sha256:'' @ drop 7 s" "length (drop 7 s) = 64"
proof -
  have "take 7 s = lit ''sha256:''" "length s = 71"
    using assms by (simp_all add: is_digest_text_def starts_with_def numeral_eq_Suc)
  then show "s = lit ''sha256:'' @ drop 7 s" "length (drop 7 s) = 64"
    using append_take_drop_id [of 7 s] by simp_all
qed

lemma is_digest_ascii:
  assumes "is_digest_text s"
  shows "\<exists>b. ascii_encode s = Inr b"
proof -
  have "\<forall>c \<in> set (lit ''sha256:'' @ drop 7 s). 0 \<le> c \<and> c < 128"
    using assms by (auto simp: is_digest_text_def list_all_iff is_lower_hex_def lit_def)
  then have "\<forall>c \<in> set s. 0 \<le> c \<and> c < 128" using is_digest_text_split(1) [OF assms] by simp
  then show ?thesis by (simp add: ascii_encode_def)
qed

lemma ascii_encode_inject:
  assumes "ascii_encode s = Inr b" "ascii_encode t = Inr b"
  shows "s = t"
proof -
  have r: "\<forall>c \<in> set s. 0 \<le> c \<and> c < 256" "\<forall>c \<in> set t. 0 \<le> c \<and> c < 256"
    and b: "b = map char_of s" "b = map char_of t"
    using assms by (auto simp: ascii_encode_def res_simps)
  have "map (of_char :: char \<Rightarrow> int) b = s" "map (of_char :: char \<Rightarrow> int) b = t"
    using r b map_of_char_char_of [of s] map_of_char_char_of [of t] by auto
  then show ?thesis by simp
qed

lemma length_leaf_hash: "leaf_hash d = Inr h \<Longrightarrow> length h = 32"
  by (auto simp: leaf_hash_def res_simps)

lemma length_node_hash [simp]: "length (node_hash a b) = 32"
  by (simp add: node_hash_def)

subsection \<open>The tree behind the levels\<close>

datatype htree = HLeaf ustring | HNode htree htree

text \<open>Leaves from left to right, the hash of a tree, and the inputs that hashing it consumes.\<close>

fun leaves :: "htree \<Rightarrow> ustring list" where
  "leaves (HLeaf d) = [d]"
| "leaves (HNode l r) = leaves l @ leaves r"

fun hash_tree :: "htree \<Rightarrow> bytes" where
  "hash_tree (HLeaf d) = sha256 (leaf_input (map char_of d))"
| "hash_tree (HNode l r) = node_hash (hash_tree l) (hash_tree r)"

fun tree_inputs :: "htree \<Rightarrow> bytes list" where
  "tree_inputs (HLeaf d) = [leaf_input (map char_of d)]"
| "tree_inputs (HNode l r) = node_input (hash_tree l) (hash_tree r) # tree_inputs l @ tree_inputs r"

definition digests_tree :: "ustring list \<Rightarrow> htree" where
  "digests_tree digests = hd (reduce_levels HNode (map HLeaf digests))"

definition merkle_inputs :: "ustring list \<Rightarrow> bytes list" where
  "merkle_inputs digests = tree_inputs (digests_tree digests)"

lemma length_hash_tree [simp]: "length (hash_tree t) = 32"
  by (cases t) simp_all

lemma pair_up_map: "(\<And>x y. f (node x y) = node' (f x) (f y)) \<Longrightarrow> map f (pair_up node level) = pair_up node' (map f level)"
  by (induction node level rule: pair_up.induct) auto

text \<open>A homomorphism of node functions carries over to the levels.\<close>

lemma reduce_levels_map:
  assumes "\<And>x y. f (node x y) = node' (f x) (f y)"
  shows "map f (reduce_levels node level) = reduce_levels node' (map f level)"
proof (induction level rule: measure_induct_rule [of length])
  case (less level)
  show ?case
  proof (cases "1 < length level")
    case True
    then have "map f (reduce_levels node (pair_up node level)) = reduce_levels node' (map f (pair_up node level))"
      by (intro less) simp
    with True show ?thesis
      using pair_up_map [of f node node' level, OF assms] by (simp add: reduce_levels.simps [of _ "level"] reduce_levels.simps [of _ "map f level"])
  qed (simp add: reduce_levels.simps)
qed

lemma reduce_levels_singleton: "level \<noteq> [] \<Longrightarrow> \<exists>x. reduce_levels node level = [x]"
proof (induction level rule: measure_induct_rule [of length])
  case (less level)
  show ?case
  proof (cases "1 < length level")
    case True
    then have "\<exists>x. reduce_levels node (pair_up node level) = [x]"
      by (intro less) (auto simp flip: length_greater_0_conv)
    with True show ?thesis by (simp add: reduce_levels.simps [of _ level])
  next
    case False
    with less.prems show ?thesis by (cases level) (auto simp: reduce_levels.simps)
  qed
qed

lemma leaves_pair_up: "concat (map leaves (pair_up HNode level)) = concat (map leaves level)"
  by (induction HNode level rule: pair_up.induct) auto

lemma leaves_reduce: "concat (map leaves (reduce_levels HNode level)) = concat (map leaves level)"
proof (induction level rule: measure_induct_rule [of length])
  case (less level)
  show ?case
  proof (cases "1 < length level")
    case True
    then have "concat (map leaves (reduce_levels HNode (pair_up HNode level))) = concat (map leaves (pair_up HNode level))"
      by (intro less) simp
    with True show ?thesis by (simp add: reduce_levels.simps [of HNode level] leaves_pair_up)
  qed (simp add: reduce_levels.simps)
qed

lemma leaves_digests_tree:
  assumes "digests \<noteq> []"
  shows "leaves (digests_tree digests) = digests"
proof -
  obtain t where t: "reduce_levels HNode (map HLeaf digests) = [t]"
    using reduce_levels_singleton [of "map HLeaf digests" HNode] assms by auto
  then have "leaves t = concat (map leaves (map HLeaf digests))" using leaves_reduce [of "map HLeaf digests"] by simp
  then show ?thesis using t by (simp add: digests_tree_def comp_def)
qed

lemma map_res_leaf_hash:
  "map_res leaf_hash digests = Inr level \<Longrightarrow> level = map hash_tree (map HLeaf digests)"
  by (induction digests arbitrary: level) (auto simp: res_simps leaf_hash_def ascii_encode_def)

text \<open>The root is the hash of the tree.\<close>

lemma merkle_root_tree:
  "merkle_root digests = Inr r \<Longrightarrow> digests \<noteq> [] \<and> r = lit ''sha256:'' @ hex (hash_tree (digests_tree digests))"
proof -
  assume "merkle_root digests = Inr r"
  then obtain level where level: "map_res leaf_hash digests = Inr level" "level \<noteq> []"
    and r: "r = lit ''sha256:'' @ hex (hd (reduce_levels node_hash level))"
    by (auto simp: merkle_root_def res_simps split: if_splits)
  have "reduce_levels node_hash level = map hash_tree (reduce_levels HNode (map HLeaf digests))"
    unfolding map_res_leaf_hash [OF level(1)] by (rule reduce_levels_map [symmetric]) simp
  moreover have ne: "digests \<noteq> []" using map_res_leaf_hash [OF level(1)] level(2) by auto
  moreover obtain t where "reduce_levels HNode (map HLeaf digests) = [t]"
    using reduce_levels_singleton [of "map HLeaf digests"] ne by auto
  ultimately show ?thesis by (simp add: r digests_tree_def)
qed

lemma node_input_inject:
  "length a = length c \<Longrightarrow> node_input a b = node_input c d \<longleftrightarrow> a = c \<and> b = d"
  by (auto simp: node_input_def)

lemma leaf_node_input: "leaf_input d \<noteq> node_input a b" "node_input a b \<noteq> leaf_input d"
  by (auto simp: leaf_input_def node_input_def)

definition ascii_texts :: "ustring list \<Rightarrow> bool" where
  "ascii_texts ds \<longleftrightarrow> (\<forall>d \<in> set ds. \<exists>b. ascii_encode d = Inr b)"

lemma ascii_map_char_of:
  assumes "ascii_texts [d]" "ascii_texts [e]" "(map char_of d :: bytes) = map char_of e"
  shows "d = e"
  using assms ascii_encode_inject [of d _ e] by (auto simp: ascii_texts_def ascii_encode_def res_simps)

lemma hash_tree_binds:
  assumes "hash_tree t = hash_tree u" "ascii_texts (leaves t)" "ascii_texts (leaves u)"
  shows "t = u \<or> (\<exists>a \<in> set (tree_inputs t). \<exists>b \<in> set (tree_inputs u). sha256_collision a b)"
  using assms
proof (induction t arbitrary: u)
  case (HLeaf d)
  show ?case
  proof (cases u)
    case (HLeaf e)
    then show ?thesis using HLeaf.prems ascii_map_char_of [of d e]
      by (auto simp: sha256_collision_def leaf_input_def)
  next
    case (HNode l r)
    then show ?thesis using HLeaf.prems leaf_node_input(1) by (auto simp: node_hash_def sha256_collision_def)
  qed
next
  case (HNode l r)
  show ?case
  proof (cases u)
    case (HLeaf e)
    then show ?thesis using HNode.prems leaf_node_input(2) by (auto simp: node_hash_def sha256_collision_def)
  next
    case u: (HNode l' r')
    let ?a = "node_input (hash_tree l) (hash_tree r)" and ?b = "node_input (hash_tree l') (hash_tree r')"
    show ?thesis
    proof (cases "?a = ?b")
      case True
      then have eq: "hash_tree l = hash_tree l'" "hash_tree r = hash_tree r'" by (simp_all add: node_input_inject)
      have "ascii_texts (leaves l)" "ascii_texts (leaves r)" "ascii_texts (leaves l')" "ascii_texts (leaves r')"
        using HNode.prems u by (auto simp: ascii_texts_def)
      then show ?thesis using HNode.IH(1) [OF eq(1)] HNode.IH(2) [OF eq(2)] u by auto
    next
      case False
      then show ?thesis using HNode.prems(1) u by (auto simp: node_hash_def sha256_collision_def)
    qed
  qed
qed

lemma merkle_root_ascii: "merkle_root digests = Inr r \<Longrightarrow> ascii_texts digests"
proof -
  assume "merkle_root digests = Inr r"
  then obtain level where "map_res leaf_hash digests = Inr level" by (auto simp: merkle_root_def res_simps)
  then have "list_all2 (\<lambda>x y. leaf_hash x = Inr y) digests level" by (simp only: map_res_Inr_iff)
  then have "\<exists>y. leaf_hash d = Inr y" if "d \<in> set digests" for d
    using that by (auto simp: list_all2_conv_all_nth in_set_conv_nth)
  then show ?thesis by (fastforce simp: ascii_texts_def leaf_hash_def res_simps)
qed

lemma merkle_root_inject:
  assumes "merkle_root xs = Inr r" "merkle_root ys = Inr r"
  shows "xs = ys \<or> (\<exists>a \<in> set (merkle_inputs xs). \<exists>b \<in> set (merkle_inputs ys). sha256_collision a b)"
proof -
  note x = merkle_root_tree [OF assms(1)] and y = merkle_root_tree [OF assms(2)]
  have "hash_tree (digests_tree xs) = hash_tree (digests_tree ys)" using x y by simp
  moreover have "ascii_texts (leaves (digests_tree xs))" "ascii_texts (leaves (digests_tree ys))"
    using merkle_root_ascii [OF assms(1)] merkle_root_ascii [OF assms(2)] x y by (simp_all add: leaves_digests_tree)
  ultimately have "digests_tree xs = digests_tree ys \<or>
      (\<exists>a \<in> set (merkle_inputs xs). \<exists>b \<in> set (merkle_inputs ys). sha256_collision a b)"
    unfolding merkle_inputs_def by (rule hash_tree_binds)
  moreover have "xs = ys" if "digests_tree xs = digests_tree ys"
    using leaves_digests_tree x y that by metis
  ultimately show ?thesis by blast
qed

subsection \<open>Inclusion paths\<close>

lemma pair_up_nth:
  "i < length level \<Longrightarrow> pair_up node level ! (i div 2) =
   (if odd i then node (level ! (i - 1)) (level ! i)
    else if i + 1 < length level then node (level ! i) (level ! (i + 1)) else level ! i)"
proof (induction node level arbitrary: i rule: pair_up.induct)
  case (1 node x y level)
  show ?case
  proof (cases "i < 2")
    case True
    then have "i = 0 \<or> i = 1" by auto
    then show ?thesis by auto
  next
    case False
    then obtain j where "i = Suc (Suc j)" by (metis add_2_eq_Suc le_add_diff_inverse not_less)
    then show ?thesis using "1.IH" [of j] "1.prems" by (cases j) auto
  qed
qed auto

lemma check_step_path_step [simp]: "length h = 32 \<Longrightarrow> check_step left (path_step (left, h)) = Inr h"
  by (auto simp: check_step_def path_step_def mk_dict_def dict_get_def dict_find_def is_digest_def)

lemma length_pair_up_hashes:
  "\<forall>h \<in> set level. length h = 32 \<Longrightarrow> \<forall>h \<in> set (pair_up node_hash level). length h = 32"
  by (induction node_hash level rule: pair_up.induct) auto

lemma climb_path:
  assumes "index < length level" "\<forall>h \<in> set level. length h = 32"
  shows "climb (level ! index) index (length level) (map path_step (path_levels node_hash level index) @ rest) =
    Inr (hd (reduce_levels node_hash level), rest)"
  using assms
proof (induction level arbitrary: index rule: measure_induct_rule [of length])
  case (less level)
  show ?case
  proof (cases "1 < length level")
    case True
    let ?up = "pair_up node_hash level"
    have IH: "climb (?up ! (index div 2)) (index div 2) (length ?up) (map path_step (path_levels node_hash ?up (index div 2)) @ rest) =
        Inr (hd (reduce_levels node_hash ?up), rest)"
      using True less.prems length_pair_up_hashes [OF less.prems(2)] by (intro less.IH) auto
    have sib: "odd index \<Longrightarrow> length (level ! (index - 1)) = 32" "index + 1 < length level \<Longrightarrow> length (level ! (index + 1)) = 32"
      using less.prems by auto
    note nth = pair_up_nth [OF less.prems(1), of node_hash]
    have red: "reduce_levels node_hash level = reduce_levels node_hash ?up"
      using True by (simp add: reduce_levels.simps [of node_hash level])
    note up = climb.simps [of "level ! index" index "length level"] path_levels.simps [of node_hash level index]
    consider "odd index" | "even index" "index + 1 < length level" | "even index" "\<not> index + 1 < length level" by blast
    then show ?thesis
    proof cases
      case 1
      then show ?thesis using True IH nth sib unfolding red up by simp
    next
      case 2
      then show ?thesis using True IH nth sib unfolding red up by simp
    next
      case 3
      then show ?thesis using True IH nth unfolding red up by simp
    qed
  next
    case False
    then obtain h where "level = [h]" using less.prems(1) by (cases level) auto
    then show ?thesis using less.prems(1) by (simp add: climb.simps reduce_levels.simps path_levels.simps)
  qed
qed

text \<open>The inputs that the verifier hashes on its way up.\<close>

function climb_inputs :: "bytes \<Rightarrow> nat \<Rightarrow> nat \<Rightarrow> pydict list \<Rightarrow> bytes list" where
  "climb_inputs node index width path =
     (if 1 < width then
        (if odd index \<or> index + 1 < width then
           (case path of
              [] \<Rightarrow> []
            | step # rest \<Rightarrow>
                (case check_step (odd index) step of
                   Inl e \<Rightarrow> []
                 | Inr sibling \<Rightarrow>
                     (let input = (if odd index then node_input sibling node else node_input node sibling)
                      in input # climb_inputs (sha256 input) (index div 2) ((width + 1) div 2) rest)))
         else climb_inputs node (index div 2) ((width + 1) div 2) path)
      else [])"
  by pat_completeness auto
termination
  by (relation "measure (\<lambda>(_, _, width, _). width)") auto

declare climb_inputs.simps [simp del]

definition verifier_inputs :: "ustring \<Rightarrow> nat \<Rightarrow> nat \<Rightarrow> pydict list \<Rightarrow> bytes list" where
  "verifier_inputs digest index width path =
     leaf_input (map char_of digest) # climb_inputs (sha256 (leaf_input (map char_of digest))) index width path"

lemma check_step_length: "check_step left step = Inr h \<Longrightarrow> length h = 32"
proof -
  assume "check_step left step = Inr h"
  then obtain s x where s: "is_digest_text s" "after_colon s = Inr x" "h = fromhex x"
    by (auto simp: check_step_def res_simps is_digest_def split: pyval.splits)
  then have "after_colon (lit ''sha256:'' @ drop 7 s) = Inr x" using is_digest_text_split(1) [OF s(1)] by simp
  then have "x = drop 7 s" by simp
  then show ?thesis using s is_digest_text_split(2) [OF s(1)] by (simp add: length_fromhex)
qed

lemma tree_inputs_reduce:
  "t \<in> set ts \<Longrightarrow> set (tree_inputs t) \<subseteq> set (tree_inputs (hd (reduce_levels HNode ts)))"
proof (induction ts arbitrary: t rule: measure_induct_rule [of length])
  case (less ts)
  show ?case
  proof (cases "1 < length ts")
    case True
    have "\<exists>u \<in> set (pair_up HNode ts). set (tree_inputs t) \<subseteq> set (tree_inputs u)"
      using less.prems by (induction HNode ts rule: pair_up.induct) auto
    then obtain u where u: "u \<in> set (pair_up HNode ts)" "set (tree_inputs t) \<subseteq> set (tree_inputs u)" by blast
    have "set (tree_inputs u) \<subseteq> set (tree_inputs (hd (reduce_levels HNode (pair_up HNode ts))))"
      using True u(1) by (intro less.IH) auto
    with u True show ?thesis by (simp add: reduce_levels.simps [of HNode ts])
  next
    case False
    with less.prems show ?thesis by (cases ts) (auto simp: reduce_levels.simps)
  qed
qed

lemma climb_sound:
  assumes "climb h index (length ts) path = Inr (hash_tree (hd (reduce_levels HNode ts)), rest)"
    and "index < length ts" "length h = 32"
  shows "h = hash_tree (ts ! index) \<or>
    (\<exists>a \<in> set (tree_inputs (hd (reduce_levels HNode ts))). \<exists>b \<in> set (climb_inputs h index (length ts) path). sha256_collision a b)"
  using assms
proof (induction ts arbitrary: h index path rule: measure_induct_rule [of length])
  case (less ts)
  show ?case
  proof (cases "1 < length ts")
    case True
    let ?up = "pair_up HNode ts" and ?root = "hd (reduce_levels HNode ts)"
    have red: "reduce_levels HNode ts = reduce_levels HNode ?up"
      using True by (simp add: reduce_levels.simps [of HNode ts])
    have len: "length ?up = (length ts + 1) div 2" "index div 2 < length ?up" "length ?up < length ts"
      using True less.prems(2) by auto
    note IH = less.IH [OF len(3), of _ "index div 2", unfolded red [symmetric], OF _ len(2)]
    note nth = pair_up_nth [OF less.prems(2), of HNode]
    show ?thesis
    proof (cases "odd index \<or> index + 1 < length ts")
      case has: True
      then obtain step r sib where path: "path = step # r" "check_step (odd index) step = Inr sib"
        and up: "climb (if odd index then node_hash sib h else node_hash h sib) (index div 2) (length ?up) r =
          Inr (hash_tree ?root, rest)"
        using less.prems(1) True len(1) by (auto simp: climb.simps [of h] res_simps split: list.splits)
      let ?in = "if odd index then node_input sib h else node_input h sib"
      let ?l = "if odd index then ts ! (index - 1) else ts ! index" and ?r = "if odd index then ts ! index else ts ! (index + 1)"
      let ?own = "node_input (hash_tree ?l) (hash_tree ?r)"
      have parent: "?up ! (index div 2) = HNode ?l ?r" using nth has by auto
      have inputs: "climb_inputs h index (length ts) path = ?in # climb_inputs (sha256 ?in) (index div 2) (length ?up) r"
        using True has path len(1) by (simp add: climb_inputs.simps [of h] Let_def)
      have sha: "sha256 ?in = (if odd index then node_hash sib h else node_hash h sib)" by (simp add: node_hash_def)
      have "sha256 ?in = hash_tree (HNode ?l ?r) \<or>
          (\<exists>a \<in> set (tree_inputs ?root). \<exists>b \<in> set (climb_inputs (sha256 ?in) (index div 2) (length ?up) r). sha256_collision a b)"
        using IH [of "sha256 ?in" r] up parent unfolding sha by simp
      moreover have "?own \<in> set (tree_inputs ?root)"
      proof -
        have "HNode ?l ?r \<in> set ?up" using len(2) parent by (metis nth_mem)
        then show ?thesis using tree_inputs_reduce [of "HNode ?l ?r" ?up] unfolding red by auto
      qed
      moreover have "h = hash_tree (ts ! index)" if "?in = ?own"
      proof -
        have "length sib = 32" using check_step_length path(2) by blast
        with that less.prems(3) show ?thesis by (auto simp: node_input_inject split: if_splits)
      qed
      moreover have "?in = ?own \<or> sha256_collision ?own ?in" if "sha256 ?in = hash_tree (HNode ?l ?r)"
        using that by (simp add: node_hash_def sha256_collision_def, metis)
      ultimately show ?thesis unfolding inputs by fastforce
    next
      case none: False
      have "climb h (index div 2) (length ?up) path = Inr (hash_tree ?root, rest)"
        using less.prems(1) True none len(1) by (simp add: climb.simps [of h])
      moreover have "climb_inputs h index (length ts) path = climb_inputs h (index div 2) (length ?up) path"
        using True none len(1) by (simp add: climb_inputs.simps [of h index])
      moreover have "?up ! (index div 2) = ts ! index" using nth none by simp
      ultimately show ?thesis using IH [OF _ less.prems(3), of path] by simp
    qed
  next
    case False
    then obtain t where "ts = [t]" using less.prems(2) by (cases ts) auto
    then show ?thesis using less.prems by (simp add: climb.simps reduce_levels.simps)
  qed
qed

lemma inclusion_path_accepted:
  assumes "i < length digests" and "\<forall>d \<in> set digests. is_digest_text d"
  shows "\<exists>root path. merkle_root digests = Inr root \<and> merkle_inclusion_path digests (VInt (int i)) = Inr path \<and>
    verify_merkle_inclusion_path (VStr (digests ! i)) (VInt (int i)) (VInt (int (length digests))) path (VStr root) = Inr ()"
proof -
  have "\<exists>h. leaf_hash d = Inr h" if "d \<in> set digests" for d
    using is_digest_ascii assms(2) that by (fastforce simp: leaf_hash_def)
  then obtain f where f: "\<And>d. d \<in> set digests \<Longrightarrow> leaf_hash d = Inr (f d)" by metis
  then have level: "map_res leaf_hash digests = Inr (map f digests)" by (rule map_res_total)
  have leaf: "leaf_hash (digests ! i) = Inr (map f digests ! i)" by (rule map_res_Inr_nth [OF level assms(1)])
  have len: "\<forall>h \<in> set (map f digests). length h = 32"
    using length_leaf_hash [OF f] by auto
  let ?h = "hd (reduce_levels node_hash (map f digests))"
  have root: "merkle_root digests = Inr (lit ''sha256:'' @ hex ?h)"
    using level assms(1) by (auto simp: merkle_root_def)
  have "length ?h = 32" using merkle_root_tree [OF root] by simp
  moreover have "climb (map f digests ! i) i (length digests) (map path_step (path_levels node_hash (map f digests) i)) = Inr (?h, [])"
    using climb_path [of i "map f digests" "[]"] assms(1) len by simp
  moreover have "is_digest (VStr (digests ! i))" using assms by (simp add: is_digest_def)
  moreover have "merkle_inclusion_path digests (VInt (int i)) = Inr (map path_step (path_levels node_hash (map f digests) i))"
    using level assms(1) by (auto simp: merkle_inclusion_path_def ensure_def)
  ultimately have "verify_merkle_inclusion_path (VStr (digests ! i)) (VInt (int i)) (VInt (int (length digests)))
      (map path_step (path_levels node_hash (map f digests) i)) (VStr (lit ''sha256:'' @ hex ?h)) = Inr ()"
    using leaf assms(1) by (simp add: verify_merkle_inclusion_path_def is_digest_def ensure_def)
  with root \<open>merkle_inclusion_path digests (VInt (int i)) = _\<close> show ?thesis by blast
qed

section \<open>Properties\<close>

text \<open>
  A Merkle root commits to the whole list of event digests: lists with the same root,
  whatever their lengths, are equal, or two of the byte strings hashed for them are an explicit
  SHA-256 collision. Leaves and inner nodes cannot be confused, and neither can trees of
  different sizes.
\<close>

theorem merkle_root_binding:
  assumes "merkle_root xs = Inr r" "merkle_root ys = Inr r"
  shows "xs = ys \<or> (\<exists>a \<in> set (merkle_inputs xs). \<exists>b \<in> set (merkle_inputs ys). sha256_collision a b)"
  using assms by (rule merkle_root_inject)

theorem merkle_root_binding_witness:
  "\<exists>r. merkle_root [lit ''a'', lit ''b'', lit ''c''] = Inr r \<and>
     ([lit ''a'', lit ''b'', lit ''c''] = [lit ''a'', lit ''b'', lit ''c''] \<or>
      (\<exists>a \<in> set (merkle_inputs [lit ''a'', lit ''b'', lit ''c'']). \<exists>b \<in> set (merkle_inputs [lit ''a'', lit ''b'', lit ''c'']).
         sha256_collision a b))"
proof -
  obtain r where "merkle_root [lit ''a'', lit ''b'', lit ''c''] = Inr r"
    by (simp add: merkle_root_def leaf_hash_def ascii_encode_def lit_def)
  with merkle_root_binding [OF this this] show ?thesis by blast
qed

text \<open>
  Inclusion proofs are complete: for every non-empty list of event digests and every
  position, the path that is built for it is accepted for the digest at that position against
  the root of the list.
\<close>

theorem merkle_inclusion_complete:
  assumes "i < length digests" and "\<forall>d \<in> set digests. is_digest_text d"
  shows "\<exists>root path. merkle_root digests = Inr root \<and> merkle_inclusion_path digests (VInt (int i)) = Inr path \<and>
    verify_merkle_inclusion_path (VStr (digests ! i)) (VInt (int i)) (VInt (int (length digests))) path (VStr root) = Inr ()"
  using assms by (rule inclusion_path_accepted)

theorem merkle_inclusion_complete_witness:
  "\<exists>root path. merkle_root [lit ''sha256:'' @ replicate 64 48, lit ''sha256:'' @ replicate 64 49] = Inr root \<and>
     verify_merkle_inclusion_path (VStr (lit ''sha256:'' @ replicate 64 49)) (VInt 1) (VInt 2) path (VStr root) = Inr ()"
proof -
  have "\<forall>d \<in> set [lit ''sha256:'' @ replicate 64 48, lit ''sha256:'' @ replicate 64 49]. is_digest_text d" by code_simp
  then show ?thesis
    using merkle_inclusion_complete [of 1 "[lit ''sha256:'' @ replicate 64 48, lit ''sha256:'' @ replicate 64 49]"] by auto
qed

text \<open>
  C4. Inclusion proofs are sound: when a path is accepted for a digest at a position against the
  root of a list of that size, the digest is the one at that position, or one of the inputs hashed
  for the root and one of the inputs hashed by the verifier are an explicit SHA-256 collision.
\<close>

theorem merkle_inclusion_sound:
  assumes "merkle_root digests = Inr root"
    and "verify_merkle_inclusion_path (VStr x) (VInt i) (VInt (int (length digests))) path (VStr root) = Inr ()"
  shows "0 \<le> i \<and> nat i < length digests \<and>
    (digests ! nat i = x \<or>
     (\<exists>a \<in> set (merkle_inputs digests). \<exists>b \<in> set (verifier_inputs x (nat i) (length digests) path). sha256_collision a b))"
proof -
  let ?ts = "map HLeaf digests" and ?h = "sha256 (leaf_input (map char_of x))"
  note tree = merkle_root_tree [OF assms(1)]
  have i: "0 \<le> i" "nat i < length digests" and x: "ascii_texts [x]" and leaf: "leaf_hash x = Inr ?h"
    and climb: "climb ?h (nat i) (length ?ts) path = Inr (hash_tree (digests_tree digests), [])"
    using assms(2) tree
    by (auto simp: verify_merkle_inclusion_path_def res_simps leaf_hash_def ascii_encode_def ascii_texts_def)
  have "?h = hash_tree (?ts ! nat i) \<or>
      (\<exists>a \<in> set (merkle_inputs digests). \<exists>b \<in> set (climb_inputs ?h (nat i) (length digests) path). sha256_collision a b)"
    using climb_sound [OF climb [unfolded digests_tree_def]] i unfolding merkle_inputs_def digests_tree_def by simp
  moreover have "digests ! nat i = x \<or> sha256_collision (leaf_input (map char_of (digests ! nat i))) (leaf_input (map char_of x))"
    if "?h = hash_tree (?ts ! nat i)"
  proof -
    have "ascii_texts [digests ! nat i]" using merkle_root_ascii [OF assms(1)] i by (auto simp: ascii_texts_def)
    then show ?thesis using that i ascii_map_char_of [OF _ x, of "digests ! nat i"]
      by (auto simp: sha256_collision_def leaf_input_def)
  qed
  moreover have "leaf_input (map char_of (digests ! nat i)) \<in> set (merkle_inputs digests)"
    using tree_inputs_reduce [of "HLeaf (digests ! nat i)" ?ts] i by (simp add: merkle_inputs_def digests_tree_def)
  ultimately show ?thesis using i by (auto simp: verifier_inputs_def)
qed

theorem merkle_inclusion_sound_witness:
  "\<exists>root. merkle_root [lit ''sha256:'' @ replicate 64 48] = Inr root \<and>
     ([lit ''sha256:'' @ replicate 64 48] ! nat 0 = lit ''sha256:'' @ replicate 64 48 \<or>
      (\<exists>a \<in> set (merkle_inputs [lit ''sha256:'' @ replicate 64 48]).
       \<exists>b \<in> set (verifier_inputs (lit ''sha256:'' @ replicate 64 48) (nat 0) 1 []). sha256_collision a b))"
proof -
  let ?d = "lit ''sha256:'' @ replicate 64 48"
  have d: "is_digest_text ?d" by code_simp
  then obtain h where h: "leaf_hash ?d = Inr h" using is_digest_ascii by (fastforce simp: leaf_hash_def)
  then have root: "merkle_root [?d] = Inr (lit ''sha256:'' @ hex h)"
    by (simp add: merkle_root_def reduce_levels.simps)
  have "verify_merkle_inclusion_path (VStr ?d) (VInt 0) (VInt (int (length [?d]))) [] (VStr (lit ''sha256:'' @ hex h)) = Inr ()"
    using h d length_leaf_hash [OF h]
    by (simp add: verify_merkle_inclusion_path_def is_digest_def climb.simps del: append.simps)
  from merkle_inclusion_sound [OF root this] root show ?thesis by auto
qed

end
