(* ===== verification/Reread.thy ===== *)
theory Reread
  imports Identity "HOL-Library.Multiset"
begin

text \<open>
  Documents that were stored in canonical form and read back. The reader sees the items of
  every object in key order (\<open>canon_items\<close>); \<open>same_doc\<close> relates two dictionaries that differ
  in that order only. Digests, identities and signatures do not distinguish them, which is why
  a stored document still verifies.

  \<open>schema_ignores_order\<close> is the documented behaviour of JSON Schema that this rests on:
  validation does not depend on the order of the members of an object.
\<close>

definition schema_ignores_order :: "env \<Rightarrow> bool" where
  "schema_ignores_order E \<longleftrightarrow> (\<forall>name v. schema_ok E name (canon v) = schema_ok E name v)"

definition canon_items :: "pydict \<Rightarrow> pydict" where
  "canon_items d = map (\<lambda>(k, v). (KStr k, canon v)) (sorted_items (text_items d))"

definition same_doc :: "pydict \<Rightarrow> pydict \<Rightarrow> bool" where
  "same_doc a b \<longleftrightarrow> profile (VDict a) \<and> profile (VDict b) \<and> canon (VDict a) = canon (VDict b)"

lemma canon_VDict: "canon (VDict d) = VDict (canon_items d)"
  by (simp only: canon_dict canon_items_def)

declare canon.simps(2) [simp del] profile_dict [simp del]

lemma text_keys_distinct: "profile (VDict d) \<Longrightarrow> distinct (map fst (text_items d))"
  by (rule text_items_distinct) (auto simp: profile_dict)

lemma set_canon_items: "set (canon_items d) = (\<lambda>(k, v). (KStr (key_text k), canon v)) ` set d"
  by (force simp: canon_items_def)

lemma distinct_canon_items: "profile (VDict d) \<Longrightarrow> distinct (map fst (canon_items d))"
proof -
  assume "profile (VDict d)"
  then have "distinct (map fst (sorted_items (text_items d)))"
    unfolding distinct_sorted_items by (rule text_keys_distinct)
  then have "distinct (map KStr (map fst (sorted_items (text_items d))))"
    by (subst distinct_map) (simp add: inj_on_def)
  then show ?thesis by (simp add: canon_items_def comp_def case_prod_unfold)
qed

lemma map_of_canon_items:
  assumes "profile (VDict d)"
  shows "map_of (canon_items d) k = map_option canon (map_of d k)"
proof -
  have keys: "\<exists>s. k = KStr s" if "(k, v) \<in> set d" for k v using assms that by (auto simp: profile_dict)
  have "map_of (canon_items d) k = Some w \<longleftrightarrow> map_option canon (map_of d k) = Some w" for w
  proof -
    have "map_of (canon_items d) k = Some w \<longleftrightarrow> (k, w) \<in> set (canon_items d)"
      using distinct_canon_items [OF assms] by simp
    also have "\<dots> \<longleftrightarrow> (\<exists>v. (k, v) \<in> set d \<and> w = canon v)"
      unfolding set_canon_items using keys by force
    also have "\<dots> \<longleftrightarrow> map_option canon (map_of d k) = Some w"
      using assms by (auto simp: profile_dict map_of_eq_Some_iff_distinct)
    finally show ?thesis .
  qed
  then show ?thesis by (metis not_None_eq)
qed

lemma profile_canon_items: "profile (VDict d) \<Longrightarrow> profile (VDict (canon_items d))"
  using profile_canon [of "VDict d"] by (simp only: canon_VDict)

lemma canon_items_cong:
  assumes "profile (VDict a)" "profile (VDict b)" "\<And>k. map_option canon (map_of a k) = map_option canon (map_of b k)"
  shows "canon_items a = canon_items b"
proof -
  let ?f = "\<lambda>d. map (\<lambda>(k, v). (k, canon v)) (text_items d)"
  have dist: "distinct (map fst (?f d))" if "profile (VDict d)" for d
    using text_keys_distinct [OF that] by (simp add: comp_def case_prod_unfold)
  have "set (canon_items a) = set (canon_items b)"
    using assms map_of_canon_items [OF assms(1)] map_of_canon_items [OF assms(2)]
      distinct_canon_items [OF assms(1)] distinct_canon_items [OF assms(2)]
    by (intro set_eqI) (metis map_of_eq_Some_iff prod.collapse)
  then have "(\<lambda>(k, v). (key_text k, v)) ` set (canon_items a) = (\<lambda>(k, v). (key_text k, v)) ` set (canon_items b)" by simp
  then have "set (?f a) = set (?f b)" unfolding set_canon_items by (force simp: image_image case_prod_unfold)
  then have "mset (?f a) = mset (?f b)"
    using dist [OF assms(1)] dist [OF assms(2)] set_eq_iff_mset_eq_distinct distinct_map by metis
  moreover have "inj_on fst (set (?f a))" using dist [OF assms(1)] by (simp only: distinct_map)
  ultimately have "sorted_items (?f a) = sorted_items (?f b)"
    unfolding sorted_items_def by (intro sort_key_inj_key_eq) simp_all
  moreover have "canon_items d = map (\<lambda>(k, v). (KStr k, v)) (sorted_items (?f d))" for d
    unfolding canon_items_def sorted_items_map_snd by (simp add: comp_def case_prod_unfold)
  ultimately show ?thesis by (simp only:)
qed

lemma same_doc_iff:
  "same_doc a b \<longleftrightarrow> profile (VDict a) \<and> profile (VDict b) \<and>
     (\<forall>k. map_option canon (map_of a k) = map_option canon (map_of b k))"
proof
  assume s: "same_doc a b"
  then have "canon_items a = canon_items b" by (simp add: same_doc_def canon_VDict)
  then show "profile (VDict a) \<and> profile (VDict b) \<and> (\<forall>k. map_option canon (map_of a k) = map_option canon (map_of b k))"
    using s map_of_canon_items [of a] map_of_canon_items [of b] by (simp add: same_doc_def)
next
  assume *: "profile (VDict a) \<and> profile (VDict b) \<and> (\<forall>k. map_option canon (map_of a k) = map_option canon (map_of b k))"
  have "canon_items a = canon_items b" by (rule canon_items_cong) (use * in blast)+
  with * show "same_doc a b" unfolding same_doc_def canon_VDict by blast
qed

lemma profile_put: "profile (VDict d) \<Longrightarrow> profile v \<Longrightarrow> profile (VDict (dict_put d k v))"
proof -
  assume d: "profile (VDict d)" and v: "profile v"
  have "profile w \<and> (\<exists>s. j = KStr s \<and> list_all is_code_point s)" if "(j, w) \<in> set (dict_put d k v)" for j w
    using subsetD [OF set_dict_put that] d v lit_code_points [of k] by (auto simp: profile_dict)
  then show ?thesis using d by (auto simp: profile_dict)
qed

lemma profile_pop: "profile (VDict d) \<Longrightarrow> profile (VDict (dict_pop d k))"
  using set_dict_pop [of d k] distinct_dict_pop [of d k] unfolding profile_dict by fastforce

lemma profile_find: "profile (VDict d) \<Longrightarrow> dict_find d k = Some v \<Longrightarrow> profile v"
  by (auto simp: profile_dict dict_find_def dest!: map_of_SomeD)

lemma same_doc_put: "same_doc a b \<Longrightarrow> profile v \<Longrightarrow> same_doc (dict_put a k v) (dict_put b k v)"
  unfolding same_doc_iff using profile_put by (simp add: dict_put_def update_conv')

lemma same_doc_pop: "same_doc a b \<Longrightarrow> same_doc (dict_pop a k) (dict_pop b k)"
  unfolding same_doc_iff using profile_pop by (simp add: dict_pop_def delete_conv')

lemma same_doc_bytes: "same_doc a b \<Longrightarrow> canonical_bytes (VDict a) = canonical_bytes (VDict b)"
  unfolding same_doc_def by (intro canonical_bytes_cong) simp_all

lemma same_doc_digest: "same_doc a b \<Longrightarrow> digest_object E (VDict a) name = digest_object E (VDict b) name"
  using same_doc_bytes by (simp add: digest_object_def digest_input_def)

lemma same_doc_payload: "same_doc a b \<Longrightarrow> signature_payload a = signature_payload b"
  using same_doc_bytes [OF same_doc_pop, of a b] by (simp add: signature_payload_def)

lemma same_doc_pending:
  "same_doc a b \<Longrightarrow> content_identity E pre name (pending i p a) = content_identity E pre name (pending i p b)"
  unfolding content_identity_def pending_def
  by (subst same_doc_digest [OF same_doc_put [OF same_doc_pop], of a b]) simp_all

text \<open>The document as it is read back.\<close>

lemma reread:
  assumes "py_wf (VDict d)" "canonical_bytes (VDict d) = Inr b"
  shows "parse_json_strict (DocBytes b) = Inr (VDict (canon_items d))" "same_doc d (canon_items d)"
proof -
  have p: "profile (VDict d)" by (rule canonical_bytes_Inr_profile [OF assms])
  show "parse_json_strict (DocBytes b) = Inr (VDict (canon_items d))"
    using canonical_reads_back [OF assms] by (simp add: canon_VDict)
  have "canonical_bytes (VDict (canon_items d)) = Inr b"
    using canonical_bytes_canon [OF assms] by (simp add: canon_VDict)
  then have "canon (VDict d) = canon (VDict (canon_items d))"
    using profile_canon_items [OF p] assms by (intro canonical_bytes_inject) (simp_all add: profile_def)
  then show "same_doc d (canon_items d)" using p profile_canon_items by (simp add: same_doc_def)
qed

lemma canon_items_find:
  assumes "profile (VDict d)"
  shows "dict_find (canon_items d) k = map_option canon (dict_find d k)"
  using map_of_canon_items [OF assms] by (simp add: dict_find_def)

lemma verify_signature_reread:
  assumes "py_wf (VDict d)" "canonical_bytes (VDict d) = Inr b" "verify_signature E d key = Inr True"
  shows "verify_signature E (canon_items d) key = Inr True"
proof -
  have p: "profile (VDict d)" by (rule canonical_bytes_Inr_profile [OF assms(1,2)])
  obtain sig v payload where sig: "dict_find d ''signature'' = Some (VDict sig)"
    "dict_get sig ''algorithm'' = vlit ''ed25519''" "signature_payload d = Inr payload"
    "dict_find sig ''value'' = Some v" "verify_bytes E payload v key"
    using assms(3) by (auto simp: verify_signature_def dict_get_def recover_def res_simps
        split: pyval.splits option.splits sum.splits if_splits prod.splits)
  have ps: "profile (VDict sig)" by (rule profile_find [OF p sig(1)])
  obtain s where v: "v = VStr s"
    using sig(5) by (cases "unbase64url v") (auto simp: verify_bytes_def unbase64url_iff)
  have "signature_payload (canon_items d) = Inr payload"
    using same_doc_payload [OF reread(2) [OF assms(1,2)]] sig(3) by simp
  moreover have "dict_find (canon_items d) ''signature'' = Some (VDict (canon_items sig))"
    using canon_items_find [OF p] sig(1) by (simp add: canon_VDict)
  moreover have "dict_find (canon_items sig) ''value'' = Some (VStr s)" "dict_get (canon_items sig) ''algorithm'' = vlit ''ed25519''"
    using canon_items_find [OF ps] sig(2,4) v by (auto simp: dict_get_def split: option.splits)
  ultimately show ?thesis using sig(5) v by (simp add: verify_signature_def dict_get_def item_def)
qed

end
