(* ===== verification/Transactions.thy ===== *)
theory Transactions
  imports Prelude
begin

text \<open>
  Operations on a local SQLite database. An operation maps the contents of the database to the
  contents it leaves and its result, so the contents at the moment of an exception are visible.
  A connection has the contents it currently sees and, while a transaction is open, the
  contents that a rollback restores. \<open>transaction\<close> is the context manager that the stores
  use: \<open>BEGIN IMMEDIATE\<close>, the body, and \<open>COMMIT\<close> or \<open>ROLLBACK\<close>.

  One connection is modelled: the write lock taken by \<open>BEGIN IMMEDIATE\<close> serialises writers,
  so other connections act between operations, not within them.

  \<open>keeps I m\<close> says that an operation preserves \<open>I\<close> also where it raises; its rules, collected in
  \<open>keeps_rules\<close>, carry the invariant proofs of the stores. \<open>ends Q m s\<close> is a postcondition
  of successful runs.
\<close>

section \<open>Operations with state and exceptions\<close>

type_synonym ('s, 'a) op = "'s \<Rightarrow> 's \<times> 'a res"

definition give :: "'a \<Rightarrow> ('s, 'a) op" where
  "give x = (\<lambda>s. (s, Inr x))"

definition fails :: "exc \<Rightarrow> string \<Rightarrow> ('s, 'a) op" where
  "fails c msg = (\<lambda>s. (s, Inl (c, msg)))"

definition sbind :: "('s, 'a) op \<Rightarrow> ('a \<Rightarrow> ('s, 'b) op) \<Rightarrow> ('s, 'b) op" where
  "sbind m f = (\<lambda>s. case m s of (s', Inl e) \<Rightarrow> (s', Inl e) | (s', Inr x) \<Rightarrow> f x s')"

text \<open>A computation that does not touch the database, and one that only reads it.\<close>

definition pure_op :: "'a res \<Rightarrow> ('s, 'a) op" where
  "pure_op m = (\<lambda>s. (s, m))"

definition query :: "('s \<Rightarrow> 'a) \<Rightarrow> ('s, 'a) op" where
  "query f = (\<lambda>s. (s, Inr (f s)))"

definition modify :: "('s \<Rightarrow> 's) \<Rightarrow> ('s, unit) op" where
  "modify f = (\<lambda>s. (f s, Inr ()))"

definition sensure :: "bool \<Rightarrow> exc \<Rightarrow> string \<Rightarrow> ('s, 'a) op \<Rightarrow> ('s, 'a) op" where
  "sensure c e msg k = (if c then k else fails e msg)"

text \<open>A loop over a list that collects the results and stops at the first exception.\<close>

primrec smap :: "('a \<Rightarrow> ('s, 'b) op) \<Rightarrow> 'a list \<Rightarrow> ('s, 'b list) op" where
  "smap f [] = give []"
| "smap f (x # xs) = sbind (f x) (\<lambda>y. sbind (smap f xs) (\<lambda>ys. give (y # ys)))"

section \<open>Connections\<close>

record 'd conn =
  cn_now :: 'd
  cn_saved :: "'d option"

definition idle :: "'d conn \<Rightarrow> bool" where
  "idle c \<longleftrightarrow> cn_saved c = None"

definition connect :: "'d \<Rightarrow> 'd conn" where
  "connect d = \<lparr>cn_now = d, cn_saved = None\<rparr>"

definition begin_immediate :: "('d conn, unit) op" where
  "begin_immediate = (\<lambda>c.
     if cn_saved c = None then (c\<lparr>cn_saved := Some (cn_now c)\<rparr>, Inr ())
     else (c, raise OperationalError ''cannot start a transaction within a transaction''))"

definition commit :: "'d conn \<Rightarrow> 'd conn" where
  "commit c = c\<lparr>cn_saved := None\<rparr>"

definition rollback :: "'d conn \<Rightarrow> 'd conn" where
  "rollback c = (case cn_saved c of None \<Rightarrow> c | Some d \<Rightarrow> c\<lparr>cn_now := d, cn_saved := None\<rparr>)"

text \<open>Statements of the body run on the contents the connection sees.\<close>

definition on_now :: "('d, 'a) op \<Rightarrow> ('d conn, 'a) op" where
  "on_now m = (\<lambda>c. case m (cn_now c) of (d, r) \<Rightarrow> (c\<lparr>cn_now := d\<rparr>, r))"

text \<open>\<open>try: yield / except BaseException: rollback; raise\<close>, then \<open>commit\<close>.\<close>

definition finish :: "('d conn, 'a) op \<Rightarrow> ('d conn, 'a) op" where
  "finish m = (\<lambda>c. case m c of (c', Inl e) \<Rightarrow> (rollback c', Inl e) | (c', Inr x) \<Rightarrow> (commit c', Inr x))"

definition transaction :: "('d, 'a) op \<Rightarrow> ('d conn, 'a) op" where
  "transaction m = sbind begin_immediate (\<lambda>_. finish (on_now m))"

section \<open>Facts\<close>

named_theorems keeps_rules \<open>preservation of an invariant, one rule per operator\<close>
named_theorems op_simps \<open>successful runs of the operators\<close>

lemma op_apply [simp]:
  "give x s = (s, Inr x)" "fails c msg s = (s, Inl (c, msg))" "pure_op m s = (s, m)"
  "query f s = (s, Inr (f s))" "modify g s = (g s, Inr ())"
  by (simp_all add: give_def fails_def pure_op_def query_def modify_def)

lemma sbind_apply: "sbind m f s = (case m s of (s', Inl e) \<Rightarrow> (s', Inl e) | (s', Inr x) \<Rightarrow> f x s')"
  by (simp add: sbind_def)

lemma sbind_simps [simp]:
  "sbind (give x) f s = f x s" "sbind (fails c msg) f s = (s, Inl (c, msg))"
  "sbind (query g) f s = f (g s) s" "sbind (modify h) f2 s = f2 () (h s)"
  "sbind (pure_op (Inr x)) f s = f x s" "sbind (pure_op (Inl e)) f s = (s, Inl e)"
  by (simp_all add: sbind_def)

lemma sensure_simps [simp]: "sensure True e msg k = k" "sensure False e msg k s = (s, Inl (e, msg))"
  by (simp_all add: sensure_def)

lemma sbind_success [op_simps]:
  "sbind m f s = (s', Inr y) \<longleftrightarrow> (\<exists>s1 x. m s = (s1, Inr x) \<and> f x s1 = (s', Inr y))"
  by (auto simp: sbind_def split: prod.splits sum.splits)

lemma sensure_success [op_simps]: "sensure c e msg k s = (s', Inr y) \<longleftrightarrow> c \<and> k s = (s', Inr y)"
  by (simp add: sensure_def)

lemma pure_op_success [op_simps]: "pure_op m s = (s', Inr y) \<longleftrightarrow> s' = s \<and> m = Inr y"
  by auto

lemma give_success [op_simps]: "give x s = (s', Inr y) \<longleftrightarrow> s' = s \<and> y = x"
  by auto

definition keeps :: "('s \<Rightarrow> bool) \<Rightarrow> ('s, 'a) op \<Rightarrow> bool" where
  "keeps I m \<longleftrightarrow> (\<forall>s. I s \<longrightarrow> I (fst (m s)))"

lemma keepsI: "(\<And>s s' r. I s \<Longrightarrow> m s = (s', r) \<Longrightarrow> I s') \<Longrightarrow> keeps I m"
  unfolding keeps_def by (metis prod.collapse)

lemma keepsD: "keeps I m \<Longrightarrow> I s \<Longrightarrow> m s = (s', r) \<Longrightarrow> I s'"
  by (fastforce simp: keeps_def dest: spec [of _ s])

lemma keeps_basic [keeps_rules]:
  "keeps I (give x)" "keeps I (fails c msg)" "keeps I (pure_op m)" "keeps I (query f)"
  by (simp_all add: keeps_def)

lemma keeps_modify [keeps_rules]: "(\<And>s. I s \<Longrightarrow> I (f s)) \<Longrightarrow> keeps I (modify f)"
  by (simp add: keeps_def)

lemma keeps_sbind [keeps_rules]: "keeps I m \<Longrightarrow> (\<And>x. keeps I (f x)) \<Longrightarrow> keeps I (sbind m f)"
  by (fastforce simp: keeps_def sbind_def split: prod.splits sum.splits)

lemma keeps_sensure [keeps_rules]: "(c \<Longrightarrow> keeps I k) \<Longrightarrow> keeps I (sensure c e msg k)"
  by (simp add: sensure_def keeps_basic)

lemma keeps_smap [keeps_rules]: "(\<And>x. keeps I (f x)) \<Longrightarrow> keeps I (smap f xs)"
  by (induction xs) (auto intro!: keeps_rules)

lemma keeps_if [keeps_rules]: "(c \<Longrightarrow> keeps I a) \<Longrightarrow> (\<not> c \<Longrightarrow> keeps I b) \<Longrightarrow> keeps I (if c then a else b)"
  by simp

lemma keeps_option [keeps_rules]:
  "keeps I a \<Longrightarrow> (\<And>x. keeps I (b x)) \<Longrightarrow> keeps I (case opt of None \<Rightarrow> a | Some x \<Rightarrow> b x)"
  by (cases opt) simp_all

text \<open>Preservation of \<open>I\<close> together with a fact about the result of a successful run, which the
  operations that follow may use.\<close>

definition yields :: "('s \<Rightarrow> bool) \<Rightarrow> ('s, 'a) op \<Rightarrow> ('a \<Rightarrow> bool) \<Rightarrow> bool" where
  "yields I m Q \<longleftrightarrow> (\<forall>s. I s \<longrightarrow> I (fst (m s)) \<and> (\<forall>x. snd (m s) = Inr x \<longrightarrow> Q x))"

named_theorems yields_rules \<open>preservation with a fact about the result, one rule per operator\<close>

lemma yieldsI: "(\<And>s s' r. I s \<Longrightarrow> m s = (s', r) \<Longrightarrow> I s' \<and> (\<forall>x. r = Inr x \<longrightarrow> Q x)) \<Longrightarrow> yields I m Q"
  unfolding yields_def by (metis prod.collapse)

lemma yieldsD: "yields I m Q \<Longrightarrow> I s \<Longrightarrow> m s = (s', r) \<Longrightarrow> I s' \<and> (\<forall>x. r = Inr x \<longrightarrow> Q x)"
  unfolding yields_def by (metis fst_conv snd_conv)

lemma yields_keeps: "yields I m Q \<Longrightarrow> keeps I m"
  by (simp add: yields_def keeps_def)

lemma yields_weaken: "yields I m Q \<Longrightarrow> (\<And>x. Q x \<Longrightarrow> R x) \<Longrightarrow> yields I m R"
  by (simp add: yields_def)

lemma yields_basic [yields_rules]:
  "Q x \<Longrightarrow> yields I (give x) Q" "yields I (fails c msg) Q" "(\<And>x. m = Inr x \<Longrightarrow> Q x) \<Longrightarrow> yields I (pure_op m) Q"
  by (simp_all add: yields_def)

lemma yields_query [yields_rules]: "(\<And>s. I s \<Longrightarrow> Q (f s)) \<Longrightarrow> yields I (query f) Q"
  by (simp add: yields_def)

lemma yields_modify [yields_rules]: "(\<And>s. I s \<Longrightarrow> I (f s)) \<Longrightarrow> Q () \<Longrightarrow> yields I (modify f) Q"
  by (simp add: yields_def)

lemma yields_sbind:
  assumes "yields I m Q" "\<And>x. Q x \<Longrightarrow> yields I (f x) R"
  shows "yields I (sbind m f) R"
proof (rule yieldsI)
  fix s s' r assume s: "I s" "sbind m f s = (s', r)"
  obtain s1 r1 where m: "m s = (s1, r1)" by (cases "m s")
  note 1 = yieldsD [OF assms(1) s(1) m]
  show "I s' \<and> (\<forall>x. r = Inr x \<longrightarrow> R x)"
  proof (cases r1)
    case (Inl e)
    then show ?thesis using s(2) m 1 by (auto simp: sbind_def)
  next
    case (Inr x)
    then show ?thesis using s(2) m 1 yieldsD [OF assms(2), of x s1 s' r] by (simp add: sbind_def)
  qed
qed

lemma yields_sensure [yields_rules]: "(c \<Longrightarrow> yields I k Q) \<Longrightarrow> yields I (sensure c e msg k) Q"
  by (simp add: sensure_def yields_basic)

lemma yields_if [yields_rules]: "(c \<Longrightarrow> yields I a Q) \<Longrightarrow> (\<not> c \<Longrightarrow> yields I b Q) \<Longrightarrow> yields I (if c then a else b) Q"
  by simp

lemma yields_smap: "(\<And>x. x \<in> set xs \<Longrightarrow> yields I (f x) (\<lambda>_. True)) \<Longrightarrow> yields I (smap f xs) (\<lambda>_. True)"
proof (induction xs)
  case Nil
  then show ?case by (simp add: yields_def)
next
  case (Cons x xs)
  have "yields I (f x) (\<lambda>_. True)" "yields I (smap f xs) (\<lambda>_. True)" using Cons by simp_all
  then show ?case by (auto intro!: yields_sbind [where Q = "\<lambda>_. True"] yields_basic)
qed

text \<open>A transaction ends with the contents of its body or, after an exception, as it began.\<close>

lemma transaction_idle:
  assumes "idle c"
  shows "transaction m c =
    (case m (cn_now c) of (d, Inl e) \<Rightarrow> (c, Inl e) | (d, Inr x) \<Rightarrow> (c\<lparr>cn_now := d\<rparr>, Inr x))"
  using assms
  by (simp add: transaction_def sbind_def begin_immediate_def finish_def on_now_def idle_def
      rollback_def commit_def split: prod.splits sum.splits)

lemma transaction_busy: "\<not> idle c \<Longrightarrow> \<exists>e. transaction m c = (c, Inl e)"
  by (auto simp: transaction_def sbind_def begin_immediate_def idle_def)

lemma transaction_atomic: "transaction m c = (c', Inl e) \<Longrightarrow> c' = c"
  using transaction_idle [of c m] transaction_busy [of c m]
  by (cases "idle c") (auto split: prod.splits sum.splits)

lemma transaction_success:
  assumes "transaction m c = (c', Inr x)"
  shows "idle c" "idle c'" "m (cn_now c) = (cn_now c', Inr x)"
  using assms transaction_idle [of c m] transaction_busy [of c m]
  by (cases "idle c"; auto simp: idle_def split: prod.splits sum.splits)+

text \<open>Invariants of a connection: of what it sees and of what a rollback restores.\<close>

definition conn_inv :: "('d \<Rightarrow> bool) \<Rightarrow> 'd conn \<Rightarrow> bool" where
  "conn_inv I c \<longleftrightarrow> I (cn_now c) \<and> (case cn_saved c of None \<Rightarrow> True | Some d \<Rightarrow> I d)"

lemma conn_inv_steps:
  "conn_inv I c \<Longrightarrow> conn_inv I (fst (begin_immediate c))"
  "conn_inv I c \<Longrightarrow> conn_inv I (commit c)" "conn_inv I c \<Longrightarrow> conn_inv I (rollback c)"
  by (auto simp: conn_inv_def begin_immediate_def commit_def rollback_def split: option.splits)

lemma keeps_conn [keeps_rules]:
  "keeps I m \<Longrightarrow> keeps (conn_inv I) (on_now m)"
  by (fastforce simp: keeps_def conn_inv_def on_now_def split: prod.splits)

lemma keeps_begin [keeps_rules]: "keeps (conn_inv I) begin_immediate"
  using conn_inv_steps(1) by (auto simp: keeps_def)

lemma keeps_finish [keeps_rules]: "keeps (conn_inv I) m \<Longrightarrow> keeps (conn_inv I) (finish m)"
  by (auto simp: keeps_def finish_def split: prod.splits sum.splits)
    (metis conn_inv_steps(3) fst_conv, metis conn_inv_steps(2) fst_conv)

lemma keeps_transaction [keeps_rules]: "keeps I m \<Longrightarrow> keeps (conn_inv I) (transaction m)"
  unfolding transaction_def by (intro keeps_rules)

end
