(* ===== verification/Ledger.thy ===== *)
theory Ledger
  imports Merkle Reread Transactions
begin

text \<open>
  \<open>ledger.py\<close>: ledger events, the local store \<open>LedgerStore\<close> with its append operations,
  checkpoints, inclusion proofs, offline verification, and the native trust binding.

  The tables are lists of rows in the order of their primary key; \<open>ledger_meta\<close> and
  \<open>ledger_native_trust\<close> hold at most one row. Columns have the types of their declarations.
  The reading of the clock (\<open>_now\<close>) is an argument of the operations that use it.
\<close>

section \<open>Events\<close>

definition ledger_event_identity :: "env \<Rightarrow> pydict \<Rightarrow> ustring res" where
  "ledger_event_identity E event =
     content_identity E ''event:'' ''ledger-event-identity-v1'' (pending ''event_id'' ''event:pending'' event)"

definition event_digest :: "env \<Rightarrow> pyval \<Rightarrow> ustring res" where
  "event_digest E event = digest_object E event (lit ''ledger-event-v1'')"

text \<open>\<open>x or fallback\<close> for optional text.\<close>

definition text_or :: "ustring option \<Rightarrow> ustring \<Rightarrow> ustring" where
  "text_or x fallback = (case x of None \<Rightarrow> fallback | Some s \<Rightarrow> if s = [] then fallback else s)"

definition ledger_event_core ::
    "ustring \<Rightarrow> ustring \<Rightarrow> int \<Rightarrow> ustring \<Rightarrow> ustring \<Rightarrow> ustring \<Rightarrow> ustring option \<Rightarrow> pydict" where
  "ledger_event_core tenant_id source_id source_sequence event_type recorded_at payload_digest previous =
     mk_dict [(''protocol'', vlit ''integrity-guardian/ledger-event/v1''), (''event_id'', vlit ''event:pending''),
       (''tenant_id'', VStr tenant_id), (''source_id'', VStr source_id), (''source_sequence'', VInt source_sequence),
       (''event_type'', VStr event_type), (''recorded_at'', VStr recorded_at), (''payload_digest'', VStr payload_digest),
       (''previous_event_digest'', opt_str previous)]"

definition build_ledger_event ::
    "env \<Rightarrow> ustring \<Rightarrow> ustring \<Rightarrow> ustring \<Rightarrow> int \<Rightarrow> ustring \<Rightarrow> ustring \<Rightarrow> ustring option \<Rightarrow> ed25519_signer \<Rightarrow>
     ustring option \<Rightarrow> pydict res" where
  "build_ledger_event E now tenant_id source_id source_sequence event_type payload_digest previous signer recorded_at =
     (let core = ledger_event_core tenant_id source_id source_sequence event_type (text_or recorded_at now)
                   payload_digest previous in
      ebind (ledger_event_identity E core) (\<lambda>identity.
      ebind (sign E signer (dict_put core ''event_id'' (VStr identity))) (\<lambda>event.
      ebind (validate E ''ledger-event'' (VDict event)) (\<lambda>_. Inr event))))"

text \<open>The exceptions that the schema step of the verifiers turns into their own.\<close>

definition schema_errors :: "exc \<Rightarrow> bool" where
  "schema_errors c \<longleftrightarrow> c = TypeError \<or> c = KeyError \<or> is_ValueError c \<or> c = ValidationError"

text \<open>\<open>d["signature"]["key_id"] == key.key_id and verify_signature(d, key.public_key)\<close>\<close>

definition signed_by :: "env \<Rightarrow> pydict \<Rightarrow> trusted_key \<Rightarrow> bool res" where
  "signed_by E d key =
     ebind (field d ''signature'') (\<lambda>signature.
     ebind (item signature ''key_id'') (\<lambda>key_id.
     if key_id \<noteq> VStr (tk_key_id key) then Inr False else verify_signature E d (tk_public_key key)))"

text \<open>The loop over the optional expectations.\<close>

fun expect_fields :: "string \<Rightarrow> pydict \<Rightarrow> (string \<times> pyval) list \<Rightarrow> unit res" where
  "expect_fields what d [] = Inr ()"
| "expect_fields what d ((k, expected) # rest) =
     (if expected = VNone then expect_fields what d rest
      else ebind (field d k) (\<lambda>v.
           ensure (py_eq v expected) LedgerVerificationError (what @ k @ '' mismatch'')
             (expect_fields what d rest)))"

definition verify_ledger_event ::
    "env \<Rightarrow> pydict \<Rightarrow> trusted_key \<Rightarrow> ustring option \<Rightarrow> ustring option \<Rightarrow> ustring option \<Rightarrow> ustring option \<Rightarrow> pydict res" where
  "verify_ledger_event E event key tenant_id source_id event_type payload_digest =
     ebind (catch_as schema_errors LedgerVerificationError ''ledger event schema is invalid''
              (validate E ''ledger-event'' (VDict event))) (\<lambda>_.
     ebind (field event ''event_id'') (\<lambda>event_id.
     ebind (ledger_event_identity E event) (\<lambda>identity.
     ensure (event_id = VStr identity) LedgerVerificationError ''ledger event identity mismatch''
     (ebind (signed_by E event key) (\<lambda>signed.
     ensure signed LedgerVerificationError ''ledger event signature verification failed''
     (ebind (expect_fields ''ledger event '' event
        [(''tenant_id'', opt_str tenant_id), (''source_id'', opt_str source_id),
         (''event_type'', opt_str event_type), (''payload_digest'', opt_str payload_digest)]) (\<lambda>_.
      Inr event)))))))"

text \<open>\<open>[dict(step) for step in audit_path]\<close> on a member the schema pins to a list of objects.\<close>

definition audit_steps :: "pyval \<Rightarrow> pydict list res" where
  "audit_steps v =
     (case v of
        VList xs \<Rightarrow>
          map_res (\<lambda>x. case x of VDict d \<Rightarrow> Inr d
            | _ \<Rightarrow> raise LedgerVerificationError ''ledger inclusion audit path rejected'') xs
      | _ \<Rightarrow> raise LedgerVerificationError ''ledger inclusion audit path rejected'')"

definition verify_ledger_inclusion_proof ::
    "env \<Rightarrow> pydict \<Rightarrow> ustring option \<Rightarrow> ustring option \<Rightarrow> ustring option \<Rightarrow> ustring option \<Rightarrow> int option \<Rightarrow> pydict res" where
  "verify_ledger_inclusion_proof E proof tenant_id ledger_id digest root tree_size =
     ebind (catch_as schema_errors LedgerVerificationError ''ledger inclusion proof schema is invalid''
              (validate E ''ledger-inclusion-proof'' (VDict proof))) (\<lambda>_.
     ebind (expect_fields ''ledger inclusion proof '' proof
        [(''tenant_id'', opt_str tenant_id), (''ledger_id'', opt_str ledger_id), (''event_digest'', opt_str digest),
         (''root_digest'', opt_str root), (''tree_size'', case tree_size of None \<Rightarrow> VNone | Some n \<Rightarrow> VInt n)]) (\<lambda>_.
     ebind (field proof ''event_digest'') (\<lambda>event_digest_value.
     ebind (field proof ''leaf_index'') (\<lambda>leaf_index.
     ebind (field proof ''tree_size'') (\<lambda>size_value.
     ebind (ebind (field proof ''audit_path'') audit_steps) (\<lambda>steps.
     ebind (field proof ''root_digest'') (\<lambda>root_digest.
     ebind (verify_merkle_inclusion_path event_digest_value leaf_index size_value steps root_digest) (\<lambda>_.
     Inr proof))))))))"

section \<open>The store\<close>

record event_row =
  er_event_digest :: ustring
  er_tenant_id :: ustring
  er_source_id :: ustring
  er_source_sequence :: int
  er_previous :: "ustring option"
  er_event_json :: bytes

record ledger_db =
  ld_meta :: "(ustring \<times> ustring \<times> ustring) option"
  ld_events :: "event_row list"
  ld_native :: "(ustring \<times> bytes) option option"

definition empty_db :: ledger_db where
  "empty_db = \<lparr>ld_meta = None, ld_events = [], ld_native = None\<rparr>"

record ledger_store =
  ls_tenant_id :: ustring
  ls_ledger_id :: ustring

definition initialize :: "ledger_store \<Rightarrow> (ledger_db, unit) op" where
  "initialize L = (\<lambda>db.
     case ld_meta db of
       None \<Rightarrow> (db\<lparr>ld_meta := Some (ls_tenant_id L, ls_ledger_id L, lit ''integrity-guardian/ledger-store/v1'')\<rparr>, Inr ())
     | Some (tenant, ledger, protocol) \<Rightarrow>
         (db, ensure (tenant = ls_tenant_id L \<and> ledger = ls_ledger_id L \<and>
                      protocol = lit ''integrity-guardian/ledger-store/v1'')
                LedgerVerificationError ''ledger identity does not match requested identity'' (Inr ())))"

text \<open>The constructor on an idle connection, new or supplied.\<close>

definition open_ledger :: "pyval \<Rightarrow> ustring \<Rightarrow> ustring \<Rightarrow> ledger_db \<Rightarrow> ledger_db conn \<times> ledger_store res" where
  "open_ledger busy_timeout_ms tenant_id ledger_id db =
     (let L = \<lparr>ls_tenant_id = tenant_id, ls_ledger_id = ledger_id\<rparr> in
      if (case busy_timeout_ms of VInt n \<Rightarrow> n < 0 \<or> 60000 < n | _ \<Rightarrow> True)
      then (connect db, raise ValueError ''ledger busy timeout must be between 0 and 60000 milliseconds'')
      else case initialize L db of (db', r) \<Rightarrow> (connect db', ebind r (\<lambda>_. Inr L)))"

subsection \<open>Appending\<close>

text \<open>\<open>ORDER BY source_sequence DESC LIMIT 1\<close>\<close>

definition later :: "event_row \<Rightarrow> event_row \<Rightarrow> event_row" where
  "later r best = (if er_source_sequence best < er_source_sequence r then r else best)"

definition source_tip :: "event_row list \<Rightarrow> ustring \<Rightarrow> ustring \<Rightarrow> (int \<times> ustring) option" where
  "source_tip rows tenant_id source_id =
     (case filter (\<lambda>r. er_tenant_id r = tenant_id \<and> er_source_id r = source_id) rows of
        [] \<Rightarrow> None
      | r # rs \<Rightarrow> let tip = fold later rs r in Some (er_source_sequence tip, er_event_digest tip))"

text \<open>The \<open>INSERT\<close>: an integer must fit 64 bits, digests are unique, and so are the
  sequence numbers of a source.\<close>

definition insert_event :: "event_row \<Rightarrow> (ledger_db, unit) op" where
  "insert_event r = (\<lambda>db.
     if er_source_sequence r < - (2 ^ 63) \<or> 2 ^ 63 \<le> er_source_sequence r
     then (db, raise OverflowError ''Python int too large to convert to SQLite INTEGER'')
     else if \<exists>x \<in> set (ld_events db). er_event_digest x = er_event_digest r \<or>
         (er_tenant_id x = er_tenant_id r \<and> er_source_id x = er_source_id r \<and>
          er_source_sequence x = er_source_sequence r)
     then (db, raise IntegrityError ''UNIQUE constraint failed'')
     else (db\<lparr>ld_events := ld_events db @ [r]\<rparr>, Inr ()))"

definition append_one :: "env \<Rightarrow> ledger_store \<Rightarrow> pydict \<Rightarrow> (ledger_db, ustring) op" where
  "append_one E L event =
     sbind (pure_op (validate E ''ledger-event'' (VDict event))) (\<lambda>_.
     sbind (pure_op (field event ''event_id'')) (\<lambda>event_id.
     sbind (pure_op (ledger_event_identity E event)) (\<lambda>identity.
     sensure (event_id = VStr identity) LedgerAppendError ''ledger event identity mismatch''
     (sbind (pure_op (field event ''tenant_id'')) (\<lambda>tenant.
     sensure (tenant = VStr (ls_tenant_id L)) LedgerAppendError ''cross-tenant append is prohibited''
     (sbind (pure_op (text_item (VDict event) ''source_id'')) (\<lambda>source.
     sbind (query (\<lambda>db. source_tip (ld_events db) (ls_tenant_id L) source)) (\<lambda>tip.
     let expected_sequence = (case tip of None \<Rightarrow> 0 | Some (n, _) \<Rightarrow> n + 1);
         expected_previous = (case tip of None \<Rightarrow> None | Some (_, d) \<Rightarrow> Some d) in
     sbind (pure_op (field event ''source_sequence'')) (\<lambda>seq.
     sensure (py_eq seq (VInt expected_sequence)) LedgerAppendError ''source sequence mismatch''
     (sbind (pure_op (field event ''previous_event_digest'')) (\<lambda>previous.
     sensure (previous = opt_str expected_previous) LedgerAppendError ''previous source event digest mismatch''
     (sbind (pure_op (event_digest E (VDict event))) (\<lambda>digest.
     sbind (pure_op (canonical_bytes (VDict event))) (\<lambda>json.
     sbind (insert_event \<lparr>er_event_digest = digest, er_tenant_id = ls_tenant_id L, er_source_id = source,
       er_source_sequence = expected_sequence, er_previous = expected_previous, er_event_json = json\<rparr>) (\<lambda>_.
     give digest)))))))))))))))"

text \<open>A transaction that the caller has opened is ended by the operation as well.\<close>

definition write_transaction :: "(ledger_db, 'a) op \<Rightarrow> (ledger_db conn, 'a) op" where
  "write_transaction m = (\<lambda>c. if idle c then transaction m c else finish (on_now m) c)"

definition ledger_append :: "env \<Rightarrow> ledger_store \<Rightarrow> pydict \<Rightarrow> (ledger_db conn, ustring) op" where
  "ledger_append E L event = write_transaction (append_one E L event)"

definition append_many :: "env \<Rightarrow> ledger_store \<Rightarrow> pydict list \<Rightarrow> (ledger_db conn, ustring list) op" where
  "append_many E L events = write_transaction (smap (append_one E L) events)"

subsection \<open>Reading\<close>

definition event_digests :: "ledger_db \<Rightarrow> ustring list" where
  "event_digests db = map er_event_digest (ld_events db)"

definition read_events :: "ledger_db \<Rightarrow> pyval list res" where
  "read_events db = map_res (\<lambda>r. parse_json_strict (DocBytes (er_event_json r))) (ld_events db)"

definition position :: "'a \<Rightarrow> 'a list \<Rightarrow> nat" where
  "position x xs = length (takeWhile (\<lambda>y. y \<noteq> x) xs)"

definition inclusion_proof_core :: "ledger_store \<Rightarrow> int \<Rightarrow> int \<Rightarrow> ustring \<Rightarrow> ustring \<Rightarrow> pydict list \<Rightarrow> pydict" where
  "inclusion_proof_core L tree_size leaf_index digest root path =
     mk_dict [(''protocol'', vlit ''integrity-guardian/ledger-inclusion-proof/v1''),
       (''tenant_id'', VStr (ls_tenant_id L)), (''ledger_id'', VStr (ls_ledger_id L)),
       (''tree_size'', VInt tree_size), (''leaf_index'', VInt leaf_index),
       (''event_digest'', VStr digest), (''root_digest'', VStr root), (''audit_path'', VList (map VDict path))]"

definition inclusion_proof :: "env \<Rightarrow> ledger_store \<Rightarrow> ledger_db \<Rightarrow> ustring \<Rightarrow> pydict res" where
  "inclusion_proof E L db digest =
     (let digests = event_digests db in
      ensure (digest \<in> set digests) LedgerVerificationError ''ledger inclusion event is absent''
      (ebind (merkle_root digests) (\<lambda>root.
       ebind (merkle_inclusion_path digests (VInt (int (position digest digests)))) (\<lambda>path.
       verify_ledger_inclusion_proof E
         (inclusion_proof_core L (int (length digests)) (int (position digest digests)) digest root path)
         (Some (ls_tenant_id L)) (Some (ls_ledger_id L)) (Some digest) None None))))"

definition checkpoint_core ::
    "ledger_store \<Rightarrow> ustring \<Rightarrow> int \<Rightarrow> ustring \<Rightarrow> ustring \<Rightarrow> ustring \<Rightarrow> ustring \<Rightarrow> pydict" where
  "checkpoint_core L checkpoint_id tree_size root last_digest created_at signer_id =
     mk_dict [(''protocol'', vlit ''integrity-guardian/checkpoint/v1''), (''checkpoint_id'', VStr checkpoint_id),
       (''tenant_id'', VStr (ls_tenant_id L)), (''ledger_id'', VStr (ls_ledger_id L)), (''tree_size'', VInt tree_size),
       (''root_digest'', VStr root), (''last_event_digest'', VStr last_digest), (''created_at'', VStr created_at),
       (''signer_id'', VStr signer_id)]"

definition make_checkpoint ::
    "env \<Rightarrow> ustring \<Rightarrow> ledger_store \<Rightarrow> ledger_db \<Rightarrow> ustring \<Rightarrow> ed25519_signer \<Rightarrow> ustring option \<Rightarrow> pydict res" where
  "make_checkpoint E now L db checkpoint_id signer created_at =
     (let digests = event_digests db in
      ensure (digests \<noteq> []) LedgerAppendError ''cannot checkpoint an empty ledger''
      (ebind (merkle_root digests) (\<lambda>root.
       ebind (sign E signer (checkpoint_core L checkpoint_id (int (length digests)) root (last digests)
                (text_or created_at now) (sg_key_id signer))) (\<lambda>checkpoint.
       ebind (validate E ''checkpoint'' (VDict checkpoint)) (\<lambda>_. Inr checkpoint)))))"

subsection \<open>Verification\<close>

text \<open>The tips of the sources seen so far, as the dictionary \<open>source_tips\<close>.\<close>

type_synonym tips = "(ustring \<times> int \<times> ustring) list"

text \<open>The columns of a row against the members of its event.\<close>

definition columns_agree :: "pyval \<Rightarrow> event_row \<Rightarrow> unit res" where
  "columns_agree event r =
     ebind (item event ''tenant_id'') (\<lambda>tenant.
     ensure (tenant = VStr (er_tenant_id r)) LedgerVerificationError ''indexed tenant_id mismatch''
     (ebind (item event ''source_id'') (\<lambda>source.
     ensure (source = VStr (er_source_id r)) LedgerVerificationError ''indexed source_id mismatch''
     (ebind (item event ''source_sequence'') (\<lambda>seq.
     ensure (py_eq seq (VInt (er_source_sequence r))) LedgerVerificationError ''indexed source_sequence mismatch''
     (ebind (item event ''previous_event_digest'') (\<lambda>previous.
     ensure (previous = opt_str (er_previous r)) LedgerVerificationError ''indexed previous_event_digest mismatch''
       (Inr ()))))))))"

definition as_dict :: "pyval \<Rightarrow> pydict res" where
  "as_dict v = (case v of VDict d \<Rightarrow> Inr d | _ \<Rightarrow> raise TypeError ''object is not a mapping'')"

definition key_of :: "(ustring \<times> trusted_key) list \<Rightarrow> ustring \<Rightarrow> trusted_key option" where
  "key_of keys source = map_of keys source"

text \<open>One iteration of the loop of \<open>verify\<close>: the digest calculated for the row.\<close>

definition verify_row ::
    "env \<Rightarrow> ledger_store \<Rightarrow> (ustring \<times> trusted_key) list \<Rightarrow> tips \<Rightarrow> event_row \<Rightarrow> ustring res" where
  "verify_row E L keys tips r =
     ebind (catch_as (\<lambda>_. True) LedgerVerificationError ''ledger sequence has invalid event bytes''
       (ebind (parse_json_strict (DocBytes (er_event_json r))) (\<lambda>event.
        ebind (validate E ''ledger-event'' event) (\<lambda>_. Inr event)))) (\<lambda>event.
     ebind (event_digest E event) (\<lambda>calculated.
     ensure (calculated = er_event_digest r) LedgerVerificationError ''ledger sequence digest mismatch''
     (ebind (columns_agree event r) (\<lambda>_.
     ensure (er_tenant_id r = ls_tenant_id L) LedgerVerificationError ''cross-tenant event found''
     (ebind (as_dict event) (\<lambda>d.
     ebind (field d ''event_id'') (\<lambda>event_id.
     ebind (ledger_event_identity E d) (\<lambda>identity.
     ensure (event_id = VStr identity) LedgerVerificationError ''ledger event identity mismatch''
     (let previous = map_of tips (er_source_id r) in
     ensure (er_source_sequence r = (case previous of None \<Rightarrow> 0 | Some (n, _) \<Rightarrow> n + 1))
       LedgerVerificationError ''source sequence discontinuity''
     (ensure (er_previous r = (case previous of None \<Rightarrow> None | Some (_, h) \<Rightarrow> Some h))
       LedgerVerificationError ''source hash-chain discontinuity''
     (ebind (case key_of keys (er_source_id r) of None \<Rightarrow> Inr False | Some key \<Rightarrow> signed_by E d key) (\<lambda>signed.
     ensure signed LedgerVerificationError ''source signature verification failed''
       (Inr calculated)))))))))))))"

text \<open>The loop: the final tips and the reconstructed digests.\<close>

fun verify_rows ::
    "env \<Rightarrow> ledger_store \<Rightarrow> (ustring \<times> trusted_key) list \<Rightarrow> tips \<Rightarrow> event_row list \<Rightarrow> (tips \<times> ustring list) res" where
  "verify_rows E L keys tips [] = Inr (tips, [])"
| "verify_rows E L keys tips (r # rs) =
     ebind (verify_row E L keys tips r) (\<lambda>calculated.
     ebind (verify_rows E L keys (AList.update (er_source_id r) (er_source_sequence r, calculated) tips) rs) (\<lambda>(final, digests).
     Inr (final, calculated # digests)))"

definition verify_checkpoint ::
    "env \<Rightarrow> ledger_store \<Rightarrow> ustring list \<Rightarrow> pydict \<Rightarrow> trusted_key option \<Rightarrow> unit res" where
  "verify_checkpoint E L reconstructed checkpoint checkpoint_key =
     ebind (case checkpoint_key of
              None \<Rightarrow> Inr False
            | Some key \<Rightarrow>
                ebind (field checkpoint ''signer_id'') (\<lambda>signer.
                if signer \<noteq> VStr (tk_key_id key) then Inr False else signed_by E checkpoint key)) (\<lambda>signed.
     ensure signed LedgerVerificationError ''checkpoint signature verification failed''
     (ebind (validate E ''checkpoint'' (VDict checkpoint)) (\<lambda>_.
     ebind (field checkpoint ''tenant_id'') (\<lambda>tenant.
     ensure (tenant = VStr (ls_tenant_id L)) LedgerVerificationError ''checkpoint tenant mismatch''
     (ebind (field checkpoint ''ledger_id'') (\<lambda>ledger.
     ensure (ledger = VStr (ls_ledger_id L)) LedgerVerificationError ''checkpoint ledger mismatch''
     (ebind (field checkpoint ''tree_size'') (\<lambda>tree_size.
     ensure (py_eq tree_size (VInt (int (length reconstructed)))) LedgerVerificationError ''checkpoint tree size mismatch''
     (ensure (reconstructed \<noteq> []) LedgerVerificationError ''checkpoint refers to empty ledger''
     (ebind (field checkpoint ''root_digest'') (\<lambda>root.
     ebind (merkle_root reconstructed) (\<lambda>calculated.
     ensure (root = VStr calculated) LedgerVerificationError ''checkpoint Merkle root mismatch''
     (ebind (field checkpoint ''last_event_digest'') (\<lambda>tip.
     ensure (tip = VStr (last reconstructed)) LedgerVerificationError ''checkpoint tip mismatch''
       (Inr ())))))))))))))))"

record ledger_report =
  lr_ok :: bool
  lr_tenant_id :: ustring
  lr_ledger_id :: ustring
  lr_tree_size :: nat
  lr_source_count :: nat
  lr_checkpoint_verified :: bool

definition verify_ledger ::
    "env \<Rightarrow> ledger_store \<Rightarrow> ledger_db \<Rightarrow> (ustring \<times> trusted_key) list \<Rightarrow> pydict option \<Rightarrow> trusted_key option \<Rightarrow>
     ledger_report res" where
  "verify_ledger E L db source_public_keys checkpoint checkpoint_key =
     ebind (verify_rows E L source_public_keys [] (ld_events db)) (\<lambda>(tips, reconstructed).
     ebind (case checkpoint of None \<Rightarrow> Inr () | Some c \<Rightarrow> verify_checkpoint E L reconstructed c checkpoint_key) (\<lambda>_.
     Inr \<lparr>lr_ok = (checkpoint \<noteq> None), lr_tenant_id = ls_tenant_id L, lr_ledger_id = ls_ledger_id L,
          lr_tree_size = length reconstructed, lr_source_count = length tips,
          lr_checkpoint_verified = (checkpoint \<noteq> None)\<rparr>))"

definition append_at_checkpoint ::
    "env \<Rightarrow> ledger_store \<Rightarrow> pydict \<Rightarrow> (ustring \<times> trusted_key) list \<Rightarrow> pydict \<Rightarrow> trusted_key \<Rightarrow>
     (pyval list \<Rightarrow> unit res) option \<Rightarrow> (ledger_db conn, ustring) op" where
  "append_at_checkpoint E L event source_public_keys checkpoint checkpoint_key precommit_validator =
     finish (sbind begin_immediate (\<lambda>_. on_now
       (sbind (query (\<lambda>db. db)) (\<lambda>db.
        sbind (pure_op (verify_ledger E L db source_public_keys (Some checkpoint) (Some checkpoint_key))) (\<lambda>_.
        sbind (pure_op (case precommit_validator of
                 None \<Rightarrow> Inr ()
               | Some f \<Rightarrow> ebind (read_events db) (\<lambda>events. f (events @ [VDict event])))) (\<lambda>_.
        append_one E L event))))))"

subsection \<open>Native trust\<close>

definition verify_native_enrollment ::
    "env \<Rightarrow> ledger_store \<Rightarrow> pydict \<Rightarrow> trusted_key \<Rightarrow> (ustring \<times> bytes) res" where
  "verify_native_enrollment E L candidate issuer_key =
     ebind (catch_as schema_errors LedgerVerificationError ''native database enrollment schema is invalid''
              (validate E ''native-database-enrollment'' (VDict candidate))) (\<lambda>_.
     ebind (field candidate ''signature'') (\<lambda>_.
     ebind (field candidate ''enrollment_id'') (\<lambda>enrollment_id.
     let core = dict_pop (dict_pop candidate ''signature'') ''enrollment_id'' in
     ebind (field candidate ''tenant_id'') (\<lambda>tenant.
     ensure (tenant = VStr (ls_tenant_id L)) LedgerVerificationError ''native database enrollment verification failed''
     (ebind (field candidate ''ledger_id'') (\<lambda>ledger.
     ensure (ledger = VStr (ls_ledger_id L)) LedgerVerificationError ''native database enrollment verification failed''
     (ebind (digest_object E (VDict core) (lit ''native-database-enrollment-v1'')) (\<lambda>digest.
     ensure (enrollment_id = VStr digest) LedgerVerificationError ''native database enrollment verification failed''
     (ebind (signed_by E candidate issuer_key) (\<lambda>signed.
     ensure signed LedgerVerificationError ''native database enrollment verification failed''
     (ebind (canonical_bytes (VDict candidate)) (\<lambda>payload.
     Inr (digest, payload)))))))))))))"

text \<open>\<open>CREATE TABLE\<close> fails when the table exists; the connection commits on success.\<close>

definition store_native_trust :: "ustring \<Rightarrow> bytes \<Rightarrow> (ledger_db conn, unit) op" where
  "store_native_trust enrollment_id payload =
     finish (on_now (\<lambda>db.
       if ld_native db \<noteq> None then (db, raise OperationalError ''table ledger_native_trust already exists'')
       else (db\<lparr>ld_native := Some (Some (enrollment_id, payload))\<rparr>, Inr ())))"

definition bind_native_trust :: "env \<Rightarrow> ledger_store \<Rightarrow> pydict \<Rightarrow> trusted_key \<Rightarrow> (ledger_db conn, ustring) op" where
  "bind_native_trust E L enrollment issuer_key =
     sbind (pure_op (verify_native_enrollment E L enrollment issuer_key)) (\<lambda>(enrollment_id, payload).
     sbind (query cn_now) (\<lambda>db.
     case ld_native db of
       Some existing \<Rightarrow>
         sensure (existing = Some (enrollment_id, payload)) LedgerVerificationError
           ''native database trust binding differs'' (give enrollment_id)
     | None \<Rightarrow>
         sensure (ld_events db = []) LedgerVerificationError ''populated ledger requires explicit native trust migration''
         (sbind (store_native_trust enrollment_id payload) (\<lambda>_. give enrollment_id))))"

definition native_trust_enrollment :: "env \<Rightarrow> ledger_db \<Rightarrow> pydict option res" where
  "native_trust_enrollment E db =
     (case ld_native db of
        None \<Rightarrow> Inr None
      | Some None \<Rightarrow> raise LedgerVerificationError ''native database trust binding is incomplete''
      | Some (Some (_, json)) \<Rightarrow>
          ebind (parse_json_strict (DocBytes json)) (\<lambda>v.
          case v of
            VDict d \<Rightarrow> ebind (validate E ''native-database-enrollment'' v) (\<lambda>_. Inr (Some d))
          | _ \<Rightarrow> raise LedgerVerificationError ''native database trust binding is invalid''))"

text \<open>\<open>{event["source_id"]: source_key for event in events}\<close>; other hashable identifiers than
  text are never looked up.\<close>

definition source_keys_of :: "trusted_key \<Rightarrow> pyval list \<Rightarrow> (ustring \<times> trusted_key) list res" where
  "source_keys_of key events =
     ebind (map_res (\<lambda>event. ebind (item event ''source_id'') (\<lambda>source.
        case source of
          VStr s \<Rightarrow> Inr [(s, key)]
        | VList _ \<Rightarrow> raise TypeError ''unhashable type''
        | VDict _ \<Rightarrow> raise TypeError ''unhashable type''
        | _ \<Rightarrow> Inr [])) events) (\<lambda>entries. Inr (concat entries))"

definition migration_report :: "env \<Rightarrow> ustring \<Rightarrow> pydict \<Rightarrow> nat \<Rightarrow> pydict res" where
  "migration_report E enrollment_id checkpoint event_count =
     ebind (digest_object E (VDict checkpoint) (lit ''native-database-migration-checkpoint-v1'')) (\<lambda>digest.
     ebind (field checkpoint ''tree_size'') (\<lambda>tree_size.
     Inr (mk_dict [(''enrollment_id'', VStr enrollment_id), (''previous_checkpoint_digest'', VStr digest),
       (''event_count'', VInt (int event_count)), (''tree_size'', tree_size)])))"

definition migrate_native_trust ::
    "env \<Rightarrow> ledger_store \<Rightarrow> pydict \<Rightarrow> trusted_key \<Rightarrow> trusted_key \<Rightarrow> pydict \<Rightarrow> trusted_key \<Rightarrow> (ledger_db conn, pydict) op" where
  "migrate_native_trust E L candidate issuer_key source_key checkpoint checkpoint_key =
     sbind (pure_op (verify_native_enrollment E L candidate issuer_key)) (\<lambda>(enrollment_id, payload).
     sbind (pure_op (field candidate ''source_key'')) (\<lambda>source.
     sbind (pure_op (field candidate ''checkpoint_key'')) (\<lambda>checkpoint_subject.
     sbind (pure_op (all_items source [(''key_id'', VStr (tk_key_id source_key)),
              (''public_key'', VStr (public_key_value (tk_public_key source_key)))])) (\<lambda>same_source.
     sensure same_source LedgerVerificationError ''native database enrollment does not preserve existing keys''
     (sbind (pure_op (all_items checkpoint_subject [(''key_id'', VStr (tk_key_id checkpoint_key)),
              (''public_key'', VStr (public_key_value (tk_public_key checkpoint_key)))])) (\<lambda>same_checkpoint.
     sensure same_checkpoint LedgerVerificationError ''native database enrollment does not preserve existing keys''
     (sbind (query cn_now) (\<lambda>db.
     sbind (pure_op (read_events db)) (\<lambda>events.
     sensure (events \<noteq> []) LedgerVerificationError ''empty ledger uses native trust binding, not migration''
     (sbind (pure_op (source_keys_of source_key events)) (\<lambda>source_keys.
     sbind (pure_op (verify_ledger E L db source_keys (Some checkpoint) (Some checkpoint_key))) (\<lambda>verification.
     sensure (lr_ok verification \<and> lr_checkpoint_verified verification) LedgerVerificationError
       ''existing ledger chain verification failed''
     (sbind (pure_op (native_trust_enrollment E db)) (\<lambda>existing.
     case existing of
       Some d \<Rightarrow>
         sensure (py_eq (VDict d) (VDict candidate)) LedgerVerificationError ''native database trust binding differs''
           (pure_op (migration_report E enrollment_id checkpoint (length events)))
     | None \<Rightarrow>
         sbind (store_native_trust enrollment_id payload) (\<lambda>_.
         pure_op (migration_report E enrollment_id checkpoint (length events)))))))))))))))))"

section \<open>The chain of events\<close>

text \<open>
  The specification of the table: the events of a source are numbered from zero without gaps,
  and each names the digest of the event of its source before it.
\<close>

definition source_rows :: "event_row list \<Rightarrow> ustring \<Rightarrow> event_row list" where
  "source_rows rows s = filter (\<lambda>r. er_source_id r = s) rows"

definition linked :: "event_row list \<Rightarrow> event_row \<Rightarrow> bool" where
  "linked before r \<longleftrightarrow>
     (let mine = source_rows before (er_source_id r) in
      er_source_sequence r = int (length mine) \<and>
      er_previous r = (if mine = [] then None else Some (er_event_digest (last mine))))"

definition chained :: "event_row list \<Rightarrow> bool" where
  "chained rows \<longleftrightarrow> (\<forall>i < length rows. linked (take i rows) (rows ! i))"

text \<open>The row is the record of the event.\<close>

definition stores :: "env \<Rightarrow> ledger_store \<Rightarrow> pydict \<Rightarrow> event_row \<Rightarrow> bool" where
  "stores E L event r \<longleftrightarrow>
     schema_ok E ''ledger-event'' (VDict event) \<and>
     (\<exists>i. dict_find event ''event_id'' = Some (VStr i) \<and> ledger_event_identity E event = Inr i) \<and>
     er_tenant_id r = ls_tenant_id L \<and> dict_find event ''tenant_id'' = Some (VStr (er_tenant_id r)) \<and>
     dict_find event ''source_id'' = Some (VStr (er_source_id r)) \<and>
     (\<exists>v. dict_find event ''source_sequence'' = Some v \<and> py_eq v (VInt (er_source_sequence r))) \<and>
     dict_find event ''previous_event_digest'' = Some (opt_str (er_previous r)) \<and>
     event_digest E (VDict event) = Inr (er_event_digest r) \<and>
     canonical_bytes (VDict event) = Inr (er_event_json r)"

definition ledger_inv :: "env \<Rightarrow> ledger_store \<Rightarrow> ledger_db \<Rightarrow> bool" where
  "ledger_inv E L db \<longleftrightarrow>
     chained (ld_events db) \<and> distinct (event_digests db) \<and>
     (\<forall>r \<in> set (ld_events db). \<exists>event. stores E L event r)"

text \<open>One operation on a connection, with transactions of the caller's own in between, and the
  connections that opening an empty file and these operations lead to.\<close>

inductive ledger_step :: "env \<Rightarrow> ledger_store \<Rightarrow> ledger_db conn \<Rightarrow> ledger_db conn \<Rightarrow> bool" for E L where
  reopen: "idle c \<Longrightarrow> open_ledger busy t l (cn_now c) = (c', r) \<Longrightarrow> ledger_step E L c c'"
| append: "ledger_append E L event c = (c', d) \<Longrightarrow> ledger_step E L c c'"
| append_batch: "append_many E L events c = (c', ds) \<Longrightarrow> ledger_step E L c c'"
| append_checked: "append_at_checkpoint E L event keys cp key f c = (c', d) \<Longrightarrow> ledger_step E L c c'"
| bind_trust: "bind_native_trust E L enrollment issuer c = (c', i) \<Longrightarrow> ledger_step E L c c'"
| migrate: "migrate_native_trust E L enrollment issuer key cp cpk c = (c', m) \<Longrightarrow> ledger_step E L c c'"
| caller_begin: "begin_immediate c = (c', u) \<Longrightarrow> ledger_step E L c c'"
| caller_commit: "ledger_step E L c (commit c)"
| caller_rollback: "ledger_step E L c (rollback c)"

inductive ledger_reach :: "env \<Rightarrow> ledger_store \<Rightarrow> ledger_db conn \<Rightarrow> bool" for E L where
  opened: "open_ledger busy t l empty_db = (c, Inr L) \<Longrightarrow> ledger_reach E L c"
| step: "ledger_reach E L c \<Longrightarrow> ledger_step E L c c' \<Longrightarrow> ledger_reach E L c'"

end
