(* ===== verification/LedgerHistory.thy ===== *)
theory LedgerHistory
  imports Ledger
begin

text \<open>
  What the operations of the ledger store guarantee about its history: the chain of events as an
  invariant of every reachable connection, atomic batches, soundness and completeness of
  \<open>verify\<close>, checkpoints that fix the history, inclusion proofs, and the permanence of a native
  trust binding. The locale \<open>ledger_invariant\<close> states when a property of the tables is kept by
  all operations; the chain of events and the trust binding are its two interpretations.
\<close>

section \<open>Facts\<close>

declare canon.simps(2) [simp del] profile_dict [simp del]

lemma chained_Nil [simp]: "chained []"
  by (simp add: chained_def)

lemma chained_snoc [simp]: "chained (rows @ [r]) \<longleftrightarrow> chained rows \<and> linked rows r"
  by (auto simp: chained_def nth_append less_Suc_eq all_conj_distrib)

lemma source_rows_snoc:
  "source_rows (rows @ [r]) s = source_rows rows s @ (if er_source_id r = s then [r] else [])"
  by (simp add: source_rows_def)

lemma source_rows_numbered:
  "chained rows \<Longrightarrow> map er_source_sequence (source_rows rows s) = map int [0..<length (source_rows rows s)]"
proof (induction rows rule: rev_induct)
  case Nil
  show ?case by (simp add: source_rows_def)
next
  case (snoc r rows)
  then show ?case by (auto simp: source_rows_snoc linked_def Let_def)
qed

lemma fold_later:
  "sorted_wrt (<) (map er_source_sequence (r # rs)) \<Longrightarrow> fold later rs r = last (r # rs)"
proof (induction rs arbitrary: r)
  case (Cons x xs)
  then have "later x r = x" by (simp add: later_def)
  with Cons show ?case by simp
qed simp

text \<open>The tip of a source in a chained table.\<close>

definition tip_of :: "event_row list \<Rightarrow> ustring \<Rightarrow> (int \<times> ustring) option" where
  "tip_of rows s =
     (let mine = source_rows rows s in
      if mine = [] then None else Some (int (length mine) - 1, er_event_digest (last mine)))"

lemma linked_tip:
  "linked before r \<longleftrightarrow>
   er_source_sequence r = (case tip_of before (er_source_id r) of None \<Rightarrow> 0 | Some (n, _) \<Rightarrow> n + 1) \<and>
   er_previous r = (case tip_of before (er_source_id r) of None \<Rightarrow> None | Some (_, h) \<Rightarrow> Some h)"
  by (auto simp: linked_def tip_of_def Let_def)

lemma tip_of_snoc:
  "linked rows r \<Longrightarrow> tip_of (rows @ [r]) s =
     (if er_source_id r = s then Some (er_source_sequence r, er_event_digest r) else tip_of rows s)"
  by (auto simp: tip_of_def source_rows_snoc linked_def Let_def)

lemma source_tip_chained:
  assumes "chained rows" "\<forall>r \<in> set rows. er_tenant_id r = t"
  shows "source_tip rows t s = tip_of rows s"
proof -
  have mine: "filter (\<lambda>r. er_tenant_id r = t \<and> er_source_id r = s) rows = source_rows rows s"
    using assms(2) by (auto simp: source_rows_def intro: filter_cong)
  show ?thesis
  proof (cases "source_rows rows s")
    case Nil
    then show ?thesis by (simp add: source_tip_def mine tip_of_def)
  next
    case (Cons r rs)
    note num = source_rows_numbered [OF assms(1), of s, unfolded Cons]
    have "sorted_wrt (<) (map er_source_sequence (r # rs))"
      unfolding num by (simp only: sorted_wrt_map of_nat_less_iff strict_sorted_iff sorted_upt distinct_upt)
    then have "fold later rs r = last (r # rs)" by (rule fold_later)
    moreover have "er_source_sequence (last (r # rs)) = int (length (r # rs)) - 1"
      using arg_cong [OF num, of "\<lambda>l. l ! length rs"] by (cases rs rule: rev_cases) (simp_all add: nth_append)
    ultimately show ?thesis by (simp add: source_tip_def mine tip_of_def Cons)
  qed
qed

lemma append_one_success:
  assumes "append_one E L event db = (db', Inr digest)"
  shows "\<exists>r. db' = db\<lparr>ld_events := ld_events db @ [r]\<rparr> \<and> er_event_digest r = digest \<and> stores E L event r \<and>
    er_event_digest r \<notin> set (event_digests db) \<and>
    er_source_sequence r = (case source_tip (ld_events db) (ls_tenant_id L) (er_source_id r) of None \<Rightarrow> 0 | Some (n, _) \<Rightarrow> n + 1) \<and>
    er_previous r = (case source_tip (ld_events db) (ls_tenant_id L) (er_source_id r) of None \<Rightarrow> None | Some (_, h) \<Rightarrow> Some h)"
proof -
  obtain i s v json tip where *: "schema_ok E ''ledger-event'' (VDict event)"
    "dict_find event ''event_id'' = Some (VStr i)" "ledger_event_identity E event = Inr i"
    "dict_find event ''tenant_id'' = Some (VStr (ls_tenant_id L))" "dict_find event ''source_id'' = Some (VStr s)"
    "source_tip (ld_events db) (ls_tenant_id L) s = tip"
    "dict_find event ''source_sequence'' = Some v" "py_eq v (VInt (case tip of None \<Rightarrow> 0 | Some (n, _) \<Rightarrow> n + 1))"
    "dict_find event ''previous_event_digest'' = Some (opt_str (case tip of None \<Rightarrow> None | Some (_, d) \<Rightarrow> Some d))"
    "event_digest E (VDict event) = Inr digest" "canonical_bytes (VDict event) = Inr json"
    and ins: "insert_event \<lparr>er_event_digest = digest, er_tenant_id = ls_tenant_id L, er_source_id = s,
       er_source_sequence = (case tip of None \<Rightarrow> 0 | Some (n, _) \<Rightarrow> n + 1),
       er_previous = (case tip of None \<Rightarrow> None | Some (_, d) \<Rightarrow> Some d), er_event_json = json\<rparr> db = (db', Inr ())"
    using assms
    by (auto simp: append_one_def op_simps res_simps validate_def Let_def)
  show ?thesis
    using * ins by (intro exI) (auto simp: insert_event_def stores_def event_digests_def split: if_splits)
qed

lemma append_one_failure: "append_one E L event db = (db', Inl e) \<Longrightarrow> db' = db"
  by (auto simp: append_one_def insert_event_def sbind_def sensure_def Let_def
      split: sum.splits prod.splits if_splits)

lemma append_one_linked:
  assumes "ledger_inv E L db" "append_one E L event db = (db', Inr digest)"
  shows "\<exists>r. db' = db\<lparr>ld_events := ld_events db @ [r]\<rparr> \<and> er_event_digest r = digest \<and> stores E L event r \<and>
    linked (ld_events db) r \<and> digest \<notin> set (event_digests db)"
proof -
  have "\<forall>r \<in> set (ld_events db). er_tenant_id r = ls_tenant_id L"
    using assms(1) by (auto simp: ledger_inv_def stores_def)
  then have "source_tip (ld_events db) (ls_tenant_id L) s = tip_of (ld_events db) s" for s
    using assms(1) by (intro source_tip_chained) (simp_all add: ledger_inv_def)
  with append_one_success [OF assms(2)] show ?thesis unfolding linked_tip by metis
qed

lemma append_one_inv:
  assumes "ledger_inv E L db" "append_one E L event db = (db', res)"
  shows "ledger_inv E L db'"
proof (cases res)
  case (Inl e)
  with append_one_failure [of E L event db db' e] assms show ?thesis by simp
next
  case (Inr digest)
  with append_one_linked [OF assms(1), of event db' digest] assms show ?thesis
    by (auto simp: ledger_inv_def event_digests_def)
qed

lemma keeps_append_one [keeps_rules]: "keeps (ledger_inv E L) (append_one E L event)"
  unfolding keeps_def using append_one_inv [of E L _ event] surjective_pairing by metis

lemma keeps_write_transaction [keeps_rules]: "keeps I m \<Longrightarrow> keeps (conn_inv I) (write_transaction m)"
  using keeps_transaction [of I m] keeps_finish [OF keeps_conn, of I m]
  by (simp add: write_transaction_def keeps_def)

text \<open>
  The contract of an invariant of the tables: the three statements that change them keep it.
  Then every operation of the store keeps it, for the visible contents and for those that a
  rollback restores.
\<close>

locale ledger_invariant =
  fixes E :: env and L :: ledger_store and I :: "ledger_db \<Rightarrow> bool"
  assumes append_keeps: "keeps I (append_one E L event)"
    and bind_keeps: "I db \<Longrightarrow> ld_native db = None \<Longrightarrow> I (db\<lparr>ld_native := Some (Some x)\<rparr>)"
    and meta_keeps: "I db \<Longrightarrow> I (db\<lparr>ld_meta := m\<rparr>)"
begin

lemma store_keeps: "keeps (conn_inv I) (store_native_trust i p)"
  unfolding store_native_trust_def by (intro keeps_rules) (auto simp: keeps_def bind_keeps)

lemmas operation_rules = keeps_rules append_keeps store_keeps

lemma open_keeps: "I db \<Longrightarrow> open_ledger busy t l db = (c, r) \<Longrightarrow> conn_inv I c"
  by (auto simp: open_ledger_def initialize_def connect_def conn_inv_def Let_def meta_keeps
      split: if_splits option.splits)

lemma operations_keep:
  "keeps (conn_inv I) (ledger_append E L event)" "keeps (conn_inv I) (append_many E L events)"
  "keeps (conn_inv I) (append_at_checkpoint E L event keys cp key f)"
  "keeps (conn_inv I) (bind_native_trust E L enrollment issuer)"
  "keeps (conn_inv I) (migrate_native_trust E L enrollment issuer skey cp cpk)"
  unfolding ledger_append_def append_many_def append_at_checkpoint_def bind_native_trust_def
    migrate_native_trust_def split_beta
  by (intro operation_rules)+

lemma step_keeps: "ledger_step E L c c' \<Longrightarrow> conn_inv I c \<Longrightarrow> conn_inv I c'"
proof (induction rule: ledger_step.induct)
  case (reopen c busy t l c' r)
  then show ?case using open_keeps [of "cn_now c" busy t l c' r] by (simp add: conn_inv_def)
next
  case (caller_begin c c' u)
  then show ?case using conn_inv_steps(1) [of I c] by simp
qed (auto intro: conn_inv_steps keepsD [OF operations_keep(1)] keepsD [OF operations_keep(2)]
    keepsD [OF operations_keep(3)] keepsD [OF operations_keep(4)] keepsD [OF operations_keep(5)])

lemma run_keeps: "(ledger_step E L)\<^sup>*\<^sup>* c c' \<Longrightarrow> conn_inv I c \<Longrightarrow> conn_inv I c'"
  by (induction rule: rtranclp_induct) (blast intro: step_keeps)+

lemma reach_keeps: "ledger_reach E L c \<Longrightarrow> I empty_db \<Longrightarrow> conn_inv I c"
  by (induction rule: ledger_reach.induct) (blast intro: open_keeps step_keeps)+

end

text \<open>The chain of events is such an invariant, and so is a native trust binding.\<close>

interpretation chain: ledger_invariant E L "ledger_inv E L" for E L
  by unfold_locales (auto simp: keeps_append_one ledger_inv_def event_digests_def)

interpretation native: ledger_invariant E L "\<lambda>db. ld_native db = Some x" for E L x
proof unfold_locales
  fix event
  have "ld_native db' = ld_native db" if "append_one E L event db = (db', r)" for db db' r
    using that append_one_failure [of E L event db db'] append_one_success [of E L event db db'] by (cases r) auto
  then show "keeps (\<lambda>db. ld_native db = Some x) (append_one E L event)"
    unfolding keeps_def using surjective_pairing by metis
qed auto

lemma ledger_reach_inv: "ledger_reach E L c \<Longrightarrow> conn_inv (ledger_inv E L) c"
  by (rule chain.reach_keeps) (simp_all add: ledger_inv_def empty_db_def event_digests_def)

text \<open>Batches.\<close>

lemma append_batch_rows:
  assumes "ledger_inv E L db" "smap (append_one E L) events db = (db', Inr digests)"
  shows "\<exists>rows. db' = db\<lparr>ld_events := ld_events db @ rows\<rparr> \<and> map er_event_digest rows = digests \<and>
    list_all2 (stores E L) events rows \<and> ledger_inv E L db'"
  using assms
proof (induction events arbitrary: db digests)
  case Nil
  then show ?case by auto
next
  case (Cons event events)
  then obtain db1 d ds where 1: "append_one E L event db = (db1, Inr d)"
    and 2: "smap (append_one E L) events db1 = (db', Inr ds)" and digests: "digests = d # ds"
    by (auto simp: op_simps)
  obtain r where r: "db1 = db\<lparr>ld_events := ld_events db @ [r]\<rparr>" "er_event_digest r = d" "stores E L event r"
    using append_one_linked [OF Cons.prems(1) 1] by blast
  obtain rows where "db' = db1\<lparr>ld_events := ld_events db1 @ rows\<rparr>" "map er_event_digest rows = ds"
      "list_all2 (stores E L) events rows" "ledger_inv E L db'"
    using Cons.IH [OF append_one_inv [OF Cons.prems(1) 1] 2] by blast
  with r digests show ?case by (intro exI [of _ "r # rows"]) simp
qed

subsection \<open>Verification\<close>

text \<open>What the loop of \<open>verify\<close> has established for a row.\<close>

definition verified_row :: "env \<Rightarrow> ledger_store \<Rightarrow> (ustring \<times> trusted_key) list \<Rightarrow> event_row \<Rightarrow> bool" where
  "verified_row E L keys r \<longleftrightarrow>
     (\<exists>event key i. parse_json_strict (DocBytes (er_event_json r)) = Inr (VDict event) \<and>
        schema_ok E ''ledger-event'' (VDict event) \<and> event_digest E (VDict event) = Inr (er_event_digest r) \<and>
        dict_find event ''event_id'' = Some (VStr i) \<and> ledger_event_identity E event = Inr i \<and>
        er_tenant_id r = ls_tenant_id L \<and> dict_find event ''tenant_id'' = Some (VStr (er_tenant_id r)) \<and>
        dict_find event ''source_id'' = Some (VStr (er_source_id r)) \<and>
        (\<exists>v. dict_find event ''source_sequence'' = Some v \<and> py_eq v (VInt (er_source_sequence r))) \<and>
        dict_find event ''previous_event_digest'' = Some (opt_str (er_previous r)) \<and>
        key_of keys (er_source_id r) = Some key \<and> signed_by E event key = Inr True)"

lemma columns_agree_Inr [res_simps]:
  "columns_agree event r = Inr () \<longleftrightarrow>
   item event ''tenant_id'' = Inr (VStr (er_tenant_id r)) \<and> item event ''source_id'' = Inr (VStr (er_source_id r)) \<and>
   (\<exists>v. item event ''source_sequence'' = Inr v \<and> py_eq v (VInt (er_source_sequence r))) \<and>
   item event ''previous_event_digest'' = Inr (opt_str (er_previous r))"
  by (auto simp: columns_agree_def res_simps)

lemma as_dict_Inr [res_simps]: "as_dict v = Inr d \<longleftrightarrow> v = VDict d"
  by (cases v) (simp_all add: as_dict_def)

lemma verify_row_Inr:
  "verify_row E L keys tips r = Inr d \<longleftrightarrow>
   d = er_event_digest r \<and> verified_row E L keys r \<and>
   er_source_sequence r = (case map_of tips (er_source_id r) of None \<Rightarrow> 0 | Some (n, _) \<Rightarrow> n + 1) \<and>
   er_previous r = (case map_of tips (er_source_id r) of None \<Rightarrow> None | Some (_, h) \<Rightarrow> Some h)"
  unfolding verify_row_def verified_row_def validate_def Let_def res_simps
  by (auto simp: columns_agree_Inr item_Inr split: option.splits)

lemma verify_rows_chain:
  assumes "verify_rows E L keys tips rs = Inr (final, ds)" "chained before"
    and "\<And>s. map_of tips s = tip_of before s" "distinct (map fst tips)" "set (map fst tips) = er_source_id ` set before"
  shows "chained (before @ rs) \<and> ds = map er_event_digest rs \<and> (\<forall>r \<in> set rs. verified_row E L keys r) \<and>
    distinct (map fst final) \<and> set (map fst final) = er_source_id ` set (before @ rs)"
  using assms
proof (induction rs arbitrary: tips before ds)
  case Nil
  then show ?case by simp
next
  case (Cons r rs)
  let ?tips = "AList.update (er_source_id r) (er_source_sequence r, er_event_digest r) tips"
  obtain ds' where row: "verify_row E L keys tips r = Inr (er_event_digest r)"
    and rest: "verify_rows E L keys ?tips rs = Inr (final, ds')" and ds: "ds = er_event_digest r # ds'"
    using Cons.prems(1) verify_row_Inr [of E L keys tips r] by (auto simp: res_simps)
  have linked: "linked before r" and ok: "verified_row E L keys r"
    using row Cons.prems(3) by (simp_all add: verify_row_Inr linked_tip)
  have "map_of ?tips s = tip_of (before @ [r]) s" for s
    using Cons.prems(3) [of s] tip_of_snoc [OF linked, of s] by (simp add: update_conv')
  moreover have "distinct (map fst ?tips)" using Cons.prems(4) by (rule distinct_update)
  moreover have "set (map fst ?tips) = er_source_id ` set (before @ [r])"
    using Cons.prems(5) dom_update [of "er_source_id r" "(er_source_sequence r, er_event_digest r)" tips] by (simp add: set_map)
  ultimately have "chained ((before @ [r]) @ rs) \<and> ds' = map er_event_digest rs \<and> (\<forall>r \<in> set rs. verified_row E L keys r) \<and>
      distinct (map fst final) \<and> set (map fst final) = er_source_id ` set ((before @ [r]) @ rs)"
    using Cons.prems(2) linked by (intro Cons.IH [OF rest]) simp_all
  then show ?case using ds ok by simp
qed

lemma verify_ledger_Inr:
  assumes "verify_ledger E L db keys cp cpk = Inr report"
  shows "chained (ld_events db)" "\<forall>r \<in> set (ld_events db). verified_row E L keys r"
    "lr_tree_size report = length (ld_events db)" "lr_source_count report = card (er_source_id ` set (ld_events db))"
    "case cp of None \<Rightarrow> \<not> lr_ok report | Some c \<Rightarrow> lr_ok report \<and> verify_checkpoint E L (event_digests db) c cpk = Inr ()"
proof -
  obtain tips ds where rows: "verify_rows E L keys [] (ld_events db) = Inr (tips, ds)"
    and cp: "(case cp of None \<Rightarrow> Inr () | Some c \<Rightarrow> verify_checkpoint E L ds c cpk) = Inr ()"
    and report: "lr_tree_size report = length ds" "lr_source_count report = length tips" "lr_ok report = (cp \<noteq> None)"
    using assms by (auto simp: verify_ledger_def res_simps)
  have *: "chained ([] @ ld_events db) \<and> ds = map er_event_digest (ld_events db) \<and> (\<forall>r \<in> set (ld_events db). verified_row E L keys r) \<and>
      distinct (map fst tips) \<and> set (map fst tips) = er_source_id ` set ([] @ ld_events db)"
    by (rule verify_rows_chain [OF rows]) (simp_all add: tip_of_def source_rows_def)
  then have "length tips = card (er_source_id ` set (ld_events db))"
    using distinct_card [of "map fst tips"] by simp
  with * cp report show "chained (ld_events db)" "\<forall>r \<in> set (ld_events db). verified_row E L keys r"
    "lr_tree_size report = length (ld_events db)" "lr_source_count report = card (er_source_id ` set (ld_events db))"
    "case cp of None \<Rightarrow> \<not> lr_ok report | Some c \<Rightarrow> lr_ok report \<and> verify_checkpoint E L (event_digests db) c cpk = Inr ()"
    by (auto simp: event_digests_def split: option.splits)
qed

lemma signed_by_True:
  "signed_by E d key = Inr True \<longleftrightarrow>
   (\<exists>sig. dict_find d ''signature'' = Some sig \<and> item sig ''key_id'' = Inr (VStr (tk_key_id key))) \<and>
   verify_signature E d (tk_public_key key) = Inr True"
  by (auto simp: signed_by_def res_simps split: if_splits)

lemma verify_checkpointD:
  assumes "verify_checkpoint E L digests cp key = Inr ()"
  shows "\<exists>k root n. key = Some k \<and> dict_find cp ''signer_id'' = Some (VStr (tk_key_id k)) \<and> signed_by E cp k = Inr True \<and>
    schema_ok E ''checkpoint'' (VDict cp) \<and> dict_find cp ''tenant_id'' = Some (VStr (ls_tenant_id L)) \<and>
    dict_find cp ''ledger_id'' = Some (VStr (ls_ledger_id L)) \<and> dict_find cp ''tree_size'' = Some n \<and>
    py_eq n (VInt (int (length digests))) \<and> digests \<noteq> [] \<and> merkle_root digests = Inr root \<and>
    dict_find cp ''root_digest'' = Some (VStr root) \<and> dict_find cp ''last_event_digest'' = Some (VStr (last digests))"
  using assms unfolding verify_checkpoint_def res_simps by (auto simp: res_simps validate_def split: option.splits if_splits)

subsection \<open>Appended events verify\<close>

lemma canon_opt_str [simp]: "canon (opt_str x) = opt_str x"
  by (cases x) (simp_all add: opt_str_def)

lemma py_eq_int_canon: "py_eq v (VInt n) \<Longrightarrow> canon v = v"
  by (cases v) auto

lemma stores_verified:
  assumes "schema_ignores_order E" "py_wf (VDict event)" "stores E L event r"
    and "key_of keys (er_source_id r) = Some key" "signed_by E event key = Inr True"
  shows "verified_row E L keys r"
proof -
  let ?e = "canon_items event"
  obtain i v where *: "schema_ok E ''ledger-event'' (VDict event)" "dict_find event ''event_id'' = Some (VStr i)"
    "ledger_event_identity E event = Inr i" "dict_find event ''source_sequence'' = Some v" "py_eq v (VInt (er_source_sequence r))"
    "event_digest E (VDict event) = Inr (er_event_digest r)" and json: "canonical_bytes (VDict event) = Inr (er_event_json r)"
    using assms(3) by (auto simp: stores_def)
  note re = reread [OF assms(2) json]
  have p: "profile (VDict event)" using re(2) by (simp add: same_doc_def)
  note find = canon_items_find [OF p]
  have "schema_ok E ''ledger-event'' (VDict ?e)"
    using assms(1) *(1) canon_VDict [of event] unfolding schema_ignores_order_def by metis
  moreover have "ledger_event_identity E ?e = Inr i" "event_digest E (VDict ?e) = Inr (er_event_digest r)"
    using *(3,6) same_doc_pending [OF re(2)] same_doc_digest [OF re(2)]
    by (simp_all add: ledger_event_identity_def event_digest_def)
  moreover have "signed_by E ?e key = Inr True"
  proof -
    obtain sig where sig: "dict_find event ''signature'' = Some (VDict sig)" "dict_find sig ''key_id'' = Some (VStr (tk_key_id key))"
      using assms(5) by (auto simp: signed_by_True item_Inr)
    have "dict_find (canon_items sig) ''key_id'' = Some (VStr (tk_key_id key))"
      using canon_items_find [OF profile_find [OF p sig(1)]] sig(2) by simp
    then show ?thesis
      using sig(1) find verify_signature_reread [OF assms(2) json] assms(5)
      by (auto simp: signed_by_True canon_VDict item_def)
  qed
  ultimately show ?thesis
    using * re(1) assms(3,4) find py_eq_int_canon [OF *(5)] by (auto simp: verified_row_def stores_def)
qed

lemma verify_rows_complete:
  assumes "chained (before @ rs)" "\<forall>r \<in> set rs. verified_row E L keys r" "\<And>s. map_of tips s = tip_of before s"
  shows "\<exists>final. verify_rows E L keys tips rs = Inr (final, map er_event_digest rs)"
  using assms
proof (induction rs arbitrary: tips before)
  case Nil
  then show ?case by simp
next
  case (Cons r rs)
  let ?tips = "AList.update (er_source_id r) (er_source_sequence r, er_event_digest r) tips"
  have "linked before r"
    using Cons.prems(1) by (auto simp: chained_def dest!: spec [of _ "length before"])
  then have "map_of ?tips s = tip_of (before @ [r]) s" for s
    using Cons.prems(3) [of s] tip_of_snoc [of before r s] by (simp add: update_conv')
  then have "\<exists>final. verify_rows E L keys ?tips rs = Inr (final, map er_event_digest rs)"
    using Cons.prems by (intro Cons.IH [of "before @ [r]"]) simp_all
  moreover have "verify_row E L keys tips r = Inr (er_event_digest r)"
    using \<open>linked before r\<close> Cons.prems(2,3) by (simp add: verify_row_Inr linked_tip)
  ultimately show ?case by auto
qed

lemma verify_ledger_complete:
  assumes "chained (ld_events db)" "\<forall>r \<in> set (ld_events db). verified_row E L keys r"
    and "case cp of None \<Rightarrow> True | Some c \<Rightarrow> verify_checkpoint E L (event_digests db) c key = Inr ()"
  shows "\<exists>report. verify_ledger E L db keys cp key = Inr report"
proof -
  obtain tips where "verify_rows E L keys [] (ld_events db) = Inr (tips, event_digests db)"
    using verify_rows_complete [of "[]" "ld_events db" E L keys "[]"] assms(1,2)
    by (auto simp: tip_of_def source_rows_def event_digests_def)
  then show ?thesis using assms(3) by (auto simp: verify_ledger_def split: option.splits)
qed

lemma made_checkpoint_verifies:
  assumes "ed25519_ok E" "length (sg_private_key sg) = 32" "make_checkpoint E now L db i sg at = Inr cp"
  shows "verify_checkpoint E L (event_digests db) cp (Some \<lparr>tk_key_id = sg_key_id sg, tk_public_key = signer_public_key E sg\<rparr>) = Inr ()"
proof -
  let ?ds = "event_digests db"
  obtain root where root: "?ds \<noteq> []" "merkle_root ?ds = Inr root" "schema_ok E ''checkpoint'' (VDict cp)"
    and s: "sign E sg (checkpoint_core L i (int (length ?ds)) root (last ?ds) (text_or at now) (sg_key_id sg)) = Inr cp"
    using assms(3) unfolding make_checkpoint_def validate_def Let_def res_simps by auto
  have f: "dict_find cp ''tenant_id'' = Some (VStr (ls_tenant_id L))" "dict_find cp ''ledger_id'' = Some (VStr (ls_ledger_id L))"
    "dict_find cp ''tree_size'' = Some (VInt (int (length ?ds)))" "dict_find cp ''root_digest'' = Some (VStr root)"
    "dict_find cp ''last_event_digest'' = Some (VStr (last ?ds))" "dict_find cp ''signer_id'' = Some (VStr (sg_key_id sg))"
    by (simp_all add: sign_fields [OF s] checkpoint_core_def dict_find_mk)
  obtain v where "dict_find cp ''signature'' = Some (signature_block (sg_key_id sg) v)" using sign_signature [OF s] by blast
  then have "signed_by E cp \<lparr>tk_key_id = sg_key_id sg, tk_public_key = signer_public_key E sg\<rparr> = Inr True"
    using sign_verifies [OF assms(1,2) s] by (simp add: signed_by_True signature_block_def item_def dict_find_mk)
  then show ?thesis using root f by (simp add: verify_checkpoint_def validate_def item_def)
qed

subsection \<open>Building and appending\<close>

lemma built_event:
  assumes "build_ledger_event E now t src n ty p prev sg at = Inr event"
  shows "schema_ok E ''ledger-event'' (VDict event)"
    "\<exists>i. dict_find event ''event_id'' = Some (VStr i) \<and> ledger_event_identity E event = Inr i"
    "dict_find event ''tenant_id'' = Some (VStr t)" "dict_find event ''source_id'' = Some (VStr src)"
    "dict_find event ''source_sequence'' = Some (VInt n)" "dict_find event ''previous_event_digest'' = Some (opt_str prev)"
    "\<exists>v. dict_find event ''signature'' = Some (signature_block (sg_key_id sg) v)"
    "\<exists>core. sign E sg core = Inr event"
proof -
  let ?core = "ledger_event_core t src n ty (text_or at now) p prev"
  obtain i where i: "ledger_event_identity E ?core = Inr i" and s: "sign E sg (dict_put ?core ''event_id'' (VStr i)) = Inr event"
    and ok: "schema_ok E ''ledger-event'' (VDict event)"
    using assms by (auto simp: build_ledger_event_def validate_def Let_def res_simps)
  have c: "dict_find ?core ''event_id'' = Some (vlit ''event:pending'')" "dict_find ?core ''signature'' = None"
    by (simp_all add: ledger_event_core_def dict_find_mk)
  have "pending ''event_id'' ''event:pending'' event = ?core" by (rule pending_sign [OF s c]) simp
  moreover have "pending ''event_id'' ''event:pending'' ?core = ?core"
    using c by (simp add: pending_def dict_put_same)
  ultimately have "ledger_event_identity E event = Inr i" using i by (simp add: ledger_event_identity_def)
  then show "\<exists>i. dict_find event ''event_id'' = Some (VStr i) \<and> ledger_event_identity E event = Inr i"
    by (simp add: sign_fields [OF s] dict_find_put)
  show "dict_find event ''tenant_id'' = Some (VStr t)" "dict_find event ''source_id'' = Some (VStr src)"
    "dict_find event ''source_sequence'' = Some (VInt n)" "dict_find event ''previous_event_digest'' = Some (opt_str prev)"
    by (simp_all add: sign_fields [OF s] dict_find_put ledger_event_core_def dict_find_mk)
  show "schema_ok E ''ledger-event'' (VDict event)" by (rule ok)
  show "\<exists>v. dict_find event ''signature'' = Some (signature_block (sg_key_id sg) v)" by (rule sign_signature [OF s])
  show "\<exists>core. sign E sg core = Inr event" using s by blast
qed

lemma source_tip_inv: "ledger_inv E L db \<Longrightarrow> source_tip (ld_events db) (ls_tenant_id L) s = tip_of (ld_events db) s"
  by (rule source_tip_chained) (auto simp: ledger_inv_def stores_def)

lemma sequence_fresh:
  assumes "chained rows" "r \<in> set rows"
  shows "er_source_sequence r < int (length (source_rows rows (er_source_id r)))"
proof -
  have "er_source_sequence r \<in> set (map er_source_sequence (source_rows rows (er_source_id r)))"
    using assms(2) by (simp add: source_rows_def)
  then show ?thesis unfolding source_rows_numbered [OF assms(1)] by auto
qed

lemma append_next_event:
  assumes "ledger_inv E L db" "build_ledger_event E now (ls_tenant_id L) src n ty p prev sg at = Inr event"
    and "event_digest E (VDict event) = Inr digest" "digest \<notin> set (event_digests db)"
    and "n = int (length (source_rows (ld_events db) src))" "n < 2 ^ 63"
    and "prev = (case tip_of (ld_events db) src of None \<Rightarrow> None | Some (_, h) \<Rightarrow> Some h)"
  shows "\<exists>db'. append_one E L event db = (db', Inr digest)"
proof -
  note b = built_event [OF assms(2)]
  obtain i where i: "dict_find event ''event_id'' = Some (VStr i)" "ledger_event_identity E event = Inr i" using b(2) by blast
  obtain json where json: "canonical_bytes (VDict event) = Inr json"
    using assms(3) by (auto simp: event_digest_def digest_object_def digest_input_def res_simps)
  have n: "(case tip_of (ld_events db) src of None \<Rightarrow> 0 | Some (m, _) \<Rightarrow> m + 1) = n"
    using assms(5) by (simp add: tip_of_def Let_def)
  have src: "text_item (VDict event) ''source_id'' = Inr src" using b(4) by (simp add: text_item_Inr item_def)
  have fresh: "\<not> (er_source_id x = src \<and> er_source_sequence x = n)" if "x \<in> set (ld_events db)" for x
    using sequence_fresh [OF _ that] assms(1,5) by (auto simp: ledger_inv_def)
  have "- (2 ^ 63) \<le> n" using assms(5) by simp
  then have "insert_event \<lparr>er_event_digest = digest, er_tenant_id = ls_tenant_id L, er_source_id = src,
      er_source_sequence = n, er_previous = prev, er_event_json = json\<rparr> db =
      (db\<lparr>ld_events := ld_events db @ [\<lparr>er_event_digest = digest, er_tenant_id = ls_tenant_id L, er_source_id = src,
      er_source_sequence = n, er_previous = prev, er_event_json = json\<rparr>]\<rparr>, Inr ())"
    using assms(4,6) fresh by (auto simp: insert_event_def event_digests_def)
  then show ?thesis
    unfolding append_one_def using b(1,3,5,6) i json n src assms(3,7) source_tip_inv [OF assms(1), of src]
    by (simp add: validate_def item_def sbind_apply Let_def)
qed

lemma position_nth: "x \<in> set xs \<Longrightarrow> position x xs < length xs \<and> xs ! position x xs = x"
  unfolding position_def by (induction xs) auto

lemma stored_digests: "ledger_inv E L db \<Longrightarrow> \<forall>d \<in> set (event_digests db). is_digest_text d"
  using digest_object_split
  by (fastforce simp: ledger_inv_def event_digests_def stores_def event_digest_def)

lemma map_res_VDict:
  "map_res (\<lambda>x. case x of VDict d \<Rightarrow> Inr d | _ \<Rightarrow> e) (map VDict ds) = Inr ds"
  by (induction ds) auto

lemma appended_verifies:
  assumes "schema_ignores_order E" "verify_ledger E L db keys None None = Inr report"
    and "append_one E L event db = (db', Inr digest)" "py_wf (VDict event)"
    and "dict_find event ''source_id'' = Some (VStr src)" "key_of keys src = Some key" "signed_by E event key = Inr True"
    and "case cp of None \<Rightarrow> True | Some c \<Rightarrow> verify_checkpoint E L (event_digests db') c cpk = Inr ()"
  shows "\<exists>report'. verify_ledger E L db' keys cp cpk = Inr report' \<and> lr_tree_size report' = lr_tree_size report + 1"
proof -
  note v = verify_ledger_Inr [OF assms(2)]
  have "\<forall>r \<in> set (ld_events db). er_tenant_id r = ls_tenant_id L" using v(2) by (auto simp: verified_row_def)
  then have tip: "source_tip (ld_events db) (ls_tenant_id L) s = tip_of (ld_events db) s" for s
    by (rule source_tip_chained [OF v(1)])
  obtain r where r: "db' = db\<lparr>ld_events := ld_events db @ [r]\<rparr>" "stores E L event r" "linked (ld_events db) r"
    using append_one_success [OF assms(3)] unfolding tip linked_tip by blast
  have "er_source_id r = src" using r(2) assms(5) by (simp add: stores_def)
  then have "verified_row E L keys r" using stores_verified [OF assms(1,4) r(2) _ assms(7)] assms(6) by simp
  then have "\<exists>report'. verify_ledger E L db' keys cp cpk = Inr report'"
    using v(1,2) r(1,3) assms(8) by (intro verify_ledger_complete) auto
  then show ?thesis using verify_ledger_Inr(3) v(3) r(1) by fastforce
qed

section \<open>Properties\<close>

definition demo_ledger :: ledger_store where
  "demo_ledger = \<lparr>ls_tenant_id = lit ''tenant:a'', ls_ledger_id = lit ''ledger:a''\<rparr>"

definition demo_connection :: "ledger_db conn" where
  "demo_connection =
     connect (empty_db\<lparr>ld_meta := Some (lit ''tenant:a'', lit ''ledger:a'', lit ''integrity-guardian/ledger-store/v1'')\<rparr>)"

lemma demo_opened: "open_ledger (VInt 5000) (lit ''tenant:a'') (lit ''ledger:a'') empty_db = (demo_connection, Inr demo_ledger)"
  by (simp add: open_ledger_def initialize_def empty_db_def demo_connection_def demo_ledger_def)

lemma demo_reach: "ledger_reach E demo_ledger demo_connection"
  using demo_opened by (rule ledger_reach.opened)

lemma demo_idle: "idle demo_connection" "ld_events (cn_now demo_connection) = []" "ledger_inv E demo_ledger (cn_now demo_connection)"
  by (simp_all add: demo_connection_def connect_def idle_def empty_db_def ledger_inv_def event_digests_def)

definition demo_event :: "pydict res" where
  "demo_event = build_ledger_event demo_env (lit ''2026-01-01T00:00:00Z'') (lit ''tenant:a'') (lit ''source:a'') 0
     (lit ''observation'') (lit ''sha256:00'') None demo_signer None"

lemma demo_event_built: "\<exists>event digest. demo_event = Inr event \<and> encodable (VDict event) \<and> py_wf (VDict event) \<and>
  event_digest demo_env (VDict event) = Inr digest"
proof -
  let ?core = "ledger_event_core (lit ''tenant:a'') (lit ''source:a'') 0 (lit ''observation'') (lit ''2026-01-01T00:00:00Z'')
    (lit ''sha256:00'') None"
  have dom: "plain_domain ''ledger-event-identity-v1''" "plain_domain ''ledger-event-v1''" by code_simp+
  have core: "encodable (VDict ?core)" "py_wf (VDict ?core)" "pending ''event_id'' ''event:pending'' ?core = ?core" by code_simp+
  obtain h where h: "ledger_event_identity demo_env ?core = Inr (lit ''event:'' @ hex h)"
    using content_identity_encodable [OF core(1) dom(1), of demo_env "''event:''"] core(3) by (auto simp: ledger_event_identity_def)
  let ?u = "dict_put ?core ''event_id'' (VStr (lit ''event:'' @ hex h))"
  have "encodable (VStr (lit ''event:'' @ hex h))" "py_wf (VStr (lit ''event:'' @ hex h))"
    using encodable_text_code_points [OF encodable_hex, of h] by simp_all
  then have u: "encodable (VDict ?u)" "py_wf (VDict ?u)"
    using encodable_put [OF core(1)] py_wf_put [OF core(2)] by blast+
  obtain event where e: "sign demo_env demo_signer ?u = Inr event" using sign_encodable [OF u(1)] by blast
  then have "demo_event = Inr event"
    using h by (simp add: demo_event_def build_ledger_event_def text_or_def validate_def)
  moreover have "encodable (VDict event)" "py_wf (VDict event)" using signed_encodable [OF e u] by (simp_all add: demo_signer_def del: encodable.simps py_wf.simps)
  ultimately show ?thesis using digest_object_encodable [OF _ dom(2), of "VDict event" demo_env] by (auto simp: event_digest_def)
qed

lemma demo_appended:
  obtains event digest c where "demo_event = Inr event" "py_wf (VDict event)" "signed_by demo_env event demo_key = Inr True"
    "ledger_append demo_env demo_ledger event demo_connection = (c, Inr digest)" "encodable (VDict event)"
proof -
  obtain event digest where e: "demo_event = Inr event" "encodable (VDict event)" "py_wf (VDict event)"
    "event_digest demo_env (VDict event) = Inr digest" using demo_event_built by blast
  note b = built_event [OF e(1) [unfolded demo_event_def]]
  have "\<exists>db. append_one demo_env demo_ledger event (cn_now demo_connection) = (db, Inr digest)"
  proof (rule append_next_event)
    show "build_ledger_event demo_env (lit ''2026-01-01T00:00:00Z'') (ls_tenant_id demo_ledger) (lit ''source:a'') 0
        (lit ''observation'') (lit ''sha256:00'') None demo_signer None = Inr event"
      using e(1) by (simp add: demo_event_def demo_ledger_def)
  qed (use demo_idle e(4) in \<open>simp_all add: event_digests_def source_rows_def tip_of_def\<close>)
  then obtain c where "ledger_append demo_env demo_ledger event demo_connection = (c, Inr digest)"
    using demo_idle(1) by (auto simp: ledger_append_def write_transaction_def transaction_idle)
  moreover have "signed_by demo_env event demo_key = Inr True"
  proof -
    obtain core where "sign demo_env demo_signer core = Inr event" using b(8) by blast
    then have "verify_signature demo_env event (tk_public_key demo_key) = Inr True"
      using sign_verifies [OF demo_env_ok demo_signer_length] unfolding demo_key_eq by simp
    moreover obtain v where "dict_find event ''signature'' = Some (signature_block (sg_key_id demo_signer) v)" using b(7) by blast
    ultimately show ?thesis
      by (simp add: signed_by_True signature_block_def item_def dict_find_mk demo_key_def demo_signer_def)
  qed
  ultimately show thesis using e that by blast
qed

text \<open>
  C8. In every state of a store that its operations can produce, for the visible contents and for
  those that a rollback would restore: each source's events are numbered from zero without gaps
  and linked by their digests, no digest occurs twice, and every row is the record of an event
  of this tenant that satisfies the schema and carries its own content identity.
\<close>

theorem ledger_history_is_chained:
  assumes "ledger_reach E L c" "db = cn_now c \<or> cn_saved c = Some db"
  shows "chained (ld_events db) \<and> distinct (event_digests db) \<and>
    (\<forall>r \<in> set (ld_events db). \<exists>event. stores E L event r)"
  using ledger_reach_inv [OF assms(1)] assms(2) by (auto simp: conn_inv_def ledger_inv_def)

theorem ledger_history_is_chained_witness:
  "\<exists>c. ledger_reach demo_env demo_ledger c \<and> ld_events (cn_now c) \<noteq> [] \<and> chained (ld_events (cn_now c))"
proof -
  obtain event digest c where c: "ledger_append demo_env demo_ledger event demo_connection = (c, Inr digest)"
    by (rule demo_appended)
  have "append_one demo_env demo_ledger event (cn_now demo_connection) = (cn_now c, Inr digest)"
    using c demo_idle(1) transaction_success(3) by (fastforce simp: ledger_append_def write_transaction_def)
  then have "ld_events (cn_now c) \<noteq> []" using append_one_success by fastforce
  moreover have "ledger_reach demo_env demo_ledger c"
    using ledger_reach.step [OF demo_reach ledger_step.append [OF c]] .
  ultimately show ?thesis using ledger_history_is_chained [of demo_env demo_ledger c "cn_now c"] by blast
qed

text \<open>
  C9. A batch is appended as a whole or not at all. When \<open>append_many\<close> raises, the connection is
  as it was, whatever rows had been written before the exception; when it returns, the old rows
  are untouched and one row per event follows them, in order, with the returned digests.
\<close>

theorem append_many_atomic:
  assumes "ledger_reach E L c" "idle c" "append_many E L events c = (c', res)"
  shows "case res of
      Inl e \<Rightarrow> c' = c
    | Inr digests \<Rightarrow> idle c' \<and> (\<exists>rows. ld_events (cn_now c') = ld_events (cn_now c) @ rows \<and>
        map er_event_digest rows = digests \<and> list_all2 (stores E L) events rows)"
proof (cases res)
  case (Inl e)
  then show ?thesis
    using assms(2,3) transaction_atomic [of _ c c' e] by (simp add: append_many_def write_transaction_def)
next
  case (Inr digests)
  then have t: "transaction (smap (append_one E L) events) c = (c', Inr digests)"
    using assms(2,3) by (simp add: append_many_def write_transaction_def)
  have "ledger_inv E L (cn_now c)" using ledger_reach_inv [OF assms(1)] by (simp add: conn_inv_def)
  from append_batch_rows [OF this transaction_success(3) [OF t]] show ?thesis
    using transaction_success(2) [OF t] Inr by fastforce
qed

theorem append_many_atomic_witness:
  "append_many demo_env demo_ledger [[]] demo_connection = (demo_connection, raise KeyError ''event_id'') \<and>
   (case (raise KeyError ''event_id'' :: ustring list res) of Inl e \<Rightarrow> demo_connection = demo_connection | Inr ds \<Rightarrow> False)"
proof -
  have "append_one demo_env demo_ledger [] db = (db, raise KeyError ''event_id'')" for db
    by (simp add: append_one_def validate_def item_def dict_find_def)
  then have *: "append_many demo_env demo_ledger [[]] demo_connection = (demo_connection, raise KeyError ''event_id'')"
    using demo_idle(1) by (simp add: append_many_def write_transaction_def transaction_idle sbind_apply)
  show ?thesis using append_many_atomic [OF demo_reach demo_idle(1) *] * by simp
qed

text \<open>
  C10. What a successful \<open>verify\<close> establishes about a database of any origin: the events of every
  source form an unbroken chain, every row holds an event of the tenant that passes the schema,
  has its own digest and identity and the signature of the key registered for its source, and
  the reported counts are the number of rows and of sources. The result is positive exactly when a
  checkpoint was given, and then the checkpoint passes its schema, the checkpoint key signed it as its
  signer, it is of this tenant and ledger, and its size, root and tip are those of the rows, of which there is at least one.
\<close>

theorem verify_ledger_sound:
  assumes "verify_ledger E L db keys cp cpk = Inr report"
  shows "chained (ld_events db) \<and> (\<forall>r \<in> set (ld_events db). verified_row E L keys r) \<and>
    lr_tree_size report = length (ld_events db) \<and> lr_source_count report = card (er_source_id ` set (ld_events db)) \<and>
    (lr_ok report \<longleftrightarrow> cp \<noteq> None) \<and>
    (\<forall>c. cp = Some c \<longrightarrow> (\<exists>k n root. cpk = Some k \<and> dict_find c ''signer_id'' = Some (VStr (tk_key_id k)) \<and> signed_by E c k = Inr True \<and>
       schema_ok E ''checkpoint'' (VDict c) \<and>
       dict_find c ''tenant_id'' = Some (VStr (ls_tenant_id L)) \<and> dict_find c ''ledger_id'' = Some (VStr (ls_ledger_id L)) \<and>
       dict_find c ''tree_size'' = Some n \<and> py_eq n (VInt (int (length (ld_events db)))) \<and> ld_events db \<noteq> [] \<and>
       merkle_root (event_digests db) = Inr root \<and> dict_find c ''root_digest'' = Some (VStr root) \<and>
       dict_find c ''last_event_digest'' = Some (VStr (last (event_digests db)))))"
proof -
  note v = verify_ledger_Inr [OF assms]
  have digests: "length (event_digests db) = length (ld_events db)" "event_digests db = [] \<longleftrightarrow> ld_events db = []" by (simp_all add: event_digests_def)
  have ok: "lr_ok report \<longleftrightarrow> cp \<noteq> None" using assms by (auto simp: verify_ledger_def res_simps)
  have "\<exists>k n root. cpk = Some k \<and> dict_find c ''signer_id'' = Some (VStr (tk_key_id k)) \<and> signed_by E c k = Inr True \<and>
      schema_ok E ''checkpoint'' (VDict c) \<and> dict_find c ''tenant_id'' = Some (VStr (ls_tenant_id L)) \<and> dict_find c ''ledger_id'' = Some (VStr (ls_ledger_id L)) \<and>
      dict_find c ''tree_size'' = Some n \<and> py_eq n (VInt (int (length (ld_events db)))) \<and> ld_events db \<noteq> [] \<and>
      merkle_root (event_digests db) = Inr root \<and> dict_find c ''root_digest'' = Some (VStr root) \<and>
      dict_find c ''last_event_digest'' = Some (VStr (last (event_digests db)))" if "cp = Some c" for c
    using v(5) verify_checkpointD [of E L "event_digests db" c cpk] that by (simp add: digests) blast
  then show ?thesis using v(1-4) ok by blast
qed

text \<open>
  C7. An independently kept checkpoint fixes the whole history. Two databases that verify against
  the same checkpoint hold the same number of events, and position by position the same event
  up to the order of object members, or the verification of one of them hashed an input that
  makes an explicit SHA-256 collision with an input of the other.
\<close>

theorem checkpoint_fixes_history:
  assumes "verify_ledger E L db keys (Some cp) cpk = Inr report" "verify_ledger E L2 db2 keys2 (Some cp) cpk2 = Inr report2"
  shows "(\<exists>a \<in> set (merkle_inputs (event_digests db)). \<exists>b \<in> set (merkle_inputs (event_digests db2)). sha256_collision a b) \<or>
    event_digests db = event_digests db2 \<and>
    (\<forall>i < length (ld_events db). \<exists>e e2.
       parse_json_strict (DocBytes (er_event_json (ld_events db ! i))) = Inr (VDict e) \<and>
       parse_json_strict (DocBytes (er_event_json (ld_events db2 ! i))) = Inr (VDict e2) \<and>
       (canon (VDict e) = canon (VDict e2) \<or>
        (\<exists>p q. digest_input E (VDict e) (lit ''ledger-event-v1'') = Inr p \<and>
               digest_input E (VDict e2) (lit ''ledger-event-v1'') = Inr q \<and> sha256_collision p q)))"
proof -
  note v = verify_ledger_Inr [OF assms(1)] and w = verify_ledger_Inr [OF assms(2)]
  obtain root where root: "merkle_root (event_digests db) = Inr root" "merkle_root (event_digests db2) = Inr root"
    using v(5) w(5) verify_checkpointD [of E L "event_digests db" cp cpk]
      verify_checkpointD [of E L2 "event_digests db2" cp cpk2] by auto
  have "\<exists>e e2. parse_json_strict (DocBytes (er_event_json (ld_events db ! i))) = Inr (VDict e) \<and>
       parse_json_strict (DocBytes (er_event_json (ld_events db2 ! i))) = Inr (VDict e2) \<and>
       (canon (VDict e) = canon (VDict e2) \<or>
        (\<exists>p q. digest_input E (VDict e) (lit ''ledger-event-v1'') = Inr p \<and>
               digest_input E (VDict e2) (lit ''ledger-event-v1'') = Inr q \<and> sha256_collision p q))"
    if i: "i < length (ld_events db)" and eq: "event_digests db = event_digests db2" for i
  proof -
    have len: "length (ld_events db2) = length (ld_events db)" using arg_cong [OF eq, of length] by (simp add: event_digests_def)
    then have d: "er_event_digest (ld_events db ! i) = er_event_digest (ld_events db2 ! i)"
      using arg_cong [OF eq, of "\<lambda>l. l ! i"] i by (simp add: event_digests_def)
    obtain e e2 where e: "parse_json_strict (DocBytes (er_event_json (ld_events db ! i))) = Inr (VDict e)"
      "digest_object E (VDict e) (lit ''ledger-event-v1'') = Inr (er_event_digest (ld_events db ! i))"
      "parse_json_strict (DocBytes (er_event_json (ld_events db2 ! i))) = Inr (VDict e2)"
      "digest_object E (VDict e2) (lit ''ledger-event-v1'') = Inr (er_event_digest (ld_events db ! i))"
      using bspec [OF v(2) nth_mem [OF i]] bspec [OF w(2) nth_mem [of i "ld_events db2"]] i len d
      by (auto simp: verified_row_def event_digest_def)
    have "py_wf (VDict e)" "py_wf (VDict e2)"
      using parse_json_strict_profile [OF e(1)] parse_json_strict_profile [OF e(3)] by (simp_all add: doc_wf_def profile_def)
    then show ?thesis using e digest_object_same [OF e(2,4)] by blast
  qed
  then show ?thesis using merkle_root_inject [OF root] by blast
qed

lemma demo_schema_order: "schema_ignores_order demo_env"
  by (simp add: schema_ignores_order_def)

lemma demo_append_one:
  assumes "ledger_append demo_env demo_ledger event demo_connection = (c, Inr digest)"
  shows "append_one demo_env demo_ledger event (cn_now demo_connection) = (cn_now c, Inr digest)" "connect (cn_now c) = c"
    "\<exists>r. ld_events (cn_now c) = [r]" "event_digests (cn_now c) = [digest]" "event_digest demo_env (VDict event) = Inr digest"
proof -
  show one: "append_one demo_env demo_ledger event (cn_now demo_connection) = (cn_now c, Inr digest)"
    using assms demo_idle(1) transaction_success(3) by (fastforce simp: ledger_append_def write_transaction_def)
  have "idle c" using assms demo_idle(1) transaction_success(2) by (fastforce simp: ledger_append_def write_transaction_def)
  then show "connect (cn_now c) = c" by (cases c) (simp add: connect_def idle_def)
  show "\<exists>r. ld_events (cn_now c) = [r]" "event_digests (cn_now c) = [digest]" "event_digest demo_env (VDict event) = Inr digest"
    using append_one_success [OF one] demo_idle(2) by (auto simp: event_digests_def stores_def)
qed

lemma demo_checkpoint:
  assumes "ledger_append demo_env demo_ledger event demo_connection = (c, Inr digest)"
  obtains cp where "make_checkpoint demo_env (lit ''2026-01-01T00:00:00Z'') demo_ledger (cn_now c) (lit ''checkpoint:a'') demo_signer None = Inr cp"
proof -
  note one = demo_append_one [OF assms]
  obtain h where h: "digest = lit ''sha256:'' @ hex h" "length h = 32"
    using digest_object_split [of demo_env "VDict event" "lit ''ledger-event-v1''" digest] one(5) by (auto simp: event_digest_def)
  then obtain leaf where leaf: "leaf_hash digest = Inr leaf"
    using is_digest_ascii [of digest] by (fastforce simp: leaf_hash_def)
  then have root: "merkle_root [digest] = Inr (lit ''sha256:'' @ hex leaf)"
    by (simp add: merkle_root_def reduce_levels.simps)
  let ?core = "checkpoint_core demo_ledger (lit ''checkpoint:a'') 1 (lit ''sha256:'' @ hex leaf) digest (lit ''2026-01-01T00:00:00Z'') (sg_key_id demo_signer)"
  have one_ok: "encodable (VInt 1)" by code_simp
  have "encodable (VDict ?core)" using one_ok h(1)
    by (simp add: checkpoint_core_def mk_dict_def demo_ledger_def demo_signer_def del: encodable.simps(1))
  then obtain cp where "sign demo_env demo_signer ?core = Inr cp" using sign_encodable by blast
  then show thesis using root that by (simp add: make_checkpoint_def one(4) text_or_def validate_def)
qed

lemma demo_verified:
  obtains db cp report where
    "verify_ledger demo_env demo_ledger db [(lit ''source:a'', demo_key)] (Some cp) (Some demo_key) = Inr report"
    "ledger_reach demo_env demo_ledger (connect db)" "ld_events db \<noteq> []"
proof -
  obtain event digest c where e: "demo_event = Inr event" "py_wf (VDict event)" "signed_by demo_env event demo_key = Inr True"
    and c: "ledger_append demo_env demo_ledger event demo_connection = (c, Inr digest)"
    by (rule demo_appended)
  note one = demo_append_one [OF c]
  obtain cp where cp: "make_checkpoint demo_env (lit ''2026-01-01T00:00:00Z'') demo_ledger (cn_now c) (lit ''checkpoint:a'') demo_signer None = Inr cp"
    by (rule demo_checkpoint [OF c])
  have empty: "\<exists>report. verify_ledger demo_env demo_ledger (cn_now demo_connection) [(lit ''source:a'', demo_key)] None None = Inr report"
    using demo_idle(2) by (simp add: verify_ledger_def)
  have "\<exists>report. verify_ledger demo_env demo_ledger (cn_now c) [(lit ''source:a'', demo_key)] (Some cp) (Some demo_key) = Inr report"
    using empty made_checkpoint_verifies [OF demo_env_ok demo_signer_length cp] built_event(4) [OF e(1) [unfolded demo_event_def]]
      appended_verifies [OF demo_schema_order _ one(1) e(2) _ _ e(3), where keys = "[(lit ''source:a'', demo_key)]" and src = "lit ''source:a''"
        and cp = "Some cp" and cpk = "Some demo_key"]
    unfolding demo_key_eq [symmetric] by (auto simp: key_of_def)
  moreover have "ledger_reach demo_env demo_ledger (connect (cn_now c))"
    using ledger_reach.step [OF demo_reach ledger_step.append [OF c]] by (simp add: one(2))
  ultimately show thesis using that one(3) by fastforce
qed

theorem verify_ledger_sound_witness:
  "\<exists>db cp report. verify_ledger demo_env demo_ledger db [(lit ''source:a'', demo_key)] (Some cp) (Some demo_key) = Inr report \<and>
     lr_ok report \<and> ld_events db \<noteq> [] \<and> (\<forall>r \<in> set (ld_events db). verified_row demo_env demo_ledger [(lit ''source:a'', demo_key)] r) \<and>
     dict_find cp ''tenant_id'' = Some (VStr (ls_tenant_id demo_ledger))"
proof -
  obtain db cp report where v: "verify_ledger demo_env demo_ledger db [(lit ''source:a'', demo_key)] (Some cp) (Some demo_key) = Inr report"
    "ld_events db \<noteq> []" by (rule demo_verified)
  from verify_ledger_sound [OF v(1)] v show ?thesis by blast
qed

theorem checkpoint_fixes_history_witness:
  "\<exists>db cp report. verify_ledger demo_env demo_ledger db [(lit ''source:a'', demo_key)] (Some cp) (Some demo_key) = Inr report \<and>
     ld_events db \<noteq> [] \<and>
     ((\<exists>a \<in> set (merkle_inputs (event_digests db)). \<exists>b \<in> set (merkle_inputs (event_digests db)). sha256_collision a b) \<or>
      event_digests db = event_digests db)"
proof -
  obtain db cp report where v: "verify_ledger demo_env demo_ledger db [(lit ''source:a'', demo_key)] (Some cp) (Some demo_key) = Inr report"
    "ld_events db \<noteq> []" by (rule demo_verified)
  from checkpoint_fixes_history [OF v(1) v(1)] v show ?thesis by blast
qed

text \<open>
  C11. Appending keeps a ledger verifiable, and its checkpoints are accepted: when a ledger verifies
  and an event signed by the key registered for its source is appended, the new ledger
  verifies with one more event, and so it does against the checkpoint its signer makes of it.
\<close>

theorem append_checkpoint_verify:
  assumes "schema_ignores_order E" "ed25519_ok E" "length (sg_private_key sg) = 32"
    and "verify_ledger E L (cn_now c) keys None None = Inr report" "idle c"
    and "ledger_append E L event c = (c', Inr digest)" "py_wf (VDict event)"
    and "dict_find event ''source_id'' = Some (VStr src)" "key_of keys src = Some key" "signed_by E event key = Inr True"
    and "make_checkpoint E now L (cn_now c') i sg at = Inr cp"
  shows "\<exists>report'. verify_ledger E L (cn_now c') keys (Some cp)
      (Some \<lparr>tk_key_id = sg_key_id sg, tk_public_key = signer_public_key E sg\<rparr>) = Inr report' \<and>
    lr_ok report' \<and> lr_tree_size report' = lr_tree_size report + 1"
proof -
  have one: "append_one E L event (cn_now c) = (cn_now c', Inr digest)"
    using assms(5,6) transaction_success(3) by (fastforce simp: ledger_append_def write_transaction_def)
  obtain report' where "verify_ledger E L (cn_now c') keys (Some cp)
      (Some \<lparr>tk_key_id = sg_key_id sg, tk_public_key = signer_public_key E sg\<rparr>) = Inr report'"
      "lr_tree_size report' = lr_tree_size report + 1"
    using appended_verifies [OF assms(1,4) one assms(7-10), where cp = "Some cp"] made_checkpoint_verifies [OF assms(2,3,11)] by auto
  then show ?thesis using verify_ledger_Inr(5) by fastforce
qed

theorem append_checkpoint_verify_witness:
  "\<exists>(c :: ledger_db conn) cp report. make_checkpoint demo_env (lit ''2026-01-01T00:00:00Z'') demo_ledger (cn_now c) (lit ''checkpoint:a'') demo_signer None = Inr cp \<and>
     verify_ledger demo_env demo_ledger (cn_now c) [(lit ''source:a'', demo_key)] (Some cp) (Some demo_key) = Inr report \<and>
     lr_ok report \<and> lr_tree_size report = 1"
proof -
  obtain event digest c where e: "demo_event = Inr event" "py_wf (VDict event)" "signed_by demo_env event demo_key = Inr True"
    and c: "ledger_append demo_env demo_ledger event demo_connection = (c, Inr digest)"
    by (rule demo_appended)
  obtain cp where cp: "make_checkpoint demo_env (lit ''2026-01-01T00:00:00Z'') demo_ledger (cn_now c) (lit ''checkpoint:a'') demo_signer None = Inr cp"
    by (rule demo_checkpoint [OF c])
  obtain report where "verify_ledger demo_env demo_ledger (cn_now demo_connection) [(lit ''source:a'', demo_key)] None None = Inr report"
    "lr_tree_size report = 0" using demo_idle(2) by (simp add: verify_ledger_def)
  then have "\<exists>report'. verify_ledger demo_env demo_ledger (cn_now c) [(lit ''source:a'', demo_key)] (Some cp) (Some demo_key) = Inr report' \<and>
      lr_ok report' \<and> lr_tree_size report' = 1"
    using append_checkpoint_verify [OF demo_schema_order demo_env_ok demo_signer_length _ demo_idle(1) c e(2)
        built_event(4) [OF e(1) [unfolded demo_event_def]] _ e(3) cp, of "[(lit ''source:a'', demo_key)]" report]
    unfolding demo_key_eq [symmetric] by (auto simp: key_of_def)
  then show ?thesis using cp by blast
qed

text \<open>
  Every event of a ledger has an inclusion proof. For a digest that occurs in a store the
  operations produced, the proof that is built names the store, the position, the digest and
  the current root, its path is accepted by the verifier, and the call returns it unless the
  schema refuses the document.
\<close>

theorem inclusion_proof_complete:
  assumes "ledger_reach E L c" "digest \<in> set (event_digests (cn_now c))"
  shows "\<exists>proof i root steps. i < length (event_digests (cn_now c)) \<and> event_digests (cn_now c) ! i = digest \<and>
    merkle_root (event_digests (cn_now c)) = Inr root \<and>
    dict_find proof ''event_digest'' = Some (VStr digest) \<and> dict_find proof ''root_digest'' = Some (VStr root) \<and>
    dict_find proof ''leaf_index'' = Some (VInt (int i)) \<and> dict_find proof ''audit_path'' = Some (VList (map VDict steps)) \<and>
    verify_merkle_inclusion_path (VStr digest) (VInt (int i)) (VInt (int (length (event_digests (cn_now c))))) steps (VStr root) = Inr () \<and>
    inclusion_proof E L (cn_now c) digest =
      (if schema_ok E ''ledger-inclusion-proof'' (VDict proof) then Inr proof
       else raise LedgerVerificationError ''ledger inclusion proof schema is invalid'')"
proof -
  let ?ds = "event_digests (cn_now c)"
  let ?i = "position digest ?ds"
  have i: "?i < length ?ds" "?ds ! ?i = digest" using position_nth [OF assms(2)] by simp_all
  have "\<forall>d \<in> set ?ds. is_digest_text d" using ledger_reach_inv [OF assms(1)] stored_digests [of E L "cn_now c"] by (simp add: conn_inv_def)
  then obtain root steps where r: "merkle_root ?ds = Inr root" "merkle_inclusion_path ?ds (VInt (int ?i)) = Inr steps"
    "verify_merkle_inclusion_path (VStr digest) (VInt (int ?i)) (VInt (int (length ?ds))) steps (VStr root) = Inr ()"
    using inclusion_path_accepted [OF i(1)] unfolding i(2) by blast
  let ?proof = "inclusion_proof_core L (int (length ?ds)) (int ?i) digest root steps"
  have f: "dict_find ?proof ''event_digest'' = Some (VStr digest)" "dict_find ?proof ''root_digest'' = Some (VStr root)"
    "dict_find ?proof ''leaf_index'' = Some (VInt (int ?i))" "dict_find ?proof ''audit_path'' = Some (VList (map VDict steps))"
    "dict_find ?proof ''tree_size'' = Some (VInt (int (length ?ds)))" "dict_find ?proof ''tenant_id'' = Some (VStr (ls_tenant_id L))"
    "dict_find ?proof ''ledger_id'' = Some (VStr (ls_ledger_id L))"
    by (simp_all add: inclusion_proof_core_def dict_find_mk)
  have "inclusion_proof E L (cn_now c) digest =
      (if schema_ok E ''ledger-inclusion-proof'' (VDict ?proof) then Inr ?proof
       else raise LedgerVerificationError ''ledger inclusion proof schema is invalid'')"
    using assms(2) r f
    by (simp add: inclusion_proof_def Let_def verify_ledger_inclusion_proof_def validate_def item_def opt_str_def
        audit_steps_def map_res_VDict catch_as_def ensure_def schema_errors_def)
  with i r(1,3) f(1-4) show ?thesis by blast
qed

theorem inclusion_proof_complete_witness:
  "\<exists>(c :: ledger_db conn) digest proof. ledger_reach demo_env demo_ledger c \<and> digest \<in> set (event_digests (cn_now c)) \<and>
     inclusion_proof demo_env demo_ledger (cn_now c) digest = Inr proof"
proof -
  obtain db where db: "ledger_reach demo_env demo_ledger (connect db)" "ld_events db \<noteq> []" by (rule demo_verified)
  then obtain digest where d: "digest \<in> set (event_digests (cn_now (connect db)))"
    by (cases "ld_events db") (auto simp: event_digests_def connect_def)
  from inclusion_proof_complete [OF db(1) d] db(1) d show ?thesis by auto
qed

text \<open>
  A native trust binding is permanent: once a store is bound to an enrolment, no sequence of
  operations, reopenings, rollbacks or repeated bindings changes or removes it.
\<close>

theorem native_trust_is_permanent:
  assumes "(ledger_step E L)\<^sup>*\<^sup>* c c'" "idle c" "ld_native (cn_now c) = Some x"
  shows "ld_native (cn_now c') = Some x"
  using native.run_keeps [OF assms(1), of x] assms(2,3) by (simp add: conn_inv_def idle_def)

theorem native_trust_is_permanent_witness:
  "ld_native (cn_now (rollback (connect (empty_db\<lparr>ld_native := Some (Some (lit ''sha256:00'', ''{}''))\<rparr>)))) =
     Some (Some (lit ''sha256:00'', ''{}''))"
proof -
  let ?c = "connect (empty_db\<lparr>ld_native := Some (Some (lit ''sha256:00'', ''{}''))\<rparr>)"
  have "(ledger_step demo_env demo_ledger)\<^sup>*\<^sup>* ?c (rollback ?c)"
    by (rule r_into_rtranclp) (rule ledger_step.caller_rollback)
  moreover have "idle ?c" "ld_native (cn_now ?c) = Some (Some (lit ''sha256:00'', ''{}''))"
    by (simp_all add: connect_def idle_def)
  ultimately show ?thesis by (rule native_trust_is_permanent)
qed

end
