(* ===== verification/Reconciler.thy ===== *)
theory Reconciler
  imports Identity
begin

text \<open>
  \<open>reconciler.py\<close>: signed change intents and the deterministic classification of observed
  changes against one intent. \<open>classify_delta\<close> is the body of the loop of \<open>reconcile\<close>: the
  classification, the reason, the index that is reported and the index that counts as matched.
\<close>

section \<open>Data\<close>

datatype classification =
    AUTHORIZED_SUCCESS | AUTHORIZED_FAILED | AUTHORIZED_PARTIAL | SCOPE_BREACH | UNRECORDED_CHANGE
  | RETROSPECTIVE_CLAIM | PLANNED_NOT_OBSERVED | EXPECTED_DYNAMIC | POLICY_DRIFT | SENSOR_GAP
  | LEDGER_GAP | AMBIGUOUS | SUPERSEDED

primrec classification_value :: "classification \<Rightarrow> string" where
  "classification_value AUTHORIZED_SUCCESS = ''authorized_success''"
| "classification_value AUTHORIZED_FAILED = ''authorized_failed''"
| "classification_value AUTHORIZED_PARTIAL = ''authorized_partial''"
| "classification_value SCOPE_BREACH = ''scope_breach''"
| "classification_value UNRECORDED_CHANGE = ''unrecorded_change''"
| "classification_value RETROSPECTIVE_CLAIM = ''retrospective_claim''"
| "classification_value PLANNED_NOT_OBSERVED = ''planned_not_observed''"
| "classification_value EXPECTED_DYNAMIC = ''expected_dynamic''"
| "classification_value POLICY_DRIFT = ''policy_drift''"
| "classification_value SENSOR_GAP = ''sensor_gap''"
| "classification_value LEDGER_GAP = ''ledger_gap''"
| "classification_value AMBIGUOUS = ''ambiguous''"
| "classification_value SUPERSEDED = ''superseded''"

datatype post_check = PASS | FAIL | PENDING | NOT_RUN

record observed_delta =
  od_tenant_id :: ustring
  od_node_id :: ustring
  od_selector :: ustring
  od_operation :: ustring
  od_observed_at :: ustring
  od_before_digest :: "ustring option"
  od_after_digest :: "ustring option"
  od_post_check :: post_check
  od_evidence_complete :: bool
  od_source_event_id :: "ustring option"

section \<open>Change intents\<close>

definition intent_parse_time :: "pyval \<Rightarrow> datetime res" where
  "intent_parse_time = parse_aware False ValueError ''Invalid isoformat string'' ''timestamp must include a timezone''"

definition intent_signature_payload :: "pydict \<Rightarrow> bytes res" where
  "intent_signature_payload = authorization_payload ''change-intent-v1'' IntentVerificationError
     ''ChangeIntent authorization is missing''"

definition sign_change_intent :: "env \<Rightarrow> ed25519_signer \<Rightarrow> pydict \<Rightarrow> pydict res" where
  "sign_change_intent = sign_authorization ''change-intent-v1'' IntentVerificationError
     ''ChangeIntent authorization is missing'' ''unsigned ChangeIntent already contains a signature'' ''change-intent''"

text \<open>Iteration over a member that the schema pins to a list.\<close>

definition elements :: "pyval \<Rightarrow> pyval list res" where
  "elements v = (case v of VList xs \<Rightarrow> Inr xs | _ \<Rightarrow> raise TypeError ''object is not iterable'')"

text \<open>The loop over the expected changes.\<close>

fun changes_in_scope :: "pyval list \<Rightarrow> pyval list \<Rightarrow> pyval list \<Rightarrow> unit res" where
  "changes_in_scope selectors operations [] = Inr ()"
| "changes_in_scope selectors operations (change # changes) =
     ebind (item change ''selector'') (\<lambda>selector.
     ensure (selector \<in> set selectors) IntentVerificationError ''expected change is outside the declared scope''
     (ebind (item change ''operation'') (\<lambda>operation.
     ensure (operation \<in> set operations) IntentVerificationError ''expected change is outside the declared scope''
       (changes_in_scope selectors operations changes))))"

definition verify_change_intent :: "env \<Rightarrow> pydict \<Rightarrow> trusted_key \<Rightarrow> unit res" where
  "verify_change_intent E intent authority_key =
     ebind (validate E ''change-intent'' (VDict intent)) (\<lambda>_.
     ebind (ebind (field intent ''authorization'') (\<lambda>a. item a ''signature'')) (\<lambda>signature.
     ebind (item signature ''key_id'') (\<lambda>key_id.
     ensure (key_id = VStr (tk_key_id authority_key)) IntentVerificationError ''ChangeIntent authority key identity mismatch''
     (ebind (intent_signature_payload intent) (\<lambda>payload.
     ebind (item signature ''value'') (\<lambda>sig.
     ensure (verify_bytes E payload sig (tk_public_key authority_key)) IntentVerificationError
       ''ChangeIntent signature verification failed''
     (ebind (ebind (field intent ''created_at'') intent_parse_time) (\<lambda>created_at.
     ebind (ebind (field intent ''valid_from'') intent_parse_time) (\<lambda>valid_from.
     ebind (ebind (field intent ''valid_until'') intent_parse_time) (\<lambda>valid_until.
     ensure (instant valid_from \<le> instant valid_until) IntentVerificationError ''ChangeIntent validity interval is inverted''
     (ensure (instant created_at \<le> instant valid_until) IntentVerificationError ''ChangeIntent was created after its validity ended''
     (ebind (field intent ''scope'') (\<lambda>scope.
     ebind (ebind (item scope ''selectors'') elements) (\<lambda>selectors.
     ebind (ebind (item scope ''operations'') elements) (\<lambda>operations.
     ebind (ebind (field intent ''expected_changes'') elements) (\<lambda>changes.
     changes_in_scope selectors operations changes))))))))))))))))"

section \<open>Results\<close>

definition result_core ::
    "classification \<Rightarrow> observed_delta option \<Rightarrow> pydict option \<Rightarrow> ustring \<Rightarrow> nat option \<Rightarrow> pydict res" where
  "result_core cls delta intent reason expected_index =
     ebind (case intent of None \<Rightarrow> Inr VNone | Some d \<Rightarrow> field d ''intent_id'') (\<lambda>intent_id.
     ebind (case (delta, intent) of
              (None, Some d) \<Rightarrow> field d ''tenant_id''
            | (None, None) \<Rightarrow> Inr VNone
            | (Some o1, _) \<Rightarrow> Inr (VStr (od_tenant_id o1))) (\<lambda>tenant.
     ebind (case (delta, intent) of
              (None, Some d) \<Rightarrow> ebind (field d ''target'') (\<lambda>t. item t ''node_id'')
            | (None, None) \<Rightarrow> Inr VNone
            | (Some o1, _) \<Rightarrow> Inr (VStr (od_node_id o1))) (\<lambda>node.
     Inr (mk_dict [(''classification'', vlit (classification_value cls)), (''reason'', VStr reason), (''intent_id'', intent_id),
       (''selector'', opt_str (map_option od_selector delta)), (''operation'', opt_str (map_option od_operation delta)),
       (''source_event_id'', opt_str (Option.bind delta od_source_event_id)), (''tenant_id'', tenant), (''node_id'', node),
       (''expected_change_index'', case expected_index of None \<Rightarrow> VNone | Some i \<Rightarrow> VInt (int i))]))))"

definition make_result ::
    "env \<Rightarrow> classification \<Rightarrow> observed_delta option \<Rightarrow> pydict option \<Rightarrow> ustring \<Rightarrow> nat option \<Rightarrow> pydict res" where
  "make_result E cls delta intent reason expected_index =
     ebind (result_core cls delta intent reason expected_index) (\<lambda>core.
     ebind (content_identity E ''decision:'' ''reconciliation-decision-v1'' core) (\<lambda>decision.
     Inr (dict_put core ''decision_id'' (VStr decision))))"

section \<open>Classification\<close>

text \<open>\<open>exact_scope_indexes\<close>\<close>

fun scope_indexes :: "observed_delta \<Rightarrow> nat \<Rightarrow> pyval list \<Rightarrow> nat list res" where
  "scope_indexes delta i [] = Inr []"
| "scope_indexes delta i (change # changes) =
     ebind (item change ''selector'') (\<lambda>selector.
     ebind (if selector = VStr (od_selector delta)
            then ebind (item change ''operation'') (\<lambda>operation. Inr (operation = VStr (od_operation delta)))
            else Inr False) (\<lambda>matches.
     ebind (scope_indexes delta (i + 1) changes) (\<lambda>rest.
     Inr (if matches then i # rest else rest))))"

definition only_index :: "nat list \<Rightarrow> nat option" where
  "only_index ix = (case ix of [i] \<Rightarrow> Some i | _ \<Rightarrow> None)"

text \<open>\<open>change["before_digest"] == delta.before_digest and ...\<close>\<close>

definition exact_diff :: "pyval \<Rightarrow> observed_delta \<Rightarrow> bool res" where
  "exact_diff change delta =
     ebind (item change ''before_digest'') (\<lambda>before.
     if before \<noteq> opt_str (od_before_digest delta) then Inr False
     else ebind (item change ''after_digest'') (\<lambda>after. Inr (after = opt_str (od_after_digest delta))))"

definition classify_exact :: "bool \<Rightarrow> post_check \<Rightarrow> classification \<times> string" where
  "classify_exact exact check =
     (if \<not> exact then (AUTHORIZED_PARTIAL, ''inside scope but observed before/after digest is not the exact intended diff'')
      else case check of
        PASS \<Rightarrow> (AUTHORIZED_SUCCESS, ''exact prior intent, exact diff and post-check PASS'')
      | FAIL \<Rightarrow> (AUTHORIZED_FAILED, ''exact intended diff observed but required post-check failed'')
      | _ \<Rightarrow> (AUTHORIZED_PARTIAL, ''exact intended diff observed but post-check is incomplete''))"

text \<open>The checks after those of tenant and node, for an observation at \<open>observed_at\<close>.\<close>

definition classify_on_target ::
    "pydict \<Rightarrow> pyval list \<Rightarrow> datetime \<Rightarrow> datetime \<Rightarrow> datetime \<Rightarrow> datetime \<Rightarrow> observed_delta \<Rightarrow>
     (classification \<times> string \<times> nat option \<times> nat option) res" where
  "classify_on_target intent expected created_at valid_from valid_until observed_at delta =
     (if \<not> od_evidence_complete delta then Inr (SENSOR_GAP, ''observation evidence is incomplete'', None, None)
      else ebind (scope_indexes delta 0 expected) (\<lambda>ix.
      if truthy (dict_get intent ''retrospective'') \<or> instant observed_at < instant created_at
      then Inr (RETROSPECTIVE_CLAIM, ''ChangeIntent was created after the observation'', only_index ix, None)
      else if instant observed_at < instant valid_from \<or> instant valid_until < instant observed_at
      then Inr (UNRECORDED_CHANGE, ''ChangeIntent was not valid at observation time'', only_index ix, None)
      else if 1 < length ix
      then Inr (AMBIGUOUS, ''multiple expected changes match the same selector and operation'', None, None)
      else case ix of
        [] \<Rightarrow> Inr (SCOPE_BREACH, ''observed selector or operation is outside intent scope'', None, None)
      | i # _ \<Rightarrow>
          ebind (exact_diff (expected ! i) delta) (\<lambda>exact.
          case classify_exact exact (od_post_check delta) of (cls, reason) \<Rightarrow>
          Inr (cls, reason, Some i, Some i))))"

definition classify_delta ::
    "pydict \<Rightarrow> pyval list \<Rightarrow> datetime \<Rightarrow> datetime \<Rightarrow> datetime \<Rightarrow> observed_delta \<Rightarrow>
     (classification \<times> string \<times> nat option \<times> nat option) res" where
  "classify_delta intent expected created_at valid_from valid_until delta =
     ebind (intent_parse_time (VStr (od_observed_at delta))) (\<lambda>observed_at.
     ebind (field intent ''tenant_id'') (\<lambda>tenant.
     ebind (if tenant \<noteq> VStr (od_tenant_id delta) then Inr False
            else ebind (ebind (field intent ''target'') (\<lambda>t. item t ''node_id'')) (\<lambda>node.
                 Inr (node = VStr (od_node_id delta)))) (\<lambda>on_target.
     if \<not> on_target then Inr (SCOPE_BREACH, ''observed tenant or node is outside intent target'', None, None)
     else classify_on_target intent expected created_at valid_from valid_until observed_at delta)))"

text \<open>The loop over the observations: the results and the matched indexes.\<close>

fun reconcile_loop ::
    "env \<Rightarrow> pydict \<Rightarrow> pyval list \<Rightarrow> datetime \<Rightarrow> datetime \<Rightarrow> datetime \<Rightarrow> observed_delta list \<Rightarrow> (pydict list \<times> nat list) res" where
  "reconcile_loop E intent expected created_at valid_from valid_until [] = Inr ([], [])"
| "reconcile_loop E intent expected created_at valid_from valid_until (delta # deltas) =
     ebind (classify_delta intent expected created_at valid_from valid_until delta) (\<lambda>(cls, reason, shown, matched).
     ebind (make_result E cls (Some delta) (Some intent) (lit reason) shown) (\<lambda>result.
     ebind (reconcile_loop E intent expected created_at valid_from valid_until deltas) (\<lambda>(results, rest).
     Inr (result # results, (case matched of None \<Rightarrow> [] | Some i \<Rightarrow> [i]) @ rest))))"

definition missing_indexes :: "nat \<Rightarrow> nat list \<Rightarrow> nat list" where
  "missing_indexes n matched = filter (\<lambda>i. i \<notin> set matched) [0..<n]"

definition missing_reason :: "nat \<Rightarrow> ustring" where
  "missing_reason i = lit ''expected change '' @ nat_digits (int i) @ lit '' was not observed''"

definition reconcile ::
    "env \<Rightarrow> pydict option \<Rightarrow> observed_delta list \<Rightarrow> trusted_key option \<Rightarrow> pydict list res" where
  "reconcile E intent observed authority_key =
     (case intent of
        None \<Rightarrow>
          map_res (\<lambda>delta.
            if od_evidence_complete delta
            then make_result E UNRECORDED_CHANGE (Some delta) None (lit ''no applicable prior ChangeIntent'') None
            else make_result E SENSOR_GAP (Some delta) None (lit ''observation evidence is incomplete'') None) observed
      | Some d \<Rightarrow>
          (case authority_key of
             None \<Rightarrow> raise IntentVerificationError ''trusted ChangeIntent authority key is required''
           | Some key \<Rightarrow>
               ebind (verify_change_intent E d key) (\<lambda>_.
               ebind (ebind (field d ''expected_changes'') elements) (\<lambda>expected.
               ebind (ebind (field d ''created_at'') intent_parse_time) (\<lambda>created_at.
               ebind (ebind (field d ''valid_from'') intent_parse_time) (\<lambda>valid_from.
               ebind (ebind (field d ''valid_until'') intent_parse_time) (\<lambda>valid_until.
               if observed = [] then
                 ebind (make_result E PLANNED_NOT_OBSERVED None (Some d) (lit ''valid intent has no observed change'') None)
                   (\<lambda>result. Inr [result])
               else
                 ebind (reconcile_loop E d expected created_at valid_from valid_until observed) (\<lambda>(results, matched).
                 ebind (map_res (\<lambda>i. make_result E (if matched \<noteq> [] then AUTHORIZED_PARTIAL else PLANNED_NOT_OBSERVED)
                          None (Some d) (missing_reason i) (Some i)) (missing_indexes (length expected) matched)) (\<lambda>absent.
                 Inr (results @ absent))))))))))"

section \<open>Specification\<close>

definition change_matches :: "pyval \<Rightarrow> observed_delta \<Rightarrow> bool" where
  "change_matches change delta \<longleftrightarrow>
     item change ''selector'' = Inr (VStr (od_selector delta)) \<and> item change ''operation'' = Inr (VStr (od_operation delta))"

definition time_member :: "pydict \<Rightarrow> string \<Rightarrow> datetime res" where
  "time_member d k = ebind (field d k) intent_parse_time"

text \<open>What it means that an observation is exactly what the intent announced.\<close>

definition exactly_authorized :: "pydict \<Rightarrow> observed_delta \<Rightarrow> bool" where
  "exactly_authorized intent delta \<longleftrightarrow>
     dict_find intent ''tenant_id'' = Some (VStr (od_tenant_id delta)) \<and>
     (\<exists>t. dict_find intent ''target'' = Some t \<and> item t ''node_id'' = Inr (VStr (od_node_id delta))) \<and>
     od_evidence_complete delta \<and> od_post_check delta = PASS \<and> \<not> truthy (dict_get intent ''retrospective'') \<and>
     (\<exists>at created from until. intent_parse_time (VStr (od_observed_at delta)) = Inr at \<and>
        time_member intent ''created_at'' = Inr created \<and> time_member intent ''valid_from'' = Inr from \<and>
        time_member intent ''valid_until'' = Inr until \<and>
        instant created \<le> instant at \<and> instant from \<le> instant at \<and> instant at \<le> instant until) \<and>
     (\<exists>changes j. dict_find intent ''expected_changes'' = Some (VList changes) \<and> j < length changes \<and>
        (\<forall>k < length changes. change_matches (changes ! k) delta \<longleftrightarrow> k = j) \<and>
        item (changes ! j) ''before_digest'' = Inr (opt_str (od_before_digest delta)) \<and>
        item (changes ! j) ''after_digest'' = Inr (opt_str (od_after_digest delta)))"

section \<open>Facts\<close>

interpretation ci: authorization_signing "''change-intent-v1''" intent_signature_payload sign_change_intent
  unfolding intent_signature_payload_def sign_change_intent_def
  by (rule authorization_signing_instance) simp

lemma elements_Inr [res_simps]: "elements v = Inr xs \<longleftrightarrow> v = VList xs"
  by (cases v) (simp_all add: elements_def)

lemma classification_value_inject: "classification_value a = classification_value b \<longleftrightarrow> a = b"
  by (cases a; cases b) simp_all

lemma scope_indexes_Inr:
  "scope_indexes delta i changes = Inr ix \<Longrightarrow>
   ix = filter (\<lambda>k. change_matches (changes ! (k - i)) delta) [i..<i + length changes]"
proof (induction changes arbitrary: i ix)
  case Nil
  then show ?case by simp
next
  case (Cons change changes)
  obtain rest where rest: "scope_indexes delta (i + 1) changes = Inr rest"
    and ix: "ix = (if change_matches change delta then i # rest else rest)"
    using Cons.prems by (auto simp: res_simps change_matches_def split: if_splits)
  have "rest = filter (\<lambda>k. change_matches (changes ! (k - (i + 1))) delta) [i + 1..<i + 1 + length changes]"
    by (rule Cons.IH [OF rest])
  also have "\<dots> = filter (\<lambda>k. change_matches ((change # changes) ! (k - i)) delta) [i + 1..<i + 1 + length changes]"
    by (intro filter_cong refl) (auto simp: nth_Cons')
  finally have rest': "rest = \<dots>" .
  have "[i..<i + length (change # changes)] = i # [i + 1..<i + 1 + length changes]" 
    using upt_conv_Cons [of i "i + length (change # changes)"] by (simp del: upt_Suc)
  then show ?case unfolding ix rest' by simp
qed

lemma only_index_Some: "only_index ix = Some i \<longleftrightarrow> ix = [i]"
  by (auto simp: only_index_def split: list.splits)

lemma filter_upt_one: "filter P [0..<n] = [j] \<longleftrightarrow> j < n \<and> (\<forall>k < n. P k \<longleftrightarrow> k = j)"
proof
  assume "filter P [0..<n] = [j]"
  then have "set (filter P [0..<n]) = {j}" by simp
  then show "j < n \<and> (\<forall>k < n. P k \<longleftrightarrow> k = j)" by auto
next
  assume *: "j < n \<and> (\<forall>k < n. P k \<longleftrightarrow> k = j)"
  then have "filter P [0..<n] = filter (\<lambda>k. k = j) [0..<n]" by (intro filter_cong) auto
  also have "\<dots> = [j]" using * by (induction n) (auto simp: less_Suc_eq filter_empty_conv)
  finally show "filter P [0..<n] = [j]" .
qed

lemma exact_diff_True:
  "exact_diff change delta = Inr True \<longleftrightarrow>
   item change ''before_digest'' = Inr (opt_str (od_before_digest delta)) \<and>
   item change ''after_digest'' = Inr (opt_str (od_after_digest delta))"
  by (auto simp: exact_diff_def res_simps split: if_splits)

lemma classify_exact_success:
  "fst (classify_exact exact check) = AUTHORIZED_SUCCESS \<longleftrightarrow> exact \<and> check = PASS"
  by (auto simp: classify_exact_def split: post_check.splits)

lemma result_fields:
  assumes "make_result E cls delta intent reason i = Inr r"
  shows "dict_find r ''classification'' = Some (vlit (classification_value cls))"
    "dict_find r ''expected_change_index'' = Some (case i of None \<Rightarrow> VNone | Some n \<Rightarrow> VInt (int n))"
    "dict_find r ''selector'' = Some (opt_str (map_option od_selector delta))"
  using assms by (auto simp: make_result_def result_core_def res_simps dict_find_put dict_find_mk)

lemma classify_on_target_success:
  assumes "classify_on_target intent changes created vf vu at delta = Inr (cls, reason, shown, matched)"
  shows "cls = AUTHORIZED_SUCCESS \<longleftrightarrow>
    od_evidence_complete delta \<and> od_post_check delta = PASS \<and> \<not> truthy (dict_get intent ''retrospective'') \<and>
    instant created \<le> instant at \<and> instant vf \<le> instant at \<and> instant at \<le> instant vu \<and>
    (\<exists>j < length changes. (\<forall>k < length changes. change_matches (changes ! k) delta \<longleftrightarrow> k = j) \<and>
       exact_diff (changes ! j) delta = Inr True)"
proof (cases "od_evidence_complete delta")
  case False
  then show ?thesis using assms by (auto simp: classify_on_target_def)
next
  case True
  then obtain ix where ix: "scope_indexes delta 0 changes = Inr ix"
    using assms by (auto simp: classify_on_target_def res_simps)
  have found: "ix = filter (\<lambda>k. change_matches (changes ! k) delta) [0..<length changes]"
    using scope_indexes_Inr [OF ix] by simp
  have one: "(\<exists>j. ix = [j] \<and> P j) \<longleftrightarrow>
      (\<exists>j < length changes. (\<forall>k < length changes. change_matches (changes ! k) delta \<longleftrightarrow> k = j) \<and> P j)" for P
    unfolding found filter_upt_one conj_assoc by (rule refl)
  have "cls = AUTHORIZED_SUCCESS \<longleftrightarrow> od_post_check delta = PASS \<and> \<not> truthy (dict_get intent ''retrospective'') \<and>
      instant created \<le> instant at \<and> instant vf \<le> instant at \<and> instant at \<le> instant vu \<and>
      (\<exists>j. ix = [j] \<and> exact_diff (changes ! j) delta = Inr True)"
  proof (cases ix)
    case Nil
    then show ?thesis using assms ix True by (auto simp: classify_on_target_def split: if_splits)
  next
    case (Cons i rest)
    show ?thesis
    proof (cases "\<not> truthy (dict_get intent ''retrospective'') \<and> instant created \<le> instant at \<and>
        instant vf \<le> instant at \<and> instant at \<le> instant vu \<and> rest = []")
      case live: True
      then have "ebind (exact_diff (changes ! i) delta) (\<lambda>exact. case classify_exact exact (od_post_check delta) of (c, r) \<Rightarrow>
          Inr (c, r, Some i, Some i)) = Inr (cls, reason, shown, matched)"
        using assms ix True Cons by (simp add: classify_on_target_def)
      then obtain exact where "exact_diff (changes ! i) delta = Inr exact" "classify_exact exact (od_post_check delta) = (cls, reason)"
        unfolding ebind_eq_Inr by (auto simp: case_prod_beta prod_eq_iff)
      then show ?thesis using live Cons classify_exact_success [of exact "od_post_check delta"] by auto
    next
      case False
      then show ?thesis using assms ix True Cons by (auto simp: classify_on_target_def split: if_splits)
    qed
  qed
  then show ?thesis using True one by simp
qed

lemma classify_delta_success:
  assumes "classify_delta intent changes created vf vu delta = Inr (cls, reason, shown, matched)"
    and "dict_find intent ''expected_changes'' = Some (VList changes)"
    and "time_member intent ''created_at'' = Inr created" "time_member intent ''valid_from'' = Inr vf"
    and "time_member intent ''valid_until'' = Inr vu"
  shows "cls = AUTHORIZED_SUCCESS \<longleftrightarrow> exactly_authorized intent delta"
proof -
  obtain at tenant on_target where p: "intent_parse_time (VStr (od_observed_at delta)) = Inr at"
    "dict_find intent ''tenant_id'' = Some tenant"
    "(if tenant \<noteq> VStr (od_tenant_id delta) then Inr False
      else ebind (ebind (field intent ''target'') (\<lambda>t. item t ''node_id'')) (\<lambda>node. Inr (node = VStr (od_node_id delta)))) = Inr on_target"
    and rest: "(if \<not> on_target then Inr (SCOPE_BREACH, ''observed tenant or node is outside intent target'', None, None)
      else classify_on_target intent changes created vf vu at delta) = Inr (cls, reason, shown, matched)"
    using assms(1) unfolding classify_delta_def res_simps by blast
  have target: "on_target \<longleftrightarrow> tenant = VStr (od_tenant_id delta) \<and>
      (\<exists>t. dict_find intent ''target'' = Some t \<and> item t ''node_id'' = Inr (VStr (od_node_id delta)))"
    using p(3) by (auto simp: res_simps split: if_splits)
  show ?thesis
  proof (cases on_target)
    case False
    then have "cls = SCOPE_BREACH" using rest by simp
    then show ?thesis using False p(2) target by (auto simp: exactly_authorized_def)
  next
    case True
    then show ?thesis
      using classify_on_target_success [of intent changes created vf vu at delta cls reason shown matched] rest
        assms(2-5) p(1,2) target by (auto simp: exactly_authorized_def exact_diff_True)
  qed
qed

lemma reconcile_loop_nth:
  assumes "reconcile_loop E intent changes created vf vu deltas = Inr (results, matched)"
  shows "length results = length deltas \<and>
    (\<forall>i < length deltas. \<exists>cls reason shown m. classify_delta intent changes created vf vu (deltas ! i) = Inr (cls, reason, shown, m) \<and>
       make_result E cls (Some (deltas ! i)) (Some intent) (lit reason) shown = Inr (results ! i)) \<and>
    (\<forall>j \<in> set matched. \<exists>i < length deltas. \<exists>cls reason shown.
       classify_delta intent changes created vf vu (deltas ! i) = Inr (cls, reason, shown, Some j))"
  using assms
proof (induction deltas arbitrary: results matched)
  case Nil
  then show ?case by simp
next
  case (Cons d ds)
  obtain cls reason shown m r rs ms where *: "classify_delta intent changes created vf vu d = Inr (cls, reason, shown, m)"
    "make_result E cls (Some d) (Some intent) (lit reason) shown = Inr r"
    "reconcile_loop E intent changes created vf vu ds = Inr (rs, ms)"
    "results = r # rs" "matched = (case m of None \<Rightarrow> [] | Some i \<Rightarrow> [i]) @ ms"
    using Cons.prems by (auto simp: res_simps)
  note IH = Cons.IH [OF *(3)]
  have all: "(\<forall>i < length (d # ds). P i) \<longleftrightarrow> P 0 \<and> (\<forall>i < length ds. P (Suc i))" for P
    by (auto simp: less_Suc_eq_0_disj)
  have ex: "(\<exists>i < length (d # ds). P i) \<longleftrightarrow> P 0 \<or> (\<exists>i < length ds. P (Suc i))" for P
    by (auto simp: less_Suc_eq_0_disj)
  show ?case unfolding all ex using * IH by (auto split: option.splits)
qed

text \<open>A matched change is reported under its index.\<close>

lemma classify_delta_matched:
  assumes "classify_delta intent changes created vf vu delta = Inr (cls, reason, shown, Some j)"
  shows "shown = Some j \<and> cls \<in> {AUTHORIZED_SUCCESS, AUTHORIZED_FAILED, AUTHORIZED_PARTIAL}"
proof -
  obtain at where "classify_on_target intent changes created vf vu at delta = Inr (cls, reason, shown, Some j)"
    using assms unfolding classify_delta_def res_simps by (auto split: if_splits)
  then show ?thesis
    by (auto simp: classify_on_target_def classify_exact_def res_simps
        split: if_splits list.splits prod.splits post_check.splits)
qed

lemma reconcile_Some:
  assumes "reconcile E (Some intent) observed (Some key) = Inr results" "observed \<noteq> []"
  obtains changes created vf vu rs matched absent where
    "verify_change_intent E intent key = Inr ()" "dict_find intent ''expected_changes'' = Some (VList changes)"
    "time_member intent ''created_at'' = Inr created" "time_member intent ''valid_from'' = Inr vf"
    "time_member intent ''valid_until'' = Inr vu"
    "reconcile_loop E intent changes created vf vu observed = Inr (rs, matched)"
    "map_res (\<lambda>i. make_result E (if matched \<noteq> [] then AUTHORIZED_PARTIAL else PLANNED_NOT_OBSERVED)
       None (Some intent) (missing_reason i) (Some i)) (missing_indexes (length changes) matched) = Inr absent"
    "results = rs @ absent"
  using assms unfolding reconcile_def option.case res_simps time_member_def
  by (auto simp: res_simps split: if_splits)

lemma reconcile_results_nth:
  assumes "reconcile E (Some intent) observed (Some key) = Inr results" "i < length observed"
  shows "\<exists>cls. dict_find (results ! i) ''classification'' = Some (vlit (classification_value cls)) \<and>
    (cls = AUTHORIZED_SUCCESS \<longleftrightarrow> exactly_authorized intent (observed ! i))"
proof -
  have "observed \<noteq> []" using assms(2) by auto
  with assms(1) show ?thesis
  proof (rule reconcile_Some)
    fix changes created vf vu rs matched absent
    assume facts: "dict_find intent ''expected_changes'' = Some (VList changes)"
      "time_member intent ''created_at'' = Inr created" "time_member intent ''valid_from'' = Inr vf"
      "time_member intent ''valid_until'' = Inr vu"
      and loop: "reconcile_loop E intent changes created vf vu observed = Inr (rs, matched)" and results: "results = rs @ absent"
    obtain cls reason shown m where c: "classify_delta intent changes created vf vu (observed ! i) = Inr (cls, reason, shown, m)"
      "make_result E cls (Some (observed ! i)) (Some intent) (lit reason) shown = Inr (rs ! i)"
      using reconcile_loop_nth [OF loop] assms(2) by blast
    have "results ! i = rs ! i" using reconcile_loop_nth [OF loop] assms(2) by (simp add: results nth_append)
    then show ?thesis using result_fields(1) [OF c(2)] classify_delta_success [OF c(1) facts] by auto
  qed
qed

section \<open>Properties\<close>

text \<open>
  C13. An observation is classified as an authorized success exactly when it is what the intent
  announced: same tenant and node, complete evidence, an intent that is not retrospective and
  whose creation and validity cover the observation, one and only one expected change with
  that selector and operation, the exact digests before and after, and a passed post-check;
  and the authority's signature on the intent has been verified.
\<close>

theorem authorized_success_iff_exact:
  assumes "reconcile E (Some intent) observed (Some key) = Inr results" "i < length observed"
  shows "verify_change_intent E intent key = Inr () \<and>
    (dict_find (results ! i) ''classification'' = Some (vlit ''authorized_success'') \<longleftrightarrow> exactly_authorized intent (observed ! i))"
proof -
  have "verify_change_intent E intent key = Inr ()"
    using assms(1) unfolding reconcile_def option.case res_simps by auto
  moreover obtain cls where "dict_find (results ! i) ''classification'' = Some (vlit (classification_value cls))"
    "cls = AUTHORIZED_SUCCESS \<longleftrightarrow> exactly_authorized intent (observed ! i)"
    using reconcile_results_nth [OF assms] by blast
  moreover have "classification_value cls = ''authorized_success'' \<longleftrightarrow> cls = AUTHORIZED_SUCCESS"
    using classification_value_inject [of cls AUTHORIZED_SUCCESS] by simp
  ultimately show ?thesis by simp
qed

definition demo_intent :: pydict where
  "demo_intent =
     mk_dict [(''intent_id'', vlit ''intent:one''), (''tenant_id'', vlit ''tenant:a''),
       (''target'', VDict (mk_dict [(''node_id'', vlit ''node:a'')])),
       (''created_at'', vlit ''2026-01-01T00:00:00Z''), (''valid_from'', vlit ''2026-01-01T00:00:00Z''),
       (''valid_until'', vlit ''2027-01-01T00:00:00Z''),
       (''scope'', VDict (mk_dict [(''selectors'', VList [vlit ''file:a'']), (''operations'', VList [vlit ''write''])])),
       (''expected_changes'', VList [VDict (mk_dict [(''selector'', vlit ''file:a''), (''operation'', vlit ''write''),
          (''before_digest'', VNone), (''after_digest'', vlit ''sha256:00'')])]),
       (''authorization'', VDict (mk_dict [(''authority_id'', vlit ''key:demo'')]))]"

definition demo_delta :: observed_delta where
  "demo_delta = \<lparr>od_tenant_id = lit ''tenant:a'', od_node_id = lit ''node:a'', od_selector = lit ''file:a'',
     od_operation = lit ''write'', od_observed_at = lit ''2026-06-01T12:00:00Z'', od_before_digest = None,
     od_after_digest = Some (lit ''sha256:00''), od_post_check = PASS, od_evidence_complete = True,
     od_source_event_id = Some (lit ''event:one'')\<rparr>"

lemma demo_intent_signed:
  obtains d where "sign_change_intent demo_env demo_signer demo_intent = Inr d"
    "verify_change_intent demo_env d demo_key = Inr ()" "encodable (VDict d)" "py_wf (VDict d)"
    "\<And>k. k \<noteq> ''authorization'' \<Longrightarrow> dict_find d k = dict_find demo_intent k"
proof -
  have "succeeds (\<lambda>d. verify_change_intent demo_env d demo_key = Inr () \<and> encodable (VDict d) \<and> py_wf (VDict d))
      (sign_change_intent demo_env demo_signer demo_intent)"
    by code_simp
  then obtain d where "sign_change_intent demo_env demo_signer demo_intent = Inr d"
    "verify_change_intent demo_env d demo_key = Inr ()" "encodable (VDict d)" "py_wf (VDict d)"
    by (blast dest: succeedsD)
  then show thesis using that ci.sign_document_fields by blast
qed

lemma demo_reconciled:
  assumes "verify_change_intent demo_env d demo_key = Inr ()"
    and "\<And>k. k \<noteq> ''authorization'' \<Longrightarrow> dict_find d k = dict_find demo_intent k"
  shows "\<exists>r h. reconcile demo_env (Some d) [demo_delta] (Some demo_key) = Inr [r] \<and>
    r = dict_put (mk_dict [(''classification'', vlit ''authorized_success''), (''reason'', vlit ''exact prior intent, exact diff and post-check PASS''),
       (''intent_id'', vlit ''intent:one''), (''selector'', vlit ''file:a''), (''operation'', vlit ''write''),
       (''source_event_id'', vlit ''event:one''), (''tenant_id'', vlit ''tenant:a''), (''node_id'', vlit ''node:a''),
       (''expected_change_index'', VInt 0)]) ''decision_id'' (VStr (lit ''decision:'' @ hex h))"
proof -
  note f = assms(2) demo_intent_def dict_find_mk item_def demo_delta_def
  have times: "intent_parse_time (vlit ''2026-01-01T00:00:00Z'') = Inr \<lparr>dt_local = 63902908800000000, dt_offset = Some 0\<rparr>"
    "intent_parse_time (vlit ''2027-01-01T00:00:00Z'') = Inr \<lparr>dt_local = 63934444800000000, dt_offset = Some 0\<rparr>"
    "intent_parse_time (vlit ''2026-06-01T12:00:00Z'') = Inr \<lparr>dt_local = 63915998400000000, dt_offset = Some 0\<rparr>"
    by code_simp+
  let ?core = "mk_dict [(''classification'', vlit ''authorized_success''), (''reason'', vlit ''exact prior intent, exact diff and post-check PASS''),
       (''intent_id'', vlit ''intent:one''), (''selector'', vlit ''file:a''), (''operation'', vlit ''write''),
       (''source_event_id'', vlit ''event:one''), (''tenant_id'', vlit ''tenant:a''), (''node_id'', vlit ''node:a''),
       (''expected_change_index'', VInt 0)]"
  have "encodable (VDict ?core)" "plain_domain ''reconciliation-decision-v1''" by code_simp+
  then obtain h where h: "content_identity demo_env ''decision:'' ''reconciliation-decision-v1'' ?core = Inr (lit ''decision:'' @ hex h)"
    using content_identity_encodable by blast
  have made: "make_result demo_env AUTHORIZED_SUCCESS (Some demo_delta) (Some d)
      (lit ''exact prior intent, exact diff and post-check PASS'') (Some 0) = Inr (dict_put ?core ''decision_id'' (VStr (lit ''decision:'' @ hex h)))"
    using h by (simp add: make_result_def result_core_def f opt_str_def)
  have cls: "classify_delta d [VDict (mk_dict [(''selector'', vlit ''file:a''), (''operation'', vlit ''write''),
          (''before_digest'', VNone), (''after_digest'', vlit ''sha256:00'')])] \<lparr>dt_local = 63902908800000000, dt_offset = Some 0\<rparr>
      \<lparr>dt_local = 63902908800000000, dt_offset = Some 0\<rparr> \<lparr>dt_local = 63934444800000000, dt_offset = Some 0\<rparr> demo_delta =
      Inr (AUTHORIZED_SUCCESS, ''exact prior intent, exact diff and post-check PASS'', Some 0, Some 0)"
    using times by (simp add: classify_delta_def classify_on_target_def f instant_def dict_get_def exact_diff_def opt_str_def classify_exact_def)
  have "reconcile demo_env (Some d) [demo_delta] (Some demo_key) = Inr [dict_put ?core ''decision_id'' (VStr (lit ''decision:'' @ hex h))]"
    using assms(1) times cls made by (simp add: reconcile_def f(1,2,3,4) elements_def missing_indexes_def)
  then show ?thesis by blast
qed

theorem authorized_success_iff_exact_witness:
  "\<exists>d results. reconcile demo_env (Some d) [demo_delta] (Some demo_key) = Inr results \<and> exactly_authorized d demo_delta"
proof -
  obtain d where d: "verify_change_intent demo_env d demo_key = Inr ()"
    "\<And>k. k \<noteq> ''authorization'' \<Longrightarrow> dict_find d k = dict_find demo_intent k" by (rule demo_intent_signed) blast
  obtain r where r: "reconcile demo_env (Some d) [demo_delta] (Some demo_key) = Inr [r]"
    "dict_find r ''classification'' = Some (vlit ''authorized_success'')"
    using demo_reconciled [OF d] by (auto simp: dict_find_put dict_find_mk)
  from authorized_success_iff_exact [OF r(1), of 0] r show ?thesis by auto
qed

text \<open>
  Nothing is left out of a reconciliation: there is one result for every observation, in order,
  and every expected change of the intent appears under its index, in a result that counts as
  authorized when it was matched, or as partial or not observed when it was missing.
\<close>

theorem reconcile_accounts_for_everything:
  assumes "reconcile E (Some intent) observed (Some key) = Inr results" "observed \<noteq> []"
    and "dict_find intent ''expected_changes'' = Some (VList changes)"
  shows "length observed \<le> length results \<and>
    (\<forall>i < length observed. dict_find (results ! i) ''selector'' = Some (VStr (od_selector (observed ! i)))) \<and>
    (\<forall>j < length changes. \<exists>r \<in> set results. dict_find r ''expected_change_index'' = Some (VInt (int j)) \<and>
       (\<exists>cls \<in> {AUTHORIZED_SUCCESS, AUTHORIZED_FAILED, AUTHORIZED_PARTIAL, PLANNED_NOT_OBSERVED}.
          dict_find r ''classification'' = Some (vlit (classification_value cls))))"
  using assms(1,2)
proof (rule reconcile_Some)
  fix cs created vf vu rs matched absent
  assume "dict_find intent ''expected_changes'' = Some (VList cs)"
    and loop: "reconcile_loop E intent cs created vf vu observed = Inr (rs, matched)" and results: "results = rs @ absent"
    and absent: "map_res (\<lambda>i. make_result E (if matched \<noteq> [] then AUTHORIZED_PARTIAL else PLANNED_NOT_OBSERVED)
       None (Some intent) (missing_reason i) (Some i)) (missing_indexes (length cs) matched) = Inr absent"
  then have cs: "cs = changes" using assms(3) by simp
  note nth = reconcile_loop_nth [OF loop]
  have len: "length observed \<le> length results" using nth results by simp
  have sel: "dict_find (results ! i) ''selector'' = Some (VStr (od_selector (observed ! i)))" if i: "i < length observed" for i
  proof -
    have "results ! i = rs ! i" using nth i by (simp add: results nth_append)
    moreover obtain cls reason shown where "make_result E cls (Some (observed ! i)) (Some intent) (lit reason) shown = Inr (rs ! i)"
      using nth i by blast
    ultimately show ?thesis using result_fields(3) by (fastforce simp: opt_str_def)
  qed
  have idx: "\<exists>r \<in> set results. dict_find r ''expected_change_index'' = Some (VInt (int j)) \<and>
       (\<exists>cls \<in> {AUTHORIZED_SUCCESS, AUTHORIZED_FAILED, AUTHORIZED_PARTIAL, PLANNED_NOT_OBSERVED}.
          dict_find r ''classification'' = Some (vlit (classification_value cls)))" if j: "j < length changes" for j
  proof (cases "j \<in> set matched")
    case True
    then obtain i cls reason shown where i: "i < length observed"
      and c: "classify_delta intent cs created vf vu (observed ! i) = Inr (cls, reason, shown, Some j)" using nth by blast
    then have made: "make_result E cls (Some (observed ! i)) (Some intent) (lit reason) shown = Inr (rs ! i)" using nth by fastforce
    show ?thesis
      using classify_delta_matched [OF c] result_fields(1,2) [OF made] nth i by (intro bexI [of _ "rs ! i"]) (auto simp: results)
  next
    case False
    then have "j \<in> set (missing_indexes (length cs) matched)" using j by (simp add: missing_indexes_def cs)
    then obtain k where k: "k < length (missing_indexes (length cs) matched)" "missing_indexes (length cs) matched ! k = j"
      by (auto simp: in_set_conv_nth)
    have made: "make_result E (if matched \<noteq> [] then AUTHORIZED_PARTIAL else PLANNED_NOT_OBSERVED) None (Some intent)
        (missing_reason j) (Some j) = Inr (absent ! k)"
      using map_res_Inr_nth [OF absent k(1)] k(2) by simp
    show ?thesis
      using result_fields(1,2) [OF made] map_res_Inr_length [OF absent] k(1)
      by (intro bexI [of _ "absent ! k"]) (auto simp: results)
  qed
  show ?thesis using len sel idx by blast
qed

theorem reconcile_accounts_for_everything_witness:
  "\<exists>d results. reconcile demo_env (Some d) [demo_delta] (Some demo_key) = Inr results \<and> length [demo_delta] \<le> length results"
proof -
  obtain d where d: "verify_change_intent demo_env d demo_key = Inr ()"
    "\<And>k. k \<noteq> ''authorization'' \<Longrightarrow> dict_find d k = dict_find demo_intent k" by (rule demo_intent_signed) blast
  obtain results where r: "reconcile demo_env (Some d) [demo_delta] (Some demo_key) = Inr results"
    using demo_reconciled [OF d] by blast
  have "\<exists>cs. dict_find d ''expected_changes'' = Some (VList cs)" using d(2) by (simp add: demo_intent_def dict_find_mk)
  then show ?thesis using reconcile_accounts_for_everything [OF r] r by blast
qed

end
