(* ===== verification/IntentCustody.thy ===== *)
theory IntentCustody
  imports Reconciler Reread Transactions
begin

text \<open>
  \<open>intent_custody.py\<close>: one-use custody of signed change intents in a local database, with
  reservation, consumption against independent observations, abandonment and the receipts that
  close a reservation. The current time is an argument (\<open>clock\<close>) that is used when the caller
  gives none.
\<close>

section \<open>State\<close>

datatype custody_status = RESERVED | CONSUMED | ABANDONED

record custody_row =
  cr_tenant_id :: ustring
  cr_intent_id :: ustring
  cr_intent_digest :: ustring
  cr_holder :: ustring
  cr_reservation_id :: ustring
  cr_status :: custody_status
  cr_reserved_at :: ustring
  cr_closed_at :: "ustring option"
  cr_receipt_json :: "bytes option"

type_synonym custody_db = "custody_row list"

record intent_custody =
  ic_tenant_id :: ustring
  ic_authority_key :: trusted_key
  ic_signer :: "ed25519_signer option"

record intent_reservation =
  ir_tenant_id :: ustring
  ir_intent_id :: ustring
  ir_intent_digest :: ustring
  ir_holder :: ustring
  ir_reservation_id :: ustring
  ir_reserved_at :: ustring

text \<open>The constructor; opening creates the table when it is missing.\<close>

definition open_custody :: "pyval \<Rightarrow> pyval \<Rightarrow> trusted_key \<Rightarrow> ed25519_signer option \<Rightarrow> intent_custody res" where
  "open_custody busy_timeout_ms tenant_id authority_key signer =
     (case busy_timeout_ms of
        VInt n \<Rightarrow>
          ensure (0 \<le> n \<and> n \<le> 60000) ValueError ''custody busy timeout must be between 0 and 60000 milliseconds''
          (case tenant_id of
             VStr t \<Rightarrow>
               ensure (t \<noteq> []) ValueError ''custody tenant_id is required''
                 (Inr \<lparr>ic_tenant_id = t, ic_authority_key = authority_key, ic_signer = signer\<rparr>)
           | _ \<Rightarrow> raise ValueError ''custody tenant_id is required'')
      | _ \<Rightarrow> raise ValueError ''custody busy timeout must be between 0 and 60000 milliseconds'')"

definition custody_timestamp :: "datetime \<Rightarrow> datetime option \<Rightarrow> datetime res" where
  "custody_timestamp clock now =
     (let current = (case now of None \<Rightarrow> clock | Some t \<Rightarrow> t) in
      ensure (dt_offset current \<noteq> None) IntentCustodyError ''custody time must include a timezone''
        (astimezone_utc current))"

definition render :: "datetime \<Rightarrow> ustring" where
  "render t = utc_suffix (isoformat True t)"

definition intent_digest :: "env \<Rightarrow> pydict \<Rightarrow> ustring res" where
  "intent_digest E intent = digest_object E (VDict intent) (lit ''change-intent-custody-v1'')"

definition custody_find :: "intent_custody \<Rightarrow> ustring \<Rightarrow> custody_db \<Rightarrow> custody_row option" where
  "custody_find C intent_id db = find (\<lambda>r. cr_tenant_id r = ic_tenant_id C \<and> cr_intent_id r = intent_id) db"

primrec custody_status_value :: "custody_status \<Rightarrow> string" where
  "custody_status_value RESERVED = ''reserved''"
| "custody_status_value CONSUMED = ''consumed''"
| "custody_status_value ABANDONED = ''abandoned''"

definition custody_state :: "intent_custody \<Rightarrow> custody_db \<Rightarrow> ustring \<Rightarrow> pydict option" where
  "custody_state C db intent_id =
     map_option (\<lambda>r. mk_dict [(''tenant_id'', VStr (cr_tenant_id r)), (''intent_id'', VStr (cr_intent_id r)),
       (''intent_digest'', VStr (cr_intent_digest r)), (''holder'', VStr (cr_holder r)),
       (''status'', vlit (custody_status_value (cr_status r))), (''reserved_at'', VStr (cr_reserved_at r)),
       (''closed_at'', opt_str (cr_closed_at r))]) (custody_find C intent_id db)"

definition custody_receipt :: "intent_custody \<Rightarrow> custody_db \<Rightarrow> ustring \<Rightarrow> pyval option res" where
  "custody_receipt C db intent_id =
     (case Option.bind (custody_find C intent_id db) cr_receipt_json of
        None \<Rightarrow> Inr None
      | Some json \<Rightarrow> ebind (parse_json_strict (DocBytes json)) (\<lambda>v. Inr (Some v)))"

section \<open>Reservation\<close>

definition holder_ok :: "env \<Rightarrow> ustring \<Rightarrow> bool" where
  "holder_ok E holder \<longleftrightarrow> holder \<noteq> [] \<and> length holder \<le> 256 \<and> \<not> (\<exists>c \<in> set holder. char_isspace E c)"

definition reservation_core :: "ustring \<Rightarrow> pyval \<Rightarrow> ustring \<Rightarrow> ustring \<Rightarrow> ustring \<Rightarrow> pydict" where
  "reservation_core tenant_id intent_id digest holder reserved_at =
     mk_dict [(''tenant_id'', VStr tenant_id), (''intent_id'', intent_id), (''intent_digest'', VStr digest),
       (''holder'', VStr holder), (''reserved_at'', VStr reserved_at)]"

text \<open>Everything \<open>reserve\<close> does before its transaction.\<close>

definition reserve_request ::
    "env \<Rightarrow> intent_custody \<Rightarrow> datetime \<Rightarrow> pydict \<Rightarrow> pyval \<Rightarrow> datetime option \<Rightarrow> intent_reservation res" where
  "reserve_request E C clock intent holder now =
     (case holder of
        VStr h \<Rightarrow>
          ensure (holder_ok E h) IntentCustodyError ''holder must be a non-empty token without whitespace''
          (ebind (verify_change_intent E intent (ic_authority_key C)) (\<lambda>_.
           ebind (field intent ''tenant_id'') (\<lambda>tenant.
           ensure (tenant = VStr (ic_tenant_id C)) IntentCustodyError ''cross-tenant intent reservation is prohibited''
           (ebind (custody_timestamp clock now) (\<lambda>current.
           ebind (time_member intent ''valid_from'') (\<lambda>valid_from.
           ensure (instant valid_from \<le> instant current) IntentCustodyError ''ChangeIntent is not yet valid''
           (ebind (time_member intent ''valid_until'') (\<lambda>valid_until.
           ensure (instant current \<le> instant valid_until) IntentCustodyError ''ChangeIntent validity has ended''
           (ebind (intent_digest E intent) (\<lambda>digest.
           ebind (text_item (VDict intent) ''intent_id'') (\<lambda>intent_id.
           ebind (digest_object E (VDict (reservation_core (ic_tenant_id C) (VStr intent_id) digest h (render current)))
                    (lit ''change-intent-reservation-v1'')) (\<lambda>reservation.
           Inr \<lparr>ir_tenant_id = ic_tenant_id C, ir_intent_id = intent_id, ir_intent_digest = digest, ir_holder = h,
                ir_reservation_id = lit ''reservation:'' @ reservation, ir_reserved_at = render current\<rparr>))))))))))))
      | _ \<Rightarrow> raise IntentCustodyError ''holder must be a non-empty token without whitespace'')"

definition insert_reservation :: "intent_reservation \<Rightarrow> (custody_db, unit) op" where
  "insert_reservation r = (\<lambda>db.
     if \<exists>x \<in> set db. cr_reservation_id x = ir_reservation_id r \<or>
          (cr_tenant_id x = ir_tenant_id r \<and> cr_intent_id x = ir_intent_id r)
     then (db, raise IntegrityError ''UNIQUE constraint failed'')
     else (db @ [\<lparr>cr_tenant_id = ir_tenant_id r, cr_intent_id = ir_intent_id r, cr_intent_digest = ir_intent_digest r,
                  cr_holder = ir_holder r, cr_reservation_id = ir_reservation_id r, cr_status = RESERVED,
                  cr_reserved_at = ir_reserved_at r, cr_closed_at = None, cr_receipt_json = None\<rparr>], Inr ()))"

definition reserve ::
    "env \<Rightarrow> intent_custody \<Rightarrow> datetime \<Rightarrow> pydict \<Rightarrow> pyval \<Rightarrow> datetime option \<Rightarrow> (custody_db conn, intent_reservation) op" where
  "reserve E C clock intent holder now =
     sbind (pure_op (reserve_request E C clock intent holder now)) (\<lambda>r.
     sbind (transaction
       (sbind (query (custody_find C (ir_intent_id r))) (\<lambda>existing.
        case existing of
          Some row \<Rightarrow> fails IntentReplayError ''ChangeIntent is already reserved, consumed or abandoned''
        | None \<Rightarrow> insert_reservation r))) (\<lambda>_.
     give r))"

section \<open>Closing a reservation\<close>

definition checked_reservation :: "intent_custody \<Rightarrow> intent_reservation \<Rightarrow> (custody_db, custody_row) op" where
  "checked_reservation C reservation =
     sbind (query (custody_find C (ir_intent_id reservation))) (\<lambda>found.
     case found of
       None \<Rightarrow> fails IntentCustodyError ''reservation is unknown to this custody store''
     | Some row \<Rightarrow>
         sensure (cr_reservation_id row = ir_reservation_id reservation) IntentCustodyError
           ''reservation is unknown to this custody store''
         (sensure (cr_intent_digest row = ir_intent_digest reservation) IntentCustodyError
           ''reservation intent digest mismatch''
         (sensure (cr_status row = RESERVED) IntentReplayError ''ChangeIntent is already consumed or abandoned''
           (give row))))"

definition seal :: "env \<Rightarrow> intent_custody \<Rightarrow> pydict \<Rightarrow> pydict res" where
  "seal E C receipt =
     ebind (digest_object E (VDict receipt) (lit ''change-intent-consumption-receipt-v1'')) (\<lambda>digest.
     let sealed = dict_put receipt ''receipt_id'' (VStr (lit ''receipt:'' @ digest)) in
     case ic_signer C of None \<Rightarrow> Inr sealed | Some sg \<Rightarrow> sign E sg sealed)"

text \<open>The rows that the \<open>UPDATE\<close> of \<open>_close_row\<close> changes.\<close>

definition closes :: "intent_custody \<Rightarrow> intent_reservation \<Rightarrow> custody_row \<Rightarrow> bool" where
  "closes C reservation r \<longleftrightarrow>
     cr_tenant_id r = ic_tenant_id C \<and> cr_intent_id r = ir_intent_id reservation \<and>
     cr_reservation_id r = ir_reservation_id reservation \<and> cr_status r = RESERVED"

definition close_row ::
    "intent_custody \<Rightarrow> intent_reservation \<Rightarrow> custody_status \<Rightarrow> ustring \<Rightarrow> pydict \<Rightarrow> (custody_db, unit) op" where
  "close_row C reservation status closed_at receipt =
     sbind (pure_op (canonical_bytes (VDict receipt))) (\<lambda>json.
     sbind (query (\<lambda>db. length (filter (closes C reservation) db))) (\<lambda>updated.
     sbind (modify (map (\<lambda>r. if closes C reservation r
       then r\<lparr>cr_status := status, cr_closed_at := Some closed_at, cr_receipt_json := Some json\<rparr> else r))) (\<lambda>_.
     sensure (updated = 1) IntentReplayError ''reservation was closed concurrently'' (give ()))))"

definition receipt_front :: "intent_custody \<Rightarrow> intent_reservation \<Rightarrow> custody_row \<Rightarrow> string \<Rightarrow> ustring \<Rightarrow> (string \<times> pyval) list" where
  "receipt_front C reservation row outcome closed_at =
     [(''protocol'', vlit ''integrity-guardian/change-intent-consumption/v1''), (''outcome'', vlit outcome),
      (''tenant_id'', VStr (ic_tenant_id C)), (''intent_id'', VStr (ir_intent_id reservation)),
      (''intent_digest'', VStr (ir_intent_digest reservation)), (''reservation_id'', VStr (ir_reservation_id reservation)),
      (''holder'', VStr (cr_holder row)), (''reserved_at'', VStr (cr_reserved_at row)), (''closed_at'', VStr closed_at)]"

definition consumption_core ::
    "intent_custody \<Rightarrow> intent_reservation \<Rightarrow> custody_row \<Rightarrow> ustring \<Rightarrow> observed_delta list \<Rightarrow> pyval list \<Rightarrow> pydict list \<Rightarrow> pydict" where
  "consumption_core C reservation row closed_at deltas classifications results =
     mk_dict (receipt_front C reservation row ''consumed'' closed_at @
       [(''observation_event_ids'', VList (map (\<lambda>delta. opt_str (od_source_event_id delta)) deltas)),
        (''classifications'', VList classifications), (''results'', VList (map VDict results))])"

definition consume ::
    "env \<Rightarrow> intent_custody \<Rightarrow> datetime \<Rightarrow> intent_reservation \<Rightarrow> pydict \<Rightarrow> observed_delta list \<Rightarrow> datetime option \<Rightarrow>
     (custody_db conn, pydict) op" where
  "consume E C clock reservation intent deltas now =
     sbind (pure_op (verify_change_intent E intent (ic_authority_key C))) (\<lambda>_.
     sbind (pure_op (intent_digest E intent)) (\<lambda>digest.
     sensure (digest = ir_intent_digest reservation) IntentCustodyError ''intent does not match its reservation''
     (sbind (pure_op (reconcile E (Some intent) deltas (Some (ic_authority_key C)))) (\<lambda>results.
     sbind (pure_op (custody_timestamp clock now)) (\<lambda>current.
     transaction
       (sbind (checked_reservation C reservation) (\<lambda>row.
        sbind (pure_op (map_res (\<lambda>r. field r ''classification'') results)) (\<lambda>classifications.
        sbind (pure_op (seal E C (consumption_core C reservation row (render current) deltas classifications results))) (\<lambda>receipt.
        sbind (close_row C reservation CONSUMED (render current) receipt) (\<lambda>_.
        give receipt))))))))))"

definition abandon_core :: "intent_custody \<Rightarrow> intent_reservation \<Rightarrow> custody_row \<Rightarrow> ustring \<Rightarrow> ustring \<Rightarrow> pydict" where
  "abandon_core C reservation row closed_at reason =
     mk_dict (receipt_front C reservation row ''abandoned'' closed_at @ [(''reason'', VStr reason)])"

definition abandon ::
    "env \<Rightarrow> intent_custody \<Rightarrow> datetime \<Rightarrow> intent_reservation \<Rightarrow> pyval \<Rightarrow> datetime option \<Rightarrow> (custody_db conn, pydict) op" where
  "abandon E C clock reservation reason now =
     (case reason of
        VStr t \<Rightarrow>
          sensure (strip E t \<noteq> []) IntentCustodyError ''abandon reason is required''
          (sbind (pure_op (custody_timestamp clock now)) (\<lambda>current.
           transaction
             (sbind (checked_reservation C reservation) (\<lambda>row.
              sbind (pure_op (seal E C (abandon_core C reservation row (render current) t))) (\<lambda>receipt.
              sbind (close_row C reservation ABANDONED (render current) receipt) (\<lambda>_.
              give receipt))))))
      | _ \<Rightarrow> fails IntentCustodyError ''abandon reason is required'')"

definition verify_consumption_receipt :: "env \<Rightarrow> pydict \<Rightarrow> trusted_key option \<Rightarrow> unit res" where
  "verify_consumption_receipt E receipt custody_key =
     ensure (dict_get receipt ''protocol'' = vlit ''integrity-guardian/change-intent-consumption/v1'') IntentCustodyError
       ''not a ChangeIntent consumption receipt''
     (let unsigned_receipt = dict_pop (dict_pop receipt ''receipt_id'') ''signature'' in
      ebind (digest_object E (VDict unsigned_receipt) (lit ''change-intent-consumption-receipt-v1'')) (\<lambda>expected.
      ensure (dict_get receipt ''receipt_id'' = VStr (lit ''receipt:'' @ expected)) IntentCustodyError
        ''consumption receipt identity mismatch''
      (case custody_key of
         None \<Rightarrow> Inr ()
       | Some key \<Rightarrow>
           ebind (verify_trusted_signature E receipt key) (\<lambda>signed.
           ensure signed IntentCustodyError ''consumption receipt signature verification failed'' (Inr ())))))"

section \<open>Runs\<close>

text \<open>Histories of one store: the reservations and closings that succeeded, with refused calls and
  reopenings in between.\<close>

datatype custody_event = Reserved ustring | Closed ustring

inductive custody_run :: "env \<Rightarrow> intent_custody \<Rightarrow> custody_event list \<Rightarrow> custody_db conn \<Rightarrow> bool" for E C where
  created: "custody_run E C [] (connect [])"
| reopened: "custody_run E C tr c \<Longrightarrow> custody_run E C tr (connect (cn_now c))"
| reserved: "custody_run E C tr c \<Longrightarrow> reserve E C clock intent holder now c = (c', Inr r) \<Longrightarrow>
    custody_run E C (tr @ [Reserved (ir_intent_id r)]) c'"
| consumed: "custody_run E C tr c \<Longrightarrow> consume E C clock rsv intent deltas now c = (c', Inr receipt) \<Longrightarrow>
    custody_run E C (tr @ [Closed (ir_intent_id rsv)]) c'"
| abandoned: "custody_run E C tr c \<Longrightarrow> abandon E C clock rsv reason now c = (c', Inr receipt) \<Longrightarrow>
    custody_run E C (tr @ [Closed (ir_intent_id rsv)]) c'"
| reserve_refused: "custody_run E C tr c \<Longrightarrow> reserve E C clock intent holder now c = (c', Inl e) \<Longrightarrow> custody_run E C tr c'"
| consume_refused: "custody_run E C tr c \<Longrightarrow> consume E C clock rsv intent deltas now c = (c', Inl e) \<Longrightarrow> custody_run E C tr c'"
| abandon_refused: "custody_run E C tr c \<Longrightarrow> abandon E C clock rsv reason now c = (c', Inl e) \<Longrightarrow> custody_run E C tr c'"

text \<open>How the table mirrors the history.\<close>

definition custody_inv :: "intent_custody \<Rightarrow> custody_event list \<Rightarrow> custody_db \<Rightarrow> bool" where
  "custody_inv C tr db \<longleftrightarrow>
     distinct tr \<and> distinct (map cr_intent_id db) \<and>
     (\<forall>r \<in> set db. cr_tenant_id r = ic_tenant_id C) \<and>
     (\<forall>i. Reserved i \<in> set tr \<longleftrightarrow> i \<in> cr_intent_id ` set db) \<and>
     (\<forall>i. Closed i \<in> set tr \<longleftrightarrow> (\<exists>r \<in> set db. cr_intent_id r = i \<and> cr_status r \<noteq> RESERVED))"

section \<open>Facts\<close>

lemma custody_find_Some:
  "custody_find C i db = Some r \<Longrightarrow> r \<in> set db \<and> cr_tenant_id r = ic_tenant_id C \<and> cr_intent_id r = i"
  unfolding custody_find_def by (induction db) (auto split: if_splits)

lemma custody_find_None:
  "custody_find C i db = None \<Longrightarrow> \<forall>r \<in> set db. cr_tenant_id r = ic_tenant_id C \<longrightarrow> cr_intent_id r \<noteq> i"
  by (auto simp: custody_find_def find_None_iff)

lemma reserve_request_Inr:
  assumes "reserve_request E C clock intent holder now = Inr r"
  shows "\<exists>h current vf vu. holder = VStr h \<and> holder_ok E h \<and> verify_change_intent E intent (ic_authority_key C) = Inr () \<and>
    dict_find intent ''tenant_id'' = Some (VStr (ic_tenant_id C)) \<and> custody_timestamp clock now = Inr current \<and>
    time_member intent ''valid_from'' = Inr vf \<and> time_member intent ''valid_until'' = Inr vu \<and>
    instant vf \<le> instant current \<and> instant current \<le> instant vu \<and> intent_digest E intent = Inr (ir_intent_digest r) \<and>
    dict_find intent ''intent_id'' = Some (VStr (ir_intent_id r)) \<and> ir_tenant_id r = ic_tenant_id C \<and> ir_holder r = h"
proof (cases holder)
  case (VStr h)
  with assms show ?thesis unfolding reserve_request_def by (auto simp: res_simps)
qed (use assms in \<open>simp_all add: reserve_request_def\<close>)

lemma reserve_success:
  assumes "reserve E C clock intent holder now c = (c', Inr r)"
  shows "reserve_request E C clock intent holder now = Inr r" "idle c" "idle c'"
    "custody_find C (ir_intent_id r) (cn_now c) = None"
    "\<exists>row. cn_now c' = cn_now c @ [row] \<and> cr_tenant_id row = ic_tenant_id C \<and> cr_intent_id row = ir_intent_id r \<and>
       cr_status row = RESERVED \<and> cr_reservation_id row = ir_reservation_id r \<and> cr_intent_digest row = ir_intent_digest r"
proof -
  let ?body = "sbind (query (custody_find C (ir_intent_id r))) (\<lambda>existing.
        case existing of
          Some row \<Rightarrow> fails IntentReplayError ''ChangeIntent is already reserved, consumed or abandoned''
        | None \<Rightarrow> insert_reservation r)"
  have req: "reserve_request E C clock intent holder now = Inr r" and t: "transaction ?body c = (c', Inr ())"
    using assms unfolding reserve_def by (auto simp: op_simps)
  note ts = transaction_success [OF t]
  show "reserve_request E C clock intent holder now = Inr r" "idle c" "idle c'" by (fact req, fact ts(1), fact ts(2))
  have "ir_tenant_id r = ic_tenant_id C" using reserve_request_Inr [OF req] by blast
  then show "custody_find C (ir_intent_id r) (cn_now c) = None"
    "\<exists>row. cn_now c' = cn_now c @ [row] \<and> cr_tenant_id row = ic_tenant_id C \<and> cr_intent_id row = ir_intent_id r \<and>
       cr_status row = RESERVED \<and> cr_reservation_id row = ir_reservation_id r \<and> cr_intent_digest row = ir_intent_digest r"
    using ts(3) by (auto simp: insert_reservation_def dest!: sym [of _ "cn_now c'"] split: option.splits if_splits)
qed

text \<open>What closing does, whichever operation closes.\<close>

definition closed_as :: "intent_custody \<Rightarrow> intent_reservation \<Rightarrow> custody_status \<Rightarrow> ustring \<Rightarrow> pydict \<Rightarrow> custody_db \<Rightarrow> custody_db \<Rightarrow> bool" where
  "closed_as C rsv status at receipt db db' \<longleftrightarrow>
     (\<exists>row json. row \<in> set db \<and> closes C rsv row \<and> cr_intent_digest row = ir_intent_digest rsv \<and>
        canonical_bytes (VDict receipt) = Inr json \<and>
        db' = map (\<lambda>r. if closes C rsv r then r\<lparr>cr_status := status, cr_closed_at := Some at, cr_receipt_json := Some json\<rparr> else r) db)"

lemma checked_reservation_success:
  assumes "checked_reservation C rsv db = (db', Inr row)"
  shows "db' = db" "row \<in> set db" "closes C rsv row" "cr_intent_digest row = ir_intent_digest rsv"
  using assms custody_find_Some [of C "ir_intent_id rsv" db]
  by (auto simp: checked_reservation_def closes_def op_simps split: option.splits)

lemma close_row_success:
  assumes "close_row C rsv status at receipt db = (db', Inr ())"
  shows "\<exists>json. canonical_bytes (VDict receipt) = Inr json \<and>
    db' = map (\<lambda>r. if closes C rsv r then r\<lparr>cr_status := status, cr_closed_at := Some at, cr_receipt_json := Some json\<rparr> else r) db"
  using assms by (auto simp: close_row_def op_simps)

lemma consume_success:
  assumes "consume E C clock rsv intent deltas now c = (c', Inr receipt)"
  shows "idle c" "idle c'" "\<exists>at. closed_as C rsv CONSUMED at receipt (cn_now c) (cn_now c')"
    "verify_change_intent E intent (ic_authority_key C) = Inr ()" "intent_digest E intent = Inr (ir_intent_digest rsv)"
    "\<exists>results current row cls. reconcile E (Some intent) deltas (Some (ic_authority_key C)) = Inr results \<and>
       custody_timestamp clock now = Inr current \<and> closed_as C rsv CONSUMED (render current) receipt (cn_now c) (cn_now c') \<and>
       map_res (\<lambda>r. field r ''classification'') results = Inr cls \<and>
       seal E C (consumption_core C rsv row (render current) deltas cls results) = Inr receipt"
proof -
  obtain results current where *: "verify_change_intent E intent (ic_authority_key C) = Inr ()"
    "intent_digest E intent = Inr (ir_intent_digest rsv)" "reconcile E (Some intent) deltas (Some (ic_authority_key C)) = Inr results"
    "custody_timestamp clock now = Inr current"
    and t: "transaction (sbind (checked_reservation C rsv) (\<lambda>row.
        sbind (pure_op (map_res (\<lambda>r. field r ''classification'') results)) (\<lambda>classifications.
        sbind (pure_op (seal E C (consumption_core C rsv row (render current) deltas classifications results))) (\<lambda>receipt.
        sbind (close_row C rsv CONSUMED (render current) receipt) (\<lambda>_.
        give receipt))))) c = (c', Inr receipt)"
    using assms unfolding consume_def by (auto simp: op_simps)
  note ts = transaction_success [OF t]
  obtain db row cls where body: "checked_reservation C rsv (cn_now c) = (db, Inr row)"
    "map_res (\<lambda>r. field r ''classification'') results = Inr cls"
    "seal E C (consumption_core C rsv row (render current) deltas cls results) = Inr receipt"
    "close_row C rsv CONSUMED (render current) receipt db = (cn_now c', Inr ())"
    using ts(3) by (auto simp: op_simps)
  have closed: "closed_as C rsv CONSUMED (render current) receipt (cn_now c) (cn_now c')"
    using checked_reservation_success [OF body(1)] close_row_success [OF body(4)] unfolding closed_as_def by blast
  then show "\<exists>at. closed_as C rsv CONSUMED at receipt (cn_now c) (cn_now c')" by blast
  show "idle c" "idle c'" "verify_change_intent E intent (ic_authority_key C) = Inr ()"
    "intent_digest E intent = Inr (ir_intent_digest rsv)" by (fact ts(1), fact ts(2), fact *(1), fact *(2))
  show "\<exists>results current row cls. reconcile E (Some intent) deltas (Some (ic_authority_key C)) = Inr results \<and>
       custody_timestamp clock now = Inr current \<and> closed_as C rsv CONSUMED (render current) receipt (cn_now c) (cn_now c') \<and>
       map_res (\<lambda>r. field r ''classification'') results = Inr cls \<and>
       seal E C (consumption_core C rsv row (render current) deltas cls results) = Inr receipt"
    using *(3,4) closed body(2,3) by blast
qed

lemma abandon_success:
  assumes "abandon E C clock rsv reason now c = (c', Inr receipt)"
  shows "idle c" "idle c'" "\<exists>at. closed_as C rsv ABANDONED at receipt (cn_now c) (cn_now c')"
proof -
  obtain why current where t: "transaction (sbind (checked_reservation C rsv) (\<lambda>row.
        sbind (pure_op (seal E C (abandon_core C rsv row (render current) why))) (\<lambda>receipt.
        sbind (close_row C rsv ABANDONED (render current) receipt) (\<lambda>_.
        give receipt)))) c = (c', Inr receipt)"
    using assms by (cases reason) (auto simp: abandon_def op_simps)
  note ts = transaction_success [OF t]
  obtain db row where body: "checked_reservation C rsv (cn_now c) = (db, Inr row)"
    "close_row C rsv ABANDONED (render current) receipt db = (cn_now c', Inr ())"
    using ts(3) by (auto simp: op_simps)
  show "\<exists>at. closed_as C rsv ABANDONED at receipt (cn_now c) (cn_now c')"
    using checked_reservation_success [OF body(1)] close_row_success [OF body(2)] unfolding closed_as_def by blast
  show "idle c" "idle c'" by (fact ts(1), fact ts(2))
qed

lemma pure_then_transaction_refused:
  "sbind (pure_op m) f c = (c', Inl e) \<Longrightarrow> (\<And>x. f x c = (c', Inl e) \<Longrightarrow> c' = c) \<Longrightarrow> c' = c"
  by (cases m) auto

lemma refused_unchanged:
  "reserve E C clock intent holder now c = (c', Inl e) \<Longrightarrow> c' = c"
  "consume E C clock rsv intent deltas now c = (c', Inl e) \<Longrightarrow> c' = c"
  "abandon E C clock rsv reason now c = (c', Inl e) \<Longrightarrow> c' = c"
proof -
  show "reserve E C clock intent holder now c = (c', Inl e) \<Longrightarrow> c' = c"
    unfolding reserve_def
    by (erule pure_then_transaction_refused) (auto simp: sbind_def dest!: transaction_atomic split: prod.splits sum.splits)
  show "consume E C clock rsv intent deltas now c = (c', Inl e) \<Longrightarrow> c' = c"
    unfolding consume_def sensure_def
    by (auto elim!: pure_then_transaction_refused transaction_atomic split: if_splits)
  show "abandon E C clock rsv reason now c = (c', Inl e) \<Longrightarrow> c' = c"
    unfolding abandon_def sensure_def
    by (auto elim!: pure_then_transaction_refused transaction_atomic split: if_splits pyval.splits)
qed

lemma custody_inv_reserved:
  assumes "custody_inv C tr db" "custody_find C i db = None"
    and "cr_tenant_id row = ic_tenant_id C" "cr_intent_id row = i" "cr_status row = RESERVED"
  shows "custody_inv C (tr @ [Reserved i]) (db @ [row])"
proof -
  have "i \<notin> cr_intent_id ` set db" using custody_find_None [OF assms(2)] assms(1) by (auto simp: custody_inv_def)
  then show ?thesis using assms by (auto simp: custody_inv_def)
qed

lemma custody_inv_closed:
  assumes "custody_inv C tr db" "closed_as C rsv status at receipt db db'" "status \<noteq> RESERVED"
  shows "custody_inv C (tr @ [Closed (ir_intent_id rsv)]) db'"
proof -
  let ?i = "ir_intent_id rsv"
  obtain row json where row: "row \<in> set db" "closes C rsv row"
    and db': "db' = map (\<lambda>r. if closes C rsv r then r\<lparr>cr_status := status, cr_closed_at := Some at, cr_receipt_json := Some json\<rparr> else r) db"
    using assms(2) by (auto simp: closed_as_def)
  have same: "map cr_intent_id db' = map cr_intent_id db" "map cr_tenant_id db' = map cr_tenant_id db" by (simp_all add: db')
  then have sets: "cr_intent_id ` set db' = cr_intent_id ` set db" "cr_tenant_id ` set db' = cr_tenant_id ` set db"
    by (metis set_map)+
  have unique: "r = row" if "r \<in> set db" "cr_intent_id r = ?i" for r
    using assms(1) row that by (auto simp: custody_inv_def closes_def distinct_map inj_on_def)
  have open_: "\<not> (\<exists>r \<in> set db. cr_intent_id r = ?i \<and> cr_status r \<noteq> RESERVED)" using unique row(2) by (auto simp: closes_def)
  have "(\<exists>r \<in> set db'. cr_intent_id r = j \<and> cr_status r \<noteq> RESERVED) \<longleftrightarrow>
      j = ?i \<or> (\<exists>r \<in> set db. cr_intent_id r = j \<and> cr_status r \<noteq> RESERVED)" for j
  proof -
    have "(\<exists>r \<in> set db'. cr_intent_id r = j \<and> cr_status r \<noteq> RESERVED) \<longleftrightarrow>
        (\<exists>r \<in> set db. cr_intent_id r = j \<and> (closes C rsv r \<or> cr_status r \<noteq> RESERVED))"
      unfolding db' set_map bex_simps(7) using assms(3) by (intro bex_cong refl) (auto simp: closes_def)
    then show ?thesis using row by (auto simp: closes_def)
  qed
  moreover have "\<forall>r \<in> set db'. cr_tenant_id r = ic_tenant_id C" using sets(2) assms(1) by (force simp: custody_inv_def)
  ultimately show ?thesis using assms(1) open_ sets(1) same(1) by (simp add: custody_inv_def)
qed

lemma custody_run_inv: "custody_run E C tr c \<Longrightarrow> custody_inv C tr (cn_now c)"
proof (induction rule: custody_run.induct)
  case created
  show ?case by (simp add: custody_inv_def connect_def)
next
  case (reopened tr c)
  then show ?case by (simp add: connect_def)
next
  case (reserved tr c clock intent holder now c' r)
  then show ?case using reserve_success(4,5) [OF reserved(2)] custody_inv_reserved by metis
next
  case (consumed tr c clock rsv intent deltas now c' receipt)
  then show ?case using consume_success(3) custody_inv_closed [where status = CONSUMED, OF _ _ custody_status.distinct(2)] by metis
next
  case (abandoned tr c clock rsv reason now c' receipt)
  then show ?case using abandon_success(3) custody_inv_closed [where status = ABANDONED, OF _ _ custody_status.distinct(4)] by metis
qed (blast dest: refused_unchanged(1), blast dest: refused_unchanged(2), blast dest: refused_unchanged(3))

text \<open>Receipts that \<open>seal\<close> makes verify.\<close>

definition custody_key :: "env \<Rightarrow> intent_custody \<Rightarrow> trusted_key option" where
  "custody_key E C =
     map_option (\<lambda>sg. \<lparr>tk_key_id = sg_key_id sg, tk_public_key = signer_public_key E sg\<rparr>) (ic_signer C)"

lemma seal_fields:
  assumes "seal E C core = Inr receipt" "k \<noteq> ''receipt_id''" "k \<noteq> ''signature''"
  shows "dict_find receipt k = dict_find core k"
  using assms sign_fields by (fastforce simp: seal_def res_simps dict_find_put Let_def split: option.splits)

lemma seal_verifies:
  assumes "seal E C core = Inr receipt" "dict_find core ''receipt_id'' = None" "dict_find core ''signature'' = None"
    and "dict_find core ''protocol'' = Some (vlit ''integrity-guardian/change-intent-consumption/v1'')"
    and "ed25519_ok E" "\<forall>sg. ic_signer C = Some sg \<longrightarrow> length (sg_private_key sg) = 32"
  shows "verify_consumption_receipt E receipt (custody_key E C) = Inr ()"
proof -
  obtain digest where digest: "digest_object E (VDict core) (lit ''change-intent-consumption-receipt-v1'') = Inr digest"
    using assms(1) by (auto simp: seal_def res_simps)
  let ?sealed = "dict_put core ''receipt_id'' (VStr (lit ''receipt:'' @ digest))"
  have p: "dict_get receipt ''protocol'' = vlit ''integrity-guardian/change-intent-consumption/v1''"
    using seal_fields [OF assms(1), of "''protocol''"] assms(4) by (simp add: dict_get_def)
  show ?thesis
  proof (cases "ic_signer C")
    case None
    then have "receipt = ?sealed" using assms(1) digest by (simp add: seal_def)
    then show ?thesis using p digest assms(2,3) None
      by (simp add: verify_consumption_receipt_def custody_key_def dict_get_put)
  next
    case (Some sg)
    then have s: "sign E sg ?sealed = Inr receipt" using assms(1) digest by (simp add: seal_def)
    obtain v where receipt: "receipt = dict_put ?sealed ''signature'' (signature_block (sg_key_id sg) v)"
      using s by (auto simp: sign_def res_simps)
    have "dict_pop (dict_pop receipt ''receipt_id'') ''signature'' = core"
      using assms(2,3) by (simp add: receipt dict_pop_put_other)
    moreover have "dict_get receipt ''receipt_id'' = VStr (lit ''receipt:'' @ digest)" by (simp add: receipt dict_get_put)
    moreover have "verify_trusted_signature E receipt \<lparr>tk_key_id = sg_key_id sg, tk_public_key = signer_public_key E sg\<rparr> = Inr True"
      using sign_verifies [OF assms(5) _ s] assms(6) Some
      by (simp add: verify_trusted_signature_def receipt dict_get_put signature_block_def)
    ultimately show ?thesis using p digest Some by (simp add: verify_consumption_receipt_def custody_key_def)
  qed
qed

lemma consumption_core_find:
  "dict_find (consumption_core C rsv row at deltas cls results) ''receipt_id'' = None"
  "dict_find (consumption_core C rsv row at deltas cls results) ''signature'' = None"
  "dict_find (consumption_core C rsv row at deltas cls results) ''protocol'' = Some (vlit ''integrity-guardian/change-intent-consumption/v1'')"
  "dict_find (consumption_core C rsv row at deltas cls results) ''intent_digest'' = Some (VStr (ir_intent_digest rsv))"
  "dict_find (consumption_core C rsv row at deltas cls results) ''results'' = Some (VList (map VDict results))"
  "dict_find (consumption_core C rsv row at deltas cls results) ''outcome'' = Some (vlit ''consumed'')"
  "dict_find (consumption_core C rsv row at deltas cls results) ''closed_at'' = Some (VStr at)"
  by (simp_all add: consumption_core_def receipt_front_def dict_find_mk)

text \<open>The row of a closed intent before and after, and the receipt that the store returns.\<close>

lemma closed_row_found:
  assumes "custody_inv C tr db" "closed_as C rsv status at receipt db db'"
  shows "\<exists>row json. custody_find C (ir_intent_id rsv) db = Some row \<and> closes C rsv row \<and> cr_intent_digest row = ir_intent_digest rsv \<and>
    canonical_bytes (VDict receipt) = Inr json \<and>
    custody_find C (ir_intent_id rsv) db' = Some (row\<lparr>cr_status := status, cr_closed_at := Some at, cr_receipt_json := Some json\<rparr>)"
proof -
  let ?i = "ir_intent_id rsv"
  obtain row json where row: "row \<in> set db" "closes C rsv row" "cr_intent_digest row = ir_intent_digest rsv" and json: "canonical_bytes (VDict receipt) = Inr json"
    and db': "db' = map (\<lambda>r. if closes C rsv r then r\<lparr>cr_status := status, cr_closed_at := Some at, cr_receipt_json := Some json\<rparr> else r) db"
    using assms(2) by (auto simp: closed_as_def)
  have unique: "r = row" if "r \<in> set db" "cr_intent_id r = ?i" for r
    using assms(1) row that by (auto simp: custody_inv_def closes_def distinct_map inj_on_def)
  have "custody_find C ?i db \<noteq> None" using custody_find_None [of C ?i db] row by (auto simp: closes_def)
  then have old: "custody_find C ?i db = Some row" using custody_find_Some [of C ?i db] unique by blast
  let ?row = "row\<lparr>cr_status := status, cr_closed_at := Some at, cr_receipt_json := Some json\<rparr>"
  have "?row \<in> set db'" unfolding db' set_map using row by (intro rev_image_eqI [of row]) simp_all
  then have "custody_find C ?i db' \<noteq> None" using custody_find_None [of C ?i db'] row(2) by (fastforce simp: closes_def)
  then obtain r where r: "custody_find C ?i db' = Some r" by blast
  then obtain r0 where "r0 \<in> set db" "r = (if closes C rsv r0 then r0\<lparr>cr_status := status, cr_closed_at := Some at, cr_receipt_json := Some json\<rparr> else r0)"
    "cr_intent_id r = ?i" using custody_find_Some [OF r] by (auto simp: db')
  then have "r = ?row" using unique [of r0] row(2) by (auto split: if_splits)
  then show ?thesis using old row json r by blast
qed

lemma closed_receipt_stored:
  assumes "custody_inv C tr db" "closed_as C rsv status at receipt db db'" "py_wf (VDict receipt)"
  shows "custody_receipt C db' (ir_intent_id rsv) = Inr (Some (canon (VDict receipt)))"
  using closed_row_found [OF assms(1,2)] canonical_reads_back [OF assms(3)] by (auto simp: custody_receipt_def)

section \<open>Properties\<close>

definition demo_custody :: intent_custody where
  "demo_custody = \<lparr>ic_tenant_id = lit ''tenant:a'', ic_authority_key = demo_key, ic_signer = Some demo_signer\<rparr>"

definition demo_clock :: datetime where
  "demo_clock = \<lparr>dt_local = 63915998400000000, dt_offset = Some 0\<rparr>"

lemma demo_clock_facts:
  "custody_timestamp demo_clock None = Inr demo_clock" "instant demo_clock = 63915998400000000"
  "encodable_text (render demo_clock)" "list_all is_code_point (render demo_clock)"
  by code_simp+

lemma demo_domains: "plain_domain ''change-intent-custody-v1''" "plain_domain ''change-intent-reservation-v1''"
  "plain_domain ''change-intent-consumption-receipt-v1''"
  by code_simp+

definition demo_reservation :: "bytes \<Rightarrow> bytes \<Rightarrow> intent_reservation" where
  "demo_reservation h g = \<lparr>ir_tenant_id = lit ''tenant:a'', ir_intent_id = lit ''intent:one'',
     ir_intent_digest = lit ''sha256:'' @ hex h, ir_holder = lit ''agent:a'',
     ir_reservation_id = lit ''reservation:'' @ lit ''sha256:'' @ hex g, ir_reserved_at = render demo_clock\<rparr>"

definition demo_row :: "bytes \<Rightarrow> bytes \<Rightarrow> custody_row" where
  "demo_row h g = \<lparr>cr_tenant_id = lit ''tenant:a'', cr_intent_id = lit ''intent:one'', cr_intent_digest = lit ''sha256:'' @ hex h,
     cr_holder = lit ''agent:a'', cr_reservation_id = lit ''reservation:'' @ lit ''sha256:'' @ hex g, cr_status = RESERVED,
     cr_reserved_at = render demo_clock, cr_closed_at = None, cr_receipt_json = None\<rparr>"

lemma demo_reserved:
  assumes "verify_change_intent demo_env d demo_key = Inr ()" "encodable (VDict d)"
    and "\<And>k. k \<noteq> ''authorization'' \<Longrightarrow> dict_find d k = dict_find demo_intent k"
  shows "\<exists>h g. intent_digest demo_env d = Inr (lit ''sha256:'' @ hex h) \<and>
    reserve demo_env demo_custody demo_clock d (vlit ''agent:a'') None (connect []) = (connect [demo_row h g], Inr (demo_reservation h g))"
proof -
  note f = assms(3) demo_intent_def dict_find_mk item_def
  obtain h where h: "intent_digest demo_env d = Inr (lit ''sha256:'' @ hex h)"
    using digest_object_encodable [OF assms(2) demo_domains(1)] by (auto simp: intent_digest_def)
  have "encodable (VDict (reservation_core (lit ''tenant:a'') (vlit ''intent:one'') (lit ''sha256:'' @ hex h) (lit ''agent:a'') (render demo_clock)))"
    using demo_clock_facts by (simp add: reservation_core_def mk_dict_def)
  then obtain g where g: "digest_object demo_env (VDict (reservation_core (lit ''tenant:a'') (vlit ''intent:one'') (lit ''sha256:'' @ hex h)
      (lit ''agent:a'') (render demo_clock))) (lit ''change-intent-reservation-v1'') = Inr (lit ''sha256:'' @ hex g)"
    using digest_object_encodable [OF _ demo_domains(2)] by blast
  have times: "intent_parse_time (vlit ''2026-01-01T00:00:00Z'') = Inr \<lparr>dt_local = 63902908800000000, dt_offset = Some 0\<rparr>"
    "intent_parse_time (vlit ''2027-01-01T00:00:00Z'') = Inr \<lparr>dt_local = 63934444800000000, dt_offset = Some 0\<rparr>"
    "holder_ok demo_env (lit ''agent:a'')"
    by code_simp+
  have "text_item (VDict d) ''intent_id'' = Inr (lit ''intent:one'')" by (simp add: text_item_Inr f)
  then have "reserve_request demo_env demo_custody demo_clock d (vlit ''agent:a'') None = Inr (demo_reservation h g)"
    using times h g assms(1) demo_clock_facts
    by (simp add: reserve_request_def demo_custody_def time_member_def f instant_def demo_reservation_def)
  then have "reserve demo_env demo_custody demo_clock d (vlit ''agent:a'') None (connect []) = (connect [demo_row h g], Inr (demo_reservation h g))"
    by (simp add: reserve_def sbind_apply transaction_idle idle_def connect_def custody_find_def insert_reservation_def
        demo_reservation_def demo_row_def)
  with h show ?thesis by blast
qed

lemma demo_consumed:
  obtains d c' receipt c r where "custody_run demo_env demo_custody [Reserved (lit ''intent:one'')] c"
    "reserve demo_env demo_custody demo_clock d (vlit ''agent:a'') None (connect []) = (c, Inr r)" "ir_intent_id r = lit ''intent:one''"
    "consume demo_env demo_custody demo_clock r d [demo_delta] None c = (c', Inr receipt)" "py_wf (VDict receipt)"
proof -
  obtain d where d: "verify_change_intent demo_env d demo_key = Inr ()" "encodable (VDict d)"
    "\<And>k. k \<noteq> ''authorization'' \<Longrightarrow> dict_find d k = dict_find demo_intent k" by (rule demo_intent_signed) blast
  obtain h g where h: "intent_digest demo_env d = Inr (lit ''sha256:'' @ hex h)"
    and res: "reserve demo_env demo_custody demo_clock d (vlit ''agent:a'') None (connect []) = (connect [demo_row h g], Inr (demo_reservation h g))"
    using demo_reserved [OF d] by blast
  obtain r x where rec: "reconcile demo_env (Some d) [demo_delta] (Some demo_key) = Inr [r]"
    and r: "r = dict_put (mk_dict [(''classification'', vlit ''authorized_success''), (''reason'', vlit ''exact prior intent, exact diff and post-check PASS''),
       (''intent_id'', vlit ''intent:one''), (''selector'', vlit ''file:a''), (''operation'', vlit ''write''),
       (''source_event_id'', vlit ''event:one''), (''tenant_id'', vlit ''tenant:a''), (''node_id'', vlit ''node:a''),
       (''expected_change_index'', VInt 0)]) ''decision_id'' (VStr (lit ''decision:'' @ hex x))"
    using demo_reconciled [OF d(1,3)] by blast
  have dec: "encodable (VStr (lit ''decision:'' @ hex x))" "py_wf (VStr (lit ''decision:'' @ hex x))"
    using encodable_text_code_points [OF encodable_hex, of x] by simp_all
  have zero: "encodable (VInt 0)" by code_simp
  have r_ok: "encodable (VDict r)" "py_wf (VDict r)" unfolding r
    by (rule encodable_put [OF _ dec(1)], use zero in \<open>simp add: mk_dict_def del: encodable.simps(1)\<close>)
       (rule py_wf_put [OF _ dec(2)], simp add: mk_dict_def)
  let ?rsv = "demo_reservation h g" and ?row = "demo_row h g"
  let ?core = "consumption_core demo_custody ?rsv ?row (render demo_clock) [demo_delta] [vlit ''authorized_success''] [r]"
  have hexes: "list_all is_code_point (hex b)" for b by (rule encodable_text_code_points [OF encodable_hex])
  have core: "encodable (VDict ?core)" "py_wf (VDict ?core)"
    using r_ok demo_clock_facts hexes
    by (simp_all add: consumption_core_def receipt_front_def mk_dict_def demo_custody_def demo_reservation_def demo_row_def
        demo_delta_def opt_str_def del: encodable.simps(4) py_wf.simps(3) add: encodable.simps(4) [of "_ # _"] py_wf.simps(3) [of "_ # _"])
  obtain z where z: "digest_object demo_env (VDict ?core) (lit ''change-intent-consumption-receipt-v1'') = Inr (lit ''sha256:'' @ hex z)"
    using digest_object_encodable [OF core(1) demo_domains(3)] by blast
  let ?sealed = "dict_put ?core ''receipt_id'' (VStr (lit ''receipt:'' @ lit ''sha256:'' @ hex z))"
  have sealed: "encodable (VDict ?sealed)" "py_wf (VDict ?sealed)"
    using hexes by (auto intro!: encodable_put [OF core(1)] py_wf_put [OF core(2)] simp del: encodable.simps(4) py_wf.simps(3))
  obtain receipt where s: "sign demo_env demo_signer ?sealed = Inr receipt" using sign_encodable [OF sealed(1)] by blast
  have receipt: "encodable (VDict receipt)" "py_wf (VDict receipt)"
    using signed_encodable [OF s sealed] by (simp_all add: demo_signer_def del: encodable.simps py_wf.simps)
  obtain json where json: "canonical_bytes (VDict receipt) = Inr json" using canonical_bytes_encodable [OF receipt(1)] by blast
  have cls: "field r ''classification'' = Inr (vlit ''authorized_success'')" by (simp add: r item_def dict_find_put dict_find_mk)
  have "seal demo_env demo_custody ?core = Inr receipt" using z s by (simp add: seal_def demo_custody_def)
  then have "\<exists>c'. consume demo_env demo_custody demo_clock ?rsv d [demo_delta] None (connect [?row]) = (c', Inr receipt)"
    using d(1) h rec cls json demo_clock_facts(1)
    by (simp add: consume_def sbind_apply transaction_idle idle_def connect_def checked_reservation_def custody_find_def
        close_row_def closes_def demo_row_def demo_reservation_def demo_custody_def)
  moreover have "custody_run demo_env demo_custody [Reserved (lit ''intent:one'')] (connect [?row])"
    using custody_run.reserved [OF custody_run.created res] by (simp add: demo_reservation_def)
  ultimately show thesis using that res receipt(2) by (auto simp: demo_reservation_def)
qed


text \<open>
  C12. A signed intent is a one-use authorization. In every history of a custody store, with refused
  calls and reopenings in between, each intent is reserved at most once and closed at most
  once, by consumption or abandonment, and only intents that were reserved are closed.
\<close>

theorem intent_is_one_use:
  assumes "custody_run E C tr c"
  shows "distinct tr \<and> (\<forall>i. Closed i \<in> set tr \<longrightarrow> Reserved i \<in> set tr)"
  using custody_run_inv [OF assms] by (auto simp: custody_inv_def)

theorem intent_is_one_use_witness:
  "\<exists>c. custody_run demo_env demo_custody [Reserved (lit ''intent:one''), Closed (lit ''intent:one'')] c \<and>
     distinct [Reserved (lit ''intent:one''), Closed (lit ''intent:one'')]"
proof -
  obtain d c' receipt c r where "custody_run demo_env demo_custody [Reserved (lit ''intent:one'')] c" "ir_intent_id r = lit ''intent:one''"
    "consume demo_env demo_custody demo_clock r d [demo_delta] None c = (c', Inr receipt)"
    by (rule demo_consumed)
  then have run: "custody_run demo_env demo_custody [Reserved (lit ''intent:one''), Closed (lit ''intent:one'')] c'"
    using custody_run.consumed by fastforce
  from intent_is_one_use [OF run] run show ?thesis by blast
qed

text \<open>
  A reservation is granted only for an intent that the authority signed for this tenant, at a
  time within its validity, to a well-formed holder, and only when the store has no record of
  the intent; the reservation then is the only change of the table.
\<close>

theorem reserve_only_if_valid:
  assumes "reserve E C clock intent holder now c = (c', Inr r)"
  shows "verify_change_intent E intent (ic_authority_key C) = Inr () \<and>
    dict_find intent ''tenant_id'' = Some (VStr (ic_tenant_id C)) \<and>
    dict_find intent ''intent_id'' = Some (VStr (ir_intent_id r)) \<and> intent_digest E intent = Inr (ir_intent_digest r) \<and>
    (\<exists>current vf vu. custody_timestamp clock now = Inr current \<and> time_member intent ''valid_from'' = Inr vf \<and>
       time_member intent ''valid_until'' = Inr vu \<and> instant vf \<le> instant current \<and> instant current \<le> instant vu) \<and>
    (\<exists>h. holder = VStr h \<and> holder_ok E h) \<and>
    custody_find C (ir_intent_id r) (cn_now c) = None \<and>
    (\<exists>row. cn_now c' = cn_now c @ [row] \<and> cr_intent_id row = ir_intent_id r \<and> cr_status row = RESERVED)"
  using reserve_request_Inr [OF reserve_success(1) [OF assms]] reserve_success(4,5) [OF assms] by blast

theorem reserve_only_if_valid_witness:
  "\<exists>d c r. reserve demo_env demo_custody demo_clock d (vlit ''agent:a'') None (connect []) = (c, Inr r) \<and>
     verify_change_intent demo_env d demo_key = Inr ()"
proof -
  obtain d c r where res: "reserve demo_env demo_custody demo_clock d (vlit ''agent:a'') None (connect []) = (c, Inr r)"
    by (rule demo_consumed)
  from reserve_only_if_valid [OF res] res show ?thesis by (auto simp: demo_custody_def)
qed

text \<open>
  C14. A consumption closes the very intent that was reserved: the store's row of the intent carries this
  reservation and was reserved before, and is consumed after, closed at the current time with the
  receipt. The receipt is evidence: it says so, names the same closing time, carries the results
  of \<open>reconcile\<close> on the given observations, the verifier accepts it under the custody key, and the store returns it.
\<close>

theorem consumption_receipt_is_evidence:
  assumes "custody_run E C tr c" "consume E C clock rsv intent deltas now c = (c', Inr receipt)"
    and "ed25519_ok E" "\<forall>sg. ic_signer C = Some sg \<longrightarrow> length (sg_private_key sg) = 32" "py_wf (VDict receipt)"
  shows "intent_digest E intent = Inr (ir_intent_digest rsv) \<and> dict_find receipt ''intent_digest'' = Some (VStr (ir_intent_digest rsv)) \<and>
    (\<exists>row row' current. custody_timestamp clock now = Inr current \<and>
       custody_find C (ir_intent_id rsv) (cn_now c) = Some row \<and> cr_reservation_id row = ir_reservation_id rsv \<and>
       cr_intent_digest row = ir_intent_digest rsv \<and> cr_status row = RESERVED \<and>
       custody_find C (ir_intent_id rsv) (cn_now c') = Some row' \<and> cr_reservation_id row' = ir_reservation_id rsv \<and>
       cr_status row' = CONSUMED \<and> cr_closed_at row' = Some (render current) \<and>
       dict_find receipt ''closed_at'' = Some (VStr (render current))) \<and>
    dict_find receipt ''outcome'' = Some (vlit ''consumed'') \<and>
    (\<exists>results. reconcile E (Some intent) deltas (Some (ic_authority_key C)) = Inr results \<and>
       dict_find receipt ''results'' = Some (VList (map VDict results))) \<and>
    verify_consumption_receipt E receipt (custody_key E C) = Inr () \<and>
    custody_receipt C (cn_now c') (ir_intent_id rsv) = Inr (Some (canon (VDict receipt)))"
proof -
  note s = consume_success [OF assms(2)] and inv = custody_run_inv [OF assms(1)]
  obtain results current row cls where r: "reconcile E (Some intent) deltas (Some (ic_authority_key C)) = Inr results"
      "custody_timestamp clock now = Inr current" "closed_as C rsv CONSUMED (render current) receipt (cn_now c) (cn_now c')"
    and seal: "seal E C (consumption_core C rsv row (render current) deltas cls results) = Inr receipt" using s(6) by blast
  have fields: "dict_find receipt ''intent_digest'' = Some (VStr (ir_intent_digest rsv))" "dict_find receipt ''results'' = Some (VList (map VDict results))"
    "dict_find receipt ''outcome'' = Some (vlit ''consumed'')" "dict_find receipt ''closed_at'' = Some (VStr (render current))"
    using seal_fields [OF seal] consumption_core_find(4-7) by simp_all
  obtain old json where old: "custody_find C (ir_intent_id rsv) (cn_now c) = Some old" "closes C rsv old" "cr_intent_digest old = ir_intent_digest rsv"
    "custody_find C (ir_intent_id rsv) (cn_now c') = Some (old\<lparr>cr_status := CONSUMED, cr_closed_at := Some (render current), cr_receipt_json := Some json\<rparr>)"
    using closed_row_found [OF inv r(3)] by blast
  have "verify_consumption_receipt E receipt (custody_key E C) = Inr ()"
    by (rule seal_verifies [OF seal consumption_core_find(1-3) assms(3,4)])
  moreover have "custody_receipt C (cn_now c') (ir_intent_id rsv) = Inr (Some (canon (VDict receipt)))"
    by (rule closed_receipt_stored [OF inv r(3) assms(5)])
  ultimately show ?thesis using r(1,2) s(5) fields old by (auto simp: closes_def)
qed

theorem consumption_receipt_is_evidence_witness:
  "\<exists>c c' r d receipt. consume demo_env demo_custody demo_clock r d [demo_delta] None c = (c', Inr receipt) \<and>
     verify_consumption_receipt demo_env receipt (Some demo_key) = Inr () \<and>
     (\<exists>row. custody_find demo_custody (ir_intent_id r) (cn_now c') = Some row \<and> cr_status row = CONSUMED)"
proof -
  obtain d c' receipt c r where c: "custody_run demo_env demo_custody [Reserved (lit ''intent:one'')] c"
    "consume demo_env demo_custody demo_clock r d [demo_delta] None c = (c', Inr receipt)" "py_wf (VDict receipt)"
    by (rule demo_consumed)
  have "\<forall>sg. ic_signer demo_custody = Some sg \<longrightarrow> length (sg_private_key sg) = 32"
    using demo_signer_length by (simp add: demo_custody_def)
  moreover have "custody_key demo_env demo_custody = Some demo_key"
    unfolding demo_key_eq by (simp add: custody_key_def demo_custody_def)
  ultimately show ?thesis using consumption_receipt_is_evidence [OF c(1,2) demo_env_ok _ c(3)] c(2) by metis
qed

end
