(* ===== verification/WorkClaims.thy ===== *)
theory WorkClaims
  imports Reread Transactions
begin

text \<open>
  \<open>work_claims.py\<close>: coordination of agents that share one machine. Agents claim the resources
  an action may touch; overlapping claims wait in arrival order; holders carry fencing tokens;
  every transition is appended to a hash-chained event log.

  The table of claims is the list of its rows in the order of \<open>seq\<close>; rows are never deleted, so
  \<open>AUTOINCREMENT\<close> continues after the largest number. The column \<open>resources_json\<close> holds the
  canonical text of a list of texts; the model keeps the list, and \<open>resources_text_reads_back\<close>
  shows that reading the text gives it back. The current time is an argument (\<open>clock\<close>) that is
  used when the caller gives none.
\<close>

section \<open>Resources\<close>

text \<open>\<open>[a-z][a-z0-9-]{0,63}\<close> and \<open>[A-Za-z0-9][A-Za-z0-9._:@/-]{0,255}\<close>, matched in full.\<close>

definition is_lower :: "int \<Rightarrow> bool" where
  "is_lower c \<longleftrightarrow> 97 \<le> c \<and> c \<le> 122"

definition is_alnum :: "int \<Rightarrow> bool" where
  "is_alnum c \<longleftrightarrow> is_lower c \<or> 65 \<le> c \<and> c \<le> 90 \<or> is_digit c"

definition kind_ok :: "ustring \<Rightarrow> bool" where
  "kind_ok s =
     (case s of [] \<Rightarrow> False
      | c # r \<Rightarrow> is_lower c \<and> length r \<le> 63 \<and> (\<forall>x \<in> set r. is_lower x \<or> is_digit x \<or> x = 45))"

definition agent_ok :: "ustring \<Rightarrow> bool" where
  "agent_ok s =
     (case s of [] \<Rightarrow> False
      | c # r \<Rightarrow> is_alnum c \<and> length r \<le> 255 \<and> (\<forall>x \<in> set r. is_alnum x \<or> x \<in> {46, 95, 58, 64, 47, 45}))"

definition collapse_parts :: "ustring list \<Rightarrow> ustring list" where
  "collapse_parts parts = (case parts of [] \<Rightarrow> [] | p # ps \<Rightarrow> p # filter (\<lambda>q. q \<noteq> []) ps)"

definition normalize_resource :: "env \<Rightarrow> pyval \<Rightarrow> ustring res" where
  "normalize_resource E resource =
     (case resource of
        VStr s \<Rightarrow>
          (case split_once 58 s of
             None \<Rightarrow> raise WorkClaimError ''resource must be written as kind:value''
           | Some (kind, raw) \<Rightarrow>
               ensure (kind_ok kind) WorkClaimError ''invalid resource kind''
               (let v = strip E (map (\<lambda>c. if c = 92 then 47 else c) raw) in
                ensure (v \<noteq> [] \<and> \<not> (\<exists>c \<in> set v. char_isspace E c \<or> \<not> char_isprintable E c)) WorkClaimError
                  ''resource value must be a printable token without whitespace''
                (let parts = split_all 47 v in
                 ensure (\<not> (\<exists>p \<in> set parts. p = [46] \<or> p = [46, 46])) WorkClaimError
                   ''resource value may not contain . or .. segments''
                 (let collapsed = join [47] (collapse_parts parts);
                      trimmed = (if 1 < length collapsed then rstrip 47 collapsed else collapsed) in
                  Inr (kind @ 58 # casefold E trimmed)))))
      | _ \<Rightarrow> raise WorkClaimError ''resource must be written as kind:value'')"

definition contains_path :: "ustring \<Rightarrow> ustring \<Rightarrow> bool" where
  "contains_path parent child =
     starts_with (if parent \<noteq> [] \<and> last parent = 47 then parent else parent @ [47]) child"

text \<open>Normalized resources, the only ones the registry compares, contain a colon.\<close>

definition resources_overlap :: "ustring \<Rightarrow> ustring \<Rightarrow> bool" where
  "resources_overlap left right =
     (case (split_once 58 left, split_once 58 right) of
        (Some (left_kind, left_value), Some (right_kind, right_value)) \<Rightarrow>
          left_kind = right_kind \<and>
          (left_value = right_value \<or> contains_path left_value right_value \<or> contains_path right_value left_value)
      | _ \<Rightarrow> False)"

definition sets_overlap :: "ustring list \<Rightarrow> ustring list \<Rightarrow> bool" where
  "sets_overlap left right \<longleftrightarrow> (\<exists>a \<in> set left. \<exists>b \<in> set right. resources_overlap a b)"

section \<open>Arguments\<close>

definition work_time :: "datetime \<Rightarrow> datetime option \<Rightarrow> datetime res" where
  "work_time clock now =
     (let current = (case now of None \<Rightarrow> clock | Some t \<Rightarrow> t) in
      ensure (dt_offset current \<noteq> None) WorkClaimError ''claim time must include a timezone''
        (astimezone_utc current))"

definition render_time :: "datetime \<Rightarrow> ustring" where
  "render_time t = utc_suffix (isoformat True t)"

definition check_agent :: "pyval \<Rightarrow> ustring res" where
  "check_agent v =
     (case v of
        VStr s \<Rightarrow> ensure (agent_ok s) WorkClaimError ''agent_id must be a token of 1..256 safe characters'' (Inr s)
      | _ \<Rightarrow> raise WorkClaimError ''agent_id must be a token of 1..256 safe characters'')"

definition check_ttl :: "pyval \<Rightarrow> int res" where
  "check_ttl v =
     (case v of
        VInt n \<Rightarrow> ensure (1 \<le> n \<and> n \<le> 86400) WorkClaimError ''ttl_seconds must be between 1 and 86400'' (Inr n)
      | _ \<Rightarrow> raise WorkClaimError ''ttl_seconds must be between 1 and 86400'')"

text \<open>\<open>_render(current + timedelta(seconds=ttl))\<close>\<close>

definition expiry_text :: "datetime \<Rightarrow> int \<Rightarrow> ustring res" where
  "expiry_text current ttl = ebind (add_us current (ttl * 1000000)) (\<lambda>t. Inr (render_time t))"

section \<open>State\<close>

datatype claim_status = ACQUIRED | WAITING | REJECTED | RELEASED | EXPIRED | CANCELLED | HANDED_OFF

primrec claim_status_value :: "claim_status \<Rightarrow> string" where
  "claim_status_value ACQUIRED = ''acquired''"
| "claim_status_value WAITING = ''waiting''"
| "claim_status_value REJECTED = ''rejected''"
| "claim_status_value RELEASED = ''released''"
| "claim_status_value EXPIRED = ''expired''"
| "claim_status_value CANCELLED = ''cancelled''"
| "claim_status_value HANDED_OFF = ''handed_off''"

record claim_decision =
  cd_status :: claim_status
  cd_claim_id :: ustring
  cd_agent_id :: ustring
  cd_resources :: "ustring list"
  cd_fence_token :: "int option"
  cd_expires_at :: "ustring option"
  cd_blocked_by :: "ustring list"
  cd_reason :: string

record claim_row =
  wc_seq :: nat
  wc_claim_id :: ustring
  wc_agent_id :: ustring
  wc_resources :: "ustring list"
  wc_status :: claim_status
  wc_fence_token :: "int option"
  wc_ttl_seconds :: int
  wc_requested_at :: ustring
  wc_expires_at :: "ustring option"
  wc_closed_at :: "ustring option"

record claim_event_row =
  ev_digest :: ustring
  ev_previous :: "ustring option"
  ev_json :: bytes

record work_db =
  wd_claims :: "claim_row list"
  wd_last_fence :: int
  wd_events :: "claim_event_row list"

text \<open>The constructor on a new file.\<close>

definition new_registry :: work_db where
  "new_registry = \<lparr>wd_claims = [], wd_last_fence = 0, wd_events = []\<rparr>"

definition open_registry :: "pyval \<Rightarrow> work_db \<Rightarrow> work_db conn res" where
  "open_registry busy_timeout_ms db =
     (case busy_timeout_ms of
        VInt n \<Rightarrow> ensure (0 \<le> n \<and> n \<le> 60000) ValueError ''claim busy timeout must be between 0 and 60000 milliseconds''
                   (Inr (connect db))
      | _ \<Rightarrow> raise ValueError ''claim busy timeout must be between 0 and 60000 milliseconds'')"

section \<open>Statements\<close>

definition claim_find :: "ustring \<Rightarrow> work_db \<Rightarrow> claim_row option" where
  "claim_find claim_id db = find (\<lambda>r. wc_claim_id r = claim_id) (wd_claims db)"

definition get_claim :: "ustring \<Rightarrow> (work_db, claim_row) op" where
  "get_claim claim_id =
     sbind (query (claim_find claim_id)) (\<lambda>found.
     case found of None \<Rightarrow> fails WorkClaimError ''unknown claim'' | Some row \<Rightarrow> give row)"

definition is_open :: "claim_row \<Rightarrow> bool" where
  "is_open r \<longleftrightarrow> wc_status r = ACQUIRED \<or> wc_status r = WAITING"

definition open_rows :: "work_db \<Rightarrow> claim_row list" where
  "open_rows db = filter is_open (wd_claims db)"

definition next_seq :: "work_db \<Rightarrow> nat" where
  "next_seq db = fold max (map wc_seq (wd_claims db)) 0 + 1"

definition next_fence :: "(work_db, int) op" where
  "next_fence = sbind (modify (\<lambda>db. db\<lparr>wd_last_fence := wd_last_fence db + 1\<rparr>)) (\<lambda>_. query wd_last_fence)"

definition update_claim :: "ustring \<Rightarrow> (claim_row \<Rightarrow> claim_row) \<Rightarrow> (work_db, unit) op" where
  "update_claim claim_id f =
     modify (\<lambda>db. db\<lparr>wd_claims := map (\<lambda>r. if wc_claim_id r = claim_id then f r else r) (wd_claims db)\<rparr>)"

definition insert_claim ::
    "ustring \<Rightarrow> ustring \<Rightarrow> ustring list \<Rightarrow> claim_status \<Rightarrow> int option \<Rightarrow> int \<Rightarrow> ustring \<Rightarrow> ustring \<Rightarrow> (work_db, unit) op" where
  "insert_claim claim_id agent resources status fence ttl requested_at expires_at = (\<lambda>db.
     if claim_id \<in> wc_claim_id ` set (wd_claims db) then (db, raise IntegrityError ''UNIQUE constraint failed'')
     else (db\<lparr>wd_claims := wd_claims db @ [\<lparr>wc_seq = next_seq db, wc_claim_id = claim_id, wc_agent_id = agent,
             wc_resources = resources, wc_status = status, wc_fence_token = fence, wc_ttl_seconds = ttl,
             wc_requested_at = requested_at, wc_expires_at = Some expires_at, wc_closed_at = None\<rparr>]\<rparr>, Inr ()))"

definition make_decision :: "claim_row \<Rightarrow> ustring list \<Rightarrow> string \<Rightarrow> claim_decision" where
  "make_decision row blocked_by reason =
     \<lparr>cd_status = wc_status row, cd_claim_id = wc_claim_id row, cd_agent_id = wc_agent_id row, cd_resources = wc_resources row,
      cd_fence_token = wc_fence_token row, cd_expires_at = wc_expires_at row, cd_blocked_by = blocked_by, cd_reason = reason\<rparr>"

definition current_decision :: "ustring \<Rightarrow> (work_db, claim_decision) op" where
  "current_decision claim_id = sbind (get_claim claim_id) (\<lambda>row. give (make_decision row [] ''''))"

definition opt_int :: "int option \<Rightarrow> pyval" where
  "opt_int x = (case x of None \<Rightarrow> VNone | Some n \<Rightarrow> VInt n)"

definition event_tip :: "work_db \<Rightarrow> ustring option" where
  "event_tip db = (if wd_events db = [] then None else Some (ev_digest (last (wd_events db))))"

definition claim_event_core ::
    "string \<Rightarrow> claim_decision \<Rightarrow> datetime \<Rightarrow> ustring option \<Rightarrow> (string \<times> pyval) list \<Rightarrow> pydict" where
  "claim_event_core kind decision current previous extra =
     mk_dict ([(''protocol'', vlit ''integrity-guardian/work-claim/v1''), (''kind'', vlit kind), (''at'', VStr (render_time current)),
       (''claim_id'', VStr (cd_claim_id decision)), (''agent_id'', VStr (cd_agent_id decision)),
       (''status'', vlit (claim_status_value (cd_status decision))), (''resources'', VList (map VStr (cd_resources decision))),
       (''fence_token'', opt_int (cd_fence_token decision)), (''blocked_by'', VList (map VStr (cd_blocked_by decision))),
       (''previous_digest'', opt_str previous)] @ extra)"

definition append_event ::
    "env \<Rightarrow> string \<Rightarrow> claim_decision \<Rightarrow> datetime \<Rightarrow> (string \<times> pyval) list \<Rightarrow> (work_db, pydict) op" where
  "append_event E kind decision current extra =
     sbind (query event_tip) (\<lambda>previous.
     let event = claim_event_core kind decision current previous extra in
     sbind (pure_op (digest_object E (VDict event) (lit ''work-claim-event-v1''))) (\<lambda>digest.
     sbind (pure_op (canonical_bytes (VDict event))) (\<lambda>json.
     sbind (query (\<lambda>db. digest \<in> ev_digest ` set (wd_events db))) (\<lambda>duplicate.
     sensure (\<not> duplicate) IntegrityError ''UNIQUE constraint failed''
     (sbind (modify (\<lambda>db. db\<lparr>wd_events := wd_events db @ [\<lparr>ev_digest = digest, ev_previous = previous, ev_json = json\<rparr>]\<rparr>)) (\<lambda>_.
     give (dict_put event ''event_digest'' (VStr digest))))))))"

section \<open>Promotion and expiry\<close>

definition close_claim :: "ustring \<Rightarrow> claim_status \<Rightarrow> datetime \<Rightarrow> (work_db, unit) op" where
  "close_claim claim_id status current =
     update_claim claim_id (\<lambda>r. r\<lparr>wc_status := status, wc_closed_at := Some (render_time current)\<rparr>)"

definition blockers :: "claim_row \<Rightarrow> work_db \<Rightarrow> ustring list" where
  "blockers row db =
     map wc_claim_id (filter (\<lambda>other. wc_claim_id other \<noteq> wc_claim_id row \<and>
       (wc_status other = ACQUIRED \<or> wc_seq other < wc_seq row) \<and>
       sets_overlap (wc_resources row) (wc_resources other)) (open_rows db))"

definition try_promote :: "ustring \<Rightarrow> datetime \<Rightarrow> (work_db, claim_decision) op" where
  "try_promote claim_id current =
     sbind (get_claim claim_id) (\<lambda>row.
     sbind (query (blockers row)) (\<lambda>blocked.
     if blocked \<noteq> [] then give (make_decision row blocked ''overlapping blast radius is held or queued earlier'')
     else
       sbind next_fence (\<lambda>fence.
       sbind (pure_op (expiry_text current (wc_ttl_seconds row))) (\<lambda>expires_at.
       sbind (update_claim claim_id (\<lambda>r. r\<lparr>wc_status := ACQUIRED, wc_fence_token := Some fence,
                wc_expires_at := Some expires_at\<rparr>)) (\<lambda>_.
       current_decision claim_id)))))"

definition promote_row :: "env \<Rightarrow> datetime \<Rightarrow> claim_row \<Rightarrow> (work_db, unit) op" where
  "promote_row E current row =
     (if wc_status row \<noteq> WAITING then give ()
      else sbind (try_promote (wc_claim_id row) current) (\<lambda>decision.
           if cd_status decision = ACQUIRED
           then sbind (append_event E ''claim-acquired'' decision current []) (\<lambda>_. give ())
           else give ()))"

definition promote_waiters :: "env \<Rightarrow> datetime \<Rightarrow> (work_db, unit) op" where
  "promote_waiters E current =
     sbind (query open_rows) (\<lambda>rows. sbind (smap (promote_row E current) rows) (\<lambda>_. give ()))"

text \<open>\<open>_parse(row["expires_at"]) <= current\<close>\<close>

definition lapsed :: "claim_row \<Rightarrow> datetime \<Rightarrow> bool res" where
  "lapsed r current =
     ebind (fromisoformat (opt_str (wc_expires_at r))) (\<lambda>t.
     ensure (dt_offset t \<noteq> None) TypeError ''cannot compare offset-naive and offset-aware datetimes''
       (Inr (instant t \<le> instant current)))"

definition expire_row :: "env \<Rightarrow> datetime \<Rightarrow> claim_row \<Rightarrow> (work_db, bool) op" where
  "expire_row E current row =
     sbind (pure_op (lapsed row current)) (\<lambda>gone.
     if \<not> gone then give False
     else
       sbind (close_claim (wc_claim_id row) EXPIRED current) (\<lambda>_.
       sbind (current_decision (wc_claim_id row)) (\<lambda>decision.
       sbind (append_event E ''claim-expired'' decision current []) (\<lambda>_.
       give True))))"

definition expire :: "env \<Rightarrow> datetime \<Rightarrow> (work_db, unit) op" where
  "expire E current =
     sbind (query open_rows) (\<lambda>rows.
     sbind (smap (expire_row E current) rows) (\<lambda>gone.
     if True \<in> set gone then promote_waiters E current else give ()))"

definition held :: "env \<Rightarrow> ustring \<Rightarrow> ustring \<Rightarrow> int \<Rightarrow> datetime \<Rightarrow> (work_db, claim_row) op" where
  "held E claim_id agent_id fence_token current =
     sbind (expire E current) (\<lambda>_.
     sbind (get_claim claim_id) (\<lambda>row.
     sensure (wc_status row = ACQUIRED \<and> wc_agent_id row = agent_id \<and> wc_fence_token row = Some fence_token)
       StaleFenceError ''claim is not held under this fence'' (give row)))"

section \<open>Public operations\<close>

text \<open>\<open>tuple(sorted({normalize_resource(item) for item in resources}))\<close> with the bound on their number.\<close>

definition claim_resources :: "env \<Rightarrow> pyval list \<Rightarrow> ustring list res" where
  "claim_resources E resources =
     ebind (map_res (normalize_resource E) resources) (\<lambda>normalized.
     let distinct_sorted = sort (remdups normalized) in
     ensure (distinct_sorted \<noteq> [] \<and> length distinct_sorted \<le> 64) WorkClaimError ''a claim must name 1..64 resources''
       (Inr distinct_sorted))"

definition claim_id_core :: "ustring \<Rightarrow> ustring list \<Rightarrow> ustring \<Rightarrow> nat \<Rightarrow> pydict" where
  "claim_id_core agent resources requested_at nonce =
     mk_dict [(''agent_id'', VStr agent), (''resources'', VList (map VStr resources)), (''requested_at'', VStr requested_at),
       (''nonce'', VInt (int nonce))]"

definition rejection :: "ustring \<Rightarrow> ustring list \<Rightarrow> claim_row list \<Rightarrow> claim_decision" where
  "rejection agent resources own =
     \<lparr>cd_status = REJECTED, cd_claim_id = [], cd_agent_id = agent, cd_resources = resources, cd_fence_token = None,
      cd_expires_at = None, cd_blocked_by = map wc_claim_id own, cd_reason = ''overlaps a claim this agent already holds or awaits''\<rparr>"

definition claim_body :: "env \<Rightarrow> ustring \<Rightarrow> int \<Rightarrow> ustring list \<Rightarrow> datetime \<Rightarrow> (work_db, claim_decision) op" where
  "claim_body E agent ttl normalized current =
     sbind (expire E current) (\<lambda>_.
     sbind (query (\<lambda>db. filter (\<lambda>r. wc_agent_id r = agent \<and> sets_overlap normalized (wc_resources r)) (open_rows db))) (\<lambda>own.
     if own \<noteq> [] then
       sbind (append_event E ''claim-rejected'' (rejection agent normalized own) current []) (\<lambda>_.
       give (rejection agent normalized own))
     else
       sbind (query next_seq) (\<lambda>nonce.
       sbind (pure_op (content_identity E ''claim:'' ''work-claim-id-v1''
                (claim_id_core agent normalized (render_time current) nonce))) (\<lambda>claim_id.
       sbind (pure_op (canonical_bytes (VList (map VStr normalized)))) (\<lambda>_.
       sbind (pure_op (expiry_text current ttl)) (\<lambda>expires_at.
       sbind (insert_claim claim_id agent normalized WAITING None ttl (render_time current) expires_at) (\<lambda>_.
       sbind (try_promote claim_id current) (\<lambda>decision.
       sbind (append_event E (if cd_status decision = ACQUIRED then ''claim-acquired'' else ''claim-waiting'') decision current []) (\<lambda>_.
       give decision)))))))))"

definition claim ::
    "env \<Rightarrow> datetime \<Rightarrow> pyval \<Rightarrow> pyval list \<Rightarrow> pyval \<Rightarrow> datetime option \<Rightarrow> (work_db conn, claim_decision) op" where
  "claim E clock agent_id resources ttl_seconds now =
     sbind (pure_op (check_agent agent_id)) (\<lambda>agent.
     sbind (pure_op (check_ttl ttl_seconds)) (\<lambda>ttl.
     sbind (pure_op (claim_resources E resources)) (\<lambda>normalized.
     sbind (pure_op (work_time clock now)) (\<lambda>current.
     transaction (claim_body E agent ttl normalized current)))))"

definition poll_body :: "env \<Rightarrow> ustring \<Rightarrow> datetime \<Rightarrow> (work_db, claim_decision) op" where
  "poll_body E claim_id current =
     sbind (expire E current) (\<lambda>_.
     sbind (get_claim claim_id) (\<lambda>row.
     if wc_status row \<noteq> WAITING then give (make_decision row [] [])
     else
       sbind (pure_op (expiry_text current (wc_ttl_seconds row))) (\<lambda>expires_at.
       sbind (update_claim claim_id (\<lambda>r. r\<lparr>wc_expires_at := Some expires_at\<rparr>)) (\<lambda>_.
       try_promote claim_id current))))"

definition poll :: "env \<Rightarrow> datetime \<Rightarrow> ustring \<Rightarrow> datetime option \<Rightarrow> (work_db conn, claim_decision) op" where
  "poll E clock claim_id now =
     sbind (pure_op (work_time clock now)) (\<lambda>current. transaction (poll_body E claim_id current))"

text \<open>\<open>assert_fence\<close> only reads.\<close>

definition assert_fence ::
    "datetime \<Rightarrow> work_db \<Rightarrow> ustring \<Rightarrow> ustring \<Rightarrow> int \<Rightarrow> datetime option \<Rightarrow> claim_decision res" where
  "assert_fence clock db claim_id agent_id fence_token now =
     ebind (work_time clock now) (\<lambda>current.
     case claim_find claim_id db of
       None \<Rightarrow> raise WorkClaimError ''unknown claim''
     | Some row \<Rightarrow>
         ensure (wc_status row = ACQUIRED \<and> wc_agent_id row = agent_id \<and> wc_fence_token row = Some fence_token \<and>
                 wc_expires_at row \<noteq> None) StaleFenceError ''claim is not held under this fence''
         (ebind (lapsed row current) (\<lambda>gone.
          ensure (\<not> gone) StaleFenceError ''claim is not held under this fence'' (Inr (make_decision row [] [])))))"

definition renew_body :: "env \<Rightarrow> ustring \<Rightarrow> ustring \<Rightarrow> int \<Rightarrow> pyval option \<Rightarrow> datetime \<Rightarrow> (work_db, claim_decision) op" where
  "renew_body E claim_id agent_id fence_token ttl_seconds current =
     sbind (held E claim_id agent_id fence_token current) (\<lambda>row.
     sbind (pure_op (case ttl_seconds of None \<Rightarrow> Inr (wc_ttl_seconds row) | Some v \<Rightarrow> check_ttl v)) (\<lambda>ttl.
     sbind (pure_op (expiry_text current ttl)) (\<lambda>expires_at.
     sbind (update_claim claim_id (\<lambda>r. r\<lparr>wc_expires_at := Some expires_at, wc_ttl_seconds := ttl\<rparr>)) (\<lambda>_.
     sbind (current_decision claim_id) (\<lambda>decision.
     sbind (append_event E ''claim-renewed'' decision current []) (\<lambda>_.
     give decision))))))"

definition renew ::
    "env \<Rightarrow> datetime \<Rightarrow> ustring \<Rightarrow> ustring \<Rightarrow> int \<Rightarrow> pyval option \<Rightarrow> datetime option \<Rightarrow> (work_db conn, claim_decision) op" where
  "renew E clock claim_id agent_id fence_token ttl_seconds now =
     sbind (pure_op (work_time clock now)) (\<lambda>current.
     transaction (renew_body E claim_id agent_id fence_token ttl_seconds current))"

definition release_body :: "env \<Rightarrow> ustring \<Rightarrow> ustring \<Rightarrow> int \<Rightarrow> ustring \<Rightarrow> datetime \<Rightarrow> (work_db, pydict) op" where
  "release_body E claim_id agent_id fence_token outcome current =
     sbind (held E claim_id agent_id fence_token current) (\<lambda>_.
     sbind (close_claim claim_id RELEASED current) (\<lambda>_.
     sbind (current_decision claim_id) (\<lambda>decision.
     sbind (append_event E ''claim-released'' decision current [(''outcome'', VStr outcome)]) (\<lambda>receipt.
     sbind (promote_waiters E current) (\<lambda>_.
     give receipt)))))"

definition release ::
    "env \<Rightarrow> datetime \<Rightarrow> ustring \<Rightarrow> ustring \<Rightarrow> int \<Rightarrow> pyval \<Rightarrow> datetime option \<Rightarrow> (work_db conn, pydict) op" where
  "release E clock claim_id agent_id fence_token outcome now =
     (case outcome of
        VStr t \<Rightarrow>
          sensure (strip E t \<noteq> []) WorkClaimError ''release outcome is required''
          (sbind (pure_op (work_time clock now)) (\<lambda>current.
           transaction (release_body E claim_id agent_id fence_token t current)))
      | _ \<Rightarrow> fails WorkClaimError ''release outcome is required'')"

definition cancel_body :: "env \<Rightarrow> ustring \<Rightarrow> ustring \<Rightarrow> datetime \<Rightarrow> (work_db, unit) op" where
  "cancel_body E claim_id agent_id current =
     sbind (get_claim claim_id) (\<lambda>row.
     sensure (wc_agent_id row = agent_id \<and> wc_status row = WAITING) WorkClaimError
       ''only the requester can cancel its waiting claim''
     (sbind (close_claim claim_id CANCELLED current) (\<lambda>_.
      sbind (current_decision claim_id) (\<lambda>decision.
      sbind (append_event E ''claim-cancelled'' decision current []) (\<lambda>_.
      promote_waiters E current)))))"

definition cancel :: "env \<Rightarrow> datetime \<Rightarrow> ustring \<Rightarrow> ustring \<Rightarrow> datetime option \<Rightarrow> (work_db conn, unit) op" where
  "cancel E clock claim_id agent_id now =
     sbind (pure_op (work_time clock now)) (\<lambda>current. transaction (cancel_body E claim_id agent_id current))"

definition handoff_core :: "ustring \<Rightarrow> ustring \<Rightarrow> ustring \<Rightarrow> pydict" where
  "handoff_core claim_id successor at =
     mk_dict [(''handoff_from'', VStr claim_id), (''successor'', VStr successor), (''at'', VStr at)]"

text \<open>The part of \<open>handoff\<close> that moves the claim: close it, take a fence, insert the successor's.\<close>

definition transfer :: "env \<Rightarrow> claim_row \<Rightarrow> ustring \<Rightarrow> datetime \<Rightarrow> (work_db, ustring) op" where
  "transfer E row successor current =
     sbind (close_claim (wc_claim_id row) HANDED_OFF current) (\<lambda>_.
     sbind (pure_op (content_identity E ''claim:'' ''work-claim-id-v1''
              (handoff_core (wc_claim_id row) successor (render_time current)))) (\<lambda>new_id.
     sbind next_fence (\<lambda>fence.
     sbind (pure_op (canonical_bytes (VList (map VStr (wc_resources row))))) (\<lambda>_.
     sbind (pure_op (expiry_text current (wc_ttl_seconds row))) (\<lambda>expires_at.
     sbind (insert_claim new_id successor (wc_resources row) ACQUIRED (Some fence) (wc_ttl_seconds row)
              (render_time current) expires_at) (\<lambda>_.
     give new_id))))))"

definition handoff_body ::
    "env \<Rightarrow> ustring \<Rightarrow> ustring \<Rightarrow> int \<Rightarrow> ustring \<Rightarrow> ustring \<Rightarrow> datetime \<Rightarrow> (work_db, claim_decision) op" where
  "handoff_body E claim_id agent_id fence_token successor note_text current =
     sbind (held E claim_id agent_id fence_token current) (\<lambda>row.
     sensure (successor \<noteq> agent_id) WorkClaimError ''handoff successor must differ from the holder''
     (sbind (transfer E row successor current) (\<lambda>new_id.
      sbind (current_decision new_id) (\<lambda>decision.
      sbind (append_event E ''claim-handed-off'' decision current
               [(''from_claim_id'', VStr claim_id), (''from_agent_id'', VStr agent_id), (''note'', VStr note_text)]) (\<lambda>_.
      give decision)))))"

definition handoff ::
    "env \<Rightarrow> datetime \<Rightarrow> ustring \<Rightarrow> ustring \<Rightarrow> int \<Rightarrow> pyval \<Rightarrow> ustring \<Rightarrow> datetime option \<Rightarrow> (work_db conn, claim_decision) op" where
  "handoff E clock claim_id agent_id fence_token successor_id note_text now =
     sbind (pure_op (check_agent successor_id)) (\<lambda>successor.
     sbind (pure_op (work_time clock now)) (\<lambda>current.
     transaction (handoff_body E claim_id agent_id fence_token successor note_text current)))"

text \<open>The log: reading with the sequence number, and recomputing the chain.\<close>

definition read_log :: "work_db \<Rightarrow> int \<Rightarrow> int \<Rightarrow> pydict list res" where
  "read_log db after limit =
     ensure (1 \<le> limit \<and> limit \<le> 1000) WorkClaimError ''event limit is outside 1..1000''
     (map_res (\<lambda>(n, row).
        ebind (parse_json_strict (DocBytes (ev_json row))) (\<lambda>v.
        case v of
          VDict d \<Rightarrow> Inr ((tkey ''event_seq'', case dict_find d ''event_seq'' of None \<Rightarrow> VInt (int n) | Some w \<Rightarrow> w)
                         # dict_pop d ''event_seq'')
        | _ \<Rightarrow> raise TypeError ''object is not a mapping''))
      (take (nat limit) (filter (\<lambda>(n, row). after < int n) (zip [1..<length (wd_events db) + 1] (wd_events db)))))"

fun verify_log :: "env \<Rightarrow> ustring option \<Rightarrow> claim_event_row list \<Rightarrow> nat res" where
  "verify_log E previous [] = Inr 0"
| "verify_log E previous (row # rows) =
     ebind (parse_json_strict (DocBytes (ev_json row))) (\<lambda>v.
     case v of
       VDict event \<Rightarrow>
         ensure (dict_get event ''previous_digest'' = opt_str previous \<and> ev_previous row = previous) WorkClaimError
           ''work claim event chain is broken''
         (ebind (digest_object E v (lit ''work-claim-event-v1'')) (\<lambda>digest.
          ensure (digest = ev_digest row) WorkClaimError ''work claim event digest mismatch''
          (ebind (verify_log E (Some (ev_digest row)) rows) (\<lambda>count. Inr (count + 1)))))
     | _ \<Rightarrow> raise AttributeError ''get'')"

definition verify_events :: "env \<Rightarrow> work_db \<Rightarrow> nat res" where
  "verify_events E db = verify_log E None (wd_events db)"

definition claim_state :: "work_db \<Rightarrow> ustring \<Rightarrow> claim_decision res" where
  "claim_state db claim_id =
     (case claim_find claim_id db of
        None \<Rightarrow> raise WorkClaimError ''unknown claim''
      | Some row \<Rightarrow> Inr (make_decision row [] []))"

section \<open>Runs\<close>

text \<open>One operation, called with Python values, and the connections they lead to from a new file.\<close>

inductive work_step :: "env \<Rightarrow> work_db conn \<Rightarrow> work_db conn \<Rightarrow> bool" for E where
  reopen: "open_registry busy (cn_now c) = Inr c' \<Longrightarrow> work_step E c c'"
| claim: "\<forall>r \<in> set resources. py_wf r \<Longrightarrow> claim E clock agent resources ttl now c = (c', d) \<Longrightarrow> work_step E c c'"
| poll: "poll E clock i now c = (c', d) \<Longrightarrow> work_step E c c'"
| renew: "renew E clock i agent fence ttl_option now c = (c', d) \<Longrightarrow> work_step E c c'"
| release: "py_wf outcome \<Longrightarrow> release E clock i agent fence outcome now c = (c', receipt) \<Longrightarrow> work_step E c c'"
| cancel: "cancel E clock i agent now c = (c', u) \<Longrightarrow> work_step E c c'"
| handoff: "list_all is_code_point note_text \<Longrightarrow> handoff E clock i agent fence successor note_text now c = (c', d) \<Longrightarrow> work_step E c c'"

inductive work_reach :: "env \<Rightarrow> work_db conn \<Rightarrow> bool" for E where
  created: "open_registry busy new_registry = Inr c \<Longrightarrow> work_reach E c"
| step: "work_reach E c \<Longrightarrow> work_step E c c' \<Longrightarrow> work_reach E c'"

end
