(* ===== verification/WorkSafety.thy ===== *)
theory WorkSafety
  imports WorkClaims
begin

text \<open>
  Safety of the claim registry. The locale \<open>registry_invariant\<close> states what an invariant of the
  tables owes to the statements that change them; its lemmas carry it through expiry, promotion
  and all public operations. Its interpretations are mutual exclusion with the discipline of
  fencing tokens (\<open>excl\<close>), the growth of the tokens (\<open>fence\<close>), and the hash chain of the event
  log (\<open>log\<close>).
\<close>

section \<open>Overlap\<close>

lemma resources_overlap_sym: "resources_overlap a b \<longleftrightarrow> resources_overlap b a"
  by (auto simp: resources_overlap_def split: option.splits)

lemma sets_overlap_sym: "sets_overlap a b \<longleftrightarrow> sets_overlap b a"
  unfolding sets_overlap_def using resources_overlap_sym by blast

section \<open>Well-formed texts\<close>

definition texts_wf :: "ustring list \<Rightarrow> bool" where
  "texts_wf xs \<longleftrightarrow> (\<forall>x \<in> set xs. list_all is_code_point x)"

definition row_wf :: "claim_row \<Rightarrow> bool" where
  "row_wf r \<longleftrightarrow> texts_wf (wc_claim_id r # wc_agent_id r # wc_resources r)"

definition rows_wf :: "work_db \<Rightarrow> bool" where
  "rows_wf db \<longleftrightarrow> (\<forall>r \<in> set (wd_claims db). row_wf r)"

definition decision_wf :: "claim_decision \<Rightarrow> bool" where
  "decision_wf d \<longleftrightarrow> texts_wf (cd_claim_id d # cd_agent_id d # cd_resources d @ cd_blocked_by d)"

definition extra_wf :: "(string \<times> pyval) list \<Rightarrow> bool" where
  "extra_wf extra \<longleftrightarrow> distinct (map fst extra) \<and> set (map fst extra) \<subseteq> {''outcome'', ''from_claim_id'', ''from_agent_id'', ''note''} \<and>
     (\<forall>(k, v) \<in> set extra. py_wf v)"

lemma extra_wf_simps [simp]:
  "extra_wf []" "extra_wf [(''outcome'', VStr t)] \<longleftrightarrow> list_all is_code_point t"
  "extra_wf [(''from_claim_id'', VStr a), (''from_agent_id'', VStr b), (''note'', VStr t)] \<longleftrightarrow>
     list_all is_code_point a \<and> list_all is_code_point b \<and> list_all is_code_point t"
  by (auto simp: extra_wf_def)

text \<open>Updates that leave everything but the lease of a claim alone.\<close>

definition lease_only :: "(claim_row \<Rightarrow> claim_row) \<Rightarrow> bool" where
  "lease_only f \<longleftrightarrow> (\<forall>r. wc_claim_id (f r) = wc_claim_id r \<and> wc_agent_id (f r) = wc_agent_id r \<and>
     wc_resources (f r) = wc_resources r \<and> wc_status (f r) = wc_status r \<and> wc_fence_token (f r) = wc_fence_token r \<and>
     wc_seq (f r) = wc_seq r)"

definition casefold_wf :: "env \<Rightarrow> bool" where
  "casefold_wf E \<longleftrightarrow> (\<forall>c. is_code_point c \<longrightarrow> list_all is_code_point (uni_casefold E c))"

lemma set_split_all: "p \<in> set (split_all c xs) \<Longrightarrow> set p \<subseteq> set xs"
proof (induction xs arbitrary: p)
  case Nil
  then show ?case by simp
next
  case (Cons x xs)
  obtain q qs where q: "split_all c xs = q # qs" by (cases "split_all c xs") auto
  have "set q \<subseteq> set xs" "p \<in> set qs \<Longrightarrow> set p \<subseteq> set xs" using Cons.IH q by simp_all
  then show ?case using Cons.prems q by (auto split: if_splits)
qed

lemma char_casefold_wf: "casefold_wf E \<Longrightarrow> is_code_point c \<Longrightarrow> x \<in> set (char_casefold E c) \<Longrightarrow> is_code_point x"
proof (cases "c < 128")
  case True
  then have "x \<in> set (char_casefold E c) \<Longrightarrow> x = c \<or> x = c + 32" by (simp add: char_casefold_def split: if_splits)
  then show "is_code_point c \<Longrightarrow> x \<in> set (char_casefold E c) \<Longrightarrow> is_code_point x" using True by (auto simp: is_code_point_def)
next
  case False
  then show "casefold_wf E \<Longrightarrow> is_code_point c \<Longrightarrow> x \<in> set (char_casefold E c) \<Longrightarrow> is_code_point x"
    unfolding casefold_wf_def char_casefold_def list_all_iff by simp
qed

lemma hex_code_points: "list_all is_code_point (hex b)"
  using hex_digits_range [of _ b] by (fastforce simp: list_all_iff is_code_point_def)

lemma content_identity_code_points: "content_identity E pre domain d = Inr x \<Longrightarrow> list_all is_code_point x"
  using lit_code_points by (auto simp: content_identity_Inr hex_code_points)

lemma check_agent_wf: "check_agent v = Inr a \<Longrightarrow> list_all is_code_point a"
  by (auto simp: check_agent_def agent_ok_def is_alnum_def is_lower_def is_digit_def is_code_point_def list_all_iff res_simps
      split: pyval.splits list.splits)

lemma normalize_wf:
  assumes "casefold_wf E" "normalize_resource E v = Inr x" "py_wf v"
  shows "list_all is_code_point x"
proof -
  obtain s kind raw where v: "v = VStr s" "split_once 58 s = Some (kind, raw)"
    using assms(2) by (auto simp: normalize_resource_def res_simps split: pyval.splits option.splits)
  define w where "w = strip E (map (\<lambda>c. if c = 92 then 47 else c) raw)"
  define u where "u = join [47] (collapse_parts (split_all 47 w))"
  have x: "x = kind @ 58 # casefold E (if 1 < length u then rstrip 47 u else u)"
    using assms(2) v by (auto simp: normalize_resource_def res_simps Let_def w_def u_def)
  have s: "s = kind @ 58 # raw" using v(2) by (simp add: split_once_Some)
  then have "\<forall>c \<in> set kind \<union> set raw. is_code_point c" using assms(3) v(1) by (auto simp: list_all_iff)
  moreover have "set w \<subseteq> insert 47 (set raw)"
    unfolding w_def strip_def by (auto dest!: set_dropWhileD split: if_splits)
  moreover have "set u \<subseteq> insert 47 (set w)"
  proof -
    have "set (collapse_parts (split_all 47 w)) \<subseteq> set (split_all 47 w)"
      by (cases "split_all 47 w") (auto simp: collapse_parts_def)
    then show ?thesis unfolding u_def
      using set_join [of "[47]" "collapse_parts (split_all 47 w)"] set_split_all [of _ 47 w] by (simp, blast)
  qed
  moreover have "is_code_point 47" by (simp add: is_code_point_def)
  ultimately have "\<forall>c \<in> set kind \<union> set u. is_code_point c" by blast
  moreover have "set (if 1 < length u then rstrip 47 u else u) \<subseteq> set u"
    by (auto simp: rstrip_def dest!: set_dropWhileD)
  moreover have "is_code_point 58" by (simp add: is_code_point_def)
  ultimately show ?thesis using char_casefold_wf [OF assms(1)] unfolding x casefold_def list_all_iff
    by (simp only: set_append set_simps set_concat set_map) blast
qed

section \<open>The contract of an invariant\<close>

locale registry_invariant =
  fixes E :: env and I :: "work_db \<Rightarrow> bool"
  assumes rows: "I db \<Longrightarrow> rows_wf db"
    and event: "decision_wf d \<Longrightarrow> extra_wf extra \<Longrightarrow> keeps I (append_event E kind d t extra)"
    and promote: "keeps I (try_promote i t)"
    and lease: "lease_only f \<Longrightarrow> keeps I (update_claim i f)"
    and close: "status \<noteq> ACQUIRED \<Longrightarrow> status \<noteq> WAITING \<Longrightarrow> keeps I (close_claim i status t)"
    and enqueue: "texts_wf (i # a # rs) \<Longrightarrow> keeps I (insert_claim i a rs WAITING None ttl at ex)"
    and transfer: "I db \<Longrightarrow> claim_find i db = Some row \<Longrightarrow> wc_status row = ACQUIRED \<Longrightarrow> list_all is_code_point successor \<Longrightarrow>
      transfer E row successor t db = (db', r) \<Longrightarrow> I db'"
begin

lemma yields_True: "keeps I m \<Longrightarrow> yields I m (\<lambda>_. True)"
  by (simp add: keeps_def yields_def)

lemma found_wf: "I db \<Longrightarrow> claim_find i db = Some row \<Longrightarrow> row_wf row"
  using rows by (fastforce simp: claim_find_def rows_wf_def find_Some_iff)

lemma get_yields: "yields I (get_claim i) row_wf"
  unfolding get_claim_def
  by (rule yields_sbind [where Q = "\<lambda>found. \<forall>row. found = Some row \<longrightarrow> row_wf row"])
    (auto intro!: yields_rules simp: found_wf split: option.splits)

lemma decision_row: "row_wf row \<Longrightarrow> texts_wf blocked \<Longrightarrow> decision_wf (make_decision row blocked reason)"
  by (auto simp: decision_wf_def make_decision_def row_wf_def texts_wf_def)

lemma decision_yields: "yields I (current_decision i) decision_wf"
  unfolding current_decision_def
  by (rule yields_sbind [OF get_yields]) (auto intro!: yields_rules decision_row simp: texts_wf_def)

lemma promote_yields: "yields I (try_promote i t) decision_wf"
proof (rule yieldsI)
  fix db db' r assume s: "I db" "try_promote i t db = (db', r)"
  have I': "I db'" using keepsD [OF promote s] .
  have "decision_wf d" if r: "r = Inr d" for d
  proof -
    obtain row where row: "claim_find i db = Some row"
      using s(2) r by (auto simp: try_promote_def get_claim_def op_simps split: option.splits)
    show ?thesis
    proof (cases "blockers row db = []")
      case False
      have "texts_wf (blockers row db)" using rows [OF s(1)]
        by (auto simp: blockers_def open_rows_def texts_wf_def rows_wf_def row_wf_def)
      moreover have "d = make_decision row (blockers row db) ''overlapping blast radius is held or queued earlier''"
        using s(2) r row False by (auto simp: try_promote_def get_claim_def sbind_apply)
      ultimately show ?thesis using decision_row found_wf [OF s(1) row] by blast
    next
      case True
      then obtain db1 where "current_decision i db1 = (db', Inr d)"
        using s(2) r row by (auto simp: try_promote_def get_claim_def op_simps split: option.splits)
      then have "\<exists>row'. claim_find i db' = Some row' \<and> d = make_decision row' [] []"
        by (auto simp: current_decision_def get_claim_def op_simps split: option.splits)
      then show ?thesis using decision_row found_wf [OF I'] by (auto simp: texts_wf_def)
    qed
  qed
  then show "I db' \<and> (\<forall>x. r = Inr x \<longrightarrow> decision_wf x)" using I' by blast
qed

lemma event_yields: "decision_wf d \<Longrightarrow> extra_wf extra \<Longrightarrow> yields I (append_event E kind d t extra) (\<lambda>_. True)"
  by (intro yields_True event)

lemma open_rows_yields: "yields I (query open_rows) (\<lambda>rs. \<forall>r \<in> set rs. row_wf r)"
  using rows by (intro yields_rules) (auto simp: open_rows_def rows_wf_def)

lemma promote_waiters_yields: "yields I (promote_waiters E t) (\<lambda>_. True)"
proof -
  have "yields I (promote_row E t row) (\<lambda>_. True)" for row
    unfolding promote_row_def
    by (intro yields_rules yields_sbind [OF promote_yields] yields_sbind [OF event_yields]) simp_all
  then show ?thesis unfolding promote_waiters_def
    by (intro yields_sbind [OF open_rows_yields] yields_sbind [OF yields_smap] yields_rules)
qed

lemma close_yields: "status \<noteq> ACQUIRED \<Longrightarrow> status \<noteq> WAITING \<Longrightarrow> yields I (close_claim i status t) (\<lambda>_. True)"
  by (intro yields_True close)

lemma expire_yields: "yields I (expire E t) (\<lambda>_. True)"
proof -
  have "yields I (expire_row E t row) (\<lambda>_. True)" for row
    unfolding expire_row_def
    by (rule yields_sbind [where Q = "\<lambda>_. True"])
      (intro yields_rules yields_sbind [OF close_yields] yields_sbind [OF decision_yields] yields_sbind [OF event_yields]; simp)+
  then show ?thesis unfolding expire_def
    by (intro yields_sbind [OF open_rows_yields] yields_sbind [OF yields_smap] yields_rules promote_waiters_yields)
qed

lemma lease_yields: "lease_only f \<Longrightarrow> yields I (update_claim i f) (\<lambda>_. True)"
  by (intro yields_True lease)

lemma pure_yields: "yields I (pure_op m) (\<lambda>_. True)"
  by (intro yields_True keeps_basic)

lemmas chained =
  yields_sbind [OF pure_yields] yields_sbind [OF get_yields] yields_sbind [OF expire_yields]
  yields_sbind [OF close_yields] yields_sbind [OF decision_yields] yields_sbind [OF event_yields]
  yields_sbind [OF lease_yields] yields_sbind [OF promote_waiters_yields] yields_sbind [OF promote_yields]

definition held_row :: "ustring \<Rightarrow> ustring \<Rightarrow> claim_row \<Rightarrow> bool" where
  "held_row i a row \<longleftrightarrow> row_wf row \<and> wc_claim_id row = i \<and> wc_agent_id row = a \<and> wc_status row = ACQUIRED"

lemma held_success:
  assumes "held E i a n t db = (db', Inr row)" "I db"
  shows "claim_find i db' = Some row" "held_row i a row" "I db'"
proof -
  obtain db1 u where e: "expire E t db = (db1, Inr u)"
    and f: "claim_find i db1 = Some row" "db' = db1" "wc_status row = ACQUIRED" "wc_agent_id row = a"
    using assms(1) by (auto simp: held_def get_claim_def op_simps split: option.splits)
  show "I db'" using yieldsD [OF expire_yields assms(2) e] f(2) by simp
  then show "held_row i a row" using found_wf f by (auto simp: held_row_def claim_find_def find_Some_iff)
  show "claim_find i db' = Some row" using f by simp
qed

lemma held_yields: "yields I (held E i a n t) (held_row i a)"
proof (rule yieldsI)
  fix db db' r assume s: "I db" "held E i a n t db = (db', r)"
  have "keeps I (held E i a n t)"
    unfolding held_def by (rule yields_keeps) (intro chained yields_rules yields_sbind [OF get_yields] TrueI)
  then show "I db' \<and> (\<forall>x. r = Inr x \<longrightarrow> held_row i a x)"
    using keepsD [of I "held E i a n t" db db' r] held_success(2) [of i a n t db db'] s by blast
qed

lemma poll_keeps: "keeps I (poll_body E i t)"
  unfolding poll_body_def
  by (rule yields_keeps) (intro chained yields_rules yields_weaken [OF promote_yields] TrueI; simp add: lease_only_def)

lemma renew_keeps: "keeps I (renew_body E i a n ttl t)"
  unfolding renew_body_def
  by (rule yields_keeps)
    (intro yields_sbind [OF held_yields] chained yields_rules TrueI; simp add: lease_only_def)

lemma release_keeps: "list_all is_code_point outcome \<Longrightarrow> keeps I (release_body E i a n outcome t)"
  unfolding release_body_def
  by (rule yields_keeps) (intro yields_sbind [OF held_yields] chained yields_rules TrueI; simp)

lemma cancel_keeps: "keeps I (cancel_body E i a t)"
  unfolding cancel_body_def
  by (rule yields_keeps) (intro chained yields_rules; (rule promote_waiters_yields | simp))

lemma enqueue_yields:
  "texts_wf (i # a # rs) \<Longrightarrow> yields I (insert_claim i a rs WAITING None ttl at ex) (\<lambda>_. True)"
  by (intro yields_True enqueue)

lemma claim_keeps:
  assumes "list_all is_code_point agent" "texts_wf normalized"
  shows "keeps I (claim_body E agent ttl normalized t)"
proof -
  have own: "yields I (query (\<lambda>db. filter (\<lambda>r. P r) (open_rows db))) (\<lambda>own. \<forall>r \<in> set own. row_wf r)" for P
    using rows by (intro yields_rules) (auto simp: open_rows_def rows_wf_def)
  have rejected: "decision_wf (rejection agent normalized own)" if "\<forall>r \<in> set own. row_wf r" for own
    using assms that by (auto simp: rejection_def decision_wf_def texts_wf_def row_wf_def)
  have ident: "yields I (pure_op (content_identity E ''claim:'' ''work-claim-id-v1'' core)) (list_all is_code_point)" for core
    by (intro yields_rules) (rule content_identity_code_points)
  show ?thesis unfolding claim_body_def
    by (rule yields_keeps)
      (intro yields_sbind [OF own] yields_sbind [OF ident] chained yields_sbind [OF enqueue_yields]
        yields_sbind [OF yields_query] yields_rules rejected TrueI; use assms in \<open>simp add: texts_wf_def\<close>)
qed

lemma handoff_keeps:
  assumes "list_all is_code_point successor" "list_all is_code_point note_text"
  shows "keeps I (handoff_body E i a n successor note_text t)"
proof (rule keepsI)
  fix db db' r assume s: "I db" "handoff_body E i a n successor note_text t db = (db', r)"
  obtain db1 r1 where h: "held E i a n t db = (db1, r1)" by fastforce
  have I1: "I db1" using yieldsD [OF held_yields s(1) h] by simp
  show "I db'"
  proof (cases r1)
    case (Inl e)
    then show ?thesis using s(2) h I1 by (simp add: handoff_body_def sbind_apply)
  next
    case (Inr row)
    note row = held_success [OF h [unfolded Inr] s(1)]
    obtain db2 r2 where m: "transfer E row successor t db1 = (db2, r2)" by fastforce
    have I2: "I db2" using transfer [OF I1 row(1) _ assms(1) m] row(2) by (simp add: held_row_def)
    have "keeps I (sbind (current_decision new_id) (\<lambda>decision.
      sbind (append_event E ''claim-handed-off'' decision t
        [(''from_claim_id'', VStr i), (''from_agent_id'', VStr a), (''note'', VStr note_text)]) (\<lambda>_. give decision)))" for new_id
      using row(2) assms
      by (intro yields_keeps) (intro chained yields_rules TrueI; auto simp: held_row_def row_wf_def texts_wf_def)
    from keepsD [OF this I2] show ?thesis using s(2) h Inr m I1 I2
      by (auto simp: handoff_body_def sbind_apply sensure_def split: if_splits sum.splits)
  qed
qed

text \<open>The public operations.\<close>

lemma claim_resources_wf: "casefold_wf E \<Longrightarrow> claim_resources E rs = Inr xs \<Longrightarrow> \<forall>r \<in> set rs. py_wf r \<Longrightarrow> texts_wf xs"
proof -
  assume folds: "casefold_wf E" and a: "claim_resources E rs = Inr xs" "\<forall>r \<in> set rs. py_wf r"
  then obtain ys where ys: "list_all2 (\<lambda>v y. normalize_resource E v = Inr y) rs ys" "xs = sort (remdups ys)"
    by (auto simp: claim_resources_def res_simps Let_def map_res_Inr_iff)
  have "list_all is_code_point y" if y: "y \<in> set ys" for y
  proof -
    obtain k where k: "k < length ys" "y = ys ! k" using y by (auto simp: in_set_conv_nth)
    then have "normalize_resource E (rs ! k) = Inr y" "rs ! k \<in> set rs" using ys(1) by (auto simp: list_all2_conv_all_nth)
    then show ?thesis using normalize_wf [OF folds] a(2) by blast
  qed
  then show ?thesis using ys(2) by (simp add: texts_wf_def)
qed

lemma pure_then: "(\<And>x. m = Inr x \<Longrightarrow> keeps J (f x)) \<Longrightarrow> keeps J (sbind (pure_op m) f)"
  by (cases m) (simp_all add: keeps_def)

lemma step_keeps:
  assumes "work_step E c c'" "conn_inv I c" "casefold_wf E"
  shows "conn_inv I c'"
  using assms
proof cases
  case (reopen busy)
  then show ?thesis using assms(2) by (auto simp: open_registry_def res_simps connect_def conn_inv_def split: pyval.splits)
next
  case (claim resources clock agent ttl now d)
  have "keeps (conn_inv I) (claim E clock agent resources ttl now)"
    unfolding claim_def
    by (intro pure_then keeps_transaction claim_keeps) (erule check_agent_wf, erule claim_resources_wf [OF assms(3)], rule claim(1))
  from keepsD [OF this assms(2) claim(2)] show ?thesis .
next
  case (poll clock i now d)
  have "keeps (conn_inv I) (poll E clock i now)"
    unfolding poll_def by (intro pure_then keeps_transaction poll_keeps)
  from keepsD [OF this assms(2) poll] show ?thesis .
next
  case (renew clock i agent fence ttl now d)
  have "keeps (conn_inv I) (renew E clock i agent fence ttl now)"
    unfolding renew_def by (intro pure_then keeps_transaction renew_keeps)
  from keepsD [OF this assms(2) renew] show ?thesis .
next
  case (release outcome clock i agent fence now receipt)
  have "keeps (conn_inv I) (release E clock i agent fence outcome now)"
    unfolding release_def using release(1)
    by (cases outcome) (auto intro!: pure_then keeps_rules release_keeps)
  from keepsD [OF this assms(2) release(2)] show ?thesis .
next
  case (cancel clock i agent now u)
  have "keeps (conn_inv I) (cancel E clock i agent now)"
    unfolding cancel_def by (intro pure_then keeps_transaction cancel_keeps)
  from keepsD [OF this assms(2) cancel] show ?thesis .
next
  case (handoff note_text clock i agent fence successor now d)
  have "keeps (conn_inv I) (handoff E clock i agent fence successor note_text now)"
    unfolding handoff_def
    by (intro pure_then keeps_transaction handoff_keeps) (erule check_agent_wf, rule handoff(1))
  from keepsD [OF this assms(2) handoff(2)] show ?thesis .
qed

lemma steps_keep: "(work_step E)\<^sup>*\<^sup>* c c' \<Longrightarrow> conn_inv I c \<Longrightarrow> casefold_wf E \<Longrightarrow> conn_inv I c'"
  by (induction rule: rtranclp_induct) (use step_keeps in blast)+

lemma reached: "work_reach E c \<Longrightarrow> casefold_wf E \<Longrightarrow> I new_registry \<Longrightarrow> conn_inv I c"
proof (induction rule: work_reach.induct)
  case (created busy c)
  then show ?case by (auto simp: open_registry_def res_simps connect_def conn_inv_def split: pyval.splits)
next
  case (step c c')
  then show ?case using step_keeps by blast
qed

end

section \<open>What the statements do\<close>

lemma update_claims: "update_claim i f db = (db', r) \<Longrightarrow>
    db' = db\<lparr>wd_claims := map (\<lambda>x. if wc_claim_id x = i then f x else x) (wd_claims db)\<rparr>"
  by (auto simp: update_claim_def)

lemma insert_claims: "insert_claim i a rs status fence ttl at ex db = (db', r) \<Longrightarrow> db' = db \<or>
    i \<notin> wc_claim_id ` set (wd_claims db) \<and>
    (\<exists>row. db' = db\<lparr>wd_claims := wd_claims db @ [row]\<rparr> \<and> wc_claim_id row = i \<and> wc_agent_id row = a \<and>
      wc_resources row = rs \<and> wc_status row = status \<and> wc_fence_token row = fence)"
  by (auto simp: insert_claim_def split: if_splits)

text \<open>An operation keeps \<open>I\<close> when each state it may stop in has it.\<close>

lemma promote_states:
  assumes "try_promote i t db = (db', r)" "I db" "I (db\<lparr>wd_last_fence := wd_last_fence db + 1\<rparr>)"
    and "\<And>row ex. claim_find i db = Some row \<Longrightarrow> blockers row db = [] \<Longrightarrow>
      I (db\<lparr>wd_last_fence := wd_last_fence db + 1, wd_claims := map (\<lambda>x. if wc_claim_id x = i
        then x\<lparr>wc_status := ACQUIRED, wc_fence_token := Some (wd_last_fence db + 1), wc_expires_at := Some ex\<rparr> else x) (wd_claims db)\<rparr>)"
  shows "I db'"
  using assms
  by (auto simp: try_promote_def get_claim_def next_fence_def update_claim_def current_decision_def sbind_apply
      split: option.splits sum.splits if_splits prod.splits)

lemma transfer_states:
  assumes "transfer E row successor t db = (db', r)"
    and "\<And>closed. closed = db\<lparr>wd_claims := map (\<lambda>x. if wc_claim_id x = wc_claim_id row
        then x\<lparr>wc_status := HANDED_OFF, wc_closed_at := Some (render_time t)\<rparr> else x) (wd_claims db)\<rparr> \<Longrightarrow>
      I closed \<and> I (closed\<lparr>wd_last_fence := wd_last_fence db + 1\<rparr>) \<and>
      (\<forall>new. wc_claim_id new \<notin> wc_claim_id ` set (wd_claims db) \<longrightarrow> list_all is_code_point (wc_claim_id new) \<longrightarrow>
        wc_agent_id new = successor \<longrightarrow> wc_resources new = wc_resources row \<longrightarrow> wc_status new = ACQUIRED \<longrightarrow>
        wc_fence_token new = Some (wd_last_fence db + 1) \<longrightarrow>
        I (closed\<lparr>wd_last_fence := wd_last_fence db + 1, wd_claims := wd_claims closed @ [new]\<rparr>))"
  shows "I db'"
proof -
  let ?closed = "db\<lparr>wd_claims := map (\<lambda>x. if wc_claim_id x = wc_claim_id row
    then x\<lparr>wc_status := HANDED_OFF, wc_closed_at := Some (render_time t)\<rparr> else x) (wd_claims db)\<rparr>"
  let ?fenced = "?closed\<lparr>wd_last_fence := wd_last_fence db + 1\<rparr>"
  have ids: "wc_claim_id ` set (wd_claims ?fenced) = wc_claim_id ` set (wd_claims db)"
  proof -
    have "map wc_claim_id (wd_claims ?fenced) = map wc_claim_id (wd_claims db)" by simp
    then show ?thesis by (metis list.set_map)
  qed
  have "db' = ?closed \<or> db' = ?fenced \<or>
    (\<exists>new_id ex r. content_identity E ''claim:'' ''work-claim-id-v1'' (handoff_core (wc_claim_id row) successor (render_time t)) = Inr new_id \<and>
      insert_claim new_id successor (wc_resources row) ACQUIRED (Some (wd_last_fence db + 1)) (wc_ttl_seconds row)
        (render_time t) ex ?fenced = (db', r))"
    using assms(1)
    by (auto simp: transfer_def close_claim_def update_claim_def next_fence_def sbind_apply split: sum.splits prod.splits)
  then show ?thesis
  proof (elim disjE exE conjE)
    fix new_id ex r
    assume new_id: "content_identity E ''claim:'' ''work-claim-id-v1'' (handoff_core (wc_claim_id row) successor (render_time t)) = Inr new_id"
      and ins: "insert_claim new_id successor (wc_resources row) ACQUIRED (Some (wd_last_fence db + 1)) (wc_ttl_seconds row)
        (render_time t) ex ?fenced = (db', r)"
    from insert_claims [OF ins] show ?thesis
    proof (elim disjE exE conjE)
      assume "db' = ?fenced"
      then show ?thesis using assms(2) by simp
    next
      fix new assume "new_id \<notin> wc_claim_id ` set (wd_claims ?fenced)" "db' = ?fenced\<lparr>wd_claims := wd_claims ?fenced @ [new]\<rparr>"
        "wc_claim_id new = new_id" "wc_agent_id new = successor" "wc_resources new = wc_resources row" "wc_status new = ACQUIRED"
        "wc_fence_token new = Some (wd_last_fence db + 1)"
      then show ?thesis using assms(2) [OF refl] content_identity_code_points [OF new_id] unfolding ids by simp
    qed
  qed (use assms(2) [OF refl] in simp_all)
qed

lemma event_states:
  assumes "append_event E kind d t extra db = (db', r)"
  shows "db' = db \<or> (\<exists>digest json. let event = claim_event_core kind d t (event_tip db) extra in
    digest_object E (VDict event) (lit ''work-claim-event-v1'') = Inr digest \<and> canonical_bytes (VDict event) = Inr json \<and>
    db' = db\<lparr>wd_events := wd_events db @ [\<lparr>ev_digest = digest, ev_previous = event_tip db, ev_json = json\<rparr>]\<rparr>)"
  using assms by (auto simp: append_event_def Let_def sbind_apply sensure_def split: sum.splits if_splits prod.splits)

section \<open>Exclusion\<close>

definition claims_inv :: "work_db \<Rightarrow> bool" where
  "claims_inv db \<longleftrightarrow> rows_wf db \<and> distinct (map wc_claim_id (wd_claims db)) \<and>
     (\<forall>r \<in> set (wd_claims db). (wc_status r = ACQUIRED \<longrightarrow> wc_fence_token r \<noteq> None) \<and>
        (\<forall>n. wc_fence_token r = Some n \<longrightarrow> n \<le> wd_last_fence db) \<and>
        (\<forall>s \<in> set (wd_claims db). wc_claim_id r \<noteq> wc_claim_id s \<longrightarrow>
           (wc_status r = ACQUIRED \<and> wc_status s = ACQUIRED \<longrightarrow> \<not> sets_overlap (wc_resources r) (wc_resources s)) \<and>
           (wc_fence_token r \<noteq> None \<longrightarrow> wc_fence_token r \<noteq> wc_fence_token s)))"

lemma claims_inv_update:
  assumes "claims_inv db" "\<And>x. x \<in> set (wd_claims db) \<Longrightarrow> wc_claim_id x = i \<Longrightarrow> wc_claim_id (f x) = i"
    "\<And>x. x \<in> set (wd_claims db) \<Longrightarrow> wc_claim_id x = i \<Longrightarrow> wc_agent_id (f x) = wc_agent_id x \<and> wc_resources (f x) = wc_resources x"
    and "wd_last_fence db \<le> last_fence"
    and "\<And>x. x \<in> set (wd_claims db) \<Longrightarrow> wc_claim_id x = i \<Longrightarrow>
      (wc_status (f x) = ACQUIRED \<longrightarrow> wc_fence_token (f x) \<noteq> None) \<and>
      (wc_fence_token (f x) = wc_fence_token x \<or> wd_last_fence db < last_fence \<and> wc_fence_token (f x) = Some last_fence) \<and>
      (wc_status (f x) = ACQUIRED \<longrightarrow> wc_status x = ACQUIRED \<or>
        (\<forall>s \<in> set (wd_claims db). wc_claim_id s \<noteq> i \<longrightarrow> wc_status s = ACQUIRED \<longrightarrow> \<not> sets_overlap (wc_resources x) (wc_resources s)))"
  shows "claims_inv (db\<lparr>wd_last_fence := last_fence, wd_claims := map (\<lambda>x. if wc_claim_id x = i then f x else x) (wd_claims db)\<rparr>)"
    (is "claims_inv ?db")
proof -
  define g where "g x = (if wc_claim_id x = i then f x else x)" for x
  have ids: "map wc_claim_id (wd_claims ?db) = map wc_claim_id (wd_claims db)" using assms(2) by simp
  have wf: "rows_wf ?db" using assms(1,2,3) by (auto simp: claims_inv_def rows_wf_def row_wf_def)
  have old: "(wc_status x = ACQUIRED \<longrightarrow> wc_fence_token x \<noteq> None) \<and> (\<forall>n. wc_fence_token x = Some n \<longrightarrow> n \<le> wd_last_fence db)"
    if "x \<in> set (wd_claims db)" for x using assms(1) that by (auto simp: claims_inv_def)
  have pair: "(wc_status x = ACQUIRED \<and> wc_status y = ACQUIRED \<longrightarrow> \<not> sets_overlap (wc_resources x) (wc_resources y)) \<and>
      (wc_fence_token x \<noteq> None \<longrightarrow> wc_fence_token x \<noteq> wc_fence_token y)"
    if "x \<in> set (wd_claims db)" "y \<in> set (wd_claims db)" "wc_claim_id x \<noteq> wc_claim_id y" for x y
    using assms(1) that by (auto simp: claims_inv_def)
  have row: "(wc_status (g x) = ACQUIRED \<longrightarrow> wc_fence_token (g x) \<noteq> None) \<and> (\<forall>n. wc_fence_token (g x) = Some n \<longrightarrow> n \<le> last_fence)"
    if x: "x \<in> set (wd_claims db)" for x
  proof (cases "wc_claim_id x = i")
    case True
    show ?thesis using old [OF x] assms(4) assms(5) [OF x True] True by (auto simp: g_def)
  next
    case False
    then show ?thesis using old [OF x] assms(4) by (auto simp: g_def)
  qed
  have half: "(wc_status (f x) = ACQUIRED \<and> wc_status y = ACQUIRED \<longrightarrow> \<not> sets_overlap (wc_resources x) (wc_resources y)) \<and>
      (wc_fence_token (f x) \<noteq> None \<longrightarrow> wc_fence_token (f x) \<noteq> wc_fence_token y)"
    if x: "x \<in> set (wd_claims db)" "wc_claim_id x = i" and y: "y \<in> set (wd_claims db)" "wc_claim_id y \<noteq> i" for x y
  proof
    show "wc_status (f x) = ACQUIRED \<and> wc_status y = ACQUIRED \<longrightarrow> \<not> sets_overlap (wc_resources x) (wc_resources y)"
      using assms(5) [OF x] pair [OF x(1) y(1)] x(2) y by auto
    show "wc_fence_token (f x) \<noteq> None \<longrightarrow> wc_fence_token (f x) \<noteq> wc_fence_token y"
      using assms(5) [OF x] pair [OF x(1) y(1)] x(2) y(2) old [OF y(1)] by (cases "wc_fence_token y") auto
  qed
  have rows: "(wc_status (g x) = ACQUIRED \<and> wc_status (g y) = ACQUIRED \<longrightarrow> \<not> sets_overlap (wc_resources (g x)) (wc_resources (g y))) \<and>
      (wc_fence_token (g x) \<noteq> None \<longrightarrow> wc_fence_token (g x) \<noteq> wc_fence_token (g y))"
    if x: "x \<in> set (wd_claims db)" and y: "y \<in> set (wd_claims db)" and ne: "wc_claim_id x \<noteq> wc_claim_id y" for x y
  proof (cases "wc_claim_id x = i")
    case True
    then show ?thesis using half [OF x True y] ne assms(3) [OF x True] by (simp add: g_def)
  next
    case False
    then show ?thesis using half [OF y _ x False] assms(3) [OF y] pair [OF x y ne] sets_overlap_sym [of "wc_resources x"]
      by (cases "wc_claim_id y = i") (auto simp: g_def dest: sym)
  qed
  have gid: "wc_claim_id (g x) = wc_claim_id x" if "x \<in> set (wd_claims db)" for x using assms(2) that by (simp add: g_def)
  have distinct: "distinct (map wc_claim_id (wd_claims ?db))" unfolding ids using assms(1) by (simp add: claims_inv_def)
  have db: "set (wd_claims ?db) = g ` set (wd_claims db)" "wd_last_fence ?db = last_fence" by (simp_all add: g_def)
  show ?thesis unfolding claims_inv_def db ball_simps
    using wf distinct row rows gid by (intro conjI ballI; simp)
qed

lemma claims_inv_insert:
  assumes "claims_inv db" "row_wf new" "wc_claim_id new \<notin> wc_claim_id ` set (wd_claims db)"
    and "wc_status new \<noteq> ACQUIRED \<and> wc_fence_token new = None \<or>
      (\<forall>r \<in> set (wd_claims db). \<forall>n. wc_fence_token r = Some n \<longrightarrow> n < wd_last_fence db) \<and> wc_fence_token new = Some (wd_last_fence db) \<and>
      (\<forall>r \<in> set (wd_claims db). wc_status r = ACQUIRED \<longrightarrow> \<not> sets_overlap (wc_resources new) (wc_resources r))"
  shows "claims_inv (db\<lparr>wd_claims := wd_claims db @ [new]\<rparr>)"
proof -
  have old: "\<And>r. r \<in> set (wd_claims db) \<Longrightarrow> row_wf r \<and> (wc_status r = ACQUIRED \<longrightarrow> wc_fence_token r \<noteq> None) \<and>
      (\<forall>n. wc_fence_token r = Some n \<longrightarrow> n \<le> wd_last_fence db)"
    and pairs: "\<And>r s. r \<in> set (wd_claims db) \<Longrightarrow> s \<in> set (wd_claims db) \<Longrightarrow> wc_claim_id r \<noteq> wc_claim_id s \<Longrightarrow>
      (wc_status r = ACQUIRED \<and> wc_status s = ACQUIRED \<longrightarrow> \<not> sets_overlap (wc_resources r) (wc_resources s)) \<and>
      (wc_fence_token r \<noteq> None \<longrightarrow> wc_fence_token r \<noteq> wc_fence_token s)"
    and ids: "distinct (map wc_claim_id (wd_claims db))"
    using assms(1) by (auto simp: claims_inv_def rows_wf_def)
  have new: "(wc_status new = ACQUIRED \<longrightarrow> wc_fence_token new \<noteq> None) \<and> (\<forall>n. wc_fence_token new = Some n \<longrightarrow> n \<le> wd_last_fence db)"
    using assms(4) by auto
  have both: "(wc_status new = ACQUIRED \<and> wc_status s = ACQUIRED \<longrightarrow> \<not> sets_overlap (wc_resources new) (wc_resources s)) \<and>
      (wc_fence_token new \<noteq> None \<longrightarrow> wc_fence_token new \<noteq> wc_fence_token s)" if "s \<in> set (wd_claims db)" for s
    using assms(4) that by (cases "wc_fence_token s") auto
  have both': "(wc_status s = ACQUIRED \<and> wc_status new = ACQUIRED \<longrightarrow> \<not> sets_overlap (wc_resources s) (wc_resources new)) \<and>
      (wc_fence_token s \<noteq> None \<longrightarrow> wc_fence_token s \<noteq> wc_fence_token new)" if "s \<in> set (wd_claims db)" for s
    using both [OF that] sets_overlap_sym [of "wc_resources s"] by auto
  show ?thesis unfolding claims_inv_def rows_wf_def
    using old pairs ids new both both' assms(2,3) by simp
qed

lemma claim_find_unique:
  "claims_inv db \<Longrightarrow> claim_find i db = Some row \<Longrightarrow> x \<in> set (wd_claims db) \<Longrightarrow> wc_claim_id x = i \<Longrightarrow> x = row"
  by (auto simp: claims_inv_def claim_find_def find_Some_iff distinct_map dest: inj_onD)

lemma claim_find_in: "claim_find i db = Some row \<Longrightarrow> row \<in> set (wd_claims db) \<and> wc_claim_id row = i"
  by (auto simp: claim_find_def find_Some_iff)

lemma not_blocked:
  assumes "claim_find i db = Some row" "blockers row db = []" "s \<in> set (wd_claims db)" "wc_claim_id s \<noteq> i" "wc_status s = ACQUIRED"
  shows "\<not> sets_overlap (wc_resources row) (wc_resources s)"
  using assms claim_find_in [OF assms(1)] by (auto simp: blockers_def open_rows_def is_open_def filter_empty_conv)

lemma event_claims: "append_event E kind d t extra db = (db', r) \<Longrightarrow> wd_claims db' = wd_claims db \<and> wd_last_fence db' = wd_last_fence db"
  by (drule event_states) (auto simp: Let_def)

text \<open>The bounds of the tokens: a token in the table was there before, or exceeds \<open>L\<close>.\<close>

definition fences_inv :: "int \<Rightarrow> (ustring \<times> int) set \<Rightarrow> work_db \<Rightarrow> bool" where
  "fences_inv L F db \<longleftrightarrow> claims_inv db \<and> L \<le> wd_last_fence db \<and>
     (\<forall>r \<in> set (wd_claims db). \<forall>n. wc_fence_token r = Some n \<longrightarrow> (wc_claim_id r, n) \<in> F \<or> L < n)"

lemma fences_inv_update:
  assumes "fences_inv L F db"
    and "claims_inv (db\<lparr>wd_last_fence := last_fence, wd_claims := map (\<lambda>x. if wc_claim_id x = i then f x else x) (wd_claims db)\<rparr>)"
    and "wd_last_fence db \<le> last_fence"
    and "\<And>x. x \<in> set (wd_claims db) \<Longrightarrow> wc_claim_id x = i \<Longrightarrow> wc_claim_id (f x) = i \<and>
      (wc_fence_token (f x) = wc_fence_token x \<or> wd_last_fence db < last_fence \<and> wc_fence_token (f x) = Some last_fence)"
  shows "fences_inv L F (db\<lparr>wd_last_fence := last_fence, wd_claims := map (\<lambda>x. if wc_claim_id x = i then f x else x) (wd_claims db)\<rparr>)"
proof -
  have "(wc_claim_id (f x), n) \<in> F \<or> L < n" if "x \<in> set (wd_claims db)" "wc_claim_id x = i" "wc_fence_token (f x) = Some n" for x n
    using assms(1,3) assms(4) [OF that(1,2)] that by (force simp: fences_inv_def)
  then show ?thesis using assms(1-3) by (auto simp: fences_inv_def)
qed

lemma same_claims:
  "wd_claims db' = wd_claims db \<Longrightarrow> wd_last_fence db' = wd_last_fence db \<Longrightarrow> claims_inv db' = claims_inv db"
  "wd_claims db' = wd_claims db \<Longrightarrow> wd_last_fence db' = wd_last_fence db \<Longrightarrow> fences_inv L F db' = fences_inv L F db"
  by (simp_all add: fences_inv_def claims_inv_def rows_wf_def)

lemma fence_taken: "claims_inv db \<Longrightarrow> claims_inv (db\<lparr>wd_last_fence := wd_last_fence db + 1\<rparr>)"
  by (fastforce simp: claims_inv_def rows_wf_def)

text \<open>Each statement, for both invariants.\<close>

lemma lease_keeps_claims:
  assumes "lease_only f" "claims_inv db" "update_claim i f db = (db', r)"
  shows "claims_inv db'" "fences_inv L F db \<Longrightarrow> fences_inv L F db'"
proof -
  have *: "db' = db\<lparr>wd_last_fence := wd_last_fence db, wd_claims := map (\<lambda>x. if wc_claim_id x = i then f x else x) (wd_claims db)\<rparr>"
    using update_claims [OF assms(3)] by simp
  show c: "claims_inv db'" unfolding *
    by (rule claims_inv_update [OF assms(2)]) (use assms(1,2) in \<open>auto simp: lease_only_def claims_inv_def\<close>)
  show "fences_inv L F db'" if "fences_inv L F db"
    unfolding * by (rule fences_inv_update [OF that c [unfolded *]]) (use assms(1) in \<open>auto simp: lease_only_def\<close>)
qed

lemma close_keeps_claims:
  assumes "status \<noteq> ACQUIRED" "claims_inv db" "close_claim i status t db = (db', r)"
  shows "claims_inv db'" "fences_inv L F db \<Longrightarrow> fences_inv L F db'"
proof -
  let ?f = "\<lambda>x. x\<lparr>wc_status := status, wc_closed_at := Some (render_time t)\<rparr>"
  have *: "db' = db\<lparr>wd_last_fence := wd_last_fence db, wd_claims := map (\<lambda>x. if wc_claim_id x = i then ?f x else x) (wd_claims db)\<rparr>"
    using update_claims [OF assms(3) [unfolded close_claim_def]] by simp
  show c: "claims_inv db'" unfolding * by (rule claims_inv_update [OF assms(2)]) (use assms(1) in auto)
  show "fences_inv L F db'" if "fences_inv L F db"
    unfolding * by (rule fences_inv_update [OF that c [unfolded *]]) auto
qed

lemma promote_keeps_claims:
  assumes "claims_inv db" "try_promote i t db = (db', r)"
  shows "claims_inv db'" "fences_inv L F db \<Longrightarrow> fences_inv L F db'"
proof -
  let ?db = "\<lambda>ex. db\<lparr>wd_last_fence := wd_last_fence db + 1, wd_claims := map (\<lambda>x. if wc_claim_id x = i
    then x\<lparr>wc_status := ACQUIRED, wc_fence_token := Some (wd_last_fence db + 1), wc_expires_at := Some ex\<rparr> else x) (wd_claims db)\<rparr>"
  have c: "claims_inv (?db ex)" if "claim_find i db = Some row" "blockers row db = []" for row ex
    using not_blocked [OF that] claim_find_unique [OF assms(1) that(1)]
    by (intro claims_inv_update [OF assms(1)]) auto
  show "claims_inv db'"
    by (rule promote_states [where I = claims_inv, OF assms(2,1) fence_taken [OF assms(1)]]) (rule c)
  show "fences_inv L F db'" if f: "fences_inv L F db"
  proof (rule promote_states [where I = "fences_inv L F", OF assms(2) f])
    show "fences_inv L F (db\<lparr>wd_last_fence := wd_last_fence db + 1\<rparr>)"
      using f fence_taken [OF assms(1)] by (auto simp: fences_inv_def)
    show "fences_inv L F (?db ex)" if "claim_find i db = Some row" "blockers row db = []" for row ex
      by (rule fences_inv_update [OF f c [OF that]]) auto
  qed
qed

lemma enqueue_keeps_claims:
  assumes "texts_wf (i # a # rs)" "claims_inv db" "insert_claim i a rs WAITING None ttl at ex db = (db', r)"
  shows "claims_inv db'" "fences_inv L F db \<Longrightarrow> fences_inv L F db'"
  using insert_claims [OF assms(3)] assms(1,2) claims_inv_insert [OF assms(2)]
  by (auto simp: fences_inv_def row_wf_def)

lemma transfer_keeps_claims:
  assumes "claims_inv db" "claim_find i db = Some row" "wc_status row = ACQUIRED" "list_all is_code_point successor"
    "transfer E row successor t db = (db', r)"
  shows "claims_inv db'" "fences_inv L F db \<Longrightarrow> fences_inv L F db'"
proof -
  let ?closed = "db\<lparr>wd_claims := map (\<lambda>x. if wc_claim_id x = wc_claim_id row
    then x\<lparr>wc_status := HANDED_OFF, wc_closed_at := Some (render_time t)\<rparr> else x) (wd_claims db)\<rparr>"
  let ?fenced = "?closed\<lparr>wd_last_fence := wd_last_fence db + 1\<rparr>"
  have close: "close_claim (wc_claim_id row) HANDED_OFF t db = (?closed, Inr ())" by (simp add: close_claim_def update_claim_def)
  have closed: "claims_inv ?closed" by (rule close_keeps_claims(1) [OF _ assms(1) close]) simp
  have fenced: "claims_inv ?fenced" using fence_taken [OF closed] by simp
  have row: "row \<in> set (wd_claims db)" "row_wf row" using claim_find_in [OF assms(2)] assms(1) by (auto simp: claims_inv_def rows_wf_def)
  have insert: "claims_inv (?fenced\<lparr>wd_claims := wd_claims ?closed @ [new]\<rparr>)"
    if new: "wc_claim_id new \<notin> wc_claim_id ` set (wd_claims db)" "list_all is_code_point (wc_claim_id new)"
      "wc_agent_id new = successor" "wc_resources new = wc_resources row" "wc_fence_token new = Some (wd_last_fence db + 1)" for new
  proof -
    have "row_wf new" using new row(2) assms(4) by (simp add: row_wf_def texts_wf_def)
    moreover have "wc_claim_id new \<notin> wc_claim_id ` set (wd_claims ?fenced)" using new(1) by (auto simp: image_iff split: if_splits)
    moreover have "\<not> sets_overlap (wc_resources new) (wc_resources s)"
      if "s \<in> set (wd_claims ?fenced)" "wc_status s = ACQUIRED" for s
      using assms(1,3) row(1) that new(4) by (auto simp: claims_inv_def split: if_splits)
    moreover have "n < wd_last_fence ?fenced" if "s \<in> set (wd_claims ?fenced)" "wc_fence_token s = Some n" for s n
      using closed that by (fastforce simp: claims_inv_def)
    ultimately have "claims_inv (?fenced\<lparr>wd_claims := wd_claims ?fenced @ [new]\<rparr>)"
      using new(5) by (intro claims_inv_insert [OF fenced]) auto
    then show ?thesis by simp
  qed
  show "claims_inv db'"
    by (rule transfer_states [where I = claims_inv, OF assms(5)]) (use closed fenced insert in auto)
  show "fences_inv L F db'" if f: "fences_inv L F db"
  proof (rule transfer_states [where I = "fences_inv L F", OF assms(5)])
    have "fences_inv L F ?closed" by (rule close_keeps_claims(2) [OF _ assms(1) close f]) simp
    then show "closed = ?closed \<Longrightarrow> fences_inv L F closed \<and> fences_inv L F (closed\<lparr>wd_last_fence := wd_last_fence db + 1\<rparr>) \<and>
      (\<forall>new. wc_claim_id new \<notin> wc_claim_id ` set (wd_claims db) \<longrightarrow> list_all is_code_point (wc_claim_id new) \<longrightarrow>
        wc_agent_id new = successor \<longrightarrow> wc_resources new = wc_resources row \<longrightarrow> wc_status new = ACQUIRED \<longrightarrow>
        wc_fence_token new = Some (wd_last_fence db + 1) \<longrightarrow>
        fences_inv L F (closed\<lparr>wd_last_fence := wd_last_fence db + 1, wd_claims := wd_claims closed @ [new]\<rparr>))" for closed
      using fenced insert by (simp add: fences_inv_def)
  qed
qed

interpretation excl: registry_invariant E claims_inv for E
proof (unfold_locales, goal_cases)
  case (1 db)
  then show ?case by (simp add: claims_inv_def)
next
  case (2 d extra kind t)
  then show ?case by (intro keepsI) (use event_claims same_claims(1) in blast)
next
  case (3 i t)
  then show ?case by (intro keepsI) (rule promote_keeps_claims(1))
next
  case (4 f i)
  then show ?case by (intro keepsI) (rule lease_keeps_claims(1))
next
  case (5 status i t)
  then show ?case by (intro keepsI) (rule close_keeps_claims(1))
next
  case (6 i a rs ttl at ex)
  then show ?case by (intro keepsI) (rule enqueue_keeps_claims(1))
next
  case (7 db i row successor t db' r)
  then show ?case by (rule transfer_keeps_claims(1))
qed

interpretation fence: registry_invariant E "fences_inv L F" for E L F
proof (unfold_locales, goal_cases)
  case (1 db)
  then show ?case by (simp add: fences_inv_def claims_inv_def)
next
  case (2 d extra kind t)
  then show ?case by (intro keepsI) (use event_claims same_claims(2) in blast)
next
  case (3 i t)
  then show ?case by (intro keepsI) (rule promote_keeps_claims(2), auto simp: fences_inv_def)
next
  case (4 f i)
  then show ?case by (intro keepsI) (rule lease_keeps_claims(2), auto simp: fences_inv_def)
next
  case (5 status i t)
  then show ?case by (intro keepsI) (rule close_keeps_claims(2), auto simp: fences_inv_def)
next
  case (6 i a rs ttl at ex)
  then show ?case by (intro keepsI) (rule enqueue_keeps_claims(2), auto simp: fences_inv_def)
next
  case (7 db i row successor t db' r)
  then show ?case using transfer_keeps_claims(2) [of db i row successor E t db' r L F] by (simp add: fences_inv_def)
qed

end
