(* ===== verification/WorkProperties.thy ===== *)
theory WorkProperties
  imports WorkSafety
begin

text \<open>
  The event log of the claim registry (interpretation \<open>log\<close>), sample calls, and the properties
  of the registry.
\<close>

section \<open>The event log\<close>

text \<open>Each event links to the one before it, and digest and text belong to one event.\<close>

definition event_of :: "env \<Rightarrow> ustring option \<Rightarrow> claim_event_row \<Rightarrow> pydict \<Rightarrow> bool" where
  "event_of E previous row event \<longleftrightarrow> py_wf (VDict event) \<and> canonical_bytes (VDict event) = Inr (ev_json row) \<and>
     digest_object E (VDict event) (lit ''work-claim-event-v1'') = Inr (ev_digest row) \<and>
     dict_find event ''previous_digest'' = Some (opt_str previous) \<and> ev_previous row = previous"

fun chained_log :: "env \<Rightarrow> ustring option \<Rightarrow> claim_event_row list \<Rightarrow> bool" where
  "chained_log E previous [] \<longleftrightarrow> True"
| "chained_log E previous (row # rows) \<longleftrightarrow> (\<exists>event. event_of E previous row event) \<and> chained_log E (Some (ev_digest row)) rows"

definition log_inv :: "env \<Rightarrow> work_db \<Rightarrow> bool" where
  "log_inv E db \<longleftrightarrow> rows_wf db \<and> chained_log E None (wd_events db)"

lemma chained_log_snoc:
  "chained_log E previous (rows @ [row]) \<longleftrightarrow> chained_log E previous rows \<and>
     (\<exists>event. event_of E (if rows = [] then previous else Some (ev_digest (last rows))) row event)"
  by (induction rows arbitrary: previous) auto

lemma event_tip_wf:
  assumes "chained_log E None (wd_events db)" "event_tip db = Some x"
  shows "list_all is_code_point x"
proof -
  obtain rows row where "wd_events db = rows @ [row]" "x = ev_digest row"
    using assms(2) by (cases "wd_events db" rule: rev_cases) (auto simp: event_tip_def split: if_splits)
  then obtain event where "digest_object E (VDict event) (lit ''work-claim-event-v1'') = Inr x"
    using assms(1) by (auto simp: chained_log_snoc event_of_def)
  then show ?thesis using digest_object_split hex_code_points by (fastforce simp: list_all_append)
qed

lemma pad_digits_code_points: "list_all is_code_point (pad_digits k n)"
proof (induction k arbitrary: n)
  case (Suc k)
  have "0 \<le> n mod 10" "n mod 10 < 10" by simp_all
  then have "is_code_point (48 + n mod 10)" unfolding is_code_point_def by linarith
  then show ?case using Suc by simp
qed simp

lemma replace_all_code_points:
  "list_all is_code_point new \<Longrightarrow> list_all is_code_point s \<Longrightarrow> list_all is_code_point (replace_all old new s)"
proof (induction old new s rule: replace_all.induct)
  case (2 old new c s)
  have "list_all is_code_point (drop (length old) (c # s))" using 2(4) by (metis append_take_drop_id list_all_append)
  then show ?case using 2 by simp
qed simp

lemma isoformat_code_points: "list_all is_code_point (isoformat micro t)"
proof -
  note pads = pad_digits_code_points list_all_append list.pred_inject
  have marks: "is_code_point 45" "is_code_point 43" "is_code_point 46" "is_code_point 58" "is_code_point 84"
    by (simp_all add: is_code_point_def)
  have clock: "list_all is_code_point (format_clock micro x)" for x
    unfolding format_clock_def Let_def by (simp add: pads marks del: pad_digits.simps)
  have offset: "list_all is_code_point (format_offset off)" for off
    unfolding format_offset_def Let_def by (simp add: pads marks del: pad_digits.simps)
  show ?thesis unfolding isoformat_def
    by (cases "ord2ymd (dt_local t div day_us)"; cases "dt_offset t")
      (simp_all add: pads marks clock offset del: pad_digits.simps)
qed

lemma render_time_code_points [simp]: "list_all is_code_point (render_time t)"
  unfolding render_time_def utc_suffix_def by (intro replace_all_code_points isoformat_code_points lit_code_points)

lemma py_wf_mk_dict: "py_wf (VDict (mk_dict kvs)) \<longleftrightarrow> distinct (map fst kvs) \<and> (\<forall>(k, v) \<in> set kvs. py_wf v)"
proof -
  have "map fst (mk_dict kvs) = map tkey (map fst kvs)" by (simp add: mk_dict_def comp_def case_prod_unfold)
  then have "distinct (map fst (mk_dict kvs)) \<longleftrightarrow> distinct (map fst kvs)"
    by (simp only: distinct_map [of tkey]) (simp add: inj_on_def)
  then show ?thesis by (auto simp: mk_dict_def)
qed

lemma event_core_wf:
  assumes "decision_wf d" "extra_wf extra" "\<And>x. previous = Some x \<Longrightarrow> list_all is_code_point x"
  shows "py_wf (VDict (claim_event_core kind d t previous extra))"
    "dict_find (claim_event_core kind d t previous extra) ''previous_digest'' = Some (opt_str previous)"
proof -
  have texts: "py_wf (VStr (cd_claim_id d))" "py_wf (VStr (cd_agent_id d))" "py_wf (VList (map VStr (cd_resources d)))"
    "py_wf (VList (map VStr (cd_blocked_by d)))" using assms(1) by (auto simp: decision_wf_def texts_wf_def)
  have opts: "py_wf (opt_int (cd_fence_token d))" "py_wf (opt_str previous)"
    using assms(3) by (auto simp: opt_int_def opt_str_def split: option.splits)
  have keys: "distinct (map fst extra)" "set (map fst extra) \<subseteq> {''outcome'', ''from_claim_id'', ''from_agent_id'', ''note''}"
    "\<forall>(k, v) \<in> set extra. py_wf v" using assms(2) by (auto simp: extra_wf_def)
  show "py_wf (VDict (claim_event_core kind d t previous extra))"
    using keys texts opts unfolding claim_event_core_def py_wf_mk_dict by (auto simp del: py_wf.simps(2))
  show "dict_find (claim_event_core kind d t previous extra) ''previous_digest'' = Some (opt_str previous)"
    by (simp add: claim_event_core_def dict_find_mk)
qed

lemma log_same: "wd_events db' = wd_events db \<Longrightarrow> rows_wf db' \<Longrightarrow> log_inv E db \<Longrightarrow> log_inv E db'"
  by (simp add: log_inv_def)

lemma log_event:
  assumes "decision_wf d" "extra_wf extra" "log_inv E db" "append_event E kind d t extra db = (db', r)"
  shows "log_inv E db'"
proof -
  let ?event = "claim_event_core kind d t (event_tip db) extra"
  have tip: "event_tip db = Some x \<Longrightarrow> list_all is_code_point x" for x
    using event_tip_wf [of E db x] assms(3) by (simp add: log_inv_def)
  note wf = event_core_wf [OF assms(1,2), of "event_tip db" kind t, OF tip]
  have rows: "rows_wf db'" using event_claims [OF assms(4)] assms(3) by (simp add: log_inv_def rows_wf_def)
  from event_states [OF assms(4)] show ?thesis
  proof
    assume "db' = db"
    then show ?thesis using assms(3) by simp
  next
    assume "\<exists>digest json. let event = ?event in digest_object E (VDict event) (lit ''work-claim-event-v1'') = Inr digest \<and>
      canonical_bytes (VDict event) = Inr json \<and>
      db' = db\<lparr>wd_events := wd_events db @ [\<lparr>ev_digest = digest, ev_previous = event_tip db, ev_json = json\<rparr>]\<rparr>"
    then obtain digest json where e: "digest_object E (VDict ?event) (lit ''work-claim-event-v1'') = Inr digest"
      "canonical_bytes (VDict ?event) = Inr json"
      "db' = db\<lparr>wd_events := wd_events db @ [\<lparr>ev_digest = digest, ev_previous = event_tip db, ev_json = json\<rparr>]\<rparr>"
      unfolding Let_def by blast
    have "event_of E (event_tip db) \<lparr>ev_digest = digest, ev_previous = event_tip db, ev_json = json\<rparr> ?event"
      unfolding event_of_def using e(1,2) wf by (simp del: py_wf.simps)
    then show ?thesis using assms(3) rows unfolding log_inv_def e(3) by (auto simp: chained_log_snoc event_tip_def)
  qed
qed

lemma rows_wf_update: "rows_wf db \<Longrightarrow> (\<And>x. row_wf x \<Longrightarrow> row_wf (f x)) \<Longrightarrow>
    rows_wf (db\<lparr>wd_claims := map (\<lambda>x. if wc_claim_id x = i then f x else x) (wd_claims db)\<rparr>)"
  by (auto simp: rows_wf_def)

interpretation log: registry_invariant E "log_inv E" for E
proof (unfold_locales, goal_cases)
  case (1 db)
  then show ?case by (simp add: log_inv_def)
next
  case (2 d extra kind t)
  then show ?case by (intro keepsI) (rule log_event)
next
  case (3 i t)
  show ?case
  proof (rule keepsI)
    fix db db' r assume l: "log_inv E db" and p: "try_promote i t db = (db', r)"
    show "log_inv E db'"
      by (rule promote_states [where I = "log_inv E", OF p l]) (use l in \<open>auto simp: log_inv_def rows_wf_def row_wf_def\<close>)
  qed
next
  case (4 f i)
  then show ?case by (intro keepsI) (drule update_claims, auto simp: log_inv_def lease_only_def row_wf_def intro!: rows_wf_update)
next
  case (5 status i t)
  then show ?case unfolding close_claim_def
    by (intro keepsI) (drule update_claims, auto simp: log_inv_def row_wf_def intro!: rows_wf_update)
next
  case (6 i a rs ttl at ex)
  then show ?case by (intro keepsI) (drule insert_claims, auto simp: log_inv_def rows_wf_def row_wf_def)
next
  case (7 db i row successor t db' r)
  have "row_wf row" using claim_find_in [OF 7(2)] 7(1) by (auto simp: log_inv_def rows_wf_def)
  then show ?case
    by (intro transfer_states [where I = "log_inv E", OF 7(5)]) (use 7 in \<open>auto simp: log_inv_def rows_wf_def row_wf_def texts_wf_def\<close>)
qed

lemma verify_chained: "chained_log E previous rows \<Longrightarrow> verify_log E previous rows = Inr (length rows)"
proof (induction rows arbitrary: previous)
  case (Cons row rows)
  obtain event where e: "py_wf (VDict event)" "canonical_bytes (VDict event) = Inr (ev_json row)"
    "digest_object E (VDict event) (lit ''work-claim-event-v1'') = Inr (ev_digest row)"
    "dict_find event ''previous_digest'' = Some (opt_str previous)" "ev_previous row = previous"
    using Cons.prems by (auto simp: event_of_def)
  have p: "profile (VDict event)" by (rule canonical_bytes_Inr_profile [OF e(1,2)])
  have "dict_get (canon_items event) ''previous_digest'' = opt_str previous"
    using canon_items_find [OF p] e(4) by (simp add: dict_get_def opt_str_def split: option.splits)
  moreover have "digest_object E (VDict (canon_items event)) (lit ''work-claim-event-v1'') = Inr (ev_digest row)"
    using same_doc_digest [OF reread(2) [OF e(1,2)], of E] e(3) by simp
  ultimately show ?case using reread(1) [OF e(1,2)] Cons e(5) by simp
qed simp

section \<open>Sample calls\<close>

definition work_clock :: datetime where
  "work_clock = \<lparr>dt_local = 63915998400000000, dt_offset = Some 0\<rparr>"

definition work_lease :: ustring where
  "work_lease = lit ''2026-06-01T12:01:00.000000Z''"

definition sample_row :: "ustring \<Rightarrow> claim_row" where
  "sample_row i = \<lparr>wc_seq = 1, wc_claim_id = i, wc_agent_id = lit ''agent:a'', wc_resources = [lit ''path:/repo/src''],
     wc_status = ACQUIRED, wc_fence_token = Some 1, wc_ttl_seconds = 60, wc_requested_at = render_time work_clock,
     wc_expires_at = Some work_lease, wc_closed_at = None\<rparr>"

lemma work_clock_facts:
  "work_time work_clock None = Inr work_clock" "expiry_text work_clock 60 = Inr work_lease"
  "fromisoformat (VStr work_lease) = Inr \<lparr>dt_local = 63915998460000000, dt_offset = Some 0\<rparr>"
  "encodable_text (render_time work_clock)" "render_time work_clock = lit ''2026-06-01T12:00:00.000000Z''"
  by code_simp+

lemma sample_inputs:
  "claim_resources demo_env [vlit ''path:/repo//SRC/''] = Inr [lit ''path:/repo/src'']"
  "check_agent (vlit ''agent:a'') = Inr (lit ''agent:a'')"
  "plain_domain ''work-claim-id-v1''" "plain_domain ''work-claim-event-v1''"
  "encodable (VInt 1)"
  by code_simp+

lemma sample_claim:
  obtains i c d where "claim demo_env work_clock (vlit ''agent:a'') [vlit ''path:/repo//SRC/''] (VInt 60) None (connect new_registry) = (c, Inr d)"
    "wd_claims (cn_now c) = [sample_row i]" "length (wd_events (cn_now c)) = 1" "cn_saved c = None" "wd_last_fence (cn_now c) = 1"
proof -
  note f = sample_inputs work_clock_facts
  have core: "encodable (VDict (claim_id_core (lit ''agent:a'') [lit ''path:/repo/src''] (render_time work_clock) 1))"
    using f by (simp add: claim_id_core_def mk_dict_def del: encodable.simps(1))
  obtain h where h: "content_identity demo_env ''claim:'' ''work-claim-id-v1''
      (claim_id_core (lit ''agent:a'') [lit ''path:/repo/src''] (render_time work_clock) 1) = Inr (lit ''claim:'' @ hex h)"
    using content_identity_encodable [OF core f(3)] by blast
  let ?i = "lit ''claim:'' @ hex h"
  let ?d = "make_decision (sample_row ?i) [] []"
  let ?event = "claim_event_core ''claim-acquired'' ?d work_clock None []"
  have event: "encodable (VDict ?event)"
    using f by (simp add: claim_event_core_def mk_dict_def make_decision_def sample_row_def opt_int_def opt_str_def del: encodable.simps(1))
  obtain e where e: "digest_object demo_env (VDict ?event) (lit ''work-claim-event-v1'') = Inr (lit ''sha256:'' @ hex e)"
    using digest_object_encodable [OF event f(4)] by blast
  obtain json where json: "canonical_bytes (VDict ?event) = Inr json" using canonical_bytes_encodable [OF event] by blast
  have "\<exists>x. canonical_bytes (VList (map VStr [lit ''path:/repo/src''])) = Inr x"
    by (rule canonical_bytes_encodable) simp
  then obtain x where x: "canonical_bytes (VList (map VStr [lit ''path:/repo/src''])) = Inr x" by blast
  have ttl: "check_ttl (VInt 60) = Inr 60" by (simp add: check_ttl_def)
  have "\<exists>c. claim demo_env work_clock (vlit ''agent:a'') [vlit ''path:/repo//SRC/''] (VInt 60) None (connect new_registry) = (c, Inr ?d) \<and>
    wd_claims (cn_now c) = [sample_row ?i] \<and> length (wd_events (cn_now c)) = 1 \<and> cn_saved c = None \<and> wd_last_fence (cn_now c) = 1"
    unfolding claim_def claim_body_def
    using f ttl h e json x
    by (simp add: sbind_apply transaction_idle idle_def connect_def new_registry_def expire_def open_rows_def next_seq_def
        insert_claim_def try_promote_def get_claim_def claim_find_def blockers_def is_open_def next_fence_def update_claim_def
        current_decision_def append_event_def event_tip_def sample_row_def make_decision_def)
  then show thesis using that by blast
qed

section \<open>Properties\<close>

lemma demo_folds: "casefold_wf demo_env"
  by (simp add: casefold_wf_def demo_env_def)

lemma new_registry_inv: "claims_inv new_registry" "log_inv E new_registry"
  by (simp_all add: claims_inv_def rows_wf_def new_registry_def log_inv_def)

lemma idle_transaction: "keeps idle (transaction m)"
  by (auto simp: keeps_def transaction_idle idle_def split: prod.splits sum.splits)

lemma idle_ops:
  "keeps idle (claim E clock requester resources ttl now)" "keeps idle (poll E clock i now)"
  "keeps idle (renew E clock i agent fence ttl_option now)" "keeps idle (release E clock i agent fence outcome now)"
  "keeps idle (cancel E clock i agent now)" "keeps idle (handoff E clock i agent fence successor note_text now)"
  unfolding claim_def poll_def renew_def release_def cancel_def handoff_def
  by (auto intro!: keeps_rules idle_transaction split: pyval.splits)

lemma work_reach_idle: "work_reach E c \<Longrightarrow> idle c"
proof (induction rule: work_reach.induct)
  case (created busy c)
  then show ?case by (auto simp: open_registry_def res_simps connect_def idle_def split: pyval.splits)
next
  case (step c c')
  from step(2) show ?case
  proof cases
    case (reopen busy)
    then show ?thesis by (auto simp: open_registry_def res_simps connect_def idle_def split: pyval.splits)
  qed (erule keepsD [OF idle_ops(1) step(3)] keepsD [OF idle_ops(2) step(3)] keepsD [OF idle_ops(3) step(3)]
      keepsD [OF idle_ops(4) step(3)] keepsD [OF idle_ops(5) step(3)] keepsD [OF idle_ops(6) step(3)])+
qed

lemma sample_reached:
  assumes "claim demo_env work_clock (vlit ''agent:a'') [vlit ''path:/repo//SRC/''] (VInt 60) None (connect new_registry) = (c, r)"
  shows "work_reach demo_env c"
proof -
  have "work_reach demo_env (connect new_registry)"
    by (rule work_reach.created [of "VInt 1000"]) (simp add: open_registry_def)
  then show ?thesis by (rule work_reach.step) (rule work_step.claim [OF _ assms], simp)
qed

lemma assert_fence_row:
  assumes "assert_fence clock db i a n now = Inr d"
  obtains row where "row \<in> set (wd_claims db)" "wc_claim_id row = i" "wc_agent_id row = a" "wc_fence_token row = Some n"
    "wc_status row = ACQUIRED" "cd_resources d = wc_resources row"
  using assms claim_find_in [of i db]
  by (auto simp: assert_fence_def res_simps make_decision_def split: option.splits)

text \<open>
  C15. Writers exclude each other: in every state of the registry that any sequence of operations
  leads to, two holders whose fences the registry accepts and whose resources overlap are one
  holder with one claim and one fence. \<open>casefold_wf\<close> is what Unicode promises of case folding:
  it maps code points to code points.
\<close>

theorem writers_exclude_each_other:
  assumes "casefold_wf E" "work_reach E c"
    and "assert_fence clock1 (cn_now c) i1 a1 n1 now1 = Inr d1" "assert_fence clock2 (cn_now c) i2 a2 n2 now2 = Inr d2"
    and "sets_overlap (cd_resources d1) (cd_resources d2)"
  shows "i1 = i2 \<and> a1 = a2 \<and> n1 = n2"
proof -
  have inv: "claims_inv (cn_now c)" using excl.reached [OF assms(2,1) new_registry_inv(1)] by (simp add: conn_inv_def)
  obtain r where r: "r \<in> set (wd_claims (cn_now c))" "wc_claim_id r = i1" "wc_agent_id r = a1" "wc_fence_token r = Some n1"
    "wc_status r = ACQUIRED" "cd_resources d1 = wc_resources r" by (rule assert_fence_row [OF assms(3)])
  obtain s where s: "s \<in> set (wd_claims (cn_now c))" "wc_claim_id s = i2" "wc_agent_id s = a2" "wc_fence_token s = Some n2"
    "wc_status s = ACQUIRED" "cd_resources d2 = wc_resources s" by (rule assert_fence_row [OF assms(4)])
  have "wc_claim_id r = wc_claim_id s" using inv r s assms(5) by (auto simp: claims_inv_def)
  then have "r = s" using inv r(1) s(1) by (auto simp: claims_inv_def distinct_map dest: inj_onD)
  then show ?thesis using r s by auto
qed

theorem writers_exclude_each_other_witness:
  "\<exists>c i d. work_reach demo_env c \<and> assert_fence work_clock (cn_now c) i (lit ''agent:a'') 1 None = Inr d \<and>
     sets_overlap (cd_resources d) [lit ''path:/repo/src/main.py''] \<and>
     \<not> (\<exists>j b n d2 t. assert_fence work_clock (cn_now c) j b n t = Inr d2 \<and> sets_overlap (cd_resources d) (cd_resources d2) \<and>
          b \<noteq> lit ''agent:a'')"
proof -
  obtain i c d where c: "claim demo_env work_clock (vlit ''agent:a'') [vlit ''path:/repo//SRC/''] (VInt 60) None (connect new_registry) = (c, Inr d)"
    "wd_claims (cn_now c) = [sample_row i]" by (rule sample_claim) blast
  let ?d = "make_decision (sample_row i) [] []"
  note reach = sample_reached [OF c(1)]
  have held: "assert_fence work_clock (cn_now c) i (lit ''agent:a'') 1 None = Inr ?d"
    using c(2) work_clock_facts by (simp add: assert_fence_def claim_find_def sample_row_def lapsed_def opt_str_def instant_def work_clock_def)
  have "sets_overlap [lit ''path:/repo/src''] [lit ''path:/repo/src/main.py'']" by code_simp
  then have "sets_overlap (cd_resources ?d) [lit ''path:/repo/src/main.py'']" by (simp add: make_decision_def sample_row_def)
  moreover have "\<not> (\<exists>j b n d2 t. assert_fence work_clock (cn_now c) j b n t = Inr d2 \<and> sets_overlap (cd_resources ?d) (cd_resources d2) \<and>
    b \<noteq> lit ''agent:a'')"
    using writers_exclude_each_other [OF demo_folds reach held] by blast
  ultimately show ?thesis using reach held by blast
qed

text \<open>
  C17. Fencing tokens only grow: after any further operations, a token in the table was already
  the token of that claim before them, or it is larger than every token that existed before. A
  resource that remembers the largest token it has seen can thus refuse every delayed writer.
\<close>

theorem fences_only_grow:
  assumes "casefold_wf E" "work_reach E c" "(work_step E)\<^sup>*\<^sup>* c c'"
    and "r \<in> set (wd_claims (cn_now c))" "wc_fence_token r = Some m"
    and "s \<in> set (wd_claims (cn_now c'))" "wc_fence_token s = Some n"
  shows "(\<exists>r' \<in> set (wd_claims (cn_now c)). wc_claim_id r' = wc_claim_id s \<and> wc_fence_token r' = Some n) \<or> m < n"
proof -
  let ?F = "{(wc_claim_id r', k) | r' k. r' \<in> set (wd_claims (cn_now c)) \<and> wc_fence_token r' = Some k}"
  let ?L = "wd_last_fence (cn_now c)"
  have inv: "conn_inv claims_inv c" by (rule excl.reached [OF assms(2,1) new_registry_inv(1)])
  have idle: "idle c" using assms(2) by (rule work_reach_idle)
  have "conn_inv (fences_inv ?L ?F) c"
    using inv idle by (auto simp: conn_inv_def fences_inv_def idle_def)
  from fence.steps_keep [OF assms(3) this assms(1)] have "fences_inv ?L ?F (cn_now c')" by (simp add: conn_inv_def)
  then have "(wc_claim_id s, n) \<in> ?F \<or> ?L < n" using assms(6,7) by (simp add: fences_inv_def)
  moreover have "m \<le> ?L" using inv assms(4,5) by (simp add: conn_inv_def claims_inv_def)
  ultimately show ?thesis by auto
qed

theorem fences_only_grow_witness:
  "\<exists>c c' i. (work_step demo_env)\<^sup>*\<^sup>* c c' \<and> work_reach demo_env c \<and> sample_row i \<in> set (wd_claims (cn_now c')) \<and>
     ((\<exists>r' \<in> set (wd_claims (cn_now c)). wc_claim_id r' = i \<and> wc_fence_token r' = Some 1) \<or> (1 :: int) < 1)"
proof -
  obtain i c d where c: "claim demo_env work_clock (vlit ''agent:a'') [vlit ''path:/repo//SRC/''] (VInt 60) None (connect new_registry) = (c, Inr d)"
    "wd_claims (cn_now c) = [sample_row i]" "cn_saved c = None" by (rule sample_claim) blast
  have "poll demo_env work_clock i None c = (c, Inr (make_decision (sample_row i) [] []))"
    using c(2,3) work_clock_facts
    by (simp add: poll_def poll_body_def sbind_apply transaction_idle idle_def expire_def open_rows_def is_open_def expire_row_def
        lapsed_def sample_row_def opt_str_def instant_def work_clock_def get_claim_def claim_find_def)
  then have "(work_step demo_env)\<^sup>*\<^sup>* c c" "work_step demo_env c c" using work_step.poll by fastforce+
  moreover note reach = sample_reached [OF c(1)]
  ultimately show ?thesis
    using fences_only_grow [OF demo_folds reach, of c "sample_row i" 1 "sample_row i" 1] c(2)
    by (intro exI [of _ c] exI [of _ i]) (simp add: sample_row_def)
qed

text \<open>
  C18. The log vouches for itself: in every reachable state, \<open>verify_events\<close> recomputes the chain
  from the stored texts without finding a defect and returns the number of events.
\<close>

theorem work_log_verifies:
  assumes "casefold_wf E" "work_reach E c"
  shows "verify_events E (cn_now c) = Inr (length (wd_events (cn_now c)))"
  using log.reached [OF assms(2,1) new_registry_inv(2)] verify_chained
  by (simp add: conn_inv_def log_inv_def verify_events_def)

theorem work_log_verifies_witness:
  "\<exists>c. work_reach demo_env c \<and> verify_events demo_env (cn_now c) = Inr 1"
proof -
  obtain i c d where c: "claim demo_env work_clock (vlit ''agent:a'') [vlit ''path:/repo//SRC/''] (VInt 60) None (connect new_registry) = (c, Inr d)"
    "length (wd_events (cn_now c)) = 1" by (rule sample_claim) blast
  note reach = sample_reached [OF c(1)]
  from work_log_verifies [OF demo_folds reach] reach c(2) show ?thesis by (intro exI [of _ c]) simp
qed

section \<open>Overlap as a relation of paths\<close>

lemma split_all_append: "split_all c (xs @ c # ys) = split_all c xs @ split_all c ys"
proof (induction xs)
  case (Cons x xs)
  obtain p ps where "split_all c xs = p # ps" by (cases "split_all c xs") auto
  then show ?case using Cons by simp
qed simp

lemma join_append: "xs \<noteq> [] \<Longrightarrow> ys \<noteq> [] \<Longrightarrow> join sep (xs @ ys) = join sep xs @ sep @ join sep ys"
  by (induction sep xs rule: join.induct) (auto simp: neq_Nil_conv)

lemma contains_path_segments:
  assumes "p = [] \<or> last p \<noteq> 47"
  shows "p = q \<or> contains_path p q \<longleftrightarrow> (\<exists>rest. split_all 47 q = split_all 47 p @ rest)"
proof -
  have c: "contains_path p q \<longleftrightarrow> (\<exists>zs. q = p @ 47 # zs)"
  proof -
    have "contains_path p q \<longleftrightarrow> starts_with (p @ [47]) q" using assms by (auto simp: contains_path_def)
    also have "\<dots> \<longleftrightarrow> (\<exists>zs. q = (p @ [47]) @ zs)"
      unfolding starts_with_def by (metis append_eq_conv_conj)
    finally show ?thesis by simp
  qed
  show ?thesis
  proof
    assume "p = q \<or> contains_path p q"
    then show "\<exists>rest. split_all 47 q = split_all 47 p @ rest"
      using split_all_append unfolding c by (metis append_Nil2)
  next
    assume "\<exists>rest. split_all 47 q = split_all 47 p @ rest"
    then obtain rest where r: "split_all 47 q = split_all 47 p @ rest" by blast
    have q: "q = join [47] (split_all 47 p @ rest)" using join_split_all [of 47 q] r by simp
    show "p = q \<or> contains_path p q"
    proof (cases rest)
      case Nil
      then show ?thesis using q join_split_all [of 47 p] by simp
    next
      case (Cons s ss)
      have "q = p @ 47 # join [47] rest"
        using q join_append [of "split_all 47 p" rest "[47]"] Cons join_split_all [of 47 p] by simp
      then show ?thesis unfolding c by blast
    qed
  qed
qed

text \<open>
  C19. Overlap is containment of paths: two resources of one kind overlap exactly when the
  segments of one path are an initial part of the segments of the other. The shared prefix of
  the names \<open>/repo/src\<close> and \<open>/repo/srcs\<close> does not count.
\<close>

theorem overlap_is_segment_prefix:
  assumes "58 \<notin> set k" "58 \<notin> set l" "p = [] \<or> last p \<noteq> 47" "q = [] \<or> last q \<noteq> 47"
  shows "resources_overlap (k @ 58 # p) (l @ 58 # q) \<longleftrightarrow> k = l \<and>
    ((\<exists>rest. split_all 47 q = split_all 47 p @ rest) \<or> (\<exists>rest. split_all 47 p = split_all 47 q @ rest))"
proof -
  have "split_once 58 (k @ 58 # p) = Some (k, p)" "split_once 58 (l @ 58 # q) = Some (l, q)"
    using assms(1,2) by (simp_all add: split_once_Some)
  then show ?thesis
    unfolding contains_path_segments [OF assms(3), symmetric] contains_path_segments [OF assms(4), symmetric]
    by (auto simp: resources_overlap_def)
qed

theorem overlap_is_segment_prefix_witness:
  "\<not> resources_overlap (lit ''path:/repo/src'') (lit ''path:/repo/srcs'') \<and>
   resources_overlap (lit ''path:/repo/src'') (lit ''path:/repo/src/a'')"
proof -
  have texts: "lit ''path:/repo/src'' = lit ''path'' @ 58 # lit ''/repo/src''" "lit ''path:/repo/srcs'' = lit ''path'' @ 58 # lit ''/repo/srcs''"
    "lit ''path:/repo/src/a'' = lit ''path'' @ 58 # lit ''/repo/src/a''" by code_simp+
  have split: "split_all 47 (lit ''/repo/src'') = [[], lit ''repo'', lit ''src'']"
    "split_all 47 (lit ''/repo/srcs'') = [[], lit ''repo'', lit ''srcs'']"
    "split_all 47 (lit ''/repo/src/a'') = [[], lit ''repo'', lit ''src'', lit ''a'']" "lit ''src'' \<noteq> lit ''srcs''"  by code_simp+
  have ok: "58 \<notin> set (lit ''path'')" "last (lit ''/repo/src'') \<noteq> 47" "last (lit ''/repo/srcs'') \<noteq> 47" "last (lit ''/repo/src/a'') \<noteq> 47"
    by code_simp+
  show ?thesis unfolding texts
    using overlap_is_segment_prefix [OF ok(1,1) disjI2 [OF ok(2)] disjI2 [OF ok(3)]]
      overlap_is_segment_prefix [OF ok(1,1) disjI2 [OF ok(2)] disjI2 [OF ok(4)]] split by auto
qed

text \<open>The stored text of a resource list reads back as that list.\<close>

lemma resources_text_reads_back:
  assumes "texts_wf xs" "canonical_bytes (VList (map VStr xs)) = Inr b"
  shows "parse_json_strict (DocStr (dumps (VList (map VStr xs)))) = Inr (VList (map VStr xs))"
proof -
  have p: "profile (VList (map VStr xs))"
    by (rule canonical_bytes_Inr_profile [OF _ assms(2)]) (use assms(1) in \<open>auto simp: texts_wf_def\<close>)
  have "canon (VList (map VStr xs)) = VList (map VStr xs)" by simp
  then show ?thesis using loads_text_dumps [OF p] dumps_hd [OF p] by (auto simp: parse_json_strict_def simp del: dumps.simps canon.simps)
qed

end
