(* ===== verification/WorkRefinement.thy ===== *)
theory WorkRefinement
  imports WorkProperties
begin

text \<open>
  The claim registry implements a table of leases. \<open>lease_step\<close> is the specification: a lease may
  end at any time, and a new lease is granted only on resources that no current lease overlaps,
  with the next fencing token. \<open>leases\<close> is the abstraction of the registry's tables; the
  interpretation \<open>refine\<close> of \<open>registry_invariant\<close> shows that every public operation is a sequence
  of steps of the specification.
\<close>

section \<open>Specification\<close>

record lease_table =
  lt_last :: int
  lt_held :: "ustring \<Rightarrow> (ustring \<times> ustring list \<times> int) option"

inductive lease_step :: "lease_table \<Rightarrow> lease_table \<Rightarrow> bool" where
  ends: "lease_step T (T\<lparr>lt_held := (lt_held T)(i := None)\<rparr>)"
| skips: "lease_step T (T\<lparr>lt_last := lt_last T + 1\<rparr>)"
| grants: "lt_held T i = None \<Longrightarrow> (\<And>j b ss m. lt_held T j = Some (b, ss, m) \<Longrightarrow> \<not> sets_overlap rs ss) \<Longrightarrow> n = lt_last T + 1 \<Longrightarrow>
    lease_step T (T\<lparr>lt_last := n, lt_held := (lt_held T)(i \<mapsto> (a, rs, n))\<rparr>)"

section \<open>Abstraction\<close>

definition lease_of :: "claim_row \<Rightarrow> (ustring \<times> ustring list \<times> int) option" where
  "lease_of r =
     (if wc_status r = ACQUIRED then map_option (\<lambda>n. (wc_agent_id r, wc_resources r, n)) (wc_fence_token r) else None)"

definition leases :: "work_db \<Rightarrow> lease_table" where
  "leases db = \<lparr>lt_last = wd_last_fence db, lt_held = (\<lambda>i. Option.bind (claim_find i db) lease_of)\<rparr>"

lemma claim_find_update:
  assumes "\<And>x. wc_claim_id x = i \<Longrightarrow> wc_claim_id (f x) = i"
  shows "find (\<lambda>r. wc_claim_id r = j) (map (\<lambda>x. if wc_claim_id x = i then f x else x) rows) =
    (if j = i then map_option f (find (\<lambda>r. wc_claim_id r = i) rows) else find (\<lambda>r. wc_claim_id r = j) rows)"
  using assms by (induction rows) auto

lemma claim_find_append:
  "find P (xs @ [x]) = (case find P xs of None \<Rightarrow> if P x then Some x else None | Some y \<Rightarrow> Some y)"
  by (induction xs) auto

lemma leases_update:
  assumes "\<And>x. wc_claim_id x = i \<Longrightarrow> wc_claim_id (f x) = i"
  shows "leases (db\<lparr>wd_last_fence := n, wd_claims := map (\<lambda>x. if wc_claim_id x = i then f x else x) (wd_claims db)\<rparr>) =
    \<lparr>lt_last = n, lt_held = (lt_held (leases db))(i := Option.bind (claim_find i db) (\<lambda>r. lease_of (f r)))\<rparr>"
  by (rule lease_table.equality)
    (auto simp: leases_def claim_find_def claim_find_update [of i f, OF assms] Option.bind_map_option comp_def fun_eq_iff)

lemma leases_events: "wd_claims db' = wd_claims db \<Longrightarrow> wd_last_fence db' = wd_last_fence db \<Longrightarrow> leases db' = leases db"
  by (simp add: leases_def claim_find_def)

lemma leases_append:
  assumes "wc_claim_id new \<notin> wc_claim_id ` set (wd_claims db)"
  shows "leases (db\<lparr>wd_claims := wd_claims db @ [new]\<rparr>) =
    (leases db)\<lparr>lt_held := (lt_held (leases db))(wc_claim_id new := lease_of new)\<rparr>"
proof -
  have "find (\<lambda>r. wc_claim_id r = wc_claim_id new) (wd_claims db) = None" using assms by (auto simp: find_None_iff image_iff)
  then show ?thesis
    by (intro lease_table.equality) (auto simp: leases_def claim_find_def claim_find_append fun_eq_iff split: option.splits)
qed

lemma held_row_of:
  "lt_held (leases db) j = Some (b, ss, m) \<Longrightarrow>
   \<exists>r \<in> set (wd_claims db). wc_claim_id r = j \<and> wc_status r = ACQUIRED \<and> wc_resources r = ss \<and> wc_fence_token r = Some m"
  using claim_find_in [of j db] by (auto simp: leases_def lease_of_def bind_eq_Some_conv split: if_splits)

section \<open>Every statement is a sequence of steps\<close>

definition refines_inv :: "lease_table \<Rightarrow> work_db \<Rightarrow> bool" where
  "refines_inv T db \<longleftrightarrow> claims_inv db \<and> lease_step\<^sup>*\<^sup>* T (leases db)"

lemma refines_step:
  "refines_inv T db \<Longrightarrow> claims_inv db' \<Longrightarrow> lease_step\<^sup>*\<^sup>* (leases db) (leases db') \<Longrightarrow> refines_inv T db'"
  by (auto simp: refines_inv_def)

lemma lease_dropped: "lease_step\<^sup>*\<^sup>* T \<lparr>lt_last = lt_last T, lt_held = (lt_held T)(i := None)\<rparr>"
  using lease_step.ends [of T i] by (metis (mono_tags, lifting) lease_table.surjective lease_table.update_convs(2) old.unit.exhaust r_into_rtranclp)

lemma lease_regranted:
  assumes "\<And>j b ss m. lt_held T j = Some (b, ss, m) \<Longrightarrow> j \<noteq> i \<Longrightarrow> \<not> sets_overlap rs ss"
  shows "lease_step\<^sup>*\<^sup>* T \<lparr>lt_last = lt_last T + 1, lt_held = (lt_held T)(i \<mapsto> (a, rs, lt_last T + 1))\<rparr>"
proof -
  let ?T = "\<lparr>lt_last = lt_last T, lt_held = (lt_held T)(i := None)\<rparr>"
  have "lease_step ?T (?T\<lparr>lt_last := lt_last T + 1, lt_held := (lt_held ?T)(i \<mapsto> (a, rs, lt_last T + 1))\<rparr>)"
    by (rule lease_step.grants) (use assms in \<open>auto split: if_splits\<close>)
  then show ?thesis using rtranclp.rtrancl_into_rtrancl [OF lease_dropped [of T i]] by simp
qed

lemma closing_drops:
  assumes "status \<noteq> ACQUIRED" "close_claim i status t db = (db', r)"
  shows "leases db' = \<lparr>lt_last = lt_last (leases db), lt_held = (lt_held (leases db))(i := None)\<rparr>"
proof -
  have db': "db' = db\<lparr>wd_last_fence := wd_last_fence db, wd_claims := map (\<lambda>x. if wc_claim_id x = i
      then x\<lparr>wc_status := status, wc_closed_at := Some (render_time t)\<rparr> else x) (wd_claims db)\<rparr>"
    using update_claims [OF assms(2) [unfolded close_claim_def]] by simp
  have "Option.bind (claim_find i db) (\<lambda>r. lease_of (r\<lparr>wc_status := status, wc_closed_at := Some (render_time t)\<rparr>)) = None"
    using assms(1) by (cases "claim_find i db") (simp_all add: lease_of_def)
  then show ?thesis unfolding db' by (subst leases_update) (simp_all, simp add: leases_def)
qed

lemma lease_kept:
  assumes "lease_only f" "update_claim i f db = (db', r)"
  shows "leases db' = leases db"
proof -
  have db': "db' = db\<lparr>wd_last_fence := wd_last_fence db, wd_claims := map (\<lambda>x. if wc_claim_id x = i then f x else x) (wd_claims db)\<rparr>"
    using update_claims [OF assms(2)] by simp
  have "lease_of (f x) = lease_of x" "wc_claim_id (f x) = wc_claim_id x" for x using assms(1) by (simp_all add: lease_of_def lease_only_def)
  then show ?thesis unfolding db' by (subst leases_update) (simp_all add: leases_def fun_eq_iff)
qed

lemma promoting_grants:
  assumes "claims_inv db" "try_promote i t db = (db', r)"
  shows "lease_step\<^sup>*\<^sup>* (leases db) (leases db')"
proof (rule promote_states [where I = "\<lambda>d. lease_step\<^sup>*\<^sup>* (leases db) (leases d)", OF assms(2)])
  have "leases (db\<lparr>wd_last_fence := wd_last_fence db + 1\<rparr>) = (leases db)\<lparr>lt_last := lt_last (leases db) + 1\<rparr>"
    by (simp add: leases_def claim_find_def)
  then show "lease_step\<^sup>*\<^sup>* (leases db) (leases (db\<lparr>wd_last_fence := wd_last_fence db + 1\<rparr>))"
    using lease_step.skips by (metis r_into_rtranclp)
next
  fix row ex assume row: "claim_find i db = Some row" "blockers row db = []"
  have free: "\<not> sets_overlap (wc_resources row) ss" if l: "lt_held (leases db) j = Some (b, ss, m)" "j \<noteq> i" for j b ss m
    using held_row_of [OF l(1)] not_blocked [OF row] l(2) by blast
  let ?f = "\<lambda>x. x\<lparr>wc_status := ACQUIRED, wc_fence_token := Some (wd_last_fence db + 1), wc_expires_at := Some ex\<rparr>"
  have "leases (db\<lparr>wd_last_fence := wd_last_fence db + 1, wd_claims := map (\<lambda>x. if wc_claim_id x = i then ?f x else x) (wd_claims db)\<rparr>) =
      \<lparr>lt_last = lt_last (leases db) + 1, lt_held = (lt_held (leases db))(i \<mapsto> (wc_agent_id row, wc_resources row, lt_last (leases db) + 1))\<rparr>"
    using row(1) by (subst leases_update) (simp_all add: lease_of_def, simp add: leases_def)
  then show "lease_step\<^sup>*\<^sup>* (leases db) (leases (db\<lparr>wd_last_fence := wd_last_fence db + 1,
      wd_claims := map (\<lambda>x. if wc_claim_id x = i then ?f x else x) (wd_claims db)\<rparr>))"
    using lease_regranted [of "leases db" i "wc_resources row", OF free] by simp
qed simp

lemma enqueuing_waits:
  assumes "insert_claim i a rs WAITING None ttl at ex db = (db', r)"
  shows "leases db' = leases db"
  using insert_claims [OF assms]
proof (elim disjE conjE exE)
  fix row assume i: "i \<notin> wc_claim_id ` set (wd_claims db)" and row: "db' = db\<lparr>wd_claims := wd_claims db @ [row]\<rparr>"
    "wc_claim_id row = i" "wc_status row = WAITING"
  have "lt_held (leases db) i = None" using held_row_of [of db i] i by (cases "lt_held (leases db) i") auto
  then show ?thesis unfolding row(1) using i row by (subst leases_append) (simp_all add: lease_of_def fun_upd_idem)
qed simp

lemma transferring_regrants:
  assumes "claims_inv db" "claim_find i db = Some row" "wc_status row = ACQUIRED" "transfer E row successor t db = (db', r)"
  shows "lease_step\<^sup>*\<^sup>* (leases db) (leases db')"
proof (rule transfer_states [where I = "\<lambda>d. lease_step\<^sup>*\<^sup>* (leases db) (leases d)", OF assms(4)])
  fix closed
  assume c: "closed = db\<lparr>wd_claims := map (\<lambda>x. if wc_claim_id x = wc_claim_id row
    then x\<lparr>wc_status := HANDED_OFF, wc_closed_at := Some (render_time t)\<rparr> else x) (wd_claims db)\<rparr>"
  let ?T = "leases db" and ?i = "wc_claim_id row"
  have "close_claim ?i HANDED_OFF t db = (closed, Inr ())" by (simp add: close_claim_def update_claim_def c)
  from closing_drops [OF _ this] have drop: "leases closed = \<lparr>lt_last = lt_last ?T, lt_held = (lt_held ?T)(?i := None)\<rparr>" by simp
  have 1: "lease_step\<^sup>*\<^sup>* ?T (leases closed)" unfolding drop by (rule lease_dropped)
  have fenced: "leases (closed\<lparr>wd_last_fence := wd_last_fence db + 1\<rparr>) = (leases closed)\<lparr>lt_last := lt_last (leases closed) + 1\<rparr>"
    by (simp add: leases_def claim_find_def c)
  have 2: "lease_step\<^sup>*\<^sup>* ?T (leases (closed\<lparr>wd_last_fence := wd_last_fence db + 1\<rparr>))"
    unfolding fenced using 1 lease_step.skips by (rule rtranclp.rtrancl_into_rtrancl)
  have free: "\<not> sets_overlap (wc_resources row) ss" if l: "lt_held (leases closed) j = Some (b, ss, m)" for j b ss m
  proof -
    have j: "j \<noteq> ?i" "lt_held ?T j = Some (b, ss, m)" using l unfolding drop by (auto split: if_splits)
    then show ?thesis using held_row_of [OF j(2)] assms(1,3) claim_find_in [OF assms(2)] by (auto simp: claims_inv_def)
  qed
  have "lease_step\<^sup>*\<^sup>* ?T (leases (closed\<lparr>wd_last_fence := wd_last_fence db + 1, wd_claims := wd_claims closed @ [new]\<rparr>))"
    if new: "wc_claim_id new \<notin> wc_claim_id ` set (wd_claims db)" "wc_resources new = wc_resources row" "wc_status new = ACQUIRED"
      "wc_fence_token new = Some (wd_last_fence db + 1)" for new
  proof -
    have ids: "wc_claim_id new \<notin> wc_claim_id ` set (wd_claims (closed\<lparr>wd_last_fence := wd_last_fence db + 1\<rparr>))"
      using new(1) by (auto simp: c image_iff split: if_splits)
    have "leases (closed\<lparr>wd_last_fence := wd_last_fence db + 1, wd_claims := wd_claims closed @ [new]\<rparr>) =
        \<lparr>lt_last = lt_last (leases closed) + 1,
         lt_held = (lt_held (leases closed))(wc_claim_id new \<mapsto> (wc_agent_id new, wc_resources row, lt_last (leases closed) + 1))\<rparr>"
      using leases_append [OF ids] new fenced by (simp add: lease_of_def) (simp add: leases_def c)
    then show ?thesis
      using rtranclp_trans [OF 1 lease_regranted [of "leases closed" "wc_claim_id new" "wc_resources row"]] free by simp
  qed
  then show "lease_step\<^sup>*\<^sup>* ?T (leases closed) \<and> lease_step\<^sup>*\<^sup>* ?T (leases (closed\<lparr>wd_last_fence := wd_last_fence db + 1\<rparr>)) \<and>
    (\<forall>new. wc_claim_id new \<notin> wc_claim_id ` set (wd_claims db) \<longrightarrow> list_all is_code_point (wc_claim_id new) \<longrightarrow>
      wc_agent_id new = successor \<longrightarrow> wc_resources new = wc_resources row \<longrightarrow> wc_status new = ACQUIRED \<longrightarrow>
      wc_fence_token new = Some (wd_last_fence db + 1) \<longrightarrow>
      lease_step\<^sup>*\<^sup>* ?T (leases (closed\<lparr>wd_last_fence := wd_last_fence db + 1, wd_claims := wd_claims closed @ [new]\<rparr>)))"
    using 1 2 by blast
qed

interpretation refine: registry_invariant E "refines_inv T" for E T
proof (unfold_locales, goal_cases)
  case (1 db)
  then show ?case by (simp add: refines_inv_def claims_inv_def)
next
  case (2 d extra kind t)
  show ?case
  proof (rule keepsI)
    fix db db' r assume s: "refines_inv T db" "append_event E kind d t extra db = (db', r)"
    show "refines_inv T db'"
      using event_claims [OF s(2)] s(1) same_claims(1) [of db' db] leases_events [of db' db] by (simp add: refines_inv_def)
  qed
next
  case (3 i t)
  show ?case
  proof (rule keepsI)
    fix db db' r assume s: "refines_inv T db" "try_promote i t db = (db', r)"
    then have "claims_inv db" by (simp add: refines_inv_def)
    then show "refines_inv T db'" using refines_step [OF s(1)] promote_keeps_claims(1) [OF _ s(2)] promoting_grants [OF _ s(2)] by blast
  qed
next
  case (4 f i)
  show ?case
  proof (rule keepsI)
    fix db db' r assume s: "refines_inv T db" "update_claim i f db = (db', r)"
    then show "refines_inv T db'" using lease_keeps_claims(1) [OF 4 _ s(2)] lease_kept [OF 4 s(2)] by (simp add: refines_inv_def)
  qed
next
  case (5 status i t)
  show ?case
  proof (rule keepsI)
    fix db db' r assume s: "refines_inv T db" "close_claim i status t db = (db', r)"
    have "claims_inv db" using s(1) by (simp add: refines_inv_def)
    from refines_step [OF s(1) close_keeps_claims(1) [OF 5(1) this s(2)]] show "refines_inv T db'"
      unfolding closing_drops [OF 5(1) s(2)] using lease_dropped by blast
  qed
next
  case (6 i a rs ttl at ex)
  show ?case
  proof (rule keepsI)
    fix db db' r assume s: "refines_inv T db" "insert_claim i a rs WAITING None ttl at ex db = (db', r)"
    then show "refines_inv T db'" using enqueue_keeps_claims(1) [OF 6 _ s(2)] enqueuing_waits [OF s(2)] by (simp add: refines_inv_def)
  qed
next
  case (7 db i row successor t db' r)
  then show ?case
    using refines_step [OF 7(1)] transfer_keeps_claims(1) [OF _ 7(2-5)] transferring_regrants [OF _ 7(2,3,5)] by (simp add: refines_inv_def)
qed

section \<open>Refinement\<close>

text \<open>
  C16. The registry implements the table of leases: whatever public operation is called in a
  reachable state, with whatever outcome, its effect on the held claims is a sequence of steps
  of the specification, in which leases end or are granted without overlap and with the next
  token.
\<close>

theorem registry_refines_leases:
  assumes "casefold_wf E" "work_reach E c" "work_step E c c'"
  shows "lease_step\<^sup>*\<^sup>* (leases (cn_now c)) (leases (cn_now c'))"
proof -
  have "conn_inv claims_inv c" by (rule excl.reached [OF assms(2,1) new_registry_inv(1)])
  then have "conn_inv (refines_inv (leases (cn_now c))) c"
    using work_reach_idle [OF assms(2)] by (simp add: conn_inv_def idle_def refines_inv_def)
  from refine.step_keeps [OF assms(3) this assms(1)] show ?thesis by (simp add: conn_inv_def refines_inv_def)
qed

theorem registry_refines_leases_witness:
  "\<exists>(c :: work_db conn) i. lease_step\<^sup>*\<^sup>* (leases new_registry) (leases (cn_now c)) \<and>
     lt_held (leases (cn_now c)) i = Some (lit ''agent:a'', [lit ''path:/repo/src''], 1)"
proof -
  obtain i c d where c: "claim demo_env work_clock (vlit ''agent:a'') [vlit ''path:/repo//SRC/''] (VInt 60) None (connect new_registry) = (c, Inr d)"
    "wd_claims (cn_now c) = [sample_row i]" by (rule sample_claim) blast
  have start: "work_reach demo_env (connect new_registry)"
    by (rule work_reach.created [of "VInt 1000"]) (simp add: open_registry_def)
  have step: "work_step demo_env (connect new_registry) c" by (rule work_step.claim [OF _ c(1)]) simp
  have "lt_held (leases (cn_now c)) i = Some (lit ''agent:a'', [lit ''path:/repo/src''], 1)"
    using c(2) by (simp add: leases_def claim_find_def lease_of_def sample_row_def)
  with registry_refines_leases [OF demo_folds start step] show ?thesis by (auto simp: connect_def)
qed

end
