(* ===== verification/Admission.thy ===== *)
theory Admission
  imports Identity
begin

text \<open>
  \<open>admission_clock.py\<close> and \<open>agent_identity.py\<close>: who speaks, and for how long. An agent identity
  and a session admission are content-addressed documents; an admission is live for at most
  five hours from its declaration and never grants production authority.

  Arguments have the types of their annotations (\<open>str\<close>, \<open>str | None\<close>, \<open>list\<close>); documents are
  dictionaries. \<open>letters\<close> holds what the code uses of the Unicode tables beyond ASCII: lower
  case of a text and alphanumeric characters.
\<close>

record letters =
  uni_lower :: "ustring \<Rightarrow> ustring"
  uni_alnum :: "int \<Rightarrow> bool"

section \<open>The admission window\<close>

text \<open>\<open>RFC3339.fullmatch\<close>. In a text pattern \<open>\d\<close> also matches other decimal digits than 0 to 9;
  \<open>fromisoformat\<close> refuses those, and the code raises the same error for both.\<close>

definition take_digits :: "nat \<Rightarrow> ustring \<Rightarrow> ustring option" where
  "take_digits n s = (if n \<le> length s \<and> list_all is_digit (take n s) then Some (drop n s) else None)"

definition take_char :: "int \<Rightarrow> ustring \<Rightarrow> ustring option" where
  "take_char c s = (case s of [] \<Rightarrow> None | x # xs \<Rightarrow> if x = c then Some xs else None)"

definition rfc3339_zone :: "ustring \<Rightarrow> bool" where
  "rfc3339_zone s \<longleftrightarrow> s = [90] \<or>
     (case s of [] \<Rightarrow> False
      | c # r \<Rightarrow> c \<in> {43, 45} \<and>
          Option.bind (Option.bind (take_digits 2 r) (take_char 58)) (take_digits 2) = Some [])"

definition rfc3339_fraction :: "ustring \<Rightarrow> ustring" where
  "rfc3339_fraction s =
     (case s of
        dot # c # r \<Rightarrow> if dot = 46 \<and> is_digit c then dropWhile is_digit r else s
      | _ \<Rightarrow> s)"

definition rfc3339_ok :: "ustring \<Rightarrow> bool" where
  "rfc3339_ok s =
     (case Option.bind (Option.bind (Option.bind (Option.bind (Option.bind (Option.bind (Option.bind (Option.bind (Option.bind
         (Option.bind (take_digits 4 s) (take_char 45)) (take_digits 2)) (take_char 45)) (take_digits 2)) (take_char 84))
         (take_digits 2)) (take_char 58)) (take_digits 2)) (take_char 58)) (take_digits 2) of
        None \<Rightarrow> False
      | Some r \<Rightarrow> rfc3339_zone (rfc3339_fraction r))"

definition parse_rfc3339 :: "pyval \<Rightarrow> string \<Rightarrow> datetime res" where
  "parse_rfc3339 v fld =
     (case v of
        VStr s \<Rightarrow>
          ensure (s \<noteq> []) AdmissionClockError (fld @ '' is required'')
          (ensure (rfc3339_ok s) AdmissionClockError (fld @ '' is not RFC3339'')
          (ebind (catch_as is_ValueError AdmissionClockError (fld @ '' is not RFC3339'') (fromisoformat v)) (\<lambda>parsed.
           ensure (dt_offset parsed \<noteq> None) AdmissionClockError (fld @ '' must be timezone-aware'') (Inr parsed))))
      | _ \<Rightarrow> raise AdmissionClockError (fld @ '' is required''))"

definition admission_ttl :: int where
  "admission_ttl = 5 * 3600 * 1000000"

definition admission_clock_valid_until :: "pyval \<Rightarrow> pyval \<Rightarrow> datetime res" where
  "admission_clock_valid_until declared_at expires_at =
     ebind (parse_rfc3339 declared_at ''declared_at'') (\<lambda>declared.
     ebind (add_us declared admission_ttl) (\<lambda>default_deadline.
     if \<not> truthy expires_at then Inr default_deadline
     else
       ebind (parse_rfc3339 expires_at ''expires_at'') (\<lambda>explicit.
       ensure (\<not> instant explicit \<le> instant declared) AdmissionClockError ''expires_at must be after declared_at''
       (ensure (\<not> instant default_deadline < instant explicit) AdmissionClockError
          ''expires_at cannot exceed the five-hour admission window'' (Inr explicit)))))"

definition admission_is_live :: "pyval \<Rightarrow> pyval \<Rightarrow> pyval \<Rightarrow> bool res" where
  "admission_is_live now declared_at expires_at =
     ebind (parse_rfc3339 now ''now'') (\<lambda>current.
     ebind (parse_rfc3339 declared_at ''declared_at'') (\<lambda>declared.
     ebind (admission_clock_valid_until declared_at expires_at) (\<lambda>valid_until.
     Inr (instant declared \<le> instant current \<and> instant current < instant valid_until))))"

section \<open>Slugs\<close>

definition lower_text :: "letters \<Rightarrow> ustring \<Rightarrow> ustring" where
  "lower_text U s =
     (if list_all (\<lambda>c. c < 128) s then map (\<lambda>c. if 65 \<le> c \<and> c \<le> 90 then c + 32 else c) s else uni_lower U s)"

definition char_isalnum :: "letters \<Rightarrow> int \<Rightarrow> bool" where
  "char_isalnum U c =
     (if c < 128 then is_digit c \<or> 65 \<le> c \<and> c \<le> 90 \<or> 97 \<le> c \<and> c \<le> 122 else uni_alnum U c)"

fun clean_slug :: "letters \<Rightarrow> ustring \<Rightarrow> ustring" where
  "clean_slug U [] = []"
| "clean_slug U (c # s) =
     (if char_isalnum U c \<or> c \<in> {46, 45} then c # clean_slug U s
      else if c \<in> {95, 32, 58, 47} then 45 # clean_slug U s
      else clean_slug U s)"

definition strip_set :: "int set \<Rightarrow> ustring \<Rightarrow> ustring" where
  "strip_set cs s = rev (dropWhile (\<lambda>c. c \<in> cs) (rev (dropWhile (\<lambda>c. c \<in> cs) s)))"

definition slug :: "env \<Rightarrow> letters \<Rightarrow> string \<Rightarrow> ustring \<Rightarrow> ustring res" where
  "slug E U fld v =
     (let trimmed = lower_text U (strip E v) in
      ensure (trimmed \<noteq> []) AgentIdentityError (fld @ '' is required'')
      (let s = strip_set {45, 46} (clean_slug U trimmed) in
       ensure (s \<noteq> [] \<and> char_isalnum U (hd s)) AgentIdentityError (fld @ '' is not a valid slug'')
         (Inr (take 64 s))))"

definition check_instance_id :: "env \<Rightarrow> ustring \<Rightarrow> ustring res" where
  "check_instance_id E v =
     (let s = strip E v in
      ensure (s \<noteq> []) AgentIdentityError ''instance_id is required''
      (ensure (length s \<le> 128) AgentIdentityError ''instance_id is too long'' (Inr s)))"

section \<open>Identities\<close>

text \<open>\<open>KNOWN_PROFILES.get((vendor, product), {})\<close>: kind and runtime.\<close>

definition known_profile :: "ustring \<Rightarrow> ustring \<Rightarrow> (string \<times> string) option" where
  "known_profile vendor product =
     (if vendor = lit ''xai'' \<and> product = lit ''grok-build'' then Some (''coding-agent'', ''grok-build'')
      else if vendor = lit ''openai'' \<and> product = lit ''codex'' then Some (''coding-agent'', ''codex'')
      else None)"

text \<open>\<open>a or b\<close> on optional texts.\<close>

definition text_or :: "ustring option \<Rightarrow> ustring \<Rightarrow> ustring" where
  "text_or a b = (case a of None \<Rightarrow> b | Some s \<Rightarrow> if s = [] then b else s)"

definition agent_core :: "ustring \<Rightarrow> ustring \<Rightarrow> ustring \<Rightarrow> ustring \<Rightarrow> ustring \<Rightarrow> pydict" where
  "agent_core kind vendor product runtime instance_id =
     mk_dict [(''protocol'', vlit ''integrity-guardian/agent-identity/v1''), (''agent_id'', vlit ''agent:pending''),
       (''kind'', VStr kind), (''vendor'', VStr vendor), (''product'', VStr product), (''runtime'', VStr runtime),
       (''instance_id'', VStr instance_id)]"

definition declare_agent ::
    "env \<Rightarrow> letters \<Rightarrow> ustring \<Rightarrow> ustring \<Rightarrow> ustring \<Rightarrow> ustring option \<Rightarrow> ustring option \<Rightarrow> pydict res" where
  "declare_agent E U vendor product instance_id runtime kind =
     ebind (slug E U ''vendor'' vendor) (\<lambda>vendor_slug.
     ebind (slug E U ''product'' product) (\<lambda>product_slug.
     let profile = known_profile vendor_slug product_slug in
     ebind (slug E U ''runtime'' (text_or runtime (case profile of None \<Rightarrow> product_slug | Some (k, r) \<Rightarrow> lit r))) (\<lambda>runtime_slug.
     let kind_value = text_or kind (case profile of None \<Rightarrow> lit ''unknown'' | Some (k, r) \<Rightarrow> lit k) in
     ensure (kind_value \<in> {lit ''coding-agent'', lit ''human'', lit ''automation'', lit ''unknown''}) AgentIdentityError
       ''kind is not a closed Integrity agent kind''
     (ebind (check_instance_id E instance_id) (\<lambda>instance.
      let core = agent_core kind_value vendor_slug product_slug runtime_slug instance in
      ebind (content_identity E ''agent:'' ''agent-identity-v1'' core) (\<lambda>agent_id.
      let identity = dict_put core ''agent_id'' (VStr agent_id) in
      ebind (validate E ''agent-identity'' (VDict identity)) (\<lambda>_. Inr identity)))))))"

definition known_alias :: "ustring \<Rightarrow> (string \<times> string) option" where
  "known_alias s =
     (if s \<in> {lit ''grok'', lit ''grok-build'', lit ''grok-4.6''} then Some (''xai'', ''grok-build'')
      else if s \<in> {lit ''codex'', lit ''chatgpt-codex''} then Some (''openai'', ''codex'')
      else None)"

definition declare_known_agent :: "env \<Rightarrow> letters \<Rightarrow> ustring \<Rightarrow> ustring \<Rightarrow> pydict res" where
  "declare_known_agent E U product instance_id =
     (case known_alias (lower_text U (strip E product)) of
        None \<Rightarrow> raise AgentIdentityError ''product is not one of the currently checkable profiles; use declare_agent''
      | Some (vendor, canonical_product) \<Rightarrow>
          declare_agent E U (lit vendor) (lit canonical_product) instance_id None None)"

definition verify_agent_identity :: "env \<Rightarrow> pyval \<Rightarrow> pydict res" where
  "verify_agent_identity E identity =
     ebind (validate E ''agent-identity'' identity) (\<lambda>_.
     ebind (item identity ''agent_id'') (\<lambda>actual.
     case identity of
       VDict d \<Rightarrow>
         ebind (content_identity E ''agent:'' ''agent-identity-v1'' (dict_put d ''agent_id'' (vlit ''agent:pending''))) (\<lambda>expected.
         ensure (actual = VStr expected) AgentIdentityError ''agent_id does not match the identity digest'' (Inr d))
     | _ \<Rightarrow> raise TypeError ''item assignment''))"

datatype agent_relation = Same_Instance | Same_Product | Different

definition relate_agents :: "env \<Rightarrow> pyval \<Rightarrow> pyval \<Rightarrow> agent_relation res" where
  "relate_agents E left right =
     ebind (verify_agent_identity E left) (\<lambda>first.
     ebind (verify_agent_identity E right) (\<lambda>second.
     let same = (\<lambda>k. ebind (field first k) (\<lambda>a. ebind (field second k) (\<lambda>b. Inr (py_eq a b)))) in
     ebind (same ''agent_id'') (\<lambda>same_id.
     if same_id then Inr Same_Instance
     else
       ebind (same ''vendor'') (\<lambda>v.
       ebind (if v then same ''product'' else Inr False) (\<lambda>p.
       ebind (if p then same ''runtime'' else Inr False) (\<lambda>r.
       Inr (if r then Same_Product else Different)))))))"

section \<open>Admissions\<close>

definition capability_classes :: "ustring set" where
  "capability_classes = {lit ''read-memory'', lit ''append-memory'', lit ''adapter-observe'', lit ''adapter-mutate''}"

fun admit_classes :: "ustring list \<Rightarrow> pyval list \<Rightarrow> ustring list res" where
  "admit_classes classes [] = Inr classes"
| "admit_classes classes (x # xs) =
     (case x of
        VStr s \<Rightarrow>
          ensure (s \<in> capability_classes) AgentIdentityError ''capability_class is not admitted''
          (ensure (s \<notin> set classes) AgentIdentityError ''capability_class contains duplicates''
            (admit_classes (classes @ [s]) xs))
      | _ \<Rightarrow> raise AgentIdentityError ''capability_class item must be a string'')"

definition checked_classes :: "pyval \<Rightarrow> ustring list res" where
  "checked_classes capability_class =
     (case capability_class of
        VList xs \<Rightarrow>
          ensure (1 \<le> length xs \<and> length xs \<le> 8) AgentIdentityError ''capability_class size is invalid''
          (ebind (admit_classes [] xs) (\<lambda>classes.
           ensure (\<not> (lit ''adapter-mutate'' \<in> set classes \<and> lit ''adapter-observe'' \<notin> set classes)) AgentIdentityError
             ''adapter-mutate requires adapter-observe'' (Inr classes)))
      | _ \<Rightarrow> raise AgentIdentityError ''capability_class must be an array'')"

text \<open>\<open>except AdmissionClockError as exc: raise AgentIdentityError(str(exc))\<close>\<close>

definition as_identity_error :: "'a res \<Rightarrow> 'a res" where
  "as_identity_error m =
     (case m of Inl (AdmissionClockError, t) \<Rightarrow> Inl (AgentIdentityError, t) | _ \<Rightarrow> m)"

definition admission_core ::
    "pydict \<Rightarrow> ustring \<Rightarrow> ustring \<Rightarrow> ustring list \<Rightarrow> ustring \<Rightarrow> ustring \<Rightarrow> ustring option \<Rightarrow> pydict" where
  "admission_core agent session_id host_id classes declared_at task_id expires_at =
     mk_dict ([(''protocol'', vlit ''integrity-guardian/agent-session-admission/v1''), (''admission_id'', vlit ''admission:pending''),
       (''agent'', VDict agent), (''session_id'', VStr session_id), (''host_id'', VStr host_id),
       (''capability_class'', VList (map VStr classes)), (''production_authority'', VBool False),
       (''declared_at'', VStr declared_at), (''task_id'', VStr task_id)] @
       (case expires_at of None \<Rightarrow> [] | Some t \<Rightarrow> if t = [] then [] else [(''expires_at'', VStr t)]))"

definition build_session_admission ::
    "env \<Rightarrow> pydict \<Rightarrow> ustring \<Rightarrow> ustring \<Rightarrow> pyval \<Rightarrow> ustring \<Rightarrow> ustring \<Rightarrow> ustring option \<Rightarrow> pydict res" where
  "build_session_admission E agent session_id host_id capability_class declared_at task_id expires_at =
     ebind (verify_agent_identity E (VDict agent)) (\<lambda>verified.
     ebind (field verified ''instance_id'') (\<lambda>instance_id.
     ensure (VStr session_id = instance_id) AgentIdentityError ''session_id must match agent.instance_id''
     (ebind (checked_classes capability_class) (\<lambda>classes.
      ebind (as_identity_error (admission_clock_valid_until (VStr declared_at) (VStr (text_or expires_at [])))) (\<lambda>_.
      ebind (check_instance_id E session_id) (\<lambda>sid.
      let host = strip E host_id; task = strip E task_id;
          core = admission_core verified sid host classes declared_at task expires_at in
      ensure (host \<noteq> [] \<and> task \<noteq> []) AgentIdentityError ''host_id and task_id are required''
      (ebind (content_identity E ''admission:'' ''agent-session-admission-v1'' core) (\<lambda>admission_id.
       let admission = dict_put core ''admission_id'' (VStr admission_id) in
       ebind (validate E ''agent-session-admission'' (VDict admission)) (\<lambda>_. Inr admission)))))))))"

definition admit_speaker ::
    "env \<Rightarrow> letters \<Rightarrow> ustring \<Rightarrow> ustring \<Rightarrow> ustring \<Rightarrow> ustring \<Rightarrow> ustring \<Rightarrow> ustring \<Rightarrow> pyval \<Rightarrow>
     ustring option \<Rightarrow> ustring option \<Rightarrow> ustring option \<Rightarrow> pydict res" where
  "admit_speaker E U vendor product instance_id host_id task_id declared_at capability_class runtime kind expires_at =
     ebind (declare_agent E U vendor product instance_id runtime kind) (\<lambda>agent.
     build_session_admission E agent instance_id host_id
       (if capability_class = VNone then VList [vlit ''read-memory''] else capability_class) declared_at task_id expires_at)"

text \<open>\<open>candidate.get("expires_at") or ""\<close>\<close>

definition verify_session_admission :: "env \<Rightarrow> pydict \<Rightarrow> pydict res" where
  "verify_session_admission E admission =
     ebind (validate E ''agent-session-admission'' (VDict admission)) (\<lambda>_.
     ebind (field admission ''production_authority'') (\<lambda>authority.
     ensure (authority = VBool False) AgentIdentityError ''session admission cannot grant production authority''
     (ebind (field admission ''agent'') (\<lambda>agent.
      ebind (verify_agent_identity E agent) (\<lambda>_.
      ebind (field admission ''session_id'') (\<lambda>session_id.
      ebind (item agent ''instance_id'') (\<lambda>instance_id.
      ensure (py_eq session_id instance_id) AgentIdentityError ''session_id does not match agent.instance_id''
      (ebind (field admission ''declared_at'') (\<lambda>declared_at.
       ebind (as_identity_error (admission_clock_valid_until declared_at
                (if truthy (dict_get admission ''expires_at'') then dict_get admission ''expires_at'' else VStr []))) (\<lambda>_.
       ebind (field admission ''admission_id'') (\<lambda>actual.
       ebind (content_identity E ''admission:'' ''agent-session-admission-v1''
                (dict_put admission ''admission_id'' (vlit ''admission:pending''))) (\<lambda>expected.
       ensure (actual = VStr expected) AgentIdentityError ''admission_id does not match the admission digest''
         (Inr admission)))))))))))))"

definition admission_summary :: "ustring \<Rightarrow> ustring \<Rightarrow> ustring \<Rightarrow> ustring" where
  "admission_summary product vendor instance_id =
     lit ''Admit '' @ product @ lit '' ('' @ vendor @ lit '') instance '' @ instance_id @ lit '' as a distinct Integrity agent.''"

definition action_log_event_from_admission :: "env \<Rightarrow> pydict \<Rightarrow> pydict res" where
  "action_log_event_from_admission E admission =
     ebind (verify_session_admission E admission) (\<lambda>verified.
     ebind (field verified ''agent'') (\<lambda>agent.
     ebind (text_item agent ''product'') (\<lambda>product.
     ebind (text_item agent ''vendor'') (\<lambda>vendor.
     ebind (text_item agent ''instance_id'') (\<lambda>instance_id.
     ebind (copy_fields verified [''session_id'', ''task_id'', ''capability_class'', ''admission_id'', ''host_id'', ''declared_at'']) (\<lambda>fs.
     let f = (\<lambda>k. case map_of fs k of None \<Rightarrow> VNone | Some v \<Rightarrow> v);
         expires = (if truthy (dict_get verified ''expires_at'') then dict_get verified ''expires_at'' else VStr []) in
     Inr (mk_dict [(''actor'', VStr product), (''session_id'', f ''session_id''), (''level'', vlit ''info''),
       (''action'', vlit ''agent_session_admission''), (''summary'', VStr (admission_summary product vendor instance_id)),
       (''details'', VDict (mk_dict [(''task_id'', f ''task_id''), (''result'', vlit ''admitted''), (''truth_status'', vlit ''observed''),
          (''production_authority'', VBool False), (''capability_class'', f ''capability_class''), (''agent'', agent),
          (''admission_id'', f ''admission_id''), (''host_id'', f ''host_id''), (''declared_at'', f ''declared_at''),
          (''expires_at'', expires), (''mutation'', VBool False)])),
       (''tags'', VList [vlit ''integrity'', vlit ''admission'', VStr product, VStr vendor])])))))))"

section \<open>Facts\<close>

lemma parse_rfc3339_Inr:
  "parse_rfc3339 v fld = Inr t \<longleftrightarrow> (\<exists>s. v = VStr s \<and> s \<noteq> [] \<and> rfc3339_ok s \<and> fromisoformat v = Inr t \<and> dt_offset t \<noteq> None)"
  by (auto simp: parse_rfc3339_def res_simps split: pyval.splits)

lemma instant_add: "add_us t d = Inr t' \<Longrightarrow> instant t' = instant t + d"
  by (auto simp: add_us_def res_simps instant_def)

lemma valid_until_window:
  assumes "admission_clock_valid_until declared_at expires_at = Inr until"
  obtains declared where "parse_rfc3339 declared_at ''declared_at'' = Inr declared"
    "instant declared < instant until" "instant until \<le> instant declared + admission_ttl"
  using assms instant_add
  by (auto simp: admission_clock_valid_until_def res_simps admission_ttl_def split: if_splits)

lemma as_identity_error_Inr [res_simps]: "as_identity_error m = Inr x \<longleftrightarrow> m = Inr x"
  by (auto simp: as_identity_error_def split: sum.splits prod.splits exc.splits)

lemma admit_classes_Inr:
  "admit_classes classes xs = Inr ys \<Longrightarrow> distinct classes \<Longrightarrow> set classes \<subseteq> capability_classes \<Longrightarrow>
   distinct ys \<and> set ys \<subseteq> capability_classes \<and> length ys = length classes + length xs"
  by (induction classes xs rule: admit_classes.induct) (auto simp: res_simps split: pyval.splits)

lemma checked_classes_Inr:
  assumes "checked_classes v = Inr classes"
  shows "distinct classes \<and> set classes \<subseteq> capability_classes \<and> classes \<noteq> [] \<and>
    (lit ''adapter-mutate'' \<in> set classes \<longrightarrow> lit ''adapter-observe'' \<in> set classes)"
proof -
  obtain xs where xs: "v = VList xs" "1 \<le> length xs" "admit_classes [] xs = Inr classes"
    "\<not> (lit ''adapter-mutate'' \<in> set classes \<and> lit ''adapter-observe'' \<notin> set classes)"
    using assms by (auto simp: checked_classes_def res_simps split: pyval.splits)
  then show ?thesis using admit_classes_Inr [OF xs(3)] by auto
qed

lemma restore_placeholder:
  "dict_find core k = Some v \<Longrightarrow> dict_put (dict_put core k w) k v = core"
  by (simp add: dict_put_same)

lemma declared_agent:
  assumes "declare_agent E U vendor product instance_id runtime kind = Inr d"
  shows "verify_agent_identity E (VDict d) = Inr d" "dict_find d ''instance_id'' = Some (VStr (strip E instance_id))"
proof -
  obtain k v p r i a where c: "content_identity E ''agent:'' ''agent-identity-v1'' (agent_core k v p r i) = Inr a"
    and d: "d = dict_put (agent_core k v p r i) ''agent_id'' (VStr a)" and i: "check_instance_id E instance_id = Inr i"
    and s: "validate E ''agent-identity'' (VDict d) = Inr ()"
    using assms by (auto simp: declare_agent_def res_simps Let_def)
  have "dict_put d ''agent_id'' (vlit ''agent:pending'') = agent_core k v p r i"
    unfolding d by (rule restore_placeholder) (simp add: agent_core_def dict_find_mk)
  then show "verify_agent_identity E (VDict d) = Inr d" using s c by (simp add: verify_agent_identity_def d field_put)
  show "dict_find d ''instance_id'' = Some (VStr (strip E instance_id))"
    using i by (auto simp: d dict_find_put agent_core_def dict_find_mk check_instance_id_def Let_def res_simps)
qed

lemma built_admission:
  assumes "build_session_admission E agent sid host cc declared task expires = Inr d"
  obtains classes i until where "verify_agent_identity E (VDict agent) = Inr agent" "dict_find agent ''instance_id'' = Some (VStr sid)"
    "checked_classes cc = Inr classes" "admission_clock_valid_until (VStr declared) (VStr (text_or expires [])) = Inr until"
    "content_identity E ''admission:'' ''agent-session-admission-v1''
       (admission_core agent (strip E sid) (strip E host) classes declared (strip E task) expires) = Inr i"
    "d = dict_put (admission_core agent (strip E sid) (strip E host) classes declared (strip E task) expires) ''admission_id'' (VStr i)"
    "validate E ''agent-session-admission'' (VDict d) = Inr ()"
proof -
  have same: "verify_agent_identity E (VDict agent) = Inr x \<Longrightarrow> x = agent" for x
    by (auto simp: verify_agent_identity_def res_simps)
  show thesis using assms that same
    by (auto simp: build_session_admission_def res_simps Let_def check_instance_id_def item_def split: option.splits)
qed

lemma admission_core_find:
  "dict_find (admission_core a s h cs t k e) ''admission_id'' = Some (vlit ''admission:pending'')"
  "dict_find (admission_core a s h cs t k e) ''agent'' = Some (VDict a)"
  "dict_find (admission_core a s h cs t k e) ''session_id'' = Some (VStr s)"
  "dict_find (admission_core a s h cs t k e) ''capability_class'' = Some (VList (map VStr cs))"
  "dict_find (admission_core a s h cs t k e) ''production_authority'' = Some (VBool False)"
  "dict_find (admission_core a s h cs t k e) ''declared_at'' = Some (VStr t)"
  "(if truthy (dict_get (admission_core a s h cs t k e) ''expires_at'') then dict_get (admission_core a s h cs t k e) ''expires_at'' else VStr []) =
     VStr (text_or e [])"
  by (auto simp: admission_core_def dict_find_mk dict_get_def text_or_def split: option.splits)

lemma admission_verifies:
  assumes "build_session_admission E agent sid host cc declared task expires = Inr d" "strip E sid = sid"
  shows "verify_session_admission E d = Inr d"
proof -
  obtain classes i until where b: "verify_agent_identity E (VDict agent) = Inr agent" "dict_find agent ''instance_id'' = Some (VStr sid)"
    "admission_clock_valid_until (VStr declared) (VStr (text_or expires [])) = Inr until"
    and c: "content_identity E ''admission:'' ''agent-session-admission-v1''
       (admission_core agent (strip E sid) (strip E host) classes declared (strip E task) expires) = Inr i"
    and d: "d = dict_put (admission_core agent (strip E sid) (strip E host) classes declared (strip E task) expires) ''admission_id'' (VStr i)"
    and v: "validate E ''agent-session-admission'' (VDict d) = Inr ()" by (rule built_admission [OF assms(1)])
  let ?core = "admission_core agent (strip E sid) (strip E host) classes declared (strip E task) expires"
  have pend: "dict_put d ''admission_id'' (vlit ''admission:pending'') = ?core"
    unfolding d by (rule restore_placeholder) (rule admission_core_find)
  have finds: "dict_find d k = (if k = ''admission_id'' then Some (VStr i) else dict_find ?core k)" for k by (simp add: d dict_find_put)
  have "(if truthy (dict_get d ''expires_at'') then dict_get d ''expires_at'' else VStr []) = VStr (text_or expires [])"
  proof -
    have "dict_get d ''expires_at'' = dict_get ?core ''expires_at''" by (simp add: dict_get_def finds)
    then show ?thesis by (simp only: admission_core_find(7))
  qed
  then show ?thesis using b c v assms(2) admission_core_find
    by (simp add: verify_session_admission_def item_def finds pend as_identity_error_Inr as_identity_error_def)
qed

section \<open>Properties\<close>

definition demo_letters :: letters where
  "demo_letters = \<lparr>uni_lower = \<lambda>s. s, uni_alnum = \<lambda>_. False\<rparr>"

lemma admission_samples:
  "slug demo_env demo_letters ''vendor'' (lit ''OpenAI'') = Inr (lit ''openai'')"
  "slug demo_env demo_letters ''product'' (lit ''codex'') = Inr (lit ''codex'')"
  "slug demo_env demo_letters ''runtime'' (lit ''codex'') = Inr (lit ''codex'')"
  "check_instance_id demo_env (lit ''session-1'') = Inr (lit ''session-1'')"
  "checked_classes (VList [vlit ''read-memory'']) = Inr [lit ''read-memory'']"
  "succeeds (\<lambda>_. True) (admission_clock_valid_until (vlit ''2026-06-01T12:00:00Z'') (VStr []))"
  "strip demo_env (lit ''host'') = lit ''host''" "strip demo_env (lit ''task'') = lit ''task''"
  "plain_domain ''agent-identity-v1''" "plain_domain ''agent-session-admission-v1''"
  by code_simp+

lemma sample_admission:
  "\<exists>d. admit_speaker demo_env demo_letters (lit ''OpenAI'') (lit ''codex'') (lit ''session-1'') (lit ''host'') (lit ''task'')
     (lit ''2026-06-01T12:00:00Z'') VNone None None None = Inr d"
proof -
  note s = admission_samples
  have ok: "validate demo_env name v = Inr ()" for name v by (simp add: validate_def demo_env_def)
  let ?core = "agent_core (lit ''coding-agent'') (lit ''openai'') (lit ''codex'') (lit ''codex'') (lit ''session-1'')"
  have enc: "encodable (VDict ?core)" by (simp add: agent_core_def mk_dict_def)
  obtain h where h: "content_identity demo_env ''agent:'' ''agent-identity-v1'' ?core = Inr (lit ''agent:'' @ hex h)"
    using content_identity_encodable [OF enc s(9)] by blast
  let ?agent = "dict_put ?core ''agent_id'' (VStr (lit ''agent:'' @ hex h))"
  have agent: "declare_agent demo_env demo_letters (lit ''OpenAI'') (lit ''codex'') (lit ''session-1'') None None = Inr ?agent"
    using s h ok by (simp add: declare_agent_def text_or_def known_profile_def)
  have aenc: "encodable (VDict ?agent)" by (rule encodable_put [OF enc]) simp
  let ?adm = "admission_core ?agent (lit ''session-1'') (lit ''host'') [lit ''read-memory''] (lit ''2026-06-01T12:00:00Z'') (lit ''task'') None"
  have "encodable (VDict ?adm)" using aenc by (simp add: admission_core_def mk_dict_def del: encodable.simps(4) add: encodable.simps(4) [of "_ # _"])
  then obtain g where g: "content_identity demo_env ''admission:'' ''agent-session-admission-v1'' ?adm = Inr (lit ''admission:'' @ hex g)"
    using content_identity_encodable [OF _ s(10)] by blast
  obtain until where "admission_clock_valid_until (vlit ''2026-06-01T12:00:00Z'') (VStr []) = Inr until" using succeedsD [OF s(6)] by blast
  then have "build_session_admission demo_env ?agent (lit ''session-1'') (lit ''host'') (VList [vlit ''read-memory'']) (lit ''2026-06-01T12:00:00Z'') (lit ''task'') None =
      Inr (dict_put ?adm ''admission_id'' (VStr (lit ''admission:'' @ hex g)))"
    using s g ok declared_agent(1) [OF agent]
    by (simp add: build_session_admission_def text_or_def as_identity_error_def field_put agent_core_def field_mk)
  then show ?thesis using agent by (simp add: admit_speaker_def)
qed

text \<open>
  C32. The first word of a speaker: an admission that \<open>admit_speaker\<close> issues passes
  \<open>verify_session_admission\<close>, grants no production authority, names only admitted capabilities
  without duplicates and mutation only together with observation, and is live from its
  declaration for a positive time of at most five hours.
\<close>

theorem admitted_speaker_is_bounded:
  assumes "admit_speaker E U vendor product instance_id host_id task_id declared_at capability_class runtime kind expires_at = Inr d"
  shows "verify_session_admission E d = Inr d \<and> dict_find d ''production_authority'' = Some (VBool False) \<and>
    (\<exists>classes. dict_find d ''capability_class'' = Some (VList (map VStr classes)) \<and> distinct classes \<and> set classes \<subseteq> capability_classes \<and>
       classes \<noteq> [] \<and> (lit ''adapter-mutate'' \<in> set classes \<longrightarrow> lit ''adapter-observe'' \<in> set classes)) \<and>
    (\<exists>declared until. parse_rfc3339 (VStr declared_at) ''declared_at'' = Inr declared \<and>
       (\<forall>now current. parse_rfc3339 now ''now'' = Inr current \<longrightarrow>
          admission_is_live now (VStr declared_at) (VStr (text_or expires_at [])) =
            Inr (instant declared \<le> instant current \<and> instant current < instant until)) \<and>
       instant declared < instant until \<and> instant until \<le> instant declared + admission_ttl)"
proof -
  obtain agent cc where agent: "declare_agent E U vendor product instance_id runtime kind = Inr agent"
    and b: "build_session_admission E agent instance_id host_id cc declared_at task_id expires_at = Inr d"
    using assms by (auto simp: admit_speaker_def res_simps)
  obtain classes i until where c: "dict_find agent ''instance_id'' = Some (VStr instance_id)"
    "checked_classes cc = Inr classes" "admission_clock_valid_until (VStr declared_at) (VStr (text_or expires_at [])) = Inr until"
    and d: "d = dict_put (admission_core agent (strip E instance_id) (strip E host_id) classes declared_at (strip E task_id) expires_at) ''admission_id'' (VStr i)"
    by (rule built_admission [OF b]) blast
  have "strip E instance_id = instance_id" using declared_agent(2) [OF agent] c(1) by simp
  from admission_verifies [OF b this] have v: "verify_session_admission E d = Inr d" .
  obtain declared where w: "parse_rfc3339 (VStr declared_at) ''declared_at'' = Inr declared"
    "instant declared < instant until" "instant until \<le> instant declared + admission_ttl" by (rule valid_until_window [OF c(3)])
  have "dict_find d ''production_authority'' = Some (VBool False)" "dict_find d ''capability_class'' = Some (VList (map VStr classes))"
    by (simp_all add: d dict_find_put admission_core_find)
  moreover have "admission_is_live now (VStr declared_at) (VStr (text_or expires_at [])) =
      Inr (instant declared \<le> instant current \<and> instant current < instant until)"
    if "parse_rfc3339 now ''now'' = Inr current" for now current
    using that w(1) c(3) by (simp add: admission_is_live_def)
  ultimately show ?thesis using v w checked_classes_Inr [OF c(2)] by blast
qed

theorem admitted_speaker_is_bounded_witness:
  "\<exists>d. admit_speaker demo_env demo_letters (lit ''OpenAI'') (lit ''codex'') (lit ''session-1'') (lit ''host'') (lit ''task'')
     (lit ''2026-06-01T12:00:00Z'') VNone None None None = Inr d \<and> verify_session_admission demo_env d = Inr d"
proof -
  obtain d where d: "admit_speaker demo_env demo_letters (lit ''OpenAI'') (lit ''codex'') (lit ''session-1'') (lit ''host'') (lit ''task'')
     (lit ''2026-06-01T12:00:00Z'') VNone None None None = Inr d" using sample_admission by blast
  from admitted_speaker_is_bounded [OF d] d show ?thesis by blast
qed

end
