(* ===== verification/Release.thy ===== *)
theory Release
  imports Identity
begin

text \<open>
  \<open>release.py\<close> and \<open>authority_scope.py\<close>: signed release manifests with an exact inventory of
  artifacts, and the closed authority contract of the memory surfaces. The part of
  \<open>release.py\<close> that walks the file system to build an inventory is not modelled; the verifier
  receives the inventory as an argument.
\<close>

section \<open>Portable paths\<close>

text \<open>\<open>PurePosixPath\<close>: the root (two leading slashes are kept, three or more count as one), the
  components without empty ones and single dots, and the text of the path.\<close>

definition posix_root :: "ustring \<Rightarrow> ustring" where
  "posix_root s =
     (if starts_with [47, 47] s \<and> \<not> starts_with [47, 47, 47] s then [47, 47]
      else if starts_with [47] s then [47] else [])"

definition posix_names :: "ustring \<Rightarrow> ustring list" where
  "posix_names s = filter (\<lambda>p. p \<noteq> [] \<and> p \<noteq> [46]) (split_all 47 s)"

definition posix_text :: "ustring \<Rightarrow> ustring" where
  "posix_text s =
     (if posix_root s = [] \<and> posix_names s = [] then [46] else posix_root s @ join [47] (posix_names s))"

text \<open>Relative, and no component is empty, a dot or two dots. The first component of an
  absolute path is its root.\<close>

definition path_is_canonical :: "ustring \<Rightarrow> bool" where
  "path_is_canonical s \<longleftrightarrow> posix_root s = [] \<and> \<not> (\<exists>p \<in> set (posix_names s). p \<in> {[], [46], [46, 46]})"

section \<open>Manifests\<close>

definition source_tree_digest :: "env \<Rightarrow> pyval list \<Rightarrow> ustring res" where
  "source_tree_digest E artifacts = digest_object E (VList artifacts) (lit ''release-source-tree-v1'')"

definition artifact_path :: "pyval \<Rightarrow> ustring res" where
  "artifact_path artifact =
     ebind (text_item artifact ''path'') (\<lambda>s.
     ensure (path_is_canonical s) ReleaseManifestError ''release artifact path is not canonical'' (Inr (posix_text s)))"

definition validate_manifest_artifacts :: "pyval list \<Rightarrow> unit res" where
  "validate_manifest_artifacts artifacts =
     ebind (map_res artifact_path artifacts) (\<lambda>paths.
     ensure (paths = sort paths \<and> distinct paths) ReleaseManifestError
       ''release artifact inventory is not unique and sorted'' (Inr ()))"

definition release_payload :: "pydict \<Rightarrow> bytes res" where
  "release_payload = authorization_payload ''release-manifest-v1'' ReleaseManifestError ''release authorization is missing''"

definition sign_release_manifest :: "env \<Rightarrow> ed25519_signer \<Rightarrow> pydict \<Rightarrow> pydict res" where
  "sign_release_manifest = sign_authorization ''release-manifest-v1'' ReleaseManifestError
     ''release authorization is missing'' ''release manifest is already signed'' ''release-manifest''"

definition authenticate_release_manifest :: "env \<Rightarrow> pydict \<Rightarrow> trusted_key \<Rightarrow> ustring \<Rightarrow> unit res" where
  "authenticate_release_manifest E document authority_key expected_source_revision =
     ebind (catch_as (\<lambda>_. True) ReleaseManifestError ''release manifest schema rejected''
              (validate E ''release-manifest'' (VDict document))) (\<lambda>_.
     ebind (authority_accepts E release_payload document authority_key) (\<lambda>accepted.
     ensure accepted ReleaseManifestError ''release authority signature rejected''
     (ebind (field document ''source_revision'') (\<lambda>revision.
      ensure (revision = VStr expected_source_revision) ReleaseManifestError ''release source revision mismatch'' (Inr ())))))"

definition release_controls :: pydict where
  "release_controls =
     mk_dict [(''clean_room'', VBool True), (''credentials_included'', VBool False), (''customer_data_included'', VBool False),
       (''production_authority'', VBool False), (''reproducible_build_required'', VBool True)]"

text \<open>\<open>sorted(expected_artifacts, key=lambda item: item["path"])\<close> on records with text paths.\<close>

definition sort_artifacts :: "pydict list \<Rightarrow> pyval list res" where
  "sort_artifacts artifacts =
     ebind (map_res (\<lambda>d. ebind (text_item (VDict d) ''path'') (\<lambda>s. Inr (s, VDict d))) artifacts) (\<lambda>keyed.
     Inr (map snd (sort_key fst keyed)))"

definition verify_release_manifest :: "env \<Rightarrow> pydict \<Rightarrow> trusted_key \<Rightarrow> ustring \<Rightarrow> pydict list \<Rightarrow> ustring res" where
  "verify_release_manifest E document authority_key expected_source_revision expected_artifacts =
     ebind (authenticate_release_manifest E document authority_key expected_source_revision) (\<lambda>_.
     ebind (sort_artifacts expected_artifacts) (\<lambda>canonical_expected.
     ebind (field document ''artifacts'') (\<lambda>artifacts.
     ebind (case artifacts of VList xs \<Rightarrow> validate_manifest_artifacts xs
            | _ \<Rightarrow> raise TypeError ''object is not iterable'') (\<lambda>_.
     ebind (validate_manifest_artifacts canonical_expected) (\<lambda>_.
     ensure (py_eq artifacts (VList canonical_expected)) ReleaseManifestError ''release artifact inventory mismatch''
     (ebind (field document ''artifact_count'') (\<lambda>count.
      ensure (py_eq count (VInt (int (length canonical_expected)))) ReleaseManifestError ''release artifact count mismatch''
      (ebind (field document ''source_tree_digest'') (\<lambda>claimed.
       ebind (source_tree_digest E canonical_expected) (\<lambda>digest.
       ensure (claimed = VStr digest) ReleaseManifestError ''release source tree digest mismatch''
       (ebind (field document ''controls'') (\<lambda>controls.
        ensure (py_eq controls (VDict release_controls)) ReleaseManifestError ''release safety controls rejected''
          (digest_object E (VDict document) (lit ''release-manifest-v1''))))))))))))))"

section \<open>The authority contract of memory surfaces\<close>

definition memory_authority_contract :: "ustring \<Rightarrow> pydict res" where
  "memory_authority_contract coordination_status =
     ensure (coordination_status \<in> {lit ''not-evaluated'', lit ''ready'', lit ''stopped''}) ValueError
       ''memory coordination status is invalid''
     (Inr (mk_dict [
       (''protocol'', vlit ''integrity-guardian/authority-separation/v1''),
       (''provider_authority'', VDict (mk_dict [
          (''provider'', vlit ''integrity-client-memory''), (''scope'', vlit ''canonical-seed-memory''), (''execution'', vlit ''absent''),
          (''production'', vlit ''absent''), (''route'', vlit ''absent''), (''canonical_seed_append'', vlit ''one-use-only'')])),
       (''target_action_authority'', VDict (mk_dict [
          (''decision'', vlit ''not-evaluated''), (''authoritative_source'', vlit ''target-specific-action-guard''),
          (''provider_boundary_is_target_denial'', VBool False)])),
       (''coordination'', VDict (mk_dict [
          (''scope'', vlit ''integrity-memory-route''), (''status'', VStr coordination_status),
          (''canonical_seed_append_affected'', VBool False), (''external_target_actions_affected'', VBool False)])),
       (''legacy_projection'', VDict (mk_dict [
          (''production_authority'', VBool False), (''semantics'', vlit ''memory-provider-does-not-grant-production-authority''),
          (''deprecated'', VBool True), (''replacement'', vlit ''authority_contract.provider_authority.production'')]))]))"

section \<open>Facts\<close>

interpretation rm: authorization_signing "''release-manifest-v1''" release_payload sign_release_manifest
  unfolding release_payload_def sign_release_manifest_def
  by (rule authorization_signing_instance) simp

lemma validated_paths:
  assumes "validate_manifest_artifacts xs = Inr ()"
  obtains texts where "list_all2 (\<lambda>x s. text_item x ''path'' = Inr s) xs texts" "list_all path_is_canonical texts"
    "sorted_wrt (<) (map posix_text texts)"
proof -
  obtain paths where p: "list_all2 (\<lambda>x y. artifact_path x = Inr y) xs paths" "paths = sort paths" "distinct paths"
    using assms by (auto simp: validate_manifest_artifacts_def res_simps map_res_Inr_iff)
  have "\<exists>texts. list_all2 (\<lambda>x s. text_item x ''path'' = Inr s) xs texts \<and> list_all path_is_canonical texts \<and> paths = map posix_text texts"
    using p(1)
  proof (induction rule: list_all2_induct)
    case (Cons x xs y ys)
    then obtain texts where t: "list_all2 (\<lambda>x s. text_item x ''path'' = Inr s) xs texts" "list_all path_is_canonical texts" "ys = map posix_text texts"
      by blast
    obtain s where "text_item x ''path'' = Inr s" "path_is_canonical s" "y = posix_text s"
      using Cons(1) by (auto simp: artifact_path_def res_simps)
    then show ?case using t by (intro exI [of _ "s # texts"]) simp
  qed simp
  then obtain texts where t: "list_all2 (\<lambda>x s. text_item x ''path'' = Inr s) xs texts" "list_all path_is_canonical texts" "paths = map posix_text texts"
    by blast
  have "sorted paths" using p(2) by (metis sorted_sort)
  then have "sorted_wrt (<) (map posix_text texts)" using p(3) t(3) by (simp add: strict_sorted_iff)
  with t show thesis using that by blast
qed

lemma sorted_artifacts:
  assumes "sort_artifacts ds = Inr xs"
  shows "set xs = VDict ` set ds" "length xs = length ds"
proof -
  obtain keyed where k: "list_all2 (\<lambda>d y. ebind (text_item (VDict d) ''path'') (\<lambda>s. Inr (s, VDict d)) = Inr y) ds keyed"
    "xs = map snd (sort_key fst keyed)"
    using assms by (auto simp: sort_artifacts_def res_simps map_res_Inr_iff)
  have "map snd keyed = map VDict ds" using k(1) by (induction rule: list_all2_induct) (auto simp: res_simps)
  then have "snd ` set keyed = VDict ` set ds" by (metis list.set_map)
  then show "set xs = VDict ` set ds" "length xs = length ds"
    using k list_all2_lengthD [OF k(1)] by simp_all
qed

section \<open>Properties\<close>

text \<open>
  C33. A release manifest passes only when it is exact: it satisfies the schema; it names the authority,
  whose key verified its signature over the signed bytes; it names the expected source revision; its inventory equals
  the expected artifacts, whose paths are relative, free of parent references and strictly
  sorted, hence unique; the count and the source tree digest are those of that inventory; and
  it excludes credentials, customer data and production authority.
\<close>

theorem release_verified_only_if_exact:
  assumes "verify_release_manifest E d key revision expected = Inr digest"
  shows "schema_ok E ''release-manifest'' (VDict d) \<and>
    (\<exists>a block v p s. dict_find d ''authorization'' = Some (VDict a) \<and> dict_find a ''authority_id'' = Some (VStr (tk_key_id key)) \<and>
       dict_find a ''signature'' = Some (VDict block) \<and> dict_find block ''value'' = Some v \<and> unbase64url v = Inr s \<and>
       release_payload d = Inr p \<and> ed_verify E (tk_public_key key) p s) \<and>
    dict_find d ''source_revision'' = Some (VStr revision) \<and>
    (\<exists>xs canonical texts tree. dict_find d ''artifacts'' = Some (VList xs) \<and> py_eq (VList xs) (VList canonical) \<and>
       set canonical = VDict ` set expected \<and> length canonical = length expected \<and>
       list_all2 (\<lambda>x t. text_item x ''path'' = Inr t) canonical texts \<and> list_all path_is_canonical texts \<and>
       sorted_wrt (<) (map posix_text texts) \<and>
       source_tree_digest E canonical = Inr tree \<and> dict_find d ''source_tree_digest'' = Some (VStr tree)) \<and>
    (\<exists>count. dict_find d ''artifact_count'' = Some count \<and> py_eq count (VInt (int (length expected)))) \<and>
    (\<exists>controls. dict_find d ''controls'' = Some controls \<and> py_eq controls (VDict release_controls)) \<and>
    digest_object E (VDict d) (lit ''release-manifest-v1'') = Inr digest"
proof -
  have "\<exists>xs. dict_find d ''artifacts'' = Some (VList xs)"
  proof (cases "dict_find d ''artifacts''")
    case (Some artifacts)
    then show ?thesis using assms by (cases artifacts) (auto simp: verify_release_manifest_def res_simps item_Inr)
  qed (use assms in \<open>auto simp: verify_release_manifest_def res_simps item_Inr\<close>)
  then obtain canonical xs tree controls count where v: "authenticate_release_manifest E d key revision = Inr ()"
    "sort_artifacts expected = Inr canonical" "dict_find d ''artifacts'' = Some (VList xs)"
    "validate_manifest_artifacts canonical = Inr ()" "py_eq (VList xs) (VList canonical)"
    "dict_find d ''source_tree_digest'' = Some (VStr tree)" "source_tree_digest E canonical = Inr tree"
    "dict_find d ''controls'' = Some controls" "py_eq controls (VDict release_controls)"
    "digest_object E (VDict d) (lit ''release-manifest-v1'') = Inr digest"
    "dict_find d ''artifact_count'' = Some count" "py_eq count (VInt (int (length canonical)))"
    using assms by (auto simp: verify_release_manifest_def res_simps item_Inr)
  have a: "schema_ok E ''release-manifest'' (VDict d)" "authority_accepts E release_payload d key = Inr True"
    "dict_find d ''source_revision'' = Some (VStr revision)"
    using v(1) by (auto simp: authenticate_release_manifest_def res_simps validate_def item_Inr)
  obtain texts where "list_all2 (\<lambda>x s. text_item x ''path'' = Inr s) canonical texts" "list_all path_is_canonical texts"
    "sorted_wrt (<) (map posix_text texts)" by (rule validated_paths [OF v(4)])
  moreover have "py_eq count (VInt (int (length expected)))" using v(12) sorted_artifacts(2) [OF v(2)] by simp
  ultimately show ?thesis using a v(2,3,5-11) sorted_artifacts [OF v(2)] rm.accepted_is_signed [OF a(2)] by blast
qed

text \<open>The manifest of a release with one artifact; \<open>h\<close> is the digest of its inventory.\<close>

definition demo_artifact :: pydict where
  "demo_artifact = mk_dict [(''path'', vlit ''dist/guardian.whl''), (''digest'', vlit ''sha256:00''), (''size_bytes'', VInt 1), (''executable'', VBool False)]"

definition demo_manifest :: "string \<Rightarrow> bytes \<Rightarrow> pydict" where
  "demo_manifest rid h = mk_dict [(''release_id'', vlit rid), (''version'', vlit ''1.0.0''),
     (''created_at'', vlit ''2026-01-01T00:00:00Z''), (''source_revision'', vlit ''rev-1''), (''artifacts'', VList [VDict demo_artifact]), (''artifact_count'', VInt 1),
     (''source_tree_digest'', VStr (lit ''sha256:'' @ hex h)), (''controls'', VDict release_controls),
     (''authorization'', VDict (mk_dict [(''authority_id'', vlit ''key:demo'')]))]"

lemma demo_release_facts:
  "plain_domain ''release-source-tree-v1''" "plain_domain ''release-manifest-v1''" "encodable (VInt 1)"
  "path_is_canonical (lit ''dist/guardian.whl'')" "sg_key_id demo_signer = lit ''key:demo''"
  "py_eq (VDict release_controls) (VDict release_controls)" "py_eq (VDict demo_artifact) (VDict demo_artifact)"
  by code_simp+

lemma demo_manifest_encodable: "encodable (VDict demo_artifact)" "encodable (VDict (demo_manifest rid h))"
proof -
  note one = demo_release_facts(3) encodable.simps(1) [simp del]
  show a: "encodable (VDict demo_artifact)" using one(1) by (simp add: demo_artifact_def mk_dict_def del: encodable.simps(1))
  show "encodable (VDict (demo_manifest rid h))" using a one(1)
    by (simp add: demo_manifest_def mk_dict_def release_controls_def del: encodable.simps(1,4) add: encodable.simps(4) [of "_ # _"])
qed

lemma demo_manifest_signed:
  obtains d where "sign_release_manifest demo_env demo_signer (demo_manifest rid h) = Inr d" "encodable (VDict d)"
proof -
  let ?a = "mk_dict [(''authority_id'', vlit ''key:demo'')]"
  have a: "dict_find (demo_manifest rid h) ''authorization'' = Some (VDict ?a)" by (simp add: demo_manifest_def dict_find_mk)
  have pop: "dict_pop ?a ''signature'' = ?a" by code_simp
  obtain b where "canonical_bytes (VDict (demo_manifest rid h)) = Inr b"
    using canonical_bytes_encodable [OF demo_manifest_encodable(2)] by blast
  then have p: "release_payload (demo_manifest rid h) = Inr (signing_frame ''release-manifest-v1'' @ b)" (is "_ = Inr ?p")
    by (simp add: release_payload_def authorization_payload_def dict_get_def a pop dict_put_same)
  let ?d = "dict_put (demo_manifest rid h) ''authorization'' (VDict (dict_put ?a ''signature''
    (signature_block (sg_key_id demo_signer) (sign_bytes demo_env demo_signer ?p))))"
  have "sign_release_manifest demo_env demo_signer (demo_manifest rid h) = Inr ?d"
    using p by (simp add: sign_release_manifest_def sign_authorization_def dict_get_def a dict_has_def dict_find_mk validate_def release_payload_def)
  moreover have "encodable (VDict (dict_put ?a ''signature'' (signature_block (sg_key_id demo_signer) (sign_bytes demo_env demo_signer ?p))))"
    by (rule encodable_put) (simp_all add: mk_dict_def signature_block_def sign_bytes_def demo_release_facts)
  ultimately show thesis using that encodable_put [OF demo_manifest_encodable(2)] by blast
qed

lemma demo_release_verified:
  obtains d h digest where "verify_release_manifest demo_env d demo_key (lit ''rev-1'') [demo_artifact] = Inr digest"
    "\<And>k. k \<noteq> ''authorization'' \<Longrightarrow> dict_find d k = dict_find (demo_manifest rid h) k"
proof -
  note f = demo_release_facts
  have "encodable (VList [VDict demo_artifact])" using demo_manifest_encodable(1) by (simp del: encodable.simps(4))
  then obtain h where h: "source_tree_digest demo_env [VDict demo_artifact] = Inr (lit ''sha256:'' @ hex h)"
    using digest_object_encodable [OF _ f(1)] unfolding source_tree_digest_def by blast
  obtain d where d: "sign_release_manifest demo_env demo_signer (demo_manifest rid h) = Inr d" "encodable (VDict d)"
    by (rule demo_manifest_signed)
  have fields: "dict_find d k = dict_find (demo_manifest rid h) k" if "k \<noteq> ''authorization''" for k
    by (rule rm.sign_document_fields [OF d(1) that])
  have acc: "authority_accepts demo_env release_payload d demo_key = Inr True"
    unfolding demo_key_eq
    by (rule rm.signed_is_accepted [OF demo_env_ok demo_signer_length d(1)]) (simp add: demo_manifest_def dict_find_mk, simp add: dict_find_mk f)
  obtain g where g: "digest_object demo_env (VDict d) (lit ''release-manifest-v1'') = Inr (lit ''sha256:'' @ hex g)"
    using digest_object_encodable [OF d(2) f(2)] by blast
  have sorted: "sort_artifacts [demo_artifact] = Inr [VDict demo_artifact]" "validate_manifest_artifacts [VDict demo_artifact] = Inr ()"
    using f(4) by (simp_all add: sort_artifacts_def validate_manifest_artifacts_def artifact_path_def text_item_def demo_artifact_def item_def dict_find_mk)
  have v: "verify_release_manifest demo_env d demo_key (lit ''rev-1'') [demo_artifact] = Inr (lit ''sha256:'' @ hex g)"
    using acc g sorted h f(6,7)
    by (simp add: verify_release_manifest_def authenticate_release_manifest_def validate_def item_def fields demo_manifest_def dict_find_mk del: py_eq.simps(4))
  from that [OF v fields] show thesis .
qed

theorem release_verified_only_if_exact_witness:
  "\<exists>d digest. verify_release_manifest demo_env d demo_key (lit ''rev-1'') [demo_artifact] = Inr digest \<and>
     dict_find d ''source_revision'' = Some (vlit ''rev-1'')"
proof -
  obtain d digest where v: "verify_release_manifest demo_env d demo_key (lit ''rev-1'') [demo_artifact] = Inr digest"
    by (rule demo_release_verified)
  from release_verified_only_if_exact [OF v] v show ?thesis by blast
qed

end
