(* ===== verification/Lts.thy ===== *)
theory Lts
  imports Release
begin

text \<open>
  \<open>lts.py\<close> and \<open>lts_activation.py\<close>: the support contracts of the long-term support tracks and the
  activation of one track by a signed release. What the installed package offers (its exports,
  schemas and commands) is the record \<open>lts_surface\<close>; the packaged contract file is an argument.
  Writing a receipt to a file is not modelled.
\<close>

section \<open>Contracts\<close>

definition lts_track_ids :: "ustring list" where
  "lts_track_ids = [lit ''guardian-core-lts'', lit ''seed-synapse-lts'', lit ''adapter-observer-sdk-lts'']"

record lts_surface =
  lf_exports :: "ustring list"
  lf_schemas :: "ustring list"
  lf_commands :: "ustring list"

definition load_lts_contracts :: "bytes \<Rightarrow> pydict res" where
  "load_lts_contracts packaged =
     ebind (parse_json_strict (DocBytes packaged)) (\<lambda>v.
     case v of VDict d \<Rightarrow> Inr d | _ \<Rightarrow> raise LtsContractError ''LTS contracts must be an object'')"

text \<open>\<open>sub in s\<close>\<close>

fun contains_text :: "ustring \<Rightarrow> ustring \<Rightarrow> bool" where
  "contains_text sub [] \<longleftrightarrow> sub = []"
| "contains_text sub (c # s) \<longleftrightarrow> starts_with sub (c # s) \<or> contains_text sub s"

definition active_surface :: "env \<Rightarrow> ustring \<Rightarrow> ustring list \<Rightarrow> ustring" where
  "active_surface E component names = casefold E (join [32] (component # names))"

text \<open>One turn of the loop over the tracks: whether the track declares something that is missing.\<close>

definition check_track :: "env \<Rightarrow> lts_surface \<Rightarrow> pyval \<Rightarrow> pyval \<Rightarrow> bool res" where
  "check_track E F contract track =
     ebind (texts_item track ''stable_python_exports'') (\<lambda>exports.
     ebind (texts_item track ''stable_schemas'') (\<lambda>schemas.
     ebind (texts_item track ''stable_commands'') (\<lambda>commands.
     ebind (item track ''track_id'') (\<lambda>_.
     ebind (text_item track ''component'') (\<lambda>component.
     let surface = active_surface E component (exports @ schemas @ commands);
         missing = missing_texts exports (lf_exports F) \<noteq> [] \<or> missing_texts schemas (lf_schemas F) \<noteq> [] \<or> missing_texts commands (lf_commands F) \<noteq> [] in
     ensure (\<not> (contains_text (lit ''fgd'') surface \<or> contains_text (lit ''integrity-home'') surface)) LtsContractError
       ''retired or non-Seed modules entered an active LTS surface''
     (ebind (int_item track ''support_window_months'') (\<lambda>months.
      ebind (ebind (item contract ''policy'') (\<lambda>policy. int_item policy ''minimum_support_months'')) (\<lambda>minimum.
      ensure (\<not> months < minimum) LtsContractError ''an LTS track is shorter than the global support floor''
        (Inr missing)))))))))"

definition verify_lts_contracts :: "env \<Rightarrow> lts_surface \<Rightarrow> pydict \<Rightarrow> pydict res" where
  "verify_lts_contracts E F candidate =
     ebind (catch_as (\<lambda>_. True) LtsContractError ''LTS contract schema verification failed''
              (validate E ''lts-support-contracts'' (VDict candidate))) (\<lambda>_.
     ebind (list_item (VDict candidate) ''tracks'') (\<lambda>tracks.
     ebind (map_res (\<lambda>track. text_item track ''track_id'') tracks) (\<lambda>track_ids.
     ensure (track_ids = lts_track_ids) LtsContractError ''LTS tracks or their canonical order changed''
     (ebind (map_res (check_track E F (VDict candidate)) tracks) (\<lambda>missing.
      ensure (True \<notin> set missing) LtsContractError ''declared LTS surfaces are missing''
      (ebind (digest_object E (VDict candidate) (lit ''integrity-lts-support-contracts-v1'')) (\<lambda>digest.
       ebind (field candidate ''status'') (\<lambda>status.
       ebind (map_res (\<lambda>track. ebind (text_item track ''track_id'') (\<lambda>i. ebind (item track ''support_window_months'') (\<lambda>n. Inr (KStr i, n)))) tracks) (\<lambda>windows.
       Inr (mk_dict [(''ok'', VBool True), (''status'', status), (''contract_digest'', VStr digest),
         (''track_ids'', VList (map VStr track_ids)), (''support_window_months'', VDict windows),
         (''production_authority'', VBool False), (''memory_grants_authority'', VBool False)]))))))))))"

definition lts_track_contract_digest :: "env \<Rightarrow> pydict \<Rightarrow> ustring res" where
  "lts_track_contract_digest E track =
     ensure (dict_get track ''track_id'' \<in> VStr ` set lts_track_ids) LtsContractError ''LTS track digest input is not canonical''
       (digest_object E (VDict track) (lit ''integrity-lts-track-contract-v1''))"

definition lts_contract_report :: "env \<Rightarrow> lts_surface \<Rightarrow> bytes \<Rightarrow> pydict res" where
  "lts_contract_report E F packaged =
     ebind (load_lts_contracts packaged) (\<lambda>contracts.
     ebind (verify_lts_contracts E F contracts) (\<lambda>verification.
     Inr (mk_dict [(''contracts'', VDict contracts), (''verification'', VDict verification)])))"

section \<open>Activation\<close>

fun find_track :: "pyval list \<Rightarrow> pyval \<Rightarrow> pydict res" where
  "find_track [] track_id = raise LtsActivationError ''activation track is not canonical''"
| "find_track (track # tracks) track_id =
     ebind (item track ''track_id'') (\<lambda>i.
     if i = track_id then (case track of VDict d \<Rightarrow> Inr d | _ \<Rightarrow> raise TypeError ''track'') else find_track tracks track_id)"

definition activation_time :: "pyval \<Rightarrow> string \<Rightarrow> datetime res" where
  "activation_time v fld =
     ebind (catch_as (\<lambda>c. c = TypeError \<or> is_ValueError c) LtsActivationError (fld @ '' is not a valid timestamp'') (fromisoformat v)) (\<lambda>parsed.
     ensure (dt_offset parsed = Some 0) LtsActivationError (fld @ '' must be UTC'') (astimezone_utc parsed))"

definition minimum_support_days :: int where
  "minimum_support_days = 730"

definition verify_support_window :: "pydict \<Rightarrow> pydict \<Rightarrow> unit res" where
  "verify_support_window receipt track =
     ebind (ebind (field receipt ''activated_at'') (\<lambda>v. activation_time v ''activated_at'')) (\<lambda>activated_at.
     ebind (ebind (field receipt ''support_until'') (\<lambda>v. activation_time v ''support_until'')) (\<lambda>support_until.
     ebind (field receipt ''support_window_months'') (\<lambda>claimed.
     ebind (field track ''support_window_months'') (\<lambda>months.
     ensure (py_eq claimed months) LtsActivationError ''activation support window changed the track contract''
     (ensure (\<not> instant support_until - instant activated_at < minimum_support_days * day_us) LtsActivationError
        ''activation support window is shorter than 24 months'' (Inr ()))))))"

text \<open>\<open>[0-9]+\.[0-9]+\.[0-9]+\<close>, matched in full.\<close>

definition stable_version :: "ustring \<Rightarrow> bool" where
  "stable_version s \<longleftrightarrow> length (split_all 46 s) = 3 \<and> (\<forall>p \<in> set (split_all 46 s). p \<noteq> [] \<and> list_all is_digit p)"

definition verify_stable_release :: "pydict \<Rightarrow> unit res" where
  "verify_stable_release receipt =
     ebind (text_item (VDict receipt) ''track_id'') (\<lambda>track_id.
     ebind (field receipt ''release'') (\<lambda>release.
     ebind (text_item release ''version'') (\<lambda>version.
     ensure (stable_version version) LtsActivationError ''LTS activation requires a non-prerelease stable version''
     (ebind (item release ''release_id'') (\<lambda>release_id.
      ensure (release_id = VStr (lit ''release:lts:'' @ track_id @ lit '':'' @ version)) LtsActivationError
        ''LTS activation release identity mismatch''
      (ebind (item release ''tag'') (\<lambda>tag.
       ensure (tag = VStr (lit ''lts/'' @ track_id @ lit ''/v'' @ version)) LtsActivationError
         ''LTS activation tag does not match the track and version'' (Inr ()))))))))"

definition verify_artifact_path :: "ustring \<Rightarrow> unit res" where
  "verify_artifact_path s =
     ensure (path_is_canonical s \<and> posix_text s = s) LtsActivationError ''activation receipt artifact path is not canonical'' (Inr ())"

text \<open>The keyword arguments of the builder.\<close>

record activation_request =
  aq_track_id :: ustring
  aq_release_id :: ustring
  aq_release_version :: ustring
  aq_release_tag :: ustring
  aq_product_version :: ustring
  aq_source_revision :: ustring
  aq_artifact_path :: ustring
  aq_activated_at :: ustring
  aq_support_until :: ustring
  aq_reproducible_artifacts_digest :: ustring
  aq_local_suite_digest :: ustring
  aq_hosted_linux_digest :: ustring
  aq_track_gate_digest :: ustring
  aq_release_review_digest :: ustring

definition activation_receipt :: "activation_request \<Rightarrow> pyval \<Rightarrow> ustring \<Rightarrow> pyval \<Rightarrow> pydict" where
  "activation_receipt q contract_version contract_digest months =
     mk_dict [(''protocol'', vlit ''integrity-guardian/lts-track-activation-receipt/v2''), (''track_id'', VStr (aq_track_id q)),
       (''contract_version'', contract_version), (''contract_digest'', VStr contract_digest), (''contract_digest_scope'', vlit ''track''),
       (''artifact_path'', VStr (aq_artifact_path q)),
       (''release'', VDict (mk_dict [(''release_id'', VStr (aq_release_id q)), (''version'', VStr (aq_release_version q)),
          (''tag'', VStr (aq_release_tag q)), (''product_version'', VStr (aq_product_version q)), (''source_revision'', VStr (aq_source_revision q))])),
       (''activated_at'', VStr (aq_activated_at q)), (''support_until'', VStr (aq_support_until q)), (''support_window_months'', months),
       (''evidence'', VDict (mk_dict [(''reproducible_artifacts_digest'', VStr (aq_reproducible_artifacts_digest q)),
          (''local_suite_digest'', VStr (aq_local_suite_digest q)), (''hosted_linux_digest'', VStr (aq_hosted_linux_digest q)),
          (''track_gate_digest'', VStr (aq_track_gate_digest q)), (''release_review_digest'', VStr (aq_release_review_digest q))])),
       (''controls'', VDict (mk_dict [(''production_authority'', VBool False), (''memory_grants_authority'', VBool False),
          (''signed_release_manifest_required'', VBool True), (''other_tracks_activated'', VBool False)]))]"

definition build_lts_track_activation_receipt :: "env \<Rightarrow> lts_surface \<Rightarrow> activation_request \<Rightarrow> pydict \<Rightarrow> pydict res" where
  "build_lts_track_activation_receipt E F q contracts =
     ebind (verify_lts_contracts E F contracts) (\<lambda>_.
     ebind (list_item (VDict contracts) ''tracks'') (\<lambda>tracks.
     ebind (find_track tracks (VStr (aq_track_id q))) (\<lambda>track.
     ebind (field track ''contract_version'') (\<lambda>version.
     ebind (lts_track_contract_digest E track) (\<lambda>digest.
     ebind (field track ''support_window_months'') (\<lambda>months.
     let receipt = activation_receipt q version digest months in
     ebind (catch_as (\<lambda>_. True) LtsActivationError ''LTS activation receipt schema rejected''
              (validate E ''lts-track-activation-receipt'' (VDict receipt))) (\<lambda>_.
     ebind (verify_artifact_path (aq_artifact_path q)) (\<lambda>_.
     ebind (verify_stable_release receipt) (\<lambda>_.
     ebind (verify_support_window receipt track) (\<lambda>_. Inr receipt))))))))))"

text \<open>The digest of the contract that a receipt has to name: of all contracts for version 1, of its
  track for version 2.\<close>

definition expected_contract_digest :: "env \<Rightarrow> pydict \<Rightarrow> pydict \<Rightarrow> pydict \<Rightarrow> pyval res" where
  "expected_contract_digest E document verification track =
     ebind (field document ''protocol'') (\<lambda>protocol.
     if protocol = vlit ''integrity-guardian/lts-track-activation-receipt/v1'' then field verification ''contract_digest''
     else
       ensure (dict_get document ''contract_digest_scope'' = vlit ''track'') LtsActivationError ''activation contract digest scope mismatch''
         (ebind (lts_track_contract_digest E track) (\<lambda>d. Inr (VStr d))))"

definition ends_with :: "ustring \<Rightarrow> ustring \<Rightarrow> bool" where
  "ends_with suf s \<longleftrightarrow> starts_with (rev suf) (rev s)"

text \<open>The comparisons of the receipt with the expectations and with the manifest.\<close>

definition release_agrees :: "pyval \<Rightarrow> pydict \<Rightarrow> pydict \<Rightarrow> ustring \<Rightarrow> ustring \<Rightarrow> unit res" where
  "release_agrees release document release_manifest expected_source_revision expected_product_version =
     ebind (item release ''source_revision'') (\<lambda>revision.
     ensure (revision = VStr expected_source_revision) LtsActivationError ''activation source revision mismatch''
     (ebind (item release ''product_version'') (\<lambda>product_version.
      ensure (product_version = VStr expected_product_version) LtsActivationError ''activation product version mismatch''
      (ebind (item release ''release_id'') (\<lambda>release_id.
       ensure (py_eq (dict_get release_manifest ''release_id'') release_id) LtsActivationError ''activation release identity mismatch''
       (ebind (item release ''version'') (\<lambda>version.
        ensure (py_eq (dict_get release_manifest ''version'') version) LtsActivationError ''activation release version mismatch''
        (ebind (field document ''activated_at'') (\<lambda>activated_at.
         ensure (py_eq (dict_get release_manifest ''created_at'') activated_at) LtsActivationError
           ''activation timestamp does not match the signed release'' (Inr ()))))))))))"

definition activation_result :: "pydict \<Rightarrow> pyval \<Rightarrow> ustring \<Rightarrow> ustring \<Rightarrow> ustring \<Rightarrow> pydict res" where
  "activation_result document release track_id receipt_digest manifest_digest =
     ebind (copy_fields document [''contract_version'', ''contract_digest'', ''activated_at'', ''support_until'']) (\<lambda>ds.
     ebind (map_res (\<lambda>k. item release k) [''release_id'', ''version'', ''tag'', ''product_version'', ''source_revision'']) (\<lambda>rs.
     let statuses = map (\<lambda>t. (KStr t, vlit (if t = track_id then ''active'' else ''lts-candidate''))) lts_track_ids in
     Inr (mk_dict ([(''ok'', VBool True), (''track_id'', VStr track_id), (''status'', vlit ''active''), (''track_statuses'', VDict statuses)] @
       take 2 ds @ [(''activation_receipt_digest'', VStr receipt_digest), (''release_manifest_digest'', VStr manifest_digest)] @
       zip [''release_id'', ''release_version'', ''release_tag'', ''product_version'', ''source_revision''] rs @ drop 2 ds @
       [(''production_authority'', VBool False), (''memory_grants_authority'', VBool False)]))))"

definition verify_lts_track_activation ::
    "env \<Rightarrow> lts_surface \<Rightarrow> pydict \<Rightarrow> pydict \<Rightarrow> trusted_key \<Rightarrow> ustring \<Rightarrow> ustring \<Rightarrow> pydict list \<Rightarrow> ustring \<Rightarrow> pydict \<Rightarrow> pydict res" where
  "verify_lts_track_activation E F document release_manifest authority_key expected_source_revision expected_product_version
       expected_artifacts receipt_artifact_path contracts =
     ebind (catch_as (\<lambda>_. True) LtsActivationError ''LTS activation receipt schema rejected''
              (validate E ''lts-track-activation-receipt'' (VDict document))) (\<lambda>_.
     ebind (text_item (VDict document) ''artifact_path'') (\<lambda>path.
     ebind (verify_artifact_path path) (\<lambda>_.
     ebind (verify_stable_release document) (\<lambda>_.
     ebind (verify_lts_contracts E F contracts) (\<lambda>verification.
     ebind (list_item (VDict contracts) ''tracks'') (\<lambda>tracks.
     ebind (text_item (VDict document) ''track_id'') (\<lambda>track_id.
     ebind (find_track tracks (VStr track_id)) (\<lambda>track.
     ebind (field document ''contract_version'') (\<lambda>claimed_version.
     ebind (field track ''contract_version'') (\<lambda>contract_version.
     ensure (py_eq claimed_version contract_version) LtsActivationError ''activation contract version mismatch''
     (ebind (expected_contract_digest E document verification track) (\<lambda>expected_digest.
      ebind (field document ''contract_digest'') (\<lambda>claimed_digest.
      ensure (py_eq claimed_digest expected_digest) LtsActivationError ''activation contract digest mismatch''
      (ebind (verify_support_window document track) (\<lambda>_.
       ebind (field document ''release'') (\<lambda>release.
       ebind (release_agrees release document release_manifest expected_source_revision expected_product_version) (\<lambda>_.
       ebind (verify_release_manifest E release_manifest authority_key expected_source_revision expected_artifacts) (\<lambda>manifest_digest.
       ensure (receipt_artifact_path = path) LtsActivationError ''activation receipt path mismatch''
       (ebind (ebind (list_item (VDict release_manifest) ''artifacts'') (\<lambda>xs. map_res (\<lambda>x. text_item x ''path'') xs)) (\<lambda>manifest_paths.
        ensure (path \<in> set manifest_paths) LtsActivationError ''activation receipt is not covered by the release manifest''
        (ebind (text_item (VDict document) ''protocol'') (\<lambda>protocol.
         ebind (digest_object E (VDict document) (if ends_with (lit ''/v2'') protocol
                  then lit ''integrity-lts-track-activation-receipt-v2'' else lit ''integrity-lts-track-activation-receipt-v1'')) (\<lambda>receipt_digest.
         activation_result document release track_id receipt_digest manifest_digest)))))))))))))))))))))))"

section \<open>Facts\<close>

lemma verified_track_ids:
  assumes "verify_lts_contracts E F contracts = Inr v" "list_item (VDict contracts) ''tracks'' = Inr tracks" "find_track tracks (VStr i) = Inr track"
  shows "i \<in> set lts_track_ids"
proof -
  have ids: "map_res (\<lambda>t. text_item t ''track_id'') tracks = Inr lts_track_ids"
    using assms(1,2) by (auto simp: verify_lts_contracts_def res_simps)
  have "\<exists>t \<in> set ts. text_item t ''track_id'' = Inr i" if "find_track ts (VStr i) = Inr track" for ts
    using that by (induction ts) (auto simp: res_simps text_item_def split: if_splits)
  then obtain t where t: "t \<in> set tracks" "text_item t ''track_id'' = Inr i" using assms(3) by blast
  then obtain k where k: "k < length tracks" "tracks ! k = t" by (auto simp: in_set_conv_nth)
  have "list_all2 (\<lambda>t y. text_item t ''track_id'' = Inr y) tracks lts_track_ids" using ids by (simp only: map_res_Inr_iff)
  then have "lts_track_ids ! k = i" "k < length lts_track_ids"
    using k t(2) by (auto simp: list_all2_conv_all_nth)
  then show ?thesis by (metis nth_mem)
qed

lemma support_window_length:
  assumes "verify_support_window receipt track = Inr ()"
  obtains a u start until where "dict_find receipt ''activated_at'' = Some a" "dict_find receipt ''support_until'' = Some u"
    "activation_time a ''activated_at'' = Inr start" "activation_time u ''support_until'' = Inr until"
    "minimum_support_days * day_us \<le> instant until - instant start"
  using assms by (auto simp: verify_support_window_def res_simps item_Inr)

lemma activation_accepted:
  assumes "verify_lts_track_activation E F document manifest key revision product artifacts receipt_path contracts = Inr r"
  obtains track_id track version release digest receipt_digest paths where
    "text_item (VDict document) ''artifact_path'' = Inr receipt_path" "verify_artifact_path receipt_path = Inr ()"
    "verify_stable_release document = Inr ()" "text_item (VDict document) ''track_id'' = Inr track_id" "track_id \<in> set lts_track_ids"
    "verify_support_window document track = Inr ()" "field document ''release'' = Inr release"
    "release_agrees release document manifest revision product = Inr ()"
    "verify_release_manifest E manifest key revision artifacts = Inr digest"
    "ebind (list_item (VDict manifest) ''artifacts'') (\<lambda>xs. map_res (\<lambda>x. text_item x ''path'') xs) = Inr paths" "receipt_path \<in> set paths"
    "activation_result document release track_id receipt_digest digest = Inr r"
proof -
  have "\<exists>path tracks track_id track v release digest receipt_digest paths. text_item (VDict document) ''artifact_path'' = Inr path \<and>
    verify_artifact_path path = Inr () \<and> verify_stable_release document = Inr () \<and> verify_lts_contracts E F contracts = Inr v \<and>
    list_item (VDict contracts) ''tracks'' = Inr tracks \<and> text_item (VDict document) ''track_id'' = Inr track_id \<and>
    find_track tracks (VStr track_id) = Inr track \<and> verify_support_window document track = Inr () \<and> field document ''release'' = Inr release \<and>
    release_agrees release document manifest revision product = Inr () \<and>
    verify_release_manifest E manifest key revision artifacts = Inr digest \<and> receipt_path = path \<and>
    ebind (list_item (VDict manifest) ''artifacts'') (\<lambda>xs. map_res (\<lambda>x. text_item x ''path'') xs) = Inr paths \<and> path \<in> set paths \<and>
    activation_result document release track_id receipt_digest digest = Inr r"
    using assms unfolding verify_lts_track_activation_def ebind_eq_Inr ensure_eq_Inr by (clarsimp, blast)
  then show thesis using that verified_track_ids by blast
qed

lemma activation_result_fields:
  assumes "activation_result document release track_id receipt_digest manifest_digest = Inr r"
  shows "dict_find r ''track_statuses'' = Some (VDict (map (\<lambda>t. (KStr t, vlit (if t = track_id then ''active'' else ''lts-candidate''))) lts_track_ids))"
    "dict_find r ''production_authority'' = Some (VBool False)" "dict_find r ''release_manifest_digest'' = Some (VStr manifest_digest)"
  using assms by (auto simp: activation_result_def copy_fields_def res_simps Let_def dict_find_mk)

lemma stable_release_version:
  assumes "verify_stable_release receipt = Inr ()" "field receipt ''release'' = Inr release" "text_item (VDict receipt) ''track_id'' = Inr track_id"
  obtains version where "text_item release ''version'' = Inr version" "stable_version version"
    "item release ''release_id'' = Inr (VStr (lit ''release:lts:'' @ track_id @ lit '':'' @ version))"
    "item release ''tag'' = Inr (VStr (lit ''lts/'' @ track_id @ lit ''/v'' @ version))"
  using assms by (auto simp: verify_stable_release_def res_simps)

lemma agreed_release:
  assumes "release_agrees release document manifest revision product = Inr ()" "dict_find document ''activated_at'' = Some a"
    and "item release ''release_id'' = Inr (VStr i)" "item release ''version'' = Inr (VStr version)"
  shows "item release ''source_revision'' = Inr (VStr revision)" "item release ''product_version'' = Inr (VStr product)"
    "dict_find manifest ''release_id'' = Some (VStr i)" "dict_find manifest ''version'' = Some (VStr version)"
    "py_eq (dict_get manifest ''created_at'') a"
  using assms by (auto simp: release_agrees_def res_simps dict_get_def split: option.splits)

text \<open>
  C34. A track becomes active only under a signed release of its own: the release manifest passes its own
  verification for the expected revision and artifacts and lists the path that the receipt names;
  the receipt's release has a stable version, the identity and tag of the track and that version, and the
  expected revision and product version; the signed manifest is of that same release and version and was created
  at the time of the activation; support lasts at least 730 days; the track is one of the three
  tracks, it alone is reported as active, and no production authority follows.
\<close>

theorem lts_activation_only_under_signed_release:
  assumes "verify_lts_track_activation E F document manifest key revision product artifacts receipt_path contracts = Inr r"
  shows "\<exists>track_id release version digest xs paths a u start until.
    text_item (VDict document) ''track_id'' = Inr track_id \<and> track_id \<in> set lts_track_ids \<and>
    dict_find document ''release'' = Some release \<and> text_item release ''version'' = Inr version \<and> stable_version version \<and>
    item release ''release_id'' = Inr (VStr (lit ''release:lts:'' @ track_id @ lit '':'' @ version)) \<and>
    item release ''tag'' = Inr (VStr (lit ''lts/'' @ track_id @ lit ''/v'' @ version)) \<and>
    item release ''source_revision'' = Inr (VStr revision) \<and> item release ''product_version'' = Inr (VStr product) \<and>
    verify_release_manifest E manifest key revision artifacts = Inr digest \<and>
    dict_find manifest ''release_id'' = Some (VStr (lit ''release:lts:'' @ track_id @ lit '':'' @ version)) \<and>
    dict_find manifest ''version'' = Some (VStr version) \<and>
    dict_find document ''artifact_path'' = Some (VStr receipt_path) \<and>
    list_item (VDict manifest) ''artifacts'' = Inr xs \<and> map_res (\<lambda>x. text_item x ''path'') xs = Inr paths \<and> receipt_path \<in> set paths \<and>
    dict_find document ''activated_at'' = Some a \<and> py_eq (dict_get manifest ''created_at'') a \<and> activation_time a ''activated_at'' = Inr start \<and>
    dict_find document ''support_until'' = Some u \<and> activation_time u ''support_until'' = Inr until \<and>
    730 * day_us \<le> instant until - instant start \<and>
    dict_find r ''track_statuses'' = Some (VDict (map (\<lambda>t. (KStr t, vlit (if t = track_id then ''active'' else ''lts-candidate''))) lts_track_ids)) \<and>
    dict_find r ''production_authority'' = Some (VBool False) \<and> dict_find r ''release_manifest_digest'' = Some (VStr digest)"
proof -
  obtain track_id track release digest receipt_digest paths where a: "text_item (VDict document) ''artifact_path'' = Inr receipt_path"
    "verify_stable_release document = Inr ()" "text_item (VDict document) ''track_id'' = Inr track_id" "track_id \<in> set lts_track_ids"
    "verify_support_window document track = Inr ()" "field document ''release'' = Inr release" "release_agrees release document manifest revision product = Inr ()"
    "verify_release_manifest E manifest key revision artifacts = Inr digest"
    "ebind (list_item (VDict manifest) ''artifacts'') (\<lambda>xs. map_res (\<lambda>x. text_item x ''path'') xs) = Inr paths" "receipt_path \<in> set paths"
    "activation_result document release track_id receipt_digest digest = Inr r" by (rule activation_accepted [OF assms])
  obtain version where v: "text_item release ''version'' = Inr version" "stable_version version"
    "item release ''release_id'' = Inr (VStr (lit ''release:lts:'' @ track_id @ lit '':'' @ version))"
    "item release ''tag'' = Inr (VStr (lit ''lts/'' @ track_id @ lit ''/v'' @ version))" by (rule stable_release_version [OF a(2,6,3)])
  obtain x u start until where w: "dict_find document ''activated_at'' = Some x" "dict_find document ''support_until'' = Some u"
    "activation_time x ''activated_at'' = Inr start" "activation_time u ''support_until'' = Inr until"
    "minimum_support_days * day_us \<le> instant until - instant start" by (rule support_window_length [OF a(5)])
  have version: "item release ''version'' = Inr (VStr version)" using v(1) by (simp add: text_item_Inr)
  obtain xs where xs: "list_item (VDict manifest) ''artifacts'' = Inr xs" "map_res (\<lambda>x. text_item x ''path'') xs = Inr paths"
    using a(9) by (auto simp: res_simps)
  have "730 * day_us \<le> instant until - instant start" using w(5) by (simp add: minimum_support_days_def)
  moreover have "dict_find document ''release'' = Some release" "dict_find document ''artifact_path'' = Some (VStr receipt_path)"
    using a(1,6) by (simp_all add: text_item_Inr field_Inr)
  ultimately show ?thesis
    using a(3,4,8,10) v w(1-4) xs activation_result_fields [OF a(11)] agreed_release [OF a(7) w(1) v(3) version] by blast
qed

section \<open>A sample activation\<close>

definition demo_track :: "string \<Rightarrow> pydict" where
  "demo_track i = mk_dict [(''track_id'', vlit i), (''contract_version'', vlit ''1''), (''component'', vlit ''core''),
     (''stable_python_exports'', VList [vlit ''sign'']), (''stable_schemas'', VList []), (''stable_commands'', VList []), (''support_window_months'', VInt 24)]"

definition demo_contracts :: pydict where
  "demo_contracts = mk_dict [(''status'', vlit ''lts-candidate''), (''policy'', VDict (mk_dict [(''minimum_support_months'', VInt 24)])),
     (''tracks'', VList [VDict (demo_track ''guardian-core-lts''), VDict (demo_track ''seed-synapse-lts''), VDict (demo_track ''adapter-observer-sdk-lts'')])]"

definition demo_surface :: lts_surface where
  "demo_surface = \<lparr>lf_exports = [lit ''sign''], lf_schemas = [], lf_commands = []\<rparr>"

definition demo_request :: activation_request where
  "demo_request = \<lparr>aq_track_id = lit ''guardian-core-lts'', aq_release_id = lit ''release:lts:guardian-core-lts:1.0.0'',
     aq_release_version = lit ''1.0.0'', aq_release_tag = lit ''lts/guardian-core-lts/v1.0.0'', aq_product_version = lit ''3.0.2'',
     aq_source_revision = lit ''rev-1'', aq_artifact_path = lit ''dist/guardian.whl'', aq_activated_at = lit ''2026-01-01T00:00:00Z'',
     aq_support_until = lit ''2028-01-01T00:00:00Z'', aq_reproducible_artifacts_digest = [], aq_local_suite_digest = [],
     aq_hosted_linux_digest = [], aq_track_gate_digest = [], aq_release_review_digest = []\<rparr>"

lemma demo_contract_facts:
  "map_res (check_track demo_env demo_surface (VDict demo_contracts))
     [VDict (demo_track ''guardian-core-lts''), VDict (demo_track ''seed-synapse-lts''), VDict (demo_track ''adapter-observer-sdk-lts'')] =
     Inr [False, False, False]"
  "encodable (VDict demo_contracts)" "encodable (VDict (demo_track ''guardian-core-lts''))" "encodable (VInt 24)"
  "plain_domain ''integrity-lts-support-contracts-v1''" "plain_domain ''integrity-lts-track-contract-v1''"
  "plain_domain ''integrity-lts-track-activation-receipt-v2''"
  "stable_version (lit ''1.0.0'')" "verify_artifact_path (lit ''dist/guardian.whl'') = Inr ()"
  "activation_time (vlit ''2026-01-01T00:00:00Z'') ''activated_at'' = Inr \<lparr>dt_local = 63902908800000000, dt_offset = Some 0\<rparr>"
  "activation_time (vlit ''2028-01-01T00:00:00Z'') ''support_until'' = Inr \<lparr>dt_local = 63965980800000000, dt_offset = Some 0\<rparr>"
  "lit ''release:lts:guardian-core-lts:1.0.0'' = lit ''release:lts:'' @ lit ''guardian-core-lts'' @ lit '':'' @ lit ''1.0.0''"
  "lit ''lts/guardian-core-lts/v1.0.0'' = lit ''lts/'' @ lit ''guardian-core-lts'' @ lit ''/v'' @ lit ''1.0.0''"
  "ends_with (lit ''/v2'') (lit ''integrity-guardian/lts-track-activation-receipt/v2'')" "730 * day_us \<le> (63072000000000 :: int)"
  by code_simp+

lemma demo_contracts_verified: "\<exists>v. verify_lts_contracts demo_env demo_surface demo_contracts = Inr v"
proof -
  note f = demo_contract_facts
  obtain h where h: "digest_object demo_env (VDict demo_contracts) (lit ''integrity-lts-support-contracts-v1'') = Inr (lit ''sha256:'' @ hex h)"
    using digest_object_encodable [OF f(2) f(5)] by blast
  have track: "text_item (VDict (demo_track i)) ''track_id'' = Inr (lit i)" "item (VDict (demo_track i)) ''support_window_months'' = Inr (VInt 24)" for i
    by (simp_all add: text_item_def demo_track_def item_def dict_find_mk)
  have members: "list_item (VDict demo_contracts) ''tracks'' =
      Inr [VDict (demo_track ''guardian-core-lts''), VDict (demo_track ''seed-synapse-lts''), VDict (demo_track ''adapter-observer-sdk-lts'')]"
    "field demo_contracts ''status'' = Inr (vlit ''lts-candidate'')"
    by (simp_all add: list_item_def demo_contracts_def item_def dict_find_mk)
  show ?thesis using h f(1) track members
    by (simp add: verify_lts_contracts_def validate_def lts_track_ids_def del: map_res.simps)
      (simp add: track lts_track_ids_def)
qed

theorem lts_activation_only_under_signed_release_witness:
  "\<exists>document manifest r. verify_lts_track_activation demo_env demo_surface document manifest demo_key (lit ''rev-1'') (lit ''3.0.2'')
       [demo_artifact] (lit ''dist/guardian.whl'') demo_contracts = Inr r \<and> dict_find manifest ''version'' = Some (vlit ''1.0.0'') \<and>
     dict_find r ''production_authority'' = Some (VBool False)"
proof -
  note f = demo_contract_facts
  obtain m h digest where m: "verify_release_manifest demo_env m demo_key (lit ''rev-1'') [demo_artifact] = Inr digest"
    and mf: "\<And>k. k \<noteq> ''authorization'' \<Longrightarrow> dict_find m k = dict_find (demo_manifest ''release:lts:guardian-core-lts:1.0.0'' h) k" by (rule demo_release_verified) blast
  obtain v where v: "verify_lts_contracts demo_env demo_surface demo_contracts = Inr v" using demo_contracts_verified by blast
  obtain t where t: "lts_track_contract_digest demo_env (demo_track ''guardian-core-lts'') = Inr (lit ''sha256:'' @ hex t)"
    using digest_object_encodable [OF f(3,6)]
    by (auto simp: lts_track_contract_digest_def demo_track_def dict_get_def dict_find_mk lts_track_ids_def)
  let ?d = "activation_receipt demo_request (vlit ''1'') (lit ''sha256:'' @ hex t) (VInt 24)"
  let ?release = "VDict (mk_dict [(''release_id'', vlit ''release:lts:guardian-core-lts:1.0.0''), (''version'', vlit ''1.0.0''),
    (''tag'', vlit ''lts/guardian-core-lts/v1.0.0''), (''product_version'', vlit ''3.0.2''), (''source_revision'', vlit ''rev-1'')])"
  note rec = activation_receipt_def demo_request_def item_def dict_find_mk text_item_def
  have d: "encodable (VDict ?d)" using f(4) by (simp add: activation_receipt_def mk_dict_def demo_request_def encodable_text_def [of "[]"] del: encodable.simps(1))
  obtain g where g: "digest_object demo_env (VDict ?d) (lit ''integrity-lts-track-activation-receipt-v2'') = Inr (lit ''sha256:'' @ hex g)"
    using digest_object_encodable [OF d f(7)] by blast
  have tracks: "list_item (VDict demo_contracts) ''tracks'' =
      Inr [VDict (demo_track ''guardian-core-lts''), VDict (demo_track ''seed-synapse-lts''), VDict (demo_track ''adapter-observer-sdk-lts'')]"
    by (simp add: list_item_def demo_contracts_def item_def dict_find_mk)
  have track: "find_track [VDict (demo_track ''guardian-core-lts''), x, y] (vlit ''guardian-core-lts'') = Inr (demo_track ''guardian-core-lts'')"
    "field (demo_track ''guardian-core-lts'') ''contract_version'' = Inr (vlit ''1'')"
    "field (demo_track ''guardian-core-lts'') ''support_window_months'' = Inr (VInt 24)" for x y
    by (simp_all add: demo_track_def item_def dict_find_mk)
  have fields: "field ?d ''release'' = Inr ?release" "text_item (VDict ?d) ''artifact_path'' = Inr (lit ''dist/guardian.whl'')"
    "text_item (VDict ?d) ''track_id'' = Inr (lit ''guardian-core-lts'')" "field ?d ''contract_version'' = Inr (vlit ''1'')"
    "field ?d ''contract_digest'' = Inr (VStr (lit ''sha256:'' @ hex t))"
    "text_item (VDict ?d) ''protocol'' = Inr (lit ''integrity-guardian/lts-track-activation-receipt/v2'')"
    by (simp_all add: rec)
  have stable: "verify_stable_release ?d = Inr ()"
    using f(8) f(12,13) [symmetric] fields by (simp add: verify_stable_release_def text_item_def [of ?release] item_def [of ?release] dict_find_mk)
  have window: "verify_support_window ?d (demo_track ''guardian-core-lts'') = Inr ()"
    using f(10,11,15) track(3) by (simp add: verify_support_window_def rec instant_def minimum_support_days_def)
  have agree: "release_agrees ?release ?d m (lit ''rev-1'') (lit ''3.0.2'') = Inr ()"
    by (simp add: release_agrees_def rec dict_get_def mf demo_manifest_def)
  have expected: "expected_contract_digest demo_env ?d v (demo_track ''guardian-core-lts'') = Inr (VStr (lit ''sha256:'' @ hex t))"
    using t by (simp add: expected_contract_digest_def rec dict_get_def)
  have paths: "ebind (list_item (VDict m) ''artifacts'') (\<lambda>xs. map_res (\<lambda>x. text_item x ''path'') xs) = Inr [lit ''dist/guardian.whl'']"
    by (simp add: list_item_def text_item_def item_def mf demo_manifest_def dict_find_mk demo_artifact_def)
  obtain r where "activation_result ?d ?release (lit ''guardian-core-lts'') (lit ''sha256:'' @ hex g) digest = Inr r"
    by (simp add: activation_result_def copy_fields_def rec)
  then have r: "verify_lts_track_activation demo_env demo_surface ?d m demo_key (lit ''rev-1'') (lit ''3.0.2'') [demo_artifact]
      (lit ''dist/guardian.whl'') demo_contracts = Inr r"
    using m v g tracks track(1,2) fields f(9,14) stable window agree expected paths
    by (simp add: verify_lts_track_activation_def validate_def del: find_track.simps)
  moreover have "dict_find m ''version'' = Some (vlit ''1.0.0'')" by (simp add: mf demo_manifest_def dict_find_mk)
  ultimately show ?thesis using lts_activation_only_under_signed_release [OF r] by blast
qed

end
