(* ===== verification/ReleaseIndex.thy ===== *)
theory ReleaseIndex
  imports Lts
begin

text \<open>
  \<open>release_index.py\<close>: the matrix of component versions, and the index of one umbrella release that a
  signed release manifest covers. The packaged matrix is an argument; writing an index to a file and
  the report for the public source are not modelled.
\<close>

section \<open>Versions\<close>

text \<open>\<open>0|[1-9][0-9]*\<close>, \<open>(?:a|b|rc)[0-9]+\<close> and \<open>-[A-Za-z0-9]+(?:\.[A-Za-z0-9]+)*\<close>, matched in full.\<close>

definition version_number :: "ustring \<Rightarrow> bool" where
  "version_number s \<longleftrightarrow> s \<noteq> [] \<and> list_all is_digit s \<and> (s = [48] \<or> hd s \<noteq> 48)"

definition short_prerelease :: "ustring \<Rightarrow> bool" where
  "short_prerelease s \<longleftrightarrow>
     (\<exists>p \<in> {lit ''a'', lit ''b'', lit ''rc''}. starts_with p s \<and> drop (length p) s \<noteq> [] \<and> list_all is_digit (drop (length p) s))"

definition ascii_alnum :: "int \<Rightarrow> bool" where
  "ascii_alnum c \<longleftrightarrow> is_digit c \<or> 65 \<le> c \<and> c \<le> 90 \<or> 97 \<le> c \<and> c \<le> 122"

definition long_prerelease :: "ustring \<Rightarrow> bool" where
  "long_prerelease s \<longleftrightarrow>
     starts_with [45] s \<and> (\<forall>p \<in> set (split_all 46 (drop 1 s)). p \<noteq> [] \<and> list_all ascii_alnum p)"

text \<open>The suffix after the three numbers of a version, when the pattern matches. A suffix starts with
  no digit, so the third number takes all the digits.\<close>

definition match_version :: "ustring \<Rightarrow> ustring option" where
  "match_version s =
     (case split_once 46 s of
        None \<Rightarrow> None
      | Some (major, rest) \<Rightarrow>
          (case split_once 46 rest of
             None \<Rightarrow> None
           | Some (minor, rest2) \<Rightarrow>
               (let patch = takeWhile is_digit rest2; ending = dropWhile is_digit rest2 in
                if version_number major \<and> version_number minor \<and> version_number patch \<and>
                   (ending = [] \<or> short_prerelease ending \<or> long_prerelease ending)
                then Some ending else None)))"

definition is_stable_version :: "ustring \<Rightarrow> bool res" where
  "is_stable_version s =
     (case match_version s of
        None \<Rightarrow> raise LtsReleaseIndexError ''invalid version''
      | Some ending \<Rightarrow> Inr (ending = []))"

definition verify_lifecycle :: "ustring \<Rightarrow> pyval \<Rightarrow> unit res" where
  "verify_lifecycle version lifecycle =
     ebind (is_stable_version version) (\<lambda>stable.
     ensure (lifecycle = vlit (if stable then ''stable'' else ''prerelease'')) LtsReleaseIndexError
       ''lifecycle does not match its version'' (Inr ()))"

definition verify_utc_timestamp :: "pyval \<Rightarrow> unit res" where
  "verify_utc_timestamp v =
     ebind (catch_as (\<lambda>c. c = TypeError \<or> is_ValueError c) LtsReleaseIndexError ''release index timestamp is invalid'' (fromisoformat v)) (\<lambda>parsed.
     ensure (dt_offset parsed \<noteq> None) LtsReleaseIndexError ''release index timestamp must be timezone-aware''
     (ensure (dt_offset parsed = Some 0) LtsReleaseIndexError ''release index timestamp must be UTC'' (Inr ())))"

definition verify_index_path :: "ustring \<Rightarrow> unit res" where
  "verify_index_path s =
     ensure (path_is_canonical s \<and> posix_text s = s) LtsReleaseIndexError ''release index artifact path is not canonical'' (Inr ())"

section \<open>The version matrix\<close>

definition load_lts_version_matrix :: "bytes \<Rightarrow> pydict res" where
  "load_lts_version_matrix packaged =
     ebind (parse_json_strict (DocBytes packaged)) (\<lambda>v.
     case v of VDict d \<Rightarrow> Inr d | _ \<Rightarrow> raise LtsReleaseIndexError ''LTS version matrix must be an object'')"

definition canonical_component_name :: "ustring \<Rightarrow> pyval res" where
  "canonical_component_name track_id =
     (case map_of [(lit ''guardian-core-lts'', vlit ''Guardian Core''), (lit ''seed-synapse-lts'', vlit ''Seed & Synapse''),
        (lit ''adapter-observer-sdk-lts'', vlit ''Adapter & Observer SDK'')] track_id of
        None \<Rightarrow> raise KeyError ''track_id'' | Some n \<Rightarrow> Inr n)"

text \<open>\<open>component.get("release")\<close>\<close>

definition component_release :: "pyval \<Rightarrow> pyval res" where
  "component_release component =
     (case component of VDict d \<Rightarrow> Inr (dict_get d ''release'') | _ \<Rightarrow> raise AttributeError ''get'')"

definition check_component :: "pyval \<Rightarrow> unit res" where
  "check_component component =
     ebind (text_item component ''track_id'') (\<lambda>track_id.
     ebind (item component ''name'') (\<lambda>name.
     ebind (canonical_component_name track_id) (\<lambda>canonical_name.
     ensure (py_eq name canonical_name) LtsReleaseIndexError ''LTS component canonical name changed''
     (ebind (text_item component ''version'') (\<lambda>version.
      ebind (item component ''lifecycle'') (\<lambda>lifecycle.
      ebind (verify_lifecycle version lifecycle) (\<lambda>_.
      ebind (component_release component) (\<lambda>release.
      ebind (item component ''status'') (\<lambda>status.
      ebind (if status = vlit ''active''
             then ensure (lifecycle = vlit ''stable'' \<and> (case release of VDict d \<Rightarrow> True | _ \<Rightarrow> False)) LtsReleaseIndexError
                    ''active LTS component lacks a stable release'' (Inr ())
             else ensure (release = VNone) LtsReleaseIndexError ''candidate LTS component cannot claim a release'' (Inr ())) (\<lambda>_.
      case release of
        VDict d \<Rightarrow>
          ebind (field d ''tag'') (\<lambda>tag.
          ensure (tag = VStr (lit ''lts/'' @ track_id @ lit ''/v'' @ version)) LtsReleaseIndexError
            ''component release tag is inconsistent'' (Inr ()))
      | _ \<Rightarrow> Inr ()))))))))))"

definition check_integration :: "pyval \<Rightarrow> unit res" where
  "check_integration integration =
     ebind (text_item integration ''version'') (\<lambda>version.
     ebind (item integration ''lifecycle'') (\<lambda>lifecycle.
     ebind (verify_lifecycle version lifecycle) (\<lambda>_.
     ebind (item integration ''status'') (\<lambda>status.
     ensure (\<not> (status = vlit ''included'' \<and> lifecycle \<noteq> vlit ''stable'')) LtsReleaseIndexError
       ''included integration must be stable'' (Inr ())))))"

text \<open>The rules for the umbrella, given whether its version is stable and what the other parts are.\<close>

definition check_umbrella :: "pyval \<Rightarrow> bool \<Rightarrow> bool \<Rightarrow> bool \<Rightarrow> unit res" where
  "check_umbrella status umbrella_stable prerelease_present inactive_component =
     (if status = vlit ''active''
      then ensure (\<not> (\<not> umbrella_stable \<or> prerelease_present \<or> inactive_component)) LtsReleaseIndexError
             ''prerelease or candidate state blocks umbrella activation'' (Inr ())
      else ensure (\<not> umbrella_stable) LtsReleaseIndexError ''candidate umbrella version must be visibly prerelease'' (Inr ()))"

definition verify_lts_version_matrix :: "env \<Rightarrow> pydict \<Rightarrow> ustring option \<Rightarrow> pydict res" where
  "verify_lts_version_matrix E candidate expected_product_version =
     ebind (catch_as (\<lambda>_. True) LtsReleaseIndexError ''LTS version matrix schema rejected''
              (validate E ''lts-version-matrix'' (VDict candidate))) (\<lambda>_.
     ebind (field candidate ''umbrella'') (\<lambda>umbrella.
     ebind (field candidate ''product'') (\<lambda>product.
     ebind (text_item product ''version'') (\<lambda>product_version.
     ensure (case expected_product_version of None \<Rightarrow> True | Some v \<Rightarrow> product_version = v) LtsReleaseIndexError
       ''LTS matrix product version mismatch''
     (ebind (item product ''lifecycle'') (\<lambda>product_lifecycle.
      ebind (verify_lifecycle product_version product_lifecycle) (\<lambda>_.
      ebind (text_item umbrella ''version'') (\<lambda>version.
      ebind (is_stable_version version) (\<lambda>umbrella_stable.
      ebind (item umbrella ''release_id'') (\<lambda>release_id.
      ebind (item umbrella ''tag'') (\<lambda>tag.
      ensure (release_id = VStr (lit ''release:lts:integrity:'' @ version) \<and> tag = VStr (lit ''lts/integrity/v'' @ version))
        LtsReleaseIndexError ''umbrella release identity is inconsistent''
      (ebind (list_item (VDict candidate) ''components'') (\<lambda>components.
       ebind (map_res (\<lambda>c. text_item c ''track_id'') components) (\<lambda>track_ids.
       ensure (track_ids = lts_track_ids) LtsReleaseIndexError ''LTS component order or membership changed''
       (ebind (map_res check_component components) (\<lambda>_.
        ebind (list_item (VDict candidate) ''integrations'') (\<lambda>integrations.
        ebind (map_res (\<lambda>i. text_item i ''integration_id'') integrations) (\<lambda>integration_ids.
        ensure (distinct integration_ids) LtsReleaseIndexError ''duplicate integration identity in LTS matrix''
        (ebind (map_res check_integration integrations) (\<lambda>_.
         ebind (map_res (\<lambda>c. item c ''lifecycle'') components) (\<lambda>lifecycles.
         ebind (map_res (\<lambda>c. item c ''status'') components) (\<lambda>statuses.
         ebind (item umbrella ''status'') (\<lambda>status.
         ebind (check_umbrella status umbrella_stable
                  (product_lifecycle = vlit ''prerelease'' \<or> vlit ''prerelease'' \<in> set lifecycles) (\<exists>x \<in> set statuses. x \<noteq> vlit ''active'')) (\<lambda>_.
         ebind (digest_object E (VDict candidate) (lit ''integrity-lts-version-matrix-v2'')) (\<lambda>digest.
         Inr (mk_dict [(''ok'', VBool True), (''status'', status), (''matrix_digest'', VStr digest),
           (''track_ids'', VList (map VStr track_ids)), (''production_authority'', VBool False),
           (''memory_grants_authority'', VBool False)]))))))))))))))))))))))))))"

section \<open>The release index\<close>

text \<open>The identity of the umbrella release as the index repeats it.\<close>

definition umbrella_release :: "pyval \<Rightarrow> pydict res" where
  "umbrella_release umbrella =
     ebind (map_res (\<lambda>k. ebind (item umbrella k) (\<lambda>v. Inr (k, v))) [''release_id'', ''version'', ''tag'', ''status'']) (\<lambda>kvs. Inr (mk_dict kvs))"

definition index_controls :: pydict where
  "index_controls = mk_dict [(''signed_release_manifest_required'', VBool True), (''exact_artifact_inventory_required'', VBool True),
     (''production_authority'', VBool False), (''memory_grants_authority'', VBool False), (''automatic_remote_rollout'', VBool False)]"

definition build_lts_release_index :: "env \<Rightarrow> ustring \<Rightarrow> ustring \<Rightarrow> ustring \<Rightarrow> pydict \<Rightarrow> ustring option \<Rightarrow> pydict res" where
  "build_lts_release_index E source_revision index_path created_at current expected_product_version =
     ebind (verify_lts_version_matrix E current expected_product_version) (\<lambda>verification.
     ebind (verify_index_path index_path) (\<lambda>_.
     ebind (verify_utc_timestamp (VStr created_at)) (\<lambda>_.
     ebind (field current ''umbrella'') (\<lambda>umbrella.
     ebind (umbrella_release umbrella) (\<lambda>release.
     ebind (field verification ''matrix_digest'') (\<lambda>digest.
     let index = mk_dict [(''protocol'', vlit ''integrity-guardian/lts-release-index/v1''), (''artifact_path'', VStr index_path),
       (''release'', VDict release), (''source_revision'', VStr source_revision), (''created_at'', VStr created_at),
       (''matrix_digest'', digest), (''matrix'', VDict current), (''controls'', VDict index_controls)] in
     ebind (catch_as (\<lambda>_. True) LtsReleaseIndexError ''LTS release index schema rejected''
              (validate E ''lts-release-index'' (VDict index))) (\<lambda>_. Inr index)))))))"

text \<open>The comparisons of the index with the signed manifest.\<close>

definition manifest_agrees :: "pydict \<Rightarrow> pyval \<Rightarrow> pydict \<Rightarrow> ustring \<Rightarrow> bool res" where
  "manifest_agrees manifest release candidate expected_source_revision =
     ebind (field manifest ''release_id'') (\<lambda>m_id. ebind (item release ''release_id'') (\<lambda>r_id.
     if \<not> py_eq m_id r_id then Inr False else
     ebind (field manifest ''version'') (\<lambda>m_version. ebind (item release ''version'') (\<lambda>r_version.
     if \<not> py_eq m_version r_version then Inr False else
     ebind (field manifest ''source_revision'') (\<lambda>m_revision. ebind (field candidate ''source_revision'') (\<lambda>revision.
     if \<not> py_eq m_revision revision then Inr False else
     if revision \<noteq> VStr expected_source_revision then Inr False else
     ebind (field manifest ''created_at'') (\<lambda>m_created. ebind (field candidate ''created_at'') (\<lambda>created.
     Inr (py_eq m_created created)))))))))"

definition verify_lts_release_index ::
  "env \<Rightarrow> pydict \<Rightarrow> pydict \<Rightarrow> trusted_key \<Rightarrow> ustring \<Rightarrow> ustring \<Rightarrow> pydict list \<Rightarrow> ustring \<Rightarrow> pydict res" where
  "verify_lts_release_index E candidate manifest authority_key expected_source_revision expected_product_version
       expected_artifacts index_artifact_path =
     ebind (verify_release_manifest E manifest authority_key expected_source_revision expected_artifacts) (\<lambda>manifest_digest.
     ebind (catch_as (\<lambda>_. True) LtsReleaseIndexError ''LTS release index schema rejected''
              (validate E ''lts-release-index'' (VDict candidate))) (\<lambda>_.
     ebind (verify_index_path index_artifact_path) (\<lambda>_.
     ebind (field candidate ''artifact_path'') (\<lambda>path.
     ensure (path = VStr index_artifact_path) LtsReleaseIndexError ''release index artifact path mismatch''
     (ebind (field candidate ''matrix'') (\<lambda>matrix.
      ebind (case matrix of VDict d \<Rightarrow> verify_lts_version_matrix E d (Some expected_product_version) | _ \<Rightarrow> raise TypeError ''matrix'') (\<lambda>verification.
      ebind (field candidate ''matrix_digest'') (\<lambda>claimed.
      ebind (field verification ''matrix_digest'') (\<lambda>digest.
      ensure (py_eq claimed digest) LtsReleaseIndexError ''release index matrix digest mismatch''
      (ebind (item matrix ''umbrella'') (\<lambda>umbrella.
       ebind (field candidate ''release'') (\<lambda>release.
       ebind (umbrella_release umbrella) (\<lambda>expected_release.
       ensure (py_eq release (VDict expected_release)) LtsReleaseIndexError ''release index umbrella metadata diverged''
       (ebind (manifest_agrees manifest release candidate expected_source_revision) (\<lambda>agrees.
        ensure agrees LtsReleaseIndexError ''release index does not match its signed manifest''
        (ebind (ebind (list_item (VDict manifest) ''artifacts'') (\<lambda>xs. map_res (\<lambda>x. item x ''path'') xs)) (\<lambda>paths.
         ensure (VStr index_artifact_path \<in> set paths) LtsReleaseIndexError ''release index is absent from the signed inventory''
         (ebind (item release ''status'') (\<lambda>status.
          ebind (item release ''release_id'') (\<lambda>release_id.
          ebind (item release ''version'') (\<lambda>version.
          ebind (field candidate ''source_revision'') (\<lambda>revision.
          Inr (mk_dict [(''ok'', VBool True), (''status'', status), (''release_id'', release_id), (''version'', version),
            (''source_revision'', revision), (''matrix_digest'', digest), (''release_manifest_digest'', VStr manifest_digest),
            (''production_authority'', VBool False), (''memory_grants_authority'', VBool False),
            (''automatic_remote_rollout'', VBool False)])))))))))))))))))))))))"

section \<open>Facts\<close>

lemma stable_lifecycle: "verify_lifecycle version (vlit ''stable'') = Inr () \<Longrightarrow> match_version version = Some []"
  by (auto simp: verify_lifecycle_def is_stable_version_def res_simps split: option.splits if_splits)

text \<open>A component that a release may rest on.\<close>

definition released_component :: "pyval \<Rightarrow> bool" where
  "released_component c \<longleftrightarrow> item c ''status'' = Inr (vlit ''active'') \<and>
     (\<exists>track_id version release. text_item c ''track_id'' = Inr track_id \<and> text_item c ''version'' = Inr version \<and> match_version version = Some [] \<and>
        component_release c = Inr (VDict release) \<and> dict_find release ''tag'' = Some (VStr (lit ''lts/'' @ track_id @ lit ''/v'' @ version)))"

lemma checked_component:
  assumes "check_component c = Inr ()" "item c ''status'' = Inr (vlit ''active'')"
  shows "released_component c"
proof -
  obtain track_id version lifecycle release where c: "text_item c ''track_id'' = Inr track_id" "text_item c ''version'' = Inr version"
    "verify_lifecycle version (vlit ''stable'') = Inr ()" "component_release c = Inr release" "case release of VDict d \<Rightarrow> True | _ \<Rightarrow> False"
    "(case release of VDict d \<Rightarrow> ebind (field d ''tag'') (\<lambda>tag. ensure (tag = VStr (lit ''lts/'' @ track_id @ lit ''/v'' @ version)) LtsReleaseIndexError
            ''component release tag is inconsistent'' (Inr ())) | _ \<Rightarrow> Inr ()) = Inr ()"
    using assms unfolding check_component_def by (auto simp: res_simps)
  obtain d where "release = VDict d" using c(5) by (cases release) auto
  then show ?thesis using assms(2) c stable_lifecycle by (auto simp: released_component_def res_simps)
qed

text \<open>What a verified matrix is: its umbrella carries the identity of its version, and when it is active,
  everything below it is released and stable.\<close>

lemma verified_matrix:
  assumes "verify_lts_version_matrix E matrix p = Inr v"
  obtains umbrella version status components digest where
    "dict_find matrix ''umbrella'' = Some umbrella" "text_item umbrella ''version'' = Inr version"
    "item umbrella ''release_id'' = Inr (VStr (lit ''release:lts:integrity:'' @ version))" "item umbrella ''tag'' = Inr (VStr (lit ''lts/integrity/v'' @ version))"
    "item umbrella ''status'' = Inr status" "dict_find matrix ''components'' = Some (VList components)"
    "map_res (\<lambda>c. text_item c ''track_id'') components = Inr lts_track_ids"
    "status = vlit ''active'' \<longrightarrow> match_version version = Some [] \<and> (\<forall>c \<in> set components. released_component c)"
    "dict_find v ''matrix_digest'' = Some (VStr digest)" "digest_object E (VDict matrix) (lit ''integrity-lts-version-matrix-v2'') = Inr digest"
proof -
  obtain umbrella version stable status components us pre statuses digest where
    u: "dict_find matrix ''umbrella'' = Some umbrella" "text_item umbrella ''version'' = Inr version" "is_stable_version version = Inr stable"
      "item umbrella ''release_id'' = Inr (VStr (lit ''release:lts:integrity:'' @ version))" "item umbrella ''tag'' = Inr (VStr (lit ''lts/integrity/v'' @ version))"
      "item umbrella ''status'' = Inr status"
    and c: "dict_find matrix ''components'' = Some (VList components)" "map_res (\<lambda>c. text_item c ''track_id'') components = Inr lts_track_ids"
      "map_res check_component components = Inr us" "map_res (\<lambda>c. item c ''status'') components = Inr statuses"
    and x: "check_umbrella status stable pre (\<exists>x \<in> set statuses. x \<noteq> vlit ''active'') = Inr ()"
    and d: "dict_find v ''matrix_digest'' = Some (VStr digest)" "digest_object E (VDict matrix) (lit ''integrity-lts-version-matrix-v2'') = Inr digest"
    using assms unfolding verify_lts_version_matrix_def by (auto simp: res_simps dict_find_mk)
  have "match_version version = Some [] \<and> (\<forall>c \<in> set components. released_component c)" if active: "status = vlit ''active''"
  proof -
    have "stable" "\<forall>x \<in> set statuses. x = vlit ''active''" using x active by (auto simp: check_umbrella_def res_simps)
    moreover have "released_component c" if "c \<in> set components" for c
    proof -
      have "item c ''status'' = Inr (vlit ''active'')" using list_all2_in [OF c(4) [unfolded map_res_Inr_iff] that] calculation(2) by auto
      moreover have "check_component c = Inr ()" using list_all2_in [OF c(3) [unfolded map_res_Inr_iff] that] by auto
      ultimately show ?thesis by (rule checked_component [rotated])
    qed
    ultimately show ?thesis using u(3) by (auto simp: is_stable_version_def split: option.splits)
  qed
  then show ?thesis using that u c(1,2) d by blast
qed

lemma py_eq_member:
  assumes "py_eq (VDict a) (VDict b)" "dict_find a k = Some v"
  shows "\<exists>w. dict_find b k = Some w \<and> py_eq v w"
  using assms map_of_SomeD [of a "tkey k" v] by (fastforce simp: dict_find_def split: option.splits)

lemma umbrella_release_Inr:
  "umbrella_release u = Inr d \<longleftrightarrow> (\<exists>release_id version tag status. item u ''release_id'' = Inr release_id \<and> item u ''version'' = Inr version \<and>
     item u ''tag'' = Inr tag \<and> item u ''status'' = Inr status \<and>
     d = mk_dict [(''release_id'', release_id), (''version'', version), (''tag'', tag), (''status'', status)])"
  by (auto simp: umbrella_release_def res_simps)

lemma manifest_agrees_True:
  "manifest_agrees manifest release candidate revision = Inr True \<longleftrightarrow>
     (\<exists>m_id r_id m_version r_version m_revision m_created created.
        dict_find manifest ''release_id'' = Some m_id \<and> item release ''release_id'' = Inr r_id \<and> py_eq m_id r_id \<and>
        dict_find manifest ''version'' = Some m_version \<and> item release ''version'' = Inr r_version \<and> py_eq m_version r_version \<and>
        dict_find manifest ''source_revision'' = Some m_revision \<and> m_revision = VStr revision \<and> dict_find candidate ''source_revision'' = Some (VStr revision) \<and>
        dict_find manifest ''created_at'' = Some m_created \<and> dict_find candidate ''created_at'' = Some created \<and> py_eq m_created created)"
  unfolding manifest_agrees_def by (auto simp: res_simps split: if_splits) blast

text \<open>The checks of an accepted index, in the order of the code.\<close>

lemma accepted_index:
  assumes "verify_lts_release_index E index manifest key revision product artifacts path = Inr r"
  obtains digest matrix v umbrella release expected xs paths matrix_digest status where
    "verify_release_manifest E manifest key revision artifacts = Inr digest" "verify_index_path path = Inr ()"
    "dict_find index ''artifact_path'' = Some (VStr path)" "dict_find index ''matrix'' = Some (VDict matrix)"
    "verify_lts_version_matrix E matrix (Some product) = Inr v" "dict_find v ''matrix_digest'' = Some matrix_digest"
    "dict_find matrix ''umbrella'' = Some umbrella" "dict_find index ''release'' = Some release" "umbrella_release umbrella = Inr expected"
    "py_eq release (VDict expected)" "manifest_agrees manifest release index revision = Inr True"
    "list_item (VDict manifest) ''artifacts'' = Inr xs" "map_res (\<lambda>x. item x ''path'') xs = Inr paths" "VStr path \<in> set paths"
    "item release ''status'' = Inr status" "dict_find r ''status'' = Some status" "dict_find r ''matrix_digest'' = Some matrix_digest"
    "dict_find r ''release_manifest_digest'' = Some (VStr digest)" "dict_find r ''production_authority'' = Some (VBool False)"
proof -
  obtain m where m: "dict_find index ''matrix'' = Some m" using assms by (auto simp: verify_lts_release_index_def res_simps)
  obtain matrix where "m = VDict matrix" using assms m by (cases m) (auto simp: verify_lts_release_index_def res_simps)
  then show thesis using assms m by (auto simp: verify_lts_release_index_def res_simps dict_find_mk intro: that)
qed

text \<open>An index that was built verifies under a manifest for its release that lists its path.\<close>

lemma built_index_verifies:
  assumes "build_lts_release_index E revision path created matrix (Some product) = Inr index" "py_wf (VDict matrix)"
    and "verify_release_manifest E manifest key revision artifacts = Inr digest"
    and "dict_find manifest ''release_id'' = Some m_id" "dict_find manifest ''version'' = Some m_version"
    and "dict_find matrix ''umbrella'' = Some umbrella" "item umbrella ''release_id'' = Inr m_id" "item umbrella ''version'' = Inr m_version"
    and "dict_find manifest ''source_revision'' = Some (VStr revision)" "dict_find manifest ''created_at'' = Some (VStr created)"
    and "list_item (VDict manifest) ''artifacts'' = Inr xs" "map_res (\<lambda>x. item x ''path'') xs = Inr paths" "VStr path \<in> set paths"
  shows "\<exists>r status. verify_lts_release_index E index manifest key revision product artifacts path = Inr r \<and>
    item umbrella ''status'' = Inr status \<and> dict_find r ''status'' = Some status"
proof -
  obtain v release d where b: "verify_lts_version_matrix E matrix (Some product) = Inr v" "verify_index_path path = Inr ()"
    "umbrella_release umbrella = Inr release" "dict_find v ''matrix_digest'' = Some d"
    "index = mk_dict [(''protocol'', vlit ''integrity-guardian/lts-release-index/v1''), (''artifact_path'', VStr path),
       (''release'', VDict release), (''source_revision'', VStr revision), (''created_at'', VStr created),
       (''matrix_digest'', d), (''matrix'', VDict matrix), (''controls'', VDict index_controls)]"
    "schema_ok E ''lts-release-index'' (VDict index)"
    using assms(1,6) by (auto simp: build_lts_release_index_def validate_def res_simps Let_def)
  obtain s where s: "d = VStr s" using verified_matrix [OF b(1)] b(4) by (metis option.inject)
  obtain tag status where r: "release = mk_dict [(''release_id'', m_id), (''version'', m_version), (''tag'', tag), (''status'', status)]"
    "item umbrella ''tag'' = Inr tag" "item umbrella ''status'' = Inr status" using b(3) assms(7,8) by (auto simp: umbrella_release_Inr)
  obtain u where u: "umbrella = VDict u" using assms(7) by (cases umbrella) (auto simp: item_def)
  have wf: "py_wf (VDict u)" using py_wf_find [OF assms(2,6)] u by simp
  have "py_wf (VDict release)" unfolding r(1) using wf py_wf_find [OF wf] r(2,3) assms(7,8)[unfolded u] by (simp add: u mk_dict_def res_simps)
  then have same: "py_eq (VDict release) (VDict release)" by (rule py_eq_refl)
  have eq: "py_eq m_id m_id" "py_eq m_version m_version" using py_wf_find [OF wf] assms(7,8) u by (auto simp: res_simps intro: py_eq_refl)
  have "manifest_agrees manifest (VDict release) index revision = Inr True"
    unfolding manifest_agrees_True using assms(4,5,9,10) eq by (simp add: b(5) r(1) dict_find_mk item_def)
  then show ?thesis using assms(3,6,11-13) b(1-4,6) s same r(3) u
    by (simp add: verify_lts_release_index_def validate_def item_def b(5) r(1) dict_find_mk)
qed

section \<open>Properties\<close>

text \<open>
  C35. A release index is accepted only under a signed release: the manifest passes its own verification
  for the expected revision and artifacts and lists the index's path; manifest and index name the
  release of the matrix's umbrella version and the same revision; the matrix has exactly the three
  tracks; when the result says active, the umbrella's version is stable and every component
  is active with a stable version and a release tagged with it. No production authority follows.
\<close>

theorem release_index_only_under_signed_release:
  assumes "verify_lts_release_index E index manifest key revision product artifacts path = Inr r"
  shows "\<exists>digest matrix umbrella version components xs.
    verify_release_manifest E manifest key revision artifacts = Inr digest \<and> dict_find r ''release_manifest_digest'' = Some (VStr digest) \<and>
    list_item (VDict manifest) ''artifacts'' = Inr xs \<and> (\<exists>x \<in> set xs. item x ''path'' = Inr (VStr path)) \<and>
    dict_find index ''matrix'' = Some (VDict matrix) \<and> dict_find matrix ''umbrella'' = Some umbrella \<and> text_item umbrella ''version'' = Inr version \<and>
    dict_find manifest ''release_id'' = Some (VStr (lit ''release:lts:integrity:'' @ version)) \<and> dict_find manifest ''version'' = Some (VStr version) \<and>
    dict_find manifest ''source_revision'' = Some (VStr revision) \<and> dict_find index ''source_revision'' = Some (VStr revision) \<and>
    dict_find matrix ''components'' = Some (VList components) \<and> map_res (\<lambda>c. text_item c ''track_id'') components = Inr lts_track_ids \<and>
    (dict_find r ''status'' = Some (vlit ''active'') \<longrightarrow> match_version version = Some [] \<and> (\<forall>c \<in> set components. released_component c)) \<and>
    dict_find r ''production_authority'' = Some (VBool False)"
proof -
  obtain digest matrix v umbrella release expected xs paths status where a: "verify_release_manifest E manifest key revision artifacts = Inr digest"
    "dict_find index ''matrix'' = Some (VDict matrix)" "verify_lts_version_matrix E matrix (Some product) = Inr v"
    "dict_find matrix ''umbrella'' = Some umbrella" "umbrella_release umbrella = Inr expected"
    "py_eq release (VDict expected)" "manifest_agrees manifest release index revision = Inr True"
    "list_item (VDict manifest) ''artifacts'' = Inr xs" "map_res (\<lambda>x. item x ''path'') xs = Inr paths" "VStr path \<in> set paths"
    "item release ''status'' = Inr status" "dict_find r ''status'' = Some status"
    "dict_find r ''release_manifest_digest'' = Some (VStr digest)" "dict_find r ''production_authority'' = Some (VBool False)"
    by (rule accepted_index [OF assms]) blast
  obtain version u_status components where x: "text_item umbrella ''version'' = Inr version"
    "item umbrella ''release_id'' = Inr (VStr (lit ''release:lts:integrity:'' @ version))" "item umbrella ''status'' = Inr u_status"
    "dict_find matrix ''components'' = Some (VList components)" "map_res (\<lambda>c. text_item c ''track_id'') components = Inr lts_track_ids"
    "u_status = vlit ''active'' \<longrightarrow> match_version version = Some [] \<and> (\<forall>c \<in> set components. released_component c)"
    by (rule verified_matrix [OF a(3)]) (use a(4) in simp)
  obtain d where d: "release = VDict d" using a(6) by (cases release) auto
  have same: "\<exists>w. item umbrella k = Inr w \<and> py_eq z w" if "item release k = Inr z" "k \<in> {''release_id'', ''version'', ''status''}" for k z
    using py_eq_member [OF a(6) [unfolded d], of k z] that a(5) by (auto simp: d umbrella_release_Inr dict_find_mk res_simps)
  have active: "dict_find r ''status'' = Some (vlit ''active'') \<longrightarrow> match_version version = Some [] \<and> (\<forall>c \<in> set components. released_component c)"
    using same [OF a(11)] x(3,6) a(12) by auto
  have "item umbrella ''version'' = Inr (VStr version)" using x(1) by (simp add: text_item_Inr)
  then have "dict_find manifest ''release_id'' = Some (VStr (lit ''release:lts:integrity:'' @ version))" "dict_find manifest ''version'' = Some (VStr version)"
    "dict_find manifest ''source_revision'' = Some (VStr revision)" "dict_find index ''source_revision'' = Some (VStr revision)"
    using a(7) same x(2) unfolding manifest_agrees_True by force+
  moreover have "\<exists>x \<in> set xs. item x ''path'' = Inr (VStr path)" using list_all2_in2 [OF a(9) [unfolded map_res_Inr_iff] a(10)] by blast
  ultimately show ?thesis using a(1,2,4,8,13,14) x(1,4,5) active by blast
qed

text \<open>
  The signature does not cover the content of the index: once an index is accepted, its matrix can
  be replaced by any other matrix that verifies on its own and has the same umbrella member, with
  its digest recomputed, and the result is accepted under the same signed manifest when it fits the schema. Versions, revisions
  and bundle digests of the components are therefore not bound by it; only the path of the index is.
\<close>

theorem index_content_not_signed:
  assumes "verify_lts_release_index E index manifest key revision product artifacts path = Inr r"
    and "dict_find index ''matrix'' = Some (VDict matrix)" "dict_find matrix' ''umbrella'' = dict_find matrix ''umbrella''"
    and "verify_lts_version_matrix E matrix' (Some product) = Inr v'" "dict_find v' ''matrix_digest'' = Some digest'"
    and "index' = dict_put (dict_put index ''matrix'' (VDict matrix')) ''matrix_digest'' digest'" "schema_ok E ''lts-release-index'' (VDict index')"
  shows "\<exists>r'. verify_lts_release_index E index' manifest key revision product artifacts path = Inr r' \<and>
    dict_find r' ''matrix_digest'' = Some digest' \<and> dict_find r' ''release_manifest_digest'' = dict_find r ''release_manifest_digest''"
proof -
  obtain d where d: "digest' = VStr d" using verified_matrix [OF assms(4)] assms(5) by (metis option.inject)
  have other: "field index' k = field index k" if "k \<noteq> ''matrix''" "k \<noteq> ''matrix_digest''" for k using assms(6) that by (simp add: field_put)
  have "field index' ''matrix'' = Inr (VDict matrix')" "field index' ''matrix_digest'' = Inr (VStr d)" using assms(6) d by (simp_all add: field_put)
  moreover have "manifest_agrees manifest release index' revision = manifest_agrees manifest release index revision" for release
    unfolding manifest_agrees_def by (simp add: other cong: if_cong)
  moreover have "item (VDict matrix') ''umbrella'' = item (VDict matrix) ''umbrella''" using assms(3) by (simp add: item_def)
  ultimately show ?thesis using assms(1,2,4,5,7) d
    unfolding verify_lts_release_index_def validate_def by (auto simp: res_simps other dict_find_mk)
qed

section \<open>A sample release\<close>

definition demo_component :: "ustring \<Rightarrow> string \<Rightarrow> string \<Rightarrow> pyval" where
  "demo_component t n bundle_digest = VDict (mk_dict [(''track_id'', VStr t), (''name'', vlit n), (''version'', vlit ''1.0.0''), (''lifecycle'', vlit ''stable''),
     (''status'', vlit ''active''), (''source_revision'', vlit ''rev-1''),
     (''release'', VDict (mk_dict [(''tag'', VStr (lit ''lts/'' @ t @ lit ''/v1.0.0'')), (''bundle_digest'', vlit bundle_digest)]))])"

definition demo_matrix :: "string \<Rightarrow> pydict" where
  "demo_matrix bundle_digest = mk_dict [(''protocol'', vlit ''integrity-guardian/lts-version-matrix/v2''),
     (''umbrella'', VDict (mk_dict [(''name'', vlit ''Integrity LTS''), (''version'', vlit ''1.0.0''), (''release_id'', vlit ''release:lts:integrity:1.0.0''),
        (''tag'', vlit ''lts/integrity/v1.0.0''), (''status'', vlit ''active'')])),
     (''product'', VDict (mk_dict [(''name'', vlit ''Integrity Guardian''), (''version'', vlit ''3.0.2''), (''lifecycle'', vlit ''stable'')])),
     (''components'', VList [demo_component (lit ''guardian-core-lts'') ''Guardian Core'' bundle_digest,
        demo_component (lit ''seed-synapse-lts'') ''Seed & Synapse'' ''sha256:02'', demo_component (lit ''adapter-observer-sdk-lts'') ''Adapter & Observer SDK'' ''sha256:03'']),
     (''integrations'', VList [VDict (mk_dict [(''integration_id'', vlit ''browser''), (''version'', vlit ''0.9.0rc1''), (''lifecycle'', vlit ''prerelease''),
        (''status'', vlit ''candidate'')])])]"

lemma demo_matrix_facts:
  "map_res check_component [demo_component (lit ''guardian-core-lts'') ''Guardian Core'' ''sha256:01'',
     demo_component (lit ''seed-synapse-lts'') ''Seed & Synapse'' ''sha256:02'', demo_component (lit ''adapter-observer-sdk-lts'') ''Adapter & Observer SDK'' ''sha256:03''] =
     Inr [(), (), ()]"
  "map_res check_component [demo_component (lit ''guardian-core-lts'') ''Guardian Core'' ''sha256:ff'',
     demo_component (lit ''seed-synapse-lts'') ''Seed & Synapse'' ''sha256:02'', demo_component (lit ''adapter-observer-sdk-lts'') ''Adapter & Observer SDK'' ''sha256:03''] =
     Inr [(), (), ()]"
  "check_integration (VDict (mk_dict [(''integration_id'', vlit ''browser''), (''version'', vlit ''0.9.0rc1''), (''lifecycle'', vlit ''prerelease''),
     (''status'', vlit ''candidate'')])) = Inr ()"
  "encodable (VDict (demo_matrix ''sha256:01''))" "encodable (VDict (demo_matrix ''sha256:ff''))" "py_wf (VDict (demo_matrix ''sha256:01''))"
  "verify_lifecycle (lit ''3.0.2'') (vlit ''stable'') = Inr ()" "is_stable_version (lit ''1.0.0'') = Inr True"
  "lit ''release:lts:integrity:1.0.0'' = lit ''release:lts:integrity:'' @ lit ''1.0.0''" "lit ''lts/integrity/v1.0.0'' = lit ''lts/integrity/v'' @ lit ''1.0.0''"
  "plain_domain ''integrity-lts-version-matrix-v2''" "verify_index_path (lit ''dist/guardian.whl'') = Inr ()"
  "verify_utc_timestamp (vlit ''2026-01-01T00:00:00Z'') = Inr ()"
  by code_simp+

lemma demo_matrix_verified:
  assumes "b \<in> {''sha256:01'', ''sha256:ff''}"
  shows "\<exists>v digest. verify_lts_version_matrix demo_env (demo_matrix b) (Some (lit ''3.0.2'')) = Inr v \<and> dict_find v ''matrix_digest'' = Some (VStr digest)"
proof -
  note f = demo_matrix_facts
  have "encodable (VDict (demo_matrix b))" using assms f(4,5) by blast
  then obtain h where h: "digest_object demo_env (VDict (demo_matrix b)) (lit ''integrity-lts-version-matrix-v2'') = Inr (lit ''sha256:'' @ hex h)"
    using digest_object_encodable [OF _ f(11)] by blast
  let ?cs = "[demo_component (lit ''guardian-core-lts'') ''Guardian Core'' b, demo_component (lit ''seed-synapse-lts'') ''Seed & Synapse'' ''sha256:02'',
     demo_component (lit ''adapter-observer-sdk-lts'') ''Adapter & Observer SDK'' ''sha256:03'']"
  have components: "list_item (VDict (demo_matrix b)) ''components'' = Inr ?cs" by (simp add: list_item_def demo_matrix_def item_def dict_find_mk)
  have checked: "map_res check_component ?cs = Inr [(), (), ()]" using assms f(1,2) by blast
  have parts: "map_res (\<lambda>c. text_item c ''track_id'') ?cs = Inr lts_track_ids" "map_res (\<lambda>c. item c ''lifecycle'') ?cs = Inr (replicate 3 (vlit ''stable''))"
    "map_res (\<lambda>c. item c ''status'') ?cs = Inr (replicate 3 (vlit ''active''))"
    by (simp_all add: demo_component_def item_def text_item_def dict_find_mk lts_track_ids_def numeral_3_eq_3)
  show ?thesis using h components checked parts f(3,7,8,9,10)
    by (simp add: verify_lts_version_matrix_def validate_def del: map_res.simps)
      (simp add: demo_matrix_def list_item_def item_def text_item_def dict_find_mk check_umbrella_def)
qed

lemma demo_index_verified:
  obtains index manifest r where "verify_lts_release_index demo_env index manifest demo_key (lit ''rev-1'') (lit ''3.0.2'') [demo_artifact] (lit ''dist/guardian.whl'') = Inr r"
    "dict_find index ''matrix'' = Some (VDict (demo_matrix ''sha256:01''))" "dict_find r ''status'' = Some (vlit ''active'')"
proof -
  note f = demo_matrix_facts
  let ?m = "demo_matrix ''sha256:01''"
  obtain manifest h digest where m: "verify_release_manifest demo_env manifest demo_key (lit ''rev-1'') [demo_artifact] = Inr digest"
    and mf: "\<And>k. k \<noteq> ''authorization'' \<Longrightarrow> dict_find manifest k = dict_find (demo_manifest ''release:lts:integrity:1.0.0'' h) k"
    by (rule demo_release_verified) blast
  obtain v d where v: "verify_lts_version_matrix demo_env ?m (Some (lit ''3.0.2'')) = Inr v" "dict_find v ''matrix_digest'' = Some (VStr d)"
    using demo_matrix_verified by blast
  have "\<exists>umbrella. dict_find ?m ''umbrella'' = Some umbrella \<and> item umbrella ''release_id'' = Inr (vlit ''release:lts:integrity:1.0.0'') \<and>
      item umbrella ''version'' = Inr (vlit ''1.0.0'') \<and> item umbrella ''tag'' = Inr (vlit ''lts/integrity/v1.0.0'') \<and> item umbrella ''status'' = Inr (vlit ''active'')"
    by (simp add: demo_matrix_def dict_find_mk item_def)
  then obtain umbrella where u: "dict_find ?m ''umbrella'' = Some umbrella" "item umbrella ''release_id'' = Inr (vlit ''release:lts:integrity:1.0.0'')"
      "item umbrella ''version'' = Inr (vlit ''1.0.0'')" "item umbrella ''tag'' = Inr (vlit ''lts/integrity/v1.0.0'')" "item umbrella ''status'' = Inr (vlit ''active'')"
    by blast
  obtain index where b: "build_lts_release_index demo_env (lit ''rev-1'') (lit ''dist/guardian.whl'') (lit ''2026-01-01T00:00:00Z'') ?m (Some (lit ''3.0.2'')) = Inr index"
    and i: "dict_find index ''matrix'' = Some (VDict ?m)"
    using v u f(12,13) by (simp add: build_lts_release_index_def umbrella_release_def validate_def item_def [of "VDict _"] dict_find_mk)
  have arts: "list_item (VDict manifest) ''artifacts'' = Inr [VDict demo_artifact]" "map_res (\<lambda>x. item x ''path'') [VDict demo_artifact] = Inr [vlit ''dist/guardian.whl'']"
    by (simp_all add: list_item_def item_def mf demo_manifest_def dict_find_mk demo_artifact_def)
  have "\<exists>r status. verify_lts_release_index demo_env index manifest demo_key (lit ''rev-1'') (lit ''3.0.2'') [demo_artifact] (lit ''dist/guardian.whl'') = Inr r \<and>
      item umbrella ''status'' = Inr status \<and> dict_find r ''status'' = Some status"
    by (rule built_index_verifies [OF b f(6) m _ _ u(1-3) _ _ arts]) (simp_all add: mf demo_manifest_def dict_find_mk)
  then show thesis using that i u(5) by auto
qed

theorem release_index_only_under_signed_release_witness:
  "\<exists>index manifest r digest. verify_lts_release_index demo_env index manifest demo_key (lit ''rev-1'') (lit ''3.0.2'') [demo_artifact] (lit ''dist/guardian.whl'') = Inr r \<and>
     dict_find r ''status'' = Some (vlit ''active'') \<and> verify_release_manifest demo_env manifest demo_key (lit ''rev-1'') [demo_artifact] = Inr digest"
proof -
  obtain index manifest r where r: "verify_lts_release_index demo_env index manifest demo_key (lit ''rev-1'') (lit ''3.0.2'') [demo_artifact] (lit ''dist/guardian.whl'') = Inr r"
    "dict_find r ''status'' = Some (vlit ''active'')" by (rule demo_index_verified)
  from release_index_only_under_signed_release [OF r(1)] r show ?thesis by blast
qed

text \<open>The core's bundle digest is exchanged under the same manifest.\<close>

theorem index_content_not_signed_witness:
  "\<exists>index index' manifest r r'.
     verify_lts_release_index demo_env index manifest demo_key (lit ''rev-1'') (lit ''3.0.2'') [demo_artifact] (lit ''dist/guardian.whl'') = Inr r \<and>
     verify_lts_release_index demo_env index' manifest demo_key (lit ''rev-1'') (lit ''3.0.2'') [demo_artifact] (lit ''dist/guardian.whl'') = Inr r' \<and>
     dict_find index ''matrix'' = Some (VDict (demo_matrix ''sha256:01'')) \<and> dict_find index' ''matrix'' = Some (VDict (demo_matrix ''sha256:ff''))"
proof -
  obtain index manifest r where r: "verify_lts_release_index demo_env index manifest demo_key (lit ''rev-1'') (lit ''3.0.2'') [demo_artifact] (lit ''dist/guardian.whl'') = Inr r"
    "dict_find index ''matrix'' = Some (VDict (demo_matrix ''sha256:01''))" by (rule demo_index_verified)
  obtain v d where v: "verify_lts_version_matrix demo_env (demo_matrix ''sha256:ff'') (Some (lit ''3.0.2'')) = Inr v" "dict_find v ''matrix_digest'' = Some (VStr d)"
    using demo_matrix_verified by blast
  let ?index = "dict_put (dict_put index ''matrix'' (VDict (demo_matrix ''sha256:ff''))) ''matrix_digest'' (VStr d)"
  have "dict_find (demo_matrix ''sha256:ff'') ''umbrella'' = dict_find (demo_matrix ''sha256:01'') ''umbrella''" by (simp add: demo_matrix_def dict_find_mk)
  moreover have "dict_find ?index ''matrix'' = Some (VDict (demo_matrix ''sha256:ff''))" by (simp add: dict_find_put)
  ultimately show ?thesis using index_content_not_signed [OF r _ v refl] r demo_env_simps(4) by blast
qed

end
