(* ===== verification/SynapseGraph.thy ===== *)
theory SynapseGraph
  imports Identity "HOL-Library.Product_Lexorder"
begin

text \<open>
  \<open>synapse.py\<close>, the data: evidence, policies and contexts of one planning step, content-addressed
  nodes and edges, the capability graph and its verification, conditions over facts, and the
  scores that routes are compared by. Graphs, nodes and edges are the dictionaries of the source;
  evidence, policy and context are its data classes, built by their checked constructors. The
  type checks of the constructors on their arguments are the types here.
\<close>

section \<open>Kinds and ranks\<close>

datatype transition_kind =
  OBSERVE | ANALYZE | PLAN | DISPOSABLE_MUTATION | PRODUCTION_MUTATION | VERIFY | ROLLBACK

datatype blast_radius = NONE | PROCESS | HOST | TENANT | NETWORK

fun transition_value :: "transition_kind \<Rightarrow> string" where
  "transition_value OBSERVE = ''observe''"
| "transition_value ANALYZE = ''analyze''"
| "transition_value PLAN = ''plan''"
| "transition_value DISPOSABLE_MUTATION = ''disposable_mutation''"
| "transition_value PRODUCTION_MUTATION = ''production_mutation''"
| "transition_value VERIFY = ''verify''"
| "transition_value ROLLBACK = ''rollback''"

fun blast_value :: "blast_radius \<Rightarrow> string" where
  "blast_value NONE = ''none''"
| "blast_value PROCESS = ''process''"
| "blast_value HOST = ''host''"
| "blast_value TENANT = ''tenant''"
| "blast_value NETWORK = ''network''"

definition transition_ranks :: "(ustring \<times> int) list" where
  "transition_ranks = map (\<lambda>(k, n). (lit (transition_value k), n))
     [(OBSERVE, 0), (ANALYZE, 0), (PLAN, 0), (VERIFY, 0), (DISPOSABLE_MUTATION, 1), (ROLLBACK, 1),
      (PRODUCTION_MUTATION, 2)]"

definition blast_ranks :: "(ustring \<times> int) list" where
  "blast_ranks = map (\<lambda>(k, n). (lit (blast_value k), n))
     [(NONE, 0), (PROCESS, 1), (HOST, 2), (TENANT, 3), (NETWORK, 4)]"

definition reversibility_ranks :: "(ustring \<times> int) list" where
  "reversibility_ranks = map (\<lambda>(k, n). (lit k, n))
     [(''not_applicable'', 0), (''automatic'', 0), (''manual'', 1), (''irreversible'', 2)]"

text \<open>Subscription of one of these tables.\<close>

definition rank_in :: "(ustring \<times> int) list \<Rightarrow> ustring \<Rightarrow> int res" where
  "rank_in ranks s = (case map_of ranks s of None \<Rightarrow> raise KeyError ''rank'' | Some n \<Rightarrow> Inr n)"

definition control_plane_calls :: pyval where
  "control_plane_calls = VDict (mk_dict [(''model_calls'', VInt 0), (''tool_calls'', VInt 0)])"

definition offline_capabilities :: pydict where
  "offline_capabilities = mk_dict [(''credentials'', VBool False), (''execution'', VBool False),
     (''model_sdk'', VBool False), (''network'', VBool False), (''production_authority'', VBool False)]"

definition max_graph_nodes :: nat where "max_graph_nodes = 10000"
definition max_graph_edges :: nat where "max_graph_edges = 25000"
definition max_route_hops :: int where "max_route_hops = 32"
definition max_route_expansions :: int where "max_route_expansions = 4096"
definition max_slice_nodes :: int where "max_slice_nodes = 512"
definition max_slice_edges :: int where "max_slice_edges = 2048"

section \<open>Evidence, policy and context\<close>

definition synapse_time :: "pyval \<Rightarrow> string \<Rightarrow> datetime res" where
  "synapse_time v field_name =
     ensure (case v of VStr s \<Rightarrow> True | _ \<Rightarrow> False) SynapsePolicyError (field_name @ '' must be an RFC3339 string'')
     (ebind (catch_as is_ValueError SynapsePolicyError (field_name @ '' must be RFC3339'') (fromisoformat v)) (\<lambda>parsed.
      ensure (dt_offset parsed \<noteq> None) SynapsePolicyError (field_name @ '' must include a timezone'') (Inr parsed)))"

definition ordered_unique :: "ustring list \<Rightarrow> ustring list res" where
  "ordered_unique values =
     ensure (\<forall>v \<in> set values. v \<noteq> []) SynapsePolicyError ''policy identifiers must be non-empty strings''
     (let result = sort (remdups values) in
      ensure (length result = length values) SynapsePolicyError ''policy identifiers must be unique'' (Inr result))"

record synapse_evidence =
  ev_observed_at :: ustring
  ev_digest :: ustring

definition make_evidence :: "ustring \<Rightarrow> ustring \<Rightarrow> synapse_evidence res" where
  "make_evidence observed_at digest =
     ebind (synapse_time (VStr observed_at) ''evidence.observed_at'') (\<lambda>_.
     ensure (case split_once 58 digest of
               None \<Rightarrow> False
             | Some (algorithm, val) \<Rightarrow> algorithm = lit ''sha256'' \<and> length val = 64 \<and>
                 (\<forall>c \<in> set val. c \<in> set (lit ''0123456789abcdef'')))
       SynapsePolicyError ''evidence.digest must be an algorithm-qualified SHA-256''
       (Inr \<lparr>ev_observed_at = observed_at, ev_digest = digest\<rparr>))"

record synapse_policy =
  sp_allowed_subsystems :: "ustring list"
  sp_allowed_capability_ids :: "ustring list"
  sp_granted_authority_ids :: "ustring list"
  sp_max_transition_kind :: transition_kind
  sp_max_blast_radius :: blast_radius

text \<open>A policy object exists only without production authority, so the record has no such field.\<close>

definition make_policy ::
  "ustring list \<Rightarrow> ustring list \<Rightarrow> ustring list \<Rightarrow> transition_kind \<Rightarrow> blast_radius \<Rightarrow> bool \<Rightarrow> synapse_policy res" where
  "make_policy subsystems capability_ids authority_ids kind radius production_authority =
     ebind (ordered_unique subsystems) (\<lambda>allowed_subsystems.
     ebind (ordered_unique capability_ids) (\<lambda>allowed_capability_ids.
     ebind (ordered_unique authority_ids) (\<lambda>granted_authority_ids.
     ensure (\<not> production_authority) SynapsePolicyError ''the offline Synapse kernel cannot grant production authority''
       (Inr \<lparr>sp_allowed_subsystems = allowed_subsystems, sp_allowed_capability_ids = allowed_capability_ids,
         sp_granted_authority_ids = granted_authority_ids, sp_max_transition_kind = kind, sp_max_blast_radius = radius\<rparr>))))"

record synapse_context =
  sc_tenant_id :: ustring
  sc_current_node_id :: ustring
  sc_as_of :: ustring
  sc_policy :: synapse_policy
  sc_facts :: pydict
  sc_evidence :: "(ustring \<times> synapse_evidence) list"

definition make_context ::
  "ustring \<Rightarrow> ustring \<Rightarrow> ustring \<Rightarrow> synapse_policy \<Rightarrow> pydict \<Rightarrow> (ustring \<times> synapse_evidence) list \<Rightarrow> synapse_context res" where
  "make_context tenant_id current_node_id as_of policy facts evidence =
     ensure (starts_with (lit ''tenant:'') tenant_id) SynapsePolicyError ''tenant_id must be canonical''
     (ensure (starts_with (lit ''synapse-node:'') current_node_id) SynapsePolicyError ''current_node_id must be canonical''
     (ebind (synapse_time (VStr as_of) ''as_of'') (\<lambda>_.
      ebind (canonical_bytes (VDict facts)) (\<lambda>_.
      ensure (\<forall>i \<in> fst ` set evidence. i \<noteq> []) SynapsePolicyError ''evidence ids must be non-empty strings''
        (Inr \<lparr>sc_tenant_id = tenant_id, sc_current_node_id = current_node_id, sc_as_of = as_of,
          sc_policy = policy, sc_facts = facts, sc_evidence = evidence\<rparr>)))))"

section \<open>Nodes and edges\<close>

text \<open>\<open>v[a][b]\<close>, and a member that the schema pins to an object.\<close>

definition item2 :: "pyval \<Rightarrow> string \<Rightarrow> string \<Rightarrow> pyval res" where
  "item2 v a b = ebind (item v a) (\<lambda>x. item x b)"

definition dict_item :: "pyval \<Rightarrow> string \<Rightarrow> pydict res" where
  "dict_item v k = ebind (item v k) (\<lambda>x. case x of VDict d \<Rightarrow> Inr d | _ \<Rightarrow> raise AttributeError ''items'')"

text \<open>\<open>sorted(xs, key=...)\<close> with a key that may raise.\<close>

definition sort_by :: "('a \<Rightarrow> ('k :: linorder) res) \<Rightarrow> 'a list \<Rightarrow> 'a list res" where
  "sort_by key xs = ebind (map_res key xs) (\<lambda>ks. Inr (map snd (sort_key fst (zip ks xs))))"

definition build_synapse_node ::
  "env \<Rightarrow> pyval \<Rightarrow> pyval \<Rightarrow> pyval \<Rightarrow> pyval \<Rightarrow> pyval \<Rightarrow> pydict \<Rightarrow> pydict res" where
  "build_synapse_node E tenant_id kind ref label truth_status attributes =
     ebind (content_identity E ''synapse-node:'' ''synapse-node-identity-v1''
              (mk_dict [(''tenant_id'', tenant_id), (''kind'', kind), (''ref'', ref)])) (\<lambda>node_id.
     Inr (mk_dict [(''node_id'', VStr node_id), (''kind'', kind), (''ref'', ref), (''label'', label),
       (''truth_status'', truth_status), (''attributes'', VDict (sort_key (\<lambda>(k, v). key_text k) attributes))]))"

definition edge_identity_core :: "pydict \<Rightarrow> pydict" where
  "edge_identity_core edge =
     (let core = dict_pop edge ''edge_id'' in
      case dict_get core ''reversibility'' of
        VDict r \<Rightarrow> dict_put core ''reversibility'' (VDict (dict_put r ''rollback_edge_id'' VNone))
      | _ \<Rightarrow> core)"

text \<open>The keyword arguments of the edge builder.\<close>

record edge_spec =
  es_from_node_id :: ustring
  es_to_node_id :: ustring
  es_capability_id :: ustring
  es_subsystem :: ustring
  es_transition_kind :: transition_kind
  es_required_authority_ids :: "ustring list"
  es_production_authority :: bool
  es_evidence_requirements :: "pydict list"
  es_preconditions :: "pydict list"
  es_postconditions :: "pydict list"
  es_verifier_id :: "ustring option"
  es_verifier_required :: bool
  es_reversibility :: ustring
  es_rollback_edge_id :: "ustring option"
  es_blast_radius :: blast_radius
  es_latency_ms :: int
  es_context_bytes :: int
  es_model_calls :: int
  es_tool_calls :: int
  es_resource_units :: int
  es_provenance :: "pydict list"

text \<open>The sort key of an evidence requirement. An identifier that is neither text nor absent, or
  an age that is not an integer, is refused by the schema of the graph.\<close>

definition requirement_key :: "pydict \<Rightarrow> (ustring \<times> int) res" where
  "requirement_key d =
     ebind (case dict_get d ''evidence_id'' of VStr s \<Rightarrow> Inr s | VNone \<Rightarrow> Inr (lit ''None'') | _ \<Rightarrow> raise TypeError ''evidence_id'') (\<lambda>i.
     ebind (case dict_find d ''max_age_seconds'' of None \<Rightarrow> Inr 0 | Some (VInt n) \<Rightarrow> Inr n | _ \<Rightarrow> raise TypeError ''max_age_seconds'') (\<lambda>n.
     Inr (i, n)))"

text \<open>Bytes in the order of their values.\<close>

definition canonical_key :: "pydict \<Rightarrow> int list res" where
  "canonical_key d = ebind (canonical_bytes (VDict d)) (\<lambda>b. Inr (map of_char b))"

definition build_synapse_edge :: "env \<Rightarrow> edge_spec \<Rightarrow> pydict res" where
  "build_synapse_edge E s =
     ebind (sort_by requirement_key (es_evidence_requirements s)) (\<lambda>requirements.
     ebind (sort_by canonical_key (es_preconditions s)) (\<lambda>preconditions.
     ebind (sort_by canonical_key (es_postconditions s)) (\<lambda>postconditions.
     ebind (sort_by canonical_key (es_provenance s)) (\<lambda>provenance.
     let edge = mk_dict [(''from_node_id'', VStr (es_from_node_id s)), (''to_node_id'', VStr (es_to_node_id s)),
           (''capability_id'', VStr (es_capability_id s)), (''subsystem'', VStr (es_subsystem s)),
           (''transition_kind'', vlit (transition_value (es_transition_kind s))),
           (''authority'', VDict (mk_dict [
              (''required_authority_ids'', VList (map VStr (sort (remdups (es_required_authority_ids s))))),
              (''production_authority'', VBool (es_production_authority s))])),
           (''evidence_requirements'', VList (map VDict requirements)),
           (''preconditions'', VList (map VDict preconditions)),
           (''postconditions'', VList (map VDict postconditions)),
           (''verifier'', VDict (mk_dict [(''verifier_id'', opt_str (es_verifier_id s)), (''required'', VBool (es_verifier_required s))])),
           (''reversibility'', VDict (mk_dict [(''mode'', VStr (es_reversibility s)),
              (''rollback_edge_id'', opt_str (es_rollback_edge_id s))])),
           (''blast_radius'', vlit (blast_value (es_blast_radius s))),
           (''cost'', VDict (mk_dict [(''latency_ms'', VInt (es_latency_ms s)), (''context_bytes'', VInt (es_context_bytes s)),
              (''model_calls'', VInt (es_model_calls s)), (''tool_calls'', VInt (es_tool_calls s)),
              (''resource_units'', VInt (es_resource_units s))])),
           (''provenance'', VList (map VDict provenance))] in
     ebind (content_identity E ''synapse-edge:'' ''synapse-edge-identity-v1'' (edge_identity_core edge)) (\<lambda>edge_id.
     Inr ((tkey ''edge_id'', VStr edge_id) # edge))))))"

section \<open>Graphs\<close>

definition synapse_graph_digest :: "env \<Rightarrow> pydict \<Rightarrow> ustring res" where
  "synapse_graph_digest E graph = digest_object E (VDict (dict_pop graph ''graph_id'')) (lit ''synapse-graph-v1'')"

text \<open>\<open>{x[k]: x for x in xs}\<close>\<close>

definition index_by :: "string \<Rightarrow> pyval list \<Rightarrow> (ustring \<times> pyval) list res" where
  "index_by k xs =
     ebind (map_res (\<lambda>x. text_item x k) xs) (\<lambda>ids. Inr (fold (\<lambda>(i, x) d. AList.update i x d) (zip ids xs) []))"

definition check_node :: "env \<Rightarrow> pyval \<Rightarrow> pyval \<Rightarrow> unit res" where
  "check_node E tenant_id node =
     ebind (item node ''kind'') (\<lambda>kind.
     ebind (item node ''ref'') (\<lambda>ref.
     ebind (item node ''label'') (\<lambda>label.
     ebind (item node ''truth_status'') (\<lambda>truth_status.
     ebind (dict_item node ''attributes'') (\<lambda>attributes.
     ebind (build_synapse_node E tenant_id kind ref label truth_status attributes) (\<lambda>expected.
     ebind (field expected ''node_id'') (\<lambda>expected_node_id.
     ebind (item node ''node_id'') (\<lambda>node_id.
     ensure (py_eq node_id expected_node_id) SynapseGraphError ''Synapse node identity mismatch'' (Inr ())))))))))"

text \<open>The production and verifier rules of one edge.\<close>

definition check_edge_authority :: "pyval \<Rightarrow> unit res" where
  "check_edge_authority edge =
     ebind (text_item edge ''transition_kind'') (\<lambda>kind.
     ebind (item2 edge ''authority'' ''production_authority'') (\<lambda>production.
     ebind (if kind = lit ''production_mutation''
            then ensure (truthy production) SynapseGraphError ''production edge lacks production authority requirement'' (Inr ())
            else ensure (\<not> truthy production) SynapseGraphError ''non-production edge requests production authority'' (Inr ())) (\<lambda>_.
     if kind \<in> {lit ''disposable_mutation'', lit ''production_mutation''} then
       ebind (item2 edge ''verifier'' ''required'') (\<lambda>required.
       ensure (truthy required) SynapseGraphError ''mutation edge requires an explicit verifier''
       (ebind (item2 edge ''verifier'' ''verifier_id'') (\<lambda>verifier_id.
        ensure (verifier_id \<noteq> VNone) SynapseGraphError ''mutation edge requires an explicit verifier'' (Inr ()))))
     else Inr ())))"

text \<open>The rollback rules of one edge.\<close>

definition check_edge_rollback :: "(ustring \<times> pyval) list \<Rightarrow> pyval \<Rightarrow> unit res" where
  "check_edge_rollback edge_by_id edge =
     ebind (ebind (item edge ''reversibility'') (\<lambda>r. text_item r ''mode'')) (\<lambda>mode.
     ebind (item2 edge ''reversibility'' ''rollback_edge_id'') (\<lambda>rollback_edge_id.
     ensure (\<not> (mode \<in> {lit ''automatic'', lit ''manual''} \<and> rollback_edge_id = VNone)) SynapseGraphError
       ''reversible edge lacks rollback edge''
     (ensure (\<not> (mode \<in> {lit ''not_applicable'', lit ''irreversible''} \<and> rollback_edge_id \<noteq> VNone)) SynapseGraphError
       ''non-reversible edge declares rollback edge''
     (if rollback_edge_id = VNone then Inr ()
      else (case (case rollback_edge_id of VStr i \<Rightarrow> map_of edge_by_id i | _ \<Rightarrow> None) of
        None \<Rightarrow> raise SynapseGraphError ''rollback edge does not exist''
      | Some rollback \<Rightarrow>
          ebind (text_item rollback ''from_node_id'') (\<lambda>back_from.
          ebind (text_item rollback ''to_node_id'') (\<lambda>back_to.
          ebind (text_item rollback ''transition_kind'') (\<lambda>back_kind.
          ebind (text_item edge ''from_node_id'') (\<lambda>edge_from.
          ebind (text_item edge ''to_node_id'') (\<lambda>edge_to.
          ensure (back_from = edge_to \<and> back_to = edge_from \<and> back_kind = lit ''rollback'') SynapseGraphError
            ''rollback edge does not reverse its transition'' (Inr ())))))))))))"

definition check_edge ::
  "env \<Rightarrow> (ustring \<times> pyval) list \<Rightarrow> (ustring \<times> pyval) list \<Rightarrow> pyval \<Rightarrow> unit res" where
  "check_edge E node_by_id edge_by_id edge =
     ebind (text_item edge ''from_node_id'') (\<lambda>from_node_id.
     ebind (text_item edge ''to_node_id'') (\<lambda>to_node_id.
     ensure (map_of node_by_id from_node_id \<noteq> None \<and> map_of node_by_id to_node_id \<noteq> None) SynapseGraphError
       ''Synapse edge endpoint does not exist''
     (ebind (case edge of VDict d \<Rightarrow> content_identity E ''synapse-edge:'' ''synapse-edge-identity-v1'' (edge_identity_core d)
             | _ \<Rightarrow> raise TypeError ''edge'') (\<lambda>expected_edge_id.
      ebind (item edge ''edge_id'') (\<lambda>edge_id.
      ensure (edge_id = VStr expected_edge_id) SynapseGraphError ''Synapse edge identity mismatch''
      (ebind (check_edge_authority edge) (\<lambda>_. check_edge_rollback edge_by_id edge)))))))"

definition verify_synapse_graph :: "env \<Rightarrow> pydict \<Rightarrow> pydict res" where
  "verify_synapse_graph E candidate =
     ebind (catch_as (\<lambda>c. c \<in> {ValidationError, KeyError, TypeError} \<or> is_ValueError c) SynapseGraphError
              ''invalid Synapse graph schema'' (validate E ''synapse-graph'' (VDict candidate))) (\<lambda>_.
     ebind (synapse_graph_digest E candidate) (\<lambda>expected_graph_id.
     ebind (field candidate ''graph_id'') (\<lambda>graph_id.
     ensure (graph_id = VStr expected_graph_id) SynapseGraphError ''Synapse graph identity mismatch''
     (ebind (field candidate ''capabilities'') (\<lambda>capabilities.
      ensure (py_eq capabilities (VDict offline_capabilities)) SynapseGraphError ''Synapse offline capability boundary mismatch''
      (ebind (list_item (VDict candidate) ''nodes'') (\<lambda>nodes.
       ebind (list_item (VDict candidate) ''edges'') (\<lambda>edges.
       ebind (sort_by (\<lambda>n. text_item n ''node_id'') nodes) (\<lambda>ordered_nodes.
       ensure (py_eq (VList nodes) (VList ordered_nodes)) SynapseGraphError ''Synapse nodes are not in canonical order''
       (ebind (sort_by (\<lambda>e. text_item e ''edge_id'') edges) (\<lambda>ordered_edges.
        ensure (py_eq (VList edges) (VList ordered_edges)) SynapseGraphError ''Synapse edges are not in canonical order''
        (ebind (index_by ''node_id'' nodes) (\<lambda>node_by_id.
         ebind (index_by ''edge_id'' edges) (\<lambda>edge_by_id.
         ensure (length node_by_id = length nodes) SynapseGraphError ''duplicate Synapse node identity''
         (ensure (length edge_by_id = length edges) SynapseGraphError ''duplicate Synapse edge identity''
         (ensure (\<not> (max_graph_nodes < length nodes \<or> max_graph_edges < length edges)) SynapseGraphError
           ''Synapse graph limit exceeded''
         (ebind (field candidate ''tenant_id'') (\<lambda>tenant_id.
          ebind (map_res (check_node E tenant_id) nodes) (\<lambda>_.
          ebind (map_res (check_edge E node_by_id edge_by_id) edges) (\<lambda>_.
          Inr (mk_dict [(''ok'', VBool True), (''graph_id'', graph_id), (''tenant_id'', tenant_id),
            (''node_count'', VInt (int (length nodes))), (''edge_count'', VInt (int (length edges))),
            (''production_authority'', VBool False)])))))))))))))))))))))"

definition build_synapse_graph :: "env \<Rightarrow> ustring \<Rightarrow> pydict list \<Rightarrow> pydict list \<Rightarrow> pydict res" where
  "build_synapse_graph E tenant_id nodes edges =
     ebind (sort_by (\<lambda>n. text_item (VDict n) ''node_id'') nodes) (\<lambda>ordered_nodes.
     ebind (sort_by (\<lambda>e. text_item (VDict e) ''edge_id'') edges) (\<lambda>ordered_edges.
     let core = mk_dict [(''protocol'', vlit ''integrity-guardian/synapse-graph/v1''), (''tenant_id'', VStr tenant_id),
       (''nodes'', VList (map VDict ordered_nodes)), (''edges'', VList (map VDict ordered_edges)),
       (''capabilities'', VDict offline_capabilities)] in
     ebind (synapse_graph_digest E core) (\<lambda>graph_id.
     let graph = (tkey ''graph_id'', VStr graph_id) # core in
     ebind (verify_synapse_graph E graph) (\<lambda>_. Inr graph))))"

section \<open>Conditions over facts\<close>

definition condition_holds :: "pyval \<Rightarrow> pydict \<Rightarrow> bool res" where
  "condition_holds condition facts =
     ebind (text_item condition ''fact'') (\<lambda>fact.
     ebind (text_item condition ''operator'') (\<lambda>operator.
     ebind (item condition ''value'') (\<lambda>val.
     let known = map_of facts (KStr fact) in
     if operator = lit ''equals'' then Inr (case known of None \<Rightarrow> False | Some v \<Rightarrow> py_eq v val)
     else if operator = lit ''not_equals'' then Inr (case known of None \<Rightarrow> True | Some v \<Rightarrow> \<not> py_eq v val)
     else if operator = lit ''exists'' then Inr (known \<noteq> None)
     else if operator = lit ''absent'' then Inr (known = None)
     else raise SynapseGraphError ''unsupported condition operator'')))"

text \<open>\<open>None\<close> is a postcondition that cannot hold, as in the source.\<close>

fun apply_postconditions :: "pydict \<Rightarrow> pyval list \<Rightarrow> pydict option res" where
  "apply_postconditions result [] = Inr (Some result)"
| "apply_postconditions result (condition # conditions) =
     ebind (text_item condition ''fact'') (\<lambda>fact.
     ebind (text_item condition ''operator'') (\<lambda>operator.
     ebind (item condition ''value'') (\<lambda>val.
     if operator = lit ''equals'' then apply_postconditions (AList.update (KStr fact) val result) conditions
     else if operator = lit ''absent'' then apply_postconditions (AList.delete (KStr fact) result) conditions
     else if operator = lit ''exists'' then
       (if map_of result (KStr fact) = None then Inr None else apply_postconditions result conditions)
     else if operator = lit ''not_equals'' then
       (if py_eq (case map_of result (KStr fact) of None \<Rightarrow> VNone | Some v \<Rightarrow> v) val then Inr None
        else apply_postconditions result conditions)
     else raise SynapseGraphError ''unsupported condition operator'')))"

section \<open>Scores\<close>

definition transition_rank_of :: "pyval \<Rightarrow> int res" where
  "transition_rank_of edge = ebind (text_item edge ''transition_kind'') (rank_in transition_ranks)"

definition blast_rank_of :: "pyval \<Rightarrow> int res" where
  "blast_rank_of edge = ebind (text_item edge ''blast_radius'') (rank_in blast_ranks)"

definition reversibility_rank_of :: "pyval \<Rightarrow> int res" where
  "reversibility_rank_of edge =
     ebind (item edge ''reversibility'') (\<lambda>r. ebind (text_item r ''mode'') (rank_in reversibility_ranks))"

definition required_authorities :: "pyval \<Rightarrow> ustring list res" where
  "required_authorities edge = ebind (item edge ''authority'') (\<lambda>a. texts_item a ''required_authority_ids'')"

definition authority_count :: "pyval \<Rightarrow> int res" where
  "authority_count edge = ebind (required_authorities edge) (\<lambda>ids. Inr (int (length ids)))"

definition cost_of :: "string \<Rightarrow> pyval \<Rightarrow> int res" where
  "cost_of k edge = ebind (item edge ''cost'') (\<lambda>cost. int_item cost k)"

text \<open>The columns of a score, in order, without the number of hops.\<close>

definition score_columns :: "(pyval \<Rightarrow> int res) list" where
  "score_columns = [transition_rank_of, blast_rank_of, reversibility_rank_of, authority_count, cost_of ''model_calls'',
     cost_of ''tool_calls'', cost_of ''latency_ms'', cost_of ''resource_units'', cost_of ''context_bytes'']"

definition edge_score :: "pyval \<Rightarrow> int list res" where
  "edge_score edge = ebind (map_res (\<lambda>column. column edge) score_columns) (\<lambda>score. Inr (score @ [1]))"

text \<open>The first two columns of a path are maxima, the others sums.\<close>

definition path_score :: "pyval list \<Rightarrow> int list res" where
  "path_score edges =
     (if edges = [] then Inr [0, 0, 0, 0, 0, 0, 0, 0, 0, 0]
      else ebind (map_res (\<lambda>column. map_res column edges) score_columns) (\<lambda>columns.
        Inr (map (\<lambda>ns. Max (set ns)) (take 2 columns) @ map sum_list (drop 2 columns) @ [int (length edges)])))"

definition score_object :: "int list \<Rightarrow> pyval" where
  "score_object score = VDict (mk_dict (zip
     [''transition_rank'', ''blast_radius_rank'', ''reversibility_penalty'', ''authority_count'', ''estimated_model_calls'',
      ''estimated_tool_calls'', ''estimated_latency_ms'', ''resource_units'', ''context_bytes'', ''hop_count''] (map VInt score)))"

definition context_digest :: "env \<Rightarrow> synapse_context \<Rightarrow> ustring res" where
  "context_digest E context =
     (let policy = sc_policy context;
          evidence = map (\<lambda>(i, r). (KStr i, VDict (mk_dict [(''observed_at'', VStr (ev_observed_at r)), (''digest'', VStr (ev_digest r))])))
            (sorted_items (sc_evidence context)) in
      digest_object E (VDict (mk_dict [(''tenant_id'', VStr (sc_tenant_id context)),
        (''current_node_id'', VStr (sc_current_node_id context)), (''as_of'', VStr (sc_as_of context)),
        (''policy'', VDict (mk_dict [
           (''allowed_subsystems'', VList (map VStr (sp_allowed_subsystems policy))),
           (''allowed_capability_ids'', VList (map VStr (sp_allowed_capability_ids policy))),
           (''granted_authority_ids'', VList (map VStr (sp_granted_authority_ids policy))),
           (''max_transition_kind'', vlit (transition_value (sp_max_transition_kind policy))),
           (''max_blast_radius'', vlit (blast_value (sp_max_blast_radius policy))),
           (''production_authority'', VBool False)])),
        (''facts'', VDict (sc_facts context)), (''evidence'', VDict evidence)])) (lit ''synapse-context-v1''))"

end
