(* ===== verification/SynapseKernel.thy ===== *)
theory SynapseKernel
  imports SynapseGraph
begin

text \<open>
  \<open>synapse.py\<close>, the class \<open>SynapseKernel\<close>: the indexes of a verified graph, the availability of an
  edge under a context, the questions about location, edges and moves, bounded route planning,
  simulation of a planned route and the bounded slice of capabilities around a node. The two
  searches are loops that end when their queue is empty; a search that never ended would be the
  value \<open>None\<close>.
\<close>

section \<open>The kernel\<close>

record synapse_kernel =
  sk_graph :: pydict
  sk_nodes :: "(ustring \<times> pyval) list"
  sk_edges :: "(ustring \<times> pyval) list"
  sk_outbound :: "(ustring \<times> pyval list) list"
  sk_direct :: "((ustring \<times> ustring) \<times> pyval list) list"

text \<open>\<open>d.get(k, ())\<close>\<close>

definition group_of :: "('k \<times> 'v list) list \<Rightarrow> 'k \<Rightarrow> 'v list" where
  "group_of d k = (case map_of d k of None \<Rightarrow> [] | Some xs \<Rightarrow> xs)"

text \<open>\<open>d.setdefault(key(x), []).append(x)\<close> for the elements of a list.\<close>

definition group_by :: "('v \<Rightarrow> 'k res) \<Rightarrow> 'v list \<Rightarrow> ('k \<times> 'v list) list res" where
  "group_by key xs =
     ebind (map_res key xs) (\<lambda>ks. Inr (fold (\<lambda>(k, x) d. AList.update k (group_of d k @ [x]) d) (zip ks xs) []))"

definition selection_key :: "pyval \<Rightarrow> (int list \<times> ustring) res" where
  "selection_key edge = ebind (edge_score edge) (\<lambda>score. ebind (text_item edge ''edge_id'') (\<lambda>i. Inr (score, i)))"

definition sort_groups :: "('k \<times> pyval list) list \<Rightarrow> ('k \<times> pyval list) list res" where
  "sort_groups d = map_res (\<lambda>(k, es). ebind (sort_by selection_key es) (\<lambda>sorted_es. Inr (k, sorted_es))) d"

definition make_kernel :: "env \<Rightarrow> pydict \<Rightarrow> synapse_kernel res" where
  "make_kernel E graph =
     ebind (verify_synapse_graph E graph) (\<lambda>_.
     ebind (list_item (VDict graph) ''nodes'') (\<lambda>nodes.
     ebind (index_by ''node_id'' nodes) (\<lambda>node_index.
     ebind (list_item (VDict graph) ''edges'') (\<lambda>edges.
     ebind (index_by ''edge_id'' edges) (\<lambda>edge_index.
     ebind (group_by (\<lambda>e. text_item e ''from_node_id'') edges) (\<lambda>outbound.
     ebind (group_by (\<lambda>e. ebind (text_item e ''from_node_id'') (\<lambda>a. ebind (text_item e ''to_node_id'') (\<lambda>b. Inr (a, b)))) edges) (\<lambda>direct.
     ebind (sort_groups outbound) (\<lambda>sorted_outbound.
     ebind (sort_groups direct) (\<lambda>sorted_direct.
     Inr \<lparr>sk_graph = graph, sk_nodes = node_index, sk_edges = edge_index, sk_outbound = sorted_outbound,
       sk_direct = sorted_direct\<rparr>)))))))))"

definition kernel_graph_id :: "synapse_kernel \<Rightarrow> ustring res" where
  "kernel_graph_id K = text_item (VDict (sk_graph K)) ''graph_id''"

definition validate_context :: "synapse_kernel \<Rightarrow> synapse_context \<Rightarrow> unit res" where
  "validate_context K context =
     ebind (field (sk_graph K) ''tenant_id'') (\<lambda>tenant_id.
     ensure (tenant_id = VStr (sc_tenant_id context)) SynapsePolicyError ''cross-tenant Synapse context''
     (ensure (map_of (sk_nodes K) (sc_current_node_id context) \<noteq> None) SynapsePolicyError
        ''current Synapse node does not exist'' (Inr ())))"

definition facts_digest :: "env \<Rightarrow> pydict \<Rightarrow> ustring res" where
  "facts_digest E facts = digest_object E (VDict facts) (lit ''synapse-facts-v1'')"

section \<open>Availability\<close>

text \<open>The reasons against an edge that come from the policy alone.\<close>

definition policy_reasons :: "synapse_policy \<Rightarrow> pyval \<Rightarrow> ustring list res" where
  "policy_reasons policy edge =
     ebind (if lit ''*'' \<in> set (sp_allowed_subsystems policy) then Inr []
            else ebind (text_item edge ''subsystem'') (\<lambda>s.
              Inr (if s \<in> set (sp_allowed_subsystems policy) then [] else [lit ''policy:subsystem-denied'']))) (\<lambda>subsystem.
     ebind (if lit ''*'' \<in> set (sp_allowed_capability_ids policy) then Inr []
            else ebind (text_item edge ''capability_id'') (\<lambda>s.
              Inr (if s \<in> set (sp_allowed_capability_ids policy) then [] else [lit ''policy:capability-denied'']))) (\<lambda>capability.
     ebind (transition_rank_of edge) (\<lambda>rank.
     ebind (rank_in transition_ranks (lit (transition_value (sp_max_transition_kind policy)))) (\<lambda>max_rank.
     ebind (blast_rank_of edge) (\<lambda>blast.
     ebind (rank_in blast_ranks (lit (blast_value (sp_max_blast_radius policy)))) (\<lambda>max_blast.
     ebind (required_authorities edge) (\<lambda>required.
     ebind (item2 edge ''authority'' ''production_authority'') (\<lambda>production.
     ebind (list_item edge ''provenance'') (\<lambda>provenance.
     ebind (map_res (\<lambda>p. item p ''class'') provenance) (\<lambda>classes.
     Inr (subsystem @ capability @
       (if max_rank < rank then [lit ''policy:transition-kind-denied''] else []) @
       (if max_blast < blast then [lit ''policy:blast-radius-denied''] else []) @
       map (\<lambda>i. lit ''authority:missing:'' @ i) (missing_texts required (sp_granted_authority_ids policy)) @
       (if truthy production then [lit ''authority:production-unavailable''] else []) @
       (if vlit ''DECLARED'' \<in> set classes then [] else [lit ''provenance:not-declared'']))))))))))))"

text \<open>One requirement of evidence. Ages are whole microseconds here; the schema bounds the
  permitted age, and below that bound the comparison of the source, in floating-point seconds, is exact.\<close>

definition evidence_reason :: "synapse_context \<Rightarrow> datetime \<Rightarrow> pyval \<Rightarrow> ustring list res" where
  "evidence_reason context as_of requirement =
     ebind (text_item requirement ''evidence_id'') (\<lambda>evidence_id.
     case map_of (sc_evidence context) evidence_id of
       None \<Rightarrow> Inr [lit ''evidence:missing:'' @ evidence_id]
     | Some r \<Rightarrow>
         ebind (synapse_time (VStr (ev_observed_at r)) ''evidence.observed_at'') (\<lambda>observed_at.
         let age = instant as_of - instant observed_at in
         if age < 0 then Inr [lit ''evidence:future:'' @ evidence_id]
         else ebind (int_item requirement ''max_age_seconds'') (\<lambda>max_age.
           Inr (if max_age * 1000000 < age then [lit ''evidence:stale:'' @ evidence_id] else []))))"

definition precondition_reason :: "pydict \<Rightarrow> pyval \<Rightarrow> ustring list res" where
  "precondition_reason facts condition =
     ebind (condition_holds condition facts) (\<lambda>holds.
     if holds then Inr [] else ebind (text_item condition ''fact'') (\<lambda>fact. Inr [lit ''precondition:failed:'' @ fact]))"

definition availability :: "pyval \<Rightarrow> synapse_context \<Rightarrow> pydict \<Rightarrow> (bool \<times> ustring list) res" where
  "availability edge context facts =
     ebind (policy_reasons (sc_policy context) edge) (\<lambda>policy.
     ebind (synapse_time (VStr (sc_as_of context)) ''as_of'') (\<lambda>as_of.
     ebind (list_item edge ''evidence_requirements'') (\<lambda>requirements.
     ebind (map_res (evidence_reason context as_of) requirements) (\<lambda>evidence.
     ebind (list_item edge ''preconditions'') (\<lambda>preconditions.
     ebind (map_res (precondition_reason facts) preconditions) (\<lambda>failed.
     let reasons = policy @ concat evidence @ concat failed in Inr (reasons = [], reasons)))))))"

text \<open>The edge may be taken with these facts, and the facts after it.\<close>

definition edge_effect :: "pyval \<Rightarrow> synapse_context \<Rightarrow> pydict \<Rightarrow> pydict option res" where
  "edge_effect edge context facts =
     ebind (availability edge context facts) (\<lambda>(available, _).
     if \<not> available then Inr None
     else ebind (list_item edge ''postconditions'') (\<lambda>conditions. apply_postconditions facts conditions))"

section \<open>Questions\<close>

definition where_am_i :: "env \<Rightarrow> synapse_kernel \<Rightarrow> synapse_context \<Rightarrow> pydict res" where
  "where_am_i E K context =
     ebind (validate_context K context) (\<lambda>_.
     ebind (case map_of (sk_nodes K) (sc_current_node_id context) of None \<Rightarrow> raise KeyError ''node'' | Some n \<Rightarrow> Inr n) (\<lambda>node.
     ebind (kernel_graph_id K) (\<lambda>graph_id.
     ebind (facts_digest E (sc_facts context)) (\<lambda>digest.
     Inr (mk_dict [(''protocol'', vlit ''integrity-guardian/synapse-location/v1''), (''graph_id'', VStr graph_id),
       (''tenant_id'', VStr (sc_tenant_id context)), (''as_of'', VStr (sc_as_of context)), (''node'', node),
       (''facts_digest'', VStr digest), (''control_plane_calls'', control_plane_calls), (''execution_authority'', VBool False)])))))"

definition explain_edge :: "synapse_kernel \<Rightarrow> synapse_context \<Rightarrow> ustring \<Rightarrow> pydict option \<Rightarrow> pydict res" where
  "explain_edge K context edge_id facts =
     ebind (validate_context K context) (\<lambda>_.
     case map_of (sk_edges K) edge_id of
       None \<Rightarrow> raise SynapseGraphError ''invented or unknown Synapse edge''
     | Some edge \<Rightarrow>
         ebind (availability edge context (case facts of None \<Rightarrow> sc_facts context | Some f \<Rightarrow> f)) (\<lambda>(available, reasons).
         ebind (kernel_graph_id K) (\<lambda>graph_id.
         Inr (mk_dict [(''protocol'', vlit ''integrity-guardian/synapse-edge-explanation/v1''), (''graph_id'', VStr graph_id),
           (''edge'', edge), (''available'', VBool available),
           (''reason_codes'', VList (map VStr (if reasons = [] then [lit ''available''] else reasons))),
           (''control_plane_calls'', control_plane_calls), (''execution_authority'', VBool False)]))))"

definition move_of :: "synapse_context \<Rightarrow> pyval \<Rightarrow> pyval list res" where
  "move_of context edge =
     ebind (availability edge context (sc_facts context)) (\<lambda>(available, _).
     if \<not> available then Inr []
     else ebind (map_res (\<lambda>k. ebind (item edge k) (\<lambda>v. Inr (k, v)))
       [''edge_id'', ''capability_id'', ''to_node_id'', ''transition_kind'', ''blast_radius'', ''cost'']) (\<lambda>entries.
       Inr [VDict (mk_dict entries)]))"

definition available_moves :: "synapse_kernel \<Rightarrow> synapse_context \<Rightarrow> pydict res" where
  "available_moves K context =
     ebind (validate_context K context) (\<lambda>_.
     ebind (map_res (move_of context) (group_of (sk_outbound K) (sc_current_node_id context))) (\<lambda>moves.
     ebind (kernel_graph_id K) (\<lambda>graph_id.
     Inr (mk_dict [(''protocol'', vlit ''integrity-guardian/synapse-available-moves/v1''), (''graph_id'', VStr graph_id),
       (''tenant_id'', VStr (sc_tenant_id context)), (''current_node_id'', VStr (sc_current_node_id context)),
       (''moves'', VList (concat moves)), (''control_plane_calls'', control_plane_calls), (''execution_authority'', VBool False)]))))"

section \<open>Route receipts\<close>

definition edges_by_id :: "synapse_kernel \<Rightarrow> ustring list \<Rightarrow> pyval list res" where
  "edges_by_id K edge_ids =
     map_res (\<lambda>i. case map_of (sk_edges K) i of None \<Rightarrow> raise KeyError ''edge'' | Some e \<Rightarrow> Inr e) edge_ids"

definition verifier_entry :: "pyval \<Rightarrow> pyval list res" where
  "verifier_entry edge =
     ebind (item2 edge ''verifier'' ''required'') (\<lambda>required.
     if truthy required then ebind (item2 edge ''verifier'' ''verifier_id'') (\<lambda>v. Inr [v]) else Inr [])"

definition rollback_entry :: "pyval \<Rightarrow> pyval list res" where
  "rollback_entry edge =
     ebind (item2 edge ''reversibility'' ''rollback_edge_id'') (\<lambda>v. Inr (if v \<noteq> VNone then [v] else []))"

definition route_core ::
  "synapse_context \<Rightarrow> ustring \<Rightarrow> ustring \<Rightarrow> ustring \<Rightarrow> ustring list \<Rightarrow> ustring list \<Rightarrow> int list \<Rightarrow> pyval list \<Rightarrow> pyval list \<Rightarrow> pydict" where
  "route_core context graph_id digest target_node_id edge_ids node_ids score verifiers rollbacks =
     mk_dict [(''protocol'', vlit ''integrity-guardian/synapse-route/v1''), (''graph_id'', VStr graph_id),
       (''tenant_id'', VStr (sc_tenant_id context)), (''context_digest'', VStr digest),
       (''start_node_id'', VStr (sc_current_node_id context)), (''target_node_id'', VStr target_node_id),
       (''edge_ids'', VList (map VStr edge_ids)), (''node_ids'', VList (map VStr node_ids)),
       (''score'', score_object score), (''verifier_ids'', VList verifiers), (''rollback_edge_ids'', VList rollbacks),
       (''control_plane_calls'', control_plane_calls), (''execution_authority'', VBool False)]"

definition route_receipt ::
  "env \<Rightarrow> synapse_kernel \<Rightarrow> synapse_context \<Rightarrow> ustring \<Rightarrow> ustring list \<Rightarrow> ustring list \<Rightarrow> pydict res" where
  "route_receipt E K context target_node_id edge_ids node_ids =
     ebind (edges_by_id K edge_ids) (\<lambda>selected_edges.
     ebind (path_score selected_edges) (\<lambda>score.
     ebind (kernel_graph_id K) (\<lambda>graph_id.
     ebind (context_digest E context) (\<lambda>digest.
     ebind (map_res verifier_entry selected_edges) (\<lambda>verifiers.
     ebind (map_res rollback_entry (rev selected_edges)) (\<lambda>rollbacks.
     let core = route_core context graph_id digest target_node_id edge_ids node_ids score (concat verifiers) (concat rollbacks) in
     ebind (digest_object E (VDict core) (lit ''synapse-route-v1'')) (\<lambda>route_id.
     let route = (tkey ''route_id'', VStr route_id) # core in
     ebind (validate E ''synapse-route'' (VDict route)) (\<lambda>_. Inr route))))))))"

section \<open>Planning\<close>

text \<open>An entry of the priority queue.\<close>

record route_entry =
  re_score :: "int list"
  re_tie :: "ustring list"
  re_depth :: int
  re_node :: ustring
  re_facts :: pydict
  re_edge_ids :: "ustring list"
  re_node_ids :: "ustring list"

type_synonym best_table = "ustring \<times> ustring \<times> int \<Rightarrow> (int list \<times> ustring list) option"

text \<open>
  The heap is the list of its entries. \<open>heappop\<close> takes an entry that is least in the order of the
  tuples; two entries of one search never agree in their first two components, so later
  components, the facts among them, are never compared.
\<close>

definition entry_key :: "route_entry \<Rightarrow> int list \<times> ustring list" where
  "entry_key e = (re_score e, re_tie e)"

definition least_entry :: "route_entry \<Rightarrow> route_entry list \<Rightarrow> route_entry" where
  "least_entry e queue = fold (\<lambda>x least. if entry_key x < entry_key least then x else least) queue e"

text \<open>A path to the same state that is at least as good is known already.\<close>

definition dominated :: "best_table \<Rightarrow> ustring \<times> ustring \<times> int \<Rightarrow> int list \<times> ustring list \<Rightarrow> bool" where
  "dominated best state_key decision_key =
     (case best state_key of None \<Rightarrow> False | Some previous \<Rightarrow> previous \<le> decision_key)"

text \<open>One turn of the inner loop of the search.\<close>

definition expand_edge ::
  "env \<Rightarrow> synapse_kernel \<Rightarrow> synapse_context \<Rightarrow> route_entry \<Rightarrow> pyval \<Rightarrow>
   best_table \<times> route_entry list \<Rightarrow> (best_table \<times> route_entry list) res" where
  "expand_edge E K context e edge = (\<lambda>(best, queue).
     ebind (edge_effect edge context (re_facts e)) (\<lambda>effect.
     case effect of
       None \<Rightarrow> Inr (best, queue)
     | Some next_facts \<Rightarrow>
         ebind (text_item edge ''edge_id'') (\<lambda>edge_id.
         ebind (text_item edge ''to_node_id'') (\<lambda>to_node_id.
         let next_edge_ids = re_edge_ids e @ [edge_id]; next_node_ids = re_node_ids e @ [to_node_id] in
         ebind (edges_by_id K next_edge_ids) (\<lambda>selected_edges.
         ebind (path_score selected_edges) (\<lambda>next_score.
         ebind (facts_digest E next_facts) (\<lambda>digest.
         let state_key = (to_node_id, digest, re_depth e + 1); decision_key = (next_score, next_edge_ids) in
         if dominated best state_key decision_key then Inr (best, queue)
         else Inr (best(state_key \<mapsto> decision_key),
           queue @ [\<lparr>re_score = next_score, re_tie = next_edge_ids, re_depth = re_depth e + 1, re_node = to_node_id,
             re_facts = next_facts, re_edge_ids = next_edge_ids, re_node_ids = next_node_ids\<rparr>]))))))))"

text \<open>A loop whose body may raise.\<close>

fun fold_res :: "('a \<Rightarrow> 's \<Rightarrow> 's res) \<Rightarrow> 'a list \<Rightarrow> 's \<Rightarrow> 's res" where
  "fold_res f [] s = Inr s"
| "fold_res f (x # xs) s = ebind (f x s) (fold_res f xs)"

text \<open>The loop of the search; its value is the entry that reached the target.\<close>

partial_function (option) route_search ::
  "env \<Rightarrow> synapse_kernel \<Rightarrow> synapse_context \<Rightarrow> ustring \<Rightarrow> int \<Rightarrow> int \<Rightarrow> int \<Rightarrow> best_table \<Rightarrow> route_entry list \<Rightarrow>
   route_entry res option" where
  "route_search E K context target max_hops max_expansions expansions best queue =
     (case queue of
        [] \<Rightarrow> Some (raise SynapseRouteError ''no policy-compliant route within bounded search'')
      | first # others \<Rightarrow>
          let e = least_entry first others; rest = remove1 e queue in
          if re_node e = target then Some (Inr e)
          else if max_hops \<le> re_depth e \<or> max_expansions \<le> expansions
          then route_search E K context target max_hops max_expansions expansions best rest
          else (case fold_res (expand_edge E K context e) (group_of (sk_outbound K) (re_node e)) (best, rest) of
                  Inl x \<Rightarrow> Some (Inl x)
                | Inr (best', queue') \<Rightarrow>
                    route_search E K context target max_hops max_expansions (expansions + 1) best' queue'))"

definition start_entry :: "synapse_context \<Rightarrow> route_entry" where
  "start_entry context = \<lparr>re_score = [0, 0, 0, 0, 0, 0, 0, 0, 0, 0], re_tie = [], re_depth = 0,
     re_node = sc_current_node_id context, re_facts = sc_facts context, re_edge_ids = [],
     re_node_ids = [sc_current_node_id context]\<rparr>"

text \<open>The one-hop edge that needs no search, when there is one.\<close>

definition direct_route :: "synapse_kernel \<Rightarrow> synapse_context \<Rightarrow> ustring \<Rightarrow> pyval option res" where
  "direct_route K context target_node_id =
     ebind (map_res (\<lambda>edge. ebind (edge_effect edge context (sc_facts context)) (\<lambda>effect.
              Inr (case effect of None \<Rightarrow> [] | Some _ \<Rightarrow> [edge])))
            (group_of (sk_direct K) (sc_current_node_id context, target_node_id))) (\<lambda>candidates.
     ebind (sort_by selection_key (concat candidates)) (\<lambda>ordered.
     case ordered of
       [] \<Rightarrow> Inr None
     | selected # _ \<Rightarrow>
         ebind (edge_score selected) (\<lambda>score. Inr (if take 4 score = [0, 0, 0, 0] then Some selected else None))))"

definition plan_route ::
  "env \<Rightarrow> synapse_kernel \<Rightarrow> synapse_context \<Rightarrow> ustring \<Rightarrow> int \<Rightarrow> int \<Rightarrow> pydict res option" where
  "plan_route E K context target_node_id max_hops max_expansions =
     (case ebind (validate_context K context) (\<lambda>_.
           ensure (map_of (sk_nodes K) target_node_id \<noteq> None) SynapseRouteError ''target Synapse node does not exist''
           (ensure (0 \<le> max_hops \<and> max_hops \<le> max_route_hops) SynapseRouteError ''max_hops is outside the bounded kernel limit''
           (ensure (1 \<le> max_expansions \<and> max_expansions \<le> max_route_expansions) SynapseRouteError
             ''max_expansions is outside the bounded kernel limit''
           (if target_node_id = sc_current_node_id context \<or> max_hops \<le> 0 then Inr None
            else direct_route K context target_node_id)))) of
        Inl x \<Rightarrow> Some (Inl x)
      | Inr direct \<Rightarrow>
          if target_node_id = sc_current_node_id context
          then Some (route_receipt E K context target_node_id [] [sc_current_node_id context])
          else (case direct of
            Some selected \<Rightarrow>
              Some (ebind (text_item selected ''edge_id'') (\<lambda>edge_id.
                route_receipt E K context target_node_id [edge_id] [sc_current_node_id context, target_node_id]))
          | None \<Rightarrow>
              map_option (\<lambda>r. ebind r (\<lambda>e. route_receipt E K context target_node_id (re_edge_ids e) (re_node_ids e)))
                (route_search E K context target_node_id max_hops max_expansions 0 Map.empty [start_entry context])))"

section \<open>Simulation\<close>

definition list_get :: "'a list \<Rightarrow> nat \<Rightarrow> 'a res" where
  "list_get xs i = (if i < length xs then Inr (xs ! i) else raise IndexError ''list index out of range'')"

definition simulate_edge ::
  "env \<Rightarrow> synapse_kernel \<Rightarrow> synapse_context \<Rightarrow> ustring list \<Rightarrow> nat \<times> ustring \<Rightarrow>
   pydict \<times> ustring \<times> pyval list \<Rightarrow> (pydict \<times> ustring \<times> pyval list) res" where
  "simulate_edge E K context node_ids = (\<lambda>(index, edge_id) (facts, current_node_id, trace).
     case map_of (sk_edges K) edge_id of
       None \<Rightarrow> raise SynapseRouteError ''route contains invented edge''
     | Some edge \<Rightarrow>
         ebind (text_item edge ''from_node_id'') (\<lambda>from_node_id.
         ensure (from_node_id = current_node_id) SynapseRouteError ''route edges are not contiguous''
         (ebind (list_get node_ids index) (\<lambda>here.
          ebind (list_get node_ids (index + 1)) (\<lambda>there.
          ebind (text_item edge ''to_node_id'') (\<lambda>to_node_id.
          ensure (here = from_node_id \<and> there = to_node_id) SynapseRouteError ''route node sequence does not match its edges''
          (ebind (availability edge context facts) (\<lambda>(available, _).
           ensure available SynapseRouteError ''route edge is unavailable''
           (ebind (ebind (list_item edge ''postconditions'') (apply_postconditions facts)) (\<lambda>effect.
            case effect of
              None \<Rightarrow> raise SynapseRouteError ''route postcondition cannot be simulated''
            | Some next_facts \<Rightarrow>
                ebind (item2 edge ''verifier'' ''verifier_id'') (\<lambda>verifier_id.
                ebind (item2 edge ''reversibility'' ''rollback_edge_id'') (\<lambda>rollback_edge_id.
                ebind (facts_digest E next_facts) (\<lambda>digest.
                Inr (next_facts, to_node_id, trace @ [VDict (mk_dict [(''index'', VInt (int index)), (''edge_id'', VStr edge_id),
                  (''from_node_id'', VStr from_node_id), (''to_node_id'', VStr to_node_id), (''verifier_id'', verifier_id),
                  (''rollback_edge_id'', rollback_edge_id), (''facts_digest'', VStr digest)])]))))))))))))))"

definition simulation_core ::
  "synapse_context \<Rightarrow> ustring \<Rightarrow> pyval \<Rightarrow> ustring \<Rightarrow> ustring \<Rightarrow> ustring \<Rightarrow> pyval list \<Rightarrow> pyval \<Rightarrow> pydict" where
  "simulation_core context graph_id route_id target_node_id start_facts_digest final_facts_digest trace rollback_edge_ids =
     mk_dict [(''protocol'', vlit ''integrity-guardian/synapse-simulation/v1''), (''graph_id'', VStr graph_id),
       (''route_id'', route_id), (''tenant_id'', VStr (sc_tenant_id context)),
       (''start_node_id'', VStr (sc_current_node_id context)), (''target_node_id'', VStr target_node_id),
       (''start_facts_digest'', VStr start_facts_digest), (''final_facts_digest'', VStr final_facts_digest),
       (''trace'', VList trace), (''rollback_edge_ids'', rollback_edge_ids), (''status'', vlit ''simulated''),
       (''execution_performed'', VBool False), (''production_mutated'', VBool False),
       (''control_plane_calls'', control_plane_calls)]"

definition simulate_route :: "env \<Rightarrow> synapse_kernel \<Rightarrow> synapse_context \<Rightarrow> pydict \<Rightarrow> pydict res" where
  "simulate_route E K context candidate =
     ebind (validate_context K context) (\<lambda>_.
     ebind (catch_as (\<lambda>c. c = ValidationError) SynapseRouteError ''invalid route schema''
              (validate E ''synapse-route'' (VDict candidate))) (\<lambda>_.
     ebind (field candidate ''route_id'') (\<lambda>route_id.
     ebind (digest_object E (VDict (dict_pop candidate ''route_id'')) (lit ''synapse-route-v1'')) (\<lambda>expected_id.
     ensure (route_id = VStr expected_id) SynapseRouteError ''route identity mismatch''
     (ebind (field candidate ''graph_id'') (\<lambda>graph_id.
      ebind (kernel_graph_id K) (\<lambda>own_graph_id.
      ensure (graph_id = VStr own_graph_id) SynapseRouteError ''route belongs to another graph''
      (ebind (field candidate ''tenant_id'') (\<lambda>tenant_id.
       ensure (tenant_id = VStr (sc_tenant_id context)) SynapseRouteError ''route belongs to another tenant''
       (ebind (field candidate ''context_digest'') (\<lambda>claimed_context.
        ebind (context_digest E context) (\<lambda>own_context.
        ensure (claimed_context = VStr own_context) SynapseRouteError ''route belongs to another policy or evidence context''
        (ebind (field candidate ''start_node_id'') (\<lambda>start.
         ensure (start = VStr (sc_current_node_id context)) SynapseRouteError ''route does not start at the current node''
         (ebind (texts_item (VDict candidate) ''node_ids'') (\<lambda>node_ids.
          ebind (texts_item (VDict candidate) ''edge_ids'') (\<lambda>edge_ids.
          ensure (length node_ids = length edge_ids + 1) SynapseRouteError ''route node and edge counts are inconsistent''
          (ebind (list_get node_ids 0) (\<lambda>first.
           ensure (first = sc_current_node_id context) SynapseRouteError ''route node sequence has the wrong start''
           (ebind (text_item (VDict candidate) ''target_node_id'') (\<lambda>target_node_id.
            ebind (catch_as (\<lambda>c. c = KeyError) SynapseRouteError ''route contains invented edge''
                     (route_receipt E K context target_node_id edge_ids node_ids)) (\<lambda>expected_route.
            ebind (canonical_bytes (VDict candidate)) (\<lambda>candidate_bytes.
            ebind (canonical_bytes (VDict expected_route)) (\<lambda>expected_bytes.
            ensure (candidate_bytes = expected_bytes) SynapseRouteError ''route semantic receipt mismatch''
            (ebind (facts_digest E (sc_facts context)) (\<lambda>start_facts_digest.
             ebind (fold_res (simulate_edge E K context node_ids) (enumerate 0 edge_ids)
                      (sc_facts context, sc_current_node_id context, [])) (\<lambda>(facts, current_node_id, trace).
             ensure (current_node_id = target_node_id) SynapseRouteError ''route target does not match its edge sequence''
             (ebind (facts_digest E facts) (\<lambda>final_facts_digest.
              ebind (field candidate ''rollback_edge_ids'') (\<lambda>rollback_edge_ids.
              let core = simulation_core context own_graph_id route_id current_node_id start_facts_digest final_facts_digest trace rollback_edge_ids in
              ebind (digest_object E (VDict core) (lit ''synapse-simulation-v1'')) (\<lambda>simulation_id.
              let simulation = (tkey ''simulation_id'', VStr simulation_id) # core in
              ebind (validate E ''synapse-simulation'' (VDict simulation)) (\<lambda>_. Inr simulation))))))))))))))))))))))))))))))))"

section \<open>Slices\<close>

record slice_state =
  ss_nodes :: "ustring list"
  ss_edges :: "ustring list"
  ss_queue :: "(ustring \<times> pydict \<times> int) list"
  ss_truncated :: bool

text \<open>At the depth limit: whether some edge not selected could still be taken; the loop stops at the first.\<close>

fun beyond_limit :: "synapse_context \<Rightarrow> pydict \<Rightarrow> ustring list \<Rightarrow> pyval list \<Rightarrow> bool res" where
  "beyond_limit context facts selected [] = Inr False"
| "beyond_limit context facts selected (edge # edges) =
     ebind (edge_effect edge context facts) (\<lambda>effect.
     case effect of
       None \<Rightarrow> beyond_limit context facts selected edges
     | Some _ \<Rightarrow>
         ebind (text_item edge ''edge_id'') (\<lambda>edge_id.
         if edge_id \<notin> set selected then Inr True else beyond_limit context facts selected edges))"

definition slice_edge ::
  "synapse_context \<Rightarrow> int \<Rightarrow> int \<Rightarrow> pydict \<Rightarrow> int \<Rightarrow> pyval \<Rightarrow> slice_state \<Rightarrow> slice_state res" where
  "slice_edge context max_nodes max_edges facts depth edge s =
     ebind (edge_effect edge context facts) (\<lambda>effect.
     case effect of
       None \<Rightarrow> Inr s
     | Some next_facts \<Rightarrow>
         ebind (text_item edge ''edge_id'') (\<lambda>edge_id.
         ebind (text_item edge ''to_node_id'') (\<lambda>to_node_id.
         if edge_id \<notin> set (ss_edges s) \<and> max_edges \<le> int (length (ss_edges s)) then Inr (s\<lparr>ss_truncated := True\<rparr>)
         else if to_node_id \<notin> set (ss_nodes s) \<and> max_nodes \<le> int (length (ss_nodes s)) then Inr (s\<lparr>ss_truncated := True\<rparr>)
         else Inr (s\<lparr>ss_edges := List.insert edge_id (ss_edges s), ss_nodes := List.insert to_node_id (ss_nodes s),
           ss_queue := ss_queue s @ [(to_node_id, next_facts, depth + 1)]\<rparr>))))"

text \<open>One turn of the loop of the slice, for the entry at the front of the queue.\<close>

definition slice_turn ::
  "env \<Rightarrow> synapse_kernel \<Rightarrow> synapse_context \<Rightarrow> int \<Rightarrow> int \<Rightarrow> int \<Rightarrow> ustring \<Rightarrow> pydict \<Rightarrow> int \<Rightarrow>
   (ustring \<times> ustring \<times> int) list \<Rightarrow> slice_state \<Rightarrow> ((ustring \<times> ustring \<times> int) list \<times> slice_state) res" where
  "slice_turn E K context max_depth max_nodes max_edges node_id facts depth visited s =
     ebind (facts_digest E facts) (\<lambda>digest.
     let state_key = (node_id, digest, depth); outbound = group_of (sk_outbound K) node_id in
     if state_key \<in> set visited then Inr (visited, s)
     else if max_depth \<le> depth then
       ebind (beyond_limit context facts (ss_edges s) outbound) (\<lambda>beyond.
       Inr (state_key # visited, if beyond then s\<lparr>ss_truncated := True\<rparr> else s))
     else ebind (fold_res (slice_edge context max_nodes max_edges facts depth) outbound s) (\<lambda>s'.
       Inr (state_key # visited, s')))"

partial_function (option) slice_search ::
  "env \<Rightarrow> synapse_kernel \<Rightarrow> synapse_context \<Rightarrow> int \<Rightarrow> int \<Rightarrow> int \<Rightarrow> (ustring \<times> ustring \<times> int) list \<Rightarrow> slice_state \<Rightarrow>
   slice_state res option" where
  "slice_search E K context max_depth max_nodes max_edges visited s =
     (case ss_queue s of
        [] \<Rightarrow> Some (Inr s)
      | (node_id, facts, depth) # rest \<Rightarrow>
          (case slice_turn E K context max_depth max_nodes max_edges node_id facts depth visited (s\<lparr>ss_queue := rest\<rparr>) of
             Inl x \<Rightarrow> Some (Inl x)
           | Inr (visited', s') \<Rightarrow> slice_search E K context max_depth max_nodes max_edges visited' s'))"

definition slice_core ::
  "synapse_context \<Rightarrow> ustring \<Rightarrow> int \<Rightarrow> int \<Rightarrow> int \<Rightarrow> pyval list \<Rightarrow> pyval list \<Rightarrow> bool \<Rightarrow> pydict" where
  "slice_core context graph_id max_depth max_nodes max_edges nodes edges truncated =
     mk_dict [(''protocol'', vlit ''integrity-guardian/synapse-capability-slice/v1''), (''graph_id'', VStr graph_id),
       (''tenant_id'', VStr (sc_tenant_id context)), (''current_node_id'', VStr (sc_current_node_id context)),
       (''as_of'', VStr (sc_as_of context)), (''nodes'', VList nodes), (''edges'', VList edges),
       (''bounds'', VDict (mk_dict [(''max_depth'', VInt max_depth), (''max_nodes'', VInt max_nodes), (''max_edges'', VInt max_edges)])),
       (''truncated'', VBool truncated), (''control_plane_calls'', control_plane_calls), (''execution_authority'', VBool False)]"

definition slice_receipt ::
  "env \<Rightarrow> synapse_kernel \<Rightarrow> synapse_context \<Rightarrow> int \<Rightarrow> int \<Rightarrow> int \<Rightarrow> slice_state \<Rightarrow> pydict res" where
  "slice_receipt E K context max_depth max_nodes max_edges s =
     ebind (kernel_graph_id K) (\<lambda>graph_id.
     ebind (map_res (\<lambda>i. case map_of (sk_nodes K) i of None \<Rightarrow> raise KeyError ''node'' | Some n \<Rightarrow> Inr n) (sort (ss_nodes s))) (\<lambda>nodes.
     ebind (edges_by_id K (sort (ss_edges s))) (\<lambda>edges.
     let core = slice_core context graph_id max_depth max_nodes max_edges nodes edges (ss_truncated s) in
     ebind (digest_object E (VDict core) (lit ''synapse-capability-slice-v1'')) (\<lambda>slice_id.
     let capability_slice = (tkey ''slice_id'', VStr slice_id) # core in
     ebind (validate E ''synapse-capability-slice'' (VDict capability_slice)) (\<lambda>_. Inr capability_slice)))))"

definition slice_start :: "synapse_context \<Rightarrow> slice_state" where
  "slice_start context = \<lparr>ss_nodes = [sc_current_node_id context], ss_edges = [],
     ss_queue = [(sc_current_node_id context, sc_facts context, 0)], ss_truncated = False\<rparr>"

definition compile_capability_slice ::
  "env \<Rightarrow> synapse_kernel \<Rightarrow> synapse_context \<Rightarrow> int \<Rightarrow> int \<Rightarrow> int \<Rightarrow> pydict res option" where
  "compile_capability_slice E K context max_depth max_nodes max_edges =
     (case ebind (validate_context K context) (\<lambda>_.
           ensure (0 \<le> max_depth \<and> max_depth \<le> max_route_hops) SynapsePolicyError ''max_depth is outside the bounded kernel limit''
           (ensure (1 \<le> max_nodes \<and> max_nodes \<le> max_slice_nodes) SynapsePolicyError ''max_nodes is outside the bounded kernel limit''
           (ensure (0 \<le> max_edges \<and> max_edges \<le> max_slice_edges) SynapsePolicyError ''max_edges is outside the bounded kernel limit''
             (Inr ())))) of
        Inl x \<Rightarrow> Some (Inl x)
      | Inr _ \<Rightarrow>
          map_option (\<lambda>r. ebind r (slice_receipt E K context max_depth max_nodes max_edges))
            (slice_search E K context max_depth max_nodes max_edges [] (slice_start context)))"

section \<open>Functions of the module\<close>

definition graph_where_am_i :: "env \<Rightarrow> pydict \<Rightarrow> synapse_context \<Rightarrow> pydict res" where
  "graph_where_am_i E graph context = ebind (make_kernel E graph) (\<lambda>K. where_am_i E K context)"

definition graph_available_moves :: "env \<Rightarrow> pydict \<Rightarrow> synapse_context \<Rightarrow> pydict res" where
  "graph_available_moves E graph context = ebind (make_kernel E graph) (\<lambda>K. available_moves K context)"

definition graph_explain_edge :: "env \<Rightarrow> pydict \<Rightarrow> synapse_context \<Rightarrow> ustring \<Rightarrow> pydict res" where
  "graph_explain_edge E graph context edge_id = ebind (make_kernel E graph) (\<lambda>K. explain_edge K context edge_id None)"

definition graph_plan_route :: "env \<Rightarrow> pydict \<Rightarrow> synapse_context \<Rightarrow> ustring \<Rightarrow> int \<Rightarrow> int \<Rightarrow> pydict res option" where
  "graph_plan_route E graph context target_node_id max_hops max_expansions =
     (case make_kernel E graph of Inl x \<Rightarrow> Some (Inl x)
      | Inr K \<Rightarrow> plan_route E K context target_node_id max_hops max_expansions)"

definition graph_simulate_route :: "env \<Rightarrow> pydict \<Rightarrow> synapse_context \<Rightarrow> pydict \<Rightarrow> pydict res" where
  "graph_simulate_route E graph context route = ebind (make_kernel E graph) (\<lambda>K. simulate_route E K context route)"

definition graph_compile_capability_slice :: "env \<Rightarrow> pydict \<Rightarrow> synapse_context \<Rightarrow> int \<Rightarrow> int \<Rightarrow> int \<Rightarrow> pydict res option" where
  "graph_compile_capability_slice E graph context max_depth max_nodes max_edges =
     (case make_kernel E graph of Inl x \<Rightarrow> Some (Inl x)
      | Inr K \<Rightarrow> compile_capability_slice E K context max_depth max_nodes max_edges)"

end
