(* ===== verification/SynapseRoutes.thy ===== *)
theory SynapseRoutes
  imports SynapseKernel "HOL-Library.Multiset"
begin

text \<open>
  What the kernel of \<open>synapse.py\<close> guarantees: its indexes agree with the verified graph, both
  searches end on every graph, a planned route is a walk along permitted edges that the
  simulation accepts, and a slice is a closed part of the graph within its limits.
\<close>

section \<open>Loops and sorting\<close>

lemma fold_res_append: "fold_res f (xs @ ys) s = ebind (fold_res f xs s) (fold_res f ys)"
proof (induction xs arbitrary: s)
  case (Cons x xs)
  then have "fold_res f (xs @ ys) = (\<lambda>t. ebind (fold_res f xs t) (fold_res f ys))" by auto
  then show ?case by (simp add: ebind_assoc)
qed simp

lemma fold_res_invariant:
  assumes "fold_res f xs s = Inr s'" "I s"
    and "\<And>x s s'. x \<in> set xs \<Longrightarrow> I s \<Longrightarrow> f x s = Inr s' \<Longrightarrow> I s'"
  shows "I s'"
  using assms
proof (induction xs arbitrary: s)
  case (Cons x xs)
  then obtain t where t: "f x s = Inr t" "fold_res f xs t = Inr s'" by (auto simp: res_simps)
  show ?case by (rule Cons.IH [OF t(2)]) (use Cons.prems t(1) in auto)
qed simp

lemma sort_by_mset:
  assumes "sort_by key xs = Inr ys"
  shows "mset ys = mset xs"
proof -
  obtain ks where ks: "map_res key xs = Inr ks" "ys = map snd (sort_key fst (zip ks xs))"
    using assms by (auto simp: sort_by_def res_simps)
  have "mset ys = image_mset snd (mset (zip ks xs))" by (simp add: ks(2))
  also have "\<dots> = mset xs" using map_res_Inr_length [OF ks(1)] by (simp flip: mset_map)
  finally show ?thesis .
qed

section \<open>Indexes\<close>

lemma index_fold:
  "distinct (map fst d) \<Longrightarrow> distinct (map fst (fold (\<lambda>(i, x) d. AList.update i x d) ps d)) \<and>
   set (map fst (fold (\<lambda>(i, x) d. AList.update i x d) ps d)) = set (map fst d) \<union> set (map fst ps)"
proof (induction ps arbitrary: d)
  case (Cons p ps)
  obtain i x where p: "p = (i, x)" by (cases p)
  have "distinct (map fst (AList.update i x d))" by (rule distinct_update) (rule Cons.prems)
  from Cons.IH [OF this] show ?case by (auto simp: p dom_update)
qed simp

lemma index_by_distinct:
  assumes "index_by k xs = Inr d" "length d = length xs"
  shows "\<exists>ids. map_res (\<lambda>x. text_item x k) xs = Inr ids \<and> distinct ids \<and> map_of d = map_of (zip ids xs)"
proof -
  obtain ids where ids: "map_res (\<lambda>x. text_item x k) xs = Inr ids"
    and d: "d = fold (\<lambda>(i, x) d. AList.update i x d) (zip ids xs) []"
    using assms(1) by (auto simp: index_by_def res_simps)
  note len = map_res_Inr_length [OF ids]
  have "distinct (map fst d)" "set (map fst d) = set ids" using index_fold [of "[]" "zip ids xs"] len by (simp_all add: d)
  then have "card (set ids) = length d" using distinct_card by fastforce
  then have dist: "distinct ids" using assms(2) len card_distinct by metis
  have "map_of (fold (\<lambda>(i, x) d. AList.update i x d) ps d0) = map_of d0 ++ map_of ps" if "distinct (map fst ps)"
    for ps :: "(ustring \<times> pyval) list" and d0
    using that
  proof (induction ps arbitrary: d0)
    case (Cons p ps)
    then show ?case by (cases p) (auto simp: update_conv' map_add_def fun_eq_iff map_of_eq_None_iff image_iff split: option.splits)
  qed simp
  then have "map_of d = map_of (zip ids xs)" using dist len by (simp add: d)
  then show ?thesis using ids dist by blast
qed

lemma index_by_lookup:
  assumes "index_by k xs = Inr d" "length d = length xs" "x \<in> set xs"
  shows "\<exists>i. text_item x k = Inr i \<and> map_of d i = Some x"
proof -
  obtain ids where ids: "map_res (\<lambda>x. text_item x k) xs = Inr ids" "distinct ids" "map_of d = map_of (zip ids xs)"
    using index_by_distinct [OF assms(1,2)] by blast
  obtain n where n: "n < length xs" "x = xs ! n" using assms(3) by (auto simp: in_set_conv_nth)
  have "text_item x k = Inr (ids ! n)" using map_res_Inr_nth [OF ids(1) n(1)] n(2) by simp
  moreover have "map_of (zip ids xs) (ids ! n) = Some x"
    using n ids(2) map_res_Inr_length [OF ids(1)] by (simp add: map_of_zip_nth)
  ultimately show ?thesis using ids(3) by metis
qed

lemma index_by_element:
  assumes "index_by k xs = Inr d" "map_of d i = Some x"
  shows "x \<in> set xs \<and> text_item x k = Inr i"
proof -
  obtain ids where ids: "map_res (\<lambda>x. text_item x k) xs = Inr ids"
    and d: "d = fold (\<lambda>(i, x) d. AList.update i x d) (zip ids xs) []"
    using assms(1) by (auto simp: index_by_def res_simps)
  have "map_of (fold (\<lambda>(i, x) d. AList.update i x d) ps d0) i = Some x \<Longrightarrow> map_of d0 i = Some x \<or> (i, x) \<in> set ps"
    for ps :: "(ustring \<times> pyval) list" and d0
  proof (induction ps arbitrary: d0)
    case (Cons p ps)
    from Cons.IH [of "AList.update (fst p) (snd p) d0"] Cons.prems show ?case
      by (cases p) (auto simp: update_conv' split: if_splits)
  qed simp
  from this [of "zip ids xs" "[]"] have "(i, x) \<in> set (zip ids xs)" using assms(2) by (simp add: d)
  then obtain n where "n < length xs" "i = ids ! n" "x = xs ! n" by (auto simp: set_zip)
  then show ?thesis using map_res_Inr_nth [OF ids, of n] by simp
qed

text \<open>Grouping keeps the elements of one key in order, sorting the groups keeps their elements.\<close>

lemma group_fold:
  "group_of (fold (\<lambda>(k, x) d. AList.update k (group_of d k @ [x]) d) ps d) k =
   group_of d k @ map snd (filter (\<lambda>p. fst p = k) ps)"
proof (induction ps arbitrary: d)
  case (Cons p ps)
  then show ?case by (cases p) (auto simp: group_of_def update_conv')
qed simp

lemma group_by_elements:
  assumes "group_by key xs = Inr d"
  shows "x \<in> set (group_of d k) \<longleftrightarrow> x \<in> set xs \<and> key x = Inr k"
proof -
  obtain ks where ks: "map_res key xs = Inr ks" "d = fold (\<lambda>(k, x) d. AList.update k (group_of d k @ [x]) d) (zip ks xs) []"
    using assms by (auto simp: group_by_def res_simps)
  have "group_of d k = map snd (filter (\<lambda>p. fst p = k) (zip ks xs))"
    using group_fold [of "zip ks xs" "[]" k] by (simp add: ks(2) group_of_def)
  then show ?thesis using map_res_Inr_nth [OF ks(1)] map_res_Inr_length [OF ks(1)]
    by (force simp: set_zip in_set_conv_nth [of x xs])
qed

lemma group_by_distinct: "group_by key xs = Inr d \<Longrightarrow> distinct xs \<Longrightarrow> distinct (group_of d k)"
proof -
  assume "group_by key xs = Inr d" "distinct xs"
  then obtain ks where ks: "map_res key xs = Inr ks" "d = fold (\<lambda>(k, x) d. AList.update k (group_of d k @ [x]) d) (zip ks xs) []"
    by (auto simp: group_by_def res_simps)
  have "distinct (map snd (zip ks xs))" using \<open>distinct xs\<close> map_res_Inr_length [OF ks(1)] by simp
  then have "distinct (map snd (filter (\<lambda>p. fst p = k) (zip ks xs)))" by (rule distinct_map_filter)
  then show ?thesis using group_fold [of "zip ks xs" "[]" k] by (simp add: ks(2) group_of_def)
qed

lemma sort_groups_mset: "sort_groups d = Inr d' \<Longrightarrow> mset (group_of d' k) = mset (group_of d k)"
proof (induction d arbitrary: d')
  case Nil
  then show ?case by (simp add: sort_groups_def)
next
  case (Cons p d)
  obtain k0 es where p: "p = (k0, es)" by (cases p)
  obtain es' r where r: "sort_by selection_key es = Inr es'" "sort_groups d = Inr r" "d' = (k0, es') # r"
    using Cons.prems by (auto simp: sort_groups_def p res_simps)
  show ?case using Cons.IH [OF r(2)] sort_by_mset [OF r(1)] by (simp add: p r(3) group_of_def)
qed

section \<open>Verified graphs\<close>

lemma item2_Inr [res_simps]: "item2 v a b = Inr x \<longleftrightarrow> (\<exists>y. item v a = Inr y \<and> item y b = Inr x)"
  by (simp add: item2_def res_simps)

lemma verified_graph:
  assumes "verify_synapse_graph E graph = Inr r"
  obtains gid nodes edges node_index edge_index tenant_id us where
    "schema_ok E ''synapse-graph'' (VDict graph)"
    "synapse_graph_digest E graph = Inr gid" "dict_find graph ''graph_id'' = Some (VStr gid)"
    "dict_find graph ''nodes'' = Some (VList nodes)" "dict_find graph ''edges'' = Some (VList edges)"
    "index_by ''node_id'' nodes = Inr node_index" "length node_index = length nodes"
    "index_by ''edge_id'' edges = Inr edge_index" "length edge_index = length edges"
    "length nodes \<le> max_graph_nodes" "length edges \<le> max_graph_edges"
    "dict_find graph ''tenant_id'' = Some tenant_id"
    "map_res (check_edge E node_index edge_index) edges = Inr us"
proof -
  have "\<exists>gid nodes edges node_index edge_index tenant_id us.
      schema_ok E ''synapse-graph'' (VDict graph) \<and>
      synapse_graph_digest E graph = Inr gid \<and> dict_find graph ''graph_id'' = Some (VStr gid) \<and>
      dict_find graph ''nodes'' = Some (VList nodes) \<and> dict_find graph ''edges'' = Some (VList edges) \<and>
      index_by ''node_id'' nodes = Inr node_index \<and> length node_index = length nodes \<and>
      index_by ''edge_id'' edges = Inr edge_index \<and> length edge_index = length edges \<and>
      length nodes \<le> max_graph_nodes \<and> length edges \<le> max_graph_edges \<and>
      dict_find graph ''tenant_id'' = Some tenant_id \<and>
      map_res (check_edge E node_index edge_index) edges = Inr us"
    using assms unfolding verify_synapse_graph_def validate_def res_simps not_less de_Morgan_disj by blast
  then show ?thesis using that by blast
qed

text \<open>What the kernel's indexes are for a verified graph.\<close>

definition kernel_ok :: "synapse_kernel \<Rightarrow> bool" where
  "kernel_ok K \<longleftrightarrow>
     (\<exists>gid. kernel_graph_id K = Inr gid \<and> encodable_text gid) \<and>
     (\<forall>i node. map_of (sk_nodes K) i = Some node \<longrightarrow> text_item node ''node_id'' = Inr i) \<and>
     (\<forall>i edge. map_of (sk_edges K) i = Some edge \<longrightarrow> codable edge \<and> text_item edge ''edge_id'' = Inr i) \<and>
     (\<forall>n. distinct (group_of (sk_outbound K) n)) \<and>
     (\<forall>n edge. edge \<in> set (group_of (sk_outbound K) n) \<longrightarrow> text_item edge ''from_node_id'' = Inr n \<and>
        (\<exists>i. text_item edge ''edge_id'' = Inr i \<and> map_of (sk_edges K) i = Some edge)) \<and>
     (\<forall>a b edge. edge \<in> set (group_of (sk_direct K) (a, b)) \<longrightarrow> text_item edge ''from_node_id'' = Inr a \<and>
        text_item edge ''to_node_id'' = Inr b \<and> (\<exists>i. text_item edge ''edge_id'' = Inr i \<and> map_of (sk_edges K) i = Some edge))"

lemma made_kernel:
  assumes "make_kernel E graph = Inr K"
  shows "kernel_ok K"
    "\<exists>edges. schema_ok E ''synapse-graph'' (VDict graph) \<and> dict_find graph ''edges'' = Some (VList edges) \<and>
       (\<forall>i edge. map_of (sk_edges K) i = Some edge \<longrightarrow>
          edge \<in> set edges \<and> check_edge E (sk_nodes K) (sk_edges K) edge = Inr ())"
proof -
  obtain r nodes node_index edges edge_index outbound direct sorted_outbound sorted_direct where
    v: "verify_synapse_graph E graph = Inr r"
    and f: "dict_find graph ''nodes'' = Some (VList nodes)" "index_by ''node_id'' nodes = Inr node_index"
    and e: "dict_find graph ''edges'' = Some (VList edges)" "index_by ''edge_id'' edges = Inr edge_index"
    and g: "group_by (\<lambda>e. text_item e ''from_node_id'') edges = Inr outbound"
      "group_by (\<lambda>e. ebind (text_item e ''from_node_id'') (\<lambda>a. ebind (text_item e ''to_node_id'') (\<lambda>b. Inr (a, b)))) edges = Inr direct"
      "sort_groups outbound = Inr sorted_outbound" "sort_groups direct = Inr sorted_direct"
    and K: "K = \<lparr>sk_graph = graph, sk_nodes = node_index, sk_edges = edge_index, sk_outbound = sorted_outbound, sk_direct = sorted_direct\<rparr>"
    using assms unfolding make_kernel_def by (auto simp: ebind_eq_Inr list_item_Inr field_Inr)
  obtain gid nodes' edges' node_index' edge_index' us where w: "schema_ok E ''synapse-graph'' (VDict graph)" "synapse_graph_digest E graph = Inr gid"
    "dict_find graph ''graph_id'' = Some (VStr gid)" "dict_find graph ''edges'' = Some (VList edges')"
    "index_by ''edge_id'' edges' = Inr edge_index'" "length edge_index' = length edges'"
    "dict_find graph ''nodes'' = Some (VList nodes')" "index_by ''node_id'' nodes' = Inr node_index'"
    "map_res (check_edge E node_index' edge_index') edges' = Inr us"
    by (rule verified_graph [OF v]) blast
  have len: "length edge_index = length edges" using w(4-6) e by simp
  have cod: "codable edge" if "edge \<in> set edges" for edge
  proof -
    have "codable (VDict (dict_pop graph ''graph_id''))" using w(2) digest_object_codable by (auto simp: synapse_graph_digest_def)
    moreover have "dict_find (dict_pop graph ''graph_id'') ''edges'' = Some (VList edges)" using e(1) by (simp add: dict_simps)
    ultimately have "codable (VList edges)" by (rule codable_find)
    then show ?thesis using that by simp
  qed
  note look = index_by_lookup [OF e(2) len] and elem = index_by_element [OF e(2)]
  have "distinct edges"
  proof -
    obtain ids where "map_res (\<lambda>x. text_item x ''edge_id'') edges = Inr ids" "distinct ids"
      using index_by_distinct [OF e(2) len] by blast
    then show ?thesis using map_res_Inr_nth [of _ edges ids] map_res_Inr_length [of _ edges ids]
      by (metis (no_types, lifting) Inr_inject distinct_conv_nth)
  qed
  then have dist: "distinct (group_of sorted_outbound n)" for n
    using group_by_distinct [OF g(1)] sort_groups_mset [OF g(3), of n] mset_eq_imp_distinct_iff by metis
  have out: "x \<in> set (group_of sorted_outbound n) \<longleftrightarrow> x \<in> set edges \<and> text_item x ''from_node_id'' = Inr n" for x n
    using group_by_elements [OF g(1)] mset_eq_setD [OF sort_groups_mset [OF g(3), of n]] by simp
  have dir: "x \<in> set (group_of sorted_direct (a, b)) \<longleftrightarrow> x \<in> set edges \<and> text_item x ''from_node_id'' = Inr a \<and> text_item x ''to_node_id'' = Inr b" for x a b
    using group_by_elements [OF g(2)] mset_eq_setD [OF sort_groups_mset [OF g(4), of "(a, b)"]] by (simp add: ebind_eq_Inr)
  have gid: "kernel_graph_id K = Inr gid" "encodable_text gid"
    using w(2,3) digest_object_text by (auto simp: kernel_graph_id_def text_item_Inr field_Inr K synapse_graph_digest_def)
  show "kernel_ok K"
    unfolding kernel_ok_def using gid cod elem look out dir dist index_by_element [OF f(2)] by (simp add: K)
  have "map_res (check_edge E node_index edge_index) edges = Inr us" using w f e by simp
  then have checked: "check_edge E node_index edge_index edge = Inr ()" if "edge \<in> set edges" for edge
    using that unfolding map_res_Inr_iff by (auto simp: list_all2_conv_all_nth in_set_conv_nth)
  show "\<exists>edges. schema_ok E ''synapse-graph'' (VDict graph) \<and> dict_find graph ''edges'' = Some (VList edges) \<and>
       (\<forall>i edge. map_of (sk_edges K) i = Some edge \<longrightarrow>
          edge \<in> set edges \<and> check_edge E (sk_nodes K) (sk_edges K) edge = Inr ())"
    using w(1) e(1) elem checked by (auto simp: K)
qed

section \<open>The search ends\<close>

lemma least_entry_mem: "least_entry e queue \<in> set (e # queue)"
proof (induction queue arbitrary: e)
  case (Cons x queue)
  show ?case using Cons [of x] Cons [of e] by (auto simp: least_entry_def)
qed (simp add: least_entry_def)

text \<open>
  The rule for the search loop: it returns, because every turn either expands an entry, which
  happens at most \<open>max_expansions\<close> times, or removes one; and whatever the queue keeps through
  removals and expansions holds of the entry that is returned.
\<close>

lemma route_search_rule:
  assumes "I best queue"
    and drop: "\<And>best queue e. I best queue \<Longrightarrow> e \<in> set queue \<Longrightarrow> I best (remove1 e queue)"
    and expand: "\<And>best queue e best' queue'. I best queue \<Longrightarrow> e \<in> set queue \<Longrightarrow> re_depth e < max_hops \<Longrightarrow>
      fold_res (expand_edge E K C e) (group_of (sk_outbound K) (re_node e)) (best, remove1 e queue) = Inr (best', queue') \<Longrightarrow>
      I best' queue'"
  shows "\<exists>r. route_search E K C target max_hops max_expansions expansions best queue = Some r \<and>
    (\<forall>e. r = Inr e \<longrightarrow> re_node e = target \<and> (\<exists>best queue. I best queue \<and> e \<in> set queue))"
  using assms(1)
proof (induction "(nat (max_expansions - expansions), length queue)" arbitrary: expansions best queue
    rule: wf_induct_rule [OF wf_lex_prod [OF wf_less_than wf_less_than]])
  case 1
  show ?case
  proof (cases queue)
    case Nil
    then show ?thesis by (subst route_search.simps) simp
  next
    case (Cons first others)
    define e where "e = least_entry first others"
    have e: "e \<in> set queue" using least_entry_mem [of first others] by (simp add: e_def Cons)
    have step: "route_search E K C target max_hops max_expansions expansions best queue =
       (if re_node e = target then Some (Inr e)
        else if max_hops \<le> re_depth e \<or> max_expansions \<le> expansions
        then route_search E K C target max_hops max_expansions expansions best (remove1 e queue)
        else (case fold_res (expand_edge E K C e) (group_of (sk_outbound K) (re_node e)) (best, remove1 e queue) of
                Inl x \<Rightarrow> Some (Inl x)
              | Inr (best', queue') \<Rightarrow> route_search E K C target max_hops max_expansions (expansions + 1) best' queue'))"
      by (subst route_search.simps) (simp add: Cons e_def Let_def)
    consider "re_node e = target"
      | "re_node e \<noteq> target" "max_hops \<le> re_depth e \<or> max_expansions \<le> expansions"
      | "re_node e \<noteq> target" "re_depth e < max_hops" "expansions < max_expansions" by linarith
    then show ?thesis
    proof cases
      case 1
      then show ?thesis using \<open>I best queue\<close> e by (auto simp: step)
    next
      case 2
      have "length (remove1 e queue) < length queue" using e length_pos_if_in_set [OF e] by (simp add: length_remove1)
      then show ?thesis using 1(1) [OF _ drop [OF 1(2) e]] 2 by (simp add: step)
    next
      case 3
      show ?thesis
      proof (cases "fold_res (expand_edge E K C e) (group_of (sk_outbound K) (re_node e)) (best, remove1 e queue)")
        case (Inl x)
        then show ?thesis using 3 by (simp add: step)
      next
        case (Inr s)
        obtain best' queue' where s: "s = (best', queue')" by (cases s)
        have "I best' queue'" using expand [OF 1(2) e 3(2)] Inr s by simp
        moreover have "nat (max_expansions - (expansions + 1)) < nat (max_expansions - expansions)" using 3(3) by simp
        ultimately show ?thesis using 1(1) [of "expansions + 1" queue' best'] 3 Inr s by (simp add: step)
      qed
    qed
  qed
qed

lemma route_search_returns: "\<exists>r. route_search E K C target max_hops max_expansions expansions best queue = Some r"
  using route_search_rule [where I = "\<lambda>_ _. True" and best = best and queue = queue] by blast

text \<open>
  Every turn of the slice loop takes one entry from the queue and adds only deeper ones, up to
  the depth limit: the multiset of remaining depths decreases.
\<close>

definition remaining :: "int \<Rightarrow> (ustring \<times> pydict \<times> int) list \<Rightarrow> nat multiset" where
  "remaining max_depth queue = mset (map (\<lambda>(n, f, d). nat (max_depth - d)) queue)"

lemma slice_edge_queue:
  assumes "slice_edge C max_nodes max_edges facts depth edge s = Inr s'"
  shows "\<exists>new. ss_queue s' = ss_queue s @ new \<and> (\<forall>(n, f, d) \<in> set new. d = depth + 1)"
  using assms unfolding slice_edge_def
  by (auto simp: ebind_eq_Inr Let_def split: option.splits if_splits)

lemma slice_turn_queue:
  assumes "slice_turn E K C max_depth max_nodes max_edges node_id facts depth visited s = Inr (visited', s')"
  shows "\<exists>new. ss_queue s' = ss_queue s @ new \<and> (\<forall>(n, f, d) \<in> set new. d = depth + 1 \<and> depth < max_depth)"
proof -
  have loop: "\<exists>new. ss_queue s' = ss_queue s @ new \<and> (\<forall>(n, f, d) \<in> set new. d = depth + 1)"
    if "fold_res (slice_edge C max_nodes max_edges facts depth) edges s = Inr s'" for edges
  proof (rule fold_res_invariant [OF that, where I = "\<lambda>t. \<exists>new. ss_queue t = ss_queue s @ new \<and> (\<forall>(n, f, d) \<in> set new. d = depth + 1)"])
    fix x t t'
    assume t: "\<exists>new. ss_queue t = ss_queue s @ new \<and> (\<forall>(n, f, d) \<in> set new. d = depth + 1)"
      and step: "slice_edge C max_nodes max_edges facts depth x t = Inr t'"
    obtain a where a: "ss_queue t = ss_queue s @ a" "\<forall>(n, f, d) \<in> set a. d = depth + 1" using t by blast
    obtain b where b: "ss_queue t' = ss_queue t @ b" "\<forall>(n, f, d) \<in> set b. d = depth + 1" using slice_edge_queue [OF step] by blast
    show "\<exists>new. ss_queue t' = ss_queue s @ new \<and> (\<forall>(n, f, d) \<in> set new. d = depth + 1)"
      using a b by (intro exI [of _ "a @ b"]) auto
  qed auto
  show ?thesis using assms loop unfolding slice_turn_def
    by (fastforce simp: ebind_eq_Inr Let_def split: if_splits)
qed

lemma slice_search_rule:
  assumes "I s"
    and turn: "\<And>visited s node_id facts depth rest visited' s'. I s \<Longrightarrow> ss_queue s = (node_id, facts, depth) # rest \<Longrightarrow>
      slice_turn E K C max_depth max_nodes max_edges node_id facts depth visited (s\<lparr>ss_queue := rest\<rparr>) = Inr (visited', s') \<Longrightarrow> I s'"
  shows "\<exists>r. slice_search E K C max_depth max_nodes max_edges visited s = Some r \<and> (\<forall>s'. r = Inr s' \<longrightarrow> I s')"
  using assms(1)
proof (induction "remaining max_depth (ss_queue s)" arbitrary: visited s rule: wf_induct_rule [OF wf_mult [OF wf_less_than]])
  case 1
  show ?case
  proof (cases "ss_queue s")
    case Nil
    then show ?thesis using 1(2) by (subst slice_search.simps) simp
  next
    case (Cons p rest)
    obtain n f d where p: "p = (n, f, d)" by (cases p)
    let ?t = "slice_turn E K C max_depth max_nodes max_edges n f d visited (s\<lparr>ss_queue := rest\<rparr>)"
    have step: "slice_search E K C max_depth max_nodes max_edges visited s =
        (case ?t of Inl x \<Rightarrow> Some (Inl x) | Inr (visited', s') \<Rightarrow> slice_search E K C max_depth max_nodes max_edges visited' s')"
      by (subst slice_search.simps) (simp add: Cons p)
    show ?thesis
    proof (cases ?t)
      case (Inl x)
      then show ?thesis by (simp add: step)
    next
      case (Inr r)
      obtain visited' s' where r: "r = (visited', s')" by (cases r)
      obtain new where new: "ss_queue s' = rest @ new" "\<forall>(n', f', d') \<in> set new. d' = d + 1 \<and> d < max_depth"
        using slice_turn_queue [of E K C max_depth max_nodes max_edges n f d visited _ visited' s'] Inr r by fastforce
      have "(remaining max_depth (ss_queue s'), remaining max_depth (ss_queue s)) \<in> mult less_than"
        unfolding remaining_def Cons p new(1)
        using one_step_implies_mult [of "{#nat (max_depth - d)#}" "mset (map (\<lambda>(n, f, d). nat (max_depth - d)) new)" less_than
            "mset (map (\<lambda>(n, f, d). nat (max_depth - d)) rest)"] new(2)
        by (fastforce simp: add_mset_commute)
      moreover have "I s'" using turn [OF 1(2), of n f d rest] Cons p Inr r by simp
      ultimately show ?thesis using 1(1) Inr r by (simp add: step)
    qed
  qed
qed

lemma slice_search_returns: "\<exists>r. slice_search E K C max_depth max_nodes max_edges visited s = Some r"
  using slice_search_rule [where I = "\<lambda>_. True" and s = s] by blast

section \<open>Walks\<close>

text \<open>A walk from the current node: the edges taken, the nodes visited, the facts at its end and its last node.\<close>

inductive walk :: "synapse_kernel \<Rightarrow> synapse_context \<Rightarrow> ustring list \<Rightarrow> ustring list \<Rightarrow> pydict \<Rightarrow> ustring \<Rightarrow> bool"
  for K C where
  walk_start: "walk K C [] [sc_current_node_id C] (sc_facts C) (sc_current_node_id C)"
| walk_step: "walk K C es ns facts node \<Longrightarrow> map_of (sk_edges K) i = Some edge \<Longrightarrow>
    text_item edge ''from_node_id'' = Inr node \<Longrightarrow> text_item edge ''to_node_id'' = Inr node' \<Longrightarrow>
    edge_effect edge C facts = Inr (Some facts') \<Longrightarrow> walk K C (es @ [i]) (ns @ [node']) facts' node'"

inductive_cases walk_snocE: "walk K C (es @ [i]) ns facts node"

lemma walk_shape: "walk K C es ns facts node \<Longrightarrow> length ns = length es + 1 \<and> hd ns = sc_current_node_id C \<and> last ns = node"
  by (induction rule: walk.induct) (auto simp: hd_append)

text \<open>The entry that an expansion of \<open>e\<close> along \<open>edge\<close> adds.\<close>

definition child :: "synapse_context \<Rightarrow> route_entry \<Rightarrow> pyval \<Rightarrow> route_entry \<Rightarrow> bool" where
  "child C e edge new \<longleftrightarrow>
     (\<exists>i. text_item edge ''edge_id'' = Inr i \<and> text_item edge ''to_node_id'' = Inr (re_node new) \<and>
        edge_effect edge C (re_facts e) = Inr (Some (re_facts new)) \<and> re_tie new = re_edge_ids e @ [i] \<and>
        re_edge_ids new = re_edge_ids e @ [i] \<and> re_node_ids new = re_node_ids e @ [re_node new] \<and> re_depth new = re_depth e + 1)"

lemma expand_edge_child:
  assumes "expand_edge E K C e edge (best, queue) = Inr (best', queue')"
  shows "queue' = queue \<or> (\<exists>new. queue' = queue @ [new] \<and> child C e edge new)"
  using assms unfolding expand_edge_def child_def
  by (auto simp: ebind_eq_Inr Let_def split: option.splits if_splits)

lemma expand_children:
  assumes "fold_res (expand_edge E K C e) edges (best, queue) = Inr (best', queue')"
  shows "\<exists>taken news. queue' = queue @ news \<and> subseq taken edges \<and> list_all2 (child C e) taken news"
  using assms
proof (induction edges arbitrary: best queue)
  case Nil
  then show ?case by auto
next
  case (Cons edge edges)
  obtain b q where bq: "expand_edge E K C e edge (best, queue) = Inr (b, q)" "fold_res (expand_edge E K C e) edges (b, q) = Inr (best', queue')"
    using Cons.prems by (auto simp: ebind_eq_Inr)
  obtain taken news where n: "queue' = q @ news" "subseq taken edges" "list_all2 (child C e) taken news" using Cons.IH [OF bq(2)] by blast
  show ?case
  proof (cases "q = queue")
    case True
    then show ?thesis using n by (auto intro: list_emb_Cons)
  next
    case False
    then obtain new where "q = queue @ [new]" "child C e edge new" using expand_edge_child [OF bq(1)] by blast
    then show ?thesis using n by (intro exI [of _ "edge # taken"] exI [of _ "new # news"]) (auto simp: subseq_Cons2)
  qed
qed

text \<open>
  The entries of the queue are walks of at most \<open>max_hops\<close> edges, and no entry's walk is the
  beginning of another's: entries never agree in their edges.
\<close>

definition entry_ok :: "synapse_kernel \<Rightarrow> synapse_context \<Rightarrow> int \<Rightarrow> route_entry \<Rightarrow> bool" where
  "entry_ok K C max_hops e \<longleftrightarrow> walk K C (re_edge_ids e) (re_node_ids e) (re_facts e) (re_node e) \<and>
     re_tie e = re_edge_ids e \<and> re_depth e = int (length (re_edge_ids e)) \<and> re_depth e \<le> max_hops"

definition antichain :: "'a list list \<Rightarrow> bool" where
  "antichain xs \<longleftrightarrow> distinct xs \<and> (\<forall>a \<in> set xs. \<forall>b \<in> set xs. prefix a b \<longrightarrow> a = b)"

definition queue_ok :: "synapse_kernel \<Rightarrow> synapse_context \<Rightarrow> int \<Rightarrow> route_entry list \<Rightarrow> bool" where
  "queue_ok K C max_hops queue \<longleftrightarrow> (\<forall>e \<in> set queue. entry_ok K C max_hops e) \<and> antichain (map re_edge_ids queue)"

lemma antichain_remove:
  assumes "antichain (map f xs)"
  shows "antichain (map f (remove1 x xs))"
proof -
  have sub: "set (map f (remove1 x xs)) \<subseteq> set (map f xs)" using set_remove1_subset by force
  have "distinct (map f (remove1 x xs))" using assms by (auto simp: antichain_def distinct_map intro: inj_on_diff)
  with sub show ?thesis using assms unfolding antichain_def by (meson subset_iff)
qed

lemma antichain_replace:
  assumes "antichain xs" "t \<in> set xs" "distinct is"
  shows "antichain (remove1 t xs @ map (\<lambda>i. t @ [i]) is)"
proof -
  have rest: "set (remove1 t xs) = set xs - {t}" "distinct (remove1 t xs)" using assms(1) by (auto simp: antichain_def)
  have other: "\<not> prefix u (t @ [i]) \<and> \<not> prefix (t @ [i]) u" if "u \<in> set xs" "u \<noteq> t" for u i
  proof -
    have "\<not> prefix u t" "\<not> prefix t u" using that assms(1,2) unfolding antichain_def by blast+
    then show ?thesis by (auto dest: append_prefixD)
  qed
  then have "t @ [i] \<notin> set (remove1 t xs)" for i unfolding rest using prefix_order.refl by blast
  moreover have "distinct (map (\<lambda>i. t @ [i]) is)" using assms(3) by (simp add: distinct_map inj_on_def)
  ultimately have "distinct (remove1 t xs @ map (\<lambda>i. t @ [i]) is)" using rest(2) by auto
  moreover have "a = b" if "a \<in> set (remove1 t xs @ map (\<lambda>i. t @ [i]) is)" "b \<in> set (remove1 t xs @ map (\<lambda>i. t @ [i]) is)" "prefix a b" for a b
    using that other assms(1) unfolding antichain_def set_append rest(1) by auto
  ultimately show ?thesis unfolding antichain_def by blast
qed

lemma map_remove1_distinct: "distinct (map f xs) \<Longrightarrow> x \<in> set xs \<Longrightarrow> map f (remove1 x xs) = remove1 (f x) (map f xs)"
proof (induction xs)
  case (Cons a xs)
  then have "x \<noteq> a \<Longrightarrow> f x \<noteq> f a" by (metis distinct.simps(2) image_eqI list.set_map list.simps(9) set_ConsD)
  with Cons show ?case by auto
qed simp

lemma kernel_outbound:
  assumes "kernel_ok K" "edge \<in> set (group_of (sk_outbound K) n)"
  shows "text_item edge ''from_node_id'' = Inr n" "\<exists>i. text_item edge ''edge_id'' = Inr i \<and> map_of (sk_edges K) i = Some edge"
  using assms by (auto simp: kernel_ok_def)

lemma queue_ok_start: "0 \<le> max_hops \<Longrightarrow> queue_ok K C max_hops [start_entry C]"
  by (simp add: queue_ok_def entry_ok_def antichain_def start_entry_def walk_start)

lemma queue_ok_drop: "queue_ok K C max_hops queue \<Longrightarrow> queue_ok K C max_hops (remove1 e queue)"
  using set_remove1_subset [of e queue] antichain_remove by (auto simp: queue_ok_def)

lemma child_entry_ok:
  assumes "kernel_ok K" "entry_ok K C max_hops e" "re_depth e < max_hops" "edge \<in> set (group_of (sk_outbound K) (re_node e))" "child C e edge new"
  shows "entry_ok K C max_hops new"
proof -
  obtain i where i: "text_item edge ''edge_id'' = Inr i" "text_item edge ''to_node_id'' = Inr (re_node new)"
    "edge_effect edge C (re_facts e) = Inr (Some (re_facts new))" "re_tie new = re_edge_ids e @ [i]"
    "re_edge_ids new = re_edge_ids e @ [i]" "re_node_ids new = re_node_ids e @ [re_node new]" "re_depth new = re_depth e + 1"
    using assms(5) by (auto simp: child_def)
  have "map_of (sk_edges K) i = Some edge" "text_item edge ''from_node_id'' = Inr (re_node e)"
    using kernel_outbound [OF assms(1,4)] i(1) by auto
  then have "walk K C (re_edge_ids e @ [i]) (re_node_ids e @ [re_node new]) (re_facts new) (re_node new)"
    using assms(2) i(2,3) by (auto simp: entry_ok_def intro: walk_step)
  then show ?thesis using assms(2,3) i by (simp add: entry_ok_def)
qed

lemma queue_ok_expand:
  assumes "kernel_ok K" "queue_ok K C max_hops queue" "e \<in> set queue" "re_depth e < max_hops"
    and "fold_res (expand_edge E K C e) (group_of (sk_outbound K) (re_node e)) (best, remove1 e queue) = Inr (best', queue')"
  shows "queue_ok K C max_hops queue'"
proof -
  let ?t = "re_edge_ids e"
  obtain taken news where q: "queue' = remove1 e queue @ news" "subseq taken (group_of (sk_outbound K) (re_node e))"
    and news: "list_all2 (child C e) taken news"
    using expand_children [OF assms(5)] by blast
  have taken: "distinct taken" "\<And>edge. edge \<in> set taken \<Longrightarrow> edge \<in> set (group_of (sk_outbound K) (re_node e))"
    using assms(1) q(2) set_nths_subset by (fastforce simp: kernel_ok_def subseq_conv_nths intro: distinct_nthsI)+
  define ident where "ident edge = (SOME i. text_item edge ''edge_id'' = Inr i)" for edge
  have ident: "text_item edge ''edge_id'' = Inr (ident edge)" "map_of (sk_edges K) (ident edge) = Some edge" if "edge \<in> set taken" for edge
    using kernel_outbound(2) [OF assms(1) taken(2) [OF that]] by (auto simp: ident_def)
  have edges: "map re_edge_ids news = map (\<lambda>i. ?t @ [i]) (map ident taken)"
    using news ident(1) by (induction rule: list_all2_induct) (auto simp: child_def)
  have "distinct (map ident taken)" using taken(1) ident(2) unfolding distinct_map inj_on_def by (metis option.inject)
  moreover have t: "antichain (map re_edge_ids queue)" "?t \<in> set (map re_edge_ids queue)" using assms(2,3) by (auto simp: queue_ok_def)
  ultimately have "antichain (remove1 ?t (map re_edge_ids queue) @ map (\<lambda>i. ?t @ [i]) (map ident taken))" by (intro antichain_replace)
  moreover have "map re_edge_ids queue' = remove1 ?t (map re_edge_ids queue) @ map (\<lambda>i. ?t @ [i]) (map ident taken)"
    using map_remove1_distinct [OF _ assms(3), of re_edge_ids] t(1) unfolding q(1) map_append edges antichain_def by simp
  ultimately have chain: "antichain (map re_edge_ids queue')" by simp
  have "entry_ok K C max_hops e" using assms(2,3) by (auto simp: queue_ok_def)
  then have "entry_ok K C max_hops new" if "new \<in> set news" for new
    using child_entry_ok [OF assms(1) _ assms(4)] news taken(2) that by (fastforce simp: list_all2_conv_all_nth in_set_conv_nth)
  then show ?thesis
    using chain queue_ok_drop [OF assms(2), of e] unfolding queue_ok_def q(1) by auto
qed

text \<open>The heap of a search never holds two entries that its order does not tell apart.\<close>

lemma queue_ok_keys: "queue_ok K C max_hops queue \<Longrightarrow> distinct (map entry_key queue)"
  by (auto simp: queue_ok_def antichain_def distinct_map inj_on_def entry_key_def entry_ok_def)

lemma found_entry:
  assumes "kernel_ok K" "0 \<le> max_hops"
    and "route_search E K C target max_hops max_expansions expansions best [start_entry C] = Some (Inr e)"
  shows "entry_ok K C max_hops e \<and> re_node e = target"
proof -
  have "\<exists>r. route_search E K C target max_hops max_expansions expansions best [start_entry C] = Some r \<and>
      (\<forall>e. r = Inr e \<longrightarrow> re_node e = target \<and> (\<exists>(best :: best_table) queue. queue_ok K C max_hops queue \<and> e \<in> set queue))"
  proof (rule route_search_rule [where I = "\<lambda>_ queue. queue_ok K C max_hops queue"])
    show "queue_ok K C max_hops [start_entry C]" by (rule queue_ok_start [OF assms(2)])
  qed (use queue_ok_drop queue_ok_expand [OF assms(1)] in blast)+
  with assms(3) show ?thesis by (auto simp: queue_ok_def)
qed

lemma map_res_select:
  assumes "map_res (\<lambda>x. ebind (f x) (\<lambda>effect. Inr (case effect of None \<Rightarrow> [] | Some _ \<Rightarrow> [x]))) xs = Inr cs" "x \<in> set (concat cs)"
  shows "x \<in> set xs \<and> (\<exists>y. f x = Inr (Some y))"
  using assms
proof (induction xs arbitrary: cs)
  case (Cons a xs)
  then show ?case by (fastforce simp: res_simps split: option.splits)
qed simp

lemma direct_route_walk:
  assumes "kernel_ok K" "direct_route K C target = Inr (Some selected)"
  shows "\<exists>i facts. text_item selected ''edge_id'' = Inr i \<and> walk K C [i] [sc_current_node_id C, target] facts target"
proof -
  obtain cs ordered where cs: "map_res (\<lambda>edge. ebind (edge_effect edge C (sc_facts C)) (\<lambda>effect. Inr (case effect of None \<Rightarrow> [] | Some _ \<Rightarrow> [edge])))
      (group_of (sk_direct K) (sc_current_node_id C, target)) = Inr cs"
    and o: "sort_by selection_key (concat cs) = Inr ordered" "selected \<in> set ordered"
    using assms(2) by (force simp: direct_route_def ebind_eq_Inr neq_Nil_conv split: list.split_asm if_split_asm)
  have "selected \<in> set (concat cs)" using o mset_eq_setD [OF sort_by_mset [OF o(1)]] by simp
  then have sel: "selected \<in> set (group_of (sk_direct K) (sc_current_node_id C, target)) \<and> (\<exists>facts. edge_effect selected C (sc_facts C) = Inr (Some facts))"
    by (rule map_res_select [OF cs])
  then obtain facts i where f: "edge_effect selected C (sc_facts C) = Inr (Some facts)" "text_item selected ''edge_id'' = Inr i"
    "map_of (sk_edges K) i = Some selected" "text_item selected ''from_node_id'' = Inr (sc_current_node_id C)" "text_item selected ''to_node_id'' = Inr target"
    using assms(1) unfolding kernel_ok_def by meson
  then have "walk K C ([] @ [i]) ([sc_current_node_id C] @ [target]) facts target" by (intro walk_step [OF walk_start]) auto
  then show ?thesis using f(2) by auto
qed

text \<open>A planned route is the receipt of a walk to the target.\<close>

lemma planned_walk:
  assumes "kernel_ok K" "plan_route E K C target max_hops max_expansions = Some (Inr route)"
  obtains es ns facts where "walk K C es ns facts target" "int (length es) \<le> max_hops"
    "route_receipt E K C target es ns = Inr route" "validate_context K C = Inr ()"
proof -
  have v: "validate_context K C = Inr ()" "0 \<le> max_hops"
    using assms(2) by (auto simp: plan_route_def ebind_eq_Inr ensure_eq_Inr split: sum.splits)
  consider "target = sc_current_node_id C" "route_receipt E K C target [] [sc_current_node_id C] = Inr route"
    | selected i where "target \<noteq> sc_current_node_id C" "0 < max_hops" "direct_route K C target = Inr (Some selected)" "text_item selected ''edge_id'' = Inr i"
        "route_receipt E K C target [i] [sc_current_node_id C, target] = Inr route"
    | e where "route_search E K C target max_hops max_expansions 0 Map.empty [start_entry C] = Some (Inr e)"
        "route_receipt E K C target (re_edge_ids e) (re_node_ids e) = Inr route"
    using assms(2) unfolding plan_route_def
    by (auto simp: ebind_eq_Inr ensure_eq_Inr split: sum.splits if_splits option.splits)
  then show ?thesis
  proof cases
    case 1
    then show ?thesis using that [of "[]" _ "sc_facts C"] walk_start [of K C] v by auto
  next
    case 2
    then show ?thesis using that [of "[i]"] direct_route_walk [OF assms(1) 2(3)] v by auto
  next
    case 3
    then show ?thesis using that [of "re_edge_ids e" "re_node_ids e" "re_facts e"] found_entry [OF assms(1) v(2) 3(1)] v by (auto simp: entry_ok_def)
  qed
qed

section \<open>Simulation of a walk\<close>

lemma set_alist_update: "set (AList.update k v d) \<subseteq> insert (k, v) (set d)"
  by (induction d) auto

lemma set_alist_delete: "set (AList.delete k d) \<subseteq> set d"
  by (induction d) auto

lemma apply_postconditions_codable:
  "apply_postconditions result cs = Inr (Some r) \<Longrightarrow> \<forall>c \<in> set cs. codable c \<Longrightarrow> codable (VDict result) \<Longrightarrow> codable (VDict r)"
proof (induction result cs rule: apply_postconditions.induct)
  case (2 result condition conditions)
  then obtain fact op val where c: "text_item condition ''fact'' = Inr fact" "text_item condition ''operator'' = Inr op"
    "item condition ''value'' = Inr val" by (auto simp: ebind_eq_Inr)
  have cod: "encodable_text (quote fact)" "codable val"
    using codable_item [of condition] c 2(6) by (force simp: text_item_Inr)+
  have upd: "codable (VDict (AList.update (KStr fact) val result))"
    using 2(7) cod set_alist_update [of "KStr fact" val result] unfolding codable_dict by auto
  have del: "codable (VDict (AList.delete (KStr fact) result))"
    using 2(7) set_alist_delete [of "KStr fact" result] unfolding codable_dict by auto
  show ?case using 2 c upd del by (auto split: if_splits)
qed simp

lemma effect_codable:
  assumes "edge_effect edge C facts = Inr (Some facts')" "codable edge" "codable (VDict facts)"
  shows "codable (VDict facts')"
proof -
  obtain cs where cs: "item edge ''postconditions'' = Inr (VList cs)" "apply_postconditions facts cs = Inr (Some facts')"
    using assms(1) by (auto simp: edge_effect_def ebind_eq_Inr list_item_Inr split: if_splits)
  show ?thesis using apply_postconditions_codable [OF cs(2) _ assms(3)] codable_item [OF assms(2) cs(1)] by simp
qed

lemma facts_digest_codable: "codable (VDict facts) \<Longrightarrow> \<exists>h. facts_digest E facts = Inr h \<and> encodable_text h"
proof -
  assume "codable (VDict facts)"
  moreover have "plain_domain ''synapse-facts-v1''" by (simp add: plain_domain_def lit_def)
  ultimately obtain h where "facts_digest E facts = Inr (lit ''sha256:'' @ hex h)"
    unfolding facts_digest_def using codable_digest_object by blast
  moreover have "encodable_text (lit ''sha256:'' @ hex h)" by simp
  ultimately show ?thesis by blast
qed

lemma small_digits: "0 \<le> n \<Longrightarrow> n < 100 \<Longrightarrow> length (nat_digits n) \<le> 2"
proof -
  assume n: "0 \<le> n" "n < 100"
  then have "n div 10 < 10" by simp
  then have "nat_digits (n div 10) = [48 + n div 10]" by (subst nat_digits.simps) simp
  then show ?thesis by (subst nat_digits.simps) simp
qed

text \<open>Members of an edge that the trace of a simulation repeats.\<close>

definition traceable :: "synapse_kernel \<Rightarrow> bool" where
  "traceable K \<longleftrightarrow> (\<forall>i edge. map_of (sk_edges K) i = Some edge \<longrightarrow>
     (\<exists>v r. item2 edge ''verifier'' ''verifier_id'' = Inr v \<and> item2 edge ''reversibility'' ''rollback_edge_id'' = Inr r))"

lemma codable_item2: "codable v \<Longrightarrow> item2 v a b = Inr x \<Longrightarrow> codable x"
  by (metis item2_Inr codable_item)

lemma walk_codable:
  assumes "walk K C es ns facts node" "kernel_ok K" "codable (VDict (sc_facts C))"
  shows "codable (VDict facts)"
  using assms by (induction rule: walk.induct) (auto simp: kernel_ok_def intro: effect_codable)

lemma simulate_step:
  assumes "map_of (sk_edges K) i = Some edge" "text_item edge ''from_node_id'' = Inr node" "text_item edge ''to_node_id'' = Inr node'"
    and "edge_effect edge C facts = Inr (Some facts')" "facts_digest E facts' = Inr h"
    and "item2 edge ''verifier'' ''verifier_id'' = Inr v" "item2 edge ''reversibility'' ''rollback_edge_id'' = Inr r"
    and "list_get ns n = Inr node" "list_get ns (n + 1) = Inr node'"
  shows "simulate_edge E K C ns (n, i) (facts, node, trace) =
    Inr (facts', node', trace @ [VDict (mk_dict [(''index'', VInt (int n)), (''edge_id'', VStr i), (''from_node_id'', VStr node),
      (''to_node_id'', VStr node'), (''verifier_id'', v), (''rollback_edge_id'', r), (''facts_digest'', VStr h)])])"
proof -
  obtain cs where "availability edge C facts = Inr (True, [])" "list_item edge ''postconditions'' = Inr cs"
    "apply_postconditions facts cs = Inr (Some facts')"
    using assms(4) by (auto simp: edge_effect_def availability_def ebind_eq_Inr Let_def split: if_splits)
  with assms show ?thesis by (simp add: simulate_edge_def)
qed

text \<open>A walk with the trace that belongs to it: one entry per edge, in order, with the digest of the facts
  that hold after the edge.\<close>

inductive traced :: "env \<Rightarrow> synapse_kernel \<Rightarrow> synapse_context \<Rightarrow> ustring list \<Rightarrow> ustring list \<Rightarrow> pydict \<Rightarrow> ustring \<Rightarrow> pyval list \<Rightarrow> bool"
  for E K C where
  traced_start: "traced E K C [] [sc_current_node_id C] (sc_facts C) (sc_current_node_id C) []"
| traced_step: "traced E K C es ns facts node trace \<Longrightarrow> map_of (sk_edges K) i = Some edge \<Longrightarrow>
    text_item edge ''from_node_id'' = Inr node \<Longrightarrow> text_item edge ''to_node_id'' = Inr node' \<Longrightarrow>
    edge_effect edge C facts = Inr (Some facts') \<Longrightarrow> facts_digest E facts' = Inr h \<Longrightarrow>
    item2 edge ''verifier'' ''verifier_id'' = Inr v \<Longrightarrow> item2 edge ''reversibility'' ''rollback_edge_id'' = Inr r \<Longrightarrow>
    traced E K C (es @ [i]) (ns @ [node']) facts' node'
      (trace @ [VDict (mk_dict [(''index'', VInt (int (length es))), (''edge_id'', VStr i), (''from_node_id'', VStr node),
        (''to_node_id'', VStr node'), (''verifier_id'', v), (''rollback_edge_id'', r), (''facts_digest'', VStr h)])])"

lemma simulate_walk:
  assumes "walk K C es ns facts node" "kernel_ok K" "traceable K" "codable (VDict (sc_facts C))" "length es < 100"
  shows "\<exists>trace. fold_res (simulate_edge E K C (ns @ tl_ns)) (enumerate 0 es) (sc_facts C, sc_current_node_id C, []) =
    Inr (facts, node, trace) \<and> (\<forall>t \<in> set trace. codable t) \<and> traced E K C es ns facts node trace"
  using assms
proof (induction arbitrary: tl_ns rule: walk.induct)
  case walk_start
  then show ?case by (simp add: traced_start)
next
  case (walk_step es ns facts node i edge node' facts')
  obtain trace where IH: "fold_res (simulate_edge E K C ((ns @ [node']) @ tl_ns)) (enumerate 0 es) (sc_facts C, sc_current_node_id C, []) =
      Inr (facts, node, trace)" "\<forall>t \<in> set trace. codable t" "traced E K C es ns facts node trace"
    using walk_step.IH [of "node' # tl_ns"] walk_step.prems by auto
  have edge: "codable edge" "text_item edge ''edge_id'' = Inr i" using walk_step by (auto simp: kernel_ok_def)
  obtain v r where vr: "item2 edge ''verifier'' ''verifier_id'' = Inr v" "item2 edge ''reversibility'' ''rollback_edge_id'' = Inr r"
    using walk_step.hyps(2) walk_step.prems unfolding traceable_def by blast
  obtain h where h: "facts_digest E facts' = Inr h" "encodable_text h"
    using facts_digest_codable effect_codable [OF walk_step(5) edge(1) walk_codable] walk_step by blast
  have shape: "length ns = length es + 1" "last ns = node" using walk_shape [OF walk_step(1)] by auto
  then have get: "list_get ((ns @ [node']) @ tl_ns) (length es) = Inr node" "list_get ((ns @ [node']) @ tl_ns) (length es + 1) = Inr node'"
    using last_conv_nth [of ns] by (cases "ns = []"; auto simp: list_get_def nth_append)+
  have "codable (VInt (int (length es)))" using small_digits [of "int (length es)"] walk_step.prems by (simp add: max_str_digits_def)
  moreover have "codable (VStr i)" "codable (VStr node)" "codable (VStr node')" "codable v" "codable r"
    using codable_item [OF edge(1)] codable_item2 [OF edge(1)] edge(2) walk_step(3,4) vr by (auto simp: text_item_Inr simp del: codable_simps)
  ultimately show ?case
    using IH(1,2) h(2) simulate_step [OF walk_step(2-5) h(1) vr get, of trace] traced_step [OF IH(3) walk_step(2-5) h(1) vr]
    by (simp add: enumerate_append_eq fold_res_append del: codable_simps)
qed

section \<open>Receipts\<close>

lemma route_receipt_Inr:
  assumes "route_receipt E K C target es ns = Inr route"
  obtains selected score gid digest verifiers rollbacks rid where
    "edges_by_id K es = Inr selected" "kernel_graph_id K = Inr gid" "context_digest E C = Inr digest"
    "route = (tkey ''route_id'', VStr rid) # route_core C gid digest target es ns score verifiers rollbacks"
    "digest_object E (VDict (route_core C gid digest target es ns score verifiers rollbacks)) (lit ''synapse-route-v1'') = Inr rid"
    "validate E ''synapse-route'' (VDict route) = Inr ()"
  using assms that unfolding route_receipt_def by (auto simp: ebind_eq_Inr Let_def)

lemma route_find:
  assumes "route = (tkey ''route_id'', VStr rid) # route_core C gid digest target es ns score verifiers rollbacks"
  shows "dict_find route ''route_id'' = Some (VStr rid)" "dict_find route ''graph_id'' = Some (VStr gid)"
    "dict_find route ''tenant_id'' = Some (VStr (sc_tenant_id C))" "dict_find route ''context_digest'' = Some (VStr digest)"
    "dict_find route ''start_node_id'' = Some (VStr (sc_current_node_id C))" "dict_find route ''target_node_id'' = Some (VStr target)"
    "dict_find route ''edge_ids'' = Some (VList (map VStr es))" "dict_find route ''node_ids'' = Some (VList (map VStr ns))"
    "dict_find route ''rollback_edge_ids'' = Some (VList rollbacks)" "dict_pop route ''route_id'' = route_core C gid digest target es ns score verifiers rollbacks"
  by (simp_all add: assms route_core_def mk_dict_def dict_find_def dict_pop_def)

lemma context_digest_facts: "context_digest E C = Inr d \<Longrightarrow> codable (VDict (sc_facts C))"
  unfolding context_digest_def Let_def by (drule digest_object_codable) (simp del: codable_simps)

lemma route_codable:
  assumes "route = (tkey ''route_id'', VStr rid) # core" "digest_object E (VDict core) (lit ''synapse-route-v1'') = Inr rid"
  shows "\<exists>b. canonical_bytes (VDict route) = Inr b"
  using digest_object_codable [OF assms(2)] digest_object_text [OF assms(2)]
  by (simp add: canonical_bytes_codable assms(1) codable_dict quote_encodable)

text \<open>
  What the schema of the graph gives beyond the checks of the code: the member \<open>verifier\<close> of every
  edge has a member \<open>verifier_id\<close>, which may be null.
\<close>

definition graph_schema_ok :: "env \<Rightarrow> bool" where
  "graph_schema_ok E \<longleftrightarrow> (\<forall>graph edges edge. schema_ok E ''synapse-graph'' (VDict graph) \<longrightarrow>
     dict_find graph ''edges'' = Some (VList edges) \<longrightarrow> edge \<in> set edges \<longrightarrow>
     (\<exists>v. item2 edge ''verifier'' ''verifier_id'' = Inr v))"

lemma made_kernel_traceable:
  assumes "make_kernel E graph = Inr K" "graph_schema_ok E"
  shows "traceable K"
proof -
  obtain edges where e: "schema_ok E ''synapse-graph'' (VDict graph)" "dict_find graph ''edges'' = Some (VList edges)"
    "\<And>i edge. map_of (sk_edges K) i = Some edge \<Longrightarrow> edge \<in> set edges \<and> check_edge E (sk_nodes K) (sk_edges K) edge = Inr ()"
    using made_kernel(2) [OF assms(1)] by blast
  have "\<exists>r. item2 edge ''reversibility'' ''rollback_edge_id'' = Inr r" if "map_of (sk_edges K) i = Some edge" for i edge
    using e(3) [OF that] unfolding check_edge_def check_edge_rollback_def by (auto simp: ebind_eq_Inr ensure_eq_Inr)
  then show ?thesis using e assms(2) unfolding traceable_def graph_schema_ok_def by blast
qed

lemma simulate_planned:
  assumes walk: "walk K C es ns facts target" and K: "kernel_ok K" "traceable K" and small: "length es < 100"
    and v: "validate_context K C = Inr ()" and r: "route_receipt E K C target es ns = Inr route"
  shows "\<exists>trace gid rid rollbacks start_digest final_digest sid sim. traced E K C es ns facts target trace \<and>
    kernel_graph_id K = Inr gid \<and> dict_find route ''route_id'' = Some rid \<and> dict_find route ''rollback_edge_ids'' = Some rollbacks \<and>
    facts_digest E (sc_facts C) = Inr start_digest \<and> facts_digest E facts = Inr final_digest \<and>
    digest_object E (VDict (simulation_core C gid rid target start_digest final_digest trace rollbacks)) (lit ''synapse-simulation-v1'') = Inr sid \<and>
    sim = (tkey ''simulation_id'', VStr sid) # simulation_core C gid rid target start_digest final_digest trace rollbacks \<and>
    simulate_route E K C route = (if schema_ok E ''synapse-simulation'' (VDict sim) then Inr sim else raise ValidationError ''synapse-simulation'')"
proof -
  obtain selected score gid digest verifiers rollbacks rid where
    f: "edges_by_id K es = Inr selected" "kernel_graph_id K = Inr gid" "context_digest E C = Inr digest"
    and route: "route = (tkey ''route_id'', VStr rid) # route_core C gid digest target es ns score verifiers rollbacks"
    and rid: "digest_object E (VDict (route_core C gid digest target es ns score verifiers rollbacks)) (lit ''synapse-route-v1'') = Inr rid"
    and val: "validate E ''synapse-route'' (VDict route) = Inr ()"
    by (rule route_receipt_Inr [OF r]) blast
  note facts0 = context_digest_facts [OF f(3)] and find = route_find [OF route]
  obtain h0 h1 where h: "facts_digest E (sc_facts C) = Inr h0" "encodable_text h0" "facts_digest E facts = Inr h1" "encodable_text h1"
    using facts_digest_codable [OF facts0] facts_digest_codable [OF walk_codable [OF walk K(1) facts0]] by blast
  obtain trace where trace: "fold_res (simulate_edge E K C ns) (enumerate 0 es) (sc_facts C, sc_current_node_id C, []) = Inr (facts, target, trace)"
    "\<forall>t \<in> set trace. codable t" "traced E K C es ns facts target trace"
    using simulate_walk [OF walk K facts0 small, of E "[]"] by auto
  let ?core = "simulation_core C gid (VStr rid) target h0 h1 trace (VList rollbacks)"
  have "codable (VDict ?core)"
    using digest_object_codable [OF rid] digest_object_text [OF rid] trace(2) h(2,4)
    by (simp add: route_core_def simulation_core_def control_plane_calls_def quote_encodable)
  moreover have "plain_domain ''synapse-simulation-v1''" by (simp add: plain_domain_def lit_def)
  ultimately obtain sid where sid: "digest_object E (VDict ?core) (lit ''synapse-simulation-v1'') = Inr sid"
    using codable_digest_object by blast
  obtain b where b: "canonical_bytes (VDict route) = Inr b" using route_codable [OF route rid] by blast
  have shape: "length ns = length es + 1" "list_get ns 0 = Inr (sc_current_node_id C)"
    using walk_shape [OF walk] by (cases ns; auto simp: list_get_def)+
  have texts: "texts_item (VDict route) ''node_ids'' = Inr ns" "texts_item (VDict route) ''edge_ids'' = Inr es" "text_item (VDict route) ''target_node_id'' = Inr target"
    using find by (simp_all add: texts_item_Inr text_item_Inr field_Inr)
  have fields: "field route ''route_id'' = Inr (VStr rid)" "field route ''graph_id'' = Inr (VStr gid)" "field route ''tenant_id'' = Inr (VStr (sc_tenant_id C))"
    "field route ''context_digest'' = Inr (VStr digest)" "field route ''start_node_id'' = Inr (VStr (sc_current_node_id C))"
    "field route ''rollback_edge_ids'' = Inr (VList rollbacks)"
    using find by (simp_all add: field_Inr)
  let ?sim = "(tkey ''simulation_id'', VStr sid) # ?core"
  have "simulate_route E K C route = ebind (validate E ''synapse-simulation'' (VDict ?sim)) (\<lambda>_. Inr ?sim)"
    unfolding simulate_route_def
    by (simp add: Let_def v val fields texts shape find(10) rid f r b h(1,3) trace(1) sid)
  then have "simulate_route E K C route = (if schema_ok E ''synapse-simulation'' (VDict ?sim) then Inr ?sim else raise ValidationError ''synapse-simulation'')"
    by (simp add: validate_def)
  then show ?thesis using trace(3) f(2) find(1,9) h(1,3) sid by blast
qed

section \<open>What an available edge satisfies\<close>

text \<open>Availability spelled out: everything the policy of a context demands of an edge.\<close>

definition permitted :: "synapse_context \<Rightarrow> pyval \<Rightarrow> bool" where
  "permitted C edge \<longleftrightarrow>
     (\<exists>subsystem. lit ''*'' \<in> set (sp_allowed_subsystems (sc_policy C)) \<or>
        text_item edge ''subsystem'' = Inr subsystem \<and> subsystem \<in> set (sp_allowed_subsystems (sc_policy C))) \<and>
     (\<exists>capability. lit ''*'' \<in> set (sp_allowed_capability_ids (sc_policy C)) \<or>
        text_item edge ''capability_id'' = Inr capability \<and> capability \<in> set (sp_allowed_capability_ids (sc_policy C))) \<and>
     (\<exists>rank max_rank. transition_rank_of edge = Inr rank \<and>
        rank_in transition_ranks (lit (transition_value (sp_max_transition_kind (sc_policy C)))) = Inr max_rank \<and> rank \<le> max_rank) \<and>
     (\<exists>blast max_blast. blast_rank_of edge = Inr blast \<and>
        rank_in blast_ranks (lit (blast_value (sp_max_blast_radius (sc_policy C)))) = Inr max_blast \<and> blast \<le> max_blast) \<and>
     (\<exists>required. required_authorities edge = Inr required \<and> set required \<subseteq> set (sp_granted_authority_ids (sc_policy C))) \<and>
     (\<exists>production. item2 edge ''authority'' ''production_authority'' = Inr production \<and> \<not> truthy production) \<and>
     (\<exists>provenance. item edge ''provenance'' = Inr (VList provenance) \<and> (\<exists>p \<in> set provenance. item p ''class'' = Inr (vlit ''DECLARED''))) \<and>
     (\<exists>as_of requirements. synapse_time (VStr (sc_as_of C)) ''as_of'' = Inr as_of \<and>
        item edge ''evidence_requirements'' = Inr (VList requirements) \<and>
        (\<forall>requirement \<in> set requirements. \<exists>i r observed max_age. text_item requirement ''evidence_id'' = Inr i \<and>
           map_of (sc_evidence C) i = Some r \<and> synapse_time (VStr (ev_observed_at r)) ''evidence.observed_at'' = Inr observed \<and>
           int_item requirement ''max_age_seconds'' = Inr max_age \<and>
           instant observed \<le> instant as_of \<and> instant as_of \<le> instant observed + max_age * 1000000))"

lemma missing_texts_Nil: "missing_texts xs ys = [] \<longleftrightarrow> set xs \<subseteq> set ys"
proof -
  have "missing_texts xs ys = [] \<longleftrightarrow> set (missing_texts xs ys) = {}" by simp
  also have "\<dots> \<longleftrightarrow> set xs \<subseteq> set ys" unfolding missing_texts_def by auto
  finally show ?thesis .
qed

lemma map_res_concat_Nil: "map_res f xs = Inr yss \<Longrightarrow> concat yss = [] \<Longrightarrow> x \<in> set xs \<Longrightarrow> f x = Inr []"
  unfolding map_res_Inr_iff by (fastforce simp: list_all2_conv_all_nth in_set_conv_nth)

lemma evidence_reason_Nil:
  assumes "evidence_reason C as_of requirement = Inr []"
  shows "\<exists>i r observed max_age. text_item requirement ''evidence_id'' = Inr i \<and> map_of (sc_evidence C) i = Some r \<and>
    synapse_time (VStr (ev_observed_at r)) ''evidence.observed_at'' = Inr observed \<and> int_item requirement ''max_age_seconds'' = Inr max_age \<and>
    instant observed \<le> instant as_of \<and> instant as_of \<le> instant observed + max_age * 1000000"
  using assms unfolding evidence_reason_def
  by (fastforce simp: ebind_eq_Inr Let_def split: option.splits if_splits)

lemma policy_reasons_Nil:
  assumes "policy_reasons p edge = Inr []"
  shows "\<exists>subsystem. lit ''*'' \<in> set (sp_allowed_subsystems p) \<or> text_item edge ''subsystem'' = Inr subsystem \<and> subsystem \<in> set (sp_allowed_subsystems p)"
    "\<exists>capability. lit ''*'' \<in> set (sp_allowed_capability_ids p) \<or> text_item edge ''capability_id'' = Inr capability \<and> capability \<in> set (sp_allowed_capability_ids p)"
    "\<exists>rank max_rank. transition_rank_of edge = Inr rank \<and> rank_in transition_ranks (lit (transition_value (sp_max_transition_kind p))) = Inr max_rank \<and> rank \<le> max_rank"
    "\<exists>blast max_blast. blast_rank_of edge = Inr blast \<and> rank_in blast_ranks (lit (blast_value (sp_max_blast_radius p))) = Inr max_blast \<and> blast \<le> max_blast"
    "\<exists>required. required_authorities edge = Inr required \<and> set required \<subseteq> set (sp_granted_authority_ids p)"
    "\<exists>production. item2 edge ''authority'' ''production_authority'' = Inr production \<and> \<not> truthy production"
    "\<exists>provenance. item edge ''provenance'' = Inr (VList provenance) \<and> (\<exists>q \<in> set provenance. item q ''class'' = Inr (vlit ''DECLARED''))"
proof -
  obtain subsystem capability rank max_rank blast max_blast required production provenance classes where
    a: "(if lit ''*'' \<in> set (sp_allowed_subsystems p) then Inr []
         else ebind (text_item edge ''subsystem'') (\<lambda>s. Inr (if s \<in> set (sp_allowed_subsystems p) then [] else [lit ''policy:subsystem-denied'']))) = Inr subsystem"
      "(if lit ''*'' \<in> set (sp_allowed_capability_ids p) then Inr []
         else ebind (text_item edge ''capability_id'') (\<lambda>s. Inr (if s \<in> set (sp_allowed_capability_ids p) then [] else [lit ''policy:capability-denied'']))) = Inr capability"
    and b: "transition_rank_of edge = Inr rank" "rank_in transition_ranks (lit (transition_value (sp_max_transition_kind p))) = Inr max_rank"
      "blast_rank_of edge = Inr blast" "rank_in blast_ranks (lit (blast_value (sp_max_blast_radius p))) = Inr max_blast"
      "required_authorities edge = Inr required" "item2 edge ''authority'' ''production_authority'' = Inr production"
      "item edge ''provenance'' = Inr (VList provenance)" "map_res (\<lambda>q. item q ''class'') provenance = Inr classes"
    and nil: "subsystem = []" "capability = []" "\<not> max_rank < rank" "\<not> max_blast < blast" "set required \<subseteq> set (sp_granted_authority_ids p)"
      "\<not> truthy production" "vlit ''DECLARED'' \<in> set classes"
    using assms unfolding policy_reasons_def ebind_eq_Inr list_item_Inr
    by (auto simp: missing_texts_Nil simp del: lit_eq_Nil split: if_split_asm)
  show "\<exists>subsystem. lit ''*'' \<in> set (sp_allowed_subsystems p) \<or> text_item edge ''subsystem'' = Inr subsystem \<and> subsystem \<in> set (sp_allowed_subsystems p)"
    using a(1) nil(1) by (auto simp: ebind_eq_Inr split: if_splits)
  show "\<exists>capability. lit ''*'' \<in> set (sp_allowed_capability_ids p) \<or> text_item edge ''capability_id'' = Inr capability \<and> capability \<in> set (sp_allowed_capability_ids p)"
    using a(2) nil(2) by (auto simp: ebind_eq_Inr split: if_splits)
  show "\<exists>rank max_rank. transition_rank_of edge = Inr rank \<and> rank_in transition_ranks (lit (transition_value (sp_max_transition_kind p))) = Inr max_rank \<and> rank \<le> max_rank"
    "\<exists>blast max_blast. blast_rank_of edge = Inr blast \<and> rank_in blast_ranks (lit (blast_value (sp_max_blast_radius p))) = Inr max_blast \<and> blast \<le> max_blast"
    "\<exists>required. required_authorities edge = Inr required \<and> set required \<subseteq> set (sp_granted_authority_ids p)"
    "\<exists>production. item2 edge ''authority'' ''production_authority'' = Inr production \<and> \<not> truthy production"
    using b nil by (auto simp: not_less)
  show "\<exists>provenance. item edge ''provenance'' = Inr (VList provenance) \<and> (\<exists>q \<in> set provenance. item q ''class'' = Inr (vlit ''DECLARED''))"
    using b(7,8) nil(7) unfolding map_res_Inr_iff
    by (auto simp: list_all2_conv_all_nth in_set_conv_nth [of _ classes] intro!: bexI [OF _ nth_mem])
qed

lemma available_permitted:
  assumes "edge_effect edge C facts = Inr (Some facts')"
  shows "permitted C edge"
proof -
  obtain as_of requirements evidence where p: "policy_reasons (sc_policy C) edge = Inr []"
    and t: "synapse_time (VStr (sc_as_of C)) ''as_of'' = Inr as_of" "item edge ''evidence_requirements'' = Inr (VList requirements)"
    and e: "map_res (evidence_reason C as_of) requirements = Inr evidence" "concat evidence = []"
    using assms unfolding edge_effect_def availability_def by (auto simp: ebind_eq_Inr list_item_Inr Let_def split: if_splits)
  have "evidence_reason C as_of requirement = Inr []" if "requirement \<in> set requirements" for requirement
    using map_res_concat_Nil [OF e that] .
  then show ?thesis unfolding permitted_def using policy_reasons_Nil [OF p] evidence_reason_Nil t by blast
qed

lemma walk_permitted:
  "walk K C es ns facts node \<Longrightarrow> i \<in> set es \<Longrightarrow> \<exists>edge. map_of (sk_edges K) i = Some edge \<and> permitted C edge"
  by (induction rule: walk.induct) (auto intro: available_permitted)

section \<open>Slices\<close>

definition slice_ok :: "synapse_kernel \<Rightarrow> synapse_context \<Rightarrow> int \<Rightarrow> int \<Rightarrow> slice_state \<Rightarrow> bool" where
  "slice_ok K C max_nodes max_edges s \<longleftrightarrow>
     distinct (ss_nodes s) \<and> distinct (ss_edges s) \<and> int (length (ss_nodes s)) \<le> max_nodes \<and> int (length (ss_edges s)) \<le> max_edges \<and>
     sc_current_node_id C \<in> set (ss_nodes s) \<and> (\<forall>(n, f, d) \<in> set (ss_queue s). n \<in> set (ss_nodes s)) \<and>
     (\<forall>i \<in> set (ss_edges s). \<exists>edge a b. map_of (sk_edges K) i = Some edge \<and> permitted C edge \<and>
        text_item edge ''from_node_id'' = Inr a \<and> text_item edge ''to_node_id'' = Inr b \<and> a \<in> set (ss_nodes s) \<and> b \<in> set (ss_nodes s))"

lemma length_insert_bound: "x \<notin> set xs \<longrightarrow> int (length xs) < m \<Longrightarrow> int (length xs) \<le> m \<Longrightarrow> int (length (List.insert x xs)) \<le> m"
  by (auto simp: List.insert_def)

lemma slice_edge_ok:
  assumes K: "kernel_ok K" "edge \<in> set (group_of (sk_outbound K) node_id)"
    and s: "slice_ok K C max_nodes max_edges s" "node_id \<in> set (ss_nodes s)"
    and step: "slice_edge C max_nodes max_edges facts depth edge s = Inr s'"
  shows "slice_ok K C max_nodes max_edges s' \<and> node_id \<in> set (ss_nodes s')"
proof -
  consider "s' = s" | "s' = s\<lparr>ss_truncated := True\<rparr>"
    | i to_node next_facts where "text_item edge ''edge_id'' = Inr i" "text_item edge ''to_node_id'' = Inr to_node"
      "edge_effect edge C facts = Inr (Some next_facts)"
      "i \<notin> set (ss_edges s) \<longrightarrow> int (length (ss_edges s)) < max_edges" "to_node \<notin> set (ss_nodes s) \<longrightarrow> int (length (ss_nodes s)) < max_nodes"
      "s' = s\<lparr>ss_edges := List.insert i (ss_edges s), ss_nodes := List.insert to_node (ss_nodes s),
         ss_queue := ss_queue s @ [(to_node, next_facts, depth + 1)]\<rparr>"
    using step unfolding slice_edge_def by (fastforce simp: ebind_eq_Inr not_less split: option.splits if_splits)
  then show ?thesis
  proof cases
    case 3
    have edge: "text_item edge ''from_node_id'' = Inr node_id" "map_of (sk_edges K) i = Some edge" "permitted C edge"
      using kernel_outbound [OF K] 3(1) available_permitted [OF 3(3)] by auto
    have "int (length (List.insert i (ss_edges s))) \<le> max_edges" "int (length (List.insert to_node (ss_nodes s))) \<le> max_nodes"
      using s(1) 3(4,5) by (auto simp: slice_ok_def intro!: length_insert_bound)
    then show ?thesis using s edge 3(2) unfolding slice_ok_def 3(6) by (fastforce simp: distinct_insert)
  qed (use s in \<open>auto simp: slice_ok_def\<close>)
qed

lemma slice_turn_ok:
  assumes K: "kernel_ok K" and s: "slice_ok K C max_nodes max_edges s" "ss_queue s = (node_id, facts, depth) # rest"
    and turn: "slice_turn E K C max_depth max_nodes max_edges node_id facts depth visited (s\<lparr>ss_queue := rest\<rparr>) = Inr (visited', s')"
  shows "slice_ok K C max_nodes max_edges s'"
proof -
  have s0: "slice_ok K C max_nodes max_edges (s\<lparr>ss_queue := rest\<rparr>)" "node_id \<in> set (ss_nodes (s\<lparr>ss_queue := rest\<rparr>))"
    using s by (auto simp: slice_ok_def)
  have loop: "slice_ok K C max_nodes max_edges s' \<and> node_id \<in> set (ss_nodes s')"
    if "fold_res (slice_edge C max_nodes max_edges facts depth) (group_of (sk_outbound K) node_id) (s\<lparr>ss_queue := rest\<rparr>) = Inr s'"
    by (rule fold_res_invariant [OF that]) (use s0 slice_edge_ok [OF K] in blast)+
  show ?thesis using turn s0(1) loop unfolding slice_turn_def
    by (auto simp: ebind_eq_Inr Let_def slice_ok_def split: if_splits)
qed

lemma slice_ok_start: "1 \<le> max_nodes \<Longrightarrow> 0 \<le> max_edges \<Longrightarrow> slice_ok K C max_nodes max_edges (slice_start C)"
  by (simp add: slice_ok_def slice_start_def)

lemma sliced_state:
  assumes "kernel_ok K" "compile_capability_slice E K C max_depth max_nodes max_edges = Some (Inr d)"
  obtains s where "slice_ok K C max_nodes max_edges s" "slice_receipt E K C max_depth max_nodes max_edges s = Inr d"
proof -
  have lim: "1 \<le> max_nodes" "0 \<le> max_edges"
    using assms(2) by (auto simp: compile_capability_slice_def ebind_eq_Inr ensure_eq_Inr split: sum.splits)
  obtain s where s: "slice_search E K C max_depth max_nodes max_edges [] (slice_start C) = Some (Inr s)"
    "slice_receipt E K C max_depth max_nodes max_edges s = Inr d"
    using assms(2) by (auto simp: compile_capability_slice_def ebind_eq_Inr split: sum.splits)
  have "\<exists>r. slice_search E K C max_depth max_nodes max_edges [] (slice_start C) = Some r \<and>
      (\<forall>s'. r = Inr s' \<longrightarrow> slice_ok K C max_nodes max_edges s')"
    by (rule slice_search_rule) (use slice_ok_start [OF lim] slice_turn_ok [OF assms(1)] in blast)+
  then show ?thesis using s that by auto
qed

lemma slice_receipt_Inr:
  assumes "slice_receipt E K C max_depth max_nodes max_edges s = Inr d"
  obtains nodes edges where "dict_find d ''nodes'' = Some (VList nodes)" "dict_find d ''edges'' = Some (VList edges)"
    "dict_find d ''execution_authority'' = Some (VBool False)"
    "list_all2 (\<lambda>i n. map_of (sk_nodes K) i = Some n) (sort (ss_nodes s)) nodes"
    "list_all2 (\<lambda>i e. map_of (sk_edges K) i = Some e) (sort (ss_edges s)) edges"
proof -
  have "\<exists>nodes edges. dict_find d ''nodes'' = Some (VList nodes) \<and> dict_find d ''edges'' = Some (VList edges) \<and>
      dict_find d ''execution_authority'' = Some (VBool False) \<and>
      map_res (\<lambda>i. case map_of (sk_nodes K) i of None \<Rightarrow> raise KeyError ''node'' | Some n \<Rightarrow> Inr n) (sort (ss_nodes s)) = Inr nodes \<and>
      edges_by_id K (sort (ss_edges s)) = Inr edges"
    using assms unfolding slice_receipt_def by (auto simp: ebind_eq_Inr Let_def slice_core_def mk_dict_def dict_find_def)
  then obtain nodes edges where "dict_find d ''nodes'' = Some (VList nodes)" "dict_find d ''edges'' = Some (VList edges)"
      "dict_find d ''execution_authority'' = Some (VBool False)"
    and "map_res (\<lambda>i. case map_of (sk_nodes K) i of None \<Rightarrow> raise KeyError ''node'' | Some n \<Rightarrow> Inr n) (sort (ss_nodes s)) = Inr nodes"
      "edges_by_id K (sort (ss_edges s)) = Inr edges" by blast
  then show ?thesis
    by (intro that) (auto simp: edges_by_id_def map_res_Inr_iff elim!: list_all2_mono split: option.splits)
qed

end
