(* ===== verification/SynapseExample.thy ===== *)
theory SynapseExample
  imports SynapseRoutes
begin

text \<open>
  Small graphs for the witnesses of \<open>synapse.py\<close> and \<open>connectome.py\<close>: a graph of one node whose identifiers
  stay symbolic, and a graph of two nodes. The identifiers of the two nodes are computed, so that
  their order is known and a route of one edge can be planned.
\<close>

section \<open>A graph of one node\<close>

definition sample_node :: "ustring \<Rightarrow> pydict" where
  "sample_node n = mk_dict [(''node_id'', VStr n), (''kind'', vlit ''action''), (''ref'', vlit ''here''),
     (''label'', vlit ''Here''), (''truth_status'', vlit ''observed''), (''attributes'', VDict [])]"

text \<open>An observation that leads from one node to another and leaves a fact.\<close>

definition sample_edge_core :: "ustring \<Rightarrow> ustring \<Rightarrow> pydict" where
  "sample_edge_core n m = mk_dict [(''from_node_id'', VStr n), (''to_node_id'', VStr m), (''capability_id'', vlit ''observe:here''),
     (''subsystem'', vlit ''core''), (''transition_kind'', vlit ''observe''),
     (''authority'', VDict (mk_dict [(''required_authority_ids'', VList []), (''production_authority'', VBool False)])),
     (''evidence_requirements'', VList []), (''preconditions'', VList []),
     (''postconditions'', VList [VDict (mk_dict [(''fact'', vlit ''seen''), (''operator'', vlit ''equals''), (''value'', VBool True)])]),
     (''verifier'', VDict (mk_dict [(''verifier_id'', VNone), (''required'', VBool False)])),
     (''reversibility'', VDict (mk_dict [(''mode'', vlit ''not_applicable''), (''rollback_edge_id'', VNone)])),
     (''blast_radius'', vlit ''none''),
     (''cost'', VDict (mk_dict [(''latency_ms'', VInt 0), (''context_bytes'', VInt 0), (''model_calls'', VInt 0), (''tool_calls'', VInt 0), (''resource_units'', VInt 0)])),
     (''provenance'', VList [VDict (mk_dict [(''class'', vlit ''DECLARED'')])])]"

definition sample_edge :: "ustring \<Rightarrow> ustring \<Rightarrow> ustring \<Rightarrow> pydict" where
  "sample_edge n m i = (tkey ''edge_id'', VStr i) # sample_edge_core n m"

definition sample_graph_core :: "ustring \<Rightarrow> ustring \<Rightarrow> pydict" where
  "sample_graph_core n i = mk_dict [(''protocol'', vlit ''integrity-guardian/synapse-graph/v1''), (''tenant_id'', vlit ''tenant:x''),
     (''nodes'', VList [VDict (sample_node n)]), (''edges'', VList [VDict (sample_edge n n i)]), (''capabilities'', VDict offline_capabilities)]"

definition sample_graph :: "ustring \<Rightarrow> ustring \<Rightarrow> ustring \<Rightarrow> pydict" where
  "sample_graph n i g = (tkey ''graph_id'', VStr g) # sample_graph_core n i"

definition sample_context :: "ustring \<Rightarrow> synapse_context" where
  "sample_context n = \<lparr>sc_tenant_id = lit ''tenant:x'', sc_current_node_id = n, sc_as_of = lit ''2026-06-01T12:00:00Z'',
     sc_policy = \<lparr>sp_allowed_subsystems = [lit ''*''], sp_allowed_capability_ids = [lit ''*''], sp_granted_authority_ids = [],
       sp_max_transition_kind = PLAN, sp_max_blast_radius = NONE\<rparr>, sc_facts = [], sc_evidence = []\<rparr>"

text \<open>An environment whose graph schema asks for the verifier of every edge, and accepts everything else.\<close>

definition verifiers_declared :: "pyval \<Rightarrow> bool" where
  "verifiers_declared v =
     (case item v ''edges'' of
        Inr (VList edges) \<Rightarrow> (\<forall>edge \<in> set edges. case item2 edge ''verifier'' ''verifier_id'' of Inl _ \<Rightarrow> False | Inr _ \<Rightarrow> True)
      | _ \<Rightarrow> True)"

definition sample_env :: env where
  "sample_env = demo_env\<lparr>schema_ok := \<lambda>name v. name = ''synapse-graph'' \<longrightarrow> verifiers_declared v\<rparr>"

lemma sample_env_schema: "graph_schema_ok sample_env"
proof -
  have some: "\<exists>v. r = Inr v" if "case r of Inl _ \<Rightarrow> False | Inr _ \<Rightarrow> True" for r :: "pyval res"
    using that by (cases r) auto
  have "case item2 edge ''verifier'' ''verifier_id'' of Inl _ \<Rightarrow> False | Inr _ \<Rightarrow> True"
    if "verifiers_declared (VDict graph)" "dict_find graph ''edges'' = Some (VList edges)" "edge \<in> set edges" for graph edges edge
  proof -
    have "item (VDict graph) ''edges'' = Inr (VList edges)" using that(2) by (simp add: field_Inr)
    with that(1,3) show ?thesis unfolding verifiers_declared_def by simp
  qed
  then show ?thesis unfolding graph_schema_ok_def sample_env_def by (auto intro!: some)
qed

definition sample_kernel :: "ustring \<Rightarrow> ustring \<Rightarrow> ustring \<Rightarrow> synapse_kernel" where
  "sample_kernel n i g = \<lparr>sk_graph = sample_graph n i g, sk_nodes = [(n, VDict (sample_node n))], sk_edges = [(i, VDict (sample_edge n n i))],
     sk_outbound = [(n, [VDict (sample_edge n n i)])], sk_direct = [((n, n), [VDict (sample_edge n n i)])]\<rparr>"

lemma sort_by_single [simp]: "sort_by key [x] = ebind (key x) (\<lambda>_. Inr [x])"
  by (cases "key x") (simp_all add: sort_by_def)

lemma index_by_single [simp]: "index_by k [x] = ebind (text_item x k) (\<lambda>i. Inr [(i, x)])"
  by (cases "text_item x k") (simp_all add: index_by_def)

lemma group_by_single [simp]: "group_by key [x] = ebind (key x) (\<lambda>k. Inr [(k, [x])])"
  by (cases "key x") (simp_all add: group_by_def group_of_def)

lemma sample_edge_items:
  "item (VDict (sample_edge n m i)) k = (if k = ''edge_id'' then Inr (VStr i) else item (VDict (sample_edge_core n m)) k)"
  by (simp add: sample_edge_def item_def dict_find_def)

lemma sample_edge_identity: "edge_identity_core (sample_edge n m i) = sample_edge_core n m"
  by (simp add: edge_identity_core_def sample_edge_def sample_edge_core_def dict_pop_def dict_get_def dict_find_def dict_put_def mk_dict_def)

lemma sample_kernel_made:
  "\<exists>n i g. make_kernel sample_env (sample_graph n i g) = Inr (sample_kernel n i g) \<and> encodable_text n \<and> encodable_text i \<and> encodable_text g"
proof -
  let ?node = "mk_dict [(''tenant_id'', vlit ''tenant:x''), (''kind'', vlit ''action''), (''ref'', vlit ''here'')]"
  have "encodable (VDict ?node)" "plain_domain ''synapse-node-identity-v1''" by (simp_all add: mk_dict_def plain_domain_def lit_def encodable_text_def is_code_point_def is_surrogate_def)
  from content_identity_encodable [OF this] obtain h where
    node: "content_identity sample_env ''synapse-node:'' ''synapse-node-identity-v1'' ?node = Inr (lit ''synapse-node:'' @ hex h)" by blast
  define n where "n = lit ''synapse-node:'' @ hex h"
  have n: "encodable_text n" by (simp add: n_def)
  have "encodable (VDict (sample_edge_core n n))" using n by (simp add: sample_edge_core_def mk_dict_def nat_digits.simps max_str_digits_def)
  moreover have "plain_domain ''synapse-edge-identity-v1''" by (simp add: plain_domain_def lit_def)
  ultimately obtain h2 where
    edge: "content_identity sample_env ''synapse-edge:'' ''synapse-edge-identity-v1'' (sample_edge_core n n) = Inr (lit ''synapse-edge:'' @ hex h2)"
    using content_identity_encodable by blast
  define i where "i = lit ''synapse-edge:'' @ hex h2"
  have i: "encodable_text i" by (simp add: i_def)
  have "encodable (VDict (sample_graph_core n i))"
    using n i by (simp add: sample_graph_core_def sample_node_def sample_edge_def sample_edge_core_def offline_capabilities_def mk_dict_def nat_digits.simps max_str_digits_def)
  moreover have "plain_domain ''synapse-graph-v1''" by (simp add: plain_domain_def lit_def)
  ultimately obtain g where graph: "digest_object sample_env (VDict (sample_graph_core n i)) (lit ''synapse-graph-v1'') = Inr g"
    using digest_object_encodable by blast
  have wf: "py_wf (VDict (sample_node n))" "py_wf (VDict (sample_edge n n i))"
    using encodable_text_code_points [OF n] encodable_text_code_points [OF i]
    by (simp_all add: sample_node_def sample_edge_def sample_edge_core_def mk_dict_def)
  have schema: "schema_ok sample_env ''synapse-graph'' (VDict (sample_graph n i g))"
    by (simp add: sample_env_def verifiers_declared_def sample_graph_def sample_graph_core_def mk_dict_def item_def item2_def dict_find_def sample_edge_def sample_edge_core_def)
  have digest: "synapse_graph_digest sample_env (sample_graph n i g) = Inr g"
    using graph by (simp add: synapse_graph_digest_def sample_graph_def sample_graph_core_def mk_dict_def dict_pop_def)
  have fields: "field (sample_graph n i g) ''graph_id'' = Inr (VStr g)" "field (sample_graph n i g) ''tenant_id'' = Inr (vlit ''tenant:x'')"
    "field (sample_graph n i g) ''capabilities'' = Inr (VDict offline_capabilities)"
    "list_item (VDict (sample_graph n i g)) ''nodes'' = Inr [VDict (sample_node n)]" "list_item (VDict (sample_graph n i g)) ''edges'' = Inr [VDict (sample_edge n n i)]"
    by (simp_all add: list_item_Inr field_Inr sample_graph_def sample_graph_core_def mk_dict_def dict_find_def)
  have node_items: "text_item (VDict (sample_node n)) ''node_id'' = Inr n" by (simp add: text_item_Inr sample_node_def field_mk)
  have check_n: "check_node sample_env (vlit ''tenant:x'') (VDict (sample_node n)) = Inr ()"
    using node by (simp add: check_node_def sample_node_def field_mk dict_item_def build_synapse_node_def n_def)
  have edge_items: "text_item (VDict (sample_edge n n i)) ''edge_id'' = Inr i" "text_item (VDict (sample_edge n n i)) ''from_node_id'' = Inr n"
    "text_item (VDict (sample_edge n n i)) ''to_node_id'' = Inr n" "text_item (VDict (sample_edge n n i)) ''transition_kind'' = Inr (lit ''observe'')"
    by (simp_all add: text_item_Inr sample_edge_items sample_edge_core_def field_mk)
  have check_e: "check_edge sample_env [(n, VDict (sample_node n))] [(i, VDict (sample_edge n n i))] (VDict (sample_edge n n i)) = Inr ()"
    using edge edge_items
    by (simp add: check_edge_def sample_edge_identity check_edge_authority_def check_edge_rollback_def sample_edge_items
        item2_def sample_edge_core_def field_mk i_def text_item_def)
  have "py_eq (VDict (sample_node n)) (VDict (sample_node n))" "py_eq (VDict (sample_edge n n i)) (VDict (sample_edge n n i))"
    by (rule py_eq_refl [OF wf(1)], rule py_eq_refl [OF wf(2)])
  moreover have "py_eq (VDict offline_capabilities) (VDict offline_capabilities)"
    by (rule py_eq_refl) (simp add: offline_capabilities_def mk_dict_def)
  ultimately have v: "\<exists>r. verify_synapse_graph sample_env (sample_graph n i g) = Inr r"
    using schema digest fields node_items edge_items check_n check_e
    by (simp add: verify_synapse_graph_def validate_def max_graph_nodes_def max_graph_edges_def del: py_eq.simps(4))
  have "edge_score (VDict (sample_edge n n i)) = Inr [0, 0, 0, 0, 0, 0, 0, 0, 0, 1]"
    by (simp add: edge_score_def score_columns_def transition_rank_of_def blast_rank_of_def reversibility_rank_of_def authority_count_def
        required_authorities_def cost_of_def text_item_def int_item_def texts_item_def list_item_def sample_edge_items sample_edge_core_def field_mk
        rank_in_def transition_ranks_def blast_ranks_def reversibility_ranks_def)
  then have "make_kernel sample_env (sample_graph n i g) = Inr (sample_kernel n i g)"
    using v fields node_items edge_items by (auto simp: make_kernel_def sort_groups_def selection_key_def sample_kernel_def)
  then show ?thesis using n i digest_object_text [OF graph] by blast
qed

text \<open>Planning on this graph: the edge can be taken, and both searches find what they should.\<close>

lemma sample_effect:
  "edge_effect (VDict (sample_edge n m i)) (sample_context n) facts = Inr (Some (AList.update (tkey ''seen'') (VBool True) facts))"
proof -
  have "policy_reasons (sc_policy (sample_context n)) (VDict (sample_edge n m i)) = Inr []"
    by (simp add: policy_reasons_def sample_context_def transition_rank_of_def blast_rank_of_def required_authorities_def text_item_def texts_item_def
        list_item_def item2_def sample_edge_items sample_edge_core_def field_mk rank_in_def transition_ranks_def blast_ranks_def missing_texts_def)
  moreover have "succeeds (\<lambda>_. True) (synapse_time (vlit ''2026-06-01T12:00:00Z'') ''as_of'')" by code_simp
  then obtain t where "synapse_time (vlit ''2026-06-01T12:00:00Z'') ''as_of'' = Inr t" using succeedsD by blast
  ultimately show ?thesis
    by (simp add: edge_effect_def availability_def sample_context_def [of n] list_item_def sample_edge_items sample_edge_core_def field_mk text_item_def)
qed

lemma sample_domains: "plain_domain ''synapse-context-v1''" "plain_domain ''synapse-route-v1''" "plain_domain ''synapse-facts-v1''" "plain_domain ''synapse-capability-slice-v1''"
  by (simp_all add: plain_domain_def lit_def)

lemma sample_context_digest:
  assumes "encodable_text n"
  shows "\<exists>h. context_digest sample_env (sample_context n) = Inr h \<and> encodable_text h"
proof -
  have none: "codable (VDict [])" by (simp add: codable_dict)
  have "\<exists>x. context_digest sample_env (sample_context n) = Inr (lit ''sha256:'' @ hex x)"
    unfolding context_digest_def Let_def
    by (rule codable_digest_object [OF _ sample_domains(1)])
      (use assms none in \<open>simp add: sample_context_def sorted_items_def quote_encodable\<close>)
  then show ?thesis by auto
qed

lemma sample_planned:
  assumes "encodable_text n" "encodable_text g"
  shows "\<exists>route. plan_route sample_env (sample_kernel n i g) (sample_context n) n 8 512 = Some (Inr route)"
proof -
  let ?K = "sample_kernel n i g" and ?C = "sample_context n"
  have ctx: "validate_context ?K ?C = Inr ()"
    by (simp add: validate_context_def sample_kernel_def sample_context_def sample_graph_def sample_graph_core_def mk_dict_def item_def dict_find_def)
  obtain h where h: "context_digest sample_env ?C = Inr h" "encodable_text h" using sample_context_digest [OF assms(1)] by blast
  let ?core = "route_core ?C g h n [] [n] [0, 0, 0, 0, 0, 0, 0, 0, 0, 0] [] []"
  have "codable (VDict ?core)"
    using assms h(2) by (simp add: route_core_def sample_context_def score_object_def control_plane_calls_def quote_encodable nat_digits.simps max_str_digits_def)
  then obtain rid where rid: "digest_object sample_env (VDict ?core) (lit ''synapse-route-v1'') = Inr (lit ''sha256:'' @ hex rid)"
    using codable_digest_object [OF _ sample_domains(2)] by blast
  have gid: "kernel_graph_id ?K = Inr g" by (simp add: kernel_graph_id_def text_item_Inr field_Inr sample_kernel_def sample_graph_def dict_find_def)
  have "route_receipt sample_env ?K ?C n [] [n] = Inr ((tkey ''route_id'', VStr (lit ''sha256:'' @ hex rid)) # ?core)"
    using rid h gid by (simp add: route_receipt_def edges_by_id_def path_score_def validate_def sample_env_def)
  then show ?thesis using ctx by (simp add: plan_route_def sample_kernel_def sample_context_def max_route_hops_def max_route_expansions_def)
qed

lemma sample_sliced:
  assumes "encodable_text n" "encodable_text i" "encodable_text g"
  shows "\<exists>d. compile_capability_slice sample_env (sample_kernel n i g) (sample_context n) 1 8 8 = Some (Inr d) \<and>
    dict_find d ''edges'' = Some (VList [VDict (sample_edge n n i)])"
proof -
  let ?K = "sample_kernel n i g" and ?C = "sample_context n" and ?f = "[(tkey ''seen'', VBool True)]"
  let ?s = "\<lparr>ss_nodes = [n], ss_edges = [i], ss_queue = [], ss_truncated = False\<rparr>"
  have ctx: "validate_context ?K ?C = Inr ()"
    by (simp add: validate_context_def sample_kernel_def sample_context_def sample_graph_def sample_graph_core_def mk_dict_def item_def dict_find_def)
  have cod: "codable (VDict [])" "codable (VDict ?f)" by (simp_all add: codable_dict quote_encodable)
  obtain h0 h1 where h: "facts_digest sample_env [] = Inr h0" "facts_digest sample_env ?f = Inr h1"
    using facts_digest_codable [OF cod(1)] facts_digest_codable [OF cod(2)] by blast
  have edge: "text_item (VDict (sample_edge n n i)) ''edge_id'' = Inr i" "text_item (VDict (sample_edge n n i)) ''to_node_id'' = Inr n"
    by (simp_all add: text_item_Inr sample_edge_items sample_edge_core_def field_mk)
  have out: "group_of (sk_outbound ?K) n = [VDict (sample_edge n n i)]" by (simp add: sample_kernel_def group_of_def)
  have first: "slice_turn sample_env ?K ?C 1 8 8 n [] 0 [] \<lparr>ss_nodes = [n], ss_edges = [], ss_queue = [], ss_truncated = False\<rparr> =
      Inr ([(n, h0, 0)], ?s\<lparr>ss_queue := [(n, ?f, 1)]\<rparr>)"
    using h edge by (simp add: slice_turn_def out slice_edge_def sample_effect List.insert_def)
  have second: "slice_turn sample_env ?K ?C 1 8 8 n ?f 1 [(n, h0, 0)] ?s = Inr ([(n, h1, 1), (n, h0, 0)], ?s)"
    using h edge by (simp add: slice_turn_def out sample_effect)
  have search: "slice_search sample_env ?K ?C 1 8 8 [] (slice_start ?C) = Some (Inr ?s)"
    using first second by (simp add: slice_search.simps slice_start_def sample_context_def [of n])
  let ?core = "slice_core ?C g 1 8 8 [VDict (sample_node n)] [VDict (sample_edge n n i)] False"
  have "codable (VDict (sample_node n))" "codable (VDict (sample_edge n n i))"
    using assms cod(1) by (simp_all add: sample_node_def sample_edge_def sample_edge_core_def quote_encodable codable_dict mk_dict_def nat_digits.simps max_str_digits_def)
  then have "codable (VDict ?core)"
    using assms by (simp add: slice_core_def sample_context_def control_plane_calls_def quote_encodable nat_digits.simps max_str_digits_def)
  then obtain x where x: "digest_object sample_env (VDict ?core) (lit ''synapse-capability-slice-v1'') = Inr x"
    using codable_digest_object [OF _ sample_domains(4)] by blast
  have gid: "kernel_graph_id ?K = Inr g" by (simp add: kernel_graph_id_def text_item_Inr field_Inr sample_kernel_def sample_graph_def dict_find_def)
  have "slice_receipt sample_env ?K ?C 1 8 8 ?s = Inr ((tkey ''slice_id'', VStr x) # ?core)"
    using x gid by (simp add: slice_receipt_def edges_by_id_def validate_def sample_env_def sample_kernel_def)
  then have "compile_capability_slice sample_env ?K ?C 1 8 8 = Some (Inr ((tkey ''slice_id'', VStr x) # ?core))"
    using ctx search by (simp add: compile_capability_slice_def max_route_hops_def max_slice_nodes_def max_slice_edges_def)
  moreover have "dict_find ((tkey ''slice_id'', VStr x) # ?core) ''edges'' = Some (VList [VDict (sample_edge n n i)])"
    by (simp add: dict_find_def slice_core_def mk_dict_def)
  ultimately show ?thesis by blast
qed

section \<open>A graph of two nodes\<close>

text \<open>The identifiers of two nodes, hashed from their kind, reference and tenant. The hashed inputs share their
  first block.\<close>

definition pair_start :: ustring where
  "pair_start = lit ''synapse-node:3d564ff399bd673018e45c97aab3f2d229cedddc6187714182ec413ada7299cc''"

definition pair_end :: ustring where
  "pair_end = lit ''synapse-node:cc89d8cb9a93444838625fbc07d9a33e1b9cb426c860645d3c3834eeb0361150''"

definition pair_identity :: "string \<Rightarrow> pydict" where
  "pair_identity r = mk_dict [(''tenant_id'', vlit ''tenant:x''), (''kind'', vlit ''fact''), (''ref'', vlit r)]"

definition node_frame :: bytes where
  "node_frame = ''integrity-guardian'' @ map char_of frame_separator @ ''guardian-json-v1'' @ map char_of frame_separator @
     ''synapse-node-identity-v1'' @ map char_of frame_separator"

definition middle_hash :: hash_state where
  "middle_hash = \<lparr>ha = 441527907, hb = 1238528144, hc = 3640658015, hd4 = 2846339700, he = 2844355732, hf = 3535466045, hg = 3903239601, hh = 499369939\<rparr>"

lemma first_block:
  "compress initial_hash [1768846437, 1735551348, 2033018741, 1634886761, 1634622584, 808478581, 1634886761, 1634610538, 1936682541, 1982946424, 808481657, 1851879539, 1697476207, 1684352361, 1684369012, 1769240877] = middle_hash"
  by code_simp

lemma second_block_start:
  "compress middle_hash [1982946424, 808483618, 1802071652, 574235238, 1633907746, 740455013, 1713519138, 1663183906, 1952804449, 1853120361, 1679964706, 1952804449, 1853110904, 578650112, 0, 944] =
     \<lparr>ha = 1029066739, hb = 2579326768, hc = 417619095, hd4 = 2863919826, he = 701423068, hf = 1636266305, hg = 2196521274, hh = 3664943564\<rparr>"
  by code_simp

lemma second_block_end:
  "compress middle_hash [1982946424, 808483618, 1802071652, 574235238, 1633907746, 740455013, 1713519138, 1629629474, 1952804449, 1853120361, 1679964706, 1952804449, 1853110904, 578650112, 0, 944] =
     \<lparr>ha = 3431585995, hb = 2593342536, hc = 945971132, hd4 = 131703614, he = 463254566, hf = 3361760349, hg = 1010316526, hh = 2956333392\<rparr>"
  by code_simp

lemma pair_words:
  "be_words (sha_pad (node_frame @ ''{\"kind\":\"fact\",\"ref\":\"c\",\"tenant_id\":\"tenant:x\"}'')) =
     [1768846437, 1735551348, 2033018741, 1634886761, 1634622584, 808478581, 1634886761, 1634610538, 1936682541, 1982946424, 808481657, 1851879539, 1697476207, 1684352361, 1684369012, 1769240877] @ [1982946424, 808483618, 1802071652, 574235238, 1633907746, 740455013, 1713519138, 1663183906, 1952804449, 1853120361, 1679964706, 1952804449, 1853110904, 578650112, 0, 944]"
  "be_words (sha_pad (node_frame @ ''{\"kind\":\"fact\",\"ref\":\"a\",\"tenant_id\":\"tenant:x\"}'')) =
     [1768846437, 1735551348, 2033018741, 1634886761, 1634622584, 808478581, 1634886761, 1634610538, 1936682541, 1982946424, 808481657, 1851879539, 1697476207, 1684352361, 1684369012, 1769240877] @ [1982946424, 808483618, 1802071652, 574235238, 1633907746, 740455013, 1713519138, 1629629474, 1952804449, 1853120361, 1679964706, 1952804449, 1853110904, 578650112, 0, 944]"
  by code_simp+

lemma two_blocks:
  assumes "be_words (sha_pad m) = a @ b" "length a = 16" "length b = 16" "compress (compress initial_hash a) b = s"
  shows "sha256 m = concat (map (\<lambda>w. be_bytes 4 (uint w)) [ha s, hb s, hc s, hd4 s, he s, hf s, hg s, hh s])"
  using assms by (simp add: sha256_def numeral_2_eq_2)

lemma pair_hashes:
  "hex (sha256 (node_frame @ ''{\"kind\":\"fact\",\"ref\":\"c\",\"tenant_id\":\"tenant:x\"}'')) =
     lit ''3d564ff399bd673018e45c97aab3f2d229cedddc6187714182ec413ada7299cc''"
  "hex (sha256 (node_frame @ ''{\"kind\":\"fact\",\"ref\":\"a\",\"tenant_id\":\"tenant:x\"}'')) =
     lit ''cc89d8cb9a93444838625fbc07d9a33e1b9cb426c860645d3c3834eeb0361150''"
  unfolding two_blocks [OF pair_words(1) _ _ second_block_start [folded first_block], simplified]
    two_blocks [OF pair_words(2) _ _ second_block_end [folded first_block], simplified]
  by code_simp+

lemma pair_ids:
  "content_identity E ''synapse-node:'' ''synapse-node-identity-v1'' (pair_identity ''c'') = Inr pair_start"
  "content_identity E ''synapse-node:'' ''synapse-node-identity-v1'' (pair_identity ''a'') = Inr pair_end"
proof -
  have dom: "validate_domain E (lit ''synapse-node-identity-v1'') = Inr ()"
    by (simp add: validate_domain_def lit_def char_isspace_def char_isprintable_def)
  have frame: "utf8_encode (digest_prefix (lit ''synapse-node-identity-v1'')) = Inr node_frame" by code_simp
  have bytes: "canonical_bytes (VDict (pair_identity ''c'')) = Inr ''{\"kind\":\"fact\",\"ref\":\"c\",\"tenant_id\":\"tenant:x\"}''"
    "canonical_bytes (VDict (pair_identity ''a'')) = Inr ''{\"kind\":\"fact\",\"ref\":\"a\",\"tenant_id\":\"tenant:x\"}''"
    by code_simp+
  have ids: "lit ''synapse-node:'' @ lit ''3d564ff399bd673018e45c97aab3f2d229cedddc6187714182ec413ada7299cc'' = pair_start"
    "lit ''synapse-node:'' @ lit ''cc89d8cb9a93444838625fbc07d9a33e1b9cb426c860645d3c3834eeb0361150'' = pair_end"
    by code_simp+
  show "content_identity E ''synapse-node:'' ''synapse-node-identity-v1'' (pair_identity ''c'') = Inr pair_start"
    "content_identity E ''synapse-node:'' ''synapse-node-identity-v1'' (pair_identity ''a'') = Inr pair_end"
    using dom frame bytes ids pair_hashes
    by (simp_all add: content_identity_def digest_object_def digest_input_def sha256_digest_def del: lit_append)
qed

end
