(* ===== verification/SynapsePair.thy ===== *)
theory SynapsePair
  imports SynapseExample
begin

text \<open>
  A graph with two nodes and one edge between them, and a planned route along that edge.
\<close>

definition pair_node :: "string \<Rightarrow> ustring \<Rightarrow> pydict" where
  "pair_node r n = mk_dict [(''node_id'', VStr n), (''kind'', vlit ''fact''), (''ref'', vlit r),
     (''label'', vlit r), (''truth_status'', vlit ''observed''), (''attributes'', VDict [])]"

definition pair_nodes :: "pyval list" where
  "pair_nodes = [VDict (pair_node ''c'' pair_start), VDict (pair_node ''a'' pair_end)]"

definition pair_edge :: "ustring \<Rightarrow> pyval" where
  "pair_edge i = VDict (sample_edge pair_start pair_end i)"

definition pair_graph_core :: "ustring \<Rightarrow> pydict" where
  "pair_graph_core i = mk_dict [(''protocol'', vlit ''integrity-guardian/synapse-graph/v1''), (''tenant_id'', vlit ''tenant:x''),
     (''nodes'', VList pair_nodes), (''edges'', VList [pair_edge i]), (''capabilities'', VDict offline_capabilities)]"

definition pair_graph :: "ustring \<Rightarrow> ustring \<Rightarrow> pydict" where
  "pair_graph i g = (tkey ''graph_id'', VStr g) # pair_graph_core i"

definition pair_kernel :: "ustring \<Rightarrow> ustring \<Rightarrow> synapse_kernel" where
  "pair_kernel i g = \<lparr>sk_graph = pair_graph i g,
     sk_nodes = [(pair_start, VDict (pair_node ''c'' pair_start)), (pair_end, VDict (pair_node ''a'' pair_end))],
     sk_edges = [(i, pair_edge i)], sk_outbound = [(pair_start, [pair_edge i])], sk_direct = [((pair_start, pair_end), [pair_edge i])]\<rparr>"

abbreviation pair_context :: synapse_context where
  "pair_context \<equiv> sample_context pair_start"

lemma pair_texts: "encodable_text pair_start" "encodable_text pair_end" "pair_start \<le> pair_end" "pair_start \<noteq> pair_end"
  by code_simp+

lemma pair_edge_items:
  "text_item (pair_edge i) ''edge_id'' = Inr i" "text_item (pair_edge i) ''from_node_id'' = Inr pair_start" "text_item (pair_edge i) ''to_node_id'' = Inr pair_end"
  "text_item (pair_edge i) ''transition_kind'' = Inr (lit ''observe'')" "edge_score (pair_edge i) = Inr [0, 0, 0, 0, 0, 0, 0, 0, 0, 1]"
  by (simp_all add: text_item_Inr pair_edge_def sample_edge_items sample_edge_core_def field_mk edge_score_def score_columns_def transition_rank_of_def blast_rank_of_def
      reversibility_rank_of_def authority_count_def required_authorities_def cost_of_def text_item_def int_item_def texts_item_def list_item_def
      rank_in_def transition_ranks_def blast_ranks_def reversibility_ranks_def)

lemma pair_node_items:
  "text_item (VDict (pair_node r n)) ''node_id'' = Inr n"
  by (simp add: text_item_Inr pair_node_def field_mk)

lemma pair_nodes_indexed:
  "sort_by (\<lambda>n. text_item n ''node_id'') pair_nodes = Inr pair_nodes"
  "index_by ''node_id'' pair_nodes = Inr [(pair_start, VDict (pair_node ''c'' pair_start)), (pair_end, VDict (pair_node ''a'' pair_end))]"
  using pair_texts(3,4) by (simp_all add: sort_by_def index_by_def pair_nodes_def pair_node_items)

lemma pair_kernel_made:
  "\<exists>i g. make_kernel sample_env (pair_graph i g) = Inr (pair_kernel i g) \<and> encodable_text i \<and> encodable_text g"
proof -
  have "encodable (VDict (sample_edge_core pair_start pair_end))"
    using pair_texts by (simp add: sample_edge_core_def mk_dict_def nat_digits.simps max_str_digits_def)
  moreover have "plain_domain ''synapse-edge-identity-v1''" by (simp add: plain_domain_def lit_def)
  ultimately obtain h where
    edge: "content_identity sample_env ''synapse-edge:'' ''synapse-edge-identity-v1'' (sample_edge_core pair_start pair_end) = Inr (lit ''synapse-edge:'' @ hex h)"
    using content_identity_encodable by blast
  define i where "i = lit ''synapse-edge:'' @ hex h"
  have i: "encodable_text i" by (simp add: i_def)
  have "encodable (VDict (pair_graph_core i))"
    using pair_texts i by (simp add: pair_graph_core_def pair_nodes_def pair_node_def pair_edge_def sample_edge_def sample_edge_core_def offline_capabilities_def
        mk_dict_def nat_digits.simps max_str_digits_def)
  moreover have "plain_domain ''synapse-graph-v1''" by (simp add: plain_domain_def lit_def)
  ultimately obtain g where graph: "digest_object sample_env (VDict (pair_graph_core i)) (lit ''synapse-graph-v1'') = Inr g"
    using digest_object_encodable by blast
  have cps: "list_all is_code_point pair_start" "list_all is_code_point pair_end" "list_all is_code_point i"
    using encodable_text_code_points pair_texts i by blast+
  then have wf: "py_wf (VList pair_nodes)" "py_wf (VList [pair_edge i])"
    by (simp_all add: pair_nodes_def pair_node_def pair_edge_def sample_edge_def sample_edge_core_def mk_dict_def)
  have schema: "schema_ok sample_env ''synapse-graph'' (VDict (pair_graph i g))"
    by (simp add: sample_env_def verifiers_declared_def pair_graph_def pair_graph_core_def pair_edge_def mk_dict_def item_def item2_def dict_find_def sample_edge_def sample_edge_core_def)
  have digest: "synapse_graph_digest sample_env (pair_graph i g) = Inr g"
    using graph by (simp add: synapse_graph_digest_def pair_graph_def pair_graph_core_def mk_dict_def dict_pop_def)
  have fields: "field (pair_graph i g) ''graph_id'' = Inr (VStr g)" "field (pair_graph i g) ''tenant_id'' = Inr (vlit ''tenant:x'')"
    "field (pair_graph i g) ''capabilities'' = Inr (VDict offline_capabilities)"
    "list_item (VDict (pair_graph i g)) ''nodes'' = Inr pair_nodes" "list_item (VDict (pair_graph i g)) ''edges'' = Inr [pair_edge i]"
    by (simp_all add: list_item_Inr field_Inr pair_graph_def pair_graph_core_def mk_dict_def dict_find_def)
  have "check_node sample_env (vlit ''tenant:x'') (VDict (pair_node ''c'' pair_start)) = Inr ()"
    "check_node sample_env (vlit ''tenant:x'') (VDict (pair_node ''a'' pair_end)) = Inr ()"
    using pair_ids [of sample_env] by (simp_all add: check_node_def pair_node_def field_mk dict_item_def build_synapse_node_def pair_identity_def)
  then have check_n: "map_res (check_node sample_env (vlit ''tenant:x'')) pair_nodes = Inr [(), ()]" by (simp add: pair_nodes_def)
  let ?nodes = "[(pair_start, VDict (pair_node ''c'' pair_start)), (pair_end, VDict (pair_node ''a'' pair_end))]"
  have check_e: "check_edge sample_env ?nodes [(i, pair_edge i)] (pair_edge i) = Inr ()"
    using edge pair_edge_items unfolding pair_edge_def
    by (simp add: check_edge_def sample_edge_identity check_edge_authority_def check_edge_rollback_def sample_edge_items
        item2_def sample_edge_core_def field_mk i_def text_item_def)
  have eqs: "py_eq (VList pair_nodes) (VList pair_nodes)" "py_eq (VList [pair_edge i]) (VList [pair_edge i])"
    by (rule py_eq_refl [OF wf(1)], rule py_eq_refl [OF wf(2)])
  have "py_eq (VDict offline_capabilities) (VDict offline_capabilities)"
    by (rule py_eq_refl) (simp add: offline_capabilities_def mk_dict_def)
  moreover have "map_res (check_edge sample_env ?nodes [(i, pair_edge i)]) [pair_edge i] = Inr [()]" using check_e by simp
  ultimately have v: "\<exists>r. verify_synapse_graph sample_env (pair_graph i g) = Inr r"
    using schema digest fields pair_nodes_indexed pair_edge_items check_n eqs
    by (simp add: verify_synapse_graph_def validate_def max_graph_nodes_def max_graph_edges_def pair_nodes_def del: py_eq.simps(3,4) map_res.simps)
  then have "make_kernel sample_env (pair_graph i g) = Inr (pair_kernel i g)"
    using fields pair_nodes_indexed pair_edge_items by (auto simp: make_kernel_def sort_groups_def selection_key_def pair_kernel_def)
  then show ?thesis using i digest_object_text [OF graph] by blast
qed

text \<open>The edge is taken directly.\<close>

lemma pair_planned:
  assumes "encodable_text i" "encodable_text g"
  shows "\<exists>route. plan_route sample_env (pair_kernel i g) pair_context pair_end 8 512 = Some (Inr route) \<and>
    dict_find route ''edge_ids'' = Some (VList [VStr i])"
proof -
  let ?K = "pair_kernel i g" and ?C = pair_context
  have ctx: "validate_context ?K ?C = Inr ()"
    by (simp add: validate_context_def pair_kernel_def sample_context_def pair_graph_def pair_graph_core_def mk_dict_def item_def dict_find_def)
  obtain h where h: "context_digest sample_env ?C = Inr h" "encodable_text h" using sample_context_digest [OF pair_texts(1)] by blast
  have direct: "direct_route ?K ?C pair_end = Inr (Some (pair_edge i))"
    using sample_effect [of pair_start pair_end i] pair_edge_items(1,5)
    by (simp add: direct_route_def pair_kernel_def group_of_def sample_context_def [of pair_start] pair_edge_def [symmetric] selection_key_def)
  let ?core = "route_core ?C g h pair_end [i] [pair_start, pair_end] [0, 0, 0, 0, 0, 0, 0, 0, 0, 1] [] []"
  have "codable (VDict ?core)"
    using assms h(2) pair_texts by (simp add: route_core_def sample_context_def score_object_def control_plane_calls_def quote_encodable nat_digits.simps max_str_digits_def)
  then obtain rid where rid: "digest_object sample_env (VDict ?core) (lit ''synapse-route-v1'') = Inr (lit ''sha256:'' @ hex rid)"
    using codable_digest_object [OF _ sample_domains(2)] by blast
  have gid: "kernel_graph_id ?K = Inr g" by (simp add: kernel_graph_id_def text_item_Inr field_Inr pair_kernel_def pair_graph_def dict_find_def)
  have score: "path_score [pair_edge i] = Inr [0, 0, 0, 0, 0, 0, 0, 0, 0, 1]"
    by (simp add: path_score_def pair_edge_def sample_edge_items sample_edge_core_def field_mk score_columns_def transition_rank_of_def blast_rank_of_def
      reversibility_rank_of_def authority_count_def required_authorities_def cost_of_def text_item_def int_item_def texts_item_def list_item_def
      rank_in_def transition_ranks_def blast_ranks_def reversibility_ranks_def)
  have entries: "verifier_entry (pair_edge i) = Inr []" "rollback_entry (pair_edge i) = Inr []"
    by (simp_all add: verifier_entry_def rollback_entry_def pair_edge_def item2_def sample_edge_items sample_edge_core_def field_mk)
  have edges: "edges_by_id ?K [i] = Inr [pair_edge i]" by (simp add: edges_by_id_def pair_kernel_def)
  have "route_receipt sample_env ?K ?C pair_end [i] [pair_start, pair_end] = Inr ((tkey ''route_id'', VStr (lit ''sha256:'' @ hex rid)) # ?core)"
    using rid h gid score entries edges by (simp add: route_receipt_def validate_def sample_env_def)
  moreover have "map_of (sk_nodes ?K) pair_end \<noteq> None" using pair_texts(4) by (simp add: pair_kernel_def)
  ultimately have "plan_route sample_env ?K ?C pair_end 8 512 = Some (Inr ((tkey ''route_id'', VStr (lit ''sha256:'' @ hex rid)) # ?core))"
    using ctx direct pair_texts(4) pair_edge_items(1) by (simp add: plan_route_def max_route_hops_def max_route_expansions_def) (simp add: sample_context_def)
  moreover have "dict_find ((tkey ''route_id'', VStr (lit ''sha256:'' @ hex rid)) # ?core) ''edge_ids'' = Some (VList [VStr i])"
    by (simp add: dict_find_def route_core_def mk_dict_def)
  ultimately show ?thesis by blast
qed

end
