(* ===== verification/SynapseProperties.thy ===== *)
theory SynapseProperties
  imports SynapsePair
begin

text \<open>
  The properties of \<open>synapse.py\<close>, on verified graphs: safety of the graph itself, termination of both
  searches, planned routes are permitted and pass the simulation, slices are closed and bounded.
  The witnesses evaluate the graphs of \<open>SynapseExample\<close> and \<open>SynapsePair\<close>.
\<close>

section \<open>Properties\<close>

text \<open>What a verified graph, by the identifiers of its nodes and its edges, guarantees of one edge.\<close>

definition safe_edge :: "ustring list \<Rightarrow> pyval list \<Rightarrow> pyval \<Rightarrow> bool" where
  "safe_edge node_ids edges edge \<longleftrightarrow>
     (\<exists>a b kind production. text_item edge ''from_node_id'' = Inr a \<and> text_item edge ''to_node_id'' = Inr b \<and>
      a \<in> set node_ids \<and> b \<in> set node_ids \<and> text_item edge ''transition_kind'' = Inr kind \<and>
      item2 edge ''authority'' ''production_authority'' = Inr production \<and> (truthy production \<longleftrightarrow> kind = lit ''production_mutation'') \<and>
      (kind \<in> {lit ''disposable_mutation'', lit ''production_mutation''} \<longrightarrow>
         (\<exists>required verifier. item2 edge ''verifier'' ''required'' = Inr required \<and> truthy required \<and>
            item2 edge ''verifier'' ''verifier_id'' = Inr verifier \<and> verifier \<noteq> VNone)) \<and>
      (\<forall>mode. item2 edge ''reversibility'' ''mode'' = Inr (VStr mode) \<longrightarrow> mode \<in> {lit ''automatic'', lit ''manual''} \<longrightarrow>
         (\<exists>back \<in> set edges. \<exists>i. item2 edge ''reversibility'' ''rollback_edge_id'' = Inr (VStr i) \<and> text_item back ''edge_id'' = Inr i \<and>
            text_item back ''from_node_id'' = Inr b \<and> text_item back ''to_node_id'' = Inr a \<and>
            text_item back ''transition_kind'' = Inr (lit ''rollback''))))"

lemma checked_edge:
  assumes "check_edge E nodes edge_index edge = Inr ()"
    and dom: "\<And>i. map_of nodes i \<noteq> None \<Longrightarrow> i \<in> set node_ids"
    and indexed: "\<And>i x. map_of edge_index i = Some x \<Longrightarrow> x \<in> set edges \<and> text_item x ''edge_id'' = Inr i"
  shows "safe_edge node_ids edges edge"
proof -
  obtain a b where ab: "text_item edge ''from_node_id'' = Inr a" "text_item edge ''to_node_id'' = Inr b" "a \<in> set node_ids" "b \<in> set node_ids"
    and auth: "check_edge_authority edge = Inr ()" and undo: "check_edge_rollback edge_index edge = Inr ()"
    using assms(1) dom unfolding check_edge_def by (auto simp: ebind_eq_Inr ensure_eq_Inr)
  obtain kind production where k: "text_item edge ''transition_kind'' = Inr kind" "item2 edge ''authority'' ''production_authority'' = Inr production"
    "truthy production \<longleftrightarrow> kind = lit ''production_mutation''"
    "kind \<in> {lit ''disposable_mutation'', lit ''production_mutation''} \<longrightarrow>
       (\<exists>required verifier. item2 edge ''verifier'' ''required'' = Inr required \<and> truthy required \<and>
          item2 edge ''verifier'' ''verifier_id'' = Inr verifier \<and> verifier \<noteq> VNone)"
    using auth unfolding check_edge_authority_def by (auto simp: ebind_eq_Inr ensure_eq_Inr split: if_splits)
  have reversal: "\<exists>back \<in> set edges. \<exists>i. item2 edge ''reversibility'' ''rollback_edge_id'' = Inr (VStr i) \<and> text_item back ''edge_id'' = Inr i \<and>
      text_item back ''from_node_id'' = Inr b \<and> text_item back ''to_node_id'' = Inr a \<and> text_item back ''transition_kind'' = Inr (lit ''rollback'')"
    if m: "item2 edge ''reversibility'' ''mode'' = Inr (VStr mode)" "mode \<in> {lit ''automatic'', lit ''manual''}" for mode
  proof -
    obtain r where r: "item2 edge ''reversibility'' ''rollback_edge_id'' = Inr r" "r \<noteq> VNone"
      using undo m unfolding check_edge_rollback_def by (auto simp: ebind_eq_Inr ensure_eq_Inr item2_Inr text_item_Inr)
    obtain i undoing where "r = VStr i" "map_of edge_index i = Some undoing" "text_item undoing ''from_node_id'' = Inr b"
      "text_item undoing ''to_node_id'' = Inr a" "text_item undoing ''transition_kind'' = Inr (lit ''rollback'')"
      using undo r m(1) ab(1,2) unfolding check_edge_rollback_def
      by (cases r) (auto simp: ebind_eq_Inr ensure_eq_Inr item2_Inr text_item_Inr split: option.splits)
    then show ?thesis using r(1) indexed [of i undoing] by blast
  qed
  show ?thesis
    unfolding safe_edge_def
    by (rule exI [of _ a], rule exI [of _ b], rule exI [of _ kind], rule exI [of _ production]) (use ab k reversal in blast)
qed

text \<open>
  C20. A verified capability graph is safe: identifiers are unique, every edge joins two nodes of the
  graph, exactly the production mutations demand production authority, every mutation names a
  required verifier, and every edge that claims to be reversible has a rollback edge in the graph that leads back.
\<close>

theorem verified_graph_is_safe:
  assumes "verify_synapse_graph E graph = Inr r"
  shows "\<exists>nodes edges node_ids edge_ids. dict_find graph ''nodes'' = Some (VList nodes) \<and> dict_find graph ''edges'' = Some (VList edges) \<and>
    map_res (\<lambda>n. text_item n ''node_id'') nodes = Inr node_ids \<and> distinct node_ids \<and>
    map_res (\<lambda>e. text_item e ''edge_id'') edges = Inr edge_ids \<and> distinct edge_ids \<and>
    (\<forall>edge \<in> set edges. safe_edge node_ids edges edge)"
proof -
  obtain nodes edges node_index edge_index us where f: "dict_find graph ''nodes'' = Some (VList nodes)" "dict_find graph ''edges'' = Some (VList edges)"
    and n: "index_by ''node_id'' nodes = Inr node_index" "length node_index = length nodes"
    and e: "index_by ''edge_id'' edges = Inr edge_index" "length edge_index = length edges"
    and us: "map_res (check_edge E node_index edge_index) edges = Inr us"
    by (rule verified_graph [OF assms]) blast
  obtain node_ids where ns: "map_res (\<lambda>n. text_item n ''node_id'') nodes = Inr node_ids" "distinct node_ids" "map_of node_index = map_of (zip node_ids nodes)"
    using index_by_distinct [OF n] by blast
  obtain edge_ids where es: "map_res (\<lambda>n. text_item n ''edge_id'') edges = Inr edge_ids" "distinct edge_ids"
    using index_by_distinct [OF e] by blast
  have dom: "i \<in> set node_ids" if "map_of node_index i \<noteq> None" for i
    using that ns(3) map_of_zip_is_None [OF map_res_Inr_length [OF ns(1)], of i] by auto
  have checked: "check_edge E node_index edge_index edge = Inr ()" if "edge \<in> set edges" for edge
    using list_all2_in [OF us [unfolded map_res_Inr_iff] that] by auto
  have "safe_edge node_ids edges edge" if "edge \<in> set edges" for edge
    by (rule checked_edge [OF checked [OF that] dom index_by_element [OF e(1)]])
  then show ?thesis using f ns(1,2) es by blast
qed

theorem verified_graph_is_safe_witness:
  "\<exists>n i g r node_ids. verify_synapse_graph sample_env (sample_graph n i g) = Inr r \<and>
     safe_edge node_ids [VDict (sample_edge n n i)] (VDict (sample_edge n n i))"
proof -
  obtain n i g where "make_kernel sample_env (sample_graph n i g) = Inr (sample_kernel n i g)" using sample_kernel_made by blast
  then obtain r where r: "verify_synapse_graph sample_env (sample_graph n i g) = Inr r" by (auto simp: make_kernel_def ebind_eq_Inr)
  have "dict_find (sample_graph n i g) ''edges'' = Some (VList [VDict (sample_edge n n i)])"
    by (simp add: sample_graph_def sample_graph_core_def mk_dict_def dict_find_def)
  with verified_graph_is_safe [OF r] obtain node_ids where "safe_edge node_ids [VDict (sample_edge n n i)] (VDict (sample_edge n n i))" by auto
  with r show ?thesis by blast
qed

text \<open>
  C21. Planning a route and compiling a slice always return, for every graph, cyclic ones included, and
  for every policy, target and limit.
\<close>

theorem synapse_searches_terminate:
  "(\<exists>r. plan_route E K C target max_hops max_expansions = Some r) \<and>
   (\<exists>r. compile_capability_slice E K C max_depth max_nodes max_edges = Some r)"
proof
  obtain r where "route_search E K C target max_hops max_expansions 0 Map.empty [start_entry C] = Some r"
    using route_search_returns by blast
  then show "\<exists>r. plan_route E K C target max_hops max_expansions = Some r"
    by (auto simp: plan_route_def split: sum.splits option.splits)
  obtain s where "slice_search E K C max_depth max_nodes max_edges [] (slice_start C) = Some s"
    using slice_search_returns by blast
  then show "\<exists>r. compile_capability_slice E K C max_depth max_nodes max_edges = Some r"
    by (auto simp: compile_capability_slice_def split: sum.splits)
qed

text \<open>
  C22. A planned route is a walk in the graph from the current node to the target, of at most the
  allowed number of hops, and every edge on it is permitted: within the allowed subsystems,
  capabilities, transition kind and blast radius, with all its authorities granted, without
  production authority, declared, and with fresh evidence.
\<close>

theorem planned_route_is_permitted:
  assumes "make_kernel E graph = Inr K" and "plan_route E K C target max_hops max_expansions = Some (Inr route)"
  shows "\<exists>es ns facts. dict_find route ''edge_ids'' = Some (VList (map VStr es)) \<and> dict_find route ''node_ids'' = Some (VList (map VStr ns)) \<and>
    walk K C es ns facts target \<and> int (length es) \<le> max_hops \<and>
    (\<forall>i \<in> set es. \<exists>edge. map_of (sk_edges K) i = Some edge \<and> permitted C edge)"
proof -
  obtain es ns facts where w: "walk K C es ns facts target" "int (length es) \<le> max_hops" and r: "route_receipt E K C target es ns = Inr route"
    by (rule planned_walk [OF made_kernel(1) [OF assms(1)] assms(2)]) blast
  have "dict_find route ''edge_ids'' = Some (VList (map VStr es))" "dict_find route ''node_ids'' = Some (VList (map VStr ns))"
    by (rule route_receipt_Inr [OF r], simp add: route_find)+
  then show ?thesis using w walk_permitted [OF w(1)] by blast
qed

theorem planned_route_is_permitted_witness:
  "\<exists>i g route edge ns facts. plan_route sample_env (pair_kernel i g) pair_context pair_end 8 512 = Some (Inr route) \<and>
     dict_find route ''edge_ids'' = Some (VList [VStr i]) \<and> walk (pair_kernel i g) pair_context [i] ns facts pair_end \<and>
     map_of (sk_edges (pair_kernel i g)) i = Some edge \<and> permitted pair_context edge"
proof -
  obtain i g where k: "make_kernel sample_env (pair_graph i g) = Inr (pair_kernel i g)" "encodable_text i" "encodable_text g"
    using pair_kernel_made by blast
  obtain route where r: "plan_route sample_env (pair_kernel i g) pair_context pair_end 8 512 = Some (Inr route)" "dict_find route ''edge_ids'' = Some (VList [VStr i])"
    using pair_planned [OF k(2,3)] by blast
  from planned_route_is_permitted [OF k(1) r(1)] obtain es ns facts where
    e: "dict_find route ''edge_ids'' = Some (VList (map VStr es))" "walk (pair_kernel i g) pair_context es ns facts pair_end"
       "\<forall>i' \<in> set es. \<exists>edge. map_of (sk_edges (pair_kernel i g)) i' = Some edge \<and> permitted pair_context edge" by blast
  have es: "es = [i]" using e(1) r(2) by auto
  then obtain edge where "map_of (sk_edges (pair_kernel i g)) i = Some edge" "permitted pair_context edge" using e(3) by auto
  then show ?thesis using e(2) r unfolding es by blast
qed

text \<open>
  C23. Whatever \<open>plan_route\<close> returns, \<open>simulate_route\<close> accepts in the same kernel and context: all its
  checks pass. What it produces is determined by the walk that the route records: one trace entry per
  edge with the facts that hold after it, the digests of the first and the last facts, the target, and nothing
  executed. It is returned unless the schema of simulations refuses that very document.
\<close>

theorem planned_route_simulates:
  assumes "make_kernel E graph = Inr K" and "graph_schema_ok E"
    and "plan_route E K C target max_hops max_expansions = Some (Inr route)"
  shows "\<exists>es ns facts trace gid rid rollbacks start_digest final_digest sid sim.
    dict_find route ''edge_ids'' = Some (VList (map VStr es)) \<and> dict_find route ''node_ids'' = Some (VList (map VStr ns)) \<and>
    traced E K C es ns facts target trace \<and>
    kernel_graph_id K = Inr gid \<and> dict_find route ''route_id'' = Some rid \<and> dict_find route ''rollback_edge_ids'' = Some rollbacks \<and>
    facts_digest E (sc_facts C) = Inr start_digest \<and> facts_digest E facts = Inr final_digest \<and>
    digest_object E (VDict (simulation_core C gid rid target start_digest final_digest trace rollbacks)) (lit ''synapse-simulation-v1'') = Inr sid \<and>
    sim = (tkey ''simulation_id'', VStr sid) # simulation_core C gid rid target start_digest final_digest trace rollbacks \<and>
    dict_find sim ''execution_performed'' = Some (VBool False) \<and>
    simulate_route E K C route = (if schema_ok E ''synapse-simulation'' (VDict sim) then Inr sim else raise ValidationError ''synapse-simulation'')"
proof -
  obtain es ns facts where w: "walk K C es ns facts target" "int (length es) \<le> max_hops" and r: "route_receipt E K C target es ns = Inr route"
    and v: "validate_context K C = Inr ()"
    by (rule planned_walk [OF made_kernel(1) [OF assms(1)] assms(3)]) blast
  have "max_hops \<le> 32"
    using assms(3) by (auto simp: plan_route_def ebind_eq_Inr ensure_eq_Inr max_route_hops_def split: sum.splits)
  then have "length es < 100" using w(2) by simp
  note sim = simulate_planned [OF w(1) made_kernel(1) [OF assms(1)] made_kernel_traceable [OF assms(1,2)] this v r]
  have ids: "dict_find route ''edge_ids'' = Some (VList (map VStr es))" "dict_find route ''node_ids'' = Some (VList (map VStr ns))"
    by (rule route_receipt_Inr [OF r], simp add: route_find)+
  have "dict_find ((tkey ''simulation_id'', VStr sid) # simulation_core C gid rid target a b trace rollbacks) ''execution_performed'' = Some (VBool False)"
    for sid gid rid a b trace rollbacks by (simp add: simulation_core_def mk_dict_def dict_find_def)
  with sim ids show ?thesis by metis
qed

text \<open>A route of one edge is planned and simulated.\<close>

theorem planned_route_simulates_witness:
  "\<exists>i g route sim. plan_route sample_env (pair_kernel i g) pair_context pair_end 8 512 = Some (Inr route) \<and>
     dict_find route ''edge_ids'' = Some (VList [VStr i]) \<and> simulate_route sample_env (pair_kernel i g) pair_context route = Inr sim \<and>
     dict_find sim ''execution_performed'' = Some (VBool False)"
proof -
  obtain i g where k: "make_kernel sample_env (pair_graph i g) = Inr (pair_kernel i g)" "encodable_text i" "encodable_text g"
    using pair_kernel_made by blast
  obtain route where r: "plan_route sample_env (pair_kernel i g) pair_context pair_end 8 512 = Some (Inr route)" "dict_find route ''edge_ids'' = Some (VList [VStr i])"
    using pair_planned [OF k(2,3)] by blast
  have schema: "schema_ok sample_env ''synapse-simulation'' v" for v by (simp add: sample_env_def)
  from planned_route_simulates [OF k(1) sample_env_schema r(1)]
  obtain sim where "dict_find sim ''execution_performed'' = Some (VBool False)"
    "simulate_route sample_env (pair_kernel i g) pair_context route =
      (if schema_ok sample_env ''synapse-simulation'' (VDict sim) then Inr sim else raise ValidationError ''synapse-simulation'')" by blast
  then show ?thesis using r schema by auto
qed

text \<open>
  C24. A capability slice stays within its limits and is closed: it contains the current node, every
  edge in it is permitted, and both ends of every edge are nodes of the slice. It grants no execution.
\<close>

theorem slice_is_closed_and_bounded:
  assumes "make_kernel E graph = Inr K" and "compile_capability_slice E K C max_depth max_nodes max_edges = Some (Inr d)"
  shows "\<exists>nodes edges. dict_find d ''nodes'' = Some (VList nodes) \<and> dict_find d ''edges'' = Some (VList edges) \<and>
    dict_find d ''execution_authority'' = Some (VBool False) \<and> int (length nodes) \<le> max_nodes \<and> int (length edges) \<le> max_edges \<and>
    (\<exists>node \<in> set nodes. text_item node ''node_id'' = Inr (sc_current_node_id C)) \<and>
    (\<forall>edge \<in> set edges. permitted C edge \<and> (\<exists>a b. text_item edge ''from_node_id'' = Inr a \<and> text_item edge ''to_node_id'' = Inr b \<and>
       (\<exists>node \<in> set nodes. text_item node ''node_id'' = Inr a) \<and> (\<exists>node \<in> set nodes. text_item node ''node_id'' = Inr b)))"
proof -
  note K = made_kernel(1) [OF assms(1)]
  obtain s where s: "slice_ok K C max_nodes max_edges s" "slice_receipt E K C max_depth max_nodes max_edges s = Inr d"
    by (rule sliced_state [OF K assms(2)])
  obtain nodes edges where d: "dict_find d ''nodes'' = Some (VList nodes)" "dict_find d ''edges'' = Some (VList edges)"
    "dict_find d ''execution_authority'' = Some (VBool False)"
    and n: "list_all2 (\<lambda>i n. map_of (sk_nodes K) i = Some n) (sort (ss_nodes s)) nodes"
    and e: "list_all2 (\<lambda>i e. map_of (sk_edges K) i = Some e) (sort (ss_edges s)) edges"
    by (rule slice_receipt_Inr [OF s(2)])
  have node: "\<exists>node \<in> set nodes. text_item node ''node_id'' = Inr i" if "i \<in> set (ss_nodes s)" for i
    using list_all2_in [OF n, of i] that K by (auto simp: kernel_ok_def)
  have edge: "permitted C edge \<and> (\<exists>a b. text_item edge ''from_node_id'' = Inr a \<and> text_item edge ''to_node_id'' = Inr b \<and>
      (\<exists>node \<in> set nodes. text_item node ''node_id'' = Inr a) \<and> (\<exists>node \<in> set nodes. text_item node ''node_id'' = Inr b))"
    if mem: "edge \<in> set edges" for edge
  proof -
    obtain a b where "permitted C edge" "text_item edge ''from_node_id'' = Inr a" "text_item edge ''to_node_id'' = Inr b"
      "a \<in> set (ss_nodes s)" "b \<in> set (ss_nodes s)"
      using list_all2_in2 [OF e mem] s(1) by (fastforce simp: slice_ok_def)
    then show ?thesis using node [of a] node [of b] by blast
  qed
  have "sc_current_node_id C \<in> set (ss_nodes s)" "int (length nodes) \<le> max_nodes" "int (length edges) \<le> max_edges"
    using s(1) list_all2_lengthD [OF n] list_all2_lengthD [OF e] by (auto simp: slice_ok_def)
  then show ?thesis using d node [of "sc_current_node_id C"] edge
    by (intro exI [of _ nodes] exI [of _ edges] conjI ballI) simp_all
qed

theorem slice_is_closed_and_bounded_witness:
  "\<exists>n i g d edge. compile_capability_slice sample_env (sample_kernel n i g) (sample_context n) 1 8 8 = Some (Inr d) \<and>
     dict_find d ''edges'' = Some (VList [edge]) \<and> permitted (sample_context n) edge"
proof -
  obtain n i g where k: "make_kernel sample_env (sample_graph n i g) = Inr (sample_kernel n i g)" "encodable_text n" "encodable_text i" "encodable_text g"
    using sample_kernel_made by blast
  obtain d where d: "compile_capability_slice sample_env (sample_kernel n i g) (sample_context n) 1 8 8 = Some (Inr d)"
    "dict_find d ''edges'' = Some (VList [VDict (sample_edge n n i)])" using sample_sliced [OF k(2-4)] by blast
  from slice_is_closed_and_bounded [OF k(1) d(1)] d(2) have "permitted (sample_context n) (VDict (sample_edge n n i))" by auto
  with d show ?thesis by blast
qed

end
