(* ===== verification/Connectome.thy ===== *)
theory Connectome
  imports SynapseProperties Transactions
begin

text \<open>
  \<open>connectome.py\<close>: capability manifests of a tenant, their verification, and their compilation into
  a capability graph with a content-addressed receipt. Both results are kept in bounded caches under
  the identifier of the manifest, least recently used entries first; the caches are the state of
  the operations here. Each section under the lock of the module is one step on that state.
\<close>

section \<open>Caches\<close>

definition cache_limit :: nat where "cache_limit = 32"

record connectome_caches =
  cc_compilations :: "(ustring \<times> pydict) list"
  cc_verifications :: "(ustring \<times> pydict) list"

text \<open>\<open>cache.move_to_end(k)\<close> for a key of the cache.\<close>

definition move_to_end :: "'k \<Rightarrow> ('k \<times> 'v) list \<Rightarrow> ('k \<times> 'v) list" where
  "move_to_end k d = (case map_of d k of None \<Rightarrow> d | Some v \<Rightarrow> AList.delete k d @ [(k, v)])"

text \<open>\<open>while len(cache) > limit: cache.popitem(last=False)\<close>\<close>

function trim_cache :: "('k \<times> 'v) list \<Rightarrow> ('k \<times> 'v) list" where
  "trim_cache d = (if cache_limit < length d then trim_cache (tl d) else d)"
  by auto
termination by (relation "measure length") auto

declare trim_cache.simps [simp del]

definition cache_put :: "'k \<Rightarrow> 'v \<Rightarrow> ('k \<times> 'v) list \<Rightarrow> ('k \<times> 'v) list" where
  "cache_put k v d = trim_cache (move_to_end k (AList.update k v d))"

definition cached_compilation :: "ustring \<Rightarrow> (connectome_caches, pydict option) op" where
  "cached_compilation manifest_id =
     sbind (query (\<lambda>s. map_of (cc_compilations s) manifest_id)) (\<lambda>compilation.
     case compilation of
       None \<Rightarrow> give None
     | Some c \<Rightarrow> sbind (modify (cc_compilations_update (move_to_end manifest_id))) (\<lambda>_. give (Some c)))"

definition cache_compilation :: "pydict \<Rightarrow> (connectome_caches, unit) op" where
  "cache_compilation compilation =
     sbind (pure_op (text_item (VDict compilation) ''manifest_id'')) (\<lambda>manifest_id.
     modify (cc_compilations_update (cache_put manifest_id compilation)))"

section \<open>Manifests\<close>

definition max_connectome_nodes :: nat where "max_connectome_nodes = 10000"
definition max_connectome_capabilities :: nat where "max_connectome_capabilities = 25000"

definition reserved_provenance_prefix :: ustring where
  "reserved_provenance_prefix = lit ''connectome-manifest:''"

definition offline_boundary :: pydict where
  "offline_boundary = mk_dict [(''credentials'', VBool False), (''execution'', VBool False),
     (''model_sdk'', VBool False), (''network'', VBool False), (''production_authority'', VBool False)]"

definition zero_calls :: pydict where
  "zero_calls = mk_dict [(''model_calls'', VInt 0), (''tool_calls'', VInt 0)]"

definition compilation_invariants :: pydict where
  "compilation_invariants = mk_dict [(''all_capabilities_declared'', VBool True), (''execution_performed'', VBool False),
     (''identities_compiler_derived'', VBool True), (''manifest_graph_bound'', VBool True), (''model_calls'', VInt 0),
     (''production_authority'', VBool False), (''tenant_bound'', VBool True), (''tool_calls'', VInt 0)]"

definition manifest_core :: "pydict \<Rightarrow> pydict" where
  "manifest_core manifest = dict_pop manifest ''manifest_id''"

definition connectome_manifest_digest :: "env \<Rightarrow> pydict \<Rightarrow> ustring res" where
  "connectome_manifest_digest E manifest = digest_object E (VDict (manifest_core manifest)) (lit ''connectome-manifest-v1'')"

text \<open>\<open>str(v)\<close> and \<open>int(v)\<close> in sort keys. Containers and floating-point numbers, and text as a
  number, are left out: the schema of the manifest and its encoding refuse them in these places.\<close>

definition str_of :: "pyval \<Rightarrow> ustring res" where
  "str_of v =
     (case v of
        VStr s \<Rightarrow> Inr s
      | VNone \<Rightarrow> Inr (lit ''None'')
      | VBool b \<Rightarrow> Inr (if b then lit ''True'' else lit ''False'')
      | VInt n \<Rightarrow> ensure (length (nat_digits \<bar>n\<bar>) \<le> max_str_digits) ValueError ''integer string conversion'' (Inr (int_repr n))
      | _ \<Rightarrow> raise TypeError ''sort key'')"

definition int_of :: "pyval \<Rightarrow> int res" where
  "int_of v =
     (case v of VInt n \<Rightarrow> Inr n | VBool b \<Rightarrow> Inr (if b then 1 else 0) | _ \<Rightarrow> raise TypeError ''int'')"

text \<open>\<open>d.get(k, default)\<close>\<close>

definition get_or :: "pydict \<Rightarrow> string \<Rightarrow> pyval \<Rightarrow> pyval" where
  "get_or d k dflt = (case dict_find d k of None \<Rightarrow> dflt | Some v \<Rightarrow> v)"

definition sorted_records :: "string \<Rightarrow> pydict list \<Rightarrow> pydict list res" where
  "sorted_records field_name records = sort_by (\<lambda>r. str_of (get_or r field_name (VStr []))) records"

text \<open>Canonical bytes as a sort key.\<close>

definition bytes_key :: "pyval \<Rightarrow> int list res" where
  "bytes_key v = ebind (canonical_bytes v) (\<lambda>b. Inr (map of_char b))"

definition normal_requirement_key :: "pyval \<Rightarrow> (ustring \<times> int) res" where
  "normal_requirement_key v =
     (case v of
        VDict d \<Rightarrow>
          ebind (str_of (get_or d ''evidence_id'' (VStr []))) (\<lambda>i.
          ebind (int_of (get_or d ''max_age_seconds'' (VInt 0))) (\<lambda>n. Inr (i, n)))
      | _ \<Rightarrow> raise AttributeError ''get'')"

definition normalize_authority :: "pydict \<Rightarrow> pydict res" where
  "normalize_authority d =
     (case dict_get d ''authority'' of
        VDict authority \<Rightarrow>
          ebind (sorted_texts (get_or authority ''required_authority_ids'' (VList []))) (\<lambda>ids.
          Inr (dict_put d ''authority'' (VDict (dict_put authority ''required_authority_ids'' ids))))
      | _ \<Rightarrow> Inr d)"

text \<open>Sorting a member in place when it is a list.\<close>

definition sort_member :: "(pyval \<Rightarrow> ('k :: linorder) res) \<Rightarrow> string \<Rightarrow> pydict \<Rightarrow> pydict res" where
  "sort_member key k d =
     (case dict_get d k of
        VList xs \<Rightarrow> ebind (sort_by key xs) (\<lambda>ys. Inr (dict_put d k (VList ys)))
      | _ \<Rightarrow> Inr d)"

definition normalize_capability :: "pydict \<Rightarrow> pydict res" where
  "normalize_capability capability =
     ebind (normalize_authority capability) (\<lambda>d.
     ebind (sort_member normal_requirement_key ''evidence_requirements'' d) (\<lambda>d.
     ebind (sort_member bytes_key ''preconditions'' d) (\<lambda>d.
     ebind (sort_member bytes_key ''postconditions'' d) (\<lambda>d.
     sort_member bytes_key ''provenance'' d))))"

definition canonical_requirement_key :: "pyval \<Rightarrow> (ustring \<times> int) res" where
  "canonical_requirement_key v =
     ebind (text_item v ''evidence_id'') (\<lambda>i. ebind (int_item v ''max_age_seconds'') (\<lambda>n. Inr (i, n)))"

text \<open>The list member is in the order of the key.\<close>

definition require_sorted :: "(pyval \<Rightarrow> ('k :: linorder) res) \<Rightarrow> string \<Rightarrow> string \<Rightarrow> pyval \<Rightarrow> unit res" where
  "require_sorted key k msg v =
     ebind (list_item v k) (\<lambda>xs.
     ebind (sort_by key xs) (\<lambda>ys.
     ensure (py_eq (VList xs) (VList ys)) ConnectomeError msg (Inr ())))"

definition require_canonical_capability :: "pyval \<Rightarrow> unit res" where
  "require_canonical_capability capability =
     ebind (item capability ''authority'') (\<lambda>authority.
     ebind (texts_item authority ''required_authority_ids'') (\<lambda>authority_ids.
     ensure (authority_ids = sort authority_ids) ConnectomeError ''Connectome authority ids are not in canonical order''
     (ebind (require_sorted canonical_requirement_key ''evidence_requirements''
               ''Connectome evidence requirements are not in canonical order'' capability) (\<lambda>_.
      ebind (require_sorted bytes_key ''preconditions'' ''Connectome preconditions are not in canonical order'' capability) (\<lambda>_.
      ebind (require_sorted bytes_key ''postconditions'' ''Connectome postconditions are not in canonical order'' capability) (\<lambda>_.
      require_sorted bytes_key ''provenance'' ''Connectome provenance are not in canonical order'' capability))))))"

text \<open>\<open>any(record["source_id"].startswith(prefix) for record in records)\<close>\<close>

fun any_reserved :: "pyval list \<Rightarrow> bool res" where
  "any_reserved [] = Inr False"
| "any_reserved (record # records) =
     ebind (text_item record ''source_id'') (\<lambda>s.
     if starts_with reserved_provenance_prefix s then Inr True else any_reserved records)"

text \<open>The authority, verifier and provenance rules of one capability.\<close>

definition check_capability_authority :: "pyval \<Rightarrow> unit res" where
  "check_capability_authority capability =
     ebind (item2 capability ''authority'' ''production_authority'') (\<lambda>production.
     ensure (\<not> truthy production) ConnectomeError ''Connectome compiler cannot accept production authority''
     (ebind (text_item capability ''transition_kind'') (\<lambda>kind.
      ensure (kind \<noteq> lit (transition_value PRODUCTION_MUTATION)) ConnectomeError ''Connectome compiler cannot compile production mutation''
      (ebind (if kind = lit (transition_value DISPOSABLE_MUTATION) then
                ebind (item2 capability ''verifier'' ''required'') (\<lambda>required.
                ensure (truthy required) ConnectomeError ''Connectome mutation requires an explicit verifier''
                (ebind (item2 capability ''verifier'' ''verifier_id'') (\<lambda>verifier_id.
                 ensure (verifier_id \<noteq> VNone) ConnectomeError ''Connectome mutation requires an explicit verifier'' (Inr ()))))
              else Inr ()) (\<lambda>_.
       ebind (list_item capability ''provenance'') (\<lambda>provenance.
       ebind (map_res (\<lambda>p. item p ''class'') provenance) (\<lambda>classes.
       ensure (vlit ''DECLARED'' \<in> set classes) ConnectomeError ''Connectome capability is not DECLARED''
       (ebind (any_reserved provenance) (\<lambda>reserved.
        ensure (\<not> reserved) ConnectomeError ''Connectome capability uses reserved compiler provenance'' (Inr ()))))))))))"

text \<open>The rollback rules of one capability.\<close>

definition check_capability_rollback :: "(ustring \<times> pyval) list \<Rightarrow> pyval \<Rightarrow> unit res" where
  "check_capability_rollback capability_by_id capability =
     ebind (ebind (item capability ''reversibility'') (\<lambda>r. text_item r ''mode'')) (\<lambda>mode.
     ebind (item2 capability ''reversibility'' ''rollback_capability_id'') (\<lambda>rollback_id.
     ensure (\<not> (mode \<in> {lit ''automatic'', lit ''manual''} \<and> rollback_id = VNone)) ConnectomeError
       ''reversible Connectome capability lacks rollback capability''
     (ensure (\<not> (mode \<in> {lit ''not_applicable'', lit ''irreversible''} \<and> truthy rollback_id)) ConnectomeError
       ''non-reversible Connectome capability names rollback capability''
     (if rollback_id = VNone then Inr ()
      else (case (case rollback_id of VStr i \<Rightarrow> map_of capability_by_id i | _ \<Rightarrow> None) of
        None \<Rightarrow> raise ConnectomeError ''Connectome rollback capability does not exist''
      | Some back_capability \<Rightarrow>
          ebind (text_item back_capability ''transition_kind'') (\<lambda>back_kind.
          ebind (text_item back_capability ''from_node_key'') (\<lambda>back_from.
          ebind (text_item capability ''to_node_key'') (\<lambda>to_key.
          ebind (text_item back_capability ''to_node_key'') (\<lambda>back_to.
          ebind (text_item capability ''from_node_key'') (\<lambda>from_key.
          ensure (back_kind = lit (transition_value ROLLBACK) \<and> back_from = to_key \<and> back_to = from_key) ConnectomeError
            ''Connectome rollback does not reverse its capability'' (Inr ())))))))))))"

definition check_capability :: "(ustring \<times> pyval) list \<Rightarrow> (ustring \<times> pyval) list \<Rightarrow> pyval \<Rightarrow> unit res" where
  "check_capability node_by_key capability_by_id capability =
     ebind (require_canonical_capability capability) (\<lambda>_.
     ebind (text_item capability ''from_node_key'') (\<lambda>from_key.
     ebind (text_item capability ''to_node_key'') (\<lambda>to_key.
     ensure (map_of node_by_key from_key \<noteq> None \<and> map_of node_by_key to_key \<noteq> None) ConnectomeError
       ''Connectome capability endpoint does not exist''
     (ebind (check_capability_authority capability) (\<lambda>_. check_capability_rollback capability_by_id capability)))))"

text \<open>The verification of a manifest whose identifier is right, without the cache.\<close>

definition verify_manifest_content :: "env \<Rightarrow> pydict \<Rightarrow> pydict res" where
  "verify_manifest_content E candidate =
     ebind (catch_as (\<lambda>c. c \<in> {ValidationError, KeyError, TypeError} \<or> is_ValueError c) ConnectomeError
              ''Connectome manifest schema is invalid'' (validate E ''connectome-manifest'' (VDict candidate))) (\<lambda>_.
     ebind (field candidate ''compiler_boundary'') (\<lambda>boundary.
     ensure (py_eq boundary (VDict offline_boundary)) ConnectomeError ''Connectome offline compiler boundary mismatch''
     (ebind (list_item (VDict candidate) ''nodes'') (\<lambda>nodes.
      ebind (list_item (VDict candidate) ''capabilities'') (\<lambda>capabilities.
      ebind (sort_by (\<lambda>n. text_item n ''node_key'') nodes) (\<lambda>ordered_nodes.
      ensure (py_eq (VList nodes) (VList ordered_nodes)) ConnectomeError ''Connectome nodes are not in canonical order''
      (ebind (sort_by (\<lambda>c. text_item c ''capability_id'') capabilities) (\<lambda>ordered_capabilities.
       ensure (py_eq (VList capabilities) (VList ordered_capabilities)) ConnectomeError
         ''Connectome capabilities are not in canonical order''
       (ebind (index_by ''node_key'' nodes) (\<lambda>node_by_key.
        ebind (index_by ''capability_id'' capabilities) (\<lambda>capability_by_id.
        ensure (length node_by_key = length nodes) ConnectomeError ''duplicate Connectome node key''
        (ensure (length capability_by_id = length capabilities) ConnectomeError ''duplicate Connectome capability identity''
        (ensure (\<not> max_connectome_nodes < length nodes) ConnectomeError ''Connectome node limit exceeded''
        (ensure (\<not> max_connectome_capabilities < length capabilities) ConnectomeError ''Connectome capability limit exceeded''
        (ebind (map_res (check_capability node_by_key capability_by_id) capabilities) (\<lambda>_.
         ebind (field candidate ''manifest_id'') (\<lambda>manifest_id.
         ebind (field candidate ''tenant_id'') (\<lambda>tenant_id.
         Inr (mk_dict [(''ok'', VBool True), (''manifest_id'', manifest_id), (''tenant_id'', tenant_id),
           (''node_count'', VInt (int (length nodes))), (''capability_count'', VInt (int (length capabilities))),
           (''execution_performed'', VBool False), (''model_calls'', VInt 0), (''tool_calls'', VInt 0),
           (''production_authority'', VBool False)])))))))))))))))))))"

text \<open>The identifier that a manifest claims, once it is found to be its digest.\<close>

definition claimed_manifest_id :: "env \<Rightarrow> pydict \<Rightarrow> ustring res" where
  "claimed_manifest_id E candidate =
     ebind (catch_as (\<lambda>c. c \<in> {KeyError, TypeError} \<or> is_ValueError c) ConnectomeError ''Connectome manifest cannot be read''
              (ebind (field candidate ''manifest_id'') (\<lambda>supplied.
               ebind (connectome_manifest_digest E candidate) (\<lambda>actual. Inr (supplied, actual))))) (\<lambda>(supplied, actual).
     ensure (supplied = VStr actual) ConnectomeError ''Connectome manifest identity mismatch'' (Inr actual))"

definition verify_connectome_manifest :: "env \<Rightarrow> pydict \<Rightarrow> (connectome_caches, pydict) op" where
  "verify_connectome_manifest E candidate =
     sbind (pure_op (claimed_manifest_id E candidate)) (\<lambda>manifest_id.
     sbind (query (\<lambda>s. map_of (cc_verifications s) manifest_id)) (\<lambda>cached_verification.
     case cached_verification of
       Some verification \<Rightarrow>
         sbind (modify (cc_verifications_update (move_to_end manifest_id))) (\<lambda>_. give verification)
     | None \<Rightarrow>
         sbind (pure_op (verify_manifest_content E candidate)) (\<lambda>verification.
         sbind (modify (cc_verifications_update (cache_put manifest_id verification))) (\<lambda>_. give verification))))"

text \<open>The manifest that the builder puts together, before it is verified.\<close>

definition assemble_manifest :: "env \<Rightarrow> ustring \<Rightarrow> pydict list \<Rightarrow> pydict list \<Rightarrow> pydict res" where
  "assemble_manifest E tenant_id nodes capabilities =
     ebind (sorted_records ''node_key'' nodes) (\<lambda>ordered_nodes.
     ebind (map_res normalize_capability capabilities) (\<lambda>normalized.
     ebind (sorted_records ''capability_id'' normalized) (\<lambda>ordered_capabilities.
     let core = mk_dict [(''protocol'', vlit ''integrity-guardian/connectome-manifest/v1''), (''tenant_id'', VStr tenant_id),
       (''nodes'', VList (map VDict ordered_nodes)), (''capabilities'', VList (map VDict ordered_capabilities)),
       (''compiler_boundary'', VDict offline_boundary)] in
     ebind (digest_object E (VDict core) (lit ''connectome-manifest-v1'')) (\<lambda>manifest_id.
     Inr ((tkey ''manifest_id'', VStr manifest_id) # core)))))"

definition build_connectome_manifest :: "env \<Rightarrow> ustring \<Rightarrow> pydict list \<Rightarrow> pydict list \<Rightarrow> (connectome_caches, pydict) op" where
  "build_connectome_manifest E tenant_id nodes capabilities =
     sbind (pure_op (assemble_manifest E tenant_id nodes capabilities)) (\<lambda>manifest.
     sbind (verify_connectome_manifest E manifest) (\<lambda>_. give manifest))"

section \<open>Compilation\<close>

definition derived_provenance :: "ustring \<Rightarrow> pydict res" where
  "derived_provenance manifest_id =
     ebind (after_colon manifest_id) (\<lambda>h.
     Inr (mk_dict [(''class'', vlit ''DERIVED''), (''source_id'', VStr (reserved_provenance_prefix @ h)),
       (''source_digest'', VStr manifest_id),
       (''explanation'', vlit ''Compiled deterministically from the exact Connectome manifest.'')]))"

text \<open>\<open>TransitionKind(s)\<close> and \<open>BlastRadius(s)\<close>\<close>

definition transition_of :: "ustring \<Rightarrow> transition_kind res" where
  "transition_of s =
     (case List.find (\<lambda>k. lit (transition_value k) = s)
        [OBSERVE, ANALYZE, PLAN, DISPOSABLE_MUTATION, PRODUCTION_MUTATION, VERIFY, ROLLBACK] of
        None \<Rightarrow> raise ValueError ''TransitionKind'' | Some k \<Rightarrow> Inr k)"

definition blast_of :: "ustring \<Rightarrow> blast_radius res" where
  "blast_of s =
     (case List.find (\<lambda>k. lit (blast_value k) = s) [NONE, PROCESS, HOST, TENANT, NETWORK] of
        None \<Rightarrow> raise ValueError ''BlastRadius'' | Some k \<Rightarrow> Inr k)"

text \<open>Members that the schema pins to a list of objects, to a truth value and to text or \<open>null\<close>.\<close>

definition dicts_item :: "pyval \<Rightarrow> string \<Rightarrow> pydict list res" where
  "dicts_item v k =
     ebind (list_item v k) (\<lambda>xs. map_res (\<lambda>x. case x of VDict d \<Rightarrow> Inr d | _ \<Rightarrow> raise TypeError k) xs)"

definition bool_item :: "pyval \<Rightarrow> string \<Rightarrow> bool res" where
  "bool_item v k = ebind (item v k) (\<lambda>x. case x of VBool b \<Rightarrow> Inr b | _ \<Rightarrow> raise TypeError k)"

definition opt_text_item :: "pyval \<Rightarrow> string \<Rightarrow> ustring option res" where
  "opt_text_item v k =
     ebind (item v k) (\<lambda>x. case x of VNone \<Rightarrow> Inr None | VStr s \<Rightarrow> Inr (Some s) | _ \<Rightarrow> raise TypeError k)"

text \<open>\<open>d[k]\<close> for a dictionary of the program itself.\<close>

definition lookup :: "(ustring \<times> 'v) list \<Rightarrow> ustring \<Rightarrow> 'v res" where
  "lookup d k = (case map_of d k of None \<Rightarrow> raise KeyError ''lookup'' | Some v \<Rightarrow> Inr v)"

text \<open>A dictionary display or comprehension: later entries replace earlier ones in their place.\<close>

definition dict_of :: "('k \<times> 'v) list \<Rightarrow> ('k \<times> 'v) list" where
  "dict_of kvs = fold (\<lambda>(k, v) d. AList.update k v d) kvs []"

definition capability_edge_spec ::
  "pyval \<Rightarrow> (ustring \<times> ustring) list \<Rightarrow> ustring \<Rightarrow> ustring option \<Rightarrow> edge_spec res" where
  "capability_edge_spec capability node_id_by_key manifest_id rollback_edge_id =
     ebind (item capability ''authority'') (\<lambda>authority.
     ebind (item capability ''verifier'') (\<lambda>verifier.
     ebind (item capability ''reversibility'') (\<lambda>reversibility.
     ebind (item capability ''cost'') (\<lambda>cost.
     ebind (dicts_item capability ''provenance'') (\<lambda>provenance.
     ebind (derived_provenance manifest_id) (\<lambda>derived.
     ebind (ebind (text_item capability ''from_node_key'') (lookup node_id_by_key)) (\<lambda>from_node_id.
     ebind (ebind (text_item capability ''to_node_key'') (lookup node_id_by_key)) (\<lambda>to_node_id.
     ebind (text_item capability ''capability_id'') (\<lambda>capability_id.
     ebind (text_item capability ''subsystem'') (\<lambda>subsystem.
     ebind (ebind (text_item capability ''transition_kind'') transition_of) (\<lambda>kind.
     ebind (texts_item authority ''required_authority_ids'') (\<lambda>authority_ids.
     ebind (dicts_item capability ''evidence_requirements'') (\<lambda>requirements.
     ebind (dicts_item capability ''preconditions'') (\<lambda>preconditions.
     ebind (dicts_item capability ''postconditions'') (\<lambda>postconditions.
     ebind (opt_text_item verifier ''verifier_id'') (\<lambda>verifier_id.
     ebind (bool_item verifier ''required'') (\<lambda>required.
     ebind (text_item reversibility ''mode'') (\<lambda>mode.
     ebind (ebind (text_item capability ''blast_radius'') blast_of) (\<lambda>radius.
     ebind (int_item cost ''latency_ms'') (\<lambda>latency_ms.
     ebind (int_item cost ''context_bytes'') (\<lambda>context_bytes.
     ebind (int_item cost ''model_calls'') (\<lambda>model_calls.
     ebind (int_item cost ''tool_calls'') (\<lambda>tool_calls.
     ebind (int_item cost ''resource_units'') (\<lambda>resource_units.
     Inr \<lparr>es_from_node_id = from_node_id, es_to_node_id = to_node_id, es_capability_id = capability_id,
       es_subsystem = subsystem, es_transition_kind = kind, es_required_authority_ids = authority_ids,
       es_production_authority = False, es_evidence_requirements = requirements, es_preconditions = preconditions,
       es_postconditions = postconditions, es_verifier_id = verifier_id, es_verifier_required = required,
       es_reversibility = mode, es_rollback_edge_id = rollback_edge_id, es_blast_radius = radius,
       es_latency_ms = latency_ms, es_context_bytes = context_bytes, es_model_calls = model_calls,
       es_tool_calls = tool_calls, es_resource_units = resource_units, es_provenance = provenance @ [derived]\<rparr>))))))))))))))))))))))))"

definition build_capability_edge ::
  "env \<Rightarrow> (ustring \<times> ustring) list \<Rightarrow> ustring \<Rightarrow> pyval \<Rightarrow> ustring option \<Rightarrow> pydict res" where
  "build_capability_edge E node_id_by_key manifest_id capability rollback_edge_id =
     ebind (capability_edge_spec capability node_id_by_key manifest_id rollback_edge_id) (build_synapse_edge E)"

definition compile_node :: "env \<Rightarrow> pyval \<Rightarrow> pyval \<Rightarrow> (ustring \<times> pydict) res" where
  "compile_node E tenant_id node =
     ebind (item node ''kind'') (\<lambda>kind.
     ebind (item node ''ref'') (\<lambda>ref.
     ebind (item node ''label'') (\<lambda>label.
     ebind (item node ''truth_status'') (\<lambda>truth_status.
     ebind (dict_item node ''attributes'') (\<lambda>attributes.
     ebind (build_synapse_node E tenant_id kind ref label truth_status attributes) (\<lambda>built.
     ebind (text_item node ''node_key'') (\<lambda>key. Inr (key, built))))))))"

definition first_pass_edge ::
  "env \<Rightarrow> (ustring \<times> ustring) list \<Rightarrow> ustring \<Rightarrow> pyval \<Rightarrow> (ustring \<times> pydict) res" where
  "first_pass_edge E node_id_by_key manifest_id capability =
     ebind (text_item capability ''capability_id'') (\<lambda>i.
     ebind (build_capability_edge E node_id_by_key manifest_id capability None) (\<lambda>edge. Inr (i, edge)))"

definition second_pass_edge ::
  "env \<Rightarrow> (ustring \<times> ustring) list \<Rightarrow> ustring \<Rightarrow> (ustring \<times> pydict) list \<Rightarrow> pyval \<Rightarrow> pydict res" where
  "second_pass_edge E node_id_by_key manifest_id first_pass_edges capability =
     ebind (ebind (item capability ''reversibility'') (\<lambda>r. opt_text_item r ''rollback_capability_id'')) (\<lambda>rollback_capability_id.
     ebind (case rollback_capability_id of
              None \<Rightarrow> Inr None
            | Some i \<Rightarrow> ebind (lookup first_pass_edges i) (\<lambda>edge.
                ebind (text_item (VDict edge) ''edge_id'') (\<lambda>edge_id. Inr (Some edge_id)))) (\<lambda>rollback_edge_id.
     build_capability_edge E node_id_by_key manifest_id capability rollback_edge_id))"

text \<open>The graph of a manifest, with the identifiers of its nodes by their keys.\<close>

definition compile_graph :: "env \<Rightarrow> pydict \<Rightarrow> ((ustring \<times> ustring) list \<times> pydict) res" where
  "compile_graph E candidate =
     ebind (text_item (VDict candidate) ''tenant_id'') (\<lambda>tenant_id.
     ebind (list_item (VDict candidate) ''nodes'') (\<lambda>node_specs.
     ebind (map_res (compile_node E (VStr tenant_id)) node_specs) (\<lambda>keyed_nodes.
     ebind (map_res (\<lambda>(k, n). ebind (text_item (VDict n) ''node_id'') (\<lambda>i. Inr (k, i))) keyed_nodes) (\<lambda>node_ids.
     let node_id_by_key = dict_of node_ids in
     ebind (text_item (VDict candidate) ''manifest_id'') (\<lambda>manifest_id.
     ebind (list_item (VDict candidate) ''capabilities'') (\<lambda>capabilities.
     ebind (map_res (first_pass_edge E node_id_by_key manifest_id) capabilities) (\<lambda>first_pass.
     ebind (map_res (second_pass_edge E node_id_by_key manifest_id (dict_of first_pass)) capabilities) (\<lambda>edges.
     ebind (catch_as (\<lambda>c. c \<in> {SynapseGraphError, KeyError, TypeError} \<or> is_ValueError c) ConnectomeError
              ''Connectome manifest cannot form a valid Synapse graph''
              (build_synapse_graph E tenant_id (map snd keyed_nodes) edges)) (\<lambda>graph.
     Inr (node_id_by_key, graph))))))))))"

definition binding :: "string \<Rightarrow> string \<Rightarrow> ustring \<times> ustring \<Rightarrow> pyval" where
  "binding k1 k2 p = VDict (mk_dict [(k1, VStr (fst p)), (k2, VStr (snd p))])"

definition compilation_core ::
  "pyval \<Rightarrow> pyval \<Rightarrow> pyval \<Rightarrow> (ustring \<times> ustring) list \<Rightarrow> (ustring \<times> ustring) list \<Rightarrow> pydict \<Rightarrow> pydict" where
  "compilation_core tenant_id manifest_id graph_id node_ids edge_ids graph =
     mk_dict [(''protocol'', vlit ''integrity-guardian/connectome-compilation/v1''), (''tenant_id'', tenant_id),
       (''manifest_id'', manifest_id), (''graph_id'', graph_id),
       (''node_bindings'', VList (map (binding ''node_key'' ''node_id'') (sort node_ids))),
       (''capability_bindings'', VList (map (binding ''capability_id'' ''edge_id'') (sort edge_ids))),
       (''graph'', VDict graph), (''control_plane_calls'', VDict zero_calls), (''invariants'', VDict compilation_invariants)]"

text \<open>The compilation of a manifest with the result of its verification, without the cache.\<close>

definition compile_content :: "env \<Rightarrow> pydict \<Rightarrow> pydict \<Rightarrow> pydict res" where
  "compile_content E candidate verification =
     ebind (compile_graph E candidate) (\<lambda>(node_id_by_key, graph).
     ebind (list_item (VDict graph) ''edges'') (\<lambda>graph_edges.
     ebind (map_res (\<lambda>e. ebind (text_item e ''capability_id'') (\<lambda>c. ebind (text_item e ''edge_id'') (\<lambda>i. Inr (c, i)))) graph_edges) (\<lambda>edge_ids.
     ebind (field verification ''tenant_id'') (\<lambda>tenant_id.
     ebind (field verification ''manifest_id'') (\<lambda>manifest_id.
     ebind (field graph ''graph_id'') (\<lambda>graph_id.
     let core = compilation_core tenant_id manifest_id graph_id node_id_by_key (dict_of edge_ids) graph in
     ebind (digest_object E (VDict core) (lit ''connectome-compilation-v1'')) (\<lambda>compilation_id.
     let compilation = (tkey ''compilation_id'', VStr compilation_id) # core in
     ebind (validate E ''connectome-compilation'' (VDict compilation)) (\<lambda>_. Inr compilation))))))))"

definition compile_connectome_manifest :: "env \<Rightarrow> pydict \<Rightarrow> (connectome_caches, pydict) op" where
  "compile_connectome_manifest E candidate =
     sbind (pure_op (claimed_manifest_id E candidate)) (\<lambda>actual_manifest_id.
     sbind (cached_compilation actual_manifest_id) (\<lambda>cached.
     case cached of
       Some compilation \<Rightarrow> give compilation
     | None \<Rightarrow>
         sbind (verify_connectome_manifest E candidate) (\<lambda>verification.
         sbind (pure_op (compile_content E candidate verification)) (\<lambda>compilation.
         sbind (cache_compilation compilation) (\<lambda>_. give compilation)))))"

definition verify_connectome_compilation :: "env \<Rightarrow> pydict \<Rightarrow> pydict \<Rightarrow> (connectome_caches, pydict) op" where
  "verify_connectome_compilation E manifest candidate =
     sbind (pure_op (catch_as (\<lambda>c. c \<in> {ValidationError, KeyError, TypeError} \<or> is_ValueError c) ConnectomeError
       ''Connectome compilation schema is invalid'' (validate E ''connectome-compilation'' (VDict candidate)))) (\<lambda>_.
     sbind (pure_op (field candidate ''compilation_id'')) (\<lambda>actual_compilation_id.
     sbind (pure_op (digest_object E (VDict (dict_pop candidate ''compilation_id'')) (lit ''connectome-compilation-v1''))) (\<lambda>expected_compilation_id.
     sensure (actual_compilation_id = VStr expected_compilation_id) ConnectomeError ''Connectome compilation identity mismatch''
     (sbind (compile_connectome_manifest E manifest) (\<lambda>expected.
      sbind (pure_op (canonical_bytes (VDict candidate))) (\<lambda>candidate_bytes.
      sbind (pure_op (canonical_bytes (VDict expected))) (\<lambda>expected_bytes.
      sensure (candidate_bytes = expected_bytes) ConnectomeError ''Connectome compilation semantic mismatch''
      (sbind (pure_op (copy_fields candidate [''manifest_id'', ''graph_id'', ''tenant_id''])) (\<lambda>ids.
       sbind (pure_op (list_item (VDict candidate) ''node_bindings'')) (\<lambda>nodes.
       sbind (pure_op (list_item (VDict candidate) ''capability_bindings'')) (\<lambda>capabilities.
       give (mk_dict ([(''ok'', VBool True), (''compilation_id'', actual_compilation_id)] @ ids @
         [(''node_count'', VInt (int (length nodes))), (''capability_count'', VInt (int (length capabilities))),
          (''execution_performed'', VBool False), (''model_calls'', VInt 0), (''tool_calls'', VInt 0),
          (''production_authority'', VBool False)])))))))))))))"

end
