(* ===== verification/ConnectomeCaches.thy ===== *)
theory ConnectomeCaches
  imports Connectome
begin

text \<open>
  The states of \<open>connectome.py\<close>: what its caches hold after any sequence of its operations, and what a
  compiled graph is.

  The contract \<open>bounded_memory\<close> is what the operations need of a cache: reading does not change what is
  stored, the last value stored is found, and nothing else is ever invented. The dictionaries of
  the source, which forget the oldest entry beyond their limit, satisfy it.
\<close>

section \<open>Memories\<close>

locale bounded_memory =
  fixes get :: "'d \<Rightarrow> 'k \<Rightarrow> 'v option"
    and touch :: "'k \<Rightarrow> 'd \<Rightarrow> 'd"
    and store :: "'k \<Rightarrow> 'v \<Rightarrow> 'd \<Rightarrow> 'd"
    and valid :: "'d \<Rightarrow> bool"
  assumes valid_touch: "valid d \<Longrightarrow> valid (touch k d)"
    and valid_store: "valid d \<Longrightarrow> valid (store k v d)"
    and get_touch: "get (touch k d) = get d"
    and get_store: "get (store k v d) k = Some v"
    and get_store_other: "valid d \<Longrightarrow> get (store k v d) k' = Some w \<Longrightarrow> k' \<noteq> k \<Longrightarrow> get d k' = Some w"
begin

definition genuine :: "('k \<Rightarrow> 'v \<Rightarrow> bool) \<Rightarrow> 'd \<Rightarrow> bool" where
  "genuine R d \<longleftrightarrow> valid d \<and> (\<forall>k v. get d k = Some v \<longrightarrow> R k v)"

lemma genuine_valid: "genuine R d \<Longrightarrow> valid d"
  by (simp add: genuine_def)

lemma genuine_get: "genuine R d \<Longrightarrow> get d k = Some v \<Longrightarrow> R k v"
  by (simp add: genuine_def)

lemma genuine_touch: "genuine R d \<Longrightarrow> genuine R (touch k d)"
  by (simp add: genuine_def valid_touch get_touch)

lemma genuine_store:
  assumes "genuine R d" "R k v"
  shows "genuine R (store k v d)"
proof -
  have "R k' w" if "get (store k v d) k' = Some w" for k' w
  proof (cases "k' = k")
    case True
    then show ?thesis using that get_store [of k v d] assms(2) by simp
  next
    case False
    then show ?thesis using that get_store_other [of d k v k' w] assms(1) by (simp add: genuine_def)
  qed
  then show ?thesis using assms(1) valid_store by (simp add: genuine_def)
qed

end

text \<open>A cache of the source: every key once, at most as many entries as the limit.\<close>

definition cache_valid :: "('k \<times> 'v) list \<Rightarrow> bool" where
  "cache_valid d \<longleftrightarrow> distinct (map fst d) \<and> length d \<le> cache_limit"

lemma trim_cache_drop: "trim_cache d = drop (length d - cache_limit) d"
proof (induction d rule: trim_cache.induct)
  case (1 d)
  show ?case
  proof (cases "cache_limit < length d")
    case True
    then have "length d - cache_limit = Suc (length (tl d) - cache_limit)" by simp
    then show ?thesis using True 1 trim_cache.simps [of d] by (metis drop_Suc)
  next
    case False
    then show ?thesis by (simp add: trim_cache.simps [of d])
  qed
qed

lemma cache_put_alt: "cache_put k v d = trim_cache (AList.delete k d @ [(k, v)])"
proof -
  have "AList.delete k (AList.update k v d) = AList.delete k d" by (rule delete_update_same)
  then show ?thesis by (simp add: cache_put_def move_to_end_def update_conv')
qed

lemma map_of_delete_snoc: "map_of (AList.delete k d @ [(k, v)]) = (map_of d)(k \<mapsto> v)"
  by (auto simp: map_add_def fun_eq_iff delete_conv' split: option.splits)

lemma map_of_drop_distinct:
  assumes "distinct (map fst d)" "map_of (drop n d) k = Some v"
  shows "map_of d k = Some v"
proof -
  have "(k, v) \<in> set d" using map_of_SomeD [OF assms(2)] set_drop_subset by fast
  then show ?thesis using assms(1) by simp
qed

lemma distinct_delete_snoc: "distinct (map fst d) \<Longrightarrow> distinct (map fst (AList.delete k d @ [(k, v)]))"
  using delete_notin_dom [of k d] by (simp add: distinct_delete)

lemma length_delete_snoc: "map_of d k \<noteq> None \<Longrightarrow> length (AList.delete k d @ [(k, v)]) \<le> length d"
  using length_delete_le [of k d] by (induction d) (auto simp: length_delete_le le_imp_less_Suc split: if_splits)

lemma move_to_end_valid: "cache_valid d \<Longrightarrow> cache_valid (move_to_end k d)"
  using distinct_delete_snoc [of d k] length_delete_snoc [of d k]
  by (auto simp: cache_valid_def move_to_end_def split: option.splits intro: le_trans)

lemma cache_put_valid:
  assumes "cache_valid d"
  shows "cache_valid (cache_put k v d)"
proof -
  have "distinct (drop n (map fst (AList.delete k d @ [(k, v)])))" for n
    using assms distinct_delete_snoc [of d k v] unfolding cache_valid_def by (blast intro: distinct_drop)
  moreover have "length (trim_cache (AList.delete k d @ [(k, v)])) \<le> cache_limit" by (simp only: trim_cache_drop length_drop)
  ultimately show ?thesis by (simp only: cache_valid_def cache_put_alt trim_cache_drop drop_map [symmetric])
qed

lemma cache_put_get: "map_of (cache_put k v d) k = Some v"
proof -
  let ?d = "AList.delete k d"
  have "cache_put k v d = drop (length ?d + 1 - cache_limit) ?d @ [(k, v)]"
    by (simp add: cache_put_alt trim_cache_drop cache_limit_def)
  moreover have "k \<notin> fst ` set (drop n ?d)" for n using set_drop_subset [of n ?d] delete_notin_dom [of k d] by blast
  then have "map_of (drop n ?d) k = None" for n by (simp add: map_of_eq_None_iff)
  ultimately show ?thesis by (simp add: map_add_def)
qed

lemma cache_put_other:
  assumes "cache_valid d" "map_of (cache_put k v d) k' = Some w" "k' \<noteq> k"
  shows "map_of d k' = Some w"
proof -
  have "map_of (AList.delete k d @ [(k, v)]) k' = Some w"
    by (rule map_of_drop_distinct [OF distinct_delete_snoc])
      (use assms(1,2) in \<open>simp_all only: cache_valid_def cache_put_alt trim_cache_drop\<close>)
  then show ?thesis unfolding map_of_delete_snoc using assms(3) by simp
qed

interpretation lru: bounded_memory map_of move_to_end cache_put cache_valid
proof
  show "map_of (move_to_end k d) = map_of d" for k and d :: "('a \<times> 'b) list"
    unfolding move_to_end_def by (cases "map_of d k") (simp_all only: option.case map_of_delete_snoc map_upd_triv)
qed (fact move_to_end_valid cache_put_valid cache_put_get cache_put_other)+

section \<open>What the caches hold\<close>

text \<open>A verification, or a compilation, that belongs to a manifest identifier: it is the result of the
  uncached code on a manifest with that identifier.\<close>

definition verified_as :: "env \<Rightarrow> ustring \<Rightarrow> pydict \<Rightarrow> bool" where
  "verified_as E i v \<longleftrightarrow>
     (\<exists>m. py_wf (VDict m) \<and> claimed_manifest_id E m = Inr i \<and> verify_manifest_content E m = Inr v)"

definition compiled_as :: "env \<Rightarrow> ustring \<Rightarrow> pydict \<Rightarrow> bool" where
  "compiled_as E i c \<longleftrightarrow>
     (\<exists>m v. py_wf (VDict m) \<and> claimed_manifest_id E m = Inr i \<and> verified_as E i v \<and> compile_content E m v = Inr c)"

definition caches_genuine :: "env \<Rightarrow> connectome_caches \<Rightarrow> bool" where
  "caches_genuine E s \<longleftrightarrow>
     lru.genuine (compiled_as E) (cc_compilations s) \<and> lru.genuine (verified_as E) (cc_verifications s)"

lemma claimed_id: "claimed_manifest_id E m = Inr i \<longleftrightarrow>
    dict_find m ''manifest_id'' = Some (VStr i) \<and> connectome_manifest_digest E m = Inr i"
  by (auto simp: claimed_manifest_id_def res_simps)

lemma genuine_touch_states:
  "caches_genuine E s \<Longrightarrow> caches_genuine E (cc_compilations_update (move_to_end i) s)"
  "caches_genuine E s \<Longrightarrow> caches_genuine E (cc_verifications_update (move_to_end i) s)"
  by (simp_all add: caches_genuine_def lru.genuine_touch)

lemma genuine_store_states:
  "caches_genuine E s \<Longrightarrow> compiled_as E i c \<Longrightarrow> caches_genuine E (cc_compilations_update (cache_put i c) s)"
  "caches_genuine E s \<Longrightarrow> verified_as E i v \<Longrightarrow> caches_genuine E (cc_verifications_update (cache_put i v) s)"
  by (simp_all add: caches_genuine_def lru.genuine_store)

text \<open>One run of each operation, by cases on what it finds.\<close>

lemma verify_runs:
  assumes "verify_connectome_manifest E m s = (s', r)"
  obtains (refused) e where "s' = s" "r = Inl e"
    | (cached) i v where "claimed_manifest_id E m = Inr i" "map_of (cc_verifications s) i = Some v" "r = Inr v"
        "s' = cc_verifications_update (move_to_end i) s"
    | (fresh) i v where "claimed_manifest_id E m = Inr i" "verify_manifest_content E m = Inr v" "r = Inr v"
        "s' = cc_verifications_update (cache_put i v) s"
proof (cases "claimed_manifest_id E m")
  case (Inl e)
  then show ?thesis using assms refused by (cases e) (auto simp: verify_connectome_manifest_def)
next
  case (Inr i)
  show ?thesis
  proof (cases "map_of (cc_verifications s) i")
    case None
    show ?thesis
    proof (cases "verify_manifest_content E m")
      case Inl1: (Inl e)
      then have "s' = s" "r = Inl e" using assms Inr None by (auto simp: verify_connectome_manifest_def)
      then show ?thesis by (rule refused)
    next
      case Inr1: (Inr v)
      then have "s' = cc_verifications_update (cache_put i v) s" "r = Inr v" using assms Inr None by (auto simp: verify_connectome_manifest_def)
      with Inr Inr1 show ?thesis using fresh by blast
    qed
  next
    case (Some v)
    then show ?thesis using assms Inr cached by (simp add: verify_connectome_manifest_def)
  qed
qed

lemma verify_yields:
  assumes "py_wf (VDict m)"
  shows "yields (caches_genuine E) (verify_connectome_manifest E m) (\<lambda>v. \<exists>i. claimed_manifest_id E m = Inr i \<and> verified_as E i v)"
proof (rule yieldsI)
  fix s s' r assume s: "caches_genuine E s" "verify_connectome_manifest E m s = (s', r)"
  from s(2) show "caches_genuine E s' \<and> (\<forall>v. r = Inr v \<longrightarrow> (\<exists>i. claimed_manifest_id E m = Inr i \<and> verified_as E i v))"
  proof (cases rule: verify_runs)
    case (cached i v)
    then show ?thesis using s(1) genuine_touch_states(2) lru.genuine_get by (auto simp: caches_genuine_def)
  next
    case (fresh i v)
    then have "verified_as E i v" using assms by (auto simp: verified_as_def)
    then show ?thesis using fresh s(1) genuine_store_states(2) by simp
  qed (use s(1) in simp)
qed

lemma compile_content_id:
  assumes "compile_content E m v = Inr c"
  shows "dict_find c ''manifest_id'' = dict_find v ''manifest_id''" "schema_ok E ''connectome-compilation'' (VDict c)"
  using assms by (auto simp: compile_content_def compilation_core_def res_simps validate_def Let_def dict_find_def mk_dict_def split: if_splits)

lemma verified_id: "verify_manifest_content E m = Inr v \<Longrightarrow> dict_find v ''manifest_id'' = dict_find m ''manifest_id''"
  by (auto simp: verify_manifest_content_def res_simps dict_find_mk)

lemma verified_as_id: "verified_as E i v \<Longrightarrow> dict_find v ''manifest_id'' = Some (VStr i)"
  by (auto simp: verified_as_def claimed_id dest: verified_id)

lemma cached_compilation_run:
  "cached_compilation i s = (case map_of (cc_compilations s) i of
     None \<Rightarrow> (s, Inr None) | Some c \<Rightarrow> (cc_compilations_update (move_to_end i) s, Inr (Some c)))"
  by (simp add: cached_compilation_def split: option.splits)

lemma store_runs:
  assumes "sbind (pure_op x) (\<lambda>c. sbind (cache_compilation c) (\<lambda>_. give c)) s1 = (s', r)"
  shows "(\<exists>e. r = Inl e) \<and> s' = s1 \<or>
    (\<exists>c i. x = Inr c \<and> text_item (VDict c) ''manifest_id'' = Inr i \<and> r = Inr c \<and> s' = cc_compilations_update (cache_put i c) s1)"
proof (cases x)
  case (Inl e)
  then show ?thesis using assms by (cases e) auto
next
  case (Inr c)
  then show ?thesis using assms
    by (cases "text_item (VDict c) ''manifest_id''") (auto simp: cache_compilation_def sbind_apply)
qed

lemma compile_runs:
  assumes "compile_connectome_manifest E m s = (s', r)"
  obtains (refused) e where "claimed_manifest_id E m = Inl e" "s' = s" "r = Inl e"
    | (cached) i c where "claimed_manifest_id E m = Inr i" "map_of (cc_compilations s) i = Some c" "r = Inr c"
        "s' = cc_compilations_update (move_to_end i) s"
    | (unverified) i e where "claimed_manifest_id E m = Inr i" "map_of (cc_compilations s) i = None" "verify_connectome_manifest E m s = (s', Inl e)" "r = Inl e"
    | (failed) i v e where "claimed_manifest_id E m = Inr i" "map_of (cc_compilations s) i = None" "verify_connectome_manifest E m s = (s', Inr v)" "r = Inl e"
    | (fresh) i s1 v c x where "claimed_manifest_id E m = Inr i" "map_of (cc_compilations s) i = None" "verify_connectome_manifest E m s = (s1, Inr v)"
        "compile_content E m v = Inr c" "text_item (VDict c) ''manifest_id'' = Inr x" "r = Inr c" "s' = cc_compilations_update (cache_put x c) s1"
proof (cases "claimed_manifest_id E m")
  case (Inl e)
  then show ?thesis using assms refused by (cases e) (auto simp: compile_connectome_manifest_def)
next
  case (Inr i)
  show ?thesis
  proof (cases "map_of (cc_compilations s) i")
    case None
    obtain s1 r1 where v: "verify_connectome_manifest E m s = (s1, r1)" by (cases "verify_connectome_manifest E m s")
    then show ?thesis
    proof (cases r1)
      case (Inl e)
      then show ?thesis using assms Inr None v unverified
        by (cases e) (auto simp: compile_connectome_manifest_def cached_compilation_run sbind_apply)
    next
      case Inr1: (Inr w)
      have run: "sbind (pure_op (compile_content E m w)) (\<lambda>c. sbind (cache_compilation c) (\<lambda>_. give c)) s1 = (s', r)"
        using assms Inr None v Inr1 by (simp add: compile_connectome_manifest_def cached_compilation_run sbind_apply [of "cached_compilation i"]
            sbind_apply [of "verify_connectome_manifest E m"])
      from store_runs [OF run] show ?thesis using Inr None v Inr1 failed fresh by blast
    qed
  next
    case (Some c)
    then show ?thesis using assms Inr cached by (simp add: compile_connectome_manifest_def cached_compilation_run sbind_apply)
  qed
qed

lemma compile_yields:
  assumes "py_wf (VDict m)"
  shows "yields (caches_genuine E) (compile_connectome_manifest E m) (\<lambda>c. \<exists>i. claimed_manifest_id E m = Inr i \<and> compiled_as E i c)"
proof (rule yieldsI)
  fix s s' r assume s: "caches_genuine E s" "compile_connectome_manifest E m s = (s', r)"
  note verify = yieldsD [OF verify_yields [OF assms] s(1)]
  from s(2) show "caches_genuine E s' \<and> (\<forall>c. r = Inr c \<longrightarrow> (\<exists>i. claimed_manifest_id E m = Inr i \<and> compiled_as E i c))"
  proof (cases rule: compile_runs)
    case (cached i c)
    then show ?thesis using s(1) genuine_touch_states(1) lru.genuine_get by (auto simp: caches_genuine_def)
  next
    case (fresh i s1 v c x)
    have v: "caches_genuine E s1" "verified_as E i v" using verify [OF fresh(3)] fresh(1) by auto
    then have "x = i" using fresh(5) compile_content_id(1) [OF fresh(4)] verified_as_id [OF v(2)] by (simp add: res_simps)
    moreover have "compiled_as E i c" using fresh(1,4) v(2) assms by (auto simp: compiled_as_def)
    ultimately show ?thesis using fresh v(1) genuine_store_states(1) by simp
  qed (use s(1) verify in auto)
qed

lemma verify_compilation_keeps: "py_wf (VDict m) \<Longrightarrow> keeps (caches_genuine E) (verify_connectome_compilation E m c)"
  unfolding verify_connectome_compilation_def
  by (intro keeps_sbind keeps_sensure keeps_basic yields_keeps [OF compile_yields])

section \<open>Runs\<close>

text \<open>Assembled manifests are Python values when their parts are.\<close>

lemma py_wf_sort_by: "sort_by key xs = Inr ys \<Longrightarrow> (\<And>x. x \<in> set xs \<Longrightarrow> P x) \<Longrightarrow> y \<in> set ys \<Longrightarrow> P y"
  using sort_by_mset [of key xs ys] mset_eq_setD by fastforce

lemma py_wf_member: "py_wf (VDict d) \<Longrightarrow> dict_get d k = v \<Longrightarrow> v \<noteq> VNone \<Longrightarrow> py_wf v"
  using py_wf_find [of d k] by (cases "dict_find d k") (simp_all add: dict_get_def del: py_wf.simps)

lemma py_wf_sort_member:
  assumes "sort_member key k d = Inr d'" "py_wf (VDict d)"
  shows "py_wf (VDict d')"
proof (cases "dict_get d k")
  case (VList xs)
  then obtain ys where ys: "sort_by key xs = Inr ys" "d' = dict_put d k (VList ys)"
    using assms(1) by (auto simp: sort_member_def res_simps)
  have "py_wf (VList xs)" using py_wf_member [OF assms(2) VList] by simp
  then have "py_wf (VList ys)" using py_wf_sort_by [OF ys(1), of py_wf] by simp
  then show ?thesis using py_wf_put [OF assms(2)] ys(2) by blast
qed (use assms in \<open>simp_all add: sort_member_def\<close>)

lemma py_wf_sorted_texts: "sorted_texts v = Inr w \<Longrightarrow> py_wf v \<Longrightarrow> py_wf w"
  by (auto simp: sorted_texts_def res_simps all_texts_Inr split: pyval.splits)

lemma py_wf_normalize_authority:
  assumes "normalize_authority d = Inr d'" "py_wf (VDict d)"
  shows "py_wf (VDict d')"
proof (cases "dict_get d ''authority''")
  case (VDict a)
  have a: "py_wf (VDict a)" using py_wf_member [OF assms(2) VDict] by simp
  obtain ids where ids: "sorted_texts (get_or a ''required_authority_ids'' (VList [])) = Inr ids"
    "d' = dict_put d ''authority'' (VDict (dict_put a ''required_authority_ids'' ids))"
    using assms(1) VDict by (auto simp: normalize_authority_def res_simps)
  have "py_wf (get_or a ''required_authority_ids'' (VList []))" 
    using py_wf_find [OF a] by (cases "dict_find a ''required_authority_ids''") (simp_all add: get_or_def)
  then have "py_wf ids" by (rule py_wf_sorted_texts [OF ids(1)])
  then show ?thesis unfolding ids(2) by (intro py_wf_put a assms(2))
qed (use assms in \<open>simp_all add: normalize_authority_def\<close>)

lemma py_wf_normalize:
  assumes "normalize_capability d = Inr d'" "py_wf (VDict d)"
  shows "py_wf (VDict d')"
proof -
  obtain d1 d2 d3 d4 where *: "normalize_authority d = Inr d1" "sort_member normal_requirement_key ''evidence_requirements'' d1 = Inr d2"
    "sort_member bytes_key ''preconditions'' d2 = Inr d3" "sort_member bytes_key ''postconditions'' d3 = Inr d4" "sort_member bytes_key ''provenance'' d4 = Inr d'"
    using assms(1) by (auto simp: normalize_capability_def res_simps)
  have "py_wf (VDict d4)"
    by (rule py_wf_sort_member [OF *(4) py_wf_sort_member [OF *(3) py_wf_sort_member [OF *(2) py_wf_normalize_authority [OF *(1) assms(2)]]]])
  then show ?thesis by (rule py_wf_sort_member [OF *(5)])
qed

lemma py_wf_assemble:
  assumes "assemble_manifest E t nodes capabilities = Inr m" "list_all is_code_point t"
    and "\<forall>d \<in> set nodes \<union> set capabilities. py_wf (VDict d)"
  shows "py_wf (VDict m)"
proof -
  obtain ns cs cs' i where n: "sorted_records ''node_key'' nodes = Inr ns" and c: "map_res normalize_capability capabilities = Inr cs"
    "sorted_records ''capability_id'' cs = Inr cs'" and i: "list_all is_code_point i"
    and m: "m = (tkey ''manifest_id'', VStr i) # mk_dict [(''protocol'', vlit ''integrity-guardian/connectome-manifest/v1''), (''tenant_id'', VStr t),
       (''nodes'', VList (map VDict ns)), (''capabilities'', VList (map VDict cs')), (''compiler_boundary'', VDict offline_boundary)]"
    using assms(1) digest_object_text [THEN encodable_text_code_points] by (auto simp: assemble_manifest_def res_simps Let_def)
  have "py_wf (VDict d)" if "d \<in> set ns" for d
    using py_wf_sort_by [OF n [unfolded sorted_records_def], of "\<lambda>d. py_wf (VDict d)"] assms(3) that by blast
  moreover have "py_wf (VDict d)" if "d \<in> set cs" for d
    using list_all2_in2 [OF c(1) [unfolded map_res_Inr_iff] that] assms(3) py_wf_normalize by blast
  then have "py_wf (VDict d)" if "d \<in> set cs'" for d
    using py_wf_sort_by [OF c(2) [unfolded sorted_records_def], of "\<lambda>d. py_wf (VDict d)"] that by blast
  ultimately show ?thesis using assms(2) i by (simp add: m mk_dict_def offline_boundary_def)
qed

text \<open>The states of the module's caches: any sequence of its public operations on Python values, refused
  calls included.\<close>

inductive connectome_run :: "env \<Rightarrow> connectome_caches \<Rightarrow> bool" for E where
  run_start: "connectome_run E \<lparr>cc_compilations = [], cc_verifications = []\<rparr>"
| run_build: "connectome_run E s \<Longrightarrow> list_all is_code_point t \<Longrightarrow> \<forall>d \<in> set nodes \<union> set capabilities. py_wf (VDict d) \<Longrightarrow>
    connectome_run E (fst (build_connectome_manifest E t nodes capabilities s))"
| run_verify: "connectome_run E s \<Longrightarrow> py_wf (VDict m) \<Longrightarrow> connectome_run E (fst (verify_connectome_manifest E m s))"
| run_compile: "connectome_run E s \<Longrightarrow> py_wf (VDict m) \<Longrightarrow> connectome_run E (fst (compile_connectome_manifest E m s))"
| run_verify_compilation: "connectome_run E s \<Longrightarrow> py_wf (VDict m) \<Longrightarrow> connectome_run E (fst (verify_connectome_compilation E m c s))"

lemma connectome_run_genuine: "connectome_run E s \<Longrightarrow> caches_genuine E s"
proof (induction rule: connectome_run.induct)
  case run_start
  show ?case by (simp add: caches_genuine_def lru.genuine_def cache_valid_def)
next
  case (run_build s t nodes capabilities)
  show ?case
  proof (cases "assemble_manifest E t nodes capabilities")
    case (Inl e)
    then show ?thesis using run_build by (simp add: build_connectome_manifest_def)
  next
    case (Inr m)
    then have "py_wf (VDict m)" using run_build py_wf_assemble by blast
    then have "keeps (caches_genuine E) (sbind (verify_connectome_manifest E m) (\<lambda>_. give m))"
      by (intro keeps_rules yields_keeps [OF verify_yields])
    then show ?thesis using Inr run_build by (simp add: build_connectome_manifest_def keeps_def)
  qed
next
  case (run_verify s m)
  then show ?case using yields_keeps [OF verify_yields] by (simp add: keeps_def)
next
  case (run_compile s m)
  then show ?case using yields_keeps [OF compile_yields] by (simp add: keeps_def)
next
  case (run_verify_compilation s m c)
  then show ?case using verify_compilation_keeps by (simp add: keeps_def)
qed

section \<open>Compiled graphs\<close>

text \<open>An edge without production authority, which is no production mutation and names the manifest it
  was compiled from.\<close>

definition offline_edge :: "ustring \<Rightarrow> pyval \<Rightarrow> bool" where
  "offline_edge manifest_id edge \<longleftrightarrow>
     item2 edge ''authority'' ''production_authority'' = Inr (VBool False) \<and>
     text_item edge ''transition_kind'' \<noteq> Inr (lit ''production_mutation'') \<and>
     (\<exists>records derived. list_item edge ''provenance'' = Inr records \<and> derived_provenance manifest_id = Inr derived \<and>
        VDict derived \<in> set records)"

lemma built_edge:
  assumes "build_synapse_edge E spec = Inr e"
  shows "item2 (VDict e) ''authority'' ''production_authority'' = Inr (VBool (es_production_authority spec))"
    and "\<exists>ps. list_item (VDict e) ''provenance'' = Inr (map VDict ps) \<and> set ps = set (es_provenance spec)"
proof -
  obtain requirements pre post ps i where ps: "sort_by canonical_key (es_provenance spec) = Inr ps"
    and e: "dict_find e ''authority'' = Some (VDict (mk_dict [
        (''required_authority_ids'', VList (map VStr (sort (remdups (es_required_authority_ids spec))))), (''production_authority'', VBool (es_production_authority spec))]))"
      "dict_find e ''provenance'' = Some (VList (map VDict ps))"
    using assms unfolding build_synapse_edge_def res_simps Let_def
    by (auto simp: dict_find_def mk_dict_def)
  show "item2 (VDict e) ''authority'' ''production_authority'' = Inr (VBool (es_production_authority spec))"
    using e(1) by (simp add: res_simps item_Inr dict_find_mk)
  have "set ps = set (es_provenance spec)" using sort_by_mset [OF ps] mset_eq_setD by blast
  then show "\<exists>ps. list_item (VDict e) ''provenance'' = Inr (map VDict ps) \<and> set ps = set (es_provenance spec)"
    using e(2) by (auto simp: res_simps)
qed

lemma built_capability_edge:
  assumes "build_capability_edge E ids manifest_id capability rollback_id = Inr e"
  shows "item2 (VDict e) ''authority'' ''production_authority'' = Inr (VBool False)"
    and "\<exists>records derived. list_item (VDict e) ''provenance'' = Inr records \<and> derived_provenance manifest_id = Inr derived \<and> VDict derived \<in> set records"
proof -
  obtain spec where spec: "capability_edge_spec capability ids manifest_id rollback_id = Inr spec" "build_synapse_edge E spec = Inr e"
    using assms by (auto simp: build_capability_edge_def res_simps)
  obtain ps derived where "es_production_authority spec = False" "es_provenance spec = ps @ [derived]" "derived_provenance manifest_id = Inr derived"
    using spec(1) unfolding capability_edge_spec_def res_simps by auto
  then show "item2 (VDict e) ''authority'' ''production_authority'' = Inr (VBool False)"
    "\<exists>records derived. list_item (VDict e) ''provenance'' = Inr records \<and> derived_provenance manifest_id = Inr derived \<and> VDict derived \<in> set records"
    using built_edge [OF spec(2)] by auto
qed

lemma built_graph:
  assumes "build_synapse_graph E t nodes edges = Inr graph"
  shows "\<exists>r. verify_synapse_graph E graph = Inr r" "\<exists>es. dict_find graph ''edges'' = Some (VList (map VDict es)) \<and> mset es = mset edges"
proof -
  obtain ns es g r where es: "sort_by (\<lambda>e. text_item (VDict e) ''edge_id'') edges = Inr es" and r: "verify_synapse_graph E graph = Inr r"
    and graph: "graph = (tkey ''graph_id'', VStr g) # mk_dict [(''protocol'', vlit ''integrity-guardian/synapse-graph/v1''), (''tenant_id'', VStr t),
       (''nodes'', VList (map VDict ns)), (''edges'', VList (map VDict es)), (''capabilities'', VDict offline_capabilities)]"
    using assms by (auto simp: build_synapse_graph_def res_simps Let_def)
  show "\<exists>r. verify_synapse_graph E graph = Inr r" using r by blast
  show "\<exists>es. dict_find graph ''edges'' = Some (VList (map VDict es)) \<and> mset es = mset edges"
    using sort_by_mset [OF es] by (auto simp: graph dict_find_def mk_dict_def)
qed

lemma verified_edge_kind:
  assumes "verify_synapse_graph E graph = Inr r" "dict_find graph ''edges'' = Some (VList edges)" "edge \<in> set edges"
    and "item2 edge ''authority'' ''production_authority'' = Inr (VBool False)"
  shows "text_item edge ''transition_kind'' \<noteq> Inr (lit ''production_mutation'')"
proof -
  obtain node_index edge_index us where "map_res (check_edge E node_index edge_index) edges = Inr us"
    by (rule verified_graph [OF assms(1)]) (use assms(2) in auto)
  then have "check_edge E node_index edge_index edge = Inr ()" using list_all2_in [OF _ assms(3)] by (auto simp: map_res_Inr_iff)
  then have "check_edge_authority edge = Inr ()" by (auto simp: check_edge_def res_simps)
  then show ?thesis using assms(4) by (auto simp: check_edge_authority_def res_simps split: if_splits)
qed

lemma compiled_graph:
  assumes "compile_graph E m = Inr (ids, graph)"
  obtains i r edges capabilities where "dict_find m ''manifest_id'' = Some (VStr i)" "verify_synapse_graph E graph = Inr r"
    "dict_find m ''capabilities'' = Some (VList capabilities)"
    "dict_find graph ''edges'' = Some (VList edges)" "length edges = length capabilities" "\<forall>edge \<in> set edges. offline_edge i edge"
proof -
  obtain t nodes i capabilities first edges where i: "dict_find m ''manifest_id'' = Some (VStr i)" and c: "dict_find m ''capabilities'' = Some (VList capabilities)"
    and edges: "map_res (second_pass_edge E ids i first) capabilities = Inr edges"
    and graph: "build_synapse_graph E t nodes edges = Inr graph"
    using assms by (auto simp: compile_graph_def res_simps Let_def)
  obtain r es where r: "verify_synapse_graph E graph = Inr r" and es: "dict_find graph ''edges'' = Some (VList (map VDict es))" "mset es = mset edges"
    using built_graph [OF graph] by blast
  have "offline_edge i (VDict e)" if e: "e \<in> set es" for e
  proof -
    have "e \<in> set edges" using e mset_eq_setD [OF es(2)] by simp
    then obtain capability where "second_pass_edge E ids i first capability = Inr e"
      using list_all2_in2 [OF edges [unfolded map_res_Inr_iff]] by blast
    then obtain b where b: "build_capability_edge E ids i capability b = Inr e" by (auto simp: second_pass_edge_def res_simps)
    have "VDict e \<in> set (map VDict es)" using e by simp
    note kind = verified_edge_kind [OF r es(1) this built_capability_edge(1) [OF b]]
    show ?thesis unfolding offline_edge_def using built_capability_edge [OF b] kind by blast
  qed
  moreover have "length es = length capabilities" using map_res_Inr_length [OF edges] mset_eq_length [OF es(2)] by simp
  ultimately show ?thesis using that i r c es(1) by simp
qed

text \<open>The members of a compilation.\<close>

lemma compiled_content:
  assumes "compile_content E m v = Inr c"
  obtains ids graph where "compile_graph E m = Inr (ids, graph)" "dict_find c ''graph'' = Some (VDict graph)"
    "dict_find c ''manifest_id'' = dict_find v ''manifest_id''" "dict_find c ''tenant_id'' = dict_find v ''tenant_id''"
    "\<exists>t g. dict_find c ''tenant_id'' = Some t \<and> dict_find c ''graph_id'' = Some g" "schema_ok E ''connectome-compilation'' (VDict c)"
    "\<exists>i. dict_find c ''compilation_id'' = Some (VStr i) \<and> digest_object E (VDict (dict_pop c ''compilation_id'')) (lit ''connectome-compilation-v1'') = Inr i"
    "\<exists>nodes capabilities. dict_find c ''node_bindings'' = Some (VList nodes) \<and> dict_find c ''capability_bindings'' = Some (VList capabilities)"
    "codable (VDict c)"
proof -
  obtain ids graph t i g edge_ids x where g: "compile_graph E m = Inr (ids, graph)" and v: "dict_find v ''tenant_id'' = Some t" "dict_find v ''manifest_id'' = Some i"
    "dict_find graph ''graph_id'' = Some g"
    and x: "digest_object E (VDict (compilation_core t i g ids (dict_of edge_ids) graph)) (lit ''connectome-compilation-v1'') = Inr x"
    and c: "c = (tkey ''compilation_id'', VStr x) # compilation_core t i g ids (dict_of edge_ids) graph" and ok: "schema_ok E ''connectome-compilation'' (VDict c)"
    using assms by (auto simp: compile_content_def res_simps Let_def validate_def split: if_splits)
  note find = dict_find_def compilation_core_def mk_dict_def
  have "dict_pop c ''compilation_id'' = compilation_core t i g ids (dict_of edge_ids) graph"
    by (simp add: c dict_pop_def compilation_core_def mk_dict_def)
  moreover have "codable (VDict c)"
    using digest_object_codable [OF x] digest_object_text [OF x] quote_encodable [OF encodable_lit] by (auto simp: c codable_dict quote_encodable)
  ultimately show ?thesis using that [OF g] v x ok by (simp add: c find)
qed

end
