(* ===== verification/ConnectomeExample.thy ===== *)
theory ConnectomeExample
  imports ConnectomeCaches
begin

text \<open>One small manifest, verified and compiled by the operations of \<open>connectome.py\<close>: a node, and an
  observation that returns to it. Identifiers and the order of provenance records stay symbolic.\<close>

definition sample_capability :: pydict where
  "sample_capability = mk_dict [(''capability_id'', vlit ''observe:here''), (''from_node_key'', vlit ''here''), (''to_node_key'', vlit ''here''),
     (''subsystem'', vlit ''core''), (''transition_kind'', vlit ''observe''),
     (''authority'', VDict (mk_dict [(''required_authority_ids'', VList []), (''production_authority'', VBool False)])),
     (''evidence_requirements'', VList []), (''preconditions'', VList []), (''postconditions'', VList []),
     (''verifier'', VDict (mk_dict [(''verifier_id'', VNone), (''required'', VBool False)])),
     (''reversibility'', VDict (mk_dict [(''mode'', vlit ''not_applicable''), (''rollback_capability_id'', VNone)])),
     (''blast_radius'', vlit ''none''),
     (''cost'', VDict (mk_dict [(''latency_ms'', VInt 0), (''context_bytes'', VInt 0), (''model_calls'', VInt 0), (''tool_calls'', VInt 0), (''resource_units'', VInt 0)])),
     (''provenance'', VList [VDict (mk_dict [(''class'', vlit ''DECLARED''), (''source_id'', vlit ''doc:here'')])])]"

definition sample_spec :: pydict where
  "sample_spec = mk_dict [(''node_key'', vlit ''here''), (''kind'', vlit ''action''), (''ref'', vlit ''here''),
     (''label'', vlit ''Here''), (''truth_status'', vlit ''observed''), (''attributes'', VDict [])]"

definition sample_manifest_core :: pydict where
  "sample_manifest_core = mk_dict [(''protocol'', vlit ''integrity-guardian/connectome-manifest/v1''), (''tenant_id'', vlit ''tenant:demo''),
     (''nodes'', VList [VDict sample_spec]), (''capabilities'', VList [VDict sample_capability]), (''compiler_boundary'', VDict offline_boundary)]"

definition sample_manifest :: "ustring \<Rightarrow> pydict" where
  "sample_manifest i = (tkey ''manifest_id'', VStr i) # sample_manifest_core"

definition no_caches :: connectome_caches where
  "no_caches = \<lparr>cc_compilations = [], cc_verifications = []\<rparr>"

lemma sample_parts_ok:
  "encodable (VDict sample_capability)" "py_wf (VDict sample_capability)" "encodable (VDict sample_spec)" "py_wf (VDict sample_spec)"
  by (simp_all add: sample_capability_def sample_spec_def mk_dict_def nat_digits.simps max_str_digits_def)

lemma sample_manifest_fields:
  "field (sample_manifest i) ''compiler_boundary'' = Inr (VDict offline_boundary)"
  "list_item (VDict (sample_manifest i)) ''nodes'' = Inr [VDict sample_spec]" "list_item (VDict (sample_manifest i)) ''capabilities'' = Inr [VDict sample_capability]"
  "field (sample_manifest i) ''manifest_id'' = Inr (VStr i)" "field (sample_manifest i) ''tenant_id'' = Inr (vlit ''tenant:demo'')"
  by (simp_all add: res_simps sample_manifest_def sample_manifest_core_def mk_dict_def dict_find_def)

lemma sample_claimed: "\<exists>h. claimed_manifest_id sample_env (sample_manifest (lit ''sha256:'' @ hex h)) = Inr (lit ''sha256:'' @ hex h)"
proof -
  have "encodable (VDict sample_manifest_core)"
    using sample_parts_ok by (simp add: sample_manifest_core_def offline_boundary_def mk_dict_def del: encodable.simps(4)) (simp add: mk_dict_def)
  moreover have "plain_domain ''connectome-manifest-v1''" by (simp add: plain_domain_def lit_def)
  ultimately obtain h where h: "digest_object sample_env (VDict sample_manifest_core) (lit ''connectome-manifest-v1'') = Inr (lit ''sha256:'' @ hex h)"
    using digest_object_encodable by blast
  have "manifest_core (sample_manifest i) = sample_manifest_core" for i
    by (simp add: manifest_core_def sample_manifest_def sample_manifest_core_def mk_dict_def dict_pop_def)
  then show ?thesis using h sample_manifest_fields(4) by (auto simp: claimed_id connectome_manifest_digest_def res_simps)
qed

lemma sample_verified: "\<exists>v. verify_manifest_content sample_env (sample_manifest i) = Inr v \<and> dict_find v ''tenant_id'' = Some (vlit ''tenant:demo'')"
proof -
  let ?c = "VDict sample_capability"
  have eq: "py_eq (VDict sample_spec) (VDict sample_spec)" "py_eq ?c ?c" "py_eq (VDict offline_boundary) (VDict offline_boundary)"
    using sample_parts_ok py_eq_refl by (blast, blast, auto simp: offline_boundary_def mk_dict_def)
  have ids: "text_item (VDict sample_spec) ''node_key'' = Inr (lit ''here'')" "text_item ?c ''capability_id'' = Inr (lit ''observe:here'')"
    "text_item ?c ''from_node_key'' = Inr (lit ''here'')" "text_item ?c ''to_node_key'' = Inr (lit ''here'')"
    by (simp_all add: res_simps sample_spec_def sample_capability_def dict_find_mk)
  let ?p = "mk_dict [(''class'', vlit ''DECLARED''), (''source_id'', vlit ''doc:here'')]"
  have p: "py_eq (VDict ?p) (VDict ?p)" "\<exists>b. bytes_key (VDict ?p) = Inr b"
    using py_eq_refl [of "VDict ?p"] canonical_bytes_encodable [of "VDict ?p"] by (auto simp: mk_dict_def bytes_key_def)
  have canonical: "require_canonical_capability ?c = Inr ()"
    using p by (auto simp: require_canonical_capability_def require_sorted_def sample_capability_def field_mk texts_item_def list_item_def sort_by_def [of _ "[]"] simp del: py_eq.simps(4))
  have authority: "check_capability_authority ?c = Inr ()"
    by (simp add: check_capability_authority_def sample_capability_def item2_def text_item_def list_item_def field_mk starts_with_def reserved_provenance_prefix_def lit_def)
  have undo: "check_capability_rollback cs ?c = Inr ()" for cs
    by (simp add: check_capability_rollback_def sample_capability_def item2_def text_item_def field_mk)
  show ?thesis
    by (simp add: verify_manifest_content_def validate_def sample_env_def sample_manifest_fields eq ids check_capability_def canonical authority undo
        max_connectome_nodes_def max_connectome_capabilities_def dict_find_mk del: py_eq.simps(4))
qed

text \<open>The edge that the capability becomes.\<close>

definition compiled_edge_core :: "ustring \<Rightarrow> pydict list \<Rightarrow> pydict" where
  "compiled_edge_core n ps = mk_dict [(''from_node_id'', VStr n), (''to_node_id'', VStr n), (''capability_id'', vlit ''observe:here''),
     (''subsystem'', vlit ''core''), (''transition_kind'', vlit ''observe''),
     (''authority'', VDict (mk_dict [(''required_authority_ids'', VList []), (''production_authority'', VBool False)])),
     (''evidence_requirements'', VList []), (''preconditions'', VList []), (''postconditions'', VList []),
     (''verifier'', VDict (mk_dict [(''verifier_id'', VNone), (''required'', VBool False)])),
     (''reversibility'', VDict (mk_dict [(''mode'', vlit ''not_applicable''), (''rollback_edge_id'', VNone)])),
     (''blast_radius'', vlit ''none''),
     (''cost'', VDict (mk_dict [(''latency_ms'', VInt 0), (''context_bytes'', VInt 0), (''model_calls'', VInt 0), (''tool_calls'', VInt 0), (''resource_units'', VInt 0)])),
     (''provenance'', VList (map VDict ps))]"

definition sample_edge_spec :: "ustring \<Rightarrow> pydict list \<Rightarrow> edge_spec" where
  "sample_edge_spec n ps = \<lparr>es_from_node_id = n, es_to_node_id = n, es_capability_id = lit ''observe:here'', es_subsystem = lit ''core'',
     es_transition_kind = OBSERVE, es_required_authority_ids = [], es_production_authority = False, es_evidence_requirements = [],
     es_preconditions = [], es_postconditions = [], es_verifier_id = None, es_verifier_required = False, es_reversibility = lit ''not_applicable'',
     es_rollback_edge_id = None, es_blast_radius = NONE, es_latency_ms = 0, es_context_bytes = 0, es_model_calls = 0, es_tool_calls = 0,
     es_resource_units = 0, es_provenance = ps\<rparr>"

definition compiled_edge :: "ustring \<Rightarrow> pydict list \<Rightarrow> ustring \<Rightarrow> pydict" where
  "compiled_edge n ps e = (tkey ''edge_id'', VStr e) # compiled_edge_core n ps"

lemma compiled_edge_items:
  "item (VDict (compiled_edge n ps e)) k = (if k = ''edge_id'' then Inr (VStr e) else item (VDict (compiled_edge_core n ps)) k)"
  by (simp add: compiled_edge_def item_def dict_find_def)

lemma compiled_edge_identity: "edge_identity_core (compiled_edge n ps e) = compiled_edge_core n ps" "edge_identity_core (compiled_edge_core n ps) = compiled_edge_core n ps"
  by (simp_all add: edge_identity_core_def compiled_edge_def compiled_edge_core_def dict_pop_def dict_get_def dict_find_def dict_put_def mk_dict_def)

lemma compiled_edge_ok:
  assumes "encodable_text n" "encodable_text e" "\<forall>p \<in> set ps. encodable (VDict p) \<and> py_wf (VDict p)"
  shows "encodable (VDict (compiled_edge_core n ps))" "encodable (VDict (compiled_edge n ps e))" "py_wf (VDict (compiled_edge n ps e))"
  using assms encodable_text_code_points [OF assms(1)] encodable_text_code_points [OF assms(2)]
  by (simp_all add: compiled_edge_def compiled_edge_core_def mk_dict_def nat_digits.simps max_str_digits_def)

lemma sample_edge_built:
  assumes "encodable_text n"
  shows "\<exists>ps e. (\<forall>p \<in> set ps. encodable (VDict p) \<and> py_wf (VDict p)) \<and> encodable_text e \<and>
    content_identity sample_env ''synapse-edge:'' ''synapse-edge-identity-v1'' (compiled_edge_core n ps) = Inr e \<and>
    build_capability_edge sample_env [(lit ''here'', n)] (lit ''sha256:'' @ hex h) (VDict sample_capability) None = Inr (compiled_edge n ps e)"
proof -
  let ?c = "VDict sample_capability"
  let ?p = "mk_dict [(''class'', vlit ''DECLARED''), (''source_id'', vlit ''doc:here'')]"
  obtain d where d: "derived_provenance (lit ''sha256:'' @ hex h) = Inr d" "encodable (VDict d)" "py_wf (VDict d)"
    using encodable_text_code_points [OF encodable_hex]
    by (simp add: derived_provenance_def mk_dict_def reserved_provenance_prefix_def)
  have p: "encodable (VDict ?p)" "py_wf (VDict ?p)" by (simp_all add: mk_dict_def)
  have spec: "capability_edge_spec ?c [(lit ''here'', n)] (lit ''sha256:'' @ hex h) None = Inr (sample_edge_spec n [?p, d])"
    by (simp add: capability_edge_spec_def d(1) sample_capability_def field_mk dicts_item_def texts_item_def list_item_def text_item_def int_item_def bool_item_def
        opt_text_item_def lookup_def transition_of_def blast_of_def sample_edge_spec_def)
  obtain b1 b2 where "canonical_key ?p = Inr b1" "canonical_key d = Inr b2"
    using canonical_bytes_encodable [OF p(1)] canonical_bytes_encodable [OF d(2)] by (auto simp: canonical_key_def)
  then obtain ps where ps: "sort_by canonical_key [?p, d] = Inr ps" by (simp add: sort_by_def)
  have "set ps = {?p, d}" using mset_eq_setD [OF sort_by_mset [OF ps]] by simp
  then have ok: "\<forall>p \<in> set ps. encodable (VDict p) \<and> py_wf (VDict p)" using p d by (simp del: encodable.simps py_wf.simps)
  have "plain_domain ''synapse-edge-identity-v1''" by (simp add: plain_domain_def lit_def)
  then obtain h2 where e: "content_identity sample_env ''synapse-edge:'' ''synapse-edge-identity-v1'' (compiled_edge_core n ps) = Inr (lit ''synapse-edge:'' @ hex h2)"
    using content_identity_encodable [OF compiled_edge_ok(1) [OF assms encodable_lit ok]] by blast
  have "build_synapse_edge sample_env (sample_edge_spec n [?p, d]) = Inr (compiled_edge n ps (lit ''synapse-edge:'' @ hex h2))"
    using e by (simp add: build_synapse_edge_def sample_edge_spec_def ps sort_by_def [of _ "[]"] opt_str_def Let_def compiled_edge_core_def [symmetric] compiled_edge_identity compiled_edge_def)
  then show ?thesis using ok e spec by (auto simp: build_capability_edge_def simp del: encodable.simps py_wf.simps intro!: exI [of _ ps])
qed

lemma sample_node_built:
  "\<exists>n. encodable_text n \<and> content_identity sample_env ''synapse-node:'' ''synapse-node-identity-v1''
      (mk_dict [(''tenant_id'', vlit ''tenant:demo''), (''kind'', vlit ''action''), (''ref'', vlit ''here'')]) = Inr n \<and>
    build_synapse_node sample_env (vlit ''tenant:demo'') (vlit ''action'') (vlit ''here'') (vlit ''Here'') (vlit ''observed'') [] = Inr (sample_node n)"
proof -
  let ?d = "mk_dict [(''tenant_id'', vlit ''tenant:demo''), (''kind'', vlit ''action''), (''ref'', vlit ''here'')]"
  have "encodable (VDict ?d)" "plain_domain ''synapse-node-identity-v1''" by (simp_all add: mk_dict_def plain_domain_def lit_def encodable_text_def is_code_point_def is_surrogate_def)
  then obtain h where "content_identity sample_env ''synapse-node:'' ''synapse-node-identity-v1'' ?d = Inr (lit ''synapse-node:'' @ hex h)"
    using content_identity_encodable by blast
  then show ?thesis by (auto simp: build_synapse_node_def sample_node_def intro!: exI [of _ "lit ''synapse-node:'' @ hex h"])
qed

lemma sample_graph_built:
  assumes n: "encodable_text n" "content_identity sample_env ''synapse-node:'' ''synapse-node-identity-v1''
      (mk_dict [(''tenant_id'', vlit ''tenant:demo''), (''kind'', vlit ''action''), (''ref'', vlit ''here'')]) = Inr n"
      "build_synapse_node sample_env (vlit ''tenant:demo'') (vlit ''action'') (vlit ''here'') (vlit ''Here'') (vlit ''observed'') [] = Inr (sample_node n)"
    and e: "encodable_text e" "content_identity sample_env ''synapse-edge:'' ''synapse-edge-identity-v1'' (compiled_edge_core n ps) = Inr e"
    and ps: "\<forall>p \<in> set ps. encodable (VDict p) \<and> py_wf (VDict p)"
  shows "\<exists>graph g. build_synapse_graph sample_env (lit ''tenant:demo'') [sample_node n] [compiled_edge n ps e] = Inr graph \<and> encodable (VDict graph) \<and>
    dict_find graph ''edges'' = Some (VList [VDict (compiled_edge n ps e)]) \<and> dict_find graph ''graph_id'' = Some (VStr g) \<and> encodable_text g"
proof -
  let ?e = "VDict (compiled_edge n ps e)" and ?n = "VDict (sample_node n)"
  let ?core = "mk_dict [(''protocol'', vlit ''integrity-guardian/synapse-graph/v1''), (''tenant_id'', vlit ''tenant:demo''),
     (''nodes'', VList [?n]), (''edges'', VList [?e]), (''capabilities'', VDict offline_capabilities)]"
  note ok = compiled_edge_ok [OF n(1) e(1) ps]
  have node_ok: "encodable ?n" "py_wf ?n" using n(1) encodable_text_code_points [OF n(1)] by (simp_all add: sample_node_def mk_dict_def)
  have boundary: "encodable (VDict offline_capabilities)" "py_eq (VDict offline_capabilities) (VDict offline_capabilities)"
    by (simp_all add: offline_capabilities_def mk_dict_def)
  have core: "encodable (VDict ?core)" using ok(2) node_ok(1) boundary(1) by (simp add: mk_dict_def)
  moreover have "plain_domain ''synapse-graph-v1''" by (simp add: plain_domain_def lit_def)
  ultimately obtain g where g: "digest_object sample_env (VDict ?core) (lit ''synapse-graph-v1'') = Inr g" using digest_object_encodable by blast
  let ?graph = "(tkey ''graph_id'', VStr g) # ?core"
  have digest: "synapse_graph_digest sample_env ?graph = Inr g" "synapse_graph_digest sample_env ?core = Inr g"
    using g by (simp_all add: synapse_graph_digest_def mk_dict_def dict_pop_def)
  have schema: "schema_ok sample_env ''synapse-graph'' (VDict ?graph)"
    by (simp add: sample_env_def verifiers_declared_def mk_dict_def item_def item2_def dict_find_def compiled_edge_def compiled_edge_core_def)
  have fields: "field ?graph ''graph_id'' = Inr (VStr g)" "field ?graph ''tenant_id'' = Inr (vlit ''tenant:demo'')"
    "field ?graph ''capabilities'' = Inr (VDict offline_capabilities)" "list_item (VDict ?graph) ''nodes'' = Inr [?n]" "list_item (VDict ?graph) ''edges'' = Inr [?e]"
    by (simp_all add: list_item_Inr field_Inr mk_dict_def dict_find_def)
  have ids: "text_item ?n ''node_id'' = Inr n" "text_item ?e ''edge_id'' = Inr e" "text_item ?e ''from_node_id'' = Inr n" "text_item ?e ''to_node_id'' = Inr n"
    "text_item ?e ''transition_kind'' = Inr (lit ''observe'')"
    by (simp_all add: text_item_Inr sample_node_def compiled_edge_items compiled_edge_core_def field_mk)
  have "check_node sample_env (vlit ''tenant:demo'') ?n = Inr ()"
    using n(3) by (simp add: check_node_def sample_node_def field_mk dict_item_def)
  moreover have "check_edge sample_env [(n, ?n)] [(e, ?e)] ?e = Inr ()"
    using e(2) ids by (simp add: check_edge_def compiled_edge_identity check_edge_authority_def check_edge_rollback_def compiled_edge_items
        item2_def compiled_edge_core_def field_mk text_item_def)
  ultimately have "\<exists>r. verify_synapse_graph sample_env ?graph = Inr r"
    using schema digest fields ids boundary py_eq_refl [OF node_ok(2)] py_eq_refl [OF ok(3)]
    by (simp add: verify_synapse_graph_def validate_def max_graph_nodes_def max_graph_edges_def del: py_eq.simps(4))
  then have "build_synapse_graph sample_env (lit ''tenant:demo'') [sample_node n] [compiled_edge n ps e] = Inr ?graph"
    using ids digest(2) by (auto simp: build_synapse_graph_def Let_def)
  moreover have "encodable (VDict ?graph)" using core digest_object_text [OF g] by simp
  moreover have "dict_find ?graph ''edges'' = Some (VList [?e])" "dict_find ?graph ''graph_id'' = Some (VStr g)" by (simp_all add: dict_find_def mk_dict_def)
  ultimately show ?thesis using digest_object_text [OF g] by blast
qed

lemma sample_compiled:
  "\<exists>i s c. py_wf (VDict (sample_manifest i)) \<and> compile_connectome_manifest sample_env (sample_manifest i) no_caches = (s, Inr c)"
proof -
  obtain h where claimed: "claimed_manifest_id sample_env (sample_manifest (lit ''sha256:'' @ hex h)) = Inr (lit ''sha256:'' @ hex h)" using sample_claimed by blast
  define i where "i = lit ''sha256:'' @ hex h"
  have i: "encodable_text i" by (simp add: i_def)
  obtain v where v: "verify_manifest_content sample_env (sample_manifest i) = Inr v" "dict_find v ''tenant_id'' = Some (vlit ''tenant:demo'')"
    using sample_verified by blast
  have vid: "dict_find v ''manifest_id'' = Some (VStr i)" using verified_id [OF v(1)] sample_manifest_fields(4) by (simp add: res_simps)
  obtain n where n: "encodable_text n" "content_identity sample_env ''synapse-node:'' ''synapse-node-identity-v1''
      (mk_dict [(''tenant_id'', vlit ''tenant:demo''), (''kind'', vlit ''action''), (''ref'', vlit ''here'')]) = Inr n"
    "build_synapse_node sample_env (vlit ''tenant:demo'') (vlit ''action'') (vlit ''here'') (vlit ''Here'') (vlit ''observed'') [] = Inr (sample_node n)"
    using sample_node_built by blast
  obtain ps e where e: "\<forall>p \<in> set ps. encodable (VDict p) \<and> py_wf (VDict p)" "encodable_text e"
      "content_identity sample_env ''synapse-edge:'' ''synapse-edge-identity-v1'' (compiled_edge_core n ps) = Inr e"
      "build_capability_edge sample_env [(lit ''here'', n)] i (VDict sample_capability) None = Inr (compiled_edge n ps e)"
    using sample_edge_built [OF n(1), of h] i_def by blast
  obtain graph g where graph: "build_synapse_graph sample_env (lit ''tenant:demo'') [sample_node n] [compiled_edge n ps e] = Inr graph" "encodable (VDict graph)"
      "dict_find graph ''edges'' = Some (VList [VDict (compiled_edge n ps e)])" "dict_find graph ''graph_id'' = Some (VStr g)" "encodable_text g"
    using sample_graph_built [OF n e(2,3,1)] by blast
  have node: "compile_node sample_env (vlit ''tenant:demo'') (VDict sample_spec) = Inr (lit ''here'', sample_node n)" "text_item (VDict (sample_node n)) ''node_id'' = Inr n"
    using n(3) by (simp_all add: compile_node_def sample_spec_def field_mk dict_item_def text_item_def sample_node_def)
  have capability: "text_item (VDict sample_capability) ''capability_id'' = Inr (lit ''observe:here'')"
    "ebind (item (VDict sample_capability) ''reversibility'') (\<lambda>r. opt_text_item r ''rollback_capability_id'') = Inr None"
    by (simp_all add: sample_capability_def field_mk text_item_def opt_text_item_def)
  have manifest: "text_item (VDict (sample_manifest i)) ''tenant_id'' = Inr (lit ''tenant:demo'')" "text_item (VDict (sample_manifest i)) ''manifest_id'' = Inr i"
    using sample_manifest_fields(4,5) by (simp_all add: text_item_def)
  have cg: "compile_graph sample_env (sample_manifest i) = Inr ([(lit ''here'', n)], graph)"
    using e(4) graph(1) by (simp add: compile_graph_def manifest sample_manifest_fields node dict_of_def first_pass_edge_def second_pass_edge_def capability)
  let ?core = "compilation_core (vlit ''tenant:demo'') (VStr i) (VStr g) [(lit ''here'', n)] [(lit ''observe:here'', e)] graph"
  have "encodable (VDict ?core)"
    using i n(1) e(2) graph(2,5) by (simp add: compilation_core_def binding_def zero_calls_def compilation_invariants_def mk_dict_def nat_digits.simps max_str_digits_def)
  moreover have "plain_domain ''connectome-compilation-v1''" by (simp add: plain_domain_def lit_def)
  ultimately obtain x where x: "digest_object sample_env (VDict ?core) (lit ''connectome-compilation-v1'') = Inr x" using digest_object_encodable by blast
  have edge: "text_item (VDict (compiled_edge n ps e)) ''capability_id'' = Inr (lit ''observe:here'')" "text_item (VDict (compiled_edge n ps e)) ''edge_id'' = Inr e"
    by (simp_all add: text_item_Inr compiled_edge_items compiled_edge_core_def field_mk)
  have graph_items: "list_item (VDict graph) ''edges'' = Inr [VDict (compiled_edge n ps e)]" "field graph ''graph_id'' = Inr (VStr g)"
    "field v ''tenant_id'' = Inr (vlit ''tenant:demo'')" "field v ''manifest_id'' = Inr (VStr i)" using graph(3,4) v(2) vid by (simp_all add: res_simps)
  have content: "compile_content sample_env (sample_manifest i) v = Inr ((tkey ''compilation_id'', VStr x) # ?core)"
    using x by (simp add: compile_content_def cg graph_items edge dict_of_def validate_def) (simp add: sample_env_def)
  have "text_item (VDict ((tkey ''compilation_id'', VStr x) # ?core)) ''manifest_id'' = Inr i" by (simp add: res_simps dict_find_def compilation_core_def mk_dict_def)
  then have "\<exists>s. compile_connectome_manifest sample_env (sample_manifest i) no_caches = (s, Inr ((tkey ''compilation_id'', VStr x) # ?core))"
    using claimed v(1) content by (simp add: i_def [symmetric] compile_connectome_manifest_def cached_compilation_run verify_connectome_manifest_def cache_compilation_def no_caches_def sbind_apply)
  moreover have "py_wf (VDict (sample_manifest i))"
    using sample_parts_ok(2,4) encodable_text_code_points [OF i] by (simp add: sample_manifest_def sample_manifest_core_def offline_boundary_def mk_dict_def)
  ultimately show ?thesis by blast
qed

end
