(* ===== verification/ConnectomeProperties.thy ===== *)
theory ConnectomeProperties
  imports ConnectomeExample
begin

text \<open>
  The properties of \<open>connectome.py\<close>, in every state its caches can reach: a compilation is for the
  manifest it was asked for and offline, it is what the code gives without a cache, and it passes its
  own verification.
\<close>

section \<open>Properties\<close>

text \<open>
  C25. Whatever the state of the caches, a compilation of a manifest is for that manifest and contains a
  capability graph that verifies; no edge of the graph has or needs production authority, and every
  edge names the manifest in its provenance.
\<close>

theorem compiled_graph_is_offline:
  assumes "connectome_run E s" "py_wf (VDict m)" "compile_connectome_manifest E m s = (s', Inr c)"
  shows "\<exists>i graph r edges. dict_find m ''manifest_id'' = Some (VStr i) \<and> dict_find c ''manifest_id'' = Some (VStr i) \<and>
    dict_find c ''graph'' = Some (VDict graph) \<and> verify_synapse_graph E graph = Inr r \<and>
    dict_find graph ''edges'' = Some (VList edges) \<and> (\<forall>edge \<in> set edges. offline_edge i edge)"
proof -
  obtain i where i: "claimed_manifest_id E m = Inr i" "compiled_as E i c"
    using yieldsD [OF compile_yields [OF assms(2)] connectome_run_genuine [OF assms(1)] assms(3)] by blast
  then obtain m1 v where m1: "claimed_manifest_id E m1 = Inr i" "verified_as E i v" "compile_content E m1 v = Inr c"
    by (auto simp: compiled_as_def)
  obtain ids graph where g: "compile_graph E m1 = Inr (ids, graph)" "dict_find c ''graph'' = Some (VDict graph)" "dict_find c ''manifest_id'' = Some (VStr i)"
    by (rule compiled_content [OF m1(3)]) (use verified_as_id [OF m1(2)] in auto)
  obtain i1 r edges where "dict_find m1 ''manifest_id'' = Some (VStr i1)" "verify_synapse_graph E graph = Inr r"
    "dict_find graph ''edges'' = Some (VList edges)" "\<forall>edge \<in> set edges. offline_edge i1 edge"
    by (rule compiled_graph [OF g(1)]) blast
  then show ?thesis using i(1) m1(1) g by (auto simp: claimed_id)
qed

theorem compiled_graph_is_offline_witness:
  "\<exists>m s c i graph edges. compile_connectome_manifest sample_env m no_caches = (s, Inr c) \<and> dict_find c ''graph'' = Some (VDict graph) \<and>
     dict_find graph ''edges'' = Some (VList edges) \<and> (\<forall>edge \<in> set edges. offline_edge i edge)"
proof -
  obtain i s c where c: "py_wf (VDict (sample_manifest i))" "compile_connectome_manifest sample_env (sample_manifest i) no_caches = (s, Inr c)"
    using sample_compiled by blast
  from compiled_graph_is_offline [OF run_start [folded no_caches_def] c] c(2) show ?thesis by blast
qed

text \<open>Two manifests with the same identifier and the same content, in whatever order of members; or two
  inputs of the hash function that collide.\<close>

definition same_manifest :: "env \<Rightarrow> pydict \<Rightarrow> pydict \<Rightarrow> bool" where
  "same_manifest E m m' \<longleftrightarrow> dict_find m ''manifest_id'' = dict_find m' ''manifest_id'' \<and>
     (canon (VDict (manifest_core m)) = canon (VDict (manifest_core m')) \<or>
      (\<exists>p q. digest_input E (VDict (manifest_core m)) (lit ''connectome-manifest-v1'') = Inr p \<and>
             digest_input E (VDict (manifest_core m')) (lit ''connectome-manifest-v1'') = Inr q \<and> sha256_collision p q))"

lemma same_claimed:
  assumes "claimed_manifest_id E m = Inr i" "claimed_manifest_id E m' = Inr i" "py_wf (VDict m)" "py_wf (VDict m')"
  shows "same_manifest E m m'"
  using assms digest_object_same [of E "VDict (manifest_core m)" _ i "VDict (manifest_core m')"] py_wf_pop
  by (simp add: same_manifest_def claimed_id connectome_manifest_digest_def manifest_core_def del: py_wf.simps)

text \<open>
  C26. The caches only repeat answers: in every reachable state, what compiling a manifest returns is
  the uncached compilation of a manifest with the same content, under the uncached verification of
  a manifest with the same content, or two hashed inputs collide; and neither cache ever holds more
  than 32 results.
\<close>

theorem connectome_cache_only_repeats:
  assumes "connectome_run E s" "py_wf (VDict m)" "compile_connectome_manifest E m s = (s', Inr c)"
  shows "(\<exists>m1 m2 v. same_manifest E m m1 \<and> same_manifest E m m2 \<and> verify_manifest_content E m2 = Inr v \<and> compile_content E m1 v = Inr c) \<and>
    length (cc_compilations s') \<le> 32 \<and> length (cc_verifications s') \<le> 32"
proof -
  obtain i where g: "caches_genuine E s'" and i: "claimed_manifest_id E m = Inr i" "compiled_as E i c"
    using yieldsD [OF compile_yields [OF assms(2)] connectome_run_genuine [OF assms(1)] assms(3)] by blast
  obtain m1 m2 v where "py_wf (VDict m1)" "claimed_manifest_id E m1 = Inr i" "compile_content E m1 v = Inr c"
    "py_wf (VDict m2)" "claimed_manifest_id E m2 = Inr i" "verify_manifest_content E m2 = Inr v"
    using i(2) by (auto simp: compiled_as_def verified_as_def)
  moreover from this have "same_manifest E m m1" "same_manifest E m m2" using same_claimed [OF i(1)] assms(2) by blast+
  moreover have "cache_valid (cc_compilations s')" "cache_valid (cc_verifications s')" using g lru.genuine_valid by (auto simp: caches_genuine_def)
  ultimately show ?thesis by (auto simp: cache_valid_def cache_limit_def)
qed

theorem connectome_cache_only_repeats_witness:
  "\<exists>m s c m1 v. compile_connectome_manifest sample_env m no_caches = (s, Inr c) \<and> same_manifest sample_env m m1 \<and>
     compile_content sample_env m1 v = Inr c \<and> length (cc_compilations s) \<le> 32"
proof -
  obtain i s c where c: "py_wf (VDict (sample_manifest i))" "compile_connectome_manifest sample_env (sample_manifest i) no_caches = (s, Inr c)"
    using sample_compiled by blast
  from connectome_cache_only_repeats [OF run_start [folded no_caches_def] c] c(2) show ?thesis by blast
qed

text \<open>A compilation that was returned is found again.\<close>

lemma compile_stored:
  assumes "caches_genuine E s" "py_wf (VDict m)" "compile_connectome_manifest E m s = (s', Inr c)"
  shows "\<exists>i. claimed_manifest_id E m = Inr i \<and> map_of (cc_compilations s') i = Some c"
  using assms(3)
proof (cases rule: compile_runs)
  case (cached i d)
  then show ?thesis by (simp add: lru.get_touch)
next
  case (fresh i s1 v d x)
  then have "verified_as E i v" using yieldsD [OF verify_yields [OF assms(2)] assms(1) fresh(3)] by auto
  then have "x = i" using fresh(5) compile_content_id(1) [OF fresh(4)] verified_as_id by (simp add: res_simps)
  then show ?thesis using fresh by (simp add: lru.get_store)
qed simp_all

lemma compile_again:
  assumes "caches_genuine E s" "py_wf (VDict m)" "compile_connectome_manifest E m s = (s', Inr c)"
  shows "\<exists>s''. compile_connectome_manifest E m s' = (s'', Inr c)"
  using compile_stored [OF assms] by (auto simp: compile_connectome_manifest_def cached_compilation_run sbind_apply)

text \<open>
  C27. Every compilation passes its own verification in the state it leaves, whether it was compiled or
  taken from the cache, and the verification reports its manifest, tenant and graph.
\<close>

theorem compilation_verifies:
  assumes "connectome_run E s" "py_wf (VDict m)" "compile_connectome_manifest E m s = (s', Inr c)"
  shows "\<exists>s'' r. verify_connectome_compilation E m c s' = (s'', Inr r) \<and> dict_find r ''ok'' = Some (VBool True) \<and>
    dict_find r ''manifest_id'' = dict_find m ''manifest_id'' \<and> dict_find r ''graph_id'' = dict_find c ''graph_id'' \<and>
    dict_find r ''tenant_id'' = dict_find c ''tenant_id''"
proof -
  obtain i where i: "claimed_manifest_id E m = Inr i" "compiled_as E i c"
    using yieldsD [OF compile_yields [OF assms(2)] connectome_run_genuine [OF assms(1)] assms(3)] by blast
  then obtain m1 v where m1: "verified_as E i v" "compile_content E m1 v = Inr c" by (auto simp: compiled_as_def)
  obtain x t g nodes capabilities where c: "schema_ok E ''connectome-compilation'' (VDict c)" "dict_find c ''manifest_id'' = Some (VStr i)"
      "dict_find c ''tenant_id'' = Some t" "dict_find c ''graph_id'' = Some g" "dict_find c ''compilation_id'' = Some (VStr x)"
      "digest_object E (VDict (dict_pop c ''compilation_id'')) (lit ''connectome-compilation-v1'') = Inr x"
      "dict_find c ''node_bindings'' = Some (VList nodes)" "dict_find c ''capability_bindings'' = Some (VList capabilities)" "codable (VDict c)"
    by (rule compiled_content [OF m1(2)]) (use verified_as_id [OF m1(1)] in auto)
  obtain b where b: "canonical_bytes (VDict c) = Inr b" using c(9) canonical_bytes_codable by blast
  obtain s2 where s2: "compile_connectome_manifest E m s' = (s2, Inr c)"
    using compile_again [OF connectome_run_genuine [OF assms(1)] assms(2,3)] by blast
  have items: "field c ''compilation_id'' = Inr (VStr x)" "list_item (VDict c) ''node_bindings'' = Inr nodes" "list_item (VDict c) ''capability_bindings'' = Inr capabilities"
    "copy_fields c [''manifest_id'', ''graph_id'', ''tenant_id''] = Inr [(''manifest_id'', VStr i), (''graph_id'', g), (''tenant_id'', t)]"
    using c by (simp_all add: res_simps copy_fields_Inr)
  have "dict_find m ''manifest_id'' = Some (VStr i)" using i(1) by (simp add: claimed_id)
  with c(1-4) b s2 show ?thesis
    by (simp add: verify_connectome_compilation_def validate_def c(6) items sbind_apply [of "compile_connectome_manifest E m"] dict_find_mk)
qed

theorem compilation_verifies_witness:
  "\<exists>m s c s' r. compile_connectome_manifest sample_env m no_caches = (s, Inr c) \<and>
     verify_connectome_compilation sample_env m c s = (s', Inr r) \<and> dict_find r ''ok'' = Some (VBool True)"
proof -
  obtain i s c where c: "py_wf (VDict (sample_manifest i))" "compile_connectome_manifest sample_env (sample_manifest i) no_caches = (s, Inr c)"
    using sample_compiled by blast
  from compilation_verifies [OF run_start [folded no_caches_def] c] c(2) show ?thesis by blast
qed

end
