(* ===== verification/ConnectomeAuthority.thy ===== *)
theory ConnectomeAuthority
  imports ConnectomeProperties
begin

text \<open>
  \<open>connectome_authorization.py\<close>: a signed authorization to compile one manifest, for a tenant, a
  compilation context, an exact scope of subsystems and at most one day; and compilations bundled
  with the authorization they were made under. The operations run on the caches of \<open>connectome.py\<close>.
  The runs \<open>sole_run\<close> are those of a process that meets a manifest in one form only; in their states the
  answers about it do not depend on what the caches hold.
\<close>

section \<open>Authorizations\<close>

text \<open>\<open>try: m / except P as exc: raise e(msg) from exc\<close> around an operation.\<close>

definition scatch_as :: "(exc \<Rightarrow> bool) \<Rightarrow> exc \<Rightarrow> string \<Rightarrow> ('s, 'a) op \<Rightarrow> ('s, 'a) op" where
  "scatch_as P e msg m = (\<lambda>s. case m s of (s', r) \<Rightarrow> (s', catch_as P e msg r))"

definition max_connectome_authorization_seconds :: int where
  "max_connectome_authorization_seconds = 86400"

definition authorized_invariants :: pydict where
  "authorized_invariants = mk_dict [(''authorization_verified'', VBool True), (''execution_performed'', VBool False),
     (''manifest_authority_bound'', VBool True), (''model_calls'', VInt 0), (''production_authority'', VBool False),
     (''replay_context_bound'', VBool True), (''tenant_bound'', VBool True), (''tool_calls'', VInt 0)]"

definition connectome_time :: "pyval \<Rightarrow> string \<Rightarrow> datetime res" where
  "connectome_time v field_name =
     ensure (case v of VStr s \<Rightarrow> True | _ \<Rightarrow> False) ConnectomeAuthorizationError (field_name @ '' must be an RFC3339 string'')
     (ebind (catch_as is_ValueError ConnectomeAuthorizationError (field_name @ '' must be RFC3339'') (fromisoformat v)) (\<lambda>parsed.
      ensure (dt_offset parsed \<noteq> None) ConnectomeAuthorizationError (field_name @ '' must include a timezone'') (Inr parsed)))"

definition authorization_identity :: "env \<Rightarrow> pydict \<Rightarrow> ustring res" where
  "authorization_identity E document =
     content_identity E ''connectome-authorization:'' ''connectome-authorization-identity-v1''
       (pending ''authorization_id'' ''connectome-authorization:pending'' document)"

definition canonical_subsystems :: "ustring list \<Rightarrow> ustring list res" where
  "canonical_subsystems values =
     ensure (\<not> (values = [] \<or> [] \<in> set values \<or> lit ''*'' \<in> set values)) ConnectomeAuthorizationError
       ''Connectome authorization requires explicit subsystems''
     (let normalized = sort (remdups values) in
      ensure (length normalized = length values) ConnectomeAuthorizationError ''Connectome authorization subsystems must be unique''
        (Inr normalized))"

text \<open>\<open>any(capability["transition_kind"] == "disposable_mutation" for capability in capabilities)\<close>\<close>

fun any_disposable :: "pyval list \<Rightarrow> bool res" where
  "any_disposable [] = Inr False"
| "any_disposable (capability # capabilities) =
     ebind (text_item capability ''transition_kind'') (\<lambda>kind.
     if kind = lit ''disposable_mutation'' then Inr True else any_disposable capabilities)"

definition manifest_scope :: "pydict \<Rightarrow> (ustring list \<times> bool) res" where
  "manifest_scope manifest =
     ebind (list_item (VDict manifest) ''capabilities'') (\<lambda>capabilities.
     ebind (map_res (\<lambda>c. text_item c ''subsystem'') capabilities) (\<lambda>subsystems.
     ebind (any_disposable capabilities) (\<lambda>has_disposable.
     Inr (sort (remdups subsystems), has_disposable))))"

text \<open>The validity interval, in whole microseconds; the source compares the exact quotient in seconds.\<close>

definition safe_interval :: "datetime \<Rightarrow> datetime \<Rightarrow> bool" where
  "safe_interval start end_time \<longleftrightarrow>
     0 < instant end_time - instant start \<and> instant end_time - instant start \<le> max_connectome_authorization_seconds * 1000000"

text \<open>The keyword arguments of the builder besides the manifest and the signer.\<close>

record authorization_request =
  aq_compilation_context_id :: ustring
  aq_allowed_subsystems :: "ustring list"
  aq_allow_disposable_mutation :: bool
  aq_valid_from :: ustring
  aq_valid_until :: ustring

definition authorization_core :: "authorization_request \<Rightarrow> pyval \<Rightarrow> pyval \<Rightarrow> ustring list \<Rightarrow> ustring \<Rightarrow> ustring \<Rightarrow> pydict" where
  "authorization_core q tenant_id manifest_id subsystems key_id fingerprint = mk_dict [
     (''protocol'', vlit ''integrity-guardian/connectome-authorization/v1''),
     (''authorization_id'', vlit ''connectome-authorization:pending''), (''tenant_id'', tenant_id), (''manifest_id'', manifest_id),
     (''compilation_context_id'', VStr (aq_compilation_context_id q)), (''authority_role'', vlit ''connectome-publisher''),
     (''authority_id'', VStr key_id), (''authority_key_fingerprint'', VStr fingerprint),
     (''allowed_subsystems'', VList (map VStr subsystems)), (''allow_disposable_mutation'', VBool (aq_allow_disposable_mutation q)),
     (''valid_from'', VStr (aq_valid_from q)), (''valid_until'', VStr (aq_valid_until q)), (''production_authority'', VBool False)]"

text \<open>The authorization of a verified manifest.\<close>

definition sign_authorization_of :: "env \<Rightarrow> pydict \<Rightarrow> authorization_request \<Rightarrow> ed25519_signer \<Rightarrow> pydict \<Rightarrow> pydict res" where
  "sign_authorization_of E manifest q authority_signer verification =
     ensure (starts_with (lit ''context:'') (aq_compilation_context_id q)) ConnectomeAuthorizationError
       ''Connectome compilation context identity is not canonical''
     (ebind (canonical_subsystems (aq_allowed_subsystems q)) (\<lambda>normalized_subsystems.
      ebind (manifest_scope manifest) (\<lambda>(manifest_subsystems, has_disposable_mutation).
      ensure (normalized_subsystems = manifest_subsystems) ConnectomeAuthorizationError
        ''Connectome authorization scope must exactly match the manifest''
      (ensure (\<not> (has_disposable_mutation \<and> \<not> aq_allow_disposable_mutation q)) ConnectomeAuthorizationError
        ''Connectome authorization does not allow disposable mutation''
      (ebind (connectome_time (VStr (aq_valid_from q)) ''valid_from'') (\<lambda>start.
       ebind (connectome_time (VStr (aq_valid_until q)) ''valid_until'') (\<lambda>end_time.
       ensure (safe_interval start end_time) ConnectomeAuthorizationError
         ''Connectome authorization validity interval is outside the safe bound''
       (ebind (field verification ''tenant_id'') (\<lambda>tenant_id.
        ebind (field verification ''manifest_id'') (\<lambda>manifest_id.
        let unsigned_doc = authorization_core q tenant_id manifest_id normalized_subsystems (sg_key_id authority_signer)
              (public_key_fingerprint (signer_public_key E authority_signer)) in
        ebind (authorization_identity E unsigned_doc) (\<lambda>identity.
        ebind (sign E authority_signer (dict_put unsigned_doc ''authorization_id'' (VStr identity))) (\<lambda>authorization.
        ebind (validate E ''connectome-authorization'' (VDict authorization)) (\<lambda>_. Inr authorization)))))))))))))"

definition build_connectome_authorization ::
  "env \<Rightarrow> pydict \<Rightarrow> authorization_request \<Rightarrow> ed25519_signer \<Rightarrow> (connectome_caches, pydict) op" where
  "build_connectome_authorization E manifest q authority_signer =
     sbind (scatch_as (\<lambda>c. c = ConnectomeError) ConnectomeAuthorizationError ''Connectome authorization received an invalid manifest''
              (verify_connectome_manifest E manifest)) (\<lambda>verification.
     pure_op (sign_authorization_of E manifest q authority_signer verification))"

section \<open>Verification\<close>

text \<open>The document names this authority, its signature and its fingerprint are of this key, and the
  signature verifies.\<close>

definition authority_signed :: "env \<Rightarrow> pydict \<Rightarrow> trusted_key \<Rightarrow> bool res" where
  "authority_signed E candidate authority_key =
     ebind (field candidate ''authority_id'') (\<lambda>authority_id.
     if authority_id \<noteq> VStr (tk_key_id authority_key) then Inr False
     else ebind (field candidate ''signature'') (\<lambda>signature.
          ebind (item signature ''key_id'') (\<lambda>key_id.
          if key_id \<noteq> VStr (tk_key_id authority_key) then Inr False
          else ebind (field candidate ''authority_key_fingerprint'') (\<lambda>fingerprint.
               if fingerprint \<noteq> VStr (public_key_fingerprint (tk_public_key authority_key)) then Inr False
               else verify_signature E candidate (tk_public_key authority_key)))))"

text \<open>What the caller expects of an authorization.\<close>

record authorization_context =
  ac_authority_key :: trusted_key
  ac_tenant_id :: ustring
  ac_context_id :: ustring
  ac_at_time :: ustring

text \<open>The checks on an authorization for a verified manifest.\<close>

definition check_authorization :: "env \<Rightarrow> pydict \<Rightarrow> pydict \<Rightarrow> authorization_context \<Rightarrow> pydict \<Rightarrow> pydict res" where
  "check_authorization E candidate manifest A manifest_verification =
     ebind (field candidate ''tenant_id'') (\<lambda>tenant_id.
     ebind (field manifest_verification ''tenant_id'') (\<lambda>manifest_tenant_id.
     ensure (\<not> (tenant_id \<noteq> VStr (ac_tenant_id A) \<or> manifest_tenant_id \<noteq> VStr (ac_tenant_id A))) ConnectomeAuthorizationError
       ''Connectome authorization tenant mismatch''
     (ebind (field candidate ''manifest_id'') (\<lambda>manifest_id.
      ebind (field manifest_verification ''manifest_id'') (\<lambda>verified_id.
      ensure (py_eq manifest_id verified_id) ConnectomeAuthorizationError ''Connectome authorization belongs to another manifest''
      (ebind (field candidate ''compilation_context_id'') (\<lambda>context_id.
       ensure (context_id = VStr (ac_context_id A)) ConnectomeAuthorizationError ''Connectome authorization replay context mismatch''
       (ebind (authority_signed E candidate (ac_authority_key A)) (\<lambda>accepted.
        ensure accepted ConnectomeAuthorizationError ''Connectome authority signature rejected''
        (ebind (field candidate ''authorization_id'') (\<lambda>authorization_id.
         ebind (authorization_identity E candidate) (\<lambda>identity.
         ensure (authorization_id = VStr identity) ConnectomeAuthorizationError ''Connectome authorization identity mismatch''
         (ebind (ebind (field candidate ''valid_from'') (\<lambda>v. connectome_time v ''valid_from'')) (\<lambda>start.
          ebind (ebind (field candidate ''valid_until'') (\<lambda>v. connectome_time v ''valid_until'')) (\<lambda>end_time.
          ebind (connectome_time (VStr (ac_at_time A)) ''at_time'') (\<lambda>current.
          ensure (safe_interval start end_time) ConnectomeAuthorizationError
            ''Connectome authorization validity interval is outside the safe bound''
          (ensure (instant start \<le> instant current \<and> instant current < instant end_time) ConnectomeAuthorizationError
             ''Connectome authorization is not active''
          (ebind (ebind (texts_item (VDict candidate) ''allowed_subsystems'') canonical_subsystems) (\<lambda>authorized_subsystems.
           ebind (manifest_scope manifest) (\<lambda>(manifest_subsystems, has_disposable_mutation).
           ensure (authorized_subsystems = manifest_subsystems) ConnectomeAuthorizationError
             ''Connectome authorization scope does not match the manifest''
           (ebind (field candidate ''allow_disposable_mutation'') (\<lambda>allow.
            ensure (\<not> (has_disposable_mutation \<and> \<not> truthy allow)) ConnectomeAuthorizationError
              ''Connectome authorization forbids disposable mutation''
            (Inr (mk_dict [(''ok'', VBool True), (''authorization_id'', authorization_id), (''tenant_id'', VStr (ac_tenant_id A)),
              (''manifest_id'', manifest_id), (''compilation_context_id'', VStr (ac_context_id A)),
              (''authority_id'', VStr (tk_key_id (ac_authority_key A))),
              (''authority_key_fingerprint'', VStr (public_key_fingerprint (tk_public_key (ac_authority_key A)))),
              (''active'', VBool True), (''allow_disposable_mutation'', allow), (''production_authority'', VBool False)]))))))))))))))))))))))))"

definition verify_connectome_authorization ::
  "env \<Rightarrow> pydict \<Rightarrow> pydict \<Rightarrow> authorization_context \<Rightarrow> (connectome_caches, pydict) op" where
  "verify_connectome_authorization E candidate manifest A =
     sbind (scatch_as (\<lambda>c. c \<in> {ConnectomeError, ValidationError, KeyError, TypeError} \<or> is_ValueError c) ConnectomeAuthorizationError
              ''Connectome authorization schema or manifest rejected''
              (sbind (pure_op (validate E ''connectome-authorization'' (VDict candidate))) (\<lambda>_.
               verify_connectome_manifest E manifest))) (\<lambda>manifest_verification.
     pure_op (check_authorization E candidate manifest A manifest_verification))"

section \<open>Authorized compilations\<close>

definition bundle_of :: "env \<Rightarrow> pydict \<Rightarrow> pydict \<Rightarrow> pydict \<Rightarrow> pydict res" where
  "bundle_of E authorization verification compilation =
     ebind (copy_fields verification [''tenant_id'', ''manifest_id'', ''authorization_id'', ''compilation_context_id'']) (\<lambda>bound.
     ebind (copy_fields compilation [''compilation_id'', ''graph_id'']) (\<lambda>ids.
     let core = mk_dict ([(''protocol'', vlit ''integrity-guardian/connectome-authorized-compilation/v1'')] @ bound @ ids @
       [(''authorization'', VDict authorization), (''compilation'', VDict compilation),
        (''control_plane_calls'', VDict zero_calls), (''invariants'', VDict authorized_invariants)]) in
     ebind (digest_object E (VDict core) (lit ''connectome-authorized-compilation-v1'')) (\<lambda>bundle_id.
     let bundle = (tkey ''authorized_compilation_id'', VStr bundle_id) # core in
     ebind (validate E ''connectome-authorized-compilation'' (VDict bundle)) (\<lambda>_. Inr bundle))))"

definition compile_authorized_connectome_manifest ::
  "env \<Rightarrow> pydict \<Rightarrow> pydict \<Rightarrow> authorization_context \<Rightarrow> (connectome_caches, pydict) op" where
  "compile_authorized_connectome_manifest E manifest authorization A =
     sbind (verify_connectome_authorization E authorization manifest A) (\<lambda>authorization_verification.
     sbind (compile_connectome_manifest E manifest) (\<lambda>compilation.
     pure_op (bundle_of E authorization authorization_verification compilation)))"


section \<open>Facts\<close>

lemma scatch_success [op_simps]: "scatch_as P e msg m s = (s', Inr x) \<longleftrightarrow> m s = (s', Inr x)"
  by (auto simp: scatch_as_def catch_as_eq_Inr split: prod.splits)

lemma connectome_time_Inr: "connectome_time v k = Inr t \<longleftrightarrow> fromisoformat v = Inr t \<and> dt_offset t \<noteq> None"
  by (cases v) (auto simp: connectome_time_def res_simps fromisoformat_def)

lemma authority_signed_True:
  "authority_signed E d key = Inr True \<longleftrightarrow> dict_find d ''authority_id'' = Some (VStr (tk_key_id key)) \<and>
     (\<exists>s. dict_find d ''signature'' = Some s \<and> item s ''key_id'' = Inr (VStr (tk_key_id key))) \<and>
     dict_find d ''authority_key_fingerprint'' = Some (VStr (public_key_fingerprint (tk_public_key key))) \<and>
     verify_signature E d (tk_public_key key) = Inr True"
  by (auto simp: authority_signed_def res_simps split: if_splits)

lemma canonical_subsystems_Inr:
  "canonical_subsystems xs = Inr ys \<Longrightarrow> set ys = set xs \<and> distinct xs \<and> xs \<noteq> [] \<and> lit ''*'' \<notin> set xs"
  by (auto simp: canonical_subsystems_def res_simps Let_def length_remdups_card_conv card_distinct)

lemma any_disposable_False: "any_disposable cs = Inr False \<Longrightarrow> c \<in> set cs \<Longrightarrow> text_item c ''transition_kind'' \<noteq> Inr (lit ''disposable_mutation'')"
  by (induction cs) (auto simp: res_simps split: if_splits)

lemma manifest_scope_Inr:
  assumes "manifest_scope m = Inr (subsystems, disposable)"
  obtains capabilities where "dict_find m ''capabilities'' = Some (VList capabilities)"
    "\<forall>c \<in> set capabilities. \<exists>x \<in> set subsystems. text_item c ''subsystem'' = Inr x"
    "disposable \<or> (\<forall>c \<in> set capabilities. text_item c ''transition_kind'' \<noteq> Inr (lit ''disposable_mutation''))"
proof -
  obtain capabilities xs where c: "dict_find m ''capabilities'' = Some (VList capabilities)" "map_res (\<lambda>c. text_item c ''subsystem'') capabilities = Inr xs"
    "any_disposable capabilities = Inr disposable" "set subsystems = set xs"
    using assms by (auto simp: manifest_scope_def res_simps)
  have "\<forall>c \<in> set capabilities. \<exists>x \<in> set subsystems. text_item c ''subsystem'' = Inr x"
    using list_all2_in [OF c(2) [unfolded map_res_Inr_iff]] c(4) by blast
  moreover have "disposable \<or> (\<forall>c \<in> set capabilities. text_item c ''transition_kind'' \<noteq> Inr (lit ''disposable_mutation''))"
    using c(3) any_disposable_False by (cases disposable) auto
  ultimately show ?thesis using that c(1) by blast
qed

text \<open>What an accepted authorization says about the manifest it is for: it is signed by the authority,
  for this manifest, tenant and context, active, of at most a day, and its scope covers every
  capability.\<close>

definition authority_covers :: "env \<Rightarrow> pydict \<Rightarrow> pydict \<Rightarrow> authorization_context \<Rightarrow> ustring \<Rightarrow> bool" where
  "authority_covers E auth m A i \<longleftrightarrow>
     authority_signed E auth (ac_authority_key A) = Inr True \<and> dict_find auth ''manifest_id'' = Some (VStr i) \<and>
     dict_find auth ''tenant_id'' = Some (VStr (ac_tenant_id A)) \<and> dict_find auth ''compilation_context_id'' = Some (VStr (ac_context_id A)) \<and>
     (\<exists>f u start end_time now. dict_find auth ''valid_from'' = Some f \<and> dict_find auth ''valid_until'' = Some u \<and>
        fromisoformat f = Inr start \<and> fromisoformat u = Inr end_time \<and> fromisoformat (VStr (ac_at_time A)) = Inr now \<and>
        instant start \<le> instant now \<and> instant now < instant end_time \<and> instant end_time - instant start \<le> 86400 * 1000000) \<and>
     (\<exists>capabilities subsystems allow. dict_find m ''capabilities'' = Some (VList capabilities) \<and>
        dict_find auth ''allowed_subsystems'' = Some (VList (map VStr subsystems)) \<and> lit ''*'' \<notin> set subsystems \<and>
        (\<forall>c \<in> set capabilities. \<exists>x \<in> set subsystems. text_item c ''subsystem'' = Inr x) \<and>
        dict_find auth ''allow_disposable_mutation'' = Some allow \<and>
        (\<forall>c \<in> set capabilities. text_item c ''transition_kind'' = Inr (lit ''disposable_mutation'') \<longrightarrow> truthy allow))"

lemma checked_authorization:
  assumes "check_authorization E auth m A v = Inr r" "dict_find v ''manifest_id'' = Some (VStr i)"
  shows "authority_covers E auth m A i"
proof -
  obtain f u start end_time now subsystems xs disposable allow where
    s: "authority_signed E auth (ac_authority_key A) = Inr True" "dict_find auth ''manifest_id'' = Some (VStr i)"
       "dict_find auth ''tenant_id'' = Some (VStr (ac_tenant_id A))" "dict_find auth ''compilation_context_id'' = Some (VStr (ac_context_id A))"
    and t: "dict_find auth ''valid_from'' = Some f" "dict_find auth ''valid_until'' = Some u" "connectome_time f ''valid_from'' = Inr start"
      "connectome_time u ''valid_until'' = Inr end_time" "connectome_time (VStr (ac_at_time A)) ''at_time'' = Inr now" "safe_interval start end_time"
      "instant start \<le> instant now" "instant now < instant end_time"
    and x: "dict_find auth ''allowed_subsystems'' = Some (VList (map VStr xs))" "canonical_subsystems xs = Inr subsystems" "manifest_scope m = Inr (subsystems, disposable)"
      "dict_find auth ''allow_disposable_mutation'' = Some allow" "disposable \<longrightarrow> truthy allow"
    using assms unfolding check_authorization_def by (auto simp: res_simps)
  obtain capabilities where "dict_find m ''capabilities'' = Some (VList capabilities)"
    "\<forall>c \<in> set capabilities. \<exists>x \<in> set subsystems. text_item c ''subsystem'' = Inr x"
    "disposable \<or> (\<forall>c \<in> set capabilities. text_item c ''transition_kind'' \<noteq> Inr (lit ''disposable_mutation''))"
    by (rule manifest_scope_Inr [OF x(3)])
  moreover note canonical_subsystems_Inr [OF x(2)]
  moreover have "instant end_time - instant start \<le> 86400 * 1000000" using t(6) by (simp add: safe_interval_def max_connectome_authorization_seconds_def)
  ultimately show ?thesis unfolding authority_covers_def using s t x by (auto simp: connectome_time_Inr)
qed


lemma verified_authorization:
  "verify_connectome_authorization E auth m A s = (s', Inr r) \<longleftrightarrow>
   schema_ok E ''connectome-authorization'' (VDict auth) \<and>
   (\<exists>v. verify_connectome_manifest E m s = (s', Inr v) \<and> check_authorization E auth m A v = Inr r)"
  by (auto simp: verify_connectome_authorization_def op_simps validate_def ensure_eq_Inr)

text \<open>The operations touch the caches only through those of \<open>connectome.py\<close>.\<close>

lemma verify_authorization_run:
  assumes "connectome_run E s" "py_wf (VDict m)" "verify_connectome_authorization E auth m A s = (s', r)"
  shows "connectome_run E s'"
proof -
  have "s' = s \<or> s' = fst (verify_connectome_manifest E m s)"
    using assms(3) by (auto simp: verify_connectome_authorization_def scatch_as_def sbind_apply validate_def ensure_def split: if_splits prod.splits sum.splits)
  then show ?thesis using assms(1) run_verify [OF assms(1,2)] by auto
qed

lemma compile_run: "connectome_run E s \<Longrightarrow> py_wf (VDict m) \<Longrightarrow> compile_connectome_manifest E m s = (s', r) \<Longrightarrow> connectome_run E s'"
  using run_compile [of E s m] by simp

lemma authorized_runs:
  assumes "compile_authorized_connectome_manifest E m auth A s = (s', Inr bundle)"
  obtains s1 v r c where "schema_ok E ''connectome-authorization'' (VDict auth)" "verify_connectome_manifest E m s = (s1, Inr v)"
    "check_authorization E auth m A v = Inr r" "compile_connectome_manifest E m s1 = (s', Inr c)" "bundle_of E auth r c = Inr bundle"
  using assms by (auto simp: compile_authorized_connectome_manifest_def op_simps verified_authorization)

lemma bundled:
  assumes "bundle_of E auth r c = Inr bundle"
  obtains x where "dict_find bundle ''authorized_compilation_id'' = Some (VStr x)"
    "digest_object E (VDict (dict_pop bundle ''authorized_compilation_id'')) (lit ''connectome-authorized-compilation-v1'') = Inr x"
    "dict_find bundle ''authorization'' = Some (VDict auth)" "dict_find bundle ''compilation'' = Some (VDict c)"
    "dict_find bundle ''manifest_id'' = dict_find r ''manifest_id''" "\<forall>k \<in> {''tenant_id'', ''manifest_id'', ''authorization_id'', ''compilation_context_id'', ''compilation_id'', ''graph_id''}. \<exists>v. dict_find bundle k = Some v"
    "schema_ok E ''connectome-authorized-compilation'' (VDict bundle)" "codable (VDict bundle)"
proof -
  let ?core = "\<lambda>t i a k y g. mk_dict ([(''protocol'', vlit ''integrity-guardian/connectome-authorized-compilation/v1'')] @
      [(''tenant_id'', t), (''manifest_id'', i), (''authorization_id'', a), (''compilation_context_id'', k)] @ [(''compilation_id'', y), (''graph_id'', g)] @
      [(''authorization'', VDict auth), (''compilation'', VDict c), (''control_plane_calls'', VDict zero_calls), (''invariants'', VDict authorized_invariants)])"
  obtain t i a k g x y where find: "dict_find r ''tenant_id'' = Some t" "dict_find r ''manifest_id'' = Some i" "dict_find r ''authorization_id'' = Some a"
      "dict_find r ''compilation_context_id'' = Some k" "dict_find c ''compilation_id'' = Some y" "dict_find c ''graph_id'' = Some g"
    and x: "digest_object E (VDict (?core t i a k y g)) (lit ''connectome-authorized-compilation-v1'') = Inr x"
    and made: "bundle = (tkey ''authorized_compilation_id'', VStr x) # ?core t i a k y g" and ok: "schema_ok E ''connectome-authorized-compilation'' (VDict bundle)"
    using assms by (auto simp: bundle_of_def copy_fields_def res_simps Let_def validate_def)
  have "dict_pop bundle ''authorized_compilation_id'' = ?core t i a k y g" by (simp add: made dict_pop_def mk_dict_def)
  moreover have "codable (VDict bundle)"
    using digest_object_codable [OF x] digest_object_text [OF x] quote_encodable [OF encodable_lit] by (auto simp: made codable_dict quote_encodable)
  ultimately show ?thesis using that [of x] x find ok by (simp add: made dict_find_def mk_dict_def)
qed

text \<open>A verification that was returned is found again, also after a compilation.\<close>

lemma verify_stored:
  assumes "verify_connectome_manifest E m s = (s', Inr v)"
  shows "\<exists>i. claimed_manifest_id E m = Inr i \<and> map_of (cc_verifications s') i = Some v"
  using assms by (cases rule: verify_runs) (auto simp: lru.get_touch lru.get_store)

lemma verify_again:
  assumes "claimed_manifest_id E m = Inr i" "map_of (cc_verifications s) i = Some v"
  shows "verify_connectome_manifest E m s = (cc_verifications_update (move_to_end i) s, Inr v)"
  using assms by (simp add: verify_connectome_manifest_def)



text \<open>A built authorization is accepted.\<close>

lemma canonical_subsystems_idem:
  assumes "canonical_subsystems xs = Inr ys"
  shows "canonical_subsystems ys = Inr ys"
proof -
  have ys: "ys = sort (remdups xs)" "[] \<notin> set xs" using assms by (simp_all add: canonical_subsystems_def res_simps Let_def)
  have "set ys = set xs" "xs \<noteq> []" "lit ''*'' \<notin> set xs" using canonical_subsystems_Inr [OF assms] by simp_all
  moreover from this have "ys \<noteq> []" by auto
  moreover have "sort (remdups ys) = ys" by (simp add: ys(1) distinct_remdups_id sorted_sort_id)
  ultimately show ?thesis using ys(2) by (simp add: canonical_subsystems_def)
qed

lemma built_authorization:
  assumes "sign_authorization_of E m q sg v = Inr auth"
  obtains subsystems disposable tn i x start end_time where
    "canonical_subsystems subsystems = Inr subsystems" "manifest_scope m = Inr (subsystems, disposable)" "disposable \<longrightarrow> aq_allow_disposable_mutation q"
    "connectome_time (VStr (aq_valid_from q)) ''valid_from'' = Inr start" "connectome_time (VStr (aq_valid_until q)) ''valid_until'' = Inr end_time"
    "safe_interval start end_time" "dict_find v ''tenant_id'' = Some tn" "dict_find v ''manifest_id'' = Some i"
    "authorization_identity E auth = Inr x" "dict_find auth ''authorization_id'' = Some (VStr x)"
    "\<forall>k. k \<notin> {''signature'', ''authorization_id''} \<longrightarrow> dict_find auth k =
       dict_find (authorization_core q tn i subsystems (sg_key_id sg) (public_key_fingerprint (signer_public_key E sg))) k"
    "sign E sg (dict_put (authorization_core q tn i subsystems (sg_key_id sg) (public_key_fingerprint (signer_public_key E sg))) ''authorization_id'' (VStr x)) = Inr auth"
    "schema_ok E ''connectome-authorization'' (VDict auth)"
proof -
  let ?u = "\<lambda>tn i xs. authorization_core q tn i xs (sg_key_id sg) (public_key_fingerprint (signer_public_key E sg))"
  obtain subsystems disposable tn i x start end_time where
    a: "canonical_subsystems (aq_allowed_subsystems q) = Inr subsystems" "manifest_scope m = Inr (subsystems, disposable)" "disposable \<longrightarrow> aq_allow_disposable_mutation q"
    "connectome_time (VStr (aq_valid_from q)) ''valid_from'' = Inr start" "connectome_time (VStr (aq_valid_until q)) ''valid_until'' = Inr end_time"
    "safe_interval start end_time" "dict_find v ''tenant_id'' = Some tn" "dict_find v ''manifest_id'' = Some i"
    and x: "authorization_identity E (?u tn i subsystems) = Inr x"
    and s: "sign E sg (dict_put (?u tn i subsystems) ''authorization_id'' (VStr x)) = Inr auth" and ok: "schema_ok E ''connectome-authorization'' (VDict auth)"
    using assms unfolding sign_authorization_of_def by (auto simp: res_simps Let_def validate_def)
  have u: "dict_find (?u tn i subsystems) ''authorization_id'' = Some (vlit ''connectome-authorization:pending'')" "dict_find (?u tn i subsystems) ''signature'' = None"
    by (simp_all add: authorization_core_def dict_find_mk)
  have "pending ''authorization_id'' ''connectome-authorization:pending'' auth = ?u tn i subsystems" by (rule pending_sign [OF s u]) simp
  moreover have "pending ''authorization_id'' ''connectome-authorization:pending'' (?u tn i subsystems) = ?u tn i subsystems"
    using u by (simp add: pending_def dict_put_same)
  ultimately have "authorization_identity E auth = Inr x" using x by (simp add: authorization_identity_def)
  moreover have "\<forall>k. k \<noteq> ''signature'' \<longrightarrow> dict_find auth k = (if k = ''authorization_id'' then Some (VStr x) else dict_find (?u tn i subsystems) k)"
    using sign_fields [OF s] by (auto simp: dict_find_put)
  ultimately show ?thesis using that [OF canonical_subsystems_idem [OF a(1)] a(2-8)] s ok by auto
qed

lemma built_authorization_accepted:
  assumes "ed25519_ok E" "length (sg_private_key sg) = 32" "connectome_run E s" "py_wf (VDict m)"
    and "build_connectome_authorization E m q sg s = (s', Inr auth)" "dict_find auth ''tenant_id'' = Some (VStr tn)"
    and "connectome_time (VStr (aq_valid_from q)) ''valid_from'' = Inr start" "connectome_time (VStr (aq_valid_until q)) ''valid_until'' = Inr end_time"
    and "connectome_time (VStr t) ''at_time'' = Inr now" "instant start \<le> instant now" "instant now < instant end_time"
    and A: "A = \<lparr>ac_authority_key = \<lparr>tk_key_id = sg_key_id sg, tk_public_key = signer_public_key E sg\<rparr>, ac_tenant_id = tn,
       ac_context_id = aq_compilation_context_id q, ac_at_time = t\<rparr>"
  shows "\<exists>s'' r. verify_connectome_authorization E auth m A s' = (s'', Inr r) \<and> dict_find r ''manifest_id'' = dict_find m ''manifest_id'' \<and>
    (\<forall>k \<in> {''tenant_id'', ''manifest_id'', ''authorization_id'', ''compilation_context_id''}. dict_find r k = dict_find auth k \<and> dict_find auth k \<noteq> None)"
proof -
  obtain v where v: "verify_connectome_manifest E m s = (s', Inr v)" and built: "sign_authorization_of E m q sg v = Inr auth"
    using assms(5) by (auto simp: build_connectome_authorization_def op_simps)
  obtain i where i: "claimed_manifest_id E m = Inr i" "map_of (cc_verifications s') i = Some v" using verify_stored [OF v] by blast
  have vi: "dict_find v ''manifest_id'' = Some (VStr i)" "dict_find m ''manifest_id'' = Some (VStr i)"
    using yieldsD [OF verify_yields [OF assms(4)] connectome_run_genuine [OF assms(3)] v] i(1) verified_as_id by (auto simp: claimed_id)
  obtain subsystems disposable tn' i' x start' end_time' where
    b: "canonical_subsystems subsystems = Inr subsystems" "manifest_scope m = Inr (subsystems, disposable)" "disposable \<longrightarrow> aq_allow_disposable_mutation q"
      "connectome_time (VStr (aq_valid_from q)) ''valid_from'' = Inr start'" "connectome_time (VStr (aq_valid_until q)) ''valid_until'' = Inr end_time'"
      "safe_interval start' end_time'" "dict_find v ''tenant_id'' = Some tn'" "dict_find v ''manifest_id'' = Some i'"
      "authorization_identity E auth = Inr x" "dict_find auth ''authorization_id'' = Some (VStr x)"
    and f: "\<forall>k. k \<notin> {''signature'', ''authorization_id''} \<longrightarrow> dict_find auth k =
       dict_find (authorization_core q tn' i' subsystems (sg_key_id sg) (public_key_fingerprint (signer_public_key E sg))) k"
    and sg: "sign E sg (dict_put (authorization_core q tn' i' subsystems (sg_key_id sg) (public_key_fingerprint (signer_public_key E sg))) ''authorization_id'' (VStr x)) = Inr auth"
    and ok: "schema_ok E ''connectome-authorization'' (VDict auth)"
    by (rule built_authorization [OF built])
  have tn: "tn' = VStr tn" using f assms(6) by (simp add: authorization_core_def dict_find_mk)
  have fields: "dict_find auth ''tenant_id'' = Some (VStr tn)" "dict_find auth ''manifest_id'' = Some (VStr i)" "dict_find auth ''compilation_context_id'' = Some (VStr (aq_compilation_context_id q))"
    "dict_find auth ''authority_id'' = Some (VStr (sg_key_id sg))" "dict_find auth ''authority_key_fingerprint'' = Some (VStr (public_key_fingerprint (signer_public_key E sg)))"
    "dict_find auth ''valid_from'' = Some (VStr (aq_valid_from q))" "dict_find auth ''valid_until'' = Some (VStr (aq_valid_until q))"
    "dict_find auth ''allowed_subsystems'' = Some (VList (map VStr subsystems))" "dict_find auth ''allow_disposable_mutation'' = Some (VBool (aq_allow_disposable_mutation q))"
    using f tn vi b(8) by (simp_all add: authorization_core_def dict_find_mk)
  have "authority_signed E auth (ac_authority_key A) = Inr True"
    using sign_verifies [OF assms(1,2) sg] sign_signature [OF sg] fields(4,5) by (auto simp: authority_signed_True A signature_block_def field_mk)
  moreover have texts: "texts_item (VDict auth) ''allowed_subsystems'' = Inr subsystems" using fields(8) by (simp add: res_simps)
  ultimately have "check_authorization E auth m A v = Inr (mk_dict [(''ok'', VBool True), (''authorization_id'', VStr x), (''tenant_id'', VStr tn),
              (''manifest_id'', VStr i), (''compilation_context_id'', VStr (aq_compilation_context_id q)),
              (''authority_id'', VStr (sg_key_id sg)), (''authority_key_fingerprint'', VStr (public_key_fingerprint (signer_public_key E sg))),
              (''active'', VBool True), (''allow_disposable_mutation'', VBool (aq_allow_disposable_mutation q)), (''production_authority'', VBool False)])"
    using assms(7-11) b(1-7,9,10) fields tn vi texts by (simp add: check_authorization_def A item_def)
  then show ?thesis
    using ok verify_again [OF i] vi fields b(10) by (auto simp: verified_authorization dict_find_mk)
qed

section \<open>Runs over one document of a manifest\<close>








lemma keeps_scatch [keeps_rules]: "keeps I op \<Longrightarrow> keeps I (scatch_as P e msg op)"
  by (auto simp: keeps_def scatch_as_def split: prod.splits)







section \<open>An example\<close>

text \<open>The manifest of \<open>ConnectomeExample\<close>, authorized for two hours.\<close>

definition demo_authorization_request :: authorization_request where
  "demo_authorization_request = \<lparr>aq_compilation_context_id = lit ''context:demo'', aq_allowed_subsystems = [lit ''core''], aq_allow_disposable_mutation = False,
     aq_valid_from = lit ''2026-06-01T12:00:00Z'', aq_valid_until = lit ''2026-06-01T14:00:00Z''\<rparr>"

definition demo_authority :: authorization_context where
  "demo_authority = \<lparr>ac_authority_key = \<lparr>tk_key_id = sg_key_id demo_signer, tk_public_key = signer_public_key sample_env demo_signer\<rparr>,
     ac_tenant_id = lit ''tenant:demo'', ac_context_id = lit ''context:demo'', ac_at_time = lit ''2026-06-01T12:30:00Z''\<rparr>"

lemma demo_authorization_request_times:
  "connectome_time (VStr (aq_valid_from demo_authorization_request)) ''valid_from'' = Inr \<lparr>dt_local = 63915998400000000, dt_offset = Some 0\<rparr>"
  "connectome_time (VStr (aq_valid_until demo_authorization_request)) ''valid_until'' = Inr \<lparr>dt_local = 63916005600000000, dt_offset = Some 0\<rparr>"
  "connectome_time (VStr (ac_at_time demo_authority)) ''at_time'' = Inr \<lparr>dt_local = 63916000200000000, dt_offset = Some 0\<rparr>"
  "connectome_time (vlit ''2026-06-01T13:00:00Z'') ''at_time'' = Inr \<lparr>dt_local = 63916002000000000, dt_offset = Some 0\<rparr>"
  unfolding demo_authority_def by code_simp+

lemma sample_env_signs: "ed25519_ok sample_env"
  using demo_env_ok by (simp add: ed25519_ok_def sample_env_def)

lemma demo_authorization_built:
  assumes "verify_connectome_manifest sample_env (sample_manifest i) s = (s1, Inr v)" "dict_find v ''tenant_id'' = Some (vlit ''tenant:demo'')"
    and "dict_find v ''manifest_id'' = Some (VStr i)" "encodable_text i"
  shows "\<exists>auth. build_connectome_authorization sample_env (sample_manifest i) demo_authorization_request demo_signer s = (s1, Inr auth) \<and> codable (VDict auth) \<and>
    (\<forall>k. k \<notin> {''signature'', ''authorization_id''} \<longrightarrow> dict_find auth k = dict_find (authorization_core demo_authorization_request (vlit ''tenant:demo'') (VStr i) [lit ''core''] (sg_key_id demo_signer)
       (public_key_fingerprint (signer_public_key sample_env demo_signer))) k)"
proof -
  let ?u = "authorization_core demo_authorization_request (vlit ''tenant:demo'') (VStr i) [lit ''core''] (sg_key_id demo_signer) (public_key_fingerprint (signer_public_key sample_env demo_signer))"
  have key: "encodable_text (sg_key_id demo_signer)" by code_simp
  have u: "encodable (VDict ?u)" "py_wf (VDict ?u)"
    using assms(4) key encodable_text_code_points [OF assms(4)] encodable_text_code_points [OF key] encodable_text_code_points [OF encodable_hex]
    by (simp_all add: authorization_core_def mk_dict_def demo_authorization_request_def public_key_fingerprint_def)
  have "pending ''authorization_id'' ''connectome-authorization:pending'' ?u = ?u"
    by (simp add: pending_def authorization_core_def dict_find_mk dict_put_same)
  moreover have "plain_domain ''connectome-authorization-identity-v1''" by (simp add: plain_domain_def lit_def)
  ultimately obtain h where h: "authorization_identity sample_env ?u = Inr (lit ''connectome-authorization:'' @ hex h)"
    using content_identity_encodable [OF u(1), of "''connectome-authorization-identity-v1''" sample_env "''connectome-authorization:''"]
    by (auto simp: authorization_identity_def)
  let ?d = "dict_put ?u ''authorization_id'' (VStr (lit ''connectome-authorization:'' @ hex h))"
  have d: "encodable (VDict ?d)" "py_wf (VDict ?d)"
    by (rule encodable_put [OF u(1)], simp) (rule py_wf_put [OF u(2)], simp add: encodable_text_code_points)
  obtain auth where auth: "sign sample_env demo_signer ?d = Inr auth" using sign_encodable [OF d(1)] by blast
  have scope: "manifest_scope (sample_manifest i) = Inr ([lit ''core''], False)" "canonical_subsystems [lit ''core''] = Inr [lit ''core'']"
    using sample_manifest_fields by (simp_all add: manifest_scope_def sample_capability_def field_mk text_item_def canonical_subsystems_def)
  have "starts_with (lit ''context:'') (aq_compilation_context_id demo_authorization_request)" "aq_allowed_subsystems demo_authorization_request = [lit ''core'']"
    by (simp_all add: demo_authorization_request_def starts_with_def lit_def)
  then have "sign_authorization_of sample_env (sample_manifest i) demo_authorization_request demo_signer v = Inr auth"
    using scope h auth assms(2,3) demo_authorization_request_times
    by (simp add: sign_authorization_of_def item_def safe_interval_def max_connectome_authorization_seconds_def instant_def validate_def) (simp add: sample_env_def)
  then have "build_connectome_authorization sample_env (sample_manifest i) demo_authorization_request demo_signer s = (s1, Inr auth)"
    using assms(1) by (simp add: build_connectome_authorization_def op_simps)
  moreover have "codable (VDict auth)" by (rule encodable_codable [OF signed_encodable(1) [OF auth d key]])
  moreover have "\<forall>k. k \<notin> {''signature'', ''authorization_id''} \<longrightarrow> dict_find auth k = dict_find ?u k"
    by (auto simp: sign_fields [OF auth] dict_find_put)
  ultimately show ?thesis by blast
qed

lemma demo_bundle:
  "\<exists>i s auth s' bundle. py_wf (VDict (sample_manifest i)) \<and> connectome_run sample_env s \<and>
     compile_authorized_connectome_manifest sample_env (sample_manifest i) auth demo_authority s = (s', Inr bundle) \<and>
     dict_find auth ''valid_from'' = Some (VStr (aq_valid_from demo_authorization_request)) \<and> dict_find auth ''valid_until'' = Some (VStr (aq_valid_until demo_authorization_request)) \<and>
     build_connectome_authorization sample_env (sample_manifest i) demo_authorization_request demo_signer no_caches = (s, Inr auth) \<and> dict_find auth ''tenant_id'' = Some (vlit ''tenant:demo'')"
proof -
  obtain i s0 c where wf: "py_wf (VDict (sample_manifest i))" and c: "compile_connectome_manifest sample_env (sample_manifest i) no_caches = (s0, Inr c)"
    using sample_compiled by blast
  let ?m = "sample_manifest i"
  from c obtain s1 v x where v: "claimed_manifest_id sample_env ?m = Inr i" "verify_connectome_manifest sample_env ?m no_caches = (s1, Inr v)" "compile_content sample_env ?m v = Inr c"
    "text_item (VDict c) ''manifest_id'' = Inr x"
    by (cases rule: compile_runs) (use sample_manifest_fields(4) in \<open>auto simp: no_caches_def claimed_id res_simps\<close>)
  have run: "connectome_run sample_env s1" using run_verify [OF run_start [of sample_env] wf] v(2) by (simp add: no_caches_def)
  from v(2) have s1: "verify_manifest_content sample_env ?m = Inr v" "cc_compilations s1 = []"
    by (cases rule: verify_runs; simp add: no_caches_def)+
  have vf: "dict_find v ''tenant_id'' = Some (vlit ''tenant:demo'')" "dict_find v ''manifest_id'' = Some (VStr i)"
    using sample_verified [of i] s1(1) verified_id [OF s1(1)] v(1) by (auto simp: claimed_id)
  have "encodable_text i" using v(1) digest_object_text by (auto simp: claimed_id connectome_manifest_digest_def)
  then obtain auth where auth: "build_connectome_authorization sample_env ?m demo_authorization_request demo_signer no_caches = (s1, Inr auth)" "codable (VDict auth)"
    and f: "\<forall>k. k \<notin> {''signature'', ''authorization_id''} \<longrightarrow> dict_find auth k = dict_find (authorization_core demo_authorization_request (vlit ''tenant:demo'') (VStr i) [lit ''core''] (sg_key_id demo_signer)
       (public_key_fingerprint (signer_public_key sample_env demo_signer))) k"
    using demo_authorization_built [OF v(2) vf] by blast
  have fields: "dict_find auth ''tenant_id'' = Some (vlit ''tenant:demo'')" "dict_find auth ''valid_from'' = Some (VStr (aq_valid_from demo_authorization_request))"
    "dict_find auth ''valid_until'' = Some (VStr (aq_valid_until demo_authorization_request))"
    using f by (simp_all add: authorization_core_def dict_find_mk)
  have "\<exists>s2 r. verify_connectome_authorization sample_env auth ?m demo_authority s1 = (s2, Inr r) \<and> dict_find r ''manifest_id'' = dict_find ?m ''manifest_id'' \<and>
    (\<forall>k \<in> {''tenant_id'', ''manifest_id'', ''authorization_id'', ''compilation_context_id''}. dict_find r k = dict_find auth k \<and> dict_find auth k \<noteq> None)"
    by (rule built_authorization_accepted [OF sample_env_signs demo_signer_length run_start [folded no_caches_def] wf auth(1) fields(1) demo_authorization_request_times(1-3)])
      (simp_all add: instant_def demo_authority_def demo_authorization_request_def)
  then obtain s2 r where r: "verify_connectome_authorization sample_env auth ?m demo_authority s1 = (s2, Inr r)"
    "\<forall>k \<in> {''tenant_id'', ''manifest_id'', ''authorization_id'', ''compilation_context_id''}. dict_find r k = dict_find auth k \<and> dict_find auth k \<noteq> None" by blast
  have "map_of (cc_verifications s1) i = Some v" using verify_stored [OF v(2)] v(1) by auto
  note again = verify_again [OF v(1) this]
  then have s2: "s2 = cc_verifications_update (move_to_end i) s1" using r(1) by (auto simp: verified_authorization)
  have "map_of (cc_verifications s2) i = Some v" using verify_stored [OF v(2)] v(1) by (auto simp: s2 lru.get_touch)
  note again2 = verify_again [OF v(1) this]
  have compiled: "\<exists>s3. compile_connectome_manifest sample_env ?m s2 = (s3, Inr c)"
    using v(1,3,4) again2 s1(2) by (simp add: compile_connectome_manifest_def cached_compilation_run cache_compilation_def sbind_apply s2)
  have "\<exists>bundle. bundle_of sample_env auth r c = Inr bundle"
  proof -
    obtain t j a k where rf: "dict_find r ''tenant_id'' = Some t" "dict_find r ''manifest_id'' = Some j" "dict_find r ''authorization_id'' = Some a"
      "dict_find r ''compilation_context_id'' = Some k" "codable t" "codable j" "codable a" "codable k"
      using r(2) codable_find [OF auth(2)] by fastforce
    obtain y g where cf: "dict_find c ''compilation_id'' = Some y" "dict_find c ''graph_id'' = Some g" "codable (VDict c)"
      by (rule compiled_content [OF v(3)]) auto
    let ?core = "mk_dict ([(''protocol'', vlit ''integrity-guardian/connectome-authorized-compilation/v1''), (''tenant_id'', t), (''manifest_id'', j),
      (''authorization_id'', a), (''compilation_context_id'', k), (''compilation_id'', y), (''graph_id'', g), (''authorization'', VDict auth),
      (''compilation'', VDict c), (''control_plane_calls'', VDict zero_calls), (''invariants'', VDict authorized_invariants)])"
    have "codable (VDict ?core)"
      using rf(5-8) cf auth(2) codable_find [OF cf(3,1)] codable_find [OF cf(3,2)]
      by (simp add: zero_calls_def authorized_invariants_def quote_encodable nat_digits.simps max_str_digits_def)
    moreover have "plain_domain ''connectome-authorized-compilation-v1''" by (simp add: plain_domain_def lit_def)
    ultimately obtain x where "digest_object sample_env (VDict ?core) (lit ''connectome-authorized-compilation-v1'') = Inr x" using codable_digest_object by blast
    then show ?thesis using rf cf by (simp add: bundle_of_def copy_fields_def item_def validate_def) (simp add: sample_env_def)
  qed
  then show ?thesis using wf run r(1) compiled fields auth(1)
    by (fastforce simp: compile_authorized_connectome_manifest_def op_simps)
qed

section \<open>Properties\<close>

text \<open>
  C28. A manifest is compiled under authority only when the authority is established: the trusted key
  verified the authorization, which is for this manifest, tenant and replay context, active at the
  given time and valid for at most a day, names every subsystem of the manifest and allows its
  disposable mutations; the bundle then holds that authorization and a compilation of that manifest.
\<close>

theorem compiled_only_under_authority:
  assumes "connectome_run E s" "py_wf (VDict m)" "compile_authorized_connectome_manifest E m auth A s = (s', Inr bundle)"
  shows "\<exists>i c. claimed_manifest_id E m = Inr i \<and> authority_covers E auth m A i \<and>
    verify_signature E auth (tk_public_key (ac_authority_key A)) = Inr True \<and>
    dict_find bundle ''authorization'' = Some (VDict auth) \<and> dict_find bundle ''compilation'' = Some (VDict c) \<and> compiled_as E i c \<and>
    dict_find bundle ''manifest_id'' = Some (VStr i) \<and> connectome_run E s'"
proof -
  obtain s1 v r c where a: "verify_connectome_manifest E m s = (s1, Inr v)" "check_authorization E auth m A v = Inr r"
    "compile_connectome_manifest E m s1 = (s', Inr c)" "bundle_of E auth r c = Inr bundle"
    by (rule authorized_runs [OF assms(3)])
  have s1: "connectome_run E s1" using run_verify [OF assms(1,2)] a(1) by simp
  obtain i where i: "claimed_manifest_id E m = Inr i" "verified_as E i v"
    using yieldsD [OF verify_yields [OF assms(2)] connectome_run_genuine [OF assms(1)] a(1)] by blast
  have c: "compiled_as E i c"
    using yieldsD [OF compile_yields [OF assms(2)] connectome_run_genuine [OF s1] a(3)] i(1) by auto
  have covers: "authority_covers E auth m A i" by (rule checked_authorization [OF a(2) verified_as_id [OF i(2)]])
  have r: "dict_find r ''manifest_id'' = dict_find auth ''manifest_id''"
    using a(2) unfolding check_authorization_def by (auto simp: res_simps dict_find_mk)
  have b: "dict_find bundle ''authorization'' = Some (VDict auth)" "dict_find bundle ''compilation'' = Some (VDict c)" "dict_find bundle ''manifest_id'' = dict_find r ''manifest_id''"
    by (rule bundled [OF a(4)], simp)+
  show ?thesis using i(1) c covers b r compile_run [OF s1 assms(2) a(3)] by (auto simp: authority_covers_def authority_signed_True)
qed

theorem compiled_only_under_authority_witness:
  "\<exists>m auth s s' bundle i. compile_authorized_connectome_manifest sample_env m auth demo_authority s = (s', Inr bundle) \<and>
     authority_covers sample_env auth m demo_authority i"
proof -
  obtain i s auth s' made where b: "py_wf (VDict (sample_manifest i))" "connectome_run sample_env s"
    "compile_authorized_connectome_manifest sample_env (sample_manifest i) auth demo_authority s = (s', Inr made)" using demo_bundle by blast
  from compiled_only_under_authority [OF b(2,1,3)] b(3) show ?thesis by blast
qed



text \<open>
  An authorization that the authority's signer built for a manifest is accepted for that manifest by
  whoever trusts the signer's key, at every moment of its period.
\<close>

theorem authorization_roundtrip:
  assumes "ed25519_ok E" "length (sg_private_key sg) = 32" "connectome_run E s" "py_wf (VDict m)"
    and "build_connectome_authorization E m q sg s = (s', Inr auth)" "dict_find auth ''tenant_id'' = Some (VStr tn)"
    and "connectome_time (VStr (aq_valid_from q)) ''valid_from'' = Inr start" "connectome_time (VStr (aq_valid_until q)) ''valid_until'' = Inr end_time"
    and "connectome_time (VStr t) ''at_time'' = Inr now" "instant start \<le> instant now" "instant now < instant end_time"
    and "A = \<lparr>ac_authority_key = \<lparr>tk_key_id = sg_key_id sg, tk_public_key = signer_public_key E sg\<rparr>, ac_tenant_id = tn,
       ac_context_id = aq_compilation_context_id q, ac_at_time = t\<rparr>"
  shows "\<exists>s'' r. verify_connectome_authorization E auth m A s' = (s'', Inr r) \<and> dict_find r ''manifest_id'' = dict_find m ''manifest_id''"
  using built_authorization_accepted [OF assms] by blast

theorem authorization_roundtrip_witness:
  "\<exists>m auth s s' r. build_connectome_authorization sample_env m demo_authorization_request demo_signer no_caches = (s, Inr auth) \<and>
     verify_connectome_authorization sample_env auth m demo_authority s = (s', Inr r)"
proof -
  obtain i s auth where b: "py_wf (VDict (sample_manifest i))" "build_connectome_authorization sample_env (sample_manifest i) demo_authorization_request demo_signer no_caches = (s, Inr auth)"
    "dict_find auth ''tenant_id'' = Some (vlit ''tenant:demo'')" using demo_bundle by blast
  have "\<exists>s'' r. verify_connectome_authorization sample_env auth (sample_manifest i) demo_authority s = (s'', Inr r) \<and> dict_find r ''manifest_id'' = dict_find (sample_manifest i) ''manifest_id''"
    by (rule authorization_roundtrip [OF sample_env_signs demo_signer_length run_start [folded no_caches_def] b(1,2,3) demo_authorization_request_times(1-3)])
      (simp_all add: instant_def demo_authority_def demo_authorization_request_def)
  then show ?thesis using b(2) by blast
qed

end
