(* ===== verification/Handoff.thy ===== *)
theory Handoff
  imports Identity
begin

text \<open>
  \<open>agent_handoff.py\<close>: evidence for handing a module from one agent to the next. The predecessor
  signs a checkpoint, the successor signs an acknowledgement of exactly that checkpoint; neither
  transfers a lease, and verification never claims that a handoff was committed.
\<close>

definition handoff_time :: "pyval \<Rightarrow> datetime res" where
  "handoff_time = parse_aware False AgentHandoffError '''' ''handoff timestamp requires a timezone''"

definition handoff_identity :: "env \<Rightarrow> string \<Rightarrow> string \<Rightarrow> string \<Rightarrow> pydict \<Rightarrow> ustring res" where
  "handoff_identity E fld pre domain document =
     ebind (field (dict_pop document ''signature'') fld) (\<lambda>actual.
     ebind (content_identity E pre domain (pending fld (pre @ ''pending'') document)) (\<lambda>expected.
     ensure (actual = VStr expected) AgentHandoffError (fld @ '' identity mismatch'') (Inr expected)))"

section \<open>Checkpoints\<close>

text \<open>The keyword arguments of the builder.\<close>

record handoff_request =
  hr_tenant_id :: ustring
  hr_module_id :: ustring
  hr_predecessor_agent_id :: ustring
  hr_predecessor_generation :: int
  hr_predecessor_lease_id :: ustring
  hr_predecessor_head_id :: ustring
  hr_predecessor_head_digest :: ustring
  hr_successor_agent_id :: ustring
  hr_successor_key_id :: ustring
  hr_successor_generation :: int
  hr_snapshot_digest :: ustring
  hr_event_cursor :: int
  hr_outstanding_work_digest :: ustring
  hr_created_at :: ustring
  hr_expires_at :: ustring

definition handoff_checkpoint_core :: "handoff_request \<Rightarrow> ustring \<Rightarrow> pydict" where
  "handoff_checkpoint_core q predecessor_key_id = mk_dict [
     (''protocol'', vlit ''integrity-guardian/module-agent-handoff-checkpoint/v1''),
     (''checkpoint_id'', vlit ''handoff-checkpoint:pending''),
     (''tenant_id'', VStr (hr_tenant_id q)), (''module_id'', VStr (hr_module_id q)),
     (''predecessor_agent_id'', VStr (hr_predecessor_agent_id q)), (''predecessor_key_id'', VStr predecessor_key_id),
     (''predecessor_generation'', VInt (hr_predecessor_generation q)), (''predecessor_lease_id'', VStr (hr_predecessor_lease_id q)),
     (''predecessor_head_id'', VStr (hr_predecessor_head_id q)), (''predecessor_head_digest'', VStr (hr_predecessor_head_digest q)),
     (''successor_agent_id'', VStr (hr_successor_agent_id q)), (''successor_key_id'', VStr (hr_successor_key_id q)),
     (''successor_generation'', VInt (hr_successor_generation q)), (''snapshot_digest'', VStr (hr_snapshot_digest q)),
     (''event_cursor'', VInt (hr_event_cursor q)), (''outstanding_work_digest'', VStr (hr_outstanding_work_digest q)),
     (''created_at'', VStr (hr_created_at q)), (''expires_at'', VStr (hr_expires_at q)), (''production_authority'', VBool False)]"

definition build_module_agent_handoff_checkpoint :: "env \<Rightarrow> handoff_request \<Rightarrow> ed25519_signer \<Rightarrow> pydict res" where
  "build_module_agent_handoff_checkpoint E q predecessor_signer =
     ensure (\<not> hr_successor_generation q \<le> hr_predecessor_generation q) AgentHandoffError ''successor generation must advance the chain''
     (ebind (handoff_time (VStr (hr_created_at q))) (\<lambda>created.
      ebind (handoff_time (VStr (hr_expires_at q))) (\<lambda>expires.
      ensure (\<not> instant expires \<le> instant created) AgentHandoffError ''handoff checkpoint validity interval is not positive''
      (let unsigned_doc = handoff_checkpoint_core q (sg_key_id predecessor_signer) in
       ebind (content_identity E ''handoff-checkpoint:'' ''module-agent-handoff-checkpoint-identity-v1'' unsigned_doc) (\<lambda>identity.
       ebind (sign E predecessor_signer (dict_put unsigned_doc ''checkpoint_id'' (VStr identity))) (\<lambda>checkpoint.
       ebind (validate E ''module-agent-handoff-checkpoint'' (VDict checkpoint)) (\<lambda>_. Inr checkpoint)))))))"

text \<open>The document names this key, its signature is by this key, and the signature verifies.\<close>

definition handoff_signed_by :: "env \<Rightarrow> pydict \<Rightarrow> string \<Rightarrow> trusted_key \<Rightarrow> bool res" where
  "handoff_signed_by E document key_field key =
     ebind (field document key_field) (\<lambda>named.
     if named \<noteq> VStr (tk_key_id key) then Inr False
     else ebind (field document ''signature'') (\<lambda>signature.
          ebind (item signature ''key_id'') (\<lambda>key_id.
          if key_id \<noteq> VStr (tk_key_id key) then Inr False else verify_signature E document (tk_public_key key))))"

definition verify_module_agent_handoff_checkpoint :: "env \<Rightarrow> pydict \<Rightarrow> trusted_key \<Rightarrow> ustring \<Rightarrow> pydict res" where
  "verify_module_agent_handoff_checkpoint E checkpoint predecessor_key at_time =
     ebind (validate E ''module-agent-handoff-checkpoint'' (VDict checkpoint)) (\<lambda>_.
     ebind (handoff_signed_by E checkpoint ''predecessor_key_id'' predecessor_key) (\<lambda>accepted.
     ensure accepted AgentHandoffError ''handoff checkpoint signature rejected''
     (ebind (handoff_identity E ''checkpoint_id'' ''handoff-checkpoint:'' ''module-agent-handoff-checkpoint-identity-v1'' checkpoint) (\<lambda>checkpoint_id.
      ebind (ebind (field checkpoint ''created_at'') handoff_time) (\<lambda>created.
      ebind (ebind (field checkpoint ''expires_at'') handoff_time) (\<lambda>expires.
      ebind (handoff_time (VStr at_time)) (\<lambda>now.
      ensure (\<not> instant expires \<le> instant created) AgentHandoffError ''handoff checkpoint validity interval is not positive''
      (ensure (instant created \<le> instant now \<and> instant now < instant expires) AgentHandoffError ''handoff checkpoint is not current''
      (ebind (int_item (VDict checkpoint) ''successor_generation'') (\<lambda>successor_generation.
       ebind (int_item (VDict checkpoint) ''predecessor_generation'') (\<lambda>predecessor_generation.
       ensure (\<not> successor_generation \<le> predecessor_generation) AgentHandoffError ''successor generation does not advance the chain''
       (ebind (field checkpoint ''tenant_id'') (\<lambda>tenant_id.
        ebind (field checkpoint ''module_id'') (\<lambda>module_id.
        ebind (field checkpoint ''successor_agent_id'') (\<lambda>successor_agent_id.
        ebind (field checkpoint ''event_cursor'') (\<lambda>event_cursor.
        Inr (mk_dict [(''ok'', VBool True), (''checkpoint_id'', VStr checkpoint_id), (''tenant_id'', tenant_id), (''module_id'', module_id),
          (''successor_agent_id'', successor_agent_id), (''successor_generation'', VInt successor_generation), (''event_cursor'', event_cursor),
          (''freshness'', vlit ''UNPROVEN''), (''commit_status'', vlit ''NOT_ATTEMPTED''), (''production_authority'', VBool False)])))))))))))))))))"

section \<open>Acknowledgements\<close>

definition checkpoint_digest :: "env \<Rightarrow> pydict \<Rightarrow> ustring res" where
  "checkpoint_digest E checkpoint = digest_object E (VDict checkpoint) (lit ''module-agent-handoff-checkpoint-reference-v1'')"

definition acknowledge_module_agent_handoff ::
  "env \<Rightarrow> pydict \<Rightarrow> trusted_key \<Rightarrow> ed25519_signer \<Rightarrow> ustring \<Rightarrow> ustring \<Rightarrow> pydict res" where
  "acknowledge_module_agent_handoff E checkpoint predecessor_key successor_signer acknowledged_at expires_at =
     ebind (verify_module_agent_handoff_checkpoint E checkpoint predecessor_key acknowledged_at) (\<lambda>verification.
     ebind (field checkpoint ''successor_key_id'') (\<lambda>successor_key_id.
     ensure (successor_key_id = VStr (sg_key_id successor_signer)) AgentHandoffError ''successor key identity mismatch''
     (ebind (handoff_time (VStr acknowledged_at)) (\<lambda>acknowledged.
      ebind (handoff_time (VStr expires_at)) (\<lambda>expires.
      ebind (ebind (field checkpoint ''expires_at'') handoff_time) (\<lambda>limit.
      ensure (\<not> (instant expires \<le> instant acknowledged \<or> instant limit < instant expires)) AgentHandoffError
        ''successor ACK validity exceeds checkpoint''
      (ebind (copy_fields verification [''checkpoint_id'']) (\<lambda>ident.
       ebind (checkpoint_digest E checkpoint) (\<lambda>digest.
       ebind (copy_fields verification [''tenant_id'', ''module_id'']) (\<lambda>scope.
       ebind (copy_fields checkpoint [''successor_agent_id'']) (\<lambda>agent.
       ebind (copy_fields checkpoint [''successor_generation'', ''event_cursor'', ''snapshot_digest'', ''outstanding_work_digest'']) (\<lambda>bound.
       let unsigned_doc = mk_dict ([(''protocol'', vlit ''integrity-guardian/module-agent-successor-ack/v1''),
             (''ack_id'', vlit ''successor-ack:pending'')] @ ident @ [(''checkpoint_digest'', VStr digest)] @ scope @ agent @
             [(''successor_key_id'', VStr (sg_key_id successor_signer))] @ bound @
             [(''mode'', vlit ''shadow''), (''accepted'', VBool True), (''acknowledged_at'', VStr acknowledged_at),
              (''expires_at'', VStr expires_at), (''commit_status'', vlit ''NOT_ATTEMPTED''), (''production_authority'', VBool False)]) in
       ebind (content_identity E ''successor-ack:'' ''module-agent-successor-ack-identity-v1'' unsigned_doc) (\<lambda>identity.
       ebind (sign E successor_signer (dict_put unsigned_doc ''ack_id'' (VStr identity))) (\<lambda>ack.
       ebind (validate E ''module-agent-successor-ack'' (VDict ack)) (\<lambda>_. Inr ack)))))))))))))))"

text \<open>The values an acknowledgement of this checkpoint has, in the order of the comparison.\<close>

definition expected_ack :: "env \<Rightarrow> pydict \<Rightarrow> (string \<times> pyval) list res" where
  "expected_ack E checkpoint =
     ebind (copy_fields checkpoint [''checkpoint_id'']) (\<lambda>ident.
     ebind (checkpoint_digest E checkpoint) (\<lambda>digest.
     ebind (copy_fields checkpoint [''tenant_id'', ''module_id'', ''successor_agent_id'', ''successor_key_id'', ''successor_generation'',
              ''event_cursor'', ''snapshot_digest'', ''outstanding_work_digest'']) (\<lambda>bound.
     Inr (ident @ [(''checkpoint_digest'', VStr digest)] @ bound @ [(''mode'', vlit ''shadow''), (''commit_status'', vlit ''NOT_ATTEMPTED'')]))))"

fun match_fields :: "pydict \<Rightarrow> (string \<times> pyval) list \<Rightarrow> unit res" where
  "match_fields ack [] = Inr ()"
| "match_fields ack ((k, v) # rest) =
     ebind (field ack k) (\<lambda>x.
     ensure (py_eq x v) AgentHandoffError (''successor ACK '' @ k @ '' does not match checkpoint'') (match_fields ack rest))"

definition verify_module_agent_successor_ack ::
  "env \<Rightarrow> pydict \<Rightarrow> pydict \<Rightarrow> trusted_key \<Rightarrow> trusted_key \<Rightarrow> ustring \<Rightarrow> pydict res" where
  "verify_module_agent_successor_ack E checkpoint ack predecessor_key successor_key at_time =
     ebind (verify_module_agent_handoff_checkpoint E checkpoint predecessor_key at_time) (\<lambda>checkpoint_verification.
     ebind (validate E ''module-agent-successor-ack'' (VDict ack)) (\<lambda>_.
     ebind (handoff_signed_by E ack ''successor_key_id'' successor_key) (\<lambda>accepted.
     ensure accepted AgentHandoffError ''successor ACK signature rejected''
     (ebind (handoff_identity E ''ack_id'' ''successor-ack:'' ''module-agent-successor-ack-identity-v1'' ack) (\<lambda>ack_id.
      ebind (ebind (field ack ''acknowledged_at'') handoff_time) (\<lambda>acknowledged.
      ebind (ebind (field ack ''expires_at'') handoff_time) (\<lambda>expires.
      ebind (ebind (field checkpoint ''created_at'') handoff_time) (\<lambda>created.
      ebind (ebind (field checkpoint ''expires_at'') handoff_time) (\<lambda>limit.
      ensure (\<not> (instant acknowledged < instant created \<or> instant expires \<le> instant acknowledged \<or> instant limit < instant expires))
        AgentHandoffError ''successor ACK validity exceeds checkpoint''
      (ebind (handoff_time (VStr at_time)) (\<lambda>now.
       ensure (instant acknowledged \<le> instant now \<and> instant now < instant expires) AgentHandoffError ''successor ACK is not current''
       (ebind (expected_ack E checkpoint) (\<lambda>expected.
        ebind (match_fields ack expected) (\<lambda>_.
        ebind (field checkpoint_verification ''checkpoint_id'') (\<lambda>checkpoint_id.
        ebind (copy_fields ack [''tenant_id'', ''module_id'', ''successor_agent_id'', ''successor_generation'']) (\<lambda>bound.
        Inr (mk_dict ([(''ok'', VBool True), (''bindings_valid'', VBool True), (''checkpoint_id'', checkpoint_id), (''ack_id'', VStr ack_id)] @
          bound @ [(''freshness'', vlit ''UNPROVEN''), (''commit_status'', vlit ''NOT_ATTEMPTED''), (''production_authority'', VBool False)]))))))))))))))))))"

section \<open>Facts\<close>

lemma handoff_time_Inr: "handoff_time v = Inr t \<longleftrightarrow> fromisoformat v = Inr t \<and> dt_offset t \<noteq> None"
  by (simp add: handoff_time_def parse_aware_Inr)

lemma match_fields_Inr: "match_fields ack kvs = Inr () \<longleftrightarrow> (\<forall>(k, v) \<in> set kvs. \<exists>x. dict_find ack k = Some x \<and> py_eq x v)"
  by (induction ack kvs rule: match_fields.induct) (auto simp: ebind_eq_Inr ensure_eq_Inr field_Inr)

lemma handoff_signed_by_True:
  "handoff_signed_by E d k key = Inr True \<longleftrightarrow> dict_find d k = Some (VStr (tk_key_id key)) \<and>
     (\<exists>s. dict_find d ''signature'' = Some s \<and> item s ''key_id'' = Inr (VStr (tk_key_id key))) \<and> verify_signature E d (tk_public_key key) = Inr True"
  by (auto simp: handoff_signed_by_def ebind_eq_Inr field_Inr split: if_splits)

text \<open>A document signed by the holder of a private key is signed by the corresponding trusted key.\<close>

lemma sign_handoff_signed_by:
  assumes "ed25519_ok E" "length (sg_private_key sg) = 32" "sign E sg d = Inr d'" "dict_find d k = Some (VStr (sg_key_id sg))" "k \<noteq> ''signature''"
  shows "handoff_signed_by E d' k \<lparr>tk_key_id = sg_key_id sg, tk_public_key = signer_public_key E sg\<rparr> = Inr True"
  using sign_verifies [OF assms(1-3)] sign_signature [OF assms(3)] sign_fields [OF assms(3,5)] assms(4)
  by (auto simp: handoff_signed_by_True signature_block_def field_mk)

lemma handoff_identity_signed:
  assumes "content_identity E pre domain d = Inr x" "sign E sg (dict_put d fld (VStr x)) = Inr d'"
    and "dict_find d fld = Some (vlit (pre @ ''pending''))" "dict_find d ''signature'' = None" "fld \<noteq> ''signature''"
  shows "handoff_identity E fld pre domain d' = Inr x"
proof -
  have "pending fld (pre @ ''pending'') d' = d" by (rule pending_sign [OF assms(2-5)])
  moreover have "field (dict_pop d' ''signature'') fld = Inr (VStr x)"
    using assms(5) sign_fields [OF assms(2,5)] by (simp add: field_Inr dict_find_pop dict_find_put)
  ultimately show ?thesis using assms(1) by (simp add: handoff_identity_def)
qed

definition live_checkpoint :: "pydict \<Rightarrow> datetime \<Rightarrow> datetime \<Rightarrow> int \<Rightarrow> int \<Rightarrow> bool" where
  "live_checkpoint cp created expires old_generation new_generation \<longleftrightarrow>
     (\<exists>c e. dict_find cp ''created_at'' = Some c \<and> handoff_time c = Inr created \<and> dict_find cp ''expires_at'' = Some e \<and> handoff_time e = Inr expires) \<and>
     dict_find cp ''predecessor_generation'' = Some (VInt old_generation) \<and> dict_find cp ''successor_generation'' = Some (VInt new_generation) \<and>
     old_generation < new_generation"

lemma verified_checkpoint:
  assumes "verify_module_agent_handoff_checkpoint E cp key at = Inr r"
  obtains created expires now old_generation new_generation where
    "handoff_signed_by E cp ''predecessor_key_id'' key = Inr True" "live_checkpoint cp created expires old_generation new_generation"
    "handoff_time (VStr at) = Inr now" "instant created \<le> instant now" "instant now < instant expires"
proof -
  have "\<exists>created expires now old_generation new_generation.
      handoff_signed_by E cp ''predecessor_key_id'' key = Inr True \<and> live_checkpoint cp created expires old_generation new_generation \<and>
      handoff_time (VStr at) = Inr now \<and> instant created \<le> instant now \<and> instant now < instant expires"
    using assms unfolding verify_module_agent_handoff_checkpoint_def live_checkpoint_def
    by (auto simp: ebind_eq_Inr ensure_eq_Inr int_item_Inr field_Inr not_le)
  then show ?thesis using that by blast
qed

text \<open>Verification depends on the time only through the period of the checkpoint.\<close>

lemma checkpoint_later:
  assumes "verify_module_agent_handoff_checkpoint E cp key at = Inr r"
    and "live_checkpoint cp created expires old_generation new_generation"
    and "handoff_time (VStr at') = Inr now" "instant created \<le> instant now" "instant now < instant expires"
  shows "verify_module_agent_handoff_checkpoint E cp key at' = Inr r"
  using assms unfolding verify_module_agent_handoff_checkpoint_def live_checkpoint_def
  by (auto simp: ebind_eq_Inr ensure_eq_Inr field_Inr)

lemma verified_ack:
  assumes "verify_module_agent_successor_ack E cp ack pk sk at = Inr r"
  obtains created limit acknowledged expires now a e expected old_generation new_generation v where
    "verify_module_agent_handoff_checkpoint E cp pk at = Inr v" "handoff_signed_by E ack ''successor_key_id'' sk = Inr True"
    "live_checkpoint cp created limit old_generation new_generation"
    "dict_find ack ''acknowledged_at'' = Some a" "handoff_time a = Inr acknowledged" "dict_find ack ''expires_at'' = Some e" "handoff_time e = Inr expires"
    "handoff_time (VStr at) = Inr now" "instant created \<le> instant acknowledged" "instant acknowledged \<le> instant now" "instant now < instant expires"
    "instant expires \<le> instant limit" "expected_ack E cp = Inr expected" "match_fields ack expected = Inr ()"
    "dict_find r ''freshness'' = Some (vlit ''UNPROVEN'')" "dict_find r ''commit_status'' = Some (vlit ''NOT_ATTEMPTED'')"
    "dict_find r ''production_authority'' = Some (VBool False)"
proof -
  obtain v a e acknowledged expires c l created limit now expected cid bound ack_id where
    s: "verify_module_agent_handoff_checkpoint E cp pk at = Inr v" "handoff_signed_by E ack ''successor_key_id'' sk = Inr True"
    and t: "dict_find ack ''acknowledged_at'' = Some a" "handoff_time a = Inr acknowledged" "dict_find ack ''expires_at'' = Some e" "handoff_time e = Inr expires"
      "dict_find cp ''created_at'' = Some c" "handoff_time c = Inr created" "dict_find cp ''expires_at'' = Some l" "handoff_time l = Inr limit"
      "handoff_time (VStr at) = Inr now"
    and i: "instant created \<le> instant acknowledged" "instant acknowledged \<le> instant now" "instant now < instant expires" "instant expires \<le> instant limit"
    and x: "expected_ack E cp = Inr expected" "match_fields ack expected = Inr ()"
    and b: "copy_fields ack [''tenant_id'', ''module_id'', ''successor_agent_id'', ''successor_generation''] = Inr bound"
    and r: "r = mk_dict ([(''ok'', VBool True), (''bindings_valid'', VBool True), (''checkpoint_id'', cid), (''ack_id'', VStr ack_id)] @
          bound @ [(''freshness'', vlit ''UNPROVEN''), (''commit_status'', vlit ''NOT_ATTEMPTED''), (''production_authority'', VBool False)])"
    using assms unfolding verify_module_agent_successor_ack_def
    by (auto simp: ebind_eq_Inr ensure_eq_Inr field_Inr not_le not_less)
  obtain created' expires' now' og ng where l: "live_checkpoint cp created' expires' og ng" by (rule verified_checkpoint [OF s(1)])
  then have l: "live_checkpoint cp created limit og ng" using t by (auto simp: live_checkpoint_def)
  have "map fst bound = [''tenant_id'', ''module_id'', ''successor_agent_id'', ''successor_generation'']" using b by (simp add: copy_fields_Inr)
  then have "map_of bound k = None" if "k \<notin> {''tenant_id'', ''module_id'', ''successor_agent_id'', ''successor_generation''}" for k
    using that unfolding map_of_eq_None_iff by (metis list.set_map list.simps(15) set_empty2 empty_set)
  then have "dict_find r ''freshness'' = Some (vlit ''UNPROVEN'')" "dict_find r ''commit_status'' = Some (vlit ''NOT_ATTEMPTED'')"
    "dict_find r ''production_authority'' = Some (VBool False)"
    by (simp_all add: r dict_find_mk map_add_def)
  then show ?thesis using that [OF s l t(1-4,9) i x] by blast
qed

lemma expected_ack_digest:
  assumes "expected_ack E cp = Inr expected" "match_fields ack expected = Inr ()"
  shows "\<exists>x. checkpoint_digest E cp = Inr x \<and> dict_find ack ''checkpoint_digest'' = Some (VStr x)"
  using assms by (auto simp: expected_ack_def ebind_eq_Inr match_fields_Inr)

section \<open>Runs\<close>

lemma built_checkpoint:
  assumes "ed25519_ok E" "length (sg_private_key sg) = 32" "build_module_agent_handoff_checkpoint E q sg = Inr cp"
  shows "\<exists>x. handoff_identity E ''checkpoint_id'' ''handoff-checkpoint:'' ''module-agent-handoff-checkpoint-identity-v1'' cp = Inr x \<and>
      dict_find cp ''checkpoint_id'' = Some (VStr x)"
    "k \<notin> {''signature'', ''checkpoint_id''} \<Longrightarrow> dict_find cp k = dict_find (handoff_checkpoint_core q (sg_key_id sg)) k"
proof -
  let ?u = "handoff_checkpoint_core q (sg_key_id sg)"
  obtain x where x: "content_identity E ''handoff-checkpoint:'' ''module-agent-handoff-checkpoint-identity-v1'' ?u = Inr x"
    and s: "sign E sg (dict_put ?u ''checkpoint_id'' (VStr x)) = Inr cp"
    using assms(3) by (auto simp: build_module_agent_handoff_checkpoint_def ebind_eq_Inr ensure_eq_Inr Let_def)
  have "handoff_identity E ''checkpoint_id'' ''handoff-checkpoint:'' ''module-agent-handoff-checkpoint-identity-v1'' cp = Inr x"
    by (rule handoff_identity_signed [OF x s]) (simp_all add: handoff_checkpoint_core_def dict_find_mk)
  moreover have "dict_find cp ''checkpoint_id'' = Some (VStr x)" by (simp add: sign_fields [OF s] dict_find_put)
  ultimately show "\<exists>x. handoff_identity E ''checkpoint_id'' ''handoff-checkpoint:'' ''module-agent-handoff-checkpoint-identity-v1'' cp = Inr x \<and>
      dict_find cp ''checkpoint_id'' = Some (VStr x)" by blast
  show "k \<notin> {''signature'', ''checkpoint_id''} \<Longrightarrow> dict_find cp k = dict_find ?u k"
    by (auto simp: sign_fields [OF s] dict_find_put)
qed

lemma made_ack:
  assumes "acknowledge_module_agent_handoff E cp pk sg at until = Inr ack"
    and "handoff_time (VStr at) = Inr acknowledged" "handoff_time (VStr until) = Inr expires"
  obtains v digest ident scope agent bound u x l limit where
    "verify_module_agent_handoff_checkpoint E cp pk at = Inr v" "dict_find cp ''successor_key_id'' = Some (VStr (sg_key_id sg))"
    "dict_find cp ''expires_at'' = Some l" "handoff_time l = Inr limit"
    "instant acknowledged < instant expires" "instant expires \<le> instant limit" "checkpoint_digest E cp = Inr digest"
    "copy_fields v [''checkpoint_id''] = Inr ident" "copy_fields v [''tenant_id'', ''module_id''] = Inr scope" "copy_fields cp [''successor_agent_id''] = Inr agent"
    "copy_fields cp [''successor_generation'', ''event_cursor'', ''snapshot_digest'', ''outstanding_work_digest''] = Inr bound"
    "u = mk_dict ([(''protocol'', vlit ''integrity-guardian/module-agent-successor-ack/v1''),
             (''ack_id'', vlit ''successor-ack:pending'')] @ ident @ [(''checkpoint_digest'', VStr digest)] @ scope @ agent @
             [(''successor_key_id'', VStr (sg_key_id sg))] @ bound @
             [(''mode'', vlit ''shadow''), (''accepted'', VBool True), (''acknowledged_at'', VStr at),
              (''expires_at'', VStr until), (''commit_status'', vlit ''NOT_ATTEMPTED''), (''production_authority'', VBool False)])"
    "content_identity E ''successor-ack:'' ''module-agent-successor-ack-identity-v1'' u = Inr x"
    "sign E sg (dict_put u ''ack_id'' (VStr x)) = Inr ack" "validate E ''module-agent-successor-ack'' (VDict ack) = Inr ()"
  using assms that unfolding acknowledge_module_agent_handoff_def Let_def
  by (auto simp: ebind_eq_Inr ensure_eq_Inr field_Inr not_le not_less)

lemma built_checkpoint_core:
  assumes "ed25519_ok E" "length (sg_private_key sg) = 32" "build_module_agent_handoff_checkpoint E q sg = Inr cp"
  shows "dict_find cp ''tenant_id'' = Some (VStr (hr_tenant_id q))" "dict_find cp ''module_id'' = Some (VStr (hr_module_id q))"
    "dict_find cp ''successor_agent_id'' = Some (VStr (hr_successor_agent_id q))" "dict_find cp ''successor_generation'' = Some (VInt (hr_successor_generation q))"
    "dict_find cp ''predecessor_generation'' = Some (VInt (hr_predecessor_generation q))" "dict_find cp ''successor_key_id'' = Some (VStr (hr_successor_key_id q))"
    "dict_find cp ''event_cursor'' = Some (VInt (hr_event_cursor q))" "dict_find cp ''snapshot_digest'' = Some (VStr (hr_snapshot_digest q))"
    "dict_find cp ''outstanding_work_digest'' = Some (VStr (hr_outstanding_work_digest q))"
    "dict_find cp ''created_at'' = Some (VStr (hr_created_at q))" "dict_find cp ''expires_at'' = Some (VStr (hr_expires_at q))"
  by (simp_all add: built_checkpoint(2) [OF assms] handoff_checkpoint_core_def dict_find_mk)

text \<open>A built checkpoint is accepted throughout its period.\<close>

lemma built_checkpoint_verifies:
  assumes "ed25519_ok E" "length (sg_private_key sg) = 32" "build_module_agent_handoff_checkpoint E q sg = Inr cp"
    and "handoff_time (VStr (hr_created_at q)) = Inr created" "handoff_time (VStr (hr_expires_at q)) = Inr expires" "handoff_time (VStr at) = Inr now"
    and "instant created \<le> instant now" "instant now < instant expires"
  shows "\<exists>v x. verify_module_agent_handoff_checkpoint E cp \<lparr>tk_key_id = sg_key_id sg, tk_public_key = signer_public_key E sg\<rparr> at = Inr v \<and>
    dict_find cp ''checkpoint_id'' = Some (VStr x) \<and> dict_find v ''checkpoint_id'' = Some (VStr x) \<and>
    dict_find v ''tenant_id'' = Some (VStr (hr_tenant_id q)) \<and> dict_find v ''module_id'' = Some (VStr (hr_module_id q))"
proof -
  obtain x where x: "handoff_identity E ''checkpoint_id'' ''handoff-checkpoint:'' ''module-agent-handoff-checkpoint-identity-v1'' cp = Inr x"
    "dict_find cp ''checkpoint_id'' = Some (VStr x)" using built_checkpoint(1) [OF assms(1-3)] by blast
  obtain y where s: "sign E sg (dict_put (handoff_checkpoint_core q (sg_key_id sg)) ''checkpoint_id'' (VStr y)) = Inr cp"
    and ok: "validate E ''module-agent-handoff-checkpoint'' (VDict cp) = Inr ()" and gen: "hr_predecessor_generation q < hr_successor_generation q"
    using assms(3) by (auto simp: build_module_agent_handoff_checkpoint_def ebind_eq_Inr ensure_eq_Inr Let_def)
  have "handoff_signed_by E cp ''predecessor_key_id'' \<lparr>tk_key_id = sg_key_id sg, tk_public_key = signer_public_key E sg\<rparr> = Inr True"
    by (rule sign_handoff_signed_by [OF assms(1,2) s]) (simp_all add: handoff_checkpoint_core_def dict_find_put dict_find_mk)
  then show ?thesis
    using x ok gen assms(4-8) built_checkpoint_core [OF assms(1-3)]
    by (simp add: verify_module_agent_handoff_checkpoint_def item_def int_item_def dict_find_mk)
qed

text \<open>What the acknowledgement of a built checkpoint contains.\<close>

lemma made_ack_matches:
  assumes "ed25519_ok E" "length (sg_private_key psg) = 32" "length (sg_private_key ssg) = 32"
    and build: "build_module_agent_handoff_checkpoint E q psg = Inr cp"
    and made: "acknowledge_module_agent_handoff E cp \<lparr>tk_key_id = sg_key_id psg, tk_public_key = signer_public_key E psg\<rparr> ssg at until = Inr ack"
    and times: "handoff_time (VStr at) = Inr acknowledged" "handoff_time (VStr until) = Inr expires"
  obtains x expected where
    "handoff_identity E ''ack_id'' ''successor-ack:'' ''module-agent-successor-ack-identity-v1'' ack = Inr x"
    "handoff_signed_by E ack ''successor_key_id'' \<lparr>tk_key_id = sg_key_id ssg, tk_public_key = signer_public_key E ssg\<rparr> = Inr True"
    "expected_ack E cp = Inr expected" "match_fields ack expected = Inr ()"
    "copy_fields ack [''tenant_id'', ''module_id'', ''successor_agent_id'', ''successor_generation''] =
      Inr [(''tenant_id'', VStr (hr_tenant_id q)), (''module_id'', VStr (hr_module_id q)), (''successor_agent_id'', VStr (hr_successor_agent_id q)),
        (''successor_generation'', VInt (hr_successor_generation q))]"
    "field ack ''acknowledged_at'' = Inr (VStr at)" "field ack ''expires_at'' = Inr (VStr until)" "validate E ''module-agent-successor-ack'' (VDict ack) = Inr ()"
proof -
  note core = built_checkpoint_core [OF assms(1,2) build]
  obtain v digest ident scope agent bound u x where
    v: "verify_module_agent_handoff_checkpoint E cp \<lparr>tk_key_id = sg_key_id psg, tk_public_key = signer_public_key E psg\<rparr> at = Inr v"
    and key: "dict_find cp ''successor_key_id'' = Some (VStr (sg_key_id ssg))" and dg: "checkpoint_digest E cp = Inr digest"
    and copies: "copy_fields v [''checkpoint_id''] = Inr ident" "copy_fields v [''tenant_id'', ''module_id''] = Inr scope" "copy_fields cp [''successor_agent_id''] = Inr agent"
      "copy_fields cp [''successor_generation'', ''event_cursor'', ''snapshot_digest'', ''outstanding_work_digest''] = Inr bound"
    and u: "u = mk_dict ([(''protocol'', vlit ''integrity-guardian/module-agent-successor-ack/v1''),
             (''ack_id'', vlit ''successor-ack:pending'')] @ ident @ [(''checkpoint_digest'', VStr digest)] @ scope @ agent @
             [(''successor_key_id'', VStr (sg_key_id ssg))] @ bound @
             [(''mode'', vlit ''shadow''), (''accepted'', VBool True), (''acknowledged_at'', VStr at),
              (''expires_at'', VStr until), (''commit_status'', vlit ''NOT_ATTEMPTED''), (''production_authority'', VBool False)])"
    and x: "content_identity E ''successor-ack:'' ''module-agent-successor-ack-identity-v1'' u = Inr x"
    and ack: "sign E ssg (dict_put u ''ack_id'' (VStr x)) = Inr ack" "validate E ''module-agent-successor-ack'' (VDict ack) = Inr ()"
    by (rule made_ack [OF made times]) blast
  obtain cid where cid: "dict_find v ''checkpoint_id'' = Some (VStr cid)" "dict_find cp ''checkpoint_id'' = Some (VStr cid)"
    using v built_checkpoint(1) [OF assms(1,2) build] unfolding verify_module_agent_handoff_checkpoint_def
    by (auto simp: ebind_eq_Inr ensure_eq_Inr dict_find_mk)
  have vf: "dict_find v ''tenant_id'' = Some (VStr (hr_tenant_id q))" "dict_find v ''module_id'' = Some (VStr (hr_module_id q))"
    using v core unfolding verify_module_agent_handoff_checkpoint_def by (auto simp: ebind_eq_Inr ensure_eq_Inr field_Inr dict_find_mk)
  have pieces: "ident = [(''checkpoint_id'', VStr cid)]" "scope = [(''tenant_id'', VStr (hr_tenant_id q)), (''module_id'', VStr (hr_module_id q))]"
    "agent = [(''successor_agent_id'', VStr (hr_successor_agent_id q))]"
    "bound = [(''successor_generation'', VInt (hr_successor_generation q)), (''event_cursor'', VInt (hr_event_cursor q)),
       (''snapshot_digest'', VStr (hr_snapshot_digest q)), (''outstanding_work_digest'', VStr (hr_outstanding_work_digest q))]"
    using copies cid vf core by (simp_all add: copy_fields_def item_def)
  have fields: "dict_find ack k = dict_find u k" if "k \<notin> {''signature'', ''ack_id''}" for k
    using that by (auto simp: sign_fields [OF ack(1)] dict_find_put)
  have "expected_ack E cp = Inr ([(''checkpoint_id'', VStr cid), (''checkpoint_digest'', VStr digest), (''tenant_id'', VStr (hr_tenant_id q)),
        (''module_id'', VStr (hr_module_id q)), (''successor_agent_id'', VStr (hr_successor_agent_id q)), (''successor_key_id'', VStr (sg_key_id ssg)),
        (''successor_generation'', VInt (hr_successor_generation q)), (''event_cursor'', VInt (hr_event_cursor q)),
        (''snapshot_digest'', VStr (hr_snapshot_digest q)), (''outstanding_work_digest'', VStr (hr_outstanding_work_digest q)),
        (''mode'', vlit ''shadow''), (''commit_status'', vlit ''NOT_ATTEMPTED'')])" (is "_ = Inr ?x")
    using cid core key dg by (simp add: expected_ack_def copy_fields_def item_def)
  moreover have "match_fields ack ?x = Inr ()" unfolding match_fields_Inr by (simp add: fields u pieces dict_find_mk)
  moreover have "handoff_identity E ''ack_id'' ''successor-ack:'' ''module-agent-successor-ack-identity-v1'' ack = Inr x"
    by (rule handoff_identity_signed [OF x ack(1)]) (simp_all add: u pieces dict_find_mk)
  moreover have "handoff_signed_by E ack ''successor_key_id'' \<lparr>tk_key_id = sg_key_id ssg, tk_public_key = signer_public_key E ssg\<rparr> = Inr True"
    by (rule sign_handoff_signed_by [OF assms(1,3) ack(1)]) (simp_all add: u pieces dict_find_put dict_find_mk)
  moreover have "copy_fields ack [''tenant_id'', ''module_id'', ''successor_agent_id'', ''successor_generation''] =
      Inr [(''tenant_id'', VStr (hr_tenant_id q)), (''module_id'', VStr (hr_module_id q)), (''successor_agent_id'', VStr (hr_successor_agent_id q)),
        (''successor_generation'', VInt (hr_successor_generation q))]"
    by (simp add: copy_fields_def item_def fields u pieces dict_find_mk)
  moreover have "field ack ''acknowledged_at'' = Inr (VStr at)" "field ack ''expires_at'' = Inr (VStr until)"
    by (simp_all add: field_Inr fields u pieces dict_find_mk)
  ultimately show ?thesis using that ack(2) by blast
qed

lemma handoff_run_accepted:
  assumes "ed25519_ok E" and "length (sg_private_key psg) = 32" "length (sg_private_key ssg) = 32"
    and build: "build_module_agent_handoff_checkpoint E q psg = Inr cp"
    and made: "acknowledge_module_agent_handoff E cp \<lparr>tk_key_id = sg_key_id psg, tk_public_key = signer_public_key E psg\<rparr> ssg at until = Inr ack"
    and times: "handoff_time (VStr at) = Inr acknowledged" "handoff_time (VStr until) = Inr expires" "handoff_time (VStr later) = Inr now"
      "instant acknowledged \<le> instant now" "instant now < instant expires"
  shows "\<exists>r. verify_module_agent_successor_ack E cp ack \<lparr>tk_key_id = sg_key_id psg, tk_public_key = signer_public_key E psg\<rparr>
      \<lparr>tk_key_id = sg_key_id ssg, tk_public_key = signer_public_key E ssg\<rparr> later = Inr r \<and>
    dict_find r ''successor_generation'' = Some (VInt (hr_successor_generation q)) \<and> dict_find r ''tenant_id'' = Some (VStr (hr_tenant_id q))"
proof -
  let ?pk = "\<lparr>tk_key_id = sg_key_id psg, tk_public_key = signer_public_key E psg\<rparr>"
  obtain v l limit where v: "verify_module_agent_handoff_checkpoint E cp ?pk at = Inr v"
    and lim: "dict_find cp ''expires_at'' = Some l" "handoff_time l = Inr limit" "instant expires \<le> instant limit"
    by (rule made_ack [OF made times(1,2)]) blast
  obtain created limit' n og ng where "live_checkpoint cp created limit' og ng" "handoff_time (VStr at) = Inr n" "instant created \<le> instant n"
    by (rule verified_checkpoint [OF v]) blast
  then have live: "live_checkpoint cp created limit og ng" "instant created \<le> instant acknowledged"
    using lim times(1) by (auto simp: live_checkpoint_def)
  have v': "verify_module_agent_handoff_checkpoint E cp ?pk later = Inr v"
    by (rule checkpoint_later [OF v live(1) times(3)]) (use times live lim in auto)
  obtain cid where cid: "field v ''checkpoint_id'' = Inr (VStr cid)"
    using v unfolding verify_module_agent_handoff_checkpoint_def by (auto simp: ebind_eq_Inr ensure_eq_Inr field_mk)
  obtain c where c: "field cp ''created_at'' = Inr c" "handoff_time c = Inr created" using live(1) by (auto simp: live_checkpoint_def field_Inr)
  have l: "field cp ''expires_at'' = Inr l" using lim(1) by (simp add: field_Inr)
  show ?thesis
    by (rule made_ack_matches [OF assms(1-3) build made times(1,2)])
      (use v' cid c l times lim(2,3) live(2) in \<open>simp add: verify_module_agent_successor_ack_def dict_find_mk\<close>)
qed

section \<open>An example\<close>

definition demo_handoff :: handoff_request where
  "demo_handoff = \<lparr>hr_tenant_id = lit ''tenant:a'', hr_module_id = lit ''module:m'', hr_predecessor_agent_id = lit ''agent:1'',
     hr_predecessor_generation = 1, hr_predecessor_lease_id = lit ''lease:1'', hr_predecessor_head_id = lit ''head:1'',
     hr_predecessor_head_digest = lit ''sha256:00'', hr_successor_agent_id = lit ''agent:2'', hr_successor_key_id = lit ''key:demo'',
     hr_successor_generation = 2, hr_snapshot_digest = lit ''sha256:01'', hr_event_cursor = 7, hr_outstanding_work_digest = lit ''sha256:02'',
     hr_created_at = lit ''2026-06-01T12:00:00Z'', hr_expires_at = lit ''2026-06-01T14:00:00Z''\<rparr>"

abbreviation demo_ack_at :: ustring where "demo_ack_at \<equiv> lit ''2026-06-01T12:30:00Z''"
abbreviation demo_ack_until :: ustring where "demo_ack_until \<equiv> lit ''2026-06-01T13:30:00Z''"
abbreviation demo_ack_later :: ustring where "demo_ack_later \<equiv> lit ''2026-06-01T13:00:00Z''"

lemma demo_handoff_times:
  "handoff_time (VStr (hr_created_at demo_handoff)) = Inr \<lparr>dt_local = 63915998400000000, dt_offset = Some 0\<rparr>"
  "handoff_time (VStr (hr_expires_at demo_handoff)) = Inr \<lparr>dt_local = 63916005600000000, dt_offset = Some 0\<rparr>"
  "handoff_time (VStr demo_ack_at) = Inr \<lparr>dt_local = 63916000200000000, dt_offset = Some 0\<rparr>"
  "handoff_time (VStr demo_ack_until) = Inr \<lparr>dt_local = 63916003800000000, dt_offset = Some 0\<rparr>"
  "handoff_time (VStr demo_ack_later) = Inr \<lparr>dt_local = 63916002000000000, dt_offset = Some 0\<rparr>"
  by code_simp+

lemma demo_handoff_runs:
  "\<exists>cp ack. build_module_agent_handoff_checkpoint demo_env demo_handoff demo_signer = Inr cp \<and> py_wf (VDict cp) \<and>
     acknowledge_module_agent_handoff demo_env cp demo_key demo_signer demo_ack_at demo_ack_until = Inr ack"
proof -
  let ?u = "handoff_checkpoint_core demo_handoff (sg_key_id demo_signer)"
  have enc: "encodable (VDict ?u)" "py_wf (VDict ?u)" "encodable_text (sg_key_id demo_signer)" by code_simp+
  have dom: "plain_domain ''module-agent-handoff-checkpoint-identity-v1''" "plain_domain ''module-agent-handoff-checkpoint-reference-v1''"
    "plain_domain ''module-agent-successor-ack-identity-v1''" by code_simp+
  obtain h where h: "content_identity demo_env ''handoff-checkpoint:'' ''module-agent-handoff-checkpoint-identity-v1'' ?u = Inr (lit ''handoff-checkpoint:'' @ hex h)"
    using content_identity_encodable [OF enc(1) dom(1)] by blast
  let ?d = "dict_put ?u ''checkpoint_id'' (VStr (lit ''handoff-checkpoint:'' @ hex h))"
  have d: "encodable (VDict ?d)" "py_wf (VDict ?d)"
    by (rule encodable_put [OF enc(1)], simp) (rule py_wf_put [OF enc(2)], simp add: encodable_text_code_points)
  obtain cp where s: "sign demo_env demo_signer ?d = Inr cp" using sign_encodable [OF d(1)] by blast
  note cp = signed_encodable [OF s d enc(3)]
  have build: "build_module_agent_handoff_checkpoint demo_env demo_handoff demo_signer = Inr cp"
    using h s demo_handoff_times by (simp add: build_module_agent_handoff_checkpoint_def validate_def instant_def demo_env_def)
      (simp add: demo_handoff_def)
  note core = built_checkpoint_core [OF demo_env_ok demo_signer_length build]
  obtain v x where v: "verify_module_agent_handoff_checkpoint demo_env cp demo_key demo_ack_at = Inr v"
    "dict_find v ''checkpoint_id'' = Some (VStr x)" "dict_find cp ''checkpoint_id'' = Some (VStr x)" "dict_find v ''tenant_id'' = Some (VStr (hr_tenant_id demo_handoff))"
    "dict_find v ''module_id'' = Some (VStr (hr_module_id demo_handoff))"
    using built_checkpoint_verifies [OF demo_env_ok demo_signer_length build demo_handoff_times(1-3)] by (auto simp: instant_def demo_key_eq)
  obtain g where g: "checkpoint_digest demo_env cp = Inr (lit ''sha256:'' @ hex g)"
    using digest_object_encodable [OF cp(1) dom(2)] by (auto simp: checkpoint_digest_def)
  have x: "x = lit ''handoff-checkpoint:'' @ hex h" using v(3) by (simp add: sign_fields [OF s] dict_find_put)
  let ?a = "mk_dict [(''protocol'', vlit ''integrity-guardian/module-agent-successor-ack/v1''), (''ack_id'', vlit ''successor-ack:pending''),
     (''checkpoint_id'', VStr x), (''checkpoint_digest'', VStr (lit ''sha256:'' @ hex g)), (''tenant_id'', VStr (hr_tenant_id demo_handoff)),
     (''module_id'', VStr (hr_module_id demo_handoff)), (''successor_agent_id'', VStr (hr_successor_agent_id demo_handoff)),
     (''successor_key_id'', VStr (sg_key_id demo_signer)), (''successor_generation'', VInt (hr_successor_generation demo_handoff)),
     (''event_cursor'', VInt (hr_event_cursor demo_handoff)), (''snapshot_digest'', VStr (hr_snapshot_digest demo_handoff)),
     (''outstanding_work_digest'', VStr (hr_outstanding_work_digest demo_handoff)), (''mode'', vlit ''shadow''), (''accepted'', VBool True),
     (''acknowledged_at'', VStr demo_ack_at), (''expires_at'', VStr demo_ack_until), (''commit_status'', vlit ''NOT_ATTEMPTED''), (''production_authority'', VBool False)]"
  have a: "encodable (VDict ?a)" using enc(3) by (simp add: mk_dict_def x demo_handoff_def nat_digits.simps max_str_digits_def)
  obtain k where k: "content_identity demo_env ''successor-ack:'' ''module-agent-successor-ack-identity-v1'' ?a = Inr (lit ''successor-ack:'' @ hex k)"
    using content_identity_encodable [OF a dom(3)] by blast
  have "encodable (VDict (dict_put ?a ''ack_id'' (VStr (lit ''successor-ack:'' @ hex k))))" by (rule encodable_put [OF a]) simp
  then obtain ack where "sign demo_env demo_signer (dict_put ?a ''ack_id'' (VStr (lit ''successor-ack:'' @ hex k))) = Inr ack"
    using sign_encodable by blast
  moreover have "hr_successor_key_id demo_handoff = sg_key_id demo_signer" by code_simp
  ultimately have "acknowledge_module_agent_handoff demo_env cp demo_key demo_signer demo_ack_at demo_ack_until = Inr ack"
    using v core g k demo_handoff_times
    by (simp add: acknowledge_module_agent_handoff_def copy_fields_def item_def instant_def) (simp add: validate_def demo_env_def)
  then show ?thesis using build cp(2) by blast
qed


section \<open>Properties\<close>

text \<open>
  C30. An accepted successor acknowledgement: both keys verified their documents, the generation
  advances, the acknowledgement lies within the checkpoint's period and the verification within the
  acknowledgement's, nothing is claimed to be fresh, committed or authorized; and the same
  acknowledgement is accepted with no other checkpoint, unless two given inputs collide under SHA-256.
\<close>

theorem accepted_ack_fits_one_checkpoint:
  assumes "verify_module_agent_successor_ack E cp ack pk sk at = Inr r"
  shows "verify_signature E cp (tk_public_key pk) = Inr True \<and> verify_signature E ack (tk_public_key sk) = Inr True \<and>
    (\<exists>created limit old_generation new_generation a e acknowledged expires now.
       live_checkpoint cp created limit old_generation new_generation \<and> old_generation < new_generation \<and>
       dict_find ack ''acknowledged_at'' = Some a \<and> handoff_time a = Inr acknowledged \<and>
       dict_find ack ''expires_at'' = Some e \<and> handoff_time e = Inr expires \<and> handoff_time (VStr at) = Inr now \<and>
       instant created \<le> instant acknowledged \<and> instant acknowledged \<le> instant now \<and> instant now < instant expires \<and> instant expires \<le> instant limit) \<and>
    dict_find r ''freshness'' = Some (vlit ''UNPROVEN'') \<and> dict_find r ''commit_status'' = Some (vlit ''NOT_ATTEMPTED'') \<and>
    dict_find r ''production_authority'' = Some (VBool False) \<and>
    (\<forall>cp' pk' sk' at' r'. verify_module_agent_successor_ack E cp' ack pk' sk' at' = Inr r' \<longrightarrow> py_wf (VDict cp) \<longrightarrow> py_wf (VDict cp') \<longrightarrow>
       canon (VDict cp') = canon (VDict cp) \<or>
       (\<exists>p q. digest_input E (VDict cp') (lit ''module-agent-handoff-checkpoint-reference-v1'') = Inr p \<and>
              digest_input E (VDict cp) (lit ''module-agent-handoff-checkpoint-reference-v1'') = Inr q \<and> sha256_collision p q))"
proof -
  obtain created limit acknowledged expires now a e expected og ng v where
    s: "verify_module_agent_handoff_checkpoint E cp pk at = Inr v" "handoff_signed_by E ack ''successor_key_id'' sk = Inr True"
    and l: "live_checkpoint cp created limit og ng"
    and t: "dict_find ack ''acknowledged_at'' = Some a" "handoff_time a = Inr acknowledged" "dict_find ack ''expires_at'' = Some e" "handoff_time e = Inr expires"
      "handoff_time (VStr at) = Inr now" "instant created \<le> instant acknowledged" "instant acknowledged \<le> instant now" "instant now < instant expires"
      "instant expires \<le> instant limit"
    and x: "expected_ack E cp = Inr expected" "match_fields ack expected = Inr ()"
    and r: "dict_find r ''freshness'' = Some (vlit ''UNPROVEN'')" "dict_find r ''commit_status'' = Some (vlit ''NOT_ATTEMPTED'')"
      "dict_find r ''production_authority'' = Some (VBool False)"
    by (rule verified_ack [OF assms]) blast
  have "handoff_signed_by E cp ''predecessor_key_id'' pk = Inr True" by (rule verified_checkpoint [OF s(1)])
  then have sigs: "verify_signature E cp (tk_public_key pk) = Inr True" "verify_signature E ack (tk_public_key sk) = Inr True"
    using s(2) by (auto simp: handoff_signed_by_True)
  have unique: "canon (VDict cp') = canon (VDict cp) \<or>
       (\<exists>p q. digest_input E (VDict cp') (lit ''module-agent-handoff-checkpoint-reference-v1'') = Inr p \<and>
              digest_input E (VDict cp) (lit ''module-agent-handoff-checkpoint-reference-v1'') = Inr q \<and> sha256_collision p q)"
    if other: "verify_module_agent_successor_ack E cp' ack pk' sk' at' = Inr r'" and wf: "py_wf (VDict cp)" "py_wf (VDict cp')" for cp' pk' sk' at' r'
  proof -
    obtain expected' where x': "expected_ack E cp' = Inr expected'" "match_fields ack expected' = Inr ()" by (rule verified_ack [OF other]) blast
    obtain h where "checkpoint_digest E cp = Inr h" "checkpoint_digest E cp' = Inr h"
      using expected_ack_digest [OF x] expected_ack_digest [OF x'] by auto
    then show ?thesis unfolding checkpoint_digest_def using digest_object_same [OF _ _ wf(2,1)] by blast
  qed
  have "og < ng" using l by (simp add: live_checkpoint_def)
  then show ?thesis using sigs l t r unique by blast
qed

theorem accepted_ack_fits_one_checkpoint_witness:
  "\<exists>cp ack r. verify_module_agent_successor_ack demo_env cp ack demo_key demo_key demo_ack_later = Inr r \<and>
     dict_find r ''production_authority'' = Some (VBool False)"
proof -
  obtain cp ack where b: "build_module_agent_handoff_checkpoint demo_env demo_handoff demo_signer = Inr cp"
    and a: "acknowledge_module_agent_handoff demo_env cp demo_key demo_signer demo_ack_at demo_ack_until = Inr ack" using demo_handoff_runs by blast
  obtain r where r: "verify_module_agent_successor_ack demo_env cp ack demo_key demo_key demo_ack_later = Inr r"
    using handoff_run_accepted [OF demo_env_ok demo_signer_length demo_signer_length b a [unfolded demo_key_eq] demo_handoff_times(3-5)]
    by (auto simp: instant_def demo_key_eq)
  from accepted_ack_fits_one_checkpoint [OF r] r show ?thesis by blast
qed

text \<open>
  C31. A handoff runs through: a checkpoint that the predecessor built and an acknowledgement that the
  successor made of it are accepted together at every moment from the acknowledgement until it expires.
\<close>

theorem handoff_roundtrip:
  assumes "ed25519_ok E" and "length (sg_private_key psg) = 32" "length (sg_private_key ssg) = 32"
    and build: "build_module_agent_handoff_checkpoint E q psg = Inr cp"
    and made: "acknowledge_module_agent_handoff E cp \<lparr>tk_key_id = sg_key_id psg, tk_public_key = signer_public_key E psg\<rparr> ssg at until = Inr ack"
    and times: "handoff_time (VStr at) = Inr acknowledged" "handoff_time (VStr until) = Inr expires" "handoff_time (VStr later) = Inr now"
      "instant acknowledged \<le> instant now" "instant now < instant expires"
  shows "\<exists>r. verify_module_agent_successor_ack E cp ack \<lparr>tk_key_id = sg_key_id psg, tk_public_key = signer_public_key E psg\<rparr>
      \<lparr>tk_key_id = sg_key_id ssg, tk_public_key = signer_public_key E ssg\<rparr> later = Inr r \<and>
    dict_find r ''successor_generation'' = Some (VInt (hr_successor_generation q)) \<and> dict_find r ''tenant_id'' = Some (VStr (hr_tenant_id q))"
  by (rule handoff_run_accepted [OF assms])

theorem handoff_roundtrip_witness:
  "\<exists>cp ack r. build_module_agent_handoff_checkpoint demo_env demo_handoff demo_signer = Inr cp \<and>
     acknowledge_module_agent_handoff demo_env cp demo_key demo_signer demo_ack_at demo_ack_until = Inr ack \<and>
     verify_module_agent_successor_ack demo_env cp ack demo_key demo_key demo_ack_later = Inr r"
proof -
  obtain cp ack where b: "build_module_agent_handoff_checkpoint demo_env demo_handoff demo_signer = Inr cp"
    and a: "acknowledge_module_agent_handoff demo_env cp demo_key demo_signer demo_ack_at demo_ack_until = Inr ack" using demo_handoff_runs by blast
  show ?thesis
    using handoff_roundtrip [OF demo_env_ok demo_signer_length demo_signer_length b a [unfolded demo_key_eq] demo_handoff_times(3-5)] a b
    by (auto simp: instant_def demo_key_eq)
qed

end
