(* ===== verification/Spec2Isabelle.thy ===== *)
theory Spec2Isabelle
  imports Vectors KeyLifecycle Policy Retention Shadow Response LedgerHistory IntentCustody WorkRefinement Admission ReleaseIndex ConnectomeAuthority Handoff
begin

text \<open>
  Integrity Guardian, the protocol library under \<open>src/src/integrity_guardian\<close>: evidence about
  changes on customer machines as signed, content-addressed JSON documents, kept in an
  append-only ledger, together with the policies, intents, claims and admissions that say who
  may do what. The library itself never acts on a machine; its safety is what its verifiers
  accept and what its stores keep.

  \<^bold>\<open>How the parts interact.\<close> Every document is encoded by \<open>canonical.py\<close>, identified by
  \<open>hashing.py\<close> and authenticated by \<open>signing.py\<close>, after \<open>schemas.py\<close> has accepted its shape.
  The authorization modules (\<open>key_lifecycle.py\<close>, \<open>policy.py\<close>, \<open>retention.py\<close>, \<open>shadow.py\<close>,
  \<open>response.py\<close>, \<open>reconciler.py\<close>, \<open>release.py\<close>) verify such documents and derive decisions or
  receipts. Three stores keep state in SQLite: \<open>ledger.py\<close> (events, Merkle checkpoints,
  inclusion proofs, native trust), \<open>intent_custody.py\<close> (one-use change intents, closed by the
  result of \<open>reconcile\<close>) and \<open>work_claims.py\<close> (claims on resources with fencing tokens).
  \<open>agent_identity.py\<close> and \<open>admission_clock.py\<close> name the speakers and bound their sessions,
  \<open>agent_handoff.py\<close> passes a module from one agent to the next, and \<open>synapse.py\<close> answers, for a
  verified graph of capabilities and a policy, which steps are possible and which routes lead to a
  node; \<open>connectome.py\<close> compiles such graphs from a tenant's manifest and keeps the results in two
  caches, and \<open>connectome_authorization.py\<close> does so under a signed authorization only.

  \<^bold>\<open>Theories and sources.\<close>
  \<^item> \<open>Prelude\<close>: Python text, bytes and exceptions; results, guards and \<open>try\<close> as operators;
    shared facts on lists. \<open>Sha256\<close>: the hash function on 32-bit words.
  \<^item> \<open>PyJson\<close>, \<open>Canonical\<close>, \<open>Scanner\<close>: \<open>canonical.py\<close> with what it uses of the \<open>json\<close> module
    (encodings, scanner, writer). The scanner has fuel; \<open>Scanner\<close> shows that the fuel chosen
    from the length of the text is never exhausted, so parsing is total.
  \<^item> \<open>Hashing\<close>, \<open>Vectors\<close>: \<open>hashing.py\<close> and its published vector. \<open>PyDict\<close>: dictionaries,
    equality and truth of Python values.
  \<^item> \<open>Signing\<close>: \<open>signing.py\<close> with base64url. \<open>Datetime\<close>: the part of \<open>datetime\<close> that the code
    uses. \<open>Authorization\<close>: the signing pattern shared by the authorization modules, as a
    locale with one interpretation per module. \<open>Identity\<close>: content-addressed documents.
  \<^item> \<open>KeyLifecycle\<close>, \<open>Policy\<close>, \<open>Retention\<close>, \<open>Shadow\<close>, \<open>Response\<close>, \<open>Reconciler\<close>, \<open>Release\<close>,
    \<open>Admission\<close>: the modules of those names; \<open>Release\<close> also has \<open>authority_scope.py\<close>.
    \<open>Lts\<close>: \<open>lts.py\<close> and \<open>lts_activation.py\<close>, on top of \<open>Release\<close>;
    \<open>ReleaseIndex\<close>: \<open>release_index.py\<close>. \<open>Handoff\<close>: \<open>agent_handoff.py\<close>.
  \<^item> \<open>SynapseGraph\<close> (data, graphs, scores), \<open>SynapseKernel\<close> (the class of that name),
    \<open>SynapseRoutes\<close> (its invariants), \<open>SynapseExample\<close> and \<open>SynapsePair\<close> (graphs of one and of two nodes,
    on which the witnesses run) and \<open>SynapseProperties\<close>: \<open>synapse.py\<close>.
  \<^item> \<open>Connectome\<close> (operations), \<open>ConnectomeCaches\<close> (the contract \<open>bounded_memory\<close>, runs, compiled graphs),
    \<open>ConnectomeExample\<close> and \<open>ConnectomeProperties\<close>: \<open>connectome.py\<close>, with the caches as the state of the
    operations. \<open>ConnectomeAuthority\<close>: \<open>connectome_authorization.py\<close>, with the runs \<open>sole_run\<close> of a process that
    meets a manifest in one form only.
  \<^item> \<open>Transactions\<close>: operations on a database with exceptions, connections, \<open>BEGIN\<close>, \<open>COMMIT\<close>
    and \<open>ROLLBACK\<close>, and the rules that carry invariants through them. \<open>Reread\<close>: documents
    stored in canonical form and read back.
  \<^item> \<open>Merkle\<close>, \<open>Ledger\<close>, \<open>LedgerHistory\<close>: \<open>ledger.py\<close>. \<open>IntentCustody\<close>: \<open>intent_custody.py\<close>.
    \<open>WorkClaims\<close>, \<open>WorkSafety\<close>, \<open>WorkProperties\<close>, \<open>WorkRefinement\<close>: \<open>work_claims.py\<close>.

  \<^bold>\<open>Correspondence.\<close> One definition per function or handler, with the guards in the order of
  the source. A dictionary is the list of its items in insertion order; a function that may
  raise returns an exception class with the constant part of its message, or a value. A table
  is the list of its rows, a store operation maps the contents of the database to the contents
  it leaves and its result, also where it raises. Runs of a store are inductive relations over
  all its public operations, refused calls and reopenings included. The current time is an
  argument. Copies (\<open>deepcopy\<close>) are the identity on values.

  \<^bold>\<open>What is shown.\<close>
  \<^item> Encoding: canonical bytes read back, determine the value up to the order of members, and
    parsing is total, where only a run of more than 4300 digits makes it raise something else than
    \<open>CanonicalizationError\<close>; identifiers and Merkle roots determine what they commit to unless two
    explicit inputs of SHA-256 collide; inclusion proofs are sound and complete.
  \<^item> Signatures: what signers produce is accepted; what verifiers accept was verified by the
    trusted key over the exact content.
  \<^item> Authorizations: key identifiers are never reused and transitions never replayed; policy
    bindings, retention decisions, shadow receipts, response envelopes, execution receipts and
    release manifests are accepted exactly or only under their stated conditions; a support
    track and an umbrella of released components are active only under a signed release, which binds
    the path of the release index but not its content.
  \<^item> Ledger: in every reachable state the history of each source is numbered and linked, batches
    are atomic, a checkpoint fixes the history, an append keeps the ledger verifiable, and
    native trust is permanent.
  \<^item> Intents: each intent is reserved and closed at most once; an authorized success is exactly
    what the intent announced; the consumption receipt is evidence the store returns.
  \<^item> Claims: holders of overlapping resources exclude each other, fencing tokens only grow, the
    event log verifies, and overlap is containment of paths. The contract
    \<open>registry_invariant\<close> is carried once through all operations and interpreted for exclusion,
    for the tokens, for the log, and for the refinement of an abstract table of leases.
  \<^item> Admissions: issued admissions verify and are live for at most five hours. Handoffs: a
    checkpoint and its acknowledgement are accepted together while they are current, and an
    acknowledgement fits one checkpoint only.
  \<^item> Capability graphs: a verified graph is safe; both searches end on every graph, which the loops
    as \<open>partial_function\<close> leave open and the rules \<open>route_search_rule\<close> and \<open>slice_search_rule\<close> settle
    together with their invariants; planned routes are permitted walks, and the simulation
    of such a route is the document that its walk determines; slices
    are closed and bounded.
  \<^item> Compiled manifests: in every state the caches can reach, a compilation belongs to its manifest,
    contains a safe graph without production authority, repeats what the code gives without a cache, and passes
    its verification; a compilation under authority exists only under a verified, active and
    covering authorization, and verifies throughout the period of that authorization, after evictions and restarts too.

  \<^bold>\<open>Parameters.\<close> Ed25519 of the package \<open>cryptography\<close>, the \<open>jsonschema\<close> validator and the
  Unicode tables beyond ASCII are fields of the record \<open>env\<close> (and \<open>letters\<close>). The named
  hypotheses are documented behaviour: \<open>ed25519_ok\<close> (a fresh signature verifies),
  \<open>schema_ignores_order\<close> (validation does not depend on the order of members), \<open>casefold_wf\<close>
  (case folding maps code points to code points), \<open>graph_schema_ok\<close> (an accepted graph has a
  verifier entry in every edge, as its schema demands). \<open>demo_env\<close> and \<open>sample_env\<close> satisfy them,
  and the witnesses use them.

  \<^bold>\<open>Not modelled.\<close> The recursion limit of the interpreter: parsing, validation and encoding of a value
  that is nested more deeply raise \<open>RecursionError\<close> there, and \<open>parse_json_strict\<close>, \<open>validate_value\<close> and
  \<open>canonical_bytes\<close> have no bound on the depth. Access to the file system and to operating system handles (inventories of
  releases, governance bundles, snapshots, collectors, Windows back ends), network transports,
  the command line and the tool servers; several connections at once, since \<open>BEGIN IMMEDIATE\<close>
  serialises writers; the operation ledger, whose requests contain floating-point numbers; the
  writing of activation receipts and release indexes to files and the version report; the discovery and memory modules, which build on the verifiers above; the interleaving
  of threads between the locked sections of the connectome caches; and the separate packages under \<open>src/components\<close>.
\<close>

end
